(* ===== verification/Rust_Prelude.thy ===== *)
theory Rust_Prelude
  imports Main "HOL-Library.Char_ord" "HOL-Library.List_Lexorder" "HOL-Library.Word"
begin

text \<open>
  What the components share: the part of Rust's standard library the sources use, written as
  executable functions. A \<^verbatim>\<open>&str\<close> is the list of its UTF-8 bytes (\<^typ>\<open>string\<close>, one \<^typ>\<open>char\<close>
  per byte), so \<^verbatim>\<open>str\<close>'s bytewise ordering is the lexicographic order of
  \<^verbatim>\<open>HOL-Library.List_Lexorder\<close>. A \<^verbatim>\<open>Result<T, E>\<close> is \<^verbatim>\<open>'e + 't\<close>
  with the error on the left, and \<^verbatim>\<open>?\<close> is \<^verbatim>\<open>try_bind\<close>. Integers are \<^typ>\<open>int\<close> or \<^typ>\<open>nat\<close>
  with their Rust ranges written out where a range matters; \<^verbatim>\<open>usize\<close> is 64 bits wide.
\<close>

named_theorems result_simps \<open>evaluation of the result combinators\<close>
named_theorems str_simps \<open>evaluation of the string functions\<close>

section \<open>Machine integers and bytes\<close>

type_synonym u8 = "8 word"
type_synonym bytes = "u8 list"

definition usize_max :: nat where
  "usize_max = 2 ^ 64 - 1"

definition i64_range :: "int \<Rightarrow> bool" where
  "i64_range n \<longleftrightarrow> - (2 ^ 63) \<le> n \<and> n < 2 ^ 63"

section \<open>Results\<close>

definition try_bind :: "'e + 'a \<Rightarrow> ('a \<Rightarrow> 'e + 'b) \<Rightarrow> 'e + 'b" where
  "try_bind r f = (case r of Inl e \<Rightarrow> Inl e | Inr x \<Rightarrow> f x)"

definition ok_or :: "'e \<Rightarrow> 'a option \<Rightarrow> 'e + 'a" where
  "ok_or e x = (case x of None \<Rightarrow> Inl e | Some y \<Rightarrow> Inr y)"

definition map_ok :: "('a \<Rightarrow> 'b) \<Rightarrow> 'e + 'a \<Rightarrow> 'e + 'b" where
  "map_ok f r = (case r of Inl e \<Rightarrow> Inl e | Inr x \<Rightarrow> Inr (f x))"

definition map_err :: "('e \<Rightarrow> 'f) \<Rightarrow> 'e + 'a \<Rightarrow> 'f + 'a" where
  "map_err f r = (case r of Inl e \<Rightarrow> Inl (f e) | Inr x \<Rightarrow> Inr x)"

definition is_ok :: "'e + 'a \<Rightarrow> bool" where
  "is_ok r = (case r of Inl _ \<Rightarrow> False | Inr _ \<Rightarrow> True)"

definition unwrap_or :: "'a \<Rightarrow> 'a option \<Rightarrow> 'a" where
  "unwrap_or d x = (case x of None \<Rightarrow> d | Some y \<Rightarrow> y)"

definition option_filter :: "('a \<Rightarrow> bool) \<Rightarrow> 'a option \<Rightarrow> 'a option" where
  "option_filter p x = (case x of Some y \<Rightarrow> if p y then Some y else None | None \<Rightarrow> None)"

lemma try_bind_simps [simp, result_simps]:
  "try_bind (Inl e) f = Inl e"
  "try_bind (Inr x) f = f x"
  by (simp_all add: try_bind_def)

lemma ok_or_simps [simp, result_simps]:
  "ok_or e None = Inl e"
  "ok_or e (Some x) = Inr x"
  by (simp_all add: ok_or_def)

lemma map_ok_simps [simp, result_simps]:
  "map_ok f (Inl e) = Inl e"
  "map_ok f (Inr x) = Inr (f x)"
  by (simp_all add: map_ok_def)

lemma map_err_simps [simp, result_simps]:
  "map_err f (Inl e) = Inl (f e)"
  "map_err f (Inr x) = Inr x"
  by (simp_all add: map_err_def)

lemma is_ok_simps [simp, result_simps]:
  "is_ok (Inl e) = False"
  "is_ok (Inr x) = True"
  by (simp_all add: is_ok_def)

lemma unwrap_or_simps [simp, result_simps]:
  "unwrap_or d None = d"
  "unwrap_or d (Some x) = x"
  by (simp_all add: unwrap_or_def)

lemma option_filter_simps [simp, result_simps]:
  "option_filter p None = None"
  "option_filter p (Some x) = (if p x then Some x else None)"
  by (simp_all add: option_filter_def)

lemma try_bind_Inr_iff: "try_bind r f = Inr y \<longleftrightarrow> (\<exists>x. r = Inr x \<and> f x = Inr y)"
  by (cases r) auto

lemma map_err_Inr_iff [simp]: "map_err f r = Inr y \<longleftrightarrow> r = Inr y"
  by (cases r) (simp_all add: map_err_def)

lemma map_ok_Inr_iff: "map_ok f r = Inr y \<longleftrightarrow> (\<exists>x. r = Inr x \<and> y = f x)"
  by (cases r) auto

lemma ok_or_Inr_iff: "ok_or e x = Inr y \<longleftrightarrow> x = Some y"
  by (cases x) auto

lemma is_ok_iff: "is_ok r \<longleftrightarrow> (\<exists>x. r = Inr x)"
  by (cases r) auto

section \<open>Fallible steps\<close>

text \<open>\<^verbatim>\<open>?\<close> on a call that changes the state: an error returns with the state reached so far.\<close>

definition and_then :: "('e + 'a) \<times> 'w \<Rightarrow> ('a \<Rightarrow> 'w \<Rightarrow> ('e + 'b) \<times> 'w) \<Rightarrow> ('e + 'b) \<times> 'w" where
  "and_then m f = (case fst m of Inl e \<Rightarrow> (Inl e, snd m) | Inr a \<Rightarrow> f a (snd m))"

lemma and_then_simps [simp]:
  "and_then (Inl e, w) f = (Inl e, w)"
  "and_then (Inr a, w) f = f a w"
  by (simp_all add: and_then_def)

lemma and_then_state:
  assumes "P (snd m)" and "\<And>a w. fst m = Inr a \<Longrightarrow> P w \<Longrightarrow> P (snd (f a w))"
  shows "P (snd (and_then m f))"
  using assms by (cases "fst m") (simp_all add: and_then_def)

section \<open>Strings\<close>

text \<open>\<^verbatim>\<open>str::strip_prefix\<close>, \<^verbatim>\<open>str::starts_with\<close> and \<^verbatim>\<open>str::ends_with(char)\<close>.\<close>

fun str_strip_prefix :: "string \<Rightarrow> string \<Rightarrow> string option" where
  "str_strip_prefix [] s = Some s"
| "str_strip_prefix (p # ps) [] = None"
| "str_strip_prefix (p # ps) (c # cs) = (if p = c then str_strip_prefix ps cs else None)"

definition str_starts_with :: "string \<Rightarrow> string \<Rightarrow> bool" where
  "str_starts_with p s \<longleftrightarrow> str_strip_prefix p s \<noteq> None"

definition str_ends_with_char :: "char \<Rightarrow> string \<Rightarrow> bool" where
  "str_ends_with_char c s \<longleftrightarrow> s \<noteq> [] \<and> last s = c"

lemma str_strip_prefix_Some_iff: "str_strip_prefix p s = Some r \<longleftrightarrow> s = p @ r"
  by (induction p s rule: str_strip_prefix.induct) auto

lemma str_strip_prefix_append [simp]: "str_strip_prefix p (p @ r) = Some r"
  by (simp add: str_strip_prefix_Some_iff)

lemma str_strip_prefix_None_iff: "str_strip_prefix p s = None \<longleftrightarrow> (\<forall>r. s \<noteq> p @ r)"
  by (metis not_Some_eq str_strip_prefix_Some_iff)

lemma str_starts_with_iff: "str_starts_with p s \<longleftrightarrow> (\<exists>r. s = p @ r)"
  by (auto simp: str_starts_with_def str_strip_prefix_None_iff)

lemma str_starts_with_append [simp]: "str_starts_with p (p @ r)"
  by (auto simp: str_starts_with_iff)

text \<open>What follows the first occurrence of a text: \<^verbatim>\<open>find(p)\<close> and the slice after it.\<close>

fun str_after :: "string \<Rightarrow> string \<Rightarrow> string option" where
  "str_after p [] = (if p = [] then Some [] else None)"
| "str_after p (c # s) =
     (case str_strip_prefix p (c # s) of Some r \<Rightarrow> Some r | None \<Rightarrow> str_after p s)"

lemma str_after_append: "str_after p s = Some r \<Longrightarrow> \<exists>a. s = a @ p @ r"
proof (induction p s rule: str_after.induct)
  case (2 p c s)
  show ?case
  proof (cases "str_strip_prefix p (c # s)")
    case None
    with 2 obtain a where "s = a @ p @ r" by auto
    then show ?thesis by (metis append_Cons)
  next
    case (Some q)
    with 2(2) have "c # s = [] @ p @ r" by (simp add: str_strip_prefix_Some_iff)
    then show ?thesis by blast
  qed
qed (simp split: if_splits)

text \<open>\<^verbatim>\<open>trim_start_matches(c)\<close>, \<^verbatim>\<open>trim_end_matches(c)\<close> and \<^verbatim>\<open>trim()\<close> (ASCII white space).\<close>

definition trim_start_char :: "char \<Rightarrow> string \<Rightarrow> string" where
  "trim_start_char c s = dropWhile (\<lambda>x. x = c) s"

definition trim_end_char :: "char \<Rightarrow> string \<Rightarrow> string" where
  "trim_end_char c s = rev (dropWhile (\<lambda>x. x = c) (rev s))"

definition is_space :: "char \<Rightarrow> bool" where
  "is_space c \<longleftrightarrow> c = CHR '' '' \<or> (9 \<le> (of_char c :: nat) \<and> (of_char c :: nat) \<le> 13)"

definition str_trim :: "string \<Rightarrow> string" where
  "str_trim s = rev (dropWhile is_space (rev (dropWhile is_space s)))"

text \<open>\<^verbatim>\<open>str::split(char)\<close>, \<^verbatim>\<open>str::split_once(char)\<close>, \<^verbatim>\<open>rsplit(char).next()\<close> and \<^verbatim>\<open>[_]::join\<close>.\<close>

fun str_split :: "char \<Rightarrow> string \<Rightarrow> string list" where
  "str_split c [] = [[]]"
| "str_split c (x # xs) =
     (if x = c then [] # str_split c xs
      else (case str_split c xs of [] \<Rightarrow> [[x]] | w # ws \<Rightarrow> (x # w) # ws))"

fun str_split_once :: "char \<Rightarrow> string \<Rightarrow> (string \<times> string) option" where
  "str_split_once c [] = None"
| "str_split_once c (x # xs) =
     (if x = c then Some ([], xs)
      else map_option (\<lambda>(a, b). (x # a, b)) (str_split_once c xs))"

definition rsplit_first :: "char \<Rightarrow> string \<Rightarrow> string" where
  "rsplit_first c s = last (str_split c s)"

fun str_join :: "string \<Rightarrow> string list \<Rightarrow> string" where
  "str_join sep [] = []"
| "str_join sep [w] = w"
| "str_join sep (w # v # ws) = w @ sep @ str_join sep (v # ws)"

lemma str_split_nonempty [simp]: "str_split c s \<noteq> []"
  by (induction s) (auto split: list.splits)

lemma str_join_split: "str_join [c] (str_split c s) = s"
proof (induction s)
  case Nil
  then show ?case by simp
next
  case (Cons x xs)
  obtain w ws where w: "str_split c xs = w # ws"
    using str_split_nonempty by (metis neq_Nil_conv)
  show ?case
    using Cons w by (cases ws) auto
qed

lemma str_split_no_sep: "w \<in> set (str_split c s) \<Longrightarrow> c \<notin> set w"
  by (induction s arbitrary: w) (force split: if_splits list.splits)+

lemma str_split_plain: "c \<notin> set w \<Longrightarrow> str_split c w = [w]"
  by (induction w) auto

lemma str_split_append_sep:
  "c \<notin> set w \<Longrightarrow> str_split c (w @ c # s) = w # str_split c s"
  by (induction w) auto

lemma str_split_append: "str_split c (a @ c # b) = str_split c a @ str_split c b"
  by (induction a) (auto split: list.splits)

lemma str_split_join:
  assumes "ws \<noteq> []" and "\<forall>w \<in> set ws. c \<notin> set w"
  shows "str_split c (str_join [c] ws) = ws"
  using assms
  by (induction "[c]" ws rule: str_join.induct) (auto simp: str_split_plain str_split_append_sep)

lemma str_split_once_None_iff: "str_split_once c s = None \<longleftrightarrow> c \<notin> set s"
  by (induction s) auto

lemma str_split_once_Some_iff:
  "str_split_once c s = Some (a, b) \<longleftrightarrow> s = a @ c # b \<and> c \<notin> set a"
proof (induction s arbitrary: a)
  case Nil
  then show ?case by simp
next
  case (Cons x xs)
  show ?case by (cases a) (auto simp: Cons.IH)
qed

text \<open>\<^verbatim>\<open>to_ascii_lowercase\<close> and \<^verbatim>\<open>eq_ignore_ascii_case\<close>.\<close>

definition char_to_lower :: "char \<Rightarrow> char" where
  "char_to_lower c =
     (let n = (of_char c :: nat) in if 65 \<le> n \<and> n \<le> 90 then char_of (n + 32) else c)"

definition to_ascii_lowercase :: "string \<Rightarrow> string" where
  "to_ascii_lowercase s = map char_to_lower s"

definition eq_ignore_ascii_case :: "string \<Rightarrow> string \<Rightarrow> bool" where
  "eq_ignore_ascii_case a b \<longleftrightarrow> to_ascii_lowercase a = to_ascii_lowercase b"

text \<open>
  The \<^verbatim>\<open>{:?}\<close> of a \<^verbatim>\<open>str\<close>: quoted, with Rust's escapes for the ASCII range. Bytes from 128 on are
  copied, which is what Rust prints for printable characters beyond ASCII.
\<close>

definition hex_digit :: "nat \<Rightarrow> char" where
  "hex_digit n = (if n < 10 then char_of (48 + n) else char_of (87 + n))"

definition debug_char :: "char \<Rightarrow> string" where
  "debug_char c =
     (let n = (of_char c :: nat) in
      if n = 0 then [CHR 0x5C, CHR ''0'']
      else if n = 9 then [CHR 0x5C, CHR ''t'']
      else if n = 10 then [CHR 0x5C, CHR ''n'']
      else if n = 13 then [CHR 0x5C, CHR ''r'']
      else if n = 34 then [CHR 0x5C, CHR 0x22]
      else if n = 92 then [CHR 0x5C, CHR 0x5C]
      else if n < 16 then [CHR 0x5C, CHR ''u'', CHR 0x7B, hex_digit n, CHR 0x7D]
      else if n < 32 \<or> n = 127 then
        [CHR 0x5C, CHR ''u'', CHR 0x7B, hex_digit (n div 16), hex_digit (n mod 16), CHR 0x7D]
      else [c])"

definition debug_str :: "string \<Rightarrow> string" where
  "debug_str s = [CHR 0x22] @ concat (map debug_char s) @ [CHR 0x22]"

section \<open>Decimal numbers\<close>

text \<open>\<^verbatim>\<open>usize::to_string\<close> and \<^verbatim>\<open>str::parse::<usize>\<close>, which takes an optional \<^verbatim>\<open>+\<close> and rejects overflow.\<close>

definition digit_char :: "nat \<Rightarrow> char" where
  "digit_char d = char_of (48 + d)"

fun nat_to_string :: "nat \<Rightarrow> string" where
  "nat_to_string n =
     (if n < 10 then [digit_char n] else nat_to_string (n div 10) @ [digit_char (n mod 10)])"

declare nat_to_string.simps [simp del]

definition int_to_string :: "int \<Rightarrow> string" where
  "int_to_string i = (if i < 0 then CHR ''-'' # nat_to_string (nat (- i)) else nat_to_string (nat i))"

definition digit_val :: "char \<Rightarrow> nat option" where
  "digit_val c = (let n = (of_char c :: nat) in if 48 \<le> n \<and> n \<le> 57 then Some (n - 48) else None)"

fun parse_digits :: "nat \<Rightarrow> string \<Rightarrow> nat option" where
  "parse_digits acc [] = Some acc"
| "parse_digits acc (c # cs) =
     (case digit_val c of
        None \<Rightarrow> None
      | Some d \<Rightarrow> if 10 * acc + d \<le> usize_max then parse_digits (10 * acc + d) cs else None)"

definition parse_usize :: "string \<Rightarrow> nat option" where
  "parse_usize s =
     (case s of
        [] \<Rightarrow> None
      | c # cs \<Rightarrow> if c = CHR ''+'' then (if cs = [] then None else parse_digits 0 cs)
                 else parse_digits 0 s)"

lemma digit_val_digit_char [simp]: "d < 10 \<Longrightarrow> digit_val (digit_char d) = Some d"
  by (simp add: digit_val_def digit_char_def)

lemma digit_char_not_plus:
  assumes "d < 10"
  shows "digit_char d \<noteq> CHR ''+''"
proof
  assume "digit_char d = CHR ''+''"
  then have "digit_val (CHR ''+'') = Some d" using digit_val_digit_char [OF assms] by simp
  then show False by (simp add: digit_val_def)
qed

lemma parse_digits_append:
  "parse_digits acc (s @ t) =
     (case parse_digits acc s of None \<Rightarrow> None | Some a \<Rightarrow> parse_digits a t)"
  by (induction acc s rule: parse_digits.induct) (auto split: option.splits)

lemma nat_to_string_nonempty [simp]: "nat_to_string n \<noteq> []"
  by (subst nat_to_string.simps) simp

lemma parse_digits_nat_to_string:
  "n \<le> usize_max \<Longrightarrow> parse_digits 0 (nat_to_string n) = Some n"
proof (induction n rule: nat_to_string.induct)
  case (1 n)
  show ?case
  proof (cases "n < 10")
    case True
    with 1 show ?thesis by (subst nat_to_string.simps) simp
  next
    case False
    from 1 have "n div 10 \<le> usize_max" by (meson div_le_dividend le_trans)
    with False 1 have "parse_digits 0 (nat_to_string (n div 10)) = Some (n div 10)" by blast
    with False 1 show ?thesis
      by (subst nat_to_string.simps) (simp add: parse_digits_append)
  qed
qed

lemma nat_to_string_hd: "\<exists>d cs. d < 10 \<and> nat_to_string n = digit_char d # cs"
proof (induction n rule: nat_to_string.induct)
  case (1 n)
  then show ?case
    by (cases "n < 10") (auto simp: nat_to_string.simps [of n])
qed

lemma parse_usize_nat_to_string [simp]:
  assumes "n \<le> usize_max"
  shows "parse_usize (nat_to_string n) = Some n"
proof -
  obtain d cs where "d < 10" and s: "nat_to_string n = digit_char d # cs"
    using nat_to_string_hd by blast
  with assms show ?thesis
    using parse_digits_nat_to_string [of n] by (simp add: parse_usize_def digit_char_not_plus)
qed

lemma nat_to_string_inj: "nat_to_string a = nat_to_string b \<Longrightarrow> a \<le> usize_max \<Longrightarrow> b \<le> usize_max \<Longrightarrow> a = b"
  using parse_digits_nat_to_string by (metis option.inject)

section \<open>Lists\<close>

text \<open>A sort by key only moves elements: what a listing holds does not depend on it.\<close>

lemma filter_True_id: "\<forall>x \<in> set xs. P x \<Longrightarrow> filter P xs = xs"
  by (induction xs) auto

lemma filter_False_nil: "\<forall>x \<in> set xs. \<not> P x \<Longrightarrow> filter P xs = []"
  by (induction xs) auto

lemma sorted_map_filter_eq:
  "sorted (map f xs) \<Longrightarrow> sorted (map f (filter P xs))"
  by (induction xs) auto

lemma sorted_take_map: "sorted (map f xs) \<Longrightarrow> sorted (map f (take n xs))"
  by (simp add: take_map [symmetric] sorted_wrt_take)

lemma fst_snd_eq: "fst p = a \<Longrightarrow> p = (a, snd p)"
  by (cases p) simp

end
