(* ===== verification/BTree_Map.thy ===== *)
theory BTree_Map
  imports Rust_Prelude
begin

text \<open>
  \<^verbatim>\<open>std::collections::BTreeMap\<close> as the components use it: a finite map that iterates in key order,
  here the strictly key-sorted list of its entries. The \<^verbatim>\<open>ordered_map\<close> locale is the interface the
  stores rely on (lookup after insert and remove, iteration in key order); the interpretation at the
  end discharges it for the list model.
\<close>

section \<open>The interface\<close>

locale ordered_map =
  fixes get :: "'m \<Rightarrow> 'k::linorder \<Rightarrow> 'v option"
    and ins :: "'m \<Rightarrow> 'k \<Rightarrow> 'v \<Rightarrow> 'm"
    and rem :: "'m \<Rightarrow> 'k \<Rightarrow> 'm"
    and entries :: "'m \<Rightarrow> ('k \<times> 'v) list"
    and wf :: "'m \<Rightarrow> bool"
  assumes get_ins: "wf m \<Longrightarrow> get (ins m k v) k' = (if k' = k then Some v else get m k')"
    and get_rem: "wf m \<Longrightarrow> get (rem m k) k' = (if k' = k then None else get m k')"
    and wf_ins: "wf m \<Longrightarrow> wf (ins m k v)"
    and wf_rem: "wf m \<Longrightarrow> wf (rem m k)"
    and entries_get: "wf m \<Longrightarrow> (k, v) \<in> set (entries m) \<longleftrightarrow> get m k = Some v"
    and entries_sorted: "wf m \<Longrightarrow> sorted_wrt (<) (map fst (entries m))"
begin

lemma sorted_entries_ext:
  assumes "sorted_wrt (<) (map fst xs)" and "sorted_wrt (<) (map fst ys)"
    and "set xs = set (ys :: ('k \<times> 'v) list)"
  shows "xs = ys"
proof -
  have d: "sorted (map fst zs) \<and> distinct (map fst zs)"
    if "sorted_wrt (<) (map fst zs)" for zs :: "('k \<times> 'v) list"
    using that strict_sorted_iff by blast
  show ?thesis
  proof (rule map_sorted_distinct_set_unique)
    show "inj_on fst (set xs \<union> set ys)"
      using d [OF assms(1)] assms(3) by (simp add: distinct_map)
  qed (use d [OF assms(1)] d [OF assms(2)] assms(3) in auto)
qed

text \<open>The entries are determined by the lookups: equal maps iterate equally.\<close>

lemma entries_ext:
  assumes "wf m" and "wf m'" and "\<And>k. get m k = get m' k"
  shows "entries m = entries m'"
proof (rule sorted_entries_ext)
  show "set (entries m) = set (entries m')"
    using assms by (auto simp: entries_get)
qed (use assms entries_sorted in auto)

lemma entries_distinct: "wf m \<Longrightarrow> distinct (entries m)"
  using entries_sorted distinct_map strict_sorted_iff by blast

lemma keys_get:
  assumes "wf m"
  shows "k \<in> set (map fst (entries m)) \<longleftrightarrow> get m k \<noteq> None"
proof -
  have "k \<in> set (map fst (entries m)) \<longleftrightarrow> (\<exists>v. (k, v) \<in> set (entries m))" by force
  then show ?thesis using assms by (simp add: entries_get)
qed

lemma keys_sorted_list:
  assumes "wf m"
  shows "map fst (entries m) = sorted_list_of_set {k. get m k \<noteq> None}"
proof (rule sorted_distinct_set_unique)
  have fin: "finite {k. get m k \<noteq> None}"
    using keys_get [OF assms] by (intro finite_subset [OF _ finite_set]) blast
  show "set (map fst (entries m)) = set (sorted_list_of_set {k. get m k \<noteq> None})"
    by (simp only: set_sorted_list_of_set [OF fin]) (use keys_get [OF assms] in blast)
  show "sorted (map fst (entries m))" and "distinct (map fst (entries m))"
    using entries_sorted [OF assms] strict_sorted_iff by blast+
qed simp_all

lemma entries_alt:
  assumes "wf m"
  shows "entries m = map (\<lambda>k. (k, the (get m k))) (sorted_list_of_set {k. get m k \<noteq> None})"
proof -
  have "map (\<lambda>k. (k, the (get m k))) (map fst (entries m)) = entries m"
    unfolding map_map by (rule map_idI) (auto simp: entries_get [OF assms])
  then show ?thesis by (simp only: keys_sorted_list [OF assms])
qed

lemma ins_ins: "wf m \<Longrightarrow> entries (ins (ins m k v) k w) = entries (ins m k w)"
  by (rule entries_ext) (auto simp: wf_ins get_ins)

lemma rem_ins: "wf m \<Longrightarrow> get m k = None \<Longrightarrow> entries (rem (ins m k v) k) = entries m"
  by (rule entries_ext) (auto simp: wf_ins wf_rem get_ins get_rem)

lemma rem_absent: "wf m \<Longrightarrow> get m k = None \<Longrightarrow> entries (rem m k) = entries m"
  by (rule entries_ext) (auto simp: wf_rem get_rem)

end

section \<open>The list model\<close>

type_synonym ('k, 'v) btree_map = "('k \<times> 'v) list"

fun bm_get :: "('k::linorder, 'v) btree_map \<Rightarrow> 'k \<Rightarrow> 'v option" where
  "bm_get [] k = None"
| "bm_get ((a, b) # m) k = (if k = a then Some b else bm_get m k)"

fun bm_insert :: "('k::linorder, 'v) btree_map \<Rightarrow> 'k \<Rightarrow> 'v \<Rightarrow> ('k, 'v) btree_map" where
  "bm_insert [] k v = [(k, v)]"
| "bm_insert ((a, b) # m) k v =
     (if k < a then (k, v) # (a, b) # m
      else if k = a then (k, v) # m
      else (a, b) # bm_insert m k v)"

fun bm_remove :: "('k::linorder, 'v) btree_map \<Rightarrow> 'k \<Rightarrow> ('k, 'v) btree_map" where
  "bm_remove [] k = []"
| "bm_remove ((a, b) # m) k = (if k = a then m else (a, b) # bm_remove m k)"

definition bm_contains_key :: "('k::linorder, 'v) btree_map \<Rightarrow> 'k \<Rightarrow> bool" where
  "bm_contains_key m k \<longleftrightarrow> bm_get m k \<noteq> None"

definition bm_keys :: "('k, 'v) btree_map \<Rightarrow> 'k list" where
  "bm_keys m = map fst m"

definition bm_values :: "('k, 'v) btree_map \<Rightarrow> 'v list" where
  "bm_values m = map snd m"

definition bm_wf :: "('k::linorder, 'v) btree_map \<Rightarrow> bool" where
  "bm_wf m \<longleftrightarrow> sorted_wrt (<) (map fst m)"

lemma bm_wf_Nil [simp]: "bm_wf []"
  by (simp add: bm_wf_def)

lemma bm_wf_Cons: "bm_wf ((a, b) # m) \<longleftrightarrow> (\<forall>k \<in> fst ` set m. a < k) \<and> bm_wf m"
  by (auto simp: bm_wf_def)

lemma bm_get_None_iff: "bm_get m k = None \<longleftrightarrow> k \<notin> fst ` set m"
  by (induction m k rule: bm_get.induct) auto

lemma bm_get_insert: "bm_get (bm_insert m k v) k' = (if k' = k then Some v else bm_get m k')"
  by (induction m k v rule: bm_insert.induct) auto

lemma bm_keys_insert: "fst ` set (bm_insert m k v) = insert k (fst ` set m)"
  by (induction m k v rule: bm_insert.induct) auto

lemma bm_wf_insert [simp]: "bm_wf m \<Longrightarrow> bm_wf (bm_insert m k v)"
  by (induction m k v rule: bm_insert.induct) (auto simp: bm_wf_Cons bm_keys_insert)

lemma bm_remove_subset: "set (bm_remove m k) \<subseteq> set m"
  by (induction m k rule: bm_remove.induct) auto

lemma bm_wf_remove [simp]: "bm_wf m \<Longrightarrow> bm_wf (bm_remove m k)"
  by (induction m k rule: bm_remove.induct) (use bm_remove_subset in \<open>fastforce simp: bm_wf_Cons\<close>)+

lemma bm_get_remove:
  "bm_wf m \<Longrightarrow> bm_get (bm_remove m k) k' = (if k' = k then None else bm_get m k')"
proof (induction m k rule: bm_remove.induct)
  case (1 k)
  then show ?case by simp
next
  case (2 a b m k)
  then have "bm_get m a = None" by (auto simp: bm_get_None_iff bm_wf_Cons)
  with 2 show ?case by (auto simp: bm_wf_Cons)
qed

lemma bm_entries_get: "bm_wf m \<Longrightarrow> (k, v) \<in> set m \<longleftrightarrow> bm_get m k = Some v"
  by (induction m k rule: bm_get.induct) (force simp: bm_wf_Cons)+

interpretation bm: ordered_map bm_get bm_insert bm_remove "\<lambda>m. m" bm_wf
  by unfold_locales
    (auto simp: bm_get_insert bm_get_remove bm_entries_get, simp add: bm_wf_def)

lemmas bm_get_simps = bm_get_insert bm_get_remove

lemma bm_contains_key_insert [simp]: "bm_contains_key (bm_insert m k v) k"
  by (simp add: bm_contains_key_def bm_get_insert)

lemma set_bm_values: "bm_wf m \<Longrightarrow> v \<in> set (bm_values m) \<longleftrightarrow> (\<exists>k. bm_get m k = Some v)"
  by (force simp: bm_values_def bm_entries_get [symmetric] image_iff)

lemma set_bm_keys: "k \<in> set (bm_keys m) \<longleftrightarrow> bm_get m k \<noteq> None"
  by (auto simp: bm_keys_def bm_get_None_iff)

lemma bm_wf_filter: "bm_wf m \<Longrightarrow> bm_wf (filter P m)"
  by (induction m) (auto simp: bm_wf_Cons)

lemma bm_get_filter:
  "bm_wf m \<Longrightarrow> bm_get (filter (\<lambda>(k, _). P k) m) k = (if P k then bm_get m k else None)"
  by (induction m k rule: bm_get.induct) (auto simp: bm_wf_Cons bm_get_None_iff)

end
