(* ===== verification/Store_Types.thy ===== *)
theory Store_Types
  imports BTree_Map
begin

text \<open>
  The data and the interfaces of the portal's stores (\<^verbatim>\<open>crates/portal/src/error.rs\<close> and
  \<^verbatim>\<open>crates/portal/src/store/mod.rs\<close>): the error enum and its translation to ConnectRPC errors, the
  protobuf messages that are stored, paging, and the two store traits. A \<^verbatim>\<open>dyn\<close> trait object is a
  record of its methods over the implementation's state \<^verbatim>\<open>'s\<close>: a method that writes takes the state and
  returns it updated, a method that only reads takes the state. What a method reads from the outside
  (the clock, a fresh UUID) is its \<^verbatim>\<open>ambient\<close> argument. A byte or entry stream is the list of its items.
\<close>

section \<open>Errors\<close>

datatype store_error =
    NotFound string
  | AlreadyExists string
  | InvalidArgument string
  | FailedPrecondition string
  | Internal string

type_synonym 'a store_result = "store_error + 'a"

text \<open>A \<^verbatim>\<open>ConnectError\<close> is known here by the constructor function that built it and its message.\<close>

datatype connect_error =
    Connect_not_found string
  | Connect_already_exists string
  | Connect_invalid_argument string
  | Connect_failed_precondition string
  | Connect_internal string

type_synonym 'a service_result = "connect_error + 'a"

fun connect_of_store :: "store_error \<Rightarrow> connect_error" where
  "connect_of_store (NotFound msg) = Connect_not_found msg"
| "connect_of_store (AlreadyExists msg) = Connect_already_exists msg"
| "connect_of_store (InvalidArgument msg) = Connect_invalid_argument msg"
| "connect_of_store (FailedPrecondition msg) = Connect_failed_precondition msg"
| "connect_of_store (Internal msg) = Connect_internal msg"

lemma connect_of_store_inj: "connect_of_store a = connect_of_store b \<Longrightarrow> a = b"
  by (cases a; cases b) auto

section \<open>Messages\<close>

record tag_value =
  tv_name :: string

record tag_policy =
  tp_tag_key :: string
  tp_description :: "string option"
  tp_values :: "tag_value list"
  tp_id :: "string option"
  tp_created_at :: "int option"
  tp_updated_at :: "int option"

record tag_assignment =
  ta_entity_type :: string
  ta_entity_name :: string
  ta_tag_key :: string
  ta_tag_value :: "string option"

record file_metadata =
  fm_path :: string
  fm_file_size :: int
  fm_last_modified :: int
  fm_content_type :: string
  fm_etag :: string

record directory_metadata =
  dm_path :: string
  dm_last_modified :: int

record directory_entry =
  de_path :: string
  de_is_directory :: bool
  de_file_size :: int
  de_last_modified :: int

section \<open>Paging\<close>

record page =
  max_results :: "nat option"
  page_token :: "string option"

record list_opts =
  lo_recursive :: bool
  lo_start_after :: "string option"
  lo_max_results :: "nat option"

text \<open>\<^verbatim>\<open>paginate\<close>: the window of an already collected listing that a page asks for.\<close>

definition page_start :: "page \<Rightarrow> nat" where
  "page_start p = unwrap_or 0 (Option.bind (page_token p) parse_usize)"

definition paginate :: "'a list \<Rightarrow> page \<Rightarrow> 'a list \<times> string option" where
  "paginate items p =
     (let start = page_start p in
      if length items \<le> start then ([], None)
      else
        let rest = drop start items in
        case max_results p of
          Some limit \<Rightarrow>
            if limit < length rest then (take limit rest, Some (nat_to_string (start + limit)))
            else (rest, None)
        | None \<Rightarrow> (rest, None))"

text \<open>
  A client that follows the tokens: ask for a page, and while the answer has a token, ask again with
  it. Fuel bounds the number of requests.
\<close>

fun follow_pages :: "nat \<Rightarrow> 'a list \<Rightarrow> nat \<Rightarrow> string option \<Rightarrow> 'a list option" where
  "follow_pages 0 items limit token = None"
| "follow_pages (Suc fuel) items limit token =
     (case paginate items \<lparr>max_results = Some limit, page_token = token\<rparr> of
        (xs, None) \<Rightarrow> Some xs
      | (xs, Some t) \<Rightarrow> map_option ((@) xs) (follow_pages fuel items limit (Some t)))"

lemma page_start_token [simp]:
  "n \<le> usize_max \<Longrightarrow> page_start \<lparr>max_results = m, page_token = Some (nat_to_string n)\<rparr> = n"
  by (simp add: page_start_def)

lemma page_start_None [simp]: "page_start \<lparr>max_results = m, page_token = None\<rparr> = 0"
  by (simp add: page_start_def)

lemma paginate_all [simp]: "paginate items \<lparr>max_results = None, page_token = None\<rparr> = (items, None)"
  by (simp add: paginate_def)

lemma set_paginate: "set (fst (paginate items p)) \<subseteq> set items"
  by (auto simp: paginate_def Let_def split: option.splits dest: in_set_takeD in_set_dropD)

lemma length_paginate: "max_results p = Some n \<Longrightarrow> length (fst (paginate items p)) \<le> n"
  by (auto simp: paginate_def Let_def)

text \<open>The pages from a token on are the items from its index on.\<close>

lemma follow_pages_from:
  assumes "0 < limit" and "length items \<le> usize_max"
    and "page_start \<lparr>max_results = Some limit, page_token = token\<rparr> = start"
    and "length items - start < fuel"
  shows "follow_pages fuel items limit token = Some (drop start items)"
  using assms(3,4)
proof (induction fuel arbitrary: token start)
  case 0
  then show ?case by simp
next
  case (Suc fuel)
  show ?case
  proof (cases "start + limit < length items")
    case True
    with assms(2) have "start + limit \<le> usize_max" by linarith
    then have "page_start \<lparr>max_results = Some limit, page_token = Some (nat_to_string (start + limit))\<rparr>
        = start + limit" by simp
    moreover have "length items - (start + limit) < fuel" using Suc.prems(2) assms(1) True by linarith
    ultimately have "follow_pages fuel items limit (Some (nat_to_string (start + limit)))
        = Some (drop (start + limit) items)" by (rule Suc.IH)
    moreover have "take limit (drop start items) @ drop (start + limit) items = drop start items"
      by (metis add.commute append_take_drop_id drop_drop)
    ultimately show ?thesis
      using True Suc.prems(1) by (simp add: paginate_def Let_def less_diff_conv add.commute)
  next
    case False
    with Suc.prems(1) show ?thesis by (auto simp: paginate_def Let_def)
  qed
qed

section \<open>The store traits\<close>

record ambient =
  now_millis :: int
  new_id :: string

record 's tag_store =
  ts_create_policy :: "ambient \<Rightarrow> tag_policy \<Rightarrow> 's \<Rightarrow> tag_policy store_result \<times> 's"
  ts_get_policy :: "string \<Rightarrow> 's \<Rightarrow> tag_policy store_result"
  ts_list_policies :: "page \<Rightarrow> 's \<Rightarrow> (tag_policy list \<times> string option) store_result"
  ts_update_policy ::
    "ambient \<Rightarrow> string \<Rightarrow> tag_policy \<Rightarrow> string list \<Rightarrow> 's \<Rightarrow> tag_policy store_result \<times> 's"
  ts_delete_policy :: "string \<Rightarrow> 's \<Rightarrow> unit store_result \<times> 's"
  ts_create_assignment :: "tag_assignment \<Rightarrow> 's \<Rightarrow> tag_assignment store_result \<times> 's"
  ts_get_assignment :: "string \<Rightarrow> string \<Rightarrow> string \<Rightarrow> 's \<Rightarrow> tag_assignment store_result"
  ts_list_assignments ::
    "string \<Rightarrow> string \<Rightarrow> page \<Rightarrow> 's \<Rightarrow> (tag_assignment list \<times> string option) store_result"
  ts_update_assignment ::
    "string \<Rightarrow> string \<Rightarrow> string \<Rightarrow> tag_assignment \<Rightarrow> 's \<Rightarrow> tag_assignment store_result \<times> 's"
  ts_delete_assignment :: "string \<Rightarrow> string \<Rightarrow> string \<Rightarrow> 's \<Rightarrow> unit store_result \<times> 's"

record 's file_store =
  fs_put_file ::
    "ambient \<Rightarrow> string \<Rightarrow> string option \<Rightarrow> bytes \<Rightarrow> 's \<Rightarrow> file_metadata store_result \<times> 's"
  fs_put_file_stream ::
    "ambient \<Rightarrow> string \<Rightarrow> string option \<Rightarrow> bytes store_result list \<Rightarrow> 's
      \<Rightarrow> file_metadata store_result \<times> 's"
  fs_read_file :: "string \<Rightarrow> int option \<Rightarrow> int option \<Rightarrow> 's \<Rightarrow> bytes store_result"
  fs_read_file_stream ::
    "string \<Rightarrow> int option \<Rightarrow> int option \<Rightarrow> 's \<Rightarrow> bytes store_result list store_result"
  fs_stat_file :: "string \<Rightarrow> 's \<Rightarrow> file_metadata store_result"
  fs_delete_file :: "string \<Rightarrow> 's \<Rightarrow> unit store_result \<times> 's"
  fs_create_directory :: "ambient \<Rightarrow> string \<Rightarrow> 's \<Rightarrow> directory_metadata store_result \<times> 's"
  fs_delete_directory :: "string \<Rightarrow> 's \<Rightarrow> unit store_result \<times> 's"
  fs_stat_directory :: "string \<Rightarrow> 's \<Rightarrow> directory_metadata store_result"
  fs_list_directory ::
    "string \<Rightarrow> page \<Rightarrow> 's \<Rightarrow> (directory_entry list \<times> string option) store_result"
  fs_list_files_opts ::
    "string \<Rightarrow> list_opts \<Rightarrow> 's \<Rightarrow> directory_entry store_result list store_result"

text \<open>The trait's provided method.\<close>

definition fs_list_files_stream ::
  "'s file_store \<Rightarrow> string \<Rightarrow> 's \<Rightarrow> directory_entry store_result list store_result" where
  "fs_list_files_stream fs path =
     fs_list_files_opts fs path
       \<lparr>lo_recursive = True, lo_start_after = None, lo_max_results = None\<rparr>"

end
