(* ===== verification/Memory_Tags.thy ===== *)
theory Memory_Tags
  imports Store_Types "HOL-Library.Product_Lexorder"
begin

text \<open>
  \<^verbatim>\<open>crates/portal/src/store/memory.rs\<close>, first part: the state of \<^verbatim>\<open>MemoryStore\<close> and its \<^verbatim>\<open>TagStore\<close>
  implementation. Each method runs under the lock of the one map it touches, so a method is one state
  transition.
\<close>

section \<open>State\<close>

record stored_file =
  sf_content_type :: string
  sf_last_modified :: int
  sf_bytes :: bytes

type_synonym assignment_key = "string \<times> string \<times> string"

record memory_store =
  policies :: "(string, tag_policy) btree_map"
  assignments :: "(assignment_key, tag_assignment) btree_map"
  files :: "(string, stored_file) btree_map"
  directories :: "(string, int) btree_map"

definition new_memory_store :: memory_store where
  "new_memory_store = \<lparr>policies = [], assignments = [], files = [], directories = []\<rparr>"

section \<open>Tag policies\<close>

definition policy_not_found :: "string \<Rightarrow> store_error" where
  "policy_not_found tag_key = NotFound (''tag policy '' @ debug_str tag_key)"

definition mem_create_policy ::
  "ambient \<Rightarrow> tag_policy \<Rightarrow> memory_store \<Rightarrow> tag_policy store_result \<times> memory_store" where
  "mem_create_policy amb policy s =
     (if tp_tag_key policy = [] then (Inl (InvalidArgument ''tag_key is required''), s)
      else if bm_contains_key (policies s) (tp_tag_key policy)
        then (Inl (AlreadyExists (''tag policy '' @ debug_str (tp_tag_key policy))), s)
      else
        let ts = now_millis amb;
            policy' = policy\<lparr>tp_id := Some (new_id amb), tp_created_at := Some ts,
                             tp_updated_at := Some ts\<rparr>
        in (Inr policy', s\<lparr>policies := bm_insert (policies s) (tp_tag_key policy) policy'\<rparr>))"

definition mem_get_policy :: "string \<Rightarrow> memory_store \<Rightarrow> tag_policy store_result" where
  "mem_get_policy tag_key s = ok_or (policy_not_found tag_key) (bm_get (policies s) tag_key)"

definition mem_list_policies ::
  "page \<Rightarrow> memory_store \<Rightarrow> (tag_policy list \<times> string option) store_result" where
  "mem_list_policies p s = Inr (paginate (bm_values (policies s)) p)"

definition touches :: "string list \<Rightarrow> string \<Rightarrow> bool" where
  "touches update_mask field \<longleftrightarrow> update_mask = [] \<or> field \<in> set update_mask"

definition mem_update_policy ::
  "ambient \<Rightarrow> string \<Rightarrow> tag_policy \<Rightarrow> string list \<Rightarrow> memory_store
    \<Rightarrow> tag_policy store_result \<times> memory_store" where
  "mem_update_policy amb tag_key policy update_mask s =
     (case bm_get (policies s) tag_key of
        None \<Rightarrow> (Inl (policy_not_found tag_key), s)
      | Some existing \<Rightarrow>
          let e1 = (if touches update_mask ''description''
                    then existing\<lparr>tp_description := tp_description policy\<rparr> else existing);
              e2 = (if touches update_mask ''values'' then e1\<lparr>tp_values := tp_values policy\<rparr> else e1);
              e3 = e2\<lparr>tp_updated_at := Some (now_millis amb)\<rparr>
          in (Inr e3, s\<lparr>policies := bm_insert (policies s) tag_key e3\<rparr>))"

definition mem_delete_policy :: "string \<Rightarrow> memory_store \<Rightarrow> unit store_result \<times> memory_store" where
  "mem_delete_policy tag_key s =
     (ok_or (policy_not_found tag_key) (map_option (\<lambda>_. ()) (bm_get (policies s) tag_key)),
      s\<lparr>policies := bm_remove (policies s) tag_key\<rparr>)"

section \<open>Tag assignments\<close>

text \<open>The \<^verbatim>\<open>{:?}\<close> of the key triple.\<close>

definition debug_key :: "assignment_key \<Rightarrow> string" where
  "debug_key k =
     (case k of (et, en, tk) \<Rightarrow>
        ''('' @ debug_str et @ '', '' @ debug_str en @ '', '' @ debug_str tk @ '')'')"

definition assignment_not_found :: "assignment_key \<Rightarrow> store_error" where
  "assignment_not_found k = NotFound (''tag assignment '' @ debug_key k)"

definition key_of_assignment :: "tag_assignment \<Rightarrow> assignment_key" where
  "key_of_assignment a = (ta_entity_type a, ta_entity_name a, ta_tag_key a)"

definition mem_create_assignment ::
  "tag_assignment \<Rightarrow> memory_store \<Rightarrow> tag_assignment store_result \<times> memory_store" where
  "mem_create_assignment a s =
     (if ta_entity_type a = [] \<or> ta_entity_name a = [] \<or> ta_tag_key a = []
      then (Inl (InvalidArgument ''entity_type, entity_name and tag_key are required''), s)
      else
        let key = key_of_assignment a in
        if bm_contains_key (assignments s) key
        then (Inl (AlreadyExists (''tag assignment '' @ debug_key key)), s)
        else (Inr a, s\<lparr>assignments := bm_insert (assignments s) key a\<rparr>))"

definition mem_get_assignment ::
  "string \<Rightarrow> string \<Rightarrow> string \<Rightarrow> memory_store \<Rightarrow> tag_assignment store_result" where
  "mem_get_assignment entity_type entity_name tag_key s =
     (let key = (entity_type, entity_name, tag_key) in
      ok_or (assignment_not_found key) (bm_get (assignments s) key))"

definition mem_list_assignments ::
  "string \<Rightarrow> string \<Rightarrow> page \<Rightarrow> memory_store \<Rightarrow> (tag_assignment list \<times> string option) store_result" where
  "mem_list_assignments entity_type entity_name p s =
     (let matching = map snd (filter
            (\<lambda>((et, en, _), _). et = entity_type \<and> en = entity_name) (assignments s))
      in Inr (paginate matching p))"

definition mem_update_assignment ::
  "string \<Rightarrow> string \<Rightarrow> string \<Rightarrow> tag_assignment \<Rightarrow> memory_store
    \<Rightarrow> tag_assignment store_result \<times> memory_store" where
  "mem_update_assignment entity_type entity_name tag_key a s =
     (let key = (entity_type, entity_name, tag_key) in
      case bm_get (assignments s) key of
        None \<Rightarrow> (Inl (assignment_not_found key), s)
      | Some existing \<Rightarrow>
          let e = existing\<lparr>ta_tag_value := ta_tag_value a\<rparr>
          in (Inr e, s\<lparr>assignments := bm_insert (assignments s) key e\<rparr>))"

definition mem_delete_assignment ::
  "string \<Rightarrow> string \<Rightarrow> string \<Rightarrow> memory_store \<Rightarrow> unit store_result \<times> memory_store" where
  "mem_delete_assignment entity_type entity_name tag_key s =
     (let key = (entity_type, entity_name, tag_key) in
      (ok_or (assignment_not_found key) (map_option (\<lambda>_. ()) (bm_get (assignments s) key)),
       s\<lparr>assignments := bm_remove (assignments s) key\<rparr>))"

definition memory_tag_store :: "memory_store tag_store" where
  "memory_tag_store =
     \<lparr>ts_create_policy = mem_create_policy, ts_get_policy = mem_get_policy,
      ts_list_policies = mem_list_policies, ts_update_policy = mem_update_policy,
      ts_delete_policy = mem_delete_policy, ts_create_assignment = mem_create_assignment,
      ts_get_assignment = mem_get_assignment, ts_list_assignments = mem_list_assignments,
      ts_update_assignment = mem_update_assignment,
      ts_delete_assignment = mem_delete_assignment\<rparr>"

end
