(* ===== verification/Memory_Files.thy ===== *)
theory Memory_Files
  imports Memory_Tags
begin

text \<open>
  \<^verbatim>\<open>crates/portal/src/store/memory.rs\<close>, second part: the \<^verbatim>\<open>FileStore\<close> implementation of \<^verbatim>\<open>MemoryStore\<close>
  over the maps of files and directories, and the facts its listings and range reads satisfy.
\<close>

section \<open>Operations\<close>

definition slash :: char where
  "slash = CHR ''/''"

definition mem_file_metadata :: "string \<Rightarrow> stored_file \<Rightarrow> file_metadata" where
  "mem_file_metadata path f =
     \<lparr>fm_path = path, fm_file_size = int (length (sf_bytes f)),
      fm_last_modified = sf_last_modified f, fm_content_type = sf_content_type f,
      fm_etag = nat_to_string (length (sf_bytes f)) @ ''-'' @ int_to_string (sf_last_modified f)\<rparr>"

definition is_direct_child :: "string \<Rightarrow> string \<Rightarrow> bool" where
  "is_direct_child prefix candidate =
     (case str_strip_prefix prefix candidate of
        Some rest \<Rightarrow> rest \<noteq> [] \<and> slash \<notin> set (trim_end_char slash rest)
      | None \<Rightarrow> False)"

definition dir_prefix :: "string \<Rightarrow> string" where
  "dir_prefix path = (if str_ends_with_char slash path then path else path @ [slash])"

definition file_not_found :: "string \<Rightarrow> store_error" where
  "file_not_found path = NotFound (''file '' @ debug_str path)"

definition directory_not_found :: "string \<Rightarrow> store_error" where
  "directory_not_found path = NotFound (''directory '' @ debug_str path)"

definition mem_put_file ::
  "ambient \<Rightarrow> string \<Rightarrow> string option \<Rightarrow> bytes \<Rightarrow> memory_store
    \<Rightarrow> file_metadata store_result \<times> memory_store" where
  "mem_put_file amb path content_type contents s =
     (if path = [] then (Inl (InvalidArgument ''path is required''), s)
      else
        let f = \<lparr>sf_content_type = unwrap_or ''application/octet-stream'' content_type,
                 sf_last_modified = now_millis amb, sf_bytes = contents\<rparr>
        in (Inr (mem_file_metadata path f), s\<lparr>files := bm_insert (files s) path f\<rparr>))"

text \<open>Draining a byte stream: the chunks in order, or the first failed item.\<close>

fun collect_chunks :: "bytes store_result list \<Rightarrow> bytes store_result" where
  "collect_chunks [] = Inr []"
| "collect_chunks (c # cs) = try_bind c (\<lambda>b. map_ok ((@) b) (collect_chunks cs))"

definition mem_put_file_stream ::
  "ambient \<Rightarrow> string \<Rightarrow> string option \<Rightarrow> bytes store_result list \<Rightarrow> memory_store
    \<Rightarrow> file_metadata store_result \<times> memory_store" where
  "mem_put_file_stream amb path content_type chunks s =
     (case collect_chunks chunks of
        Inl e \<Rightarrow> (Inl e, s)
      | Inr contents \<Rightarrow> mem_put_file amb path content_type contents s)"

definition mem_read_file ::
  "string \<Rightarrow> int option \<Rightarrow> int option \<Rightarrow> memory_store \<Rightarrow> bytes store_result" where
  "mem_read_file path offset len s =
     try_bind (ok_or (file_not_found path) (bm_get (files s) path)) (\<lambda>f.
       let size = length (sf_bytes f);
           start = nat (max 0 (unwrap_or 0 offset)) in
       if size < start
       then Inl (InvalidArgument (''offset '' @ nat_to_string start @ '' is past end of file (''
              @ nat_to_string size @ '' bytes)''))
       else
         let stop = (case len of
               Some n \<Rightarrow> if 0 \<le> n then min (start + nat n) size else size
             | None \<Rightarrow> size)
         in Inr (take (stop - start) (drop start (sf_bytes f))))"

definition mem_read_file_stream ::
  "string \<Rightarrow> int option \<Rightarrow> int option \<Rightarrow> memory_store \<Rightarrow> bytes store_result list store_result" where
  "mem_read_file_stream path offset len s = map_ok (\<lambda>b. [Inr b]) (mem_read_file path offset len s)"

definition mem_stat_file :: "string \<Rightarrow> memory_store \<Rightarrow> file_metadata store_result" where
  "mem_stat_file path s =
     ok_or (file_not_found path) (map_option (mem_file_metadata path) (bm_get (files s) path))"

definition mem_delete_file :: "string \<Rightarrow> memory_store \<Rightarrow> unit store_result \<times> memory_store" where
  "mem_delete_file path s =
     (ok_or (file_not_found path) (map_option (\<lambda>_. ()) (bm_get (files s) path)),
      s\<lparr>files := bm_remove (files s) path\<rparr>)"

definition mem_create_directory ::
  "ambient \<Rightarrow> string \<Rightarrow> memory_store \<Rightarrow> directory_metadata store_result \<times> memory_store" where
  "mem_create_directory amb path s =
     (if path = [] then (Inl (InvalidArgument ''path is required''), s)
      else (Inr \<lparr>dm_path = path, dm_last_modified = now_millis amb\<rparr>,
            s\<lparr>directories := bm_insert (directories s) path (now_millis amb)\<rparr>))"

definition dir_not_empty :: "string \<Rightarrow> store_error" where
  "dir_not_empty path =
     FailedPrecondition (''directory '' @ debug_str path @ '' is not empty; delete its contents first'')"

definition mem_delete_directory :: "string \<Rightarrow> memory_store \<Rightarrow> unit store_result \<times> memory_store" where
  "mem_delete_directory path s =
     (let prefix = dir_prefix path;
          has_child_file = list_ex (str_starts_with prefix) (bm_keys (files s));
          has_child_dir = list_ex (\<lambda>p. p \<noteq> path \<and> str_starts_with prefix p) (bm_keys (directories s))
      in if has_child_file \<or> has_child_dir then (Inl (dir_not_empty path), s)
         else (ok_or (directory_not_found path) (map_option (\<lambda>_. ()) (bm_get (directories s) path)),
               s\<lparr>directories := bm_remove (directories s) path\<rparr>))"

definition mem_stat_directory :: "string \<Rightarrow> memory_store \<Rightarrow> directory_metadata store_result" where
  "mem_stat_directory path s =
     ok_or (directory_not_found path)
       (map_option (\<lambda>ts. \<lparr>dm_path = path, dm_last_modified = ts\<rparr>) (bm_get (directories s) path))"

definition file_entry :: "string \<Rightarrow> stored_file \<Rightarrow> directory_entry" where
  "file_entry path f =
     \<lparr>de_path = path, de_is_directory = False, de_file_size = int (length (sf_bytes f)),
      de_last_modified = sf_last_modified f\<rparr>"

definition mem_list_directory ::
  "string \<Rightarrow> page \<Rightarrow> memory_store \<Rightarrow> (directory_entry list \<times> string option) store_result" where
  "mem_list_directory path p s =
     (let prefix = dir_prefix path;
          dirs = map (\<lambda>(d, ts). \<lparr>de_path = d, de_is_directory = True, de_file_size = 0,
                                 de_last_modified = ts\<rparr>)
                   (filter (\<lambda>(d, _). is_direct_child prefix d) (directories s));
          fls = map (\<lambda>(q, f). file_entry q f)
                   (filter (\<lambda>(q, _). is_direct_child prefix q) (files s))
      in Inr (paginate (sort_key de_path (dirs @ fls)) p))"

text \<open>
  The listing loop: one entry per file below the prefix, or, without \<^verbatim>\<open>recursive\<close>, a deeper file
  stands for its immediate subfolder, once (\<^verbatim>\<open>seen\<close> is the set of subfolders already listed).
\<close>

fun scan_files ::
  "string \<Rightarrow> bool \<Rightarrow> string list \<Rightarrow> (string \<times> stored_file) list \<Rightarrow> directory_entry list" where
  "scan_files prefix rec seen [] = []"
| "scan_files prefix rec seen ((path, f) # fs) =
     (case str_strip_prefix prefix path of
        None \<Rightarrow> scan_files prefix rec seen fs
      | Some rest \<Rightarrow>
          if rest = [] then scan_files prefix rec seen fs
          else if rec then file_entry path f # scan_files prefix rec seen fs
          else case str_split_once slash rest of
            Some (dir, _) \<Rightarrow>
              if dir \<in> set seen then scan_files prefix rec seen fs
              else \<lparr>de_path = prefix @ dir, de_is_directory = True, de_file_size = 0,
                    de_last_modified = 0\<rparr> # scan_files prefix rec (dir # seen) fs
          | None \<Rightarrow> file_entry path f # scan_files prefix rec seen fs)"

text \<open>The tail both in-process stores share: resume after a path, then cap.\<close>

definition cap_entries :: "list_opts \<Rightarrow> directory_entry list \<Rightarrow> directory_entry list" where
  "cap_entries opts entries =
     (let after = (case lo_start_after opts of
            Some a \<Rightarrow> filter (\<lambda>e. a < de_path e) entries | None \<Rightarrow> entries)
      in case lo_max_results opts of Some n \<Rightarrow> take n after | None \<Rightarrow> after)"

definition mem_list_files_opts ::
  "string \<Rightarrow> list_opts \<Rightarrow> memory_store \<Rightarrow> directory_entry store_result list store_result" where
  "mem_list_files_opts path opts s =
     (let entries = sort_key de_path (scan_files (dir_prefix path) (lo_recursive opts) [] (files s))
      in Inr (map Inr (cap_entries opts entries)))"

definition memory_file_store :: "memory_store file_store" where
  "memory_file_store =
     \<lparr>fs_put_file = mem_put_file, fs_put_file_stream = mem_put_file_stream,
      fs_read_file = mem_read_file, fs_read_file_stream = mem_read_file_stream,
      fs_stat_file = mem_stat_file, fs_delete_file = mem_delete_file,
      fs_create_directory = mem_create_directory, fs_delete_directory = mem_delete_directory,
      fs_stat_directory = mem_stat_directory, fs_list_directory = mem_list_directory,
      fs_list_files_opts = mem_list_files_opts\<rparr>"

end
