(* ===== verification/File_Contract.thy ===== *)
theory File_Contract
  imports Memory_Files
begin

text \<open>
  What a \<^verbatim>\<open>FileStore\<close> promises about file contents. A path addresses a key (\<^verbatim>\<open>key\<close>, \<^const>\<open>None\<close> for a
  path the store refuses); the contents are a map from keys to bytes. The contract says how each method
  reads or changes that map; the lemmas are what a client of \<^verbatim>\<open>dyn FileStore\<close> relies on. Stores that
  also keep the contents when an upload fails extend it (\<^verbatim>\<open>atomic_file_store\<close>).
\<close>

locale file_store_contract =
  fixes fs :: "'s file_store"
    and inv :: "'s \<Rightarrow> bool"
    and key :: "string \<Rightarrow> 'k option"
    and contents :: "'s \<Rightarrow> 'k \<Rightarrow> bytes option"
  assumes read_full:
      "inv s \<Longrightarrow> fs_read_file fs p None None s = Inr b
        \<longleftrightarrow> (\<exists>k. key p = Some k \<and> contents s k = Some b)"
    and read_stream:
      "inv s \<Longrightarrow> fs_read_file_stream fs p off len s = Inr chunks
        \<Longrightarrow> collect_chunks chunks = fs_read_file fs p off len s"
    and put_inv: "inv s \<Longrightarrow> inv (snd (fs_put_file fs amb p ct b s))"
    and put_ok: "inv s \<Longrightarrow> fs_put_file fs amb p ct b s = (Inr m, s')
        \<Longrightarrow> \<exists>k. key p = Some k \<and> key (fm_path m) = Some k \<and> fm_file_size m = int (length b)
              \<and> contents s' = (contents s)(k \<mapsto> b)"
    and put_err: "inv s \<Longrightarrow> fs_put_file fs amb p ct b s = (Inl e, s') \<Longrightarrow> contents s' = contents s"
    and put_stream_inv: "inv s \<Longrightarrow> inv (snd (fs_put_file_stream fs amb p ct cs s))"
    and put_stream_ok: "inv s \<Longrightarrow> fs_put_file_stream fs amb p ct cs s = (Inr m, s')
        \<Longrightarrow> \<exists>k b. collect_chunks cs = Inr b \<and> key p = Some k \<and> key (fm_path m) = Some k
              \<and> fm_file_size m = int (length b) \<and> contents s' = (contents s)(k \<mapsto> b)"
    and put_stream_frame: "inv s \<Longrightarrow> fs_put_file_stream fs amb p ct cs s = (r, s')
        \<Longrightarrow> key p \<noteq> Some k \<Longrightarrow> contents s' k = contents s k"
    and stat: "inv s \<Longrightarrow> fs_stat_file fs p s = Inr m
        \<Longrightarrow> \<exists>k b. key p = Some k \<and> key (fm_path m) = Some k \<and> contents s k = Some b
              \<and> fm_file_size m = int (length b)"
    and stat_present: "inv s \<Longrightarrow> key p = Some k \<Longrightarrow> contents s k = Some b
        \<Longrightarrow> \<exists>m. fs_stat_file fs p s = Inr m"
    and delete_inv: "inv s \<Longrightarrow> inv (snd (fs_delete_file fs p s))"
    and delete_ok: "inv s \<Longrightarrow> fs_delete_file fs p s = (Inr u, s')
        \<Longrightarrow> \<exists>k. key p = Some k \<and> contents s k \<noteq> None \<and> contents s' = (contents s)(k := None)"
    and delete_err: "inv s \<Longrightarrow> fs_delete_file fs p s = (Inl e, s') \<Longrightarrow> contents s' = contents s"
    and mkdir_inv: "inv s \<Longrightarrow> inv (snd (fs_create_directory fs amb p s))"
    and mkdir_contents: "inv s \<Longrightarrow> contents (snd (fs_create_directory fs amb p s)) = contents s"
    and rmdir_inv: "inv s \<Longrightarrow> inv (snd (fs_delete_directory fs p s))"
    and rmdir_contents: "inv s \<Longrightarrow> contents (snd (fs_delete_directory fs p s)) = contents s"
    and read_stream_open:
      "inv s \<Longrightarrow> fs_read_file fs p off len s = Inr b
        \<Longrightarrow> \<exists>chunks. fs_read_file_stream fs p off len s = Inr chunks"
begin

lemma put_read:
  assumes "inv s" and "fs_put_file fs amb p ct b s = (Inr m, s')"
  shows "fs_read_file fs p None None s' = Inr b"
  using put_ok [OF assms] put_inv [OF assms(1), of amb p ct b] assms(2) by (auto simp: read_full)

lemma put_stream_read:
  assumes "inv s" and "fs_put_file_stream fs amb p ct cs s = (Inr m, s')"
  shows "fs_read_file fs p None None s' = collect_chunks cs"
  using put_stream_ok [OF assms] put_stream_inv [OF assms(1), of amb p ct cs] assms(2)
  by (auto simp: read_full)

lemma read_other:
  assumes "inv s" and "inv s'" and "\<And>k. key q = Some k \<Longrightarrow> contents s' k = contents s k"
  shows "fs_read_file fs q None None s' = Inr c \<longleftrightarrow> fs_read_file fs q None None s = Inr c"
  using assms by (auto simp: read_full)

lemma put_read_other:
  assumes "inv s" and "fs_put_file fs amb p ct b s = (r, s')" and "key q \<noteq> key p"
  shows "fs_read_file fs q None None s' = Inr c \<longleftrightarrow> fs_read_file fs q None None s = Inr c"
proof (rule read_other [OF assms(1)])
  show "inv s'" using put_inv [OF assms(1), of amb p ct b] assms(2) by simp
  show "contents s' k = contents s k" if "key q = Some k" for k
    using that assms(3) put_ok [OF assms(1)] put_err [OF assms(1)] assms(2)
    by (cases r) (fastforce simp: fun_eq_iff)+
qed

lemma delete_gone:
  assumes "inv s" and "fs_delete_file fs p s = (Inr u, s')"
  shows "fs_read_file fs p None None s' \<noteq> Inr b" and "fs_stat_file fs p s' \<noteq> Inr m"
    and "fst (fs_delete_file fs p s') \<noteq> Inr v"
proof -
  have s': "inv s'" using delete_inv [OF assms(1), of p] assms(2) by simp
  from delete_ok [OF assms] obtain k where k: "key p = Some k" and gone: "contents s' k = None" by auto
  show "fs_read_file fs p None None s' \<noteq> Inr b" using s' k gone by (auto simp: read_full)
  show "fs_stat_file fs p s' \<noteq> Inr m" using stat [OF s'] k gone by fastforce
  show "fst (fs_delete_file fs p s') \<noteq> Inr v"
    using delete_ok [OF s', of p v "snd (fs_delete_file fs p s')"] k gone
    by (auto simp: prod_eq_iff)
qed

end

text \<open>Writing calls, and the map of contents after a sequence of them.\<close>

datatype file_op =
    FPut ambient string "string option" bytes
  | FPutStream ambient string "string option" "bytes store_result list"
  | FDelete string
  | FMkdir ambient string
  | FRmdir string

fun file_step :: "'s file_store \<Rightarrow> file_op \<Rightarrow> 's \<Rightarrow> bool \<times> 's" where
  "file_step fs (FPut amb p ct b) s = map_prod is_ok id (fs_put_file fs amb p ct b s)"
| "file_step fs (FPutStream amb p ct cs) s = map_prod is_ok id (fs_put_file_stream fs amb p ct cs s)"
| "file_step fs (FDelete p) s = map_prod is_ok id (fs_delete_file fs p s)"
| "file_step fs (FMkdir amb p) s = map_prod is_ok id (fs_create_directory fs amb p s)"
| "file_step fs (FRmdir p) s = map_prod is_ok id (fs_delete_directory fs p s)"

fun file_run :: "'s file_store \<Rightarrow> file_op list \<Rightarrow> 's \<Rightarrow> bool list \<times> 's" where
  "file_run fs [] s = ([], s)"
| "file_run fs (c # cs) s =
     (let (ok, s') = file_step fs c s; (oks, s'') = file_run fs cs s' in (ok # oks, s''))"

text \<open>The effect of one call that succeeded, on the map of contents.\<close>

fun content_effect ::
  "(string \<Rightarrow> 'k option) \<Rightarrow> file_op \<Rightarrow> ('k \<Rightarrow> bytes option) \<Rightarrow> 'k \<Rightarrow> bytes option" where
  "content_effect key (FPut amb p ct b) m =
     (case key p of Some k \<Rightarrow> m(k \<mapsto> b) | None \<Rightarrow> m)"
| "content_effect key (FPutStream amb p ct cs) m =
     (case key p of Some k \<Rightarrow> (case collect_chunks cs of Inr b \<Rightarrow> m(k \<mapsto> b) | Inl _ \<Rightarrow> m)
      | None \<Rightarrow> m)"
| "content_effect key (FDelete p) m = (case key p of Some k \<Rightarrow> m(k := None) | None \<Rightarrow> m)"
| "content_effect key (FMkdir amb p) m = m"
| "content_effect key (FRmdir p) m = m"

fun contents_run ::
  "(string \<Rightarrow> 'k option) \<Rightarrow> file_op list \<Rightarrow> bool list \<Rightarrow> ('k \<Rightarrow> bytes option) \<Rightarrow> 'k \<Rightarrow> bytes option"
where
  "contents_run key (c # cs) (ok # oks) m =
     contents_run key cs oks (if ok then content_effect key c m else m)"
| "contents_run key _ _ m = m"

context file_store_contract
begin

lemma step_inv:
  assumes "inv s"
  shows "inv (snd (file_step fs c s))"
  using put_inv [OF assms] put_stream_inv [OF assms] delete_inv [OF assms] mkdir_inv [OF assms]
    rmdir_inv [OF assms] by (cases c) simp_all

lemma step_ok_contents:
  assumes "inv s" and "file_step fs c s = (True, s')"
  shows "contents s' = content_effect key c (contents s)"
proof (cases c)
  case (FPut amb p ct b)
  with assms(2) obtain m where "fs_put_file fs amb p ct b s = (Inr m, s')"
    by (cases "fs_put_file fs amb p ct b s") (auto simp: is_ok_iff)
  from put_ok [OF assms(1) this] FPut show ?thesis by auto
next
  case (FPutStream amb p ct cs)
  with assms(2) obtain m where "fs_put_file_stream fs amb p ct cs s = (Inr m, s')"
    by (cases "fs_put_file_stream fs amb p ct cs s") (auto simp: is_ok_iff)
  from put_stream_ok [OF assms(1) this] FPutStream show ?thesis by auto
next
  case (FDelete p)
  with assms(2) obtain u where "fs_delete_file fs p s = (Inr u, s')"
    by (cases "fs_delete_file fs p s") (auto simp: is_ok_iff)
  from delete_ok [OF assms(1) this] FDelete show ?thesis by auto
next
  case (FMkdir amb p)
  with assms mkdir_contents [OF assms(1), of amb p] show ?thesis
    by (cases "fs_create_directory fs amb p s") auto
next
  case (FRmdir p)
  with assms rmdir_contents [OF assms(1), of p] show ?thesis
    by (cases "fs_delete_directory fs p s") auto
qed

end

section \<open>Stores that answer with the path of the request\<close>

locale echoing_file_store = file_store_contract +
  assumes put_echo: "inv s \<Longrightarrow> fs_put_file fs amb p ct b s = (Inr m, s') \<Longrightarrow> fm_path m = p"
    and put_stream_echo:
      "inv s \<Longrightarrow> fs_put_file_stream fs amb p ct cs s = (Inr m, s') \<Longrightarrow> fm_path m = p"
    and stat_echo: "inv s \<Longrightarrow> fs_stat_file fs p s = Inr m \<Longrightarrow> fm_path m = p"

section \<open>Stores whose failed calls change no contents\<close>

locale atomic_file_store = file_store_contract +
  assumes put_stream_err: "inv s \<Longrightarrow> fs_put_file_stream fs amb p ct cs s = (Inl e, s')
      \<Longrightarrow> contents s' = contents s"
begin

lemma step_err_contents:
  assumes "inv s" and "file_step fs c s = (False, s')"
  shows "contents s' = contents s"
proof (cases c)
  case (FPut amb p ct b)
  with assms(2) put_err [OF assms(1)] show ?thesis
    by (cases "fs_put_file fs amb p ct b s"; cases "fst (fs_put_file fs amb p ct b s)") auto
next
  case (FPutStream amb p ct cs)
  with assms(2) put_stream_err [OF assms(1)] show ?thesis
    by (cases "fs_put_file_stream fs amb p ct cs s";
        cases "fst (fs_put_file_stream fs amb p ct cs s)") auto
next
  case (FDelete p)
  with assms(2) delete_err [OF assms(1)] show ?thesis
    by (cases "fs_delete_file fs p s"; cases "fst (fs_delete_file fs p s)") auto
next
  case (FMkdir amb p)
  with assms mkdir_contents [OF assms(1), of amb p] show ?thesis
    by (cases "fs_create_directory fs amb p s") auto
next
  case (FRmdir p)
  with assms rmdir_contents [OF assms(1), of p] show ?thesis
    by (cases "fs_delete_directory fs p s") auto
qed

text \<open>After any sequence of calls the contents are what the successful ones wrote.\<close>

lemma run_contents:
  "inv s \<Longrightarrow> file_run fs cs s = (oks, s') \<Longrightarrow> contents s' = contents_run key cs oks (contents s) \<and> inv s'"
proof (induction cs arbitrary: s oks s')
  case Nil
  then show ?case by simp
next
  case (Cons c cs)
  obtain ok t where step: "file_step fs c s = (ok, t)" by (cases "file_step fs c s")
  obtain os u where run: "file_run fs cs t = (os, u)" by (cases "file_run fs cs t")
  have "inv t" using step_inv [OF Cons.prems(1), of c] step by simp
  have "contents t = (if ok then content_effect key c (contents s) else contents s)"
    using step_ok_contents [OF Cons.prems(1)] step_err_contents [OF Cons.prems(1)] step
    by (cases ok) auto
  with Cons.IH [OF \<open>inv t\<close> run] Cons.prems(2) step run show ?case by auto
qed

end

end
