(* ===== verification/Host_Fs.thy ===== *)
theory Host_Fs
  imports File_Contract "HOL-Library.Sublist"
begin

text \<open>
  The part of \<^verbatim>\<open>std::fs\<close> (through \<^verbatim>\<open>tokio::fs\<close>) that the local file store calls, on a file system
  without symbolic links: a finite map from absolute paths (lists of component names) to directories
  and files with a modification time in milliseconds. Error kinds and texts are those of Linux. The
  clock reading \<^verbatim>\<open>t\<close> of a call is one value per call. Not modelled: permissions, disk exhaustion, limits
  on name length, and other processes.
\<close>

section \<open>Paths\<close>

text \<open>\<^verbatim>\<open>std::path::Component\<close> and \<^verbatim>\<open>Path::components\<close> (Unix): empty and inner \<^verbatim>\<open>.\<close> segments vanish.\<close>

datatype component = RootDir | CurDir | ParentDir | Normal string

definition path_components :: "string \<Rightarrow> component list" where
  "path_components p =
     (let segs = str_split slash p;
          body = map (\<lambda>s. if s = ''..'' then ParentDir else Normal s)
                   (filter (\<lambda>s. s \<noteq> [] \<and> s \<noteq> ''.'') segs)
      in (if str_starts_with [slash] p then [RootDir]
          else if hd segs = ''.'' then [CurDir] else []) @ body)"

type_synonym os_path = "string list"

definition valid_name :: "string \<Rightarrow> bool" where
  "valid_name s \<longleftrightarrow> s \<noteq> [] \<and> s \<noteq> ''.'' \<and> s \<noteq> ''..'' \<and> slash \<notin> set s"

section \<open>The tree\<close>

datatype node = DirNode int | FileNode int bytes

datatype io_error = Io_NotFound | Io_AlreadyExists | Io_Other string

type_synonym filesystem = "(os_path, node) btree_map"
type_synonym 'a io_result = "io_error + 'a"

definition ENOTDIR :: io_error where
  "ENOTDIR = Io_Other ''Not a directory (os error 20)''"

definition EISDIR :: io_error where
  "EISDIR = Io_Other ''Is a directory (os error 21)''"

definition ENOTEMPTY :: io_error where
  "ENOTEMPTY = Io_Other ''Directory not empty (os error 39)''"

definition EBUSY :: io_error where
  "EBUSY = Io_Other ''Device or resource busy (os error 16)''"

fun is_dir_node :: "node \<Rightarrow> bool" where
  "is_dir_node (DirNode _) = True"
| "is_dir_node (FileNode _ _) = False"

text \<open>Name resolution: every component but the last must be a directory.\<close>

fun fs_walk :: "filesystem \<Rightarrow> os_path \<Rightarrow> os_path \<Rightarrow> node io_result" where
  "fs_walk fs pre [] = ok_or Io_NotFound (bm_get fs pre)"
| "fs_walk fs pre (c # cs) =
     (case bm_get fs pre of
        None \<Rightarrow> Inl Io_NotFound
      | Some (FileNode _ _) \<Rightarrow> Inl ENOTDIR
      | Some (DirNode _) \<Rightarrow> fs_walk fs (pre @ [c]) cs)"

definition fs_metadata :: "os_path \<Rightarrow> filesystem \<Rightarrow> node io_result" where
  "fs_metadata p fs = fs_walk fs [] p"

definition fs_is_dir :: "os_path \<Rightarrow> filesystem \<Rightarrow> bool" where
  "fs_is_dir p fs = (case fs_metadata p fs of Inr n \<Rightarrow> is_dir_node n | Inl _ \<Rightarrow> False)"

definition fs_parent_dir :: "os_path \<Rightarrow> filesystem \<Rightarrow> unit io_result" where
  "fs_parent_dir p fs =
     try_bind (fs_metadata (butlast p) fs) (\<lambda>n. if is_dir_node n then Inr () else Inl ENOTDIR)"

text \<open>Changing the entries of a directory updates its modification time.\<close>

definition fs_touch :: "int \<Rightarrow> os_path \<Rightarrow> filesystem \<Rightarrow> filesystem" where
  "fs_touch t p fs =
     (case bm_get fs p of Some (DirNode _) \<Rightarrow> bm_insert fs p (DirNode t) | _ \<Rightarrow> fs)"

definition fs_mkdir :: "int \<Rightarrow> os_path \<Rightarrow> filesystem \<Rightarrow> unit io_result \<times> filesystem" where
  "fs_mkdir t p fs =
     (if p = [] then (Inl Io_AlreadyExists, fs)
      else case fs_parent_dir p fs of
        Inl e \<Rightarrow> (Inl e, fs)
      | Inr _ \<Rightarrow>
          if bm_contains_key fs p then (Inl Io_AlreadyExists, fs)
          else (Inr (), fs_touch t (butlast p) (bm_insert fs p (DirNode t))))"

function fs_create_dir_all :: "int \<Rightarrow> os_path \<Rightarrow> filesystem \<Rightarrow> unit io_result \<times> filesystem" where
  "fs_create_dir_all t p fs =
     (case fs_mkdir t p fs of
        (Inr u, fs') \<Rightarrow> (Inr u, fs')
      | (Inl e, _) \<Rightarrow>
          if e = Io_NotFound \<and> p \<noteq> [] then
            (case fs_create_dir_all t (butlast p) fs of
               (Inl e', fs') \<Rightarrow> (Inl e', fs')
             | (Inr _, fs') \<Rightarrow>
                 (case fs_mkdir t p fs' of
                    (Inr u, fs'') \<Rightarrow> (Inr u, fs'')
                  | (Inl e', fs'') \<Rightarrow> if fs_is_dir p fs'' then (Inr (), fs'') else (Inl e', fs'')))
          else if fs_is_dir p fs then (Inr (), fs) else (Inl e, fs))"
  by pat_completeness auto
termination
  by (relation "measure (\<lambda>(t, p, fs). length p)") auto

declare fs_create_dir_all.simps [simp del]

text \<open>\<^verbatim>\<open>File::create\<close>, then writes at the end of what was written so far.\<close>

definition fs_create :: "int \<Rightarrow> os_path \<Rightarrow> filesystem \<Rightarrow> unit io_result \<times> filesystem" where
  "fs_create t p fs =
     (if p = [] then (Inl EISDIR, fs)
      else case fs_parent_dir p fs of
        Inl e \<Rightarrow> (Inl e, fs)
      | Inr _ \<Rightarrow>
          (case bm_get fs p of
             Some (DirNode _) \<Rightarrow> (Inl EISDIR, fs)
           | Some (FileNode _ _) \<Rightarrow> (Inr (), bm_insert fs p (FileNode t []))
           | None \<Rightarrow> (Inr (), fs_touch t (butlast p) (bm_insert fs p (FileNode t [])))))"

definition fs_append :: "int \<Rightarrow> os_path \<Rightarrow> bytes \<Rightarrow> filesystem \<Rightarrow> filesystem" where
  "fs_append t p b fs =
     (case bm_get fs p of Some (FileNode _ c) \<Rightarrow> bm_insert fs p (FileNode t (c @ b)) | _ \<Rightarrow> fs)"

definition fs_remove_file :: "int \<Rightarrow> os_path \<Rightarrow> filesystem \<Rightarrow> unit io_result \<times> filesystem" where
  "fs_remove_file t p fs =
     (case fs_metadata p fs of
        Inl e \<Rightarrow> (Inl e, fs)
      | Inr (DirNode _) \<Rightarrow> (Inl EISDIR, fs)
      | Inr (FileNode _ _) \<Rightarrow> (Inr (), fs_touch t (butlast p) (bm_remove fs p)))"

definition fs_children :: "os_path \<Rightarrow> filesystem \<Rightarrow> (string \<times> node) list" where
  "fs_children p fs =
     map (\<lambda>(q, n). (last q, n)) (filter (\<lambda>(q, _). q \<noteq> [] \<and> butlast q = p) fs)"

definition fs_read_dir :: "os_path \<Rightarrow> filesystem \<Rightarrow> (string \<times> node) list io_result" where
  "fs_read_dir p fs =
     (case fs_metadata p fs of
        Inl e \<Rightarrow> Inl e
      | Inr (FileNode _ _) \<Rightarrow> Inl ENOTDIR
      | Inr (DirNode _) \<Rightarrow> Inr (fs_children p fs))"

definition fs_remove_dir :: "int \<Rightarrow> os_path \<Rightarrow> filesystem \<Rightarrow> unit io_result \<times> filesystem" where
  "fs_remove_dir t p fs =
     (case fs_read_dir p fs of
        Inl e \<Rightarrow> (Inl e, fs)
      | Inr names \<Rightarrow>
          if p = [] then (Inl EBUSY, fs)
          else if names \<noteq> [] then (Inl ENOTEMPTY, fs)
          else (Inr (), fs_touch t (butlast p) (bm_remove fs p)))"

section \<open>Well-formed trees\<close>

definition tree_ok :: "filesystem \<Rightarrow> bool" where
  "tree_ok fs \<longleftrightarrow> bm_wf fs \<and> (\<exists>t. bm_get fs [] = Some (DirNode t)) \<and>
     (\<forall>p n. bm_get fs p = Some n \<longrightarrow> p \<noteq> []
        \<longrightarrow> (\<exists>t. bm_get fs (butlast p) = Some (DirNode t)) \<and> valid_name (last p))"

lemma tree_ok_wf [simp]: "tree_ok fs \<Longrightarrow> bm_wf fs"
  by (simp add: tree_ok_def)

lemma tree_ok_root: "tree_ok fs \<Longrightarrow> \<exists>t. bm_get fs [] = Some (DirNode t)"
  by (simp add: tree_ok_def)

lemma tree_ok_parent:
  "tree_ok fs \<Longrightarrow> bm_get fs p = Some n \<Longrightarrow> p \<noteq> [] \<Longrightarrow> \<exists>t. bm_get fs (butlast p) = Some (DirNode t)"
  unfolding tree_ok_def by blast

lemma tree_ok_name: "tree_ok fs \<Longrightarrow> bm_get fs (p @ [c]) = Some n \<Longrightarrow> valid_name c"
  unfolding tree_ok_def by (metis last_snoc snoc_eq_iff_butlast)

text \<open>Every proper prefix of an existing path is a directory.\<close>

lemma tree_ok_prefix:
  assumes "tree_ok fs" and "bm_get fs (p @ q) = Some n" and "q \<noteq> []"
  shows "\<exists>t. bm_get fs p = Some (DirNode t)"
  using assms(2,3)
proof (induction q arbitrary: n rule: rev_induct)
  case Nil
  then show ?case by simp
next
  case (snoc c q)
  from tree_ok_parent [OF assms(1) snoc.prems(1)]
  obtain t where t: "bm_get fs (p @ q) = Some (DirNode t)" by (auto simp: butlast_append)
  with snoc.IH [OF t] show ?case by (cases q) auto
qed

lemma fs_walk_ok_iff:
  "tree_ok fs \<Longrightarrow> fs_walk fs pre cs = Inr n \<longleftrightarrow> bm_get fs (pre @ cs) = Some n"
proof (induction cs arbitrary: pre)
  case Nil
  then show ?case by (simp add: ok_or_Inr_iff)
next
  case (Cons c cs)
  have "\<exists>t. bm_get fs pre = Some (DirNode t)" if "bm_get fs (pre @ c # cs) = Some n"
    using tree_ok_prefix [OF Cons.prems that] by simp
  with Cons.IH [OF Cons.prems, of "pre @ [c]"] show ?case
    by (auto split: option.splits node.splits)
qed

lemma fs_metadata_ok_iff: "tree_ok fs \<Longrightarrow> fs_metadata p fs = Inr n \<longleftrightarrow> bm_get fs p = Some n"
  by (simp add: fs_metadata_def fs_walk_ok_iff)

lemma fs_parent_dir_ok_iff:
  "tree_ok fs \<Longrightarrow> fs_parent_dir p fs = Inr u \<longleftrightarrow> (\<exists>t. bm_get fs (butlast p) = Some (DirNode t))"
proof -
  assume ok: "tree_ok fs"
  have "is_dir_node n \<longleftrightarrow> (\<exists>t. n = DirNode t)" for n by (cases n) auto
  then show ?thesis using fs_metadata_ok_iff [OF ok, of "butlast p"]
    by (auto simp: fs_parent_dir_def try_bind_Inr_iff)
qed

lemma fs_metadata_err_iff: "tree_ok fs \<Longrightarrow> (\<exists>e. fs_metadata p fs = Inl e) \<longleftrightarrow> bm_get fs p = None"
proof -
  assume ok: "tree_ok fs"
  have "(\<exists>e. r = Inl e) \<longleftrightarrow> (\<forall>n. r \<noteq> Inr n)" for r :: "node io_result" by (cases r) auto
  moreover have "o1 = None \<longleftrightarrow> (\<forall>n. o1 \<noteq> Some n)" for o1 :: "node option" by (cases o1) auto
  ultimately show ?thesis using fs_metadata_ok_iff [OF ok, of p] by simp
qed

lemma fs_is_dir_iff:
  assumes "tree_ok fs"
  shows "fs_is_dir p fs \<longleftrightarrow> (\<exists>t. bm_get fs p = Some (DirNode t))"
proof (cases "fs_metadata p fs")
  case (Inl e)
  then have "bm_get fs p = None" using fs_metadata_err_iff [OF assms] by blast
  with Inl show ?thesis by (simp add: fs_is_dir_def)
next
  case (Inr n)
  then have "bm_get fs p = Some n" by (simp add: fs_metadata_ok_iff [OF assms])
  with Inr show ?thesis by (cases n) (simp_all add: fs_is_dir_def)
qed

section \<open>What the calls do to the tree\<close>

lemma bm_get_touch:
  "bm_get (fs_touch t p fs) q =
     (if q = p \<and> (\<exists>t'. bm_get fs p = Some (DirNode t')) then Some (DirNode t) else bm_get fs q)"
  by (auto simp: fs_touch_def bm_get_insert split: option.splits node.splits)

lemma tree_ok_touch: "tree_ok fs \<Longrightarrow> tree_ok (fs_touch t p fs)"
  unfolding tree_ok_def by (auto simp: bm_get_insert fs_touch_def split: option.split node.split)

lemma tree_ok_insert:
  assumes "tree_ok fs" and "p \<noteq> []" and "valid_name (last p)"
    and "bm_get fs (butlast p) = Some (DirNode t)"
    and "\<And>t'. bm_get fs p = Some (DirNode t') \<Longrightarrow> is_dir_node n"
  shows "tree_ok (bm_insert fs p n)"
proof -
  have dir: "\<exists>u. n = DirNode u" if q: "bm_get fs q = Some m" "q \<noteq> []" "butlast q = p" for q m
  proof -
    obtain u where "bm_get fs p = Some (DirNode u)"
      using tree_ok_parent [OF assms(1) q(1,2)] q(3) by blast
    with assms(5) show ?thesis by (cases n) auto
  qed
  have "butlast p \<noteq> p" using assms(2) by (metis append_butlast_last_id append_self_conv not_Cons_self2)
  with assms(1-4) dir show ?thesis
    unfolding tree_ok_def by (auto simp: bm_get_insert)
qed

lemma tree_ok_remove:
  assumes "tree_ok fs" and "p \<noteq> []" and "\<And>q. q \<noteq> [] \<Longrightarrow> butlast q = p \<Longrightarrow> bm_get fs q = None"
  shows "tree_ok (bm_remove fs p)"
proof -
  have "butlast q \<noteq> p" if "bm_get fs q = Some n" and "q \<noteq> []" for q n
    using assms(3) [of q] that by auto
  with assms(1,2) show ?thesis unfolding tree_ok_def by (auto simp: bm_get_remove)
qed

lemma fs_children_set:
  assumes "tree_ok fs"
  shows "(c, n) \<in> set (fs_children p fs) \<longleftrightarrow> bm_get fs (p @ [c]) = Some n"
proof -
  have "(c, n) \<in> set (fs_children p fs) \<longleftrightarrow>
      (\<exists>q. (q, n) \<in> set fs \<and> q \<noteq> [] \<and> butlast q = p \<and> c = last q)"
    by (auto simp: fs_children_def image_iff)
  also have "\<dots> \<longleftrightarrow> (p @ [c], n) \<in> set fs"
    by (metis append_butlast_last_id butlast_snoc last_snoc snoc_eq_iff_butlast)
  finally show ?thesis using bm_entries_get [of fs] assms by simp
qed

lemma fs_children_empty:
  assumes "tree_ok fs" and "fs_children p fs = []" and "q \<noteq> []" and "butlast q = p"
  shows "bm_get fs q = None"
proof (cases "bm_get fs q")
  case (Some n)
  with assms(3,4) have "bm_get fs (p @ [last q]) = Some n" by (metis append_butlast_last_id)
  then have "(last q, n) \<in> set (fs_children p fs)" by (simp add: fs_children_set [OF assms(1)])
  with assms(2) show ?thesis by simp
qed simp

text \<open>The bytes of the files, and what is kept outside a directory.\<close>

definition file_at :: "filesystem \<Rightarrow> os_path \<Rightarrow> bytes option" where
  "file_at fs p = (case bm_get fs p of Some (FileNode _ b) \<Rightarrow> Some b | _ \<Rightarrow> None)"

fun node_shape :: "node \<Rightarrow> (int \<times> bytes) option" where
  "node_shape (DirNode _) = None"
| "node_shape (FileNode t b) = Some (t, b)"

text \<open>
  Outside \<^verbatim>\<open>root\<close> the same paths exist, as the same kind of node, and every file there has the same
  bytes and modification time.
\<close>

definition same_outside :: "os_path \<Rightarrow> filesystem \<Rightarrow> filesystem \<Rightarrow> bool" where
  "same_outside root fs fs' \<longleftrightarrow>
     (\<forall>q. \<not> prefix root q \<longrightarrow>
        map_option node_shape (bm_get fs' q) = map_option node_shape (bm_get fs q))"

lemma same_outside_refl [simp]: "same_outside root fs fs"
  by (simp add: same_outside_def)

lemma same_outside_trans:
  "same_outside root a b \<Longrightarrow> same_outside root b c \<Longrightarrow> same_outside root a c"
  by (simp add: same_outside_def)

lemma same_outside_touch [simp]: "same_outside root fs (fs_touch t p fs)"
  by (auto simp: same_outside_def bm_get_touch)

lemma same_outside_insert [simp]: "prefix root p \<Longrightarrow> same_outside root fs (bm_insert fs p n)"
  by (auto simp: same_outside_def bm_get_insert)

lemma same_outside_remove [simp]:
  "bm_wf fs \<Longrightarrow> prefix root p \<Longrightarrow> same_outside root fs (bm_remove fs p)"
  by (auto simp: same_outside_def bm_get_remove)

lemma file_at_touch [simp]: "file_at (fs_touch t p fs) = file_at fs"
  by (auto simp: file_at_def bm_get_touch fun_eq_iff)

end
