(* ===== verification/Local_Store.thy ===== *)
theory Local_Store
  imports Host_Fs
begin

text \<open>
  \<^verbatim>\<open>crates/portal/src/store/local.rs\<close>: the \<^verbatim>\<open>FileStore\<close> over a real directory. The store is the path
  of its root (canonical, as \<^verbatim>\<open>LocalFileStore::new\<close> leaves it); its state is the file system.
\<close>

section \<open>Sandboxing\<close>

definition path_escapes :: "string \<Rightarrow> store_error" where
  "path_escapes logical = InvalidArgument (''path escapes the home volume: '' @ debug_str logical)"

fun push_components :: "string \<Rightarrow> os_path \<Rightarrow> component list \<Rightarrow> os_path store_result" where
  "push_components logical out [] = Inr out"
| "push_components logical out (Normal seg # cs) = push_components logical (out @ [seg]) cs"
| "push_components logical out (CurDir # cs) = push_components logical out cs"
| "push_components logical out (ParentDir # cs) = Inl (path_escapes logical)"
| "push_components logical out (RootDir # cs) = Inl (path_escapes logical)"

definition local_resolve :: "os_path \<Rightarrow> string \<Rightarrow> os_path store_result" where
  "local_resolve root logical =
     push_components logical root (path_components (trim_start_char slash logical))"

section \<open>Helpers\<close>

fun mtime_millis :: "node \<Rightarrow> int" where
  "mtime_millis (DirNode t) = (if t < 0 then 0 else t)"
| "mtime_millis (FileNode t _) = (if t < 0 then 0 else t)"

fun node_len :: "node \<Rightarrow> int" where
  "node_len (FileNode _ b) = int (length b)"
| "node_len (DirNode _) = 4096"

fun io_err :: "string \<Rightarrow> io_error \<Rightarrow> store_error" where
  "io_err path Io_NotFound = NotFound (debug_str path)"
| "io_err path Io_AlreadyExists = AlreadyExists (debug_str path)"
| "io_err path (Io_Other msg) = Internal (debug_str path @ '': '' @ msg)"

definition guess_content_type :: "string \<Rightarrow> string" where
  "guess_content_type path =
     (let ext = to_ascii_lowercase (rsplit_first CHR ''.'' path) in
      if ext \<in> {''sql'', ''txt'', ''csv''} then ''text/plain''
      else if ext \<in> {''md'', ''markdown''} then ''text/markdown''
      else if ext = ''json'' then ''application/json''
      else ''application/octet-stream'')"

definition local_file_metadata :: "string \<Rightarrow> node \<Rightarrow> file_metadata" where
  "local_file_metadata path m =
     \<lparr>fm_path = path, fm_file_size = node_len m, fm_last_modified = mtime_millis m,
      fm_content_type = guess_content_type path,
      fm_etag = int_to_string (node_len m) @ ''-'' @ int_to_string (mtime_millis m)\<rparr>"

section \<open>Files\<close>

text \<open>The write loop: a failed chunk returns at once and leaves what was written.\<close>

fun write_chunks ::
  "int \<Rightarrow> os_path \<Rightarrow> bytes store_result list \<Rightarrow> filesystem \<Rightarrow> unit store_result \<times> filesystem" where
  "write_chunks t target [] fs = (Inr (), fs)"
| "write_chunks t target (Inl e # cs) fs = (Inl e, fs)"
| "write_chunks t target (Inr b # cs) fs = write_chunks t target cs (fs_append t target b fs)"

definition local_put_file_stream ::
  "os_path \<Rightarrow> ambient \<Rightarrow> string \<Rightarrow> string option \<Rightarrow> bytes store_result list \<Rightarrow> filesystem
    \<Rightarrow> file_metadata store_result \<times> filesystem" where
  "local_put_file_stream root amb path content_type chunks fs =
     (case local_resolve root path of
        Inl e \<Rightarrow> (Inl e, fs)
      | Inr target \<Rightarrow>
          (case (if target = [] then (Inr (), fs)
                 else fs_create_dir_all (now_millis amb) (butlast target) fs) of
             (Inl e, fs1) \<Rightarrow> (Inl (io_err path e), fs1)
           | (Inr _, fs1) \<Rightarrow>
               (case fs_create (now_millis amb) target fs1 of
                  (Inl e, fs2) \<Rightarrow> (Inl (io_err path e), fs2)
                | (Inr _, fs2) \<Rightarrow>
                    (case write_chunks (now_millis amb) target chunks fs2 of
                       (Inl e, fs3) \<Rightarrow> (Inl e, fs3)
                     | (Inr _, fs3) \<Rightarrow>
                         (map_err (io_err path)
                            (map_ok (local_file_metadata path) (fs_metadata target fs3)), fs3)))))"

definition local_put_file ::
  "os_path \<Rightarrow> ambient \<Rightarrow> string \<Rightarrow> string option \<Rightarrow> bytes \<Rightarrow> filesystem
    \<Rightarrow> file_metadata store_result \<times> filesystem" where
  "local_put_file root amb path content_type contents =
     local_put_file_stream root amb path content_type [Inr contents]"

text \<open>
  On Linux a directory opens for reading; reading from it fails, unless zero bytes are asked for.
  A seek past the end succeeds and reads nothing.
\<close>

definition local_read_file ::
  "os_path \<Rightarrow> string \<Rightarrow> int option \<Rightarrow> int option \<Rightarrow> filesystem \<Rightarrow> bytes store_result" where
  "local_read_file root path offset len fs =
     try_bind (local_resolve root path) (\<lambda>target.
       try_bind (map_err (io_err path) (fs_metadata target fs)) (\<lambda>n.
         let start = nat (max 0 (unwrap_or 0 offset));
             limit = (case len of Some l \<Rightarrow> if 0 \<le> l then Some (nat l) else None | None \<Rightarrow> None)
         in case n of
              DirNode _ \<Rightarrow> if limit = Some 0 then Inr [] else Inl (io_err path EISDIR)
            | FileNode _ b \<Rightarrow>
                Inr (case limit of Some l \<Rightarrow> take l (drop start b) | None \<Rightarrow> drop start b)))"

definition local_read_file_stream ::
  "os_path \<Rightarrow> string \<Rightarrow> int option \<Rightarrow> int option \<Rightarrow> filesystem
    \<Rightarrow> bytes store_result list store_result" where
  "local_read_file_stream root path offset len fs =
     map_ok (\<lambda>b. [Inr b]) (local_read_file root path offset len fs)"

definition local_stat_file :: "os_path \<Rightarrow> string \<Rightarrow> filesystem \<Rightarrow> file_metadata store_result" where
  "local_stat_file root path fs =
     try_bind (local_resolve root path) (\<lambda>target.
       try_bind (map_err (io_err path) (fs_metadata target fs)) (\<lambda>n.
         if is_dir_node n
         then Inl (InvalidArgument (debug_str path @ '' is a directory, not a file''))
         else Inr (local_file_metadata path n)))"

definition local_delete_file ::
  "os_path \<Rightarrow> int \<Rightarrow> string \<Rightarrow> filesystem \<Rightarrow> unit store_result \<times> filesystem" where
  "local_delete_file root t path fs =
     (case local_resolve root path of
        Inl e \<Rightarrow> (Inl e, fs)
      | Inr target \<Rightarrow> (let (r, fs') = fs_remove_file t target fs in (map_err (io_err path) r, fs')))"

section \<open>Directories\<close>

definition local_create_directory ::
  "os_path \<Rightarrow> ambient \<Rightarrow> string \<Rightarrow> filesystem \<Rightarrow> directory_metadata store_result \<times> filesystem" where
  "local_create_directory root amb path fs =
     (case local_resolve root path of
        Inl e \<Rightarrow> (Inl e, fs)
      | Inr target \<Rightarrow>
          (case fs_create_dir_all (now_millis amb) target fs of
             (Inl e, fs') \<Rightarrow> (Inl (io_err path e), fs')
           | (Inr _, fs') \<Rightarrow>
               (map_ok (\<lambda>m. \<lparr>dm_path = path, dm_last_modified = mtime_millis m\<rparr>)
                  (map_err (io_err path) (fs_metadata target fs')), fs')))"

definition local_delete_directory ::
  "os_path \<Rightarrow> int \<Rightarrow> string \<Rightarrow> filesystem \<Rightarrow> unit store_result \<times> filesystem" where
  "local_delete_directory root t path fs =
     (case local_resolve root path of
        Inl e \<Rightarrow> (Inl e, fs)
      | Inr target \<Rightarrow>
          (case fs_read_dir target fs of
             Inl e \<Rightarrow> (Inl (io_err path e), fs)
           | Inr names \<Rightarrow>
               if names \<noteq> [] then (Inl (dir_not_empty path), fs)
               else (let (r, fs') = fs_remove_dir t target fs in (map_err (io_err path) r, fs'))))"

definition local_stat_directory ::
  "os_path \<Rightarrow> string \<Rightarrow> filesystem \<Rightarrow> directory_metadata store_result" where
  "local_stat_directory root path fs =
     try_bind (local_resolve root path) (\<lambda>target.
       try_bind (map_err (io_err path) (fs_metadata target fs)) (\<lambda>n.
         if \<not> is_dir_node n
         then Inl (InvalidArgument (debug_str path @ '' is a file, not a directory''))
         else Inr \<lparr>dm_path = path, dm_last_modified = mtime_millis n\<rparr>))"

section \<open>Listings\<close>

definition child_logical :: "string \<Rightarrow> string \<Rightarrow> string" where
  "child_logical parent name =
     (let base = trim_end_char slash parent in
      if base = [] then [slash] @ name else base @ [slash] @ name)"

definition child_entry :: "string \<Rightarrow> string \<times> node \<Rightarrow> directory_entry" where
  "child_entry path c =
     (case c of (name, m) \<Rightarrow>
        if is_dir_node m
        then \<lparr>de_path = child_logical path name, de_is_directory = True, de_file_size = 0,
              de_last_modified = mtime_millis m\<rparr>
        else \<lparr>de_path = child_logical path name, de_is_directory = False,
              de_file_size = node_len m, de_last_modified = mtime_millis m\<rparr>)"

definition read_children ::
  "os_path \<Rightarrow> string \<Rightarrow> filesystem \<Rightarrow> directory_entry list store_result" where
  "read_children root path fs =
     try_bind (local_resolve root path) (\<lambda>dir.
       case fs_read_dir dir fs of
         Inr rd \<Rightarrow> Inr (sort_key de_path (map (child_entry path) rd))
       | Inl e \<Rightarrow> if e = Io_NotFound then Inr [] else Inl (io_err path e))"

text \<open>
  \<^verbatim>\<open>walk\<close>'s loop over its stack of directories (the end of the vector is the head of the list). Fuel
  counts the directories popped.
\<close>

fun walk_loop ::
  "nat \<Rightarrow> os_path \<Rightarrow> filesystem \<Rightarrow> string list \<Rightarrow> directory_entry list
    \<Rightarrow> directory_entry list store_result option" where
  "walk_loop fuel root fs [] out = Some (Inr out)"
| "walk_loop 0 root fs (current # stack) out = None"
| "walk_loop (Suc fuel) root fs (current # stack) out =
     (case read_children root current fs of
        Inl e \<Rightarrow> Some (Inl e)
      | Inr entries \<Rightarrow>
          walk_loop fuel root fs
            (rev (map de_path (filter de_is_directory entries)) @ stack)
            (out @ filter (\<lambda>e. \<not> de_is_directory e) entries))"

definition local_walk :: "os_path \<Rightarrow> string \<Rightarrow> filesystem \<Rightarrow> directory_entry list store_result" where
  "local_walk root path fs =
     unwrap_or (Inl (Internal ''walk'')) (walk_loop (Suc (length fs)) root fs [path] [])"

definition local_list_directory ::
  "os_path \<Rightarrow> string \<Rightarrow> page \<Rightarrow> filesystem \<Rightarrow> (directory_entry list \<times> string option) store_result" where
  "local_list_directory root path p fs =
     map_ok (\<lambda>entries. paginate entries p) (read_children root path fs)"

definition local_list_files_opts ::
  "os_path \<Rightarrow> string \<Rightarrow> list_opts \<Rightarrow> filesystem \<Rightarrow> directory_entry store_result list store_result" where
  "local_list_files_opts root path opts fs =
     map_ok (\<lambda>entries. map Inr (cap_entries opts (sort_key de_path entries)))
       (if lo_recursive opts then local_walk root path fs else read_children root path fs)"

text \<open>
  The trait object. The modification time that deleting an entry gives the directory it was in is
  the reading \<^verbatim>\<open>t\<close> of the kernel's clock.
\<close>

definition local_file_store :: "os_path \<Rightarrow> int \<Rightarrow> filesystem file_store" where
  "local_file_store root t =
     \<lparr>fs_put_file = local_put_file root, fs_put_file_stream = local_put_file_stream root,
      fs_read_file = local_read_file root, fs_read_file_stream = local_read_file_stream root,
      fs_stat_file = local_stat_file root, fs_delete_file = local_delete_file root t,
      fs_create_directory = local_create_directory root,
      fs_delete_directory = local_delete_directory root t,
      fs_stat_directory = local_stat_directory root, fs_list_directory = local_list_directory root,
      fs_list_files_opts = local_list_files_opts root\<rparr>"

end
