(* ===== verification/Memory_File_Facts.thy ===== *)
theory Memory_File_Facts
  imports File_Contract
begin

text \<open>
  What the memory store's file operations do: they meet the contents contract, range reads are
  slices, listings hold exactly the children (or everything below), and a listing resumed page by page
  after the last path it returned covers everything once.
\<close>

lemmas mem_file_defs =
  memory_file_store_def mem_put_file_def mem_put_file_stream_def mem_read_file_def
  mem_read_file_stream_def mem_stat_file_def mem_delete_file_def mem_create_directory_def
  mem_delete_directory_def mem_stat_directory_def mem_list_directory_def mem_list_files_opts_def

section \<open>The contents contract\<close>

definition mem_file_inv :: "memory_store \<Rightarrow> bool" where
  "mem_file_inv s \<longleftrightarrow> bm_wf (files s) \<and> bm_wf (directories s) \<and>
     bm_get (files s) [] = None \<and> bm_get (directories s) [] = None"

definition mem_contents :: "memory_store \<Rightarrow> string \<Rightarrow> bytes option" where
  "mem_contents s p = map_option sf_bytes (bm_get (files s) p)"

lemma mem_file_inv_new [simp]: "mem_file_inv new_memory_store"
  by (simp add: mem_file_inv_def new_memory_store_def)

lemma mem_read_full:
  "mem_read_file p None None s = Inr b \<longleftrightarrow> mem_contents s p = Some b"
  by (cases "bm_get (files s) p") (simp_all add: mem_read_file_def mem_contents_def)

lemma mem_put_file_cases:
  assumes "mem_put_file amb p ct b s = (r, s')"
  obtains "p = []" "s' = s" "r = Inl (InvalidArgument ''path is required'')"
  | f where "p \<noteq> []" "sf_bytes f = b" "r = Inr (mem_file_metadata p f)"
      "s' = s\<lparr>files := bm_insert (files s) p f\<rparr>"
proof (cases "p = []")
  case True
  with assms that(1) show ?thesis by (simp add: mem_put_file_def)
next
  case False
  let ?f = "\<lparr>sf_content_type = unwrap_or ''application/octet-stream'' ct,
              sf_last_modified = now_millis amb, sf_bytes = b\<rparr>"
  show ?thesis
    by (rule that(2) [of ?f]) (use False assms in \<open>simp_all add: mem_put_file_def Let_def\<close>)
qed

lemma mem_put_file_inv: "mem_file_inv s \<Longrightarrow> mem_file_inv (snd (mem_put_file amb p ct b s))"
  by (auto simp: mem_put_file_def mem_file_inv_def Let_def bm_get_insert)

lemma mem_put_file_ok:
  assumes "mem_file_inv s" and "mem_put_file amb p ct b s = (Inr m, s')"
  shows "fm_path m = p \<and> fm_file_size m = int (length b) \<and> mem_contents s' = (mem_contents s)(p \<mapsto> b)"
  using assms(2) by (rule mem_put_file_cases)
    (auto simp: mem_file_metadata_def mem_contents_def fun_eq_iff bm_get_insert)

interpretation mem_files: atomic_file_store memory_file_store mem_file_inv Some mem_contents
proof unfold_locales
  fix s s' amb p ct b m cs off len chunks r k u e
  show "mem_file_inv s \<Longrightarrow> (fs_read_file memory_file_store p None None s = Inr b)
      = (\<exists>k. Some p = Some k \<and> mem_contents s k = Some b)"
    by (simp add: memory_file_store_def mem_read_full)
  show "mem_file_inv s \<Longrightarrow> fs_read_file_stream memory_file_store p off len s = Inr chunks
      \<Longrightarrow> collect_chunks chunks = fs_read_file memory_file_store p off len s"
    by (auto simp: memory_file_store_def mem_read_file_stream_def map_ok_Inr_iff)
  show "mem_file_inv s \<Longrightarrow> mem_file_inv (snd (fs_put_file memory_file_store amb p ct b s))"
    by (simp add: memory_file_store_def mem_put_file_inv)
  show "mem_file_inv s \<Longrightarrow> fs_put_file memory_file_store amb p ct b s = (Inr m, s')
      \<Longrightarrow> \<exists>k. Some p = Some k \<and> Some (fm_path m) = Some k \<and> fm_file_size m = int (length b)
            \<and> mem_contents s' = (mem_contents s)(k \<mapsto> b)"
    using mem_put_file_ok by (simp add: memory_file_store_def)
  show "mem_file_inv s \<Longrightarrow> fs_put_file memory_file_store amb p ct b s = (Inl e, s')
      \<Longrightarrow> mem_contents s' = mem_contents s"
    by (auto simp: memory_file_store_def elim: mem_put_file_cases)
  show "mem_file_inv s \<Longrightarrow> mem_file_inv (snd (fs_put_file_stream memory_file_store amb p ct cs s))"
    by (simp add: memory_file_store_def mem_put_file_stream_def mem_put_file_inv split: sum.split)
  show "mem_file_inv s \<Longrightarrow> fs_put_file_stream memory_file_store amb p ct cs s = (Inr m, s')
      \<Longrightarrow> \<exists>k b. collect_chunks cs = Inr b \<and> Some p = Some k \<and> Some (fm_path m) = Some k
            \<and> fm_file_size m = int (length b) \<and> mem_contents s' = (mem_contents s)(k \<mapsto> b)"
    using mem_put_file_ok by (fastforce simp: memory_file_store_def mem_put_file_stream_def split: sum.splits)
  show "mem_file_inv s \<Longrightarrow> fs_put_file_stream memory_file_store amb p ct cs s = (r, s')
      \<Longrightarrow> Some p \<noteq> Some k \<Longrightarrow> mem_contents s' k = mem_contents s k"
    by (auto simp: memory_file_store_def mem_put_file_stream_def mem_contents_def bm_get_insert
        split: sum.splits elim!: mem_put_file_cases)
  show "mem_file_inv s \<Longrightarrow> fs_put_file_stream memory_file_store amb p ct cs s = (Inl e, s')
      \<Longrightarrow> mem_contents s' = mem_contents s"
    by (auto simp: memory_file_store_def mem_put_file_stream_def split: sum.splits
        elim!: mem_put_file_cases)
  show "mem_file_inv s \<Longrightarrow> fs_stat_file memory_file_store p s = Inr m
      \<Longrightarrow> \<exists>k b. Some p = Some k \<and> Some (fm_path m) = Some k \<and> mem_contents s k = Some b
            \<and> fm_file_size m = int (length b)"
    by (auto simp: memory_file_store_def mem_stat_file_def mem_contents_def mem_file_metadata_def
        ok_or_Inr_iff)
  show "mem_file_inv s \<Longrightarrow> Some p = Some k \<Longrightarrow> mem_contents s k = Some b
      \<Longrightarrow> \<exists>m. fs_stat_file memory_file_store p s = Inr m"
    by (auto simp: memory_file_store_def mem_stat_file_def mem_contents_def)
  show "mem_file_inv s \<Longrightarrow> mem_file_inv (snd (fs_delete_file memory_file_store p s))"
    by (auto simp: memory_file_store_def mem_delete_file_def mem_file_inv_def bm_get_remove)
  show "mem_file_inv s \<Longrightarrow> fs_delete_file memory_file_store p s = (Inr u, s')
      \<Longrightarrow> \<exists>k. Some p = Some k \<and> mem_contents s k \<noteq> None \<and> mem_contents s' = (mem_contents s)(k := None)"
    by (auto simp: memory_file_store_def mem_delete_file_def mem_file_inv_def mem_contents_def
        ok_or_Inr_iff bm_get_remove fun_eq_iff)
  show "mem_file_inv s \<Longrightarrow> fs_delete_file memory_file_store p s = (Inl e, s')
      \<Longrightarrow> mem_contents s' = mem_contents s"
    by (cases "bm_get (files s) p") (auto simp: memory_file_store_def mem_delete_file_def
        mem_file_inv_def mem_contents_def bm_get_remove fun_eq_iff)
  show "mem_file_inv s \<Longrightarrow> mem_file_inv (snd (fs_create_directory memory_file_store amb p s))"
    by (auto simp: memory_file_store_def mem_create_directory_def mem_file_inv_def bm_get_insert)
  show "mem_file_inv s \<Longrightarrow> mem_contents (snd (fs_create_directory memory_file_store amb p s))
      = mem_contents s"
    by (auto simp: memory_file_store_def mem_create_directory_def mem_contents_def fun_eq_iff)
  show "mem_file_inv s \<Longrightarrow> mem_file_inv (snd (fs_delete_directory memory_file_store p s))"
    by (auto simp: memory_file_store_def mem_delete_directory_def mem_file_inv_def Let_def bm_get_remove)
  show "mem_file_inv s \<Longrightarrow> mem_contents (snd (fs_delete_directory memory_file_store p s))
      = mem_contents s"
    by (auto simp: memory_file_store_def mem_delete_directory_def mem_contents_def Let_def fun_eq_iff)
  show "mem_file_inv s \<Longrightarrow> fs_read_file memory_file_store p off len s = Inr b
      \<Longrightarrow> \<exists>chunks. fs_read_file_stream memory_file_store p off len s = Inr chunks"
    by (simp add: memory_file_store_def mem_read_file_stream_def)
qed

interpretation mem_files: echoing_file_store memory_file_store mem_file_inv Some mem_contents
proof unfold_locales
  fix s s' amb p ct b m cs
  show "mem_file_inv s \<Longrightarrow> fs_put_file memory_file_store amb p ct b s = (Inr m, s') \<Longrightarrow> fm_path m = p"
    using mem_put_file_ok by (simp add: memory_file_store_def)
  show "mem_file_inv s \<Longrightarrow> fs_put_file_stream memory_file_store amb p ct cs s = (Inr m, s')
      \<Longrightarrow> fm_path m = p"
    using mem_put_file_ok by (auto simp: memory_file_store_def mem_put_file_stream_def split: sum.splits)
  show "mem_file_inv s \<Longrightarrow> fs_stat_file memory_file_store p s = Inr m \<Longrightarrow> fm_path m = p"
    by (auto simp: memory_file_store_def mem_stat_file_def mem_file_metadata_def ok_or_Inr_iff)
qed

section \<open>Range reads\<close>

lemma mem_read_range:
  assumes "bm_get (files s) p = Some f" and "0 \<le> a" and "a \<le> int (length (sf_bytes f))" and "0 \<le> n"
  shows "mem_read_file p (Some a) (Some n) s = Inr (take (nat n) (drop (nat a) (sf_bytes f)))"
  using assms by (auto simp: mem_read_file_def Let_def min_def nat_le_iff not_less)

lemma mem_read_from:
  assumes "bm_get (files s) p = Some f" and "0 \<le> a" and "a \<le> int (length (sf_bytes f))"
  shows "mem_read_file p (Some a) None s = Inr (drop (nat a) (sf_bytes f))"
  using assms by (auto simp: mem_read_file_def Let_def nat_le_iff not_less)

lemma mem_read_past_end:
  assumes "bm_get (files s) p = Some f" and "int (length (sf_bytes f)) < a"
  shows "\<exists>msg. mem_read_file p (Some a) n s = Inl (InvalidArgument msg)"
  using assms by (simp add: mem_read_file_def Let_def)

section \<open>Directories\<close>

definition below :: "string \<Rightarrow> string \<Rightarrow> bool" where
  "below prefix p \<longleftrightarrow> (\<exists>rest. rest \<noteq> [] \<and> p = prefix @ rest)"

text \<open>A directory is deleted only when nothing is stored under it; nothing else changes.\<close>

lemma mem_delete_directory_ok:
  assumes "mem_file_inv s" and "mem_delete_directory path s = (Inr (), s')"
  shows "bm_get (directories s) path \<noteq> None"
    and "bm_get (files s) p \<noteq> None \<Longrightarrow> \<not> str_starts_with (dir_prefix path) p"
    and "bm_get (directories s) p \<noteq> None \<Longrightarrow> p \<noteq> path \<Longrightarrow> \<not> str_starts_with (dir_prefix path) p"
    and "files s' = files s"
    and "bm_get (directories s') p = (if p = path then None else bm_get (directories s) p)"
  using assms
  by (auto simp: mem_delete_directory_def Let_def list_ex_iff set_bm_keys mem_file_inv_def
      ok_or_Inr_iff bm_get_remove split: if_splits)

lemma mem_delete_directory_not_empty:
  assumes "bm_get (files s) p \<noteq> None" and "str_starts_with (dir_prefix path) p"
  shows "mem_delete_directory path s = (Inl (dir_not_empty path), s)"
proof -
  have "list_ex (str_starts_with (dir_prefix path)) (bm_keys (files s))"
    using assms by (auto simp: list_ex_iff set_bm_keys)
  then show ?thesis by (simp add: mem_delete_directory_def Let_def)
qed

section \<open>Listings\<close>

text \<open>\<^verbatim>\<open>cap_entries\<close> on a listing whose paths strictly increase: a suffix, then a prefix of it.\<close>

definition after_entries :: "string option \<Rightarrow> directory_entry list \<Rightarrow> directory_entry list" where
  "after_entries start es =
     (case start of Some a \<Rightarrow> filter (\<lambda>e. a < de_path e) es | None \<Rightarrow> es)"

lemma cap_entries_alt:
  "cap_entries opts es =
     (case lo_max_results opts of Some n \<Rightarrow> take n (after_entries (lo_start_after opts) es)
      | None \<Rightarrow> after_entries (lo_start_after opts) es)"
  by (simp add: cap_entries_def after_entries_def Let_def split: option.split)

text \<open>
  A client that lists with a cap and resumes after the last path it got, until a short answer.
\<close>

fun resume_all ::
  "nat \<Rightarrow> (list_opts \<Rightarrow> directory_entry list) \<Rightarrow> bool \<Rightarrow> nat \<Rightarrow> string option \<Rightarrow> directory_entry list option"
where
  "resume_all 0 lister recv n start = None"
| "resume_all (Suc fuel) lister recv n start =
     (let xs = lister \<lparr>lo_recursive = recv, lo_start_after = start, lo_max_results = Some n\<rparr> in
      if length xs < n then Some xs
      else map_option ((@) xs) (resume_all fuel lister recv n (Some (de_path (last xs)))))"

lemma after_sorted: "sorted_wrt (<) (map de_path es) \<Longrightarrow> sorted_wrt (<) (map de_path (after_entries st es))"
  by (cases st) (auto simp: after_entries_def sorted_wrt_map sorted_wrt_filter)

lemma filter_after_nth:
  assumes "sorted_wrt (<) (map de_path ys)" and "n < length ys"
  shows "filter (\<lambda>e. de_path (ys ! n) < de_path e) ys = drop (Suc n) ys"
  using assms
proof (induction ys arbitrary: n)
  case Nil
  then show ?case by simp
next
  case (Cons y ys)
  show ?case
  proof (cases n)
    case 0
    with Cons.prems show ?thesis by (auto simp: sorted_wrt_map intro: filter_True_id)
  next
    case (Suc m)
    with Cons.prems have "de_path y < de_path (ys ! m)" by (simp add: sorted_wrt_map)
    then have "\<not> de_path (ys ! m) < de_path y" by simp
    with Suc Cons show ?thesis by simp
  qed
qed

lemma after_last_take:
  assumes "sorted_wrt (<) (map de_path es)" and "0 < n" and "n \<le> length (after_entries st es)"
  shows "after_entries (Some (de_path (last (take n (after_entries st es))))) es
    = drop n (after_entries st es)"
proof -
  let ?ys = "after_entries st es" and ?l = "after_entries st es ! (n - 1)"
  have last: "last (take n ?ys) = ?l"
    using assms(2,3) by (subst last_conv_nth) auto
  have "?l \<in> set ?ys" using assms(2,3) by simp
  then have "after_entries (Some (de_path ?l)) es = filter (\<lambda>e. de_path ?l < de_path e) ?ys"
    by (cases st) (auto simp: after_entries_def intro!: filter_cong)
  also have "\<dots> = drop (Suc (n - 1)) ?ys"
    using assms by (intro filter_after_nth after_sorted) auto
  finally show ?thesis using last assms(2) by simp
qed

lemma resume_cap_entries:
  assumes "sorted_wrt (<) (map de_path es)" and "0 < n"
    and "length (after_entries start es) < fuel"
  shows "resume_all fuel (\<lambda>o1. cap_entries o1 es) recv n start = Some (after_entries start es)"
  using assms(3)
proof (induction fuel arbitrary: start)
  case 0
  then show ?case by simp
next
  case (Suc fuel)
  let ?ys = "after_entries start es" and ?p = "Some (de_path (last (take n (after_entries start es))))"
  show ?case
  proof (cases "length ?ys < n")
    case True
    then show ?thesis by (simp add: cap_entries_alt)
  next
    case False
    then have rest: "after_entries ?p es = drop n ?ys"
      using assms(1,2) by (intro after_last_take) auto
    have "length (after_entries ?p es) < fuel"
      unfolding rest using Suc.prems assms(2) False by simp
    from Suc.IH [OF this] rest False show ?thesis by (simp add: cap_entries_alt Let_def)
  qed
qed

text \<open>The recursive scan is a filter of the file map, so its paths strictly increase.\<close>

lemma scan_recursive:
  "scan_files prefix True seen fs = map (\<lambda>(p, f). file_entry p f) (filter (\<lambda>(p, _). below prefix p) fs)"
proof (induction fs)
  case Nil
  then show ?case by simp
next
  case (Cons pf fs)
  obtain p f where pf: "pf = (p, f)" by fastforce
  have "below prefix p \<longleftrightarrow> (\<exists>rest. str_strip_prefix prefix p = Some rest \<and> rest \<noteq> [])"
    by (auto simp: below_def str_strip_prefix_Some_iff)
  with Cons pf show ?case by (cases "str_strip_prefix prefix p") auto
qed

lemma file_entry_path [simp]: "de_path (file_entry p f) = p"
  by (simp add: file_entry_def)

lemma scan_recursive_sorted:
  assumes "bm_wf fs"
  shows "sorted_wrt (<) (map de_path (scan_files prefix True seen fs))"
proof -
  have "map de_path (scan_files prefix True seen fs) = map fst (filter (\<lambda>(p, _). below prefix p) fs)"
    by (simp add: scan_recursive case_prod_unfold)
  then show ?thesis using assms bm_wf_filter [OF assms] by (simp add: bm_wf_def)
qed

lemma mem_list_recursive:
  assumes "mem_file_inv s" and "lo_recursive opts"
  shows "mem_list_files_opts path opts s
    = Inr (map Inr (cap_entries opts (scan_files (dir_prefix path) True [] (files s))))"
proof -
  have "sorted (map de_path (scan_files (dir_prefix path) True [] (files s)))"
    using scan_recursive_sorted assms(1) unfolding mem_file_inv_def strict_sorted_iff by blast
  then show ?thesis using assms(2)
    by (simp add: mem_list_files_opts_def Let_def sort_key_id_if_sorted)
qed

text \<open>The folder view: every direct file, and every subfolder that holds something, once.\<close>

definition direct_file :: "string \<Rightarrow> string \<Rightarrow> bool" where
  "direct_file prefix p \<longleftrightarrow> (\<exists>rest. rest \<noteq> [] \<and> slash \<notin> set rest \<and> p = prefix @ rest)"

definition subfolder :: "string \<Rightarrow> string \<Rightarrow> string \<Rightarrow> bool" where
  "subfolder prefix dir p \<longleftrightarrow> (\<exists>r. slash \<notin> set dir \<and> p = prefix @ dir @ slash # r)"

lemma scan_folders_distinct:
  "distinct (map de_path (filter de_is_directory (scan_files prefix False seen fs))) \<and>
   (\<forall>e \<in> set (filter de_is_directory (scan_files prefix False seen fs)).
      \<exists>dir. de_path e = prefix @ dir \<and> dir \<notin> set seen)"
proof (induction fs arbitrary: seen)
  case Nil
  then show ?case by simp
next
  case (Cons pf fs)
  obtain p f where pf: "pf = (p, f)" by fastforce
  show ?case
    using Cons.IH [of seen] Cons.IH [of "d # seen" for d] unfolding pf
    by (auto simp: file_entry_def split: option.splits) fastforce+
qed

lemma direct_file_strip:
  "direct_file prefix p \<longleftrightarrow>
     (case str_strip_prefix prefix p of None \<Rightarrow> False
      | Some rest \<Rightarrow> rest \<noteq> [] \<and> str_split_once slash rest = None)"
proof (cases "str_strip_prefix prefix p")
  case None
  then have "\<forall>r. p \<noteq> prefix @ r" by (simp add: str_strip_prefix_None_iff)
  with None show ?thesis by (simp only: direct_file_def) simp
next
  case (Some rest)
  then have "p = prefix @ rest" by (simp add: str_strip_prefix_Some_iff)
  then show ?thesis by (auto simp: direct_file_def str_split_once_None_iff)
qed

lemma subfolder_strip:
  "subfolder prefix dir p \<longleftrightarrow>
     (case str_strip_prefix prefix p of None \<Rightarrow> False
      | Some rest \<Rightarrow> \<exists>r. str_split_once slash rest = Some (dir, r))"
proof (cases "str_strip_prefix prefix p")
  case None
  then have "\<forall>r. p \<noteq> prefix @ r" by (simp add: str_strip_prefix_None_iff)
  with None show ?thesis by (simp only: subfolder_def) simp
next
  case (Some rest)
  then have "p = prefix @ rest" by (simp add: str_strip_prefix_Some_iff)
  then show ?thesis by (auto simp: subfolder_def str_split_once_Some_iff)
qed

definition folder_entry :: "string \<Rightarrow> string \<Rightarrow> directory_entry" where
  "folder_entry prefix dir =
     \<lparr>de_path = prefix @ dir, de_is_directory = True, de_file_size = 0, de_last_modified = 0\<rparr>"

lemma scan_folders_set:
  "e \<in> set (scan_files prefix False seen fs) \<longleftrightarrow>
     (\<exists>p f. (p, f) \<in> set fs \<and> direct_file prefix p \<and> e = file_entry p f) \<or>
     (\<exists>p f dir. (p, f) \<in> set fs \<and> subfolder prefix dir p \<and> dir \<notin> set seen \<and>
        e = folder_entry prefix dir)"
proof (induction fs arbitrary: seen)
  case Nil
  then show ?case by simp
next
  case (Cons pf fs)
  obtain p f where pf: "pf = (p, f)" by fastforce
  show ?case
  proof (cases "str_strip_prefix prefix p")
    case None
    then have "\<not> direct_file prefix p" "\<And>d. \<not> subfolder prefix d p"
      by (simp_all add: direct_file_strip subfolder_strip)
    with None show ?thesis by (auto simp: pf Cons.IH)
  next
    case (Some rest)
    note strip = this
    show ?thesis
    proof (cases "str_split_once slash rest")
      case None
      with strip have "direct_file prefix p \<longleftrightarrow> rest \<noteq> []" "\<And>d. \<not> subfolder prefix d p"
        by (simp_all add: direct_file_strip subfolder_strip)
      with strip None show ?thesis by (auto simp: pf Cons.IH)
    next
      case (Some ab)
      obtain d r where ab: "ab = (d, r)" by fastforce
      with strip Some have facts: "rest \<noteq> []" "\<not> direct_file prefix p"
        "\<And>d'. subfolder prefix d' p \<longleftrightarrow> d' = d"
        by (auto simp: direct_file_strip subfolder_strip)
      show ?thesis
        by (cases "d \<in> set seen")
          (use strip Some ab facts in \<open>auto simp: pf Cons.IH folder_entry_def [symmetric]\<close>)
    qed
  qed
qed

section \<open>The paged listing of a directory\<close>

definition dir_entry_of :: "string \<Rightarrow> int \<Rightarrow> directory_entry" where
  "dir_entry_of d ts =
     \<lparr>de_path = d, de_is_directory = True, de_file_size = 0, de_last_modified = ts\<rparr>"

definition children :: "string \<Rightarrow> memory_store \<Rightarrow> directory_entry list" where
  "children path s =
     sort_key de_path
       (map (\<lambda>(d, ts). dir_entry_of d ts) (filter (\<lambda>(d, _). is_direct_child (dir_prefix path) d) (directories s))
        @ map (\<lambda>(q, f). file_entry q f) (filter (\<lambda>(q, _). is_direct_child (dir_prefix path) q) (files s)))"

lemma mem_list_directory_alt: "mem_list_directory path p s = Inr (paginate (children path s) p)"
  by (simp add: mem_list_directory_def children_def dir_entry_of_def Let_def)

lemma children_sorted: "sorted (map de_path (children path s))"
  by (simp add: children_def)

lemma set_children:
  assumes "mem_file_inv s"
  shows "e \<in> set (children path s) \<longleftrightarrow>
     (\<exists>d ts. bm_get (directories s) d = Some ts \<and> is_direct_child (dir_prefix path) d \<and> e = dir_entry_of d ts) \<or>
     (\<exists>q f. bm_get (files s) q = Some f \<and> is_direct_child (dir_prefix path) q \<and> e = file_entry q f)"
  using assms unfolding mem_file_inv_def
  by (simp add: children_def bm_entries_get [symmetric]) (auto simp: image_iff)

end
