(* ===== verification/Routing_Store.thy ===== *)
theory Routing_Store
  imports Memory_File_Facts
begin

text \<open>
  \<^verbatim>\<open>crates/portal/src/store/routing.rs\<close>: the \<^verbatim>\<open>FileStore\<close> that dispatches by path prefix to a home
  store and a volumes store, over the pair of their states. The locale \<^verbatim>\<open>routed_stores\<close> says what the
  router relies on (both backends keep the contents contract, and the home store does not distinguish
  paths that differ in leading slashes); the routed store then keeps the contract itself.
\<close>

section \<open>The router\<close>

definition HOME_PREFIX :: string where
  "HOME_PREFIX = ''/home''"

definition VOLUMES_PREFIX :: string where
  "VOLUMES_PREFIX = ''/Volumes''"

datatype route = Home string | Volumes string

text \<open>The module's own \<^verbatim>\<open>strip_prefix\<close>: only at a path boundary.\<close>

definition strip_path_prefix :: "string \<Rightarrow> string \<Rightarrow> string option" where
  "strip_path_prefix path prefix =
     (if path = prefix then Some []
      else option_filter (str_starts_with [slash]) (str_strip_prefix prefix path))"

definition ellipsis :: string where
  "ellipsis = [CHR 0xE2, CHR 0x80, CHR 0xA6]"

definition unrecognized_volume :: "string \<Rightarrow> store_error" where
  "unrecognized_volume path =
     InvalidArgument (''unrecognized volume path '' @ debug_str path @ '' (expected '' @ HOME_PREFIX
       @ ''/'' @ ellipsis @ '' or '' @ VOLUMES_PREFIX @ ''/'' @ ellipsis @ '')'')"

definition route_of :: "string \<Rightarrow> route store_result" where
  "route_of path =
     (case strip_path_prefix path HOME_PREFIX of
        Some rest \<Rightarrow> Inr (Home (if rest = [] then [slash] else rest))
      | None \<Rightarrow>
          if path = VOLUMES_PREFIX \<or> str_starts_with (VOLUMES_PREFIX @ [slash]) path
          then Inr (Volumes path)
          else Inl (unrecognized_volume path))"

definition rehome :: "string \<Rightarrow> string" where
  "rehome inner =
     (let trimmed = trim_start_char slash inner in
      if trimmed = [] then HOME_PREFIX else HOME_PREFIX @ [slash] @ trimmed)"

definition rehome_file :: "file_metadata \<Rightarrow> file_metadata" where
  "rehome_file m = m\<lparr>fm_path := rehome (fm_path m)\<rparr>"

definition rehome_dir :: "directory_metadata \<Rightarrow> directory_metadata" where
  "rehome_dir m = m\<lparr>dm_path := rehome (dm_path m)\<rparr>"

definition rehome_entry :: "directory_entry \<Rightarrow> directory_entry" where
  "rehome_entry e = e\<lparr>de_path := rehome (de_path e)\<rparr>"

text \<open>
  Every method of the trait has the shape \<^verbatim>\<open>match self.route(path)?\<close>: a method that writes runs on one
  component of the state, a method that reads looks at one component.
\<close>

definition route_write ::
  "string \<Rightarrow> (string \<Rightarrow> 'h \<Rightarrow> 'a store_result \<times> 'h) \<Rightarrow> ('a \<Rightarrow> 'a)
    \<Rightarrow> (string \<Rightarrow> 'v \<Rightarrow> 'a store_result \<times> 'v) \<Rightarrow> 'h \<times> 'v \<Rightarrow> 'a store_result \<times> ('h \<times> 'v)" where
  "route_write path on_home fixup on_volumes s =
     (case route_of path of
        Inl e \<Rightarrow> (Inl e, s)
      | Inr (Home p) \<Rightarrow> (let (r, h) = on_home p (fst s) in (map_ok fixup r, (h, snd s)))
      | Inr (Volumes p) \<Rightarrow> (let (r, v) = on_volumes p (snd s) in (r, (fst s, v))))"

definition route_read ::
  "string \<Rightarrow> (string \<Rightarrow> 'h \<Rightarrow> 'a store_result) \<Rightarrow> ('a \<Rightarrow> 'a) \<Rightarrow> (string \<Rightarrow> 'v \<Rightarrow> 'a store_result)
    \<Rightarrow> 'h \<times> 'v \<Rightarrow> 'a store_result" where
  "route_read path on_home fixup on_volumes s =
     (case route_of path of
        Inl e \<Rightarrow> Inl e
      | Inr (Home p) \<Rightarrow> map_ok fixup (on_home p (fst s))
      | Inr (Volumes p) \<Rightarrow> on_volumes p (snd s))"

definition rt_put_file where
  "rt_put_file home vol amb path content_type contents =
     route_write path (\<lambda>p. fs_put_file home amb p content_type contents) rehome_file
       (\<lambda>p. fs_put_file vol amb p content_type contents)"

definition rt_put_file_stream where
  "rt_put_file_stream home vol amb path content_type chunks =
     route_write path (\<lambda>p. fs_put_file_stream home amb p content_type chunks) rehome_file
       (\<lambda>p. fs_put_file_stream vol amb p content_type chunks)"

definition rt_read_file where
  "rt_read_file home vol path offset len =
     route_read path (\<lambda>p. fs_read_file home p offset len) id (\<lambda>p. fs_read_file vol p offset len)"

definition rt_read_file_stream where
  "rt_read_file_stream home vol path offset len =
     route_read path (\<lambda>p. fs_read_file_stream home p offset len) id
       (\<lambda>p. fs_read_file_stream vol p offset len)"

definition rt_stat_file where
  "rt_stat_file home vol path = route_read path (fs_stat_file home) rehome_file (fs_stat_file vol)"

definition rt_delete_file where
  "rt_delete_file home vol path = route_write path (fs_delete_file home) id (fs_delete_file vol)"

definition rt_create_directory where
  "rt_create_directory home vol amb path =
     route_write path (fs_create_directory home amb) rehome_dir (fs_create_directory vol amb)"

definition rt_delete_directory where
  "rt_delete_directory home vol path =
     route_write path (fs_delete_directory home) id (fs_delete_directory vol)"

definition rt_stat_directory where
  "rt_stat_directory home vol path =
     route_read path (fs_stat_directory home) rehome_dir (fs_stat_directory vol)"

definition rt_list_directory where
  "rt_list_directory home vol path pg =
     route_read path (\<lambda>p. fs_list_directory home p pg)
       (\<lambda>(entries, token). (map rehome_entry entries, token)) (\<lambda>p. fs_list_directory vol p pg)"

definition rt_list_files_opts where
  "rt_list_files_opts home vol path opts =
     route_read path (\<lambda>p. fs_list_files_opts home p opts) (map (map_ok rehome_entry))
       (\<lambda>p. fs_list_files_opts vol p opts)"

definition routing_file_store :: "'h file_store \<Rightarrow> 'v file_store \<Rightarrow> ('h \<times> 'v) file_store" where
  "routing_file_store home vol =
     \<lparr>fs_put_file = rt_put_file home vol, fs_put_file_stream = rt_put_file_stream home vol,
      fs_read_file = rt_read_file home vol, fs_read_file_stream = rt_read_file_stream home vol,
      fs_stat_file = rt_stat_file home vol, fs_delete_file = rt_delete_file home vol,
      fs_create_directory = rt_create_directory home vol,
      fs_delete_directory = rt_delete_directory home vol,
      fs_stat_directory = rt_stat_directory home vol,
      fs_list_directory = rt_list_directory home vol,
      fs_list_files_opts = rt_list_files_opts home vol\<rparr>"

lemmas routing_defs = routing_file_store_def rt_put_file_def rt_put_file_stream_def
  rt_read_file_def rt_read_file_stream_def rt_stat_file_def rt_delete_file_def
  rt_create_directory_def rt_delete_directory_def rt_stat_directory_def rt_list_directory_def
  rt_list_files_opts_def

section \<open>Routes\<close>

lemma strip_home_iff:
  "strip_path_prefix p HOME_PREFIX = Some r \<longleftrightarrow> p = HOME_PREFIX @ r \<and> (r = [] \<or> (\<exists>t. r = slash # t))"
  unfolding strip_path_prefix_def option_filter_def
  by (auto simp: str_strip_prefix_Some_iff str_starts_with_iff split: option.splits)

lemma strip_home_simps [simp]:
  "strip_path_prefix HOME_PREFIX HOME_PREFIX = Some []"
  "strip_path_prefix (HOME_PREFIX @ slash # t) HOME_PREFIX = Some (slash # t)"
  by (simp_all add: strip_home_iff)

lemma home_not_volumes [simp]: "HOME_PREFIX @ t \<noteq> VOLUMES_PREFIX @ u"
  by (simp add: HOME_PREFIX_def VOLUMES_PREFIX_def)

lemma home_not_volumes' [simp]:
  "HOME_PREFIX \<noteq> VOLUMES_PREFIX" "HOME_PREFIX \<noteq> VOLUMES_PREFIX @ u" "HOME_PREFIX @ t \<noteq> VOLUMES_PREFIX"
  "VOLUMES_PREFIX \<noteq> HOME_PREFIX" "VOLUMES_PREFIX \<noteq> HOME_PREFIX @ t"
  by (simp_all add: HOME_PREFIX_def VOLUMES_PREFIX_def)

lemma strip_volumes [simp]: "strip_path_prefix (VOLUMES_PREFIX @ u) HOME_PREFIX = None"
  by (metis home_not_volumes not_Some_eq strip_home_iff)

lemma strip_volumes' [simp]: "strip_path_prefix VOLUMES_PREFIX HOME_PREFIX = None"
  using strip_volumes [of "[]"] by simp

lemma route_home_simps [simp]:
  "route_of HOME_PREFIX = Inr (Home [slash])"
  "route_of (HOME_PREFIX @ slash # t) = Inr (Home (slash # t))"
  by (simp_all add: route_of_def)

lemma route_volumes_simps [simp]:
  "route_of VOLUMES_PREFIX = Inr (Volumes VOLUMES_PREFIX)"
  "route_of (VOLUMES_PREFIX @ slash # u) = Inr (Volumes (VOLUMES_PREFIX @ slash # u))"
  using str_starts_with_append [of "VOLUMES_PREFIX @ [slash]" u] by (simp_all add: route_of_def)

lemma route_cases:
  obtains (home) "p = HOME_PREFIX" "route_of p = Inr (Home [slash])"
  | (home_sub) t where "p = HOME_PREFIX @ slash # t" "route_of p = Inr (Home (slash # t))"
  | (volumes) t where "p = VOLUMES_PREFIX @ t" "t = [] \<or> (\<exists>u. t = slash # u)"
      "route_of p = Inr (Volumes p)"
  | (neither) "\<And>t. t = [] \<or> (\<exists>u. t = slash # u) \<Longrightarrow> p \<noteq> HOME_PREFIX @ t \<and> p \<noteq> VOLUMES_PREFIX @ t"
      "route_of p = Inl (unrecognized_volume p)"
proof (cases "strip_path_prefix p HOME_PREFIX")
  case (Some r)
  then show thesis using that(1,2) by (auto simp: strip_home_iff)
next
  case None
  show thesis
  proof (cases "p = VOLUMES_PREFIX \<or> str_starts_with (VOLUMES_PREFIX @ [slash]) p")
    case True
    then show thesis using that(3) by (auto simp: str_starts_with_iff)
  next
    case False
    show thesis
    proof (rule that(4))
      show "route_of p = Inl (unrecognized_volume p)"
        using None False by (simp add: route_of_def)
      show "p \<noteq> HOME_PREFIX @ t \<and> p \<noteq> VOLUMES_PREFIX @ t" if "t = [] \<or> (\<exists>u. t = slash # u)" for t
        using None False that by (auto simp: str_starts_with_iff)
    qed
  qed
qed

lemma route_home_iff:
  "route_of p = Inr (Home q) \<longleftrightarrow>
     p = HOME_PREFIX \<and> q = [slash] \<or> (\<exists>t. p = HOME_PREFIX @ slash # t \<and> q = slash # t)"
  by (rule route_cases [of p]) auto

lemma route_volumes_path: "route_of p = Inr (Volumes q) \<Longrightarrow> q = p"
  by (rule route_cases [of p]) auto

text \<open>Exactly the paths at or below one of the two prefixes are routed.\<close>

lemma route_ok_iff:
  "(\<exists>r. route_of p = Inr r) \<longleftrightarrow>
     (\<exists>t. (t = [] \<or> (\<exists>u. t = slash # u)) \<and> (p = HOME_PREFIX @ t \<or> p = VOLUMES_PREFIX @ t))"
  by (rule route_cases [of p]) auto

text \<open>\<^verbatim>\<open>rehome\<close> inverts the stripping, up to leading slashes.\<close>

lemma trim_start_slash [simp]:
  "trim_start_char slash (slash # t) = trim_start_char slash t"
  "trim_start_char slash [] = []"
  by (simp_all add: trim_start_char_def)

lemma route_rehome: "route_of (rehome inner) = Inr (Home (slash # trim_start_char slash inner))"
  by (auto simp: rehome_def Let_def route_home_iff)

text \<open>Without doubled slashes, the path a response carries is the path of the request.\<close>

lemma rehome_route:
  assumes "route_of p = Inr (Home q)" and "\<not> str_starts_with [slash, slash] q"
  shows "rehome q = (if q = [slash] then HOME_PREFIX else p)"
proof -
  have "rehome (slash # t) = HOME_PREFIX @ slash # t"
    if "t \<noteq> []" and "\<not> str_starts_with [slash, slash] (slash # t)" for t
    using that by (cases t) (auto simp: rehome_def Let_def trim_start_char_def str_starts_with_iff)
  moreover have "rehome [slash] = HOME_PREFIX" by (simp add: rehome_def)
  ultimately show ?thesis using assms by (auto simp: route_home_iff)
qed

section \<open>The routed store keeps the contents contract\<close>

text \<open>A routed path addresses the key of the backend it is routed to.\<close>

definition routed_key ::
  "(string \<Rightarrow> 'k option) \<Rightarrow> (string \<Rightarrow> 'l option) \<Rightarrow> string \<Rightarrow> ('k + 'l) option" where
  "routed_key hkey vkey p =
     (case route_of p of
        Inr (Home q) \<Rightarrow> map_option Inl (hkey q)
      | Inr (Volumes q) \<Rightarrow> map_option Inr (vkey q)
      | Inl _ \<Rightarrow> None)"

definition routed_contents ::
  "('h \<Rightarrow> 'k \<Rightarrow> bytes option) \<Rightarrow> ('v \<Rightarrow> 'l \<Rightarrow> bytes option) \<Rightarrow> 'h \<times> 'v \<Rightarrow> 'k + 'l \<Rightarrow> bytes option" where
  "routed_contents hc vc s = (\<lambda>k. case k of Inl a \<Rightarrow> hc (fst s) a | Inr b \<Rightarrow> vc (snd s) b)"

lemma routed_contents_upd:
  "routed_contents hc vc (h', v) = (routed_contents hc vc (h, v))(Inl k := b)
     \<longleftrightarrow> hc h' = (hc h)(k := b)"
  "routed_contents hc vc (h, v') = (routed_contents hc vc (h, v))(Inr l := b)
     \<longleftrightarrow> vc v' = (vc v)(l := b)"
  by (auto simp: routed_contents_def fun_eq_iff split: sum.splits)

lemma routed_contents_eq:
  "routed_contents hc vc (h', v) = routed_contents hc vc (h, v) \<longleftrightarrow> hc h' = hc h"
  "routed_contents hc vc (h, v') = routed_contents hc vc (h, v) \<longleftrightarrow> vc v' = vc v"
  by (auto simp: routed_contents_def fun_eq_iff split: sum.splits)

locale routed_stores =
  home: file_store_contract home hinv hkey hcontents +
  vol: echoing_file_store vol vinv vkey vcontents
  for home :: "'h file_store" and hinv and hkey :: "string \<Rightarrow> 'k option" and hcontents
    and vol :: "'v file_store" and vinv and vkey :: "string \<Rightarrow> 'l option" and vcontents +
  assumes home_key_slash: "hkey (slash # trim_start_char slash p) = hkey p"
begin

definition rinv :: "'h \<times> 'v \<Rightarrow> bool" where
  "rinv s \<longleftrightarrow> hinv (fst s) \<and> vinv (snd s)"

lemma key_rehome: "routed_key hkey vkey (rehome p) = map_option Inl (hkey p)"
  by (simp add: routed_key_def route_rehome home_key_slash)

lemma route_write_inv:
  assumes "rinv s" and "\<And>q h. hinv h \<Longrightarrow> hinv (snd (f q h))" and "\<And>q v. vinv v \<Longrightarrow> vinv (snd (g q v))"
  shows "rinv (snd (route_write p f fixup g s))"
  using assms by (auto simp: route_write_def rinv_def Let_def split: sum.split route.split prod.split)
    (metis snd_conv)+

lemma route_write_same:
  assumes "rinv s" and "route_write p f fixup g s = (Inl e, s')"
    and "\<And>q h e h'. hinv h \<Longrightarrow> f q h = (Inl e, h') \<Longrightarrow> hcontents h' = hcontents h"
    and "\<And>q v e v'. vinv v \<Longrightarrow> g q v = (Inl e, v') \<Longrightarrow> vcontents v' = vcontents v"
  shows "routed_contents hcontents vcontents s' = routed_contents hcontents vcontents s"
proof -
  obtain h v where s: "s = (h, v)" by fastforce
  show ?thesis
    using assms unfolding s
    by (auto simp: route_write_def rinv_def Let_def routed_contents_eq map_ok_def
        split: sum.splits route.splits prod.splits)
qed

lemma route_write_contents:
  assumes "rinv s"
    and "\<And>q h. hinv h \<Longrightarrow> hcontents (snd (f q h)) = hcontents h"
    and "\<And>q v. vinv v \<Longrightarrow> vcontents (snd (g q v)) = vcontents v"
  shows "routed_contents hcontents vcontents (snd (route_write p f fixup g s))
    = routed_contents hcontents vcontents s"
proof -
  obtain h v where s: "s = (h, v)" by fastforce
  show ?thesis
    using assms unfolding s
    by (auto simp: route_write_def rinv_def Let_def routed_contents_eq
        split: sum.splits route.splits prod.splits) (metis snd_conv)+
qed

text \<open>A write that succeeds on a backend changes that backend's key of the routed map.\<close>

lemma route_write_ok:
  assumes "rinv s" and "route_write p f fixup g s = (Inr m, s')"
    and "\<And>q h x h'. hinv h \<Longrightarrow> f q h = (Inr x, h') \<Longrightarrow>
      \<exists>k. hkey q = Some k \<and> P k x \<and> hcontents h' = (hcontents h)(k := b)"
    and "\<And>q v x v'. vinv v \<Longrightarrow> g q v = (Inr x, v') \<Longrightarrow>
      \<exists>k. vkey q = Some k \<and> Q q k x \<and> vcontents v' = (vcontents v)(k := b)"
  obtains k x where "routed_key hkey vkey p = Some (Inl k)" "P k x" "m = fixup x"
      "routed_contents hcontents vcontents s' = (routed_contents hcontents vcontents s)(Inl k := b)"
  | l where "routed_key hkey vkey p = Some (Inr l)" "route_of p = Inr (Volumes p)" "Q p l m"
      "routed_contents hcontents vcontents s' = (routed_contents hcontents vcontents s)(Inr l := b)"
proof -
  obtain h v where s: "s = (h, v)" by fastforce
  show thesis
  proof (cases "route_of p")
    case (Inl e)
    with assms(2) show thesis by (simp add: route_write_def)
  next
    case (Inr r)
    show thesis
    proof (cases r)
      case (Home q)
      with Inr assms(2) obtain x h' where run: "f q h = (Inr x, h')" and m: "m = fixup x" "s' = (h', v)"
        unfolding s by (cases "f q h") (auto simp: route_write_def map_ok_Inr_iff)
      from assms(1) have "hinv h" by (simp add: s rinv_def)
      from assms(3) [OF this run] obtain k where
        "hkey q = Some k" "P k x" "hcontents h' = (hcontents h)(k := b)" by blast
      with Home Inr m show thesis
        by (intro that(1) [of k x]) (simp_all add: routed_key_def s routed_contents_upd)
    next
      case (Volumes q')
      define q where "q = p"
      from Inr Volumes have q: "route_of p = Inr (Volumes q)" "q' = q"
        by (auto dest: route_volumes_path simp: q_def)
      with Inr assms(2) obtain v' where run: "g q v = (Inr m, v')" and m: "s' = (h, v')"
        unfolding s by (cases "g q v") (auto simp: route_write_def)
      from assms(1) have "vinv v" by (simp add: s rinv_def)
      from assms(4) [OF this run] obtain l where
        "vkey q = Some l" "Q q l m" "vcontents v' = (vcontents v)(l := b)" by blast
      with q m show thesis
        by (intro that(2) [of l]) (simp_all add: routed_key_def s routed_contents_upd q_def [symmetric])
    qed
  qed
qed

text \<open>Which backend a key belongs to, and what is stored under it.\<close>

lemma routed_key_Some:
  "routed_key hkey vkey p = Some k \<longleftrightarrow>
     (\<exists>q a. route_of p = Inr (Home q) \<and> hkey q = Some a \<and> k = Inl a) \<or>
     (\<exists>q b. route_of p = Inr (Volumes q) \<and> vkey q = Some b \<and> k = Inr b)"
  by (auto simp: routed_key_def split: sum.splits route.splits)

lemma routed_contents_simps [simp]:
  "routed_contents hcontents vcontents s (Inl a) = hcontents (fst s) a"
  "routed_contents hcontents vcontents s (Inr b) = vcontents (snd s) b"
  by (simp_all add: routed_contents_def)

end

text \<open>The contract of the routed store, law by law.\<close>

context routed_stores
begin

abbreviation rkey where "rkey \<equiv> routed_key hkey vkey"
abbreviation rcontents where "rcontents \<equiv> routed_contents hcontents vcontents"

lemma routed_read_full:
  "rinv s \<Longrightarrow> fs_read_file (routing_file_store home vol) p None None s = Inr b \<longleftrightarrow>
     (\<exists>k. rkey p = Some k \<and> rcontents s k = Some b)"
  by (auto simp: routing_defs route_read_def routed_key_Some rinv_def map_ok_Inr_iff
      home.read_full vol.read_full split: sum.splits route.splits)

lemma routed_read_stream:
  "rinv s \<Longrightarrow> fs_read_file_stream (routing_file_store home vol) p off len s = Inr chunks
     \<Longrightarrow> collect_chunks chunks = fs_read_file (routing_file_store home vol) p off len s"
  by (auto simp: routing_defs route_read_def rinv_def map_ok_Inr_iff map_ok_def
      home.read_stream vol.read_stream split: sum.splits route.splits)

lemma routed_read_stream_open:
  "rinv s \<Longrightarrow> fs_read_file (routing_file_store home vol) p off len s = Inr b
     \<Longrightarrow> \<exists>chunks. fs_read_file_stream (routing_file_store home vol) p off len s = Inr chunks"
  by (auto simp: routing_defs route_read_def rinv_def map_ok_Inr_iff
      dest: home.read_stream_open vol.read_stream_open split: sum.splits route.splits)

lemma routed_put_ok:
  assumes "rinv s" and "fs_put_file (routing_file_store home vol) amb p ct b s = (Inr m, s')"
  shows "\<exists>k. rkey p = Some k \<and> rkey (fm_path m) = Some k \<and> fm_file_size m = int (length b)
    \<and> rcontents s' = (rcontents s)(k \<mapsto> b)"
proof -
  from assms(2) have run: "route_write p (\<lambda>p. fs_put_file home amb p ct b) rehome_file
      (\<lambda>p. fs_put_file vol amb p ct b) s = (Inr m, s')"
    by (simp add: routing_defs)
  show ?thesis
    by (rule route_write_ok [OF assms(1) run,
          where P = "\<lambda>k x. hkey (fm_path x) = Some k \<and> fm_file_size x = int (length b)"
            and Q = "\<lambda>q k x. fm_path x = q \<and> fm_file_size x = int (length b)" and b = "Some b"])
      (use home.put_ok vol.put_ok vol.put_echo in \<open>fastforce simp: rehome_file_def key_rehome\<close>)+
qed

lemma routed_put_err:
  assumes "rinv s" and "fs_put_file (routing_file_store home vol) amb p ct b s = (Inl e, s')"
  shows "rcontents s' = rcontents s"
proof (rule route_write_same [OF assms(1)])
  show "route_write p (\<lambda>p. fs_put_file home amb p ct b) rehome_file
      (\<lambda>p. fs_put_file vol amb p ct b) s = (Inl e, s')"
    using assms(2) by (simp add: routing_defs)
qed (use home.put_err vol.put_err in blast)+

lemma routed_put_stream_ok:
  assumes "rinv s" and "fs_put_file_stream (routing_file_store home vol) amb p ct cs s = (Inr m, s')"
  shows "\<exists>k b. collect_chunks cs = Inr b \<and> rkey p = Some k \<and> rkey (fm_path m) = Some k
    \<and> fm_file_size m = int (length b) \<and> rcontents s' = (rcontents s)(k \<mapsto> b)"
proof -
  let ?b = "case collect_chunks cs of Inr b \<Rightarrow> Some b | Inl _ \<Rightarrow> None"
  from assms(2) have run: "route_write p (\<lambda>p. fs_put_file_stream home amb p ct cs) rehome_file
      (\<lambda>p. fs_put_file_stream vol amb p ct cs) s = (Inr m, s')"
    by (simp add: routing_defs)
  show ?thesis
  proof (rule route_write_ok [OF assms(1) run,
        where P = "\<lambda>k x. hkey (fm_path x) = Some k
            \<and> (\<exists>b. collect_chunks cs = Inr b \<and> fm_file_size x = int (length b))"
          and Q = "\<lambda>q k x. fm_path x = q
            \<and> (\<exists>b. collect_chunks cs = Inr b \<and> fm_file_size x = int (length b))" and b = ?b])
    fix q h x h'
    assume "hinv h" and "fs_put_file_stream home amb q ct cs h = (Inr x, h')"
    from home.put_stream_ok [OF this]
    show "\<exists>k. hkey q = Some k \<and> (hkey (fm_path x) = Some k
        \<and> (\<exists>b. collect_chunks cs = Inr b \<and> fm_file_size x = int (length b)))
        \<and> hcontents h' = (hcontents h)(k := ?b)" by auto
  next
    fix q v x v'
    assume "vinv v" and "fs_put_file_stream vol amb q ct cs v = (Inr x, v')"
    from vol.put_stream_ok [OF this] vol.put_stream_echo [OF this]
    show "\<exists>k. vkey q = Some k \<and> (fm_path x = q
        \<and> (\<exists>b. collect_chunks cs = Inr b \<and> fm_file_size x = int (length b)))
        \<and> vcontents v' = (vcontents v)(k := ?b)" by auto
  qed (fastforce simp: rehome_file_def key_rehome)+
qed

lemma routed_put_stream_frame:
  assumes "rinv s" and "fs_put_file_stream (routing_file_store home vol) amb p ct cs s = (r, s')"
    and "rkey p \<noteq> Some k"
  shows "rcontents s' k = rcontents s k"
proof -
  obtain h v where s: "s = (h, v)" by fastforce
  from assms show ?thesis
    unfolding s
    by (auto simp: routing_defs route_write_def rinv_def routed_key_def routed_contents_def
        split: sum.splits route.splits prod.splits)
      (metis home.put_stream_frame, metis vol.put_stream_frame)
qed

lemma routed_stat:
  assumes "rinv s" and "fs_stat_file (routing_file_store home vol) p s = Inr m"
  shows "\<exists>k b. rkey p = Some k \<and> rkey (fm_path m) = Some k \<and> rcontents s k = Some b
    \<and> fm_file_size m = int (length b)"
proof (cases "route_of p")
  case (Inl e)
  with assms show ?thesis by (simp add: routing_defs route_read_def)
next
  case (Inr r)
  show ?thesis
  proof (cases r)
    case (Home q)
    with Inr assms obtain x where "fs_stat_file home q (fst s) = Inr x" "m = rehome_file x"
      by (auto simp: routing_defs route_read_def map_ok_Inr_iff)
    with home.stat [of "fst s" q x] assms(1) Home Inr show ?thesis
      by (auto simp: rinv_def routed_key_def rehome_file_def key_rehome [unfolded routed_key_def])
  next
    case (Volumes q)
    with Inr have "q = p" by (auto dest: route_volumes_path)
    with Inr Volumes assms vol.stat [of "snd s" q m] vol.stat_echo [of "snd s" q m] show ?thesis
      by (auto simp: routing_defs route_read_def rinv_def routed_key_def)
  qed
qed

lemma routed_stat_present:
  assumes "rinv s" and "rkey p = Some k" and "rcontents s k = Some b"
  shows "\<exists>m. fs_stat_file (routing_file_store home vol) p s = Inr m"
  using assms home.stat_present vol.stat_present
  by (fastforce simp: routing_defs route_read_def rinv_def routed_key_Some)

lemma routed_delete_ok:
  assumes "rinv s" and "fs_delete_file (routing_file_store home vol) p s = (Inr u, s')"
  shows "\<exists>k. rkey p = Some k \<and> rcontents s k \<noteq> None \<and> rcontents s' = (rcontents s)(k := None)"
proof (cases "route_of p")
  case (Inl e)
  with assms show ?thesis by (simp add: routing_defs route_write_def)
next
  case (Inr r)
  obtain h v where s: "s = (h, v)" by fastforce
  with assms(1) have inv: "hinv h" "vinv v" by (simp_all add: rinv_def)
  show ?thesis
  proof (cases r)
    case (Home q)
    with Inr assms(2) s obtain h' where "fs_delete_file home q h = (Inr u, h')" "s' = (h', v)"
      by (cases "fs_delete_file home q h") (auto simp: routing_defs route_write_def map_ok_Inr_iff)
    with home.delete_ok [OF inv(1)] Inr Home s show ?thesis
      by (fastforce simp: routed_key_def routed_contents_upd)
  next
    case (Volumes q)
    with Inr assms(2) s obtain v' where "fs_delete_file vol q v = (Inr u, v')" "s' = (h, v')"
      by (cases "fs_delete_file vol q v") (auto simp: routing_defs route_write_def)
    with vol.delete_ok [OF inv(2)] Inr Volumes s show ?thesis
      by (fastforce simp: routed_key_def routed_contents_upd)
  qed
qed

lemma routed_delete_err:
  assumes "rinv s" and "fs_delete_file (routing_file_store home vol) p s = (Inl e, s')"
  shows "rcontents s' = rcontents s"
proof (rule route_write_same [OF assms(1)])
  show "route_write p (fs_delete_file home) id (fs_delete_file vol) s = (Inl e, s')"
    using assms(2) by (simp add: routing_defs)
qed (use home.delete_err vol.delete_err in blast)+

lemma routed_invs:
  assumes "rinv s"
  shows "rinv (snd (fs_put_file (routing_file_store home vol) amb p ct b s))"
    and "rinv (snd (fs_put_file_stream (routing_file_store home vol) amb p ct cs s))"
    and "rinv (snd (fs_delete_file (routing_file_store home vol) p s))"
    and "rinv (snd (fs_create_directory (routing_file_store home vol) amb p s))"
    and "rinv (snd (fs_delete_directory (routing_file_store home vol) p s))"
  using assms
  by (simp_all add: routing_defs route_write_inv home.put_inv home.put_stream_inv home.delete_inv
      home.mkdir_inv home.rmdir_inv vol.put_inv vol.put_stream_inv vol.delete_inv vol.mkdir_inv
      vol.rmdir_inv)

lemma routed_dir_contents:
  assumes "rinv s"
  shows "rcontents (snd (fs_create_directory (routing_file_store home vol) amb p s)) = rcontents s"
    and "rcontents (snd (fs_delete_directory (routing_file_store home vol) p s)) = rcontents s"
  using assms
  by (simp_all add: routing_defs route_write_contents home.mkdir_contents home.rmdir_contents
      vol.mkdir_contents vol.rmdir_contents)

end

sublocale routed_stores \<subseteq> routed: file_store_contract
  "routing_file_store home vol" rinv "routed_key hkey vkey" "routed_contents hcontents vcontents"
  by unfold_locales
    (fact routed_read_full routed_read_stream routed_invs routed_put_ok routed_put_err
      routed_put_stream_ok routed_put_stream_frame routed_stat routed_stat_present
      routed_delete_ok routed_delete_err routed_dir_contents routed_read_stream_open)+

end
