(* ===== verification/Local_Facts.thy ===== *)
theory Local_Facts
  imports Local_Store Routing_Store
begin

text \<open>
  The local store: which paths it accepts and where they lead, that no call changes anything outside
  its root, that it keeps the contents contract, and what a failed upload leaves behind.
\<close>

section \<open>Resolving a logical path\<close>

definition logical_segments :: "string \<Rightarrow> string list" where
  "logical_segments p = filter (\<lambda>s. s \<noteq> [] \<and> s \<noteq> ''.'') (str_split slash p)"

lemma logical_segments_append: "logical_segments (a @ slash # b) = logical_segments a @ logical_segments b"
  by (simp add: logical_segments_def str_split_append)

lemma logical_segments_Nil [simp]: "logical_segments [] = []"
  by (simp add: logical_segments_def)

lemma logical_segments_slash [simp]: "logical_segments (slash # p) = logical_segments p"
  using logical_segments_append [of "[]" p] by simp

lemma logical_segments_trim_start [simp]:
  "logical_segments (trim_start_char slash p) = logical_segments p"
  by (induction p) (auto simp: trim_start_char_def)

lemma logical_segments_trim_end [simp]:
  "logical_segments (trim_end_char slash p) = logical_segments p"
proof (induction p rule: rev_induct)
  case Nil
  then show ?case by (simp add: trim_end_char_def)
next
  case (snoc x p)
  have "logical_segments (p @ [slash]) = logical_segments p"
    using logical_segments_append [of p "[]"] by simp
  with snoc show ?case by (auto simp: trim_end_char_def)
qed

lemma logical_segments_name: "valid_name s \<Longrightarrow> logical_segments s = [s]"
  by (auto simp: logical_segments_def valid_name_def str_split_plain)

lemma logical_segments_valid:
  "s \<in> set (logical_segments p) \<Longrightarrow> s \<noteq> ''..'' \<Longrightarrow> valid_name s"
  using str_split_no_sep [of s slash p] by (auto simp: logical_segments_def valid_name_def)

lemma push_components_normal:
  "push_components l out (map (\<lambda>s. if s = ''..'' then ParentDir else Normal s) segs)
     = (if ''..'' \<in> set segs then Inl (path_escapes l) else Inr (out @ segs))"
  by (induction segs arbitrary: out) auto

lemma trim_start_no_slash: "\<not> str_starts_with [slash] (trim_start_char slash p)"
proof -
  have "trim_start_char slash p \<noteq> slash # r" for r
    by (induction p) (auto simp: trim_start_char_def)
  then show ?thesis by (simp add: str_starts_with_iff)
qed

lemma local_resolve_alt:
  "local_resolve root p =
     (if ''..'' \<in> set (logical_segments p) then Inl (path_escapes p) else Inr (root @ logical_segments p))"
proof -
  let ?q = "trim_start_char slash p"
  have "push_components p root (path_components ?q)
      = push_components p root (map (\<lambda>s. if s = ''..'' then ParentDir else Normal s) (logical_segments ?q))"
    using trim_start_no_slash [of p] by (simp add: path_components_def Let_def logical_segments_def)
  then show ?thesis by (simp add: local_resolve_def push_components_normal)
qed

lemma local_resolve_ok:
  assumes "local_resolve root p = Inr target"
  shows "target = root @ logical_segments p" and "\<forall>s \<in> set (logical_segments p). valid_name s"
  using assms logical_segments_valid [of _ p] by (auto simp: local_resolve_alt split: if_splits)

lemma child_logical_segments:
  "valid_name name \<Longrightarrow> logical_segments (child_logical p name) = logical_segments p @ [name]"
proof -
  assume v: "valid_name name"
  have "logical_segments p = []" if "trim_end_char slash p = []"
    using that logical_segments_trim_end [of p] by simp
  then show ?thesis
    using v by (auto simp: child_logical_def Let_def logical_segments_name logical_segments_append)
qed

section \<open>The calls on a well-formed tree\<close>

definition local_inv :: "os_path \<Rightarrow> filesystem \<Rightarrow> bool" where
  "local_inv root fs \<longleftrightarrow> tree_ok fs \<and> (\<forall>s \<in> set root. valid_name s) \<and>
     (root = [] \<or> (\<exists>t. bm_get fs (butlast root) = Some (DirNode t)))"

lemma not_prefix_butlast: "p \<noteq> [] \<Longrightarrow> \<not> prefix p (butlast p)"
  by (metis length_butlast length_greater_0_conv diff_less leD prefix_length_le zero_less_one)

lemma same_outside_dir:
  assumes "same_outside root fs fs'" and "\<not> prefix root q" and "bm_get fs q = Some (DirNode t)"
  shows "\<exists>t'. bm_get fs' q = Some (DirNode t')"
proof -
  have "map_option node_shape (bm_get fs' q) = Some None"
    using assms by (auto simp: same_outside_def)
  then obtain n where "bm_get fs' q = Some n" "node_shape n = None" by auto
  then show ?thesis by (cases n) auto
qed

lemma local_inv_keep:
  assumes "local_inv root fs" and "tree_ok fs'" and "same_outside root fs fs'"
  shows "local_inv root fs'"
  using assms same_outside_dir [OF assms(3) not_prefix_butlast] by (auto simp: local_inv_def)

lemma fs_mkdir_result:
  assumes "tree_ok fs" and "\<forall>s \<in> set p. valid_name s" and "fs_mkdir t p fs = (r, fs')"
  shows "tree_ok fs' \<and> file_at fs' = file_at fs \<and> (prefix root p \<longrightarrow> same_outside root fs fs') \<and>
    (\<forall>e. r = Inl e \<longrightarrow> fs' = fs) \<and> (\<forall>u. r = Inr u \<longrightarrow> (\<exists>t. bm_get fs' p = Some (DirNode t)))"
proof (cases "p = [] \<or> bm_contains_key fs p \<or> (\<exists>e. fs_parent_dir p fs = Inl e)")
  case True
  with assms show ?thesis
    by (cases "fs_parent_dir p fs") (auto simp: fs_mkdir_def split: if_splits)
next
  case False
  then obtain u where par: "fs_parent_dir p fs = Inr u" by (cases "fs_parent_dir p fs") auto
  then obtain t' where dir: "bm_get fs (butlast p) = Some (DirNode t')"
    by (auto simp: fs_parent_dir_ok_iff [OF assms(1)])
  from False have p: "p \<noteq> []" and none: "bm_get fs p = None" by (auto simp: bm_contains_key_def)
  have fs': "fs' = fs_touch t (butlast p) (bm_insert fs p (DirNode t))" and r: "r = Inr ()"
    using assms(3) False par by (auto simp: fs_mkdir_def)
  have "file_at (bm_insert fs p (DirNode t)) = file_at fs"
    using none by (auto simp: file_at_def fun_eq_iff bm_get_insert)
  moreover have "tree_ok (bm_insert fs p (DirNode t))"
    using assms(1,2) p dir by (intro tree_ok_insert) auto
  ultimately show ?thesis
    unfolding fs' r using same_outside_trans [OF same_outside_insert same_outside_touch]
    by (auto simp: tree_ok_touch bm_get_touch bm_get_insert)
qed

lemma fs_mkdir_not_found:
  assumes "local_inv root fs" and "p = butlast root \<or> prefix root p"
    and "fs_mkdir t p fs = (Inl Io_NotFound, fs')"
  shows "p \<noteq> [] \<and> prefix root (butlast p)"
proof -
  from assms(1) have ok: "tree_ok fs" by (simp add: local_inv_def)
  from assms(3) have p: "p \<noteq> []" by (auto simp: fs_mkdir_def)
  have "\<nexists>t. bm_get fs (butlast p) = Some (DirNode t)"
  proof
    assume "\<exists>t. bm_get fs (butlast p) = Some (DirNode t)"
    then have "fs_parent_dir p fs = Inr ()" by (simp add: fs_parent_dir_ok_iff [OF ok])
    with assms(3) p show False by (auto simp: fs_mkdir_def split: if_splits)
  qed
  moreover have "\<exists>t. bm_get fs (butlast (butlast root)) = Some (DirNode t)" if "butlast root \<noteq> []"
    using assms(1) tree_ok_parent [OF ok _ that] that by (auto simp: local_inv_def)
  ultimately have "prefix root p" "p \<noteq> root"
    using assms(1,2) p by (auto simp: local_inv_def)
  then show ?thesis using p by (metis prefix_snoc append_butlast_last_id)
qed

lemma butlast_root_dir:
  assumes "local_inv root fs"
  shows "\<exists>t. bm_get fs (butlast root) = Some (DirNode t)"
  using assms tree_ok_root by (auto simp: local_inv_def)

definition dirs_result ::
  "os_path \<Rightarrow> os_path \<Rightarrow> filesystem \<Rightarrow> unit io_result \<Rightarrow> filesystem \<Rightarrow> bool" where
  "dirs_result root p fs r fs' \<longleftrightarrow>
     tree_ok fs' \<and> file_at fs' = file_at fs \<and> same_outside root fs fs' \<and>
     (\<forall>u. r = Inr u \<longrightarrow> (\<exists>t. bm_get fs' p = Some (DirNode t)))"

lemma dirs_result_mkdir:
  assumes "local_inv root fs" and "\<forall>s \<in> set p. valid_name s" and "p = butlast root \<or> prefix root p"
    and "fs_mkdir t p fs = (r, fs')"
  shows "dirs_result root p fs r fs'"
proof -
  from assms(1) have ok: "tree_ok fs" by (simp add: local_inv_def)
  note res = fs_mkdir_result [OF ok assms(2,4)]
  have "same_outside root fs fs'"
  proof (cases "prefix root p")
    case False
    with assms(3) have p: "p = butlast root" by simp
    have "fst (fs_mkdir t p fs) \<noteq> Inr u" for u
      using butlast_root_dir [OF assms(1)]
      by (auto simp: fs_mkdir_def p bm_contains_key_def split: sum.split)
    with assms(4) res show ?thesis by (cases r) auto
  qed (use res in simp)
  with res show ?thesis by (simp add: dirs_result_def)
qed

lemma dirs_result_trans:
  assumes "dirs_result root q fs r1 fs1" and "dirs_result root p fs1 r2 fs2"
  shows "dirs_result root p fs r2 fs2"
  using assms same_outside_trans by (auto simp: dirs_result_def)

lemma dirs_result_exists:
  assumes "dirs_result root p fs r fs'" and "fs_is_dir p fs'"
  shows "dirs_result root p fs r' fs'"
  using assms fs_is_dir_iff [of fs' p] by (auto simp: dirs_result_def)

lemma fs_create_dir_all_result:
  assumes "local_inv root fs" and "\<forall>s \<in> set p. valid_name s" and "p = butlast root \<or> prefix root p"
    and "fs_create_dir_all t p fs = (r, fs')"
  shows "dirs_result root p fs r fs'"
  using assms
proof (induction t p fs arbitrary: r fs' rule: fs_create_dir_all.induct)
  case (1 t p fs)
  obtain r1 fs1 where mk: "fs_mkdir t p fs = (r1, fs1)" by (cases "fs_mkdir t p fs")
  have res1: "dirs_result root p fs r1 fs1" by (rule dirs_result_mkdir [OF 1(2-4) mk])
  from "1.prems"(1) have "tree_ok fs" by (simp add: local_inv_def)
  then have res0: "dirs_result root p fs (Inl e) fs" for e by (simp add: dirs_result_def)
  show ?case
  proof (cases "r1 = Inl Io_NotFound")
    case False
    with mk "1.prems"(4) res1 res0 dirs_result_exists [OF res0] show ?thesis
      by (cases r1) (auto simp: fs_create_dir_all.simps [of t p fs] split: if_splits)
  next
    case True
    then have par: "p \<noteq> []" "prefix root (butlast p)"
      using fs_mkdir_not_found [OF "1.prems"(1,3)] mk by auto
    obtain r2 fs2 where rec: "fs_create_dir_all t (butlast p) fs = (r2, fs2)"
      by (cases "fs_create_dir_all t (butlast p) fs")
    have v: "\<forall>s \<in> set (butlast p). valid_name s"
      using "1.prems"(2) by (auto dest: in_set_butlastD)
    have res2: "dirs_result root (butlast p) fs r2 fs2"
      using "1.IH" [OF mk [symmetric] True _ "1.prems"(1) v _ rec] par by blast
    show ?thesis
    proof (cases r2)
      case (Inl e)
      with True mk rec par "1.prems"(4) res2 show ?thesis
        by (auto simp: fs_create_dir_all.simps [of t p fs] dirs_result_def)
    next
      case (Inr u)
      obtain r3 fs3 where mk3: "fs_mkdir t p fs2 = (r3, fs3)" by (cases "fs_mkdir t p fs2")
      have "local_inv root fs2"
        using local_inv_keep [OF "1.prems"(1)] res2 by (simp add: dirs_result_def)
      from dirs_result_trans [OF res2 dirs_result_mkdir [OF this "1.prems"(2,3) mk3]]
      have res3: "dirs_result root p fs r3 fs3" .
      from Inr True mk rec par mk3 "1.prems"(4) res3 dirs_result_exists [OF res3]
      show ?thesis
        by (auto simp: fs_create_dir_all.simps [of t p fs] split: sum.splits if_splits)
    qed
  qed
qed

section \<open>Uploads\<close>

lemma file_at_insert: "file_at (bm_insert fs p (FileNode t b)) = (file_at fs)(p \<mapsto> b)"
  by (auto simp: file_at_def fun_eq_iff bm_get_insert)

lemma file_atD: "file_at fs p = Some b \<Longrightarrow> \<exists>t. bm_get fs p = Some (FileNode t b)"
  by (auto simp: file_at_def split: option.splits node.splits)

lemma fs_create_result:
  assumes "tree_ok fs" and "\<forall>s \<in> set p. valid_name s" and "fs_create t p fs = (r, fs')"
  shows "tree_ok fs' \<and> (prefix root p \<longrightarrow> same_outside root fs fs') \<and>
    (\<forall>e. r = Inl e \<longrightarrow> fs' = fs) \<and> (\<forall>u. r = Inr u \<longrightarrow> file_at fs' = (file_at fs)(p \<mapsto> []))"
proof (cases r)
  case (Inl e)
  with assms show ?thesis by (auto simp: fs_create_def split: if_splits sum.splits option.splits node.splits)
next
  case (Inr u)
  with assms(3) obtain v where p: "p \<noteq> []" and par: "fs_parent_dir p fs = Inr v"
    by (auto simp: fs_create_def split: if_splits sum.splits)
  from par obtain t' where dir: "bm_get fs (butlast p) = Some (DirNode t')"
    by (auto simp: fs_parent_dir_ok_iff [OF assms(1)])
  let ?g = "bm_insert fs p (FileNode t [])"
  have nodir: "bm_get fs p \<noteq> Some (DirNode t')" for t'
    using assms(3) Inr p par by (auto simp: fs_create_def)
  have ok: "tree_ok ?g"
    using assms(1,2) p dir nodir by (intro tree_ok_insert) auto
  have "fs' = ?g \<or> fs' = fs_touch t (butlast p) ?g"
    using assms(3) Inr p par by (auto simp: fs_create_def split: option.splits node.splits)
  with ok Inr same_outside_trans [OF same_outside_insert same_outside_touch]
  show ?thesis by (auto simp: file_at_insert tree_ok_touch)
qed

text \<open>The bytes that reach the file: the chunks before the first failed item.\<close>

fun written :: "bytes store_result list \<Rightarrow> bytes" where
  "written [] = []"
| "written (Inl e # cs) = []"
| "written (Inr b # cs) = b @ written cs"

lemma collect_written: "collect_chunks cs = Inr b \<Longrightarrow> written cs = b"
  by (induction cs arbitrary: b rule: written.induct) (auto simp: map_ok_Inr_iff)

lemma write_chunks_result:
  assumes "tree_ok fs" and "file_at fs p = Some c" and "write_chunks t p cs fs = (r, fs')"
  shows "tree_ok fs' \<and> (prefix root p \<longrightarrow> same_outside root fs fs') \<and>
    file_at fs' = (file_at fs)(p \<mapsto> c @ written cs) \<and> r = map_ok (\<lambda>_. ()) (collect_chunks cs)"
  using assms
proof (induction t p cs fs arbitrary: c rule: write_chunks.induct)
  case (1 t p fs)
  then show ?case by auto
next
  case (2 t p e cs fs)
  then show ?case by auto
next
  case (3 t p b cs fs)
  from file_atD [OF "3.prems"(2)] obtain u where u: "bm_get fs p = Some (FileNode u c)" by blast
  let ?g = "bm_insert fs p (FileNode t (c @ b))"
  have g: "fs_append t p b fs = ?g" by (simp add: fs_append_def u)
  have p: "p \<noteq> []" using u tree_ok_root [OF "3.prems"(1)] by auto
  obtain t' where "bm_get fs (butlast p) = Some (DirNode t')"
    using tree_ok_parent [OF "3.prems"(1) u p] by blast
  moreover have "valid_name (last p)"
    using tree_ok_name [OF "3.prems"(1), of "butlast p" "last p"] u p by simp
  ultimately have ok: "tree_ok ?g" using "3.prems"(1) p u by (intro tree_ok_insert) auto
  have at: "file_at ?g p = Some (c @ b)" by (simp add: file_at_insert)
  have run: "write_chunks t p cs ?g = (r, fs')" using "3.prems"(3) by (simp add: g)
  from "3.IH" [unfolded g, OF ok at run] same_outside_trans [OF same_outside_insert]
  show ?case by (cases "collect_chunks cs") (auto simp: file_at_insert)
qed

lemma valid_target:
  "local_inv root fs \<Longrightarrow> local_resolve root p = Inr target
    \<Longrightarrow> prefix root target \<and> (\<forall>s \<in> set target. valid_name s)"
  using local_resolve_ok [of root p target] by (auto simp: local_inv_def)

lemma local_put_stream_result:
  assumes inv: "local_inv root fs" and run: "local_put_file_stream root amb path ct cs fs = (r, fs')"
  shows "local_inv root fs' \<and> same_outside root fs fs' \<and>
    ((\<exists>e. r = Inl e) \<and> file_at fs' = file_at fs \<or>
     (\<exists>target. local_resolve root path = Inr target \<and>
        file_at fs' = (file_at fs)(target \<mapsto> written cs) \<and>
        (case collect_chunks cs of
           Inl e \<Rightarrow> r = Inl e
         | Inr b \<Rightarrow> \<exists>m. r = Inr m \<and> fm_path m = path \<and> fm_file_size m = int (length b))))"
proof (cases "local_resolve root path")
  case (Inl e)
  with inv run show ?thesis by (auto simp: local_put_file_stream_def)
next
  case (Inr target)
  from valid_target [OF inv Inr] have pre: "prefix root target" and names: "\<forall>s \<in> set target. valid_name s"
    by simp_all
  obtain r1 fs1 where mk: "(if target = [] then (Inr (), fs)
      else fs_create_dir_all (now_millis amb) (butlast target) fs) = (r1, fs1)" by fastforce
  have "butlast target = butlast root \<or> prefix root (butlast target)"
    using pre by (metis append_butlast_last_id butlast.simps(1) prefix_bot.extremum_uniqueI prefix_snoc)
  moreover have "\<forall>s \<in> set (butlast target). valid_name s" using names by (auto dest: in_set_butlastD)
  ultimately have r1: "tree_ok fs1 \<and> file_at fs1 = file_at fs \<and> same_outside root fs fs1"
    using mk inv fs_create_dir_all_result [OF inv] unfolding dirs_result_def local_inv_def
    by (cases "target = []") auto
  show ?thesis
  proof (cases r1)
    case (Inl e)
    with mk run Inr r1 local_inv_keep [OF inv] show ?thesis by (auto simp: local_put_file_stream_def)
  next
    case r1_ok: (Inr u)
    obtain r2 fs2 where cr: "fs_create (now_millis amb) target fs1 = (r2, fs2)" by fastforce
    have r2: "tree_ok fs2 \<and> same_outside root fs1 fs2 \<and> (\<forall>e. r2 = Inl e \<longrightarrow> fs2 = fs1) \<and>
        (\<forall>u. r2 = Inr u \<longrightarrow> file_at fs2 = (file_at fs1)(target \<mapsto> []))"
      using fs_create_result [OF _ names cr] r1 pre by blast
    have keep2: "same_outside root fs fs2" using r1 r2 same_outside_trans by blast
    show ?thesis
    proof (cases r2)
      case (Inl e)
      with mk cr run Inr r1_ok r1 r2 local_inv_keep [OF inv] show ?thesis
        by (auto simp: local_put_file_stream_def)
    next
      case r2_ok: (Inr v)
      obtain r3 fs3 where wr: "write_chunks (now_millis amb) target cs fs2 = (r3, fs3)" by fastforce
      have "file_at fs2 target = Some []" using r2 r2_ok by simp
      from write_chunks_result [OF _ this wr] r2 r2_ok r1 pre
      have r3: "tree_ok fs3 \<and> same_outside root fs2 fs3 \<and> r3 = map_ok (\<lambda>_. ()) (collect_chunks cs) \<and>
          file_at fs3 = (file_at fs)(target \<mapsto> written cs)" by auto
      have keep3: "same_outside root fs fs3" using keep2 r3 same_outside_trans by blast
      from r3 have "file_at fs3 target = Some (written cs)" by simp
      from file_atD [OF this] obtain t where t: "fs_metadata target fs3 = Inr (FileNode t (written cs))"
        using fs_metadata_ok_iff [of fs3 target] r3 by auto
      show ?thesis
        using run mk cr wr Inr r1_ok r2_ok r3 keep3 t local_inv_keep [OF inv]
        by (cases "collect_chunks cs")
          (auto simp: local_put_file_stream_def local_file_metadata_def collect_written)
    qed
  qed
qed

end
