(* ===== verification/Tag_Spec.thy ===== *)
theory Tag_Spec
  imports Memory_Tags
begin

text \<open>
  What a \<^verbatim>\<open>TagStore\<close> promises, independently of how it keeps its data: two finite maps, one step per
  method (\<^verbatim>\<open>tag_spec_step\<close>). The \<^verbatim>\<open>tag_store_contract\<close> locale says that an implementation follows
  that machine through an abstraction function under an invariant; its lemmas are the facts a client
  of the trait uses. The memory store is shown to be an instance.
\<close>

section \<open>The abstract machine\<close>

record tag_spec =
  sp_policies :: "string \<Rightarrow> tag_policy option"
  sp_assignments :: "assignment_key \<Rightarrow> tag_assignment option"

datatype tag_op =
    OpCreatePolicy ambient tag_policy
  | OpGetPolicy string
  | OpListPolicies page
  | OpUpdatePolicy ambient string tag_policy "string list"
  | OpDeletePolicy string
  | OpCreateAssignment tag_assignment
  | OpGetAssignment string string string
  | OpListAssignments string string page
  | OpUpdateAssignment string string string tag_assignment
  | OpDeleteAssignment string string string

datatype tag_reply =
    RPolicy "tag_policy store_result"
  | RPolicies "(tag_policy list \<times> string option) store_result"
  | RUnit "unit store_result"
  | RAssignment "tag_assignment store_result"
  | RAssignments "(tag_assignment list \<times> string option) store_result"

text \<open>One call through the trait object.\<close>

fun tag_step :: "'s tag_store \<Rightarrow> tag_op \<Rightarrow> 's \<Rightarrow> tag_reply \<times> 's" where
  "tag_step ts (OpCreatePolicy amb p) s = map_prod RPolicy id (ts_create_policy ts amb p s)"
| "tag_step ts (OpGetPolicy k) s = (RPolicy (ts_get_policy ts k s), s)"
| "tag_step ts (OpListPolicies pg) s = (RPolicies (ts_list_policies ts pg s), s)"
| "tag_step ts (OpUpdatePolicy amb k p m) s = map_prod RPolicy id (ts_update_policy ts amb k p m s)"
| "tag_step ts (OpDeletePolicy k) s = map_prod RUnit id (ts_delete_policy ts k s)"
| "tag_step ts (OpCreateAssignment a) s = map_prod RAssignment id (ts_create_assignment ts a s)"
| "tag_step ts (OpGetAssignment et en tk) s = (RAssignment (ts_get_assignment ts et en tk s), s)"
| "tag_step ts (OpListAssignments et en pg) s = (RAssignments (ts_list_assignments ts et en pg s), s)"
| "tag_step ts (OpUpdateAssignment et en tk a) s =
     map_prod RAssignment id (ts_update_assignment ts et en tk a s)"
| "tag_step ts (OpDeleteAssignment et en tk) s =
     map_prod RUnit id (ts_delete_assignment ts et en tk s)"

fun tag_run :: "'s tag_store \<Rightarrow> tag_op list \<Rightarrow> 's \<Rightarrow> tag_reply list \<times> 's" where
  "tag_run ts [] s = ([], s)"
| "tag_run ts (c # cs) s =
     (let (r, s') = tag_step ts c s; (rs, s'') = tag_run ts cs s' in (r # rs, s''))"

definition listing :: "('k::linorder \<Rightarrow> 'v option) \<Rightarrow> 'v list" where
  "listing m = map (\<lambda>k. the (m k)) (sorted_list_of_set {k. m k \<noteq> None})"

definition spec_updated_policy ::
  "ambient \<Rightarrow> tag_policy \<Rightarrow> tag_policy \<Rightarrow> string list \<Rightarrow> tag_policy" where
  "spec_updated_policy amb old new upd =
     old\<lparr>tp_description := (if upd = [] \<or> ''description'' \<in> set upd then tp_description new
                            else tp_description old),
         tp_values := (if upd = [] \<or> ''values'' \<in> set upd then tp_values new else tp_values old),
         tp_updated_at := Some (now_millis amb)\<rparr>"

fun tag_spec_step :: "tag_op \<Rightarrow> tag_spec \<Rightarrow> tag_reply \<times> tag_spec" where
  "tag_spec_step (OpCreatePolicy amb p) s =
     (let k = tp_tag_key p;
          q = p\<lparr>tp_id := Some (new_id amb), tp_created_at := Some (now_millis amb),
                tp_updated_at := Some (now_millis amb)\<rparr> in
      if k = [] then (RPolicy (Inl (InvalidArgument ''tag_key is required'')), s)
      else case sp_policies s k of
        Some _ \<Rightarrow> (RPolicy (Inl (AlreadyExists (''tag policy '' @ debug_str k))), s)
      | None \<Rightarrow> (RPolicy (Inr q), s\<lparr>sp_policies := (sp_policies s)(k \<mapsto> q)\<rparr>))"
| "tag_spec_step (OpGetPolicy k) s =
     (RPolicy (ok_or (policy_not_found k) (sp_policies s k)), s)"
| "tag_spec_step (OpListPolicies pg) s =
     (RPolicies (Inr (paginate (listing (sp_policies s)) pg)), s)"
| "tag_spec_step (OpUpdatePolicy amb k p upd) s =
     (case sp_policies s k of
        None \<Rightarrow> (RPolicy (Inl (policy_not_found k)), s)
      | Some old \<Rightarrow> let q = spec_updated_policy amb old p upd in
          (RPolicy (Inr q), s\<lparr>sp_policies := (sp_policies s)(k \<mapsto> q)\<rparr>))"
| "tag_spec_step (OpDeletePolicy k) s =
     (case sp_policies s k of
        None \<Rightarrow> (RUnit (Inl (policy_not_found k)), s)
      | Some _ \<Rightarrow> (RUnit (Inr ()), s\<lparr>sp_policies := (sp_policies s)(k := None)\<rparr>))"
| "tag_spec_step (OpCreateAssignment a) s =
     (let k = key_of_assignment a in
      if ta_entity_type a = [] \<or> ta_entity_name a = [] \<or> ta_tag_key a = []
      then (RAssignment (Inl (InvalidArgument ''entity_type, entity_name and tag_key are required'')), s)
      else case sp_assignments s k of
        Some _ \<Rightarrow> (RAssignment (Inl (AlreadyExists (''tag assignment '' @ debug_key k))), s)
      | None \<Rightarrow> (RAssignment (Inr a), s\<lparr>sp_assignments := (sp_assignments s)(k \<mapsto> a)\<rparr>))"
| "tag_spec_step (OpGetAssignment et en tk) s =
     (RAssignment (ok_or (assignment_not_found (et, en, tk)) (sp_assignments s (et, en, tk))), s)"
| "tag_spec_step (OpListAssignments et en pg) s =
     (RAssignments (Inr (paginate
        (listing (\<lambda>k. if fst k = et \<and> fst (snd k) = en then sp_assignments s k else None)) pg)), s)"
| "tag_spec_step (OpUpdateAssignment et en tk a) s =
     (case sp_assignments s (et, en, tk) of
        None \<Rightarrow> (RAssignment (Inl (assignment_not_found (et, en, tk))), s)
      | Some old \<Rightarrow> let b = old\<lparr>ta_tag_value := ta_tag_value a\<rparr> in
          (RAssignment (Inr b), s\<lparr>sp_assignments := (sp_assignments s)((et, en, tk) \<mapsto> b)\<rparr>))"
| "tag_spec_step (OpDeleteAssignment et en tk) s =
     (case sp_assignments s (et, en, tk) of
        None \<Rightarrow> (RUnit (Inl (assignment_not_found (et, en, tk))), s)
      | Some _ \<Rightarrow> (RUnit (Inr ()), s\<lparr>sp_assignments := (sp_assignments s)((et, en, tk) := None)\<rparr>))"

fun tag_spec_run :: "tag_op list \<Rightarrow> tag_spec \<Rightarrow> tag_reply list \<times> tag_spec" where
  "tag_spec_run [] s = ([], s)"
| "tag_spec_run (c # cs) s =
     (let (r, s') = tag_spec_step c s; (rs, s'') = tag_spec_run cs s' in (r # rs, s''))"

section \<open>The contract of the trait\<close>

locale tag_store_contract =
  fixes ts :: "'s tag_store"
    and absn :: "'s \<Rightarrow> tag_spec"
    and inv :: "'s \<Rightarrow> bool"
  assumes step_refines:
      "inv s \<Longrightarrow> tag_step ts c s = (r, s') \<Longrightarrow> tag_spec_step c (absn s) = (r, absn s')"
    and step_inv: "inv s \<Longrightarrow> tag_step ts c s = (r, s') \<Longrightarrow> inv s'"
begin

lemma run_refines:
  "inv s \<Longrightarrow> tag_run ts cs s = (rs, s') \<Longrightarrow> tag_spec_run cs (absn s) = (rs, absn s') \<and> inv s'"
proof (induction cs arbitrary: s rs s')
  case Nil
  then show ?case by simp
next
  case (Cons c cs)
  obtain r t where step: "tag_step ts c s = (r, t)" by (cases "tag_step ts c s")
  obtain us u where run: "tag_run ts cs t = (us, u)" by (cases "tag_run ts cs t")
  have "tag_spec_run cs (absn t) = (us, absn u) \<and> inv u"
    using Cons.IH [OF step_inv [OF Cons.prems(1) step] run] .
  with Cons.prems(2) step run step_refines [OF Cons.prems(1) step] show ?case by auto
qed

lemma get_policy_abs: "inv s \<Longrightarrow> ts_get_policy ts k s = ok_or (policy_not_found k) (sp_policies (absn s) k)"
  using step_refines [of s "OpGetPolicy k"] by simp

lemma get_assignment_abs:
  "inv s \<Longrightarrow> ts_get_assignment ts et en tk s
     = ok_or (assignment_not_found (et, en, tk)) (sp_assignments (absn s) (et, en, tk))"
  using step_refines [of s "OpGetAssignment et en tk"] by simp

lemma create_policy_abs:
  assumes "inv s" and "ts_create_policy ts amb p s = (r, s')"
  shows "tag_spec_step (OpCreatePolicy amb p) (absn s) = (RPolicy r, absn s')" and "inv s'"
  using step_refines [of s "OpCreatePolicy amb p"] step_inv [of s "OpCreatePolicy amb p"] assms
  by simp_all

lemma update_policy_abs:
  assumes "inv s" and "ts_update_policy ts amb k p m s = (r, s')"
  shows "tag_spec_step (OpUpdatePolicy amb k p m) (absn s) = (RPolicy r, absn s')" and "inv s'"
  using step_refines [of s "OpUpdatePolicy amb k p m"] step_inv [of s "OpUpdatePolicy amb k p m"] assms
  by simp_all

lemma delete_policy_abs:
  assumes "inv s" and "ts_delete_policy ts k s = (r, s')"
  shows "tag_spec_step (OpDeletePolicy k) (absn s) = (RUnit r, absn s')" and "inv s'"
  using step_refines [of s "OpDeletePolicy k"] step_inv [of s "OpDeletePolicy k"] assms
  by simp_all

lemma create_assignment_abs:
  assumes "inv s" and "ts_create_assignment ts a s = (r, s')"
  shows "tag_spec_step (OpCreateAssignment a) (absn s) = (RAssignment r, absn s')" and "inv s'"
  using step_refines [of s "OpCreateAssignment a"] step_inv [of s "OpCreateAssignment a"] assms
  by simp_all

lemma delete_assignment_abs:
  assumes "inv s" and "ts_delete_assignment ts et en tk s = (r, s')"
  shows "tag_spec_step (OpDeleteAssignment et en tk) (absn s) = (RUnit r, absn s')" and "inv s'"
  using step_refines [of s "OpDeleteAssignment et en tk"] step_inv [of s "OpDeleteAssignment et en tk"]
    assms by simp_all

lemma create_policy_ok:
  assumes "inv s" and "ts_create_policy ts amb p s = (Inr q, s')"
  shows "tp_tag_key p \<noteq> [] \<and> sp_policies (absn s) (tp_tag_key p) = None \<and> inv s' \<and>
    absn s' = (absn s)\<lparr>sp_policies := (sp_policies (absn s))(tp_tag_key p \<mapsto> q)\<rparr>"
  using create_policy_abs [OF assms] by (auto simp: Let_def split: if_splits option.splits)

lemma delete_policy_result:
  assumes "inv s" and "ts_delete_policy ts k s = (r, s')"
  shows "inv s' \<and> absn s' = (absn s)\<lparr>sp_policies := (sp_policies (absn s))(k := None)\<rparr>"
  using delete_policy_abs [OF assms] by (auto simp: fun_upd_idem split: option.splits)

text \<open>A policy that was created can be read, and cannot be created again until it is deleted.\<close>

lemma create_get_policy:
  assumes "inv s" and "ts_create_policy ts amb p s = (Inr q, s')"
  shows "ts_get_policy ts (tp_tag_key p) s' = Inr q"
  using create_policy_ok [OF assms] by (simp add: get_policy_abs)

lemma create_policy_twice:
  assumes "inv s" and "ts_create_policy ts amb p s = (Inr q, s')"
    and "tp_tag_key p' = tp_tag_key p" and "ts_create_policy ts amb' p' s' = (r, s'')"
  shows "r = Inl (AlreadyExists (''tag policy '' @ debug_str (tp_tag_key p)))" and "absn s'' = absn s'"
proof -
  from create_policy_ok [OF assms(1,2)]
  have "tp_tag_key p \<noteq> [] \<and> sp_policies (absn s') (tp_tag_key p) = Some q" and "inv s'"
    by simp_all
  with create_policy_abs(1) [OF \<open>inv s'\<close> assms(4)] assms(3)
  show "r = Inl (AlreadyExists (''tag policy '' @ debug_str (tp_tag_key p)))" and "absn s'' = absn s'"
    by simp_all
qed

lemma delete_get_policy:
  assumes "inv s" and "ts_delete_policy ts k s = (r, s')"
  shows "ts_get_policy ts k s' = Inl (policy_not_found k)"
  using delete_policy_result [OF assms] by (simp add: get_policy_abs)

end


section \<open>The memory store is a tag store\<close>

definition mem_tag_abs :: "memory_store \<Rightarrow> tag_spec" where
  "mem_tag_abs s = \<lparr>sp_policies = bm_get (policies s), sp_assignments = bm_get (assignments s)\<rparr>"

definition policy_ok :: "string \<Rightarrow> tag_policy \<Rightarrow> bool" where
  "policy_ok k p \<longleftrightarrow> tp_tag_key p = k \<and> k \<noteq> [] \<and> tp_id p \<noteq> None \<and>
     tp_created_at p \<noteq> None \<and> tp_updated_at p \<noteq> None"

definition assignment_ok :: "assignment_key \<Rightarrow> tag_assignment \<Rightarrow> bool" where
  "assignment_ok k a \<longleftrightarrow> key_of_assignment a = k \<and> ta_entity_type a \<noteq> [] \<and>
     ta_entity_name a \<noteq> [] \<and> ta_tag_key a \<noteq> []"

text \<open>
  The invariant of the tag maps: sorted, every policy complete and stored under its own key, every
  assignment stored under its own triple, no empty key component.
\<close>

definition mem_tag_inv :: "memory_store \<Rightarrow> bool" where
  "mem_tag_inv s \<longleftrightarrow> bm_wf (policies s) \<and> bm_wf (assignments s) \<and>
     (\<forall>k p. bm_get (policies s) k = Some p \<longrightarrow> policy_ok k p) \<and>
     (\<forall>k a. bm_get (assignments s) k = Some a \<longrightarrow> assignment_ok k a)"

lemmas mem_tag_defs =
  memory_tag_store_def mem_create_policy_def mem_get_policy_def mem_list_policies_def
  mem_update_policy_def mem_delete_policy_def mem_create_assignment_def mem_get_assignment_def
  mem_list_assignments_def mem_update_assignment_def mem_delete_assignment_def

lemma bm_values_listing: "bm_wf m \<Longrightarrow> bm_values m = listing (bm_get m)"
  using bm.entries_alt [of m] by (simp add: bm_values_def listing_def) (metis (no_types, lifting) comp_apply map_eq_conv map_map snd_conv)

lemma matching_listing:
  fixes m :: "(assignment_key, 'v) btree_map"
  assumes "bm_wf m"
  shows "map snd (filter (\<lambda>((et', en', _), _). et' = et \<and> en' = en) m)
    = listing (\<lambda>k. if fst k = et \<and> fst (snd k) = en then bm_get m k else None)"
proof -
  let ?f = "filter (\<lambda>(k, _). fst k = et \<and> fst (snd k) = en) m"
  have "(\<lambda>((et', en', _ :: string), _ :: 'v). et' = et \<and> en' = en) = (\<lambda>(k, _). fst k = et \<and> fst (snd k) = en)"
    by auto
  then have "map snd (filter (\<lambda>((et', en', _), _). et' = et \<and> en' = en) m) = bm_values ?f"
    by (simp add: bm_values_def)
  also have "\<dots> = listing (bm_get ?f)" by (rule bm_values_listing [OF bm_wf_filter [OF assms]])
  also have "bm_get ?f = (\<lambda>k. if fst k = et \<and> fst (snd k) = en then bm_get m k else None)"
    by (rule ext) (rule bm_get_filter [OF assms])
  finally show ?thesis .
qed

text \<open>One operation of the memory store is one step of the machine, and keeps the invariant.\<close>

lemma mem_tag_step_refines:
  assumes "mem_tag_inv s" and "tag_step memory_tag_store c s = (r, s')"
  shows "tag_spec_step c (mem_tag_abs s) = (r, mem_tag_abs s')"
proof -
  from assms(1) have wf: "bm_wf (policies s)" "bm_wf (assignments s)"
    by (simp_all add: mem_tag_inv_def)
  show ?thesis
  proof (cases c)
    case (OpListAssignments et en pg)
    with assms(2) wf show ?thesis
      by (auto simp: mem_tag_abs_def mem_tag_defs matching_listing cong: if_cong)
  qed (use assms(2) wf in \<open>auto simp: mem_tag_abs_def mem_tag_defs Let_def bm_contains_key_def
    bm_get_simps fun_eq_iff bm_values_listing spec_updated_policy_def touches_def
    split: option.splits if_splits\<close>)
qed

lemma mem_tag_inv_insert_policy:
  "mem_tag_inv s \<Longrightarrow> policy_ok k p \<Longrightarrow> mem_tag_inv (s\<lparr>policies := bm_insert (policies s) k p\<rparr>)"
  by (auto simp: mem_tag_inv_def bm_get_insert)

lemma mem_tag_inv_remove_policy:
  "mem_tag_inv s \<Longrightarrow> mem_tag_inv (s\<lparr>policies := bm_remove (policies s) k\<rparr>)"
  by (auto simp: mem_tag_inv_def bm_get_remove)

lemma mem_tag_inv_insert_assignment:
  "mem_tag_inv s \<Longrightarrow> assignment_ok k a
    \<Longrightarrow> mem_tag_inv (s\<lparr>assignments := bm_insert (assignments s) k a\<rparr>)"
  unfolding mem_tag_inv_def by (auto simp: bm_get_insert simp del: split_paired_All)

lemma mem_tag_inv_remove_assignment:
  "mem_tag_inv s \<Longrightarrow> mem_tag_inv (s\<lparr>assignments := bm_remove (assignments s) k\<rparr>)"
  unfolding mem_tag_inv_def by (auto simp: bm_get_remove simp del: split_paired_All)

lemmas mem_tag_inv_intros = mem_tag_inv_insert_policy mem_tag_inv_remove_policy
  mem_tag_inv_insert_assignment mem_tag_inv_remove_assignment

lemma mem_tag_inv_policyD: "mem_tag_inv s \<Longrightarrow> bm_get (policies s) k = Some p \<Longrightarrow> policy_ok k p"
  by (simp add: mem_tag_inv_def)

lemma mem_tag_inv_assignmentD:
  "mem_tag_inv s \<Longrightarrow> bm_get (assignments s) k = Some a \<Longrightarrow> assignment_ok k a"
  unfolding mem_tag_inv_def by blast

lemma mem_tag_step_inv:
  assumes "mem_tag_inv s" and "tag_step memory_tag_store c s = (r, s')"
  shows "mem_tag_inv s'"
proof (cases c)
  case (OpCreatePolicy amb p)
  with assms show ?thesis
    by (auto simp: mem_tag_defs Let_def policy_ok_def split: if_splits intro!: mem_tag_inv_intros)
next
  case (OpUpdatePolicy amb k p m)
  with assms show ?thesis
    by (auto simp: mem_tag_defs Let_def policy_ok_def
        split: option.splits dest!: mem_tag_inv_policyD intro!: mem_tag_inv_intros)
next
  case (OpCreateAssignment a)
  with assms show ?thesis
    by (auto simp: mem_tag_defs Let_def assignment_ok_def split: if_splits intro!: mem_tag_inv_intros)
next
  case (OpUpdateAssignment et en tk a)
  with assms show ?thesis
    by (auto simp: mem_tag_defs Let_def assignment_ok_def key_of_assignment_def
        split: option.splits dest!: mem_tag_inv_assignmentD intro!: mem_tag_inv_intros)
qed (use assms in \<open>auto simp: mem_tag_defs Let_def intro!: mem_tag_inv_intros\<close>)

interpretation mem_tags: tag_store_contract memory_tag_store mem_tag_abs mem_tag_inv
  by unfold_locales (fact mem_tag_step_refines, fact mem_tag_step_inv)

lemma mem_tag_inv_new [simp]: "mem_tag_inv new_memory_store"
  by (simp add: mem_tag_inv_def new_memory_store_def)

lemma mem_tag_abs_new [simp]:
  "mem_tag_abs new_memory_store = \<lparr>sp_policies = (\<lambda>_. None), sp_assignments = (\<lambda>_. None)\<rparr>"
  by (simp add: mem_tag_abs_def new_memory_store_def fun_eq_iff)

end
