(* ===== verification/Portal_Service.thy ===== *)
theory Portal_Service
  imports File_Contract Tag_Spec
begin

text \<open>
  The ConnectRPC handlers (\<^verbatim>\<open>crates/portal/src/service/\<close>): what each does with a decoded request, over any
  \<^verbatim>\<open>FileStore\<close> and \<^verbatim>\<open>TagStore\<close>. A request is its fields; the response is the message the handler builds,
  and a response stream is the list of its items. Transport and message encoding are not modelled.
\<close>

section \<open>Requests\<close>

record upload_request =
  ur_path :: string
  ur_content_type :: "string option"
  ur_chunk :: bytes

record upload_response =
  us_path :: string
  us_file_size :: int
  us_etag :: string

definition request_page :: "int option \<Rightarrow> string option \<Rightarrow> page" where
  "request_page limit token =
     \<lparr>max_results = map_option (\<lambda>n. nat (max 0 n)) limit, page_token = token\<rparr>"

definition parse_update_mask :: "string option \<Rightarrow> string list" where
  "parse_update_mask update_mask =
     (case update_mask of
        None \<Rightarrow> []
      | Some m \<Rightarrow> filter (\<lambda>s. s \<noteq> []) (map str_trim (str_split CHR '','' m)))"

definition svc :: "'a store_result \<Rightarrow> 'a service_result" where
  "svc r = map_err connect_of_store r"

definition svc_write :: "'a store_result \<times> 's \<Rightarrow> 'a service_result \<times> 's" where
  "svc_write p = map_prod svc id p"

section \<open>FilesService\<close>

text \<open>
  The byte stream an upload hands to the store: the first message's chunk, then the later messages'
  chunks, a failed message as a failed item. \<^verbatim>\<open>display\<close> is the text of a \<^verbatim>\<open>ConnectError\<close>.
\<close>

definition upload_item ::
  "(connect_error \<Rightarrow> string) \<Rightarrow> upload_request service_result \<Rightarrow> bytes store_result" where
  "upload_item display item =
     map_err (\<lambda>e. Internal (''upload stream error: '' @ display e)) (map_ok ur_chunk item)"

definition upload_stream ::
  "(connect_error \<Rightarrow> string) \<Rightarrow> upload_request \<Rightarrow> upload_request service_result list
    \<Rightarrow> bytes store_result list" where
  "upload_stream display first rest = Inr (ur_chunk first) # map (upload_item display) rest"

definition upload_file ::
  "(connect_error \<Rightarrow> string) \<Rightarrow> 's file_store \<Rightarrow> ambient \<Rightarrow> upload_request service_result list \<Rightarrow> 's
    \<Rightarrow> upload_response service_result \<times> 's" where
  "upload_file display fs amb requests s =
     (case requests of
        [] \<Rightarrow> (Inl (Connect_invalid_argument ''upload stream was empty''), s)
      | Inl e # _ \<Rightarrow> (Inl e, s)
      | Inr first # rest \<Rightarrow>
          if ur_path first = []
          then (Inl (Connect_invalid_argument ''first message must set `path`''), s)
          else
            (let (r, s') = fs_put_file_stream fs amb (ur_path first) (ur_content_type first)
                             (upload_stream display first rest) s
             in (svc (map_ok (\<lambda>m. \<lparr>us_path = fm_path m, us_file_size = fm_file_size m,
                                     us_etag = fm_etag m\<rparr>) r), s')))"

definition download_file ::
  "'s file_store \<Rightarrow> string \<Rightarrow> int option \<Rightarrow> int option \<Rightarrow> 's
    \<Rightarrow> bytes service_result list service_result" where
  "download_file fs path offset len s =
     svc (map_ok (map svc) (fs_read_file_stream fs path offset len s))"

definition delete_file :: "'s file_store \<Rightarrow> string \<Rightarrow> 's \<Rightarrow> unit service_result \<times> 's" where
  "delete_file fs path s = svc_write (fs_delete_file fs path s)"

definition get_file_metadata :: "'s file_store \<Rightarrow> string \<Rightarrow> 's \<Rightarrow> file_metadata service_result" where
  "get_file_metadata fs path s = svc (fs_stat_file fs path s)"

definition create_directory ::
  "'s file_store \<Rightarrow> ambient \<Rightarrow> string \<Rightarrow> 's \<Rightarrow> directory_metadata service_result \<times> 's" where
  "create_directory fs amb path s = svc_write (fs_create_directory fs amb path s)"

definition delete_directory :: "'s file_store \<Rightarrow> string \<Rightarrow> 's \<Rightarrow> unit service_result \<times> 's" where
  "delete_directory fs path s = svc_write (fs_delete_directory fs path s)"

definition list_directory_contents ::
  "'s file_store \<Rightarrow> string \<Rightarrow> int option \<Rightarrow> string option \<Rightarrow> 's
    \<Rightarrow> (directory_entry list \<times> string option) service_result" where
  "list_directory_contents fs path limit token s =
     svc (fs_list_directory fs path (request_page limit token) s)"

definition get_directory_metadata ::
  "'s file_store \<Rightarrow> string \<Rightarrow> 's \<Rightarrow> directory_metadata service_result" where
  "get_directory_metadata fs path s = svc (fs_stat_directory fs path s)"

definition list_directory_stream ::
  "'s file_store \<Rightarrow> string \<Rightarrow> bool \<Rightarrow> string option \<Rightarrow> int option \<Rightarrow> 's
    \<Rightarrow> directory_entry service_result list service_result" where
  "list_directory_stream fs path recursive start_after limit s =
     svc (map_ok (map svc) (fs_list_files_opts fs path
       \<lparr>lo_recursive = recursive, lo_start_after = start_after,
        lo_max_results = map_option (\<lambda>n. nat (max 0 n)) limit\<rparr> s))"

section \<open>TagPoliciesService\<close>

definition list_tag_policies ::
  "'s tag_store \<Rightarrow> int option \<Rightarrow> string option \<Rightarrow> 's
    \<Rightarrow> (tag_policy list \<times> string option) service_result" where
  "list_tag_policies ts limit token s = svc (ts_list_policies ts (request_page limit token) s)"

definition create_tag_policy ::
  "'s tag_store \<Rightarrow> ambient \<Rightarrow> tag_policy option \<Rightarrow> 's \<Rightarrow> tag_policy service_result \<times> 's" where
  "create_tag_policy ts amb policy s =
     (case policy of
        None \<Rightarrow> (Inl (Connect_invalid_argument ''tag_policy is required''), s)
      | Some p \<Rightarrow> svc_write (ts_create_policy ts amb p s))"

definition get_tag_policy :: "'s tag_store \<Rightarrow> string \<Rightarrow> 's \<Rightarrow> tag_policy service_result" where
  "get_tag_policy ts tag_key s = svc (ts_get_policy ts tag_key s)"

definition update_tag_policy ::
  "'s tag_store \<Rightarrow> ambient \<Rightarrow> string \<Rightarrow> tag_policy option \<Rightarrow> string option \<Rightarrow> 's
    \<Rightarrow> tag_policy service_result \<times> 's" where
  "update_tag_policy ts amb tag_key policy update_mask s =
     (case policy of
        None \<Rightarrow> (Inl (Connect_invalid_argument ''tag_policy is required''), s)
      | Some p \<Rightarrow> svc_write (ts_update_policy ts amb tag_key p (parse_update_mask update_mask) s))"

definition delete_tag_policy :: "'s tag_store \<Rightarrow> string \<Rightarrow> 's \<Rightarrow> unit service_result \<times> 's" where
  "delete_tag_policy ts tag_key s = svc_write (ts_delete_policy ts tag_key s)"

section \<open>EntityTagAssignmentsService\<close>

definition list_entity_tag_assignments ::
  "'s tag_store \<Rightarrow> string \<Rightarrow> string \<Rightarrow> int option \<Rightarrow> string option \<Rightarrow> 's
    \<Rightarrow> (tag_assignment list \<times> string option) service_result" where
  "list_entity_tag_assignments ts entity_type entity_name limit token s =
     svc (ts_list_assignments ts entity_type entity_name (request_page limit token) s)"

definition create_entity_tag_assignment ::
  "'s tag_store \<Rightarrow> tag_assignment option \<Rightarrow> 's \<Rightarrow> tag_assignment service_result \<times> 's" where
  "create_entity_tag_assignment ts a s =
     (case a of
        None \<Rightarrow> (Inl (Connect_invalid_argument ''tag_assignment is required''), s)
      | Some x \<Rightarrow> svc_write (ts_create_assignment ts x s))"

definition get_entity_tag_assignment ::
  "'s tag_store \<Rightarrow> string \<Rightarrow> string \<Rightarrow> string \<Rightarrow> 's \<Rightarrow> tag_assignment service_result" where
  "get_entity_tag_assignment ts entity_type entity_name tag_key s =
     svc (ts_get_assignment ts entity_type entity_name tag_key s)"

definition update_entity_tag_assignment ::
  "'s tag_store \<Rightarrow> string \<Rightarrow> string \<Rightarrow> string \<Rightarrow> tag_assignment option \<Rightarrow> 's
    \<Rightarrow> tag_assignment service_result \<times> 's" where
  "update_entity_tag_assignment ts entity_type entity_name tag_key a s =
     (case a of
        None \<Rightarrow> (Inl (Connect_invalid_argument ''tag_assignment is required''), s)
      | Some x \<Rightarrow> svc_write (ts_update_assignment ts entity_type entity_name tag_key x s))"

definition delete_entity_tag_assignment ::
  "'s tag_store \<Rightarrow> string \<Rightarrow> string \<Rightarrow> string \<Rightarrow> 's \<Rightarrow> unit service_result \<times> 's" where
  "delete_entity_tag_assignment ts entity_type entity_name tag_key s =
     svc_write (ts_delete_assignment ts entity_type entity_name tag_key s)"

section \<open>Requests and their effect\<close>

lemma svc_Inr_iff [simp]: "svc r = Inr x \<longleftrightarrow> r = Inr x"
  by (simp add: svc_def)

lemma svc_simps [simp]: "svc (Inr x) = Inr x" "svc (Inl e) = Inl (connect_of_store e)"
  by (simp_all add: svc_def)

text \<open>The bytes of an upload: its messages' chunks, if no message failed.\<close>

lemma upload_item_Inr [simp]: "upload_item display item = Inr b \<longleftrightarrow> (\<exists>m. item = Inr m \<and> b = ur_chunk m)"
  by (simp add: upload_item_def map_ok_Inr_iff)

lemma collect_chunks_Cons:
  "collect_chunks (c # cs) = Inr b \<longleftrightarrow> (\<exists>x y. c = Inr x \<and> collect_chunks cs = Inr y \<and> b = x @ y)"
  by (cases c) (auto simp: map_ok_Inr_iff)

lemma collect_upload_items:
  "collect_chunks (map (upload_item display) rest) = Inr c \<longleftrightarrow>
     (\<exists>msgs. rest = map Inr msgs \<and> c = concat (map ur_chunk msgs))"
proof (induction rest arbitrary: c)
  case (Cons item rest)
  have "(\<exists>msgs. item # rest = map Inr msgs \<and> c = concat (map ur_chunk msgs)) \<longleftrightarrow>
      (\<exists>m msgs. item = Inr m \<and> rest = map Inr msgs \<and> c = ur_chunk m @ concat (map ur_chunk msgs))"
    by (auto simp: Cons_eq_map_conv)
  with Cons.IH show ?case by (simp only: list.map collect_chunks_Cons upload_item_Inr) blast
qed auto

lemma collect_upload_stream:
  "collect_chunks (upload_stream display first rest) = Inr b \<longleftrightarrow>
     (\<exists>msgs. rest = map Inr msgs \<and> b = concat (map ur_chunk (first # msgs)))"
  by (auto simp: upload_stream_def collect_chunks_Cons collect_upload_items simp del: collect_chunks.simps)

definition download_bytes :: "bytes service_result list service_result \<Rightarrow> bytes option" where
  "download_bytes r =
     (case r of
        Inl _ \<Rightarrow> None
      | Inr items \<Rightarrow>
          if \<forall>i \<in> set items. is_ok i then Some (concat (map projr items)) else None)"

lemma collect_chunks_all:
  "collect_chunks cs = Inr b \<longleftrightarrow> (\<forall>c \<in> set cs. is_ok c) \<and> b = concat (map projr cs)"
proof (induction cs arbitrary: b)
  case (Cons c cs)
  then show ?case by (cases c) (auto simp: map_ok_Inr_iff)
qed auto

lemma is_ok_svc [simp]: "is_ok (svc r) = is_ok r"
  by (cases r) simp_all

lemma download_bytes_iff:
  "download_bytes (download_file fs p off len s) = Some b \<longleftrightarrow>
     (\<exists>chunks. fs_read_file_stream fs p off len s = Inr chunks \<and> collect_chunks chunks = Inr b)"
proof (cases "fs_read_file_stream fs p off len s")
  case (Inl e)
  then show ?thesis by (simp add: download_file_def download_bytes_def)
next
  case (Inr chunks)
  have "concat (map (projr \<circ> svc) chunks) = concat (map projr chunks)"
    if "\<forall>c \<in> set chunks. is_ok c"
    using that by (intro arg_cong [where f = concat]) (auto simp: is_ok_iff)
  with Inr show ?thesis
    by (auto simp: download_file_def download_bytes_def collect_chunks_all)
qed

text \<open>A request's limit is never negative once it reaches a store.\<close>

lemma list_contents_bound:
  assumes "list_directory_contents memory_file_store p (Some n) token s = Inr (es, tok)"
  shows "int (length es) \<le> max 0 n"
proof -
  let ?pg = "request_page (Some n) token"
  from assms obtain items :: "directory_entry list" where "paginate items ?pg = (es, tok)"
    by (auto simp: list_directory_contents_def memory_file_store_def mem_list_directory_def Let_def)
  moreover have "length (fst (paginate items ?pg)) \<le> nat (max 0 n)"
    by (rule length_paginate) (simp add: request_page_def)
  ultimately show ?thesis by simp
qed

context file_store_contract
begin

text \<open>A successful upload stores the chunks of its messages, all of which arrived.\<close>

lemma upload_contents:
  assumes "inv s" and "upload_file display fs amb requests s = (Inr resp, s')"
  shows "\<exists>first msgs k. requests = map Inr (first # msgs) \<and> key (ur_path first) = Some k \<and>
    us_file_size resp = int (length (concat (map ur_chunk (first # msgs)))) \<and>
    contents s' = (contents s)(k \<mapsto> concat (map ur_chunk (first # msgs))) \<and> inv s'"
proof -
  from assms(2) obtain first rest where req: "requests = Inr first # rest"
    by (auto simp: upload_file_def split: list.splits sum.splits)
  with assms(2) obtain m where run: "fs_put_file_stream fs amb (ur_path first) (ur_content_type first)
        (upload_stream display first rest) s = (Inr m, s')" and resp: "us_file_size resp = fm_file_size m"
    by (auto simp: upload_file_def Let_def map_ok_Inr_iff split: if_splits prod.splits)
  have inv': "inv s'"
    using put_stream_inv [OF assms(1)] run by (metis snd_conv)
  from put_stream_ok [OF assms(1) run] obtain k b
    where coll: "collect_chunks (upload_stream display first rest) = Inr b"
      and k: "key (ur_path first) = Some k" "fm_file_size m = int (length b)" "contents s' = (contents s)(k \<mapsto> b)"
    by blast
  from coll obtain msgs where "rest = map Inr msgs" "b = concat (map ur_chunk (first # msgs))"
    by (auto simp: collect_upload_stream)
  with req k resp inv' show ?thesis by (intro exI [of _ first] exI [of _ msgs] exI [of _ k]) simp
qed

lemma download_full:
  assumes "inv s"
  shows "download_bytes (download_file fs p None None s) = Some b \<longleftrightarrow>
    (\<exists>k. key p = Some k \<and> contents s k = Some b)"
proof -
  have "(\<exists>chunks. fs_read_file_stream fs p None None s = Inr chunks \<and> collect_chunks chunks = Inr b)
      \<longleftrightarrow> fs_read_file fs p None None s = Inr b"
    using read_stream [OF assms, of p None None] read_stream_open [OF assms, of p None None] by metis
  then show ?thesis by (simp add: download_bytes_iff read_full [OF assms])
qed

text \<open>What an upload stored is what a download of its path returns.\<close>

lemma upload_download:
  assumes "inv s" and "upload_file display fs amb requests s = (Inr resp, s')"
  shows "\<exists>first msgs. requests = map Inr (first # msgs) \<and>
    download_bytes (download_file fs (ur_path first) None None s')
      = Some (concat (map ur_chunk (first # msgs)))"
proof -
  from upload_contents [OF assms] obtain first msgs k
    where "requests = map Inr (first # msgs)" and "key (ur_path first) = Some k"
      and "contents s' = (contents s)(k \<mapsto> concat (map ur_chunk (first # msgs)))" and "inv s'"
    by blast
  then show ?thesis
    by (intro exI [of _ first] exI [of _ msgs]) (simp add: download_full)
qed

end

end
