(* ===== verification/Local_Contract.thy ===== *)
theory Local_Contract
  imports Local_Facts Portal_Service
begin

text \<open>
  The local store keeps the contents contract, its writing calls stay under the root, and the
  routing store of the desktop host (home on disk, volumes in memory) keeps the contract too.
\<close>

section \<open>Deleting and creating\<close>

lemma fs_remove_file_result:
  assumes "tree_ok fs" and "fs_remove_file t p fs = (r, fs')"
  shows "tree_ok fs' \<and> (prefix root p \<longrightarrow> same_outside root fs fs') \<and> (\<forall>e. r = Inl e \<longrightarrow> fs' = fs) \<and>
    (\<forall>u. r = Inr u \<longrightarrow> file_at fs p \<noteq> None \<and> file_at fs' = (file_at fs)(p := None))"
proof (cases "fs_metadata p fs")
  case (Inl e)
  with assms(2,1) show ?thesis by (auto simp: fs_remove_file_def)
next
  case (Inr n)
  then have at: "bm_get fs p = Some n" by (simp add: fs_metadata_ok_iff [OF assms(1)])
  show ?thesis
  proof (cases n)
    case (DirNode u)
    with Inr assms(2,1) show ?thesis by (auto simp: fs_remove_file_def)
  next
    case (FileNode u b)
    with at tree_ok_root [OF assms(1)] have p: "p \<noteq> []" by auto
    have "bm_get fs q = None" if "q \<noteq> []" "butlast q = p" for q
      using that tree_ok_parent [OF assms(1), of q] at FileNode by (cases "bm_get fs q") auto
    from tree_ok_remove [OF assms(1) p this] have ok: "tree_ok (bm_remove fs p)" .
    have fs': "r = Inr ()" "fs' = fs_touch t (butlast p) (bm_remove fs p)"
      using assms(2) Inr FileNode by (auto simp: fs_remove_file_def)
    have "file_at (bm_remove fs p) = (file_at fs)(p := None)"
      using assms(1) by (auto simp: file_at_def fun_eq_iff bm_get_remove)
    moreover have "prefix root p \<longrightarrow> same_outside root fs fs'"
      using same_outside_trans [OF same_outside_remove same_outside_touch] assms(1) fs' by auto
    ultimately show ?thesis
      using ok fs' at FileNode by (auto simp: tree_ok_touch file_at_def)
  qed
qed

lemma fs_read_dir_ok:
  assumes "tree_ok fs" and "fs_read_dir p fs = Inr names"
  shows "names = fs_children p fs" and "\<exists>t. bm_get fs p = Some (DirNode t)"
  using assms fs_metadata_ok_iff [OF assms(1), of p]
  by (auto simp: fs_read_dir_def split: sum.splits node.splits)

lemma fs_remove_dir_result:
  assumes "tree_ok fs" and "fs_remove_dir t p fs = (r, fs')"
  shows "tree_ok fs' \<and> (prefix root p \<longrightarrow> same_outside root fs fs') \<and> file_at fs' = file_at fs \<and>
    (\<forall>e. r = Inl e \<longrightarrow> fs' = fs)"
proof (cases "fs_read_dir p fs = Inr [] \<and> p \<noteq> []")
  case False
  with assms(2,1) show ?thesis by (auto simp: fs_remove_dir_def split: sum.splits if_splits)
next
  case True
  with fs_read_dir_ok [OF assms(1)] obtain u
    where c: "fs_children p fs = []" and d: "bm_get fs p = Some (DirNode u)" by metis
  have ok: "tree_ok (bm_remove fs p)"
    using True fs_children_empty [OF assms(1) c] by (intro tree_ok_remove [OF assms(1)]) auto
  have fs': "r = Inr ()" "fs' = fs_touch t (butlast p) (bm_remove fs p)"
    using assms(2) True by (auto simp: fs_remove_dir_def)
  have "file_at (bm_remove fs p) = file_at fs"
    using assms(1) d by (auto simp: file_at_def fun_eq_iff bm_get_remove)
  with ok fs' same_outside_trans [OF same_outside_remove same_outside_touch] assms(1)
  show ?thesis by (auto simp: tree_ok_touch)
qed

lemma local_delete_result:
  assumes inv: "local_inv root fs" and run: "local_delete_file root t path fs = (r, fs')"
  shows "local_inv root fs' \<and> same_outside root fs fs' \<and> (\<forall>e. r = Inl e \<longrightarrow> fs' = fs) \<and>
    (\<forall>u. r = Inr u \<longrightarrow> (\<exists>target. local_resolve root path = Inr target \<and>
       file_at fs target \<noteq> None \<and> file_at fs' = (file_at fs)(target := None)))"
proof (cases "local_resolve root path")
  case (Inl e)
  with inv run show ?thesis by (auto simp: local_delete_file_def)
next
  case (Inr target)
  obtain r0 where rm: "fs_remove_file t target fs = (r0, fs')" and r: "r = map_err (io_err path) r0"
    using run Inr by (auto simp: local_delete_file_def Let_def split: prod.splits)
  have pre: "prefix root target" using valid_target [OF inv Inr] by simp
  from fs_remove_file_result [OF _ rm, of root] inv pre
  have res: "tree_ok fs'" "same_outside root fs fs'" "\<forall>e. r0 = Inl e \<longrightarrow> fs' = fs"
    "\<forall>u. r0 = Inr u \<longrightarrow> file_at fs target \<noteq> None \<and> file_at fs' = (file_at fs)(target := None)"
    by (auto simp: local_inv_def)
  with local_inv_keep [OF inv] Inr r show ?thesis by (cases r0) auto
qed

lemma local_mkdir_result:
  assumes inv: "local_inv root fs" and run: "local_create_directory root amb path fs = (r, fs')"
  shows "local_inv root fs' \<and> same_outside root fs fs' \<and> file_at fs' = file_at fs"
proof (cases "local_resolve root path")
  case (Inl e)
  with inv run show ?thesis by (auto simp: local_create_directory_def)
next
  case (Inr target)
  obtain r0 fs0 where mk: "fs_create_dir_all (now_millis amb) target fs = (r0, fs0)" by fastforce
  have fs': "fs' = fs0"
    using run Inr mk by (auto simp: local_create_directory_def split: sum.splits)
  have "dirs_result root target fs r0 fs0"
    using fs_create_dir_all_result [OF inv] valid_target [OF inv Inr] mk by blast
  with fs' local_inv_keep [OF inv] show ?thesis by (auto simp: dirs_result_def)
qed

lemma local_rmdir_result:
  assumes inv: "local_inv root fs" and run: "local_delete_directory root t path fs = (r, fs')"
  shows "local_inv root fs' \<and> same_outside root fs fs' \<and> file_at fs' = file_at fs"
proof (cases "\<exists>target. local_resolve root path = Inr target \<and> fs_read_dir target fs = Inr []")
  case False
  with inv run show ?thesis
    by (auto simp: local_delete_directory_def split: sum.splits if_splits)
next
  case True
  then obtain target where t: "local_resolve root path = Inr target" "fs_read_dir target fs = Inr []"
    by blast
  obtain r0 where "fs_remove_dir t target fs = (r0, fs')"
    using run t by (auto simp: local_delete_directory_def Let_def split: prod.splits)
  from fs_remove_dir_result [OF _ this, of root] valid_target [OF inv t(1)] inv
  have "tree_ok fs'" "same_outside root fs fs'" "file_at fs' = file_at fs"
    by (auto simp: local_inv_def)
  with local_inv_keep [OF inv] show ?thesis by auto
qed

section \<open>Overwriting a file\<close>

lemma fs_create_dir_all_exists:
  assumes "tree_ok fs" and "bm_get fs p = Some (DirNode t')"
  shows "fs_create_dir_all t p fs = (Inr (), fs)"
proof -
  have "fs_mkdir t p fs = (Inl Io_AlreadyExists, fs)"
  proof (cases "p = []")
    case False
    with assms tree_ok_parent have "fs_parent_dir p fs = Inr ()"
      by (simp add: fs_parent_dir_ok_iff [OF assms(1)])
    with assms(2) show ?thesis by (simp add: fs_mkdir_def bm_contains_key_def)
  qed (simp add: fs_mkdir_def)
  with assms show ?thesis
    by (simp add: fs_create_dir_all.simps [of t p fs] fs_is_dir_iff)
qed

text \<open>An upload over an existing file opens it, so a failed chunk has already truncated it.\<close>

lemma local_put_stream_existing:
  assumes inv: "local_inv root fs" and res: "local_resolve root path = Inr target"
    and old: "file_at fs target = Some old" and failed: "collect_chunks cs = Inl e"
  shows "\<exists>fs'. local_put_file_stream root amb path ct cs fs = (Inl e, fs') \<and>
    file_at fs' = (file_at fs)(target \<mapsto> written cs)"
proof -
  from inv have ok: "tree_ok fs" by (simp add: local_inv_def)
  from old obtain u where u: "bm_get fs target = Some (FileNode u old)" using file_atD by blast
  with tree_ok_root [OF ok] have ne: "target \<noteq> []" by auto
  from tree_ok_parent [OF ok u ne] obtain t' where dir: "bm_get fs (butlast target) = Some (DirNode t')" by blast
  let ?t = "now_millis amb" and ?g = "bm_insert fs target (FileNode (now_millis amb) [])"
  have mk: "fs_create_dir_all ?t (butlast target) fs = (Inr (), fs)"
    by (rule fs_create_dir_all_exists [OF ok dir])
  have cr: "fs_create ?t target fs = (Inr (), ?g)"
    using ne u fs_parent_dir_ok_iff [OF ok, of target "()"] dir by (simp add: fs_create_def)
  obtain r fs' where wr: "write_chunks ?t target cs ?g = (r, fs')" by fastforce
  have names: "\<forall>s \<in> set target. valid_name s" using valid_target [OF inv res] by simp
  from fs_create_result [OF ok names cr] have "tree_ok ?g" by simp
  moreover have "file_at ?g target = Some []" by (simp add: file_at_insert)
  ultimately have "file_at fs' = (file_at ?g)(target \<mapsto> written cs) \<and> r = Inl e"
    using write_chunks_result [OF _ _ wr] failed by fastforce
  then show ?thesis
    using res mk cr wr ne by (simp add: local_put_file_stream_def file_at_insert)
qed

section \<open>The contents contract\<close>

definition local_key :: "os_path \<Rightarrow> string \<Rightarrow> os_path option" where
  "local_key root path = (case local_resolve root path of Inr t \<Rightarrow> Some t | Inl _ \<Rightarrow> None)"

lemma local_key_Some: "local_key root p = Some t \<longleftrightarrow> local_resolve root p = Inr t"
  by (simp add: local_key_def split: sum.split)

lemma file_at_metadata:
  "tree_ok fs \<Longrightarrow> file_at fs p = Some b \<longleftrightarrow> (\<exists>t. fs_metadata p fs = Inr (FileNode t b))"
  by (auto simp: fs_metadata_ok_iff file_at_def split: option.splits node.splits)

lemma local_read_full:
  assumes "local_inv root fs"
  shows "local_read_file root p None None fs = Inr b
    \<longleftrightarrow> (\<exists>k. local_key root p = Some k \<and> file_at fs k = Some b)"
proof (cases "local_resolve root p")
  case (Inr t)
  have "tree_ok fs" using assms by (simp add: local_inv_def)
  with Inr show ?thesis
    by (cases "fs_metadata t fs"; cases "projr (fs_metadata t fs)")
      (auto simp: local_read_file_def local_key_Some file_at_metadata)
qed (simp add: local_read_file_def local_key_def)

lemma local_stat_result:
  assumes "local_inv root fs" and "local_stat_file root p fs = Inr m"
  shows "\<exists>k b. local_key root p = Some k \<and> file_at fs k = Some b \<and> fm_path m = p
    \<and> fm_file_size m = int (length b)"
proof -
  from assms(2) obtain t n where t: "local_resolve root p = Inr t" "fs_metadata t fs = Inr n"
    and n: "\<not> is_dir_node n" and m: "m = local_file_metadata p n"
    by (auto simp: local_stat_file_def try_bind_Inr_iff split: if_splits)
  then obtain u b where "n = FileNode u b" by (cases n) auto
  with assms(1) t m show ?thesis
    by (auto simp: local_key_Some local_inv_def file_at_metadata local_file_metadata_def)
qed

lemma local_stat_present:
  assumes "local_inv root fs" and "local_key root p = Some k" and "file_at fs k = Some b"
  shows "\<exists>m. local_stat_file root p fs = Inr m"
  using assms by (auto simp: local_stat_file_def local_key_Some local_inv_def file_at_metadata)

lemma local_put_stream_frame:
  assumes "local_inv root fs" and "local_put_file_stream root amb p ct cs fs = (r, fs')"
    and "local_key root p \<noteq> Some k"
  shows "file_at fs' k = file_at fs k"
  using local_put_stream_result [OF assms(1,2)] assms(3) by (auto simp: local_key_Some)

lemma local_put_stream_ok:
  assumes "local_inv root fs" and "local_put_file_stream root amb p ct cs fs = (Inr m, fs')"
  shows "\<exists>k b. collect_chunks cs = Inr b \<and> local_key root p = Some k \<and> fm_path m = p
    \<and> fm_file_size m = int (length b) \<and> file_at fs' = (file_at fs)(k \<mapsto> b)"
  using local_put_stream_result [OF assms]
  by (cases "collect_chunks cs") (auto simp: local_key_Some collect_written)

lemma local_put_err:
  assumes "local_inv root fs" and "local_put_file root amb p ct b fs = (Inl e, fs')"
  shows "file_at fs' = file_at fs"
proof -
  from assms(2) have run: "local_put_file_stream root amb p ct [Inr b] fs = (Inl e, fs')"
    by (simp add: local_put_file_def)
  from local_put_stream_result [OF assms(1) run] show ?thesis by auto
qed

lemmas local_store_simps = local_file_store_def

interpretation local_files: echoing_file_store "local_file_store root t" "local_inv root"
  "local_key root" file_at for root t
proof (unfold_locales, goal_cases)
  case (1 s p b)
  then show ?case by (simp add: local_store_simps local_read_full)
next
  case (2 s p off len chunks)
  then show ?case
    by (auto simp: local_store_simps local_read_file_stream_def map_ok_Inr_iff)
next
  case (3 s amb p ct b)
  then show ?case
    using local_put_stream_result [of root s amb p ct "[Inr b]"]
    by (cases "local_put_file root amb p ct b s") (simp add: local_store_simps local_put_file_def)
next
  case (4 s amb p ct b m s')
  then show ?case
    using local_put_stream_ok [of root s amb p ct "[Inr b]" m s']
    by (auto simp: local_store_simps local_put_file_def)
next
  case (5 s amb p ct b e s')
  then show ?case by (simp add: local_store_simps local_put_err)
next
  case (6 s amb p ct cs)
  then show ?case
    using local_put_stream_result [of root s amb p ct cs]
    by (cases "local_put_file_stream root amb p ct cs s") (simp add: local_store_simps)
next
  case (7 s amb p ct cs m s')
  then show ?case
    using local_put_stream_ok [of root s amb p ct cs m s'] by (auto simp: local_store_simps)
next
  case (8 s amb p ct cs r s' k)
  then show ?case by (simp add: local_store_simps local_put_stream_frame)
next
  case (9 s p m)
  then show ?case using local_stat_result [of root s p m] by (auto simp: local_store_simps)
next
  case (10 s p k b)
  then show ?case by (simp add: local_store_simps local_stat_present)
next
  case (11 s p)
  then show ?case
    using local_delete_result [of root s t p]
    by (cases "local_delete_file root t p s") (simp add: local_store_simps)
next
  case (12 s p u s')
  then show ?case
    using local_delete_result [of root s t p "Inr u" s']
    by (auto simp: local_store_simps local_key_Some)
next
  case (13 s p e s')
  then show ?case
    using local_delete_result [of root s t p "Inl e" s'] by (auto simp: local_store_simps)
next
  case (14 s amb p)
  then show ?case
    using local_mkdir_result [of root s amb p]
    by (cases "local_create_directory root amb p s") (simp add: local_store_simps)
next
  case (15 s amb p)
  then show ?case
    using local_mkdir_result [of root s amb p]
    by (cases "local_create_directory root amb p s") (simp add: local_store_simps)
next
  case (16 s p)
  then show ?case
    using local_rmdir_result [of root s t p]
    by (cases "local_delete_directory root t p s") (simp add: local_store_simps)
next
  case (17 s p)
  then show ?case
    using local_rmdir_result [of root s t p]
    by (cases "local_delete_directory root t p s") (simp add: local_store_simps)
next
  case (18 s p off len b)
  then show ?case
    by (auto simp: local_store_simps local_read_file_stream_def map_ok_Inr_iff)
next
  case (19 s amb p ct b m s')
  then show ?case
    using local_put_stream_ok [of root s amb p ct "[Inr b]" m s']
    by (auto simp: local_store_simps local_put_file_def)
next
  case (20 s amb p ct cs m s')
  then show ?case
    using local_put_stream_ok [of root s amb p ct cs m s'] by (auto simp: local_store_simps)
next
  case (21 s p m)
  then show ?case using local_stat_result [of root s p m] by (auto simp: local_store_simps)
qed

text \<open>No writing call of the trait changes anything outside the root.\<close>

lemma local_step_outside:
  assumes "local_inv root fs" and "file_step (local_file_store root t) c fs = (ok, fs')"
  shows "same_outside root fs fs' \<and> local_inv root fs'"
proof (cases c)
  case (FPut amb p ct b)
  with assms local_put_stream_result [OF assms(1), of amb p ct "[Inr b]"] show ?thesis
    by (cases "local_put_file root amb p ct b fs") (auto simp: local_store_simps local_put_file_def)
next
  case (FPutStream amb p ct cs)
  with assms local_put_stream_result [OF assms(1), of amb p ct cs] show ?thesis
    by (cases "local_put_file_stream root amb p ct cs fs") (auto simp: local_store_simps)
next
  case (FDelete p)
  with assms local_delete_result [OF assms(1), of t p] show ?thesis
    by (cases "local_delete_file root t p fs") (auto simp: local_store_simps)
next
  case (FMkdir amb p)
  with assms local_mkdir_result [OF assms(1), of amb p] show ?thesis
    by (cases "local_create_directory root amb p fs") (auto simp: local_store_simps)
next
  case (FRmdir p)
  with assms local_rmdir_result [OF assms(1), of t p] show ?thesis
    by (cases "local_delete_directory root t p fs") (auto simp: local_store_simps)
qed

lemma local_run_outside:
  assumes "local_inv root fs" and "file_run (local_file_store root t) cs fs = (oks, fs')"
  shows "same_outside root fs fs' \<and> local_inv root fs'"
  using assms
proof (induction cs arbitrary: fs oks)
  case Nil
  then show ?case by simp
next
  case (Cons c cs)
  obtain ok g where step: "file_step (local_file_store root t) c fs = (ok, g)"
    by (cases "file_step (local_file_store root t) c fs")
  from local_step_outside [OF Cons.prems(1) step]
  have g: "same_outside root fs g" "local_inv root g" by simp_all
  obtain os where "file_run (local_file_store root t) cs g = (os, fs')"
    using Cons.prems(2) step by (auto split: prod.splits)
  from Cons.IH [OF g(2) this] same_outside_trans g(1) show ?case by blast
qed

section \<open>The desktop host's stores: home on disk, volumes in memory\<close>

lemma local_key_slash: "local_key root (slash # trim_start_char slash p) = local_key root p"
  by (simp add: local_key_def local_resolve_alt split: sum.split)

interpretation desktop_files: routed_stores "local_file_store root t" "local_inv root"
  "local_key root" file_at memory_file_store mem_file_inv Some mem_contents for root t
  by unfold_locales (rule local_key_slash)

end
