(* ===== verification/Local_Walk.thy ===== *)
theory Local_Walk
  imports Local_Contract "HOL-Library.Multiset"
begin

text \<open>
  The recursive listing of the local store: the loop returns within its fuel (one unit per directory
  of the tree, and one for a path that names none), and its entries are the files of the subtree.
\<close>

definition target_of :: "os_path \<Rightarrow> string \<Rightarrow> os_path" where
  "target_of root p = root @ logical_segments p"

definition beneath :: "filesystem \<Rightarrow> os_path \<Rightarrow> os_path set" where
  "beneath fs q = {d \<in> set (map fst fs). prefix q d}"

definition walk_weight :: "os_path \<Rightarrow> filesystem \<Rightarrow> string \<Rightarrow> nat" where
  "walk_weight root fs p = max 1 (card (beneath fs (target_of root p)))"

lemma finite_beneath [simp]: "finite (beneath fs q)"
  by (simp add: beneath_def)

lemma distinct_children: "bm_wf fs \<Longrightarrow> distinct (map fst (fs_children p fs))"
proof -
  assume "bm_wf fs"
  then have d: "distinct (map fst fs)" by (simp add: bm_wf_def strict_sorted_iff)
  have "inj_on last {q. q \<noteq> [] \<and> butlast q = p}"
    by (rule inj_onI) (metis (mono_tags, lifting) append_butlast_last_id mem_Collect_eq)
  moreover have "map fst (fs_children p fs) = map last (filter (\<lambda>q. q \<noteq> [] \<and> butlast q = p) (map fst fs))"
    by (simp add: fs_children_def filter_map comp_def case_prod_unfold)
  ultimately show ?thesis using d by (auto simp: distinct_map intro: inj_on_subset)
qed

lemma child_of_target: "valid_name c \<Longrightarrow> target_of root (child_logical p c) = target_of root p @ [c]"
  by (simp add: target_of_def child_logical_segments)

lemma read_children_ok:
  assumes "local_inv root fs" and "read_children root p fs = Inr es"
  obtains (none) "es = []" "\<And>t. bm_get fs (target_of root p) \<noteq> Some (DirNode t)"
  | (dir) t where "bm_get fs (target_of root p) = Some (DirNode t)"
      "es = sort_key de_path (map (child_entry p) (fs_children (target_of root p) fs))"
proof -
  from assms(2) obtain d where d: "local_resolve root p = Inr d"
    by (auto simp: read_children_def try_bind_Inr_iff)
  from local_resolve_ok(1) [OF this] have t: "d = target_of root p" by (simp add: target_of_def)
  from assms(1) have ok: "tree_ok fs" by (simp add: local_inv_def)
  show thesis
  proof (cases "fs_read_dir d fs")
    case (Inl e)
    then have "\<And>t. fs_metadata d fs \<noteq> Inr (DirNode t)" by (auto simp: fs_read_dir_def)
    with Inl assms(2) d t show thesis
      by (intro none) (auto simp: read_children_def fs_metadata_ok_iff [OF ok] split: if_splits)
  next
    case (Inr names)
    from fs_read_dir_ok [OF ok Inr] Inr assms(2) d t show thesis
      by (auto simp: read_children_def intro: dir)
  qed
qed

lemma child_valid:
  "local_inv root fs \<Longrightarrow> (c, n) \<in> set (fs_children q fs) \<Longrightarrow> valid_name c"
  using tree_ok_name [of fs q c n] by (auto simp: local_inv_def fs_children_set)

lemma child_entry_simps [simp]:
  "de_path (child_entry p c) = child_logical p (fst c)"
  "de_is_directory (child_entry p c) = is_dir_node (snd c)"
  by (simp_all add: child_entry_def case_prod_unfold)

section \<open>Fuel\<close>

lemma beneath_children:
  assumes "distinct cs" and "bm_get fs q = Some n"
  shows "(\<Sum>c\<leftarrow>cs. card (beneath fs (q @ [c]))) + 1 \<le> card (beneath fs q)"
proof -
  have "(\<Sum>c\<leftarrow>cs. card (beneath fs (q @ [c]))) = (\<Sum>c\<in>set cs. card (beneath fs (q @ [c])))"
    using assms(1) by (simp add: sum_list_distinct_conv_sum_set)
  also have "\<dots> = card (\<Union>c\<in>set cs. beneath fs (q @ [c]))"
    by (rule card_UN_disjoint [symmetric]) (auto simp: beneath_def prefix_def)
  finally have sum: "(\<Sum>c\<leftarrow>cs. card (beneath fs (q @ [c]))) = card (\<Union>c\<in>set cs. beneath fs (q @ [c]))" .
  let ?U = "\<Union>c\<in>set cs. beneath fs (q @ [c])"
  have q: "q \<notin> ?U" by (auto simp: beneath_def prefix_def)
  have "q \<in> beneath fs q"
    using assms(2) bm_get_None_iff [of fs q] by (auto simp: beneath_def)
  moreover have "?U \<subseteq> beneath fs q" by (auto simp: beneath_def dest: append_prefixD)
  ultimately have "insert q ?U \<subseteq> beneath fs q" by simp
  from card_mono [OF _ this] sum q show ?thesis by simp
qed

lemma sum_list_filter_sort:
  "(\<Sum>x\<leftarrow>filter P (sort_key f xs). g x) = (\<Sum>x\<leftarrow>filter P xs. (g x :: nat))"
  by (metis mset_filter mset_map mset_sort sum_mset_sum_list)

lemma walk_weight_children:
  assumes inv: "local_inv root fs" and rd: "read_children root p fs = Inr es"
  shows "(\<Sum>q\<leftarrow>map de_path (filter de_is_directory es). walk_weight root fs q) + 1 \<le> walk_weight root fs p"
proof (rule read_children_ok [OF assms])
  assume "es = []"
  then show ?thesis by (simp add: walk_weight_def)
next
  fix t
  let ?q = "target_of root p"
  let ?cs = "filter (is_dir_node \<circ> snd) (fs_children ?q fs)"
  assume dir: "bm_get fs ?q = Some (DirNode t)"
    and es: "es = sort_key de_path (map (child_entry p) (fs_children ?q fs))"
  have ok: "tree_ok fs" using inv by (simp add: local_inv_def)
  have one: "walk_weight root fs (child_logical p c) = card (beneath fs (?q @ [c]))"
    if "(c, n) \<in> set (fs_children ?q fs)" for c n
  proof -
    from that have "bm_get fs (?q @ [c]) = Some n" by (simp add: fs_children_set [OF ok])
    from beneath_children [OF distinct.simps(1)[THEN iffD2, OF TrueI] this]
    have "1 \<le> card (beneath fs (?q @ [c]))" by simp
    with child_of_target [OF child_valid [OF inv that]] show ?thesis
      by (simp add: walk_weight_def)
  qed
  have "(\<Sum>q\<leftarrow>map de_path (filter de_is_directory es). walk_weight root fs q)
      = (\<Sum>e\<leftarrow>filter de_is_directory (map (child_entry p) (fs_children ?q fs)).
          walk_weight root fs (de_path e))"
    by (simp add: es sum_list_filter_sort comp_def)
  also have "\<dots> = (\<Sum>(c, n)\<leftarrow>?cs. walk_weight root fs (child_logical p c))"
    by (simp add: filter_map comp_def case_prod_unfold)
  also have "\<dots> = (\<Sum>(c, n)\<leftarrow>?cs. card (beneath fs (?q @ [c])))"
    using one by (intro arg_cong [where f = sum_list] map_cong) auto
  also have "\<dots> = (\<Sum>c\<leftarrow>map fst ?cs. card (beneath fs (?q @ [c])))"
    by (simp add: comp_def case_prod_unfold)
  also have "\<dots> + 1 \<le> card (beneath fs ?q)"
    using beneath_children [OF _ dir, of "map fst ?cs"] distinct_children [of fs ?q] ok
    by (simp add: distinct_map_filter)
  finally show ?thesis by (simp add: walk_weight_def)
qed

lemma walk_loop_returns:
  assumes "local_inv root fs" and "(\<Sum>p\<leftarrow>stack. walk_weight root fs p) \<le> fuel"
  shows "\<exists>r. walk_loop fuel root fs stack out = Some r"
  using assms(2)
proof (induction fuel arbitrary: stack out)
  case 0
  then show ?case by (cases stack) (auto simp: walk_weight_def)
next
  case (Suc fuel)
  show ?case
  proof (cases stack)
    case Nil
    then show ?thesis by simp
  next
    case (Cons p ps)
    show ?thesis
    proof (cases "read_children root p fs")
      case (Inl e)
      with Cons show ?thesis by simp
    next
      case (Inr es)
      from walk_weight_children [OF assms(1) Inr] Suc.prems Cons
      have "(\<Sum>q\<leftarrow>rev (map de_path (filter de_is_directory es)) @ ps. walk_weight root fs q) \<le> fuel"
        by (simp add: rev_map [symmetric] del: rev_map)
      from Suc.IH [OF this] Cons Inr show ?thesis by simp
    qed
  qed
qed

lemma walk_fuel_enough:
  assumes "local_inv root fs"
  shows "walk_loop (Suc (length fs)) root fs [path] [] = Some (local_walk root path fs)"
proof -
  have "card (beneath fs q) \<le> length fs" for q
    using card_mono [of "set (map fst fs)" "beneath fs q"] card_length [of "map fst fs"]
    by (auto simp: beneath_def)
  then have "(\<Sum>p\<leftarrow>[path]. walk_weight root fs p) \<le> Suc (length fs)"
    by (simp add: walk_weight_def le_SucI)
  from walk_loop_returns [OF assms this] obtain r
    where "walk_loop (Suc (length fs)) root fs [path] [] = Some r" by blast
  then show ?thesis by (simp only: local_walk_def unwrap_or_simps)
qed

section \<open>The entries\<close>

text \<open>The files below the directory a path names, under the logical paths the walk gives them.\<close>

definition file_entry_of :: "string \<Rightarrow> int \<Rightarrow> bytes \<Rightarrow> directory_entry" where
  "file_entry_of p t b =
     \<lparr>de_path = p, de_is_directory = False, de_file_size = int (length b),
      de_last_modified = (if t < 0 then 0 else t)\<rparr>"

definition files_below :: "os_path \<Rightarrow> filesystem \<Rightarrow> string \<Rightarrow> directory_entry set" where
  "files_below root fs p =
     {file_entry_of (foldl child_logical p names) t b |names t b.
        names \<noteq> [] \<and> bm_get fs (target_of root p @ names) = Some (FileNode t b)}"

lemma files_below_none:
  assumes "tree_ok fs" and "\<And>t. bm_get fs (target_of root p) \<noteq> Some (DirNode t)"
  shows "files_below root fs p = {}"
  using tree_ok_prefix [OF assms(1)] assms(2) by (fastforce simp: files_below_def)

lemma files_below_children:
  assumes inv: "local_inv root fs"
  shows "files_below root fs p =
    {e \<in> child_entry p ` set (fs_children (target_of root p) fs). \<not> de_is_directory e} \<union>
    (\<Union>c \<in> {c \<in> set (fs_children (target_of root p) fs). is_dir_node (snd c)}.
       files_below root fs (child_logical p (fst c)))" (is "?L = ?F \<union> ?D")
proof -
  let ?q = "target_of root p"
  have ok: "tree_ok fs" using inv by (simp add: local_inv_def)
  have tgt: "target_of root (child_logical p c) = ?q @ [c]" if "bm_get fs (?q @ [c]) = Some n" for c n
    using child_of_target child_valid [OF inv, of c n ?q] that by (simp add: fs_children_set [OF ok])
  have "e \<in> ?F \<union> ?D" if "e \<in> ?L" for e
  proof -
    from that obtain c cs t b where at: "bm_get fs (?q @ c # cs) = Some (FileNode t b)"
      and e: "e = file_entry_of (foldl child_logical p (c # cs)) t b"
      by (auto simp: files_below_def neq_Nil_conv)
    show ?thesis
    proof (cases "cs = []")
      case True
      with at have "(c, FileNode t b) \<in> set (fs_children ?q fs)" by (simp add: fs_children_set [OF ok])
      moreover have "e = child_entry p (c, FileNode t b)"
        using e True by (simp add: child_entry_def file_entry_of_def)
      ultimately show ?thesis by (simp add: image_iff) fastforce
    next
      case False
      from tree_ok_prefix [OF ok, of "?q @ [c]" cs] at False
      obtain u where d: "bm_get fs (?q @ [c]) = Some (DirNode u)" by auto
      have "e \<in> files_below root fs (child_logical p c)"
        using at e False tgt [OF d] by (auto simp: files_below_def)
      moreover have "(c, DirNode u) \<in> set (fs_children ?q fs)"
        using d by (simp add: fs_children_set [OF ok])
      ultimately show ?thesis by fastforce
    qed
  qed
  moreover have "e \<in> ?L" if "e \<in> ?F" for e
  proof -
    from that obtain c n where c: "bm_get fs (?q @ [c]) = Some n" and e: "e = child_entry p (c, n)"
      and n: "\<not> is_dir_node n"
      by (auto simp: fs_children_set [OF ok])
    from n obtain t b where "n = FileNode t b" by (cases n) auto
    with c e have "bm_get fs (?q @ [c]) = Some (FileNode t b)"
      and "e = file_entry_of (foldl child_logical p [c]) t b"
      by (simp_all add: child_entry_def file_entry_of_def)
    then show ?thesis unfolding files_below_def by blast
  qed
  moreover have "e \<in> ?L" if "e \<in> ?D" for e
  proof -
    from that obtain c n where c: "bm_get fs (?q @ [c]) = Some n"
      and "e \<in> files_below root fs (child_logical p c)"
      by (auto simp: fs_children_set [OF ok])
    then obtain cs t b where "bm_get fs (?q @ c # cs) = Some (FileNode t b)"
      and "e = file_entry_of (foldl child_logical p (c # cs)) t b"
      by (auto simp: files_below_def tgt [OF c])
    then show ?thesis unfolding files_below_def by blast
  qed
  ultimately show ?thesis by blast
qed

lemma files_below_read:
  assumes inv: "local_inv root fs" and rd: "read_children root p fs = Inr es"
  shows "files_below root fs p = {e \<in> set es. \<not> de_is_directory e} \<union>
    (\<Union>q \<in> de_path ` {e \<in> set es. de_is_directory e}. files_below root fs q)"
proof (rule read_children_ok [OF assms])
  assume "es = []" and "\<And>t. bm_get fs (target_of root p) \<noteq> Some (DirNode t)"
  with inv show ?thesis by (simp add: files_below_none local_inv_def)
next
  fix t
  assume "es = sort_key de_path (map (child_entry p) (fs_children (target_of root p) fs))"
  then have "set es = child_entry p ` set (fs_children (target_of root p) fs)" by simp
  then show ?thesis
    unfolding files_below_children [OF inv, of p] by auto
qed

lemma walk_loop_files:
  "local_inv root fs \<Longrightarrow> walk_loop fuel root fs stack out = Some (Inr r)
    \<Longrightarrow> set r = set out \<union> (\<Union>p \<in> set stack. files_below root fs p)"
proof (induction fuel root fs stack out rule: walk_loop.induct)
  case (3 fuel root fs p stack out)
  from "3.prems"(2) obtain es where es: "read_children root p fs = Inr es"
    by (auto split: sum.splits)
  with 3 files_below_read [OF "3.prems"(1) es] show ?case by auto
qed auto

lemma local_walk_files:
  assumes "local_inv root fs" and "local_walk root path fs = Inr r"
  shows "set r = files_below root fs path"
  using walk_loop_files [OF assms(1), of "Suc (length fs)" "[path]" "[]" r]
    walk_fuel_enough [OF assms(1), of path] assms(2) by (simp del: walk_loop.simps)

text \<open>The walk fails only where the path escapes the root, or names a file or leads through one.\<close>

lemma local_walk_dir:
  assumes inv: "local_inv root fs" and dir: "bm_get fs (target_of root path) = Some (DirNode t)"
    and safe: "''..'' \<notin> set (logical_segments path)"
  shows "\<exists>r. local_walk root path fs = Inr r"
proof -
  have rd: "\<exists>es. read_children root p fs = Inr es"
    if "bm_get fs (target_of root p) = Some (DirNode u)" and "''..'' \<notin> set (logical_segments p)" for p u
    using that inv fs_metadata_ok_iff [of fs "target_of root p" "DirNode u"]
    by (simp add: read_children_def local_resolve_alt target_of_def fs_read_dir_def local_inv_def)
  define good where "good p \<longleftrightarrow> (\<exists>u. bm_get fs (target_of root p) = Some (DirNode u)) \<and>
      ''..'' \<notin> set (logical_segments p)" for p
  have step: "good q" if g: "good p" and es: "read_children root p fs = Inr es"
    and q: "q \<in> de_path ` {e \<in> set es. de_is_directory e}" for p es q
  proof (rule read_children_ok [OF inv es])
    assume "es = []"
    with q show ?thesis by simp
  next
    fix u
    assume "es = sort_key de_path (map (child_entry p) (fs_children (target_of root p) fs))"
    with q obtain c n where c: "(c, n) \<in> set (fs_children (target_of root p) fs)" "is_dir_node n"
      and q': "q = child_logical p c" by auto
    from child_valid [OF inv c(1)] have v: "valid_name c" .
    have "bm_get fs (target_of root q) = Some n"
      using c(1) inv child_of_target [OF v, of root p] by (simp add: q' fs_children_set local_inv_def)
    with c(2) g v show ?thesis
      by (cases n) (auto simp: good_def q' child_logical_segments valid_name_def)
  qed
  have "walk_loop fuel root fs stack out \<noteq> Some (Inl e)" if "\<forall>p \<in> set stack. good p" for fuel stack out e
    using that
  proof (induction fuel arbitrary: stack out)
    case 0
    then show ?case by (cases stack) auto
  next
    case (Suc fuel)
    show ?case
    proof (cases stack)
      case (Cons p ps)
      with Suc.prems have "good p" by simp
      then obtain es where es: "read_children root p fs = Inr es"
        using rd unfolding good_def by blast
      have "\<forall>q \<in> set (rev (map de_path (filter de_is_directory es)) @ ps). good q"
        using step [OF _ es] Suc.prems Cons by auto
      from Suc.IH [OF this] Cons es show ?thesis by simp
    qed simp
  qed
  from this [of "[path]" "Suc (length fs)" "[]"] have "local_walk root path fs \<noteq> Inl e" for e
    using walk_fuel_enough [OF inv, of path] dir safe by (simp add: good_def del: walk_loop.simps)
  then show ?thesis by (cases "local_walk root path fs") auto
qed

end
