(* ===== verification/Unity_Store.thy ===== *)
theory Unity_Store
  imports Memory_Files
begin

text \<open>
  \<^verbatim>\<open>crates/portal/src/store/unity.rs\<close>: the \<^verbatim>\<open>FileStore\<close> over Unity Catalog volumes. The crates
  \<^verbatim>\<open>object_store\<close> and \<^verbatim>\<open>unitycatalog_object_store\<close> are parameters: a record of the methods the code calls
  on a volume's store, over the remote state \<^verbatim>\<open>'b\<close>, with \<^verbatim>\<open>'u\<close> the state of a multipart upload; the
  factory that vends a store for a volume; and the path normalisation \<^verbatim>\<open>StorePath::from\<close>.
\<close>

section \<open>The object store's interface\<close>

datatype os_error = Os_NotFound string | Os_AlreadyExists string | Os_Other string

type_synonym 'a os_result = "os_error + 'a"

datatype volume_operation = Op_Read | Op_ReadWrite

datatype get_range = Bounded nat nat | Offset nat

record get_options =
  go_range :: "get_range option"
  go_head :: bool

record object_meta =
  om_location :: string
  om_size :: nat
  om_last_modified :: int
  om_e_tag :: "string option"

record get_result =
  gr_meta :: object_meta
  gr_content_type :: "string option"
  gr_bytes :: "bytes os_result"
  gr_stream :: "bytes os_result list"

record list_result =
  lr_common_prefixes :: "string list"
  lr_objects :: "object_meta list"

record ('b, 'u) object_store =
  os_put_opts :: "string \<Rightarrow> bytes \<Rightarrow> string option \<Rightarrow> 'b \<Rightarrow> unit os_result \<times> 'b"
  os_put_multipart :: "string \<Rightarrow> string option \<Rightarrow> 'b \<Rightarrow> 'u os_result \<times> 'b"
  os_wait_for_capacity :: "nat \<Rightarrow> 'u \<Rightarrow> 'b \<Rightarrow> unit os_result \<times> 'u \<times> 'b"
  os_put_part :: "bytes \<Rightarrow> 'u \<Rightarrow> 'b \<Rightarrow> 'u \<times> 'b"
  os_abort :: "'u \<Rightarrow> 'b \<Rightarrow> 'b"
  os_finish :: "'u \<Rightarrow> 'b \<Rightarrow> unit os_result \<times> 'b"
  os_get_opts :: "string \<Rightarrow> get_options \<Rightarrow> 'b \<Rightarrow> get_result os_result"
  os_delete :: "string \<Rightarrow> 'b \<Rightarrow> unit os_result \<times> 'b"
  os_list :: "string option \<Rightarrow> 'b \<Rightarrow> object_meta os_result list"
  os_list_with_offset :: "string option \<Rightarrow> string \<Rightarrow> 'b \<Rightarrow> object_meta os_result list"
  os_list_with_delimiter :: "string option \<Rightarrow> 'b \<Rightarrow> list_result os_result"

text \<open>The factory and the path type; a vending error is known by its text.\<close>

record ('b, 'u) unity_env =
  ue_for_volume :: "string \<Rightarrow> volume_operation \<Rightarrow> 'b \<Rightarrow> string + ('b, 'u) object_store"
  ue_store_path_from :: "string \<Rightarrow> string"

section \<open>Volume paths\<close>

record volume_path =
  vp_full_name :: string
  vp_catalog :: string
  vp_schema :: string
  vp_volume :: string
  vp_relative :: string

definition parse_volume_path :: "string \<Rightarrow> volume_path store_result" where
  "parse_volume_path path =
     (case filter (\<lambda>s. s \<noteq> []) (str_split slash (trim_start_char slash path)) of
        kind # c # sch # vol # rest \<Rightarrow>
          if eq_ignore_ascii_case kind ''Volumes''
          then Inr \<lparr>vp_full_name = c @ ''.'' @ sch @ ''.'' @ vol, vp_catalog = c, vp_schema = sch,
                    vp_volume = vol, vp_relative = str_join [slash] rest\<rparr>
          else Inl (InvalidArgument (''expected a Volumes path `/Volumes/<catalog>/<schema>/<volume>/...`, got ''
                 @ debug_str path))
      | _ \<Rightarrow> Inl (InvalidArgument (''expected a Volumes path `/Volumes/<catalog>/<schema>/<volume>/...`, got ''
                 @ debug_str path)))"

definition volume_prefix :: "volume_path \<Rightarrow> string" where
  "volume_prefix p = ''/Volumes/'' @ vp_catalog p @ ''/'' @ vp_schema p @ ''/'' @ vp_volume p @ ''/''"

definition vp_absolute :: "volume_path \<Rightarrow> string \<Rightarrow> string" where
  "vp_absolute p relative = volume_prefix p @ trim_start_char slash relative"

definition vp_relativize :: "volume_path \<Rightarrow> string \<Rightarrow> string" where
  "vp_relativize p absolute =
     (case str_strip_prefix (volume_prefix p) absolute of
        Some rest \<Rightarrow> rest
      | None \<Rightarrow> trim_start_char slash absolute)"

definition vp_store_path :: "('b, 'u) unity_env \<Rightarrow> volume_path \<Rightarrow> string store_result" where
  "vp_store_path env p =
     (if vp_relative p = []
      then Inl (InvalidArgument ''a file path is required (got a volume root)'')
      else Inr (ue_store_path_from env (vp_relative p)))"

definition vp_list_prefix :: "('b, 'u) unity_env \<Rightarrow> volume_path \<Rightarrow> string option" where
  "vp_list_prefix env p =
     (if vp_relative p = [] then None else Some (ue_store_path_from env (vp_relative p)))"

section \<open>Helpers\<close>

definition byte_range :: "int option \<Rightarrow> int option \<Rightarrow> get_range option store_result" where
  "byte_range offset len =
     (case (option_filter (\<lambda>off. off \<noteq> 0 \<or> len \<noteq> None) offset, len) of
        (None, None) \<Rightarrow> Inr None
      | (off, l) \<Rightarrow>
          let start = unwrap_or 0 off in
          if start < 0 then Inl (InvalidArgument ''offset must be >= 0'')
          else (case l of
              Some n \<Rightarrow> if n < 0 then Inl (InvalidArgument ''length must be >= 0'')
                        else Inr (Some (Bounded (nat start) (nat start + nat n)))
            | None \<Rightarrow> Inr (Some (Offset (nat start)))))"

text \<open>\<^verbatim>\<open>u64 as i64\<close>.\<close>

definition u64_as_i64 :: "nat \<Rightarrow> int" where
  "u64_as_i64 n = (let k = int n mod 2 ^ 64 in if k < 2 ^ 63 then k else k - 2 ^ 64)"

definition unity_file_metadata :: "string \<Rightarrow> object_meta \<Rightarrow> string option \<Rightarrow> file_metadata" where
  "unity_file_metadata path m content_type =
     \<lparr>fm_path = path, fm_file_size = u64_as_i64 (om_size m), fm_last_modified = om_last_modified m,
      fm_content_type = unwrap_or [] content_type, fm_etag = unwrap_or [] (om_e_tag m)\<rparr>"

fun map_store_err :: "os_error \<Rightarrow> store_error" where
  "map_store_err (Os_NotFound path) = NotFound path"
| "map_store_err (Os_AlreadyExists path) = AlreadyExists path"
| "map_store_err (Os_Other text) = Internal text"

definition filter_after :: "directory_entry list \<Rightarrow> string option \<Rightarrow> directory_entry list" where
  "filter_after entries start_after =
     (case start_after of Some a \<Rightarrow> filter (\<lambda>e. a < de_path e) entries | None \<Rightarrow> entries)"

definition unity_resolve ::
  "('b, 'u) unity_env \<Rightarrow> string \<Rightarrow> volume_operation \<Rightarrow> 'b
    \<Rightarrow> (('b, 'u) object_store \<times> volume_path) store_result" where
  "unity_resolve env path op s =
     try_bind (parse_volume_path path) (\<lambda>parsed.
       map_ok (\<lambda>st. (st, parsed))
         (map_err (\<lambda>e. Internal (''credential vending failed: '' @ e))
            (ue_for_volume env (vp_full_name parsed) op s)))"

section \<open>Files\<close>

definition unity_stat_file ::
  "('b, 'u) unity_env \<Rightarrow> string \<Rightarrow> 'b \<Rightarrow> file_metadata store_result" where
  "unity_stat_file env path s =
     try_bind (unity_resolve env path Op_Read s) (\<lambda>(st, parsed).
       try_bind (vp_store_path env parsed) (\<lambda>location.
         try_bind (map_err map_store_err
             (os_get_opts st location \<lparr>go_range = None, go_head = True\<rparr> s)) (\<lambda>result.
           Inr (unity_file_metadata path (gr_meta result) (gr_content_type result)))))"

definition unity_put_file ::
  "('b, 'u) unity_env \<Rightarrow> ambient \<Rightarrow> string \<Rightarrow> string option \<Rightarrow> bytes \<Rightarrow> 'b
    \<Rightarrow> file_metadata store_result \<times> 'b" where
  "unity_put_file env amb path content_type contents s =
     (case try_bind (unity_resolve env path Op_ReadWrite s) (\<lambda>(st, parsed).
             map_ok (Pair st) (vp_store_path env parsed)) of
        Inl e \<Rightarrow> (Inl e, s)
      | Inr (st, location) \<Rightarrow>
          (case os_put_opts st location contents (option_filter (\<lambda>c. c \<noteq> []) content_type) s of
             (Inl e, s') \<Rightarrow> (Inl (map_store_err e), s')
           | (Inr _, s') \<Rightarrow> (unity_stat_file env path s', s')))"

definition MAX_CONCURRENCY :: nat where
  "MAX_CONCURRENCY = 8"

text \<open>The loop over the chunks, up to the result of \<^verbatim>\<open>finish\<close>.\<close>

fun upload_chunks ::
  "('b, 'u) object_store \<Rightarrow> bytes store_result list \<Rightarrow> 'u \<Rightarrow> 'b \<Rightarrow> unit store_result \<times> 'b" where
  "upload_chunks st [] w s = (let (r, s') = os_finish st w s in (map_err map_store_err r, s'))"
| "upload_chunks st (Inr b # cs) w s =
     (case os_wait_for_capacity st MAX_CONCURRENCY w s of
        (Inl e, w', s') \<Rightarrow> (Inl (map_store_err e), s')
      | (Inr _, w', s') \<Rightarrow> (let (w'', s'') = os_put_part st b w' s' in upload_chunks st cs w'' s''))"
| "upload_chunks st (Inl e # cs) w s = (Inl e, os_abort st w s)"

definition unity_put_file_stream ::
  "('b, 'u) unity_env \<Rightarrow> ambient \<Rightarrow> string \<Rightarrow> string option \<Rightarrow> bytes store_result list \<Rightarrow> 'b
    \<Rightarrow> file_metadata store_result \<times> 'b" where
  "unity_put_file_stream env amb path content_type chunks s =
     (case try_bind (unity_resolve env path Op_ReadWrite s) (\<lambda>(st, parsed).
             map_ok (Pair st) (vp_store_path env parsed)) of
        Inl e \<Rightarrow> (Inl e, s)
      | Inr (st, location) \<Rightarrow>
          (case os_put_multipart st location (option_filter (\<lambda>c. c \<noteq> []) content_type) s of
             (Inl e, s') \<Rightarrow> (Inl (map_store_err e), s')
           | (Inr w, s') \<Rightarrow>
               (case upload_chunks st chunks w s' of
                  (Inl e, s'') \<Rightarrow> (Inl e, s'')
                | (Inr _, s'') \<Rightarrow> (unity_stat_file env path s'', s''))))"

definition unity_read_file ::
  "('b, 'u) unity_env \<Rightarrow> string \<Rightarrow> int option \<Rightarrow> int option \<Rightarrow> 'b \<Rightarrow> bytes store_result" where
  "unity_read_file env path offset len s =
     try_bind (unity_resolve env path Op_Read s) (\<lambda>(st, parsed).
       try_bind (vp_store_path env parsed) (\<lambda>location.
         try_bind (byte_range offset len) (\<lambda>range.
           try_bind (map_err map_store_err
               (os_get_opts st location \<lparr>go_range = range, go_head = False\<rparr> s)) (\<lambda>result.
             map_err map_store_err (gr_bytes result)))))"

definition unity_read_file_stream ::
  "('b, 'u) unity_env \<Rightarrow> string \<Rightarrow> int option \<Rightarrow> int option \<Rightarrow> 'b
    \<Rightarrow> bytes store_result list store_result" where
  "unity_read_file_stream env path offset len s =
     try_bind (unity_resolve env path Op_Read s) (\<lambda>(st, parsed).
       try_bind (vp_store_path env parsed) (\<lambda>location.
         try_bind (byte_range offset len) (\<lambda>range.
           try_bind (map_err map_store_err
               (os_get_opts st location \<lparr>go_range = range, go_head = False\<rparr> s)) (\<lambda>result.
             Inr (map (map_err map_store_err) (gr_stream result))))))"

definition unity_delete_file :: "('b, 'u) unity_env \<Rightarrow> string \<Rightarrow> 'b \<Rightarrow> unit store_result \<times> 'b" where
  "unity_delete_file env path s =
     (case try_bind (unity_resolve env path Op_ReadWrite s) (\<lambda>(st, parsed).
             map_ok (Pair st) (vp_store_path env parsed)) of
        Inl e \<Rightarrow> (Inl e, s)
      | Inr (st, location) \<Rightarrow> (let (r, s') = os_delete st location s in (map_err map_store_err r, s')))"

section \<open>Directories\<close>

definition unity_create_directory ::
  "ambient \<Rightarrow> string \<Rightarrow> 'b \<Rightarrow> directory_metadata store_result \<times> 'b" where
  "unity_create_directory amb path s =
     (try_bind (parse_volume_path path) (\<lambda>parsed.
        if vp_relative parsed = []
        then Inl (InvalidArgument ''cannot create the volume root as a directory'')
        else Inr \<lparr>dm_path = path, dm_last_modified = 0\<rparr>), s)"

definition unity_delete_directory ::
  "('b, 'u) unity_env \<Rightarrow> string \<Rightarrow> 'b \<Rightarrow> unit store_result \<times> 'b" where
  "unity_delete_directory env path s =
     (try_bind (unity_resolve env path Op_ReadWrite s) (\<lambda>(st, parsed).
        case os_list st (vp_list_prefix env parsed) s of
          [] \<Rightarrow> Inr ()
        | Inl e # _ \<Rightarrow> Inl (map_store_err e)
        | Inr _ # _ \<Rightarrow> Inl (dir_not_empty path)), s)"

definition unity_stat_directory ::
  "('b, 'u) unity_env \<Rightarrow> string \<Rightarrow> 'b \<Rightarrow> directory_metadata store_result" where
  "unity_stat_directory env path s =
     try_bind (unity_resolve env path Op_Read s) (\<lambda>(st, parsed).
       try_bind (map_err map_store_err
           (os_list_with_delimiter st (vp_list_prefix env parsed) s)) (\<lambda>result.
         if lr_objects result = [] \<and> lr_common_prefixes result = []
         then Inl (directory_not_found path)
         else Inr \<lparr>dm_path = path, dm_last_modified = 0\<rparr>))"

section \<open>Listings\<close>

definition object_entry :: "volume_path \<Rightarrow> object_meta \<Rightarrow> directory_entry" where
  "object_entry parsed obj =
     \<lparr>de_path = vp_absolute parsed (om_location obj), de_is_directory = False,
      de_file_size = u64_as_i64 (om_size obj), de_last_modified = om_last_modified obj\<rparr>"

definition prefix_entry :: "volume_path \<Rightarrow> string \<Rightarrow> directory_entry" where
  "prefix_entry parsed dir =
     \<lparr>de_path = vp_absolute parsed dir, de_is_directory = True, de_file_size = 0,
      de_last_modified = 0\<rparr>"

definition unity_list_directory ::
  "('b, 'u) unity_env \<Rightarrow> string \<Rightarrow> page \<Rightarrow> 'b \<Rightarrow> (directory_entry list \<times> string option) store_result"
where
  "unity_list_directory env path pg s =
     try_bind (unity_resolve env path Op_Read s) (\<lambda>(st, parsed).
       try_bind (map_err map_store_err
           (os_list_with_delimiter st (vp_list_prefix env parsed) s)) (\<lambda>result.
         let entries = map (prefix_entry parsed) (lr_common_prefixes result)
                         @ map (object_entry parsed) (lr_objects result)
         in Inr (paginate (sort_key de_path entries) pg)))"

definition unity_list_files_opts ::
  "('b, 'u) unity_env \<Rightarrow> string \<Rightarrow> list_opts \<Rightarrow> 'b \<Rightarrow> directory_entry store_result list store_result"
where
  "unity_list_files_opts env path opts s =
     try_bind (unity_resolve env path Op_Read s) (\<lambda>(st, parsed).
       if \<not> lo_recursive opts then
         try_bind (unity_list_directory env path
             \<lparr>max_results = lo_max_results opts, page_token = None\<rparr> s) (\<lambda>(entries, _).
           Inr (map Inr (filter_after entries (lo_start_after opts))))
       else
         let listing = (case lo_start_after opts of
               Some a \<Rightarrow> os_list_with_offset st (vp_list_prefix env parsed)
                            (ue_store_path_from env (vp_relativize parsed a)) s
             | None \<Rightarrow> os_list st (vp_list_prefix env parsed) s);
             stream = map (\<lambda>res. map_ok (object_entry parsed) (map_err map_store_err res)) listing
         in Inr (case lo_max_results opts of Some n \<Rightarrow> take n stream | None \<Rightarrow> stream))"

definition unity_file_store :: "('b, 'u) unity_env \<Rightarrow> 'b file_store" where
  "unity_file_store env =
     \<lparr>fs_put_file = unity_put_file env, fs_put_file_stream = unity_put_file_stream env,
      fs_read_file = unity_read_file env, fs_read_file_stream = unity_read_file_stream env,
      fs_stat_file = unity_stat_file env, fs_delete_file = unity_delete_file env,
      fs_create_directory = unity_create_directory,
      fs_delete_directory = unity_delete_directory env,
      fs_stat_directory = unity_stat_directory env, fs_list_directory = unity_list_directory env,
      fs_list_files_opts = unity_list_files_opts env\<rparr>"

end
