(* ===== verification/Unity_Facts.thy ===== *)
theory Unity_Facts
  imports Unity_Store Memory_File_Facts
begin

text \<open>
  The Unity volume store: volume paths and their inverses, byte ranges, what a failed upload leaves
  behind, and how its flat listing resumes.
\<close>

section \<open>Volume paths\<close>

definition path_segments :: "string \<Rightarrow> string list" where
  "path_segments p = filter (\<lambda>s. s \<noteq> []) (str_split slash p)"

lemma path_segments_append [simp]:
  "path_segments (a @ slash # b) = path_segments a @ path_segments b"
  by (simp add: path_segments_def str_split_append)

lemma path_segments_slash [simp]: "path_segments (slash # b) = path_segments b"
  using path_segments_append [of "[]" b] by (simp add: path_segments_def)

lemma path_segments_Nil [simp]: "path_segments [] = []"
  by (simp add: path_segments_def)

lemma path_segments_trim [simp]: "path_segments (trim_start_char slash p) = path_segments p"
  by (induction p) (auto simp: trim_start_char_def)

lemma path_segments_plain: "s \<noteq> [] \<Longrightarrow> slash \<notin> set s \<Longrightarrow> path_segments s = [s]"
  by (simp add: path_segments_def str_split_plain)

lemma path_segments_ok: "s \<in> set (path_segments p) \<Longrightarrow> s \<noteq> [] \<and> slash \<notin> set s"
  by (auto simp: path_segments_def dest: str_split_no_sep)

lemma path_segments_join:
  "\<forall>s \<in> set ws. s \<noteq> [] \<and> slash \<notin> set s \<Longrightarrow> path_segments (str_join [slash] ws) = ws"
  by (cases "ws = []") (simp_all add: path_segments_def str_split_join filter_True_id)

text \<open>When a path parses, and what the parts are.\<close>

lemma parse_volume_path_Inr_iff:
  "parse_volume_path path = Inr v \<longleftrightarrow>
     (\<exists>kind rest. path_segments path = kind # vp_catalog v # vp_schema v # vp_volume v # rest \<and>
        eq_ignore_ascii_case kind ''Volumes'' \<and> vp_relative v = str_join [slash] rest \<and>
        vp_full_name v = vp_catalog v @ ''.'' @ vp_schema v @ ''.'' @ vp_volume v)"
proof -
  have seg: "filter (\<lambda>s. s \<noteq> []) (str_split slash (trim_start_char slash path)) = path_segments path"
    using path_segments_trim [of path] by (simp add: path_segments_def)
  show ?thesis
    unfolding parse_volume_path_def seg by (auto split: list.splits)
qed

lemma parsed_segments:
  assumes "parse_volume_path path = Inr v"
  shows "\<forall>s \<in> {vp_catalog v, vp_schema v, vp_volume v}. s \<noteq> [] \<and> slash \<notin> set s"
    and "\<exists>rest. vp_relative v = str_join [slash] rest \<and> (\<forall>s \<in> set rest. s \<noteq> [] \<and> slash \<notin> set s)"
proof -
  from assms obtain kind rest
    where seg: "path_segments path = kind # vp_catalog v # vp_schema v # vp_volume v # rest"
      and rel: "vp_relative v = str_join [slash] rest"
    by (auto simp: parse_volume_path_Inr_iff)
  have "\<forall>s \<in> set (path_segments path). s \<noteq> [] \<and> slash \<notin> set s" using path_segments_ok by blast
  with seg rel show "\<forall>s \<in> {vp_catalog v, vp_schema v, vp_volume v}. s \<noteq> [] \<and> slash \<notin> set s"
    and "\<exists>rest. vp_relative v = str_join [slash] rest \<and> (\<forall>s \<in> set rest. s \<noteq> [] \<and> slash \<notin> set s)"
    by auto
qed

lemma volume_prefix_segments:
  assumes "parse_volume_path path = Inr v"
  shows "path_segments (volume_prefix v @ r)
    = ''Volumes'' # vp_catalog v # vp_schema v # vp_volume v # path_segments r"
proof -
  define vols where "vols = ''Volumes''"
  have eq: "volume_prefix v @ r = slash # vols @ slash # vp_catalog v @ slash # vp_schema v
      @ slash # vp_volume v @ slash # r"
    by (simp add: volume_prefix_def slash_def vols_def)
  have "path_segments vols = [vols]" by (simp add: path_segments_plain slash_def vols_def)
  with parsed_segments(1) [OF assms] show ?thesis
    unfolding eq vols_def [symmetric] by (simp add: path_segments_plain)
qed

text \<open>The absolute path of anything in a volume addresses that volume again.\<close>

lemma parse_absolute:
  assumes "parse_volume_path path = Inr v"
  shows "parse_volume_path (vp_absolute v rel)
    = Inr (v\<lparr>vp_relative := str_join [slash] (path_segments rel)\<rparr>)"
  using assms volume_prefix_segments [OF assms, of "trim_start_char slash rel"]
  by (auto simp: parse_volume_path_Inr_iff vp_absolute_def eq_ignore_ascii_case_def)

lemma relativize_absolute:
  "vp_relativize v (vp_absolute v rel) = trim_start_char slash rel"
  by (simp add: vp_relativize_def vp_absolute_def)

lemma absolute_relativize:
  assumes "parse_volume_path path = Inr v" and "\<not> str_starts_with [slash] r"
  shows "vp_absolute v (vp_relativize v (volume_prefix v @ r)) = volume_prefix v @ r"
proof -
  have "trim_start_char slash r = r"
    using assms(2) by (cases r) (auto simp: trim_start_char_def str_starts_with_iff)
  then show ?thesis by (simp add: vp_relativize_def vp_absolute_def)
qed

text \<open>The order of absolute paths of a volume is the order of their store-relative paths.\<close>

lemma append_less_iff: "p @ a < p @ b \<longleftrightarrow> a < (b :: string)"
  by (induction p) simp_all

lemma absolute_less_iff:
  "\<not> str_starts_with [slash] a \<Longrightarrow> \<not> str_starts_with [slash] b
    \<Longrightarrow> vp_absolute v a < vp_absolute v b \<longleftrightarrow> a < b"
proof -
  have "trim_start_char slash r = r" if "\<not> str_starts_with [slash] r" for r
    using that by (cases r) (auto simp: trim_start_char_def str_starts_with_iff)
  then show "\<not> str_starts_with [slash] a \<Longrightarrow> \<not> str_starts_with [slash] b
    \<Longrightarrow> vp_absolute v a < vp_absolute v b \<longleftrightarrow> a < b"
    by (simp add: vp_absolute_def append_less_iff)
qed

section \<open>Byte ranges\<close>

text \<open>What an object store returns for a range (the documented reading of \<^verbatim>\<open>GetRange\<close>).\<close>

fun range_bytes :: "get_range option \<Rightarrow> bytes \<Rightarrow> bytes" where
  "range_bytes None b = b"
| "range_bytes (Some (Bounded x y)) b = take (y - x) (drop x b)"
| "range_bytes (Some (Offset x)) b = drop x b"

lemma byte_range_err_iff:
  "(\<exists>e. byte_range off len = Inl e) \<longleftrightarrow>
     (\<exists>x. off = Some x \<and> x < 0) \<or> (\<exists>n. len = Some n \<and> n < 0)"
  by (cases off; cases len) (auto simp: byte_range_def Let_def)

lemma byte_range_bytes:
  "byte_range off len = Inr r \<Longrightarrow> range_bytes r b =
     (case len of Some n \<Rightarrow> take (nat n) (drop (nat (unwrap_or 0 off)) b)
      | None \<Rightarrow> drop (nat (unwrap_or 0 off)) b)"
  by (cases off; cases len) (auto simp: byte_range_def Let_def split: if_splits)

lemma byte_range_bounds:
  assumes "byte_range off len = Inr (Some (Bounded x y))"
    and "\<forall>n \<in> set_option off \<union> set_option len. i64_range n"
  shows "x \<le> y \<and> y < 2 ^ 64"
proof -
  from assms(1) obtain n where n: "len = Some n" "0 \<le> n" and x: "x = nat (unwrap_or 0 off)"
    and y: "y = x + nat n"
    by (cases off; cases len) (auto simp: byte_range_def Let_def split: if_splits)
  have "nat n < 2 ^ 63" using n assms(2) by (simp add: i64_range_def nat_less_iff)
  moreover have "x < 2 ^ 63" using x assms(2) by (cases off) (simp_all add: i64_range_def, linarith)
  ultimately show ?thesis using y by simp
qed

section \<open>Uploads\<close>

text \<open>
  The documented behaviour of a multipart upload: nothing is visible before it is completed. \<^verbatim>\<open>view\<close>
  is what a reader can see of the remote state.
\<close>

definition upload_isolated :: "('b, 'u) object_store \<Rightarrow> ('b \<Rightarrow> 'v) \<Rightarrow> bool" where
  "upload_isolated st view \<longleftrightarrow>
     (\<forall>loc ct s. view (snd (os_put_multipart st loc ct s)) = view s) \<and>
     (\<forall>n w s. view (snd (snd (os_wait_for_capacity st n w s))) = view s) \<and>
     (\<forall>b w s. view (snd (os_put_part st b w s)) = view s) \<and>
     (\<forall>w s. view (os_abort st w s) = view s)"

lemma upload_isolatedD:
  assumes "upload_isolated st view"
  shows "os_put_multipart st loc ct s = (r, s') \<Longrightarrow> view s' = view s"
    and "os_wait_for_capacity st n w s = (q, w', s') \<Longrightarrow> view s' = view s"
    and "os_put_part st b w s = (w', s') \<Longrightarrow> view s' = view s"
    and "view (os_abort st w s) = view s"
  using assms unfolding upload_isolated_def by (metis snd_conv)+

lemma upload_chunks_failed:
  assumes "upload_isolated st view" and "Inl e \<in> set cs" and "upload_chunks st cs w s = (r, s')"
  shows "view s' = view s \<and> (\<exists>e'. r = Inl e')"
  using assms(2,3)
proof (induction cs arbitrary: w s)
  case Nil
  then show ?case by simp
next
  case (Cons c cs)
  show ?case
  proof (cases c)
    case (Inl e')
    with Cons.prems upload_isolatedD(4) [OF assms(1), of w s] show ?thesis by auto
  next
    case (Inr b)
    obtain q w1 s1 where wait: "os_wait_for_capacity st MAX_CONCURRENCY w s = (q, w1, s1)"
      by (metis prod_cases3)
    obtain w2 s2 where put: "os_put_part st b w1 s1 = (w2, s2)" by fastforce
    have view: "view s1 = view s" "view s2 = view s"
      using upload_isolatedD(2) [OF assms(1) wait] upload_isolatedD(3) [OF assms(1) put] by simp_all
    show ?thesis
    proof (cases q)
      case (Inl e')
      with Inr wait Cons.prems view show ?thesis by auto
    next
      case (Inr u)
      with \<open>c = Inr b\<close> wait put Cons.prems have "upload_chunks st cs w2 s2 = (r, s')" by simp
      with Cons.IH [OF _ this] Cons.prems(1) \<open>c = Inr b\<close> view show ?thesis by simp
    qed
  qed
qed

lemma unity_put_stream_failed:
  assumes iso: "\<And>name op s st. ue_for_volume env name op s = Inr st \<Longrightarrow> upload_isolated st view"
    and "Inl e \<in> set cs" and run: "unity_put_file_stream env amb path ct cs s = (r, s')"
  shows "view s' = view s \<and> (\<exists>e'. r = Inl e')"
proof (cases "try_bind (unity_resolve env path Op_ReadWrite s) (\<lambda>(st, parsed).
             map_ok (Pair st) (vp_store_path env parsed))")
  case (Inl e')
  with run show ?thesis by (auto simp: unity_put_file_stream_def)
next
  case (Inr p)
  obtain st loc where p: "p = (st, loc)" by fastforce
  with Inr obtain name where "ue_for_volume env name Op_ReadWrite s = Inr st"
    by (auto simp: unity_resolve_def try_bind_Inr_iff map_ok_Inr_iff)
  from iso [OF this] have st: "upload_isolated st view" .
  obtain q s1 where mp: "os_put_multipart st loc (option_filter (\<lambda>c. c \<noteq> []) ct) s = (q, s1)"
    by fastforce
  have s1: "view s1 = view s" by (rule upload_isolatedD(1) [OF st mp])
  show ?thesis
  proof (cases q)
    case (Inl e')
    with Inr p mp run s1 show ?thesis by (auto simp: unity_put_file_stream_def)
  next
    case q: (Inr w)
    obtain r2 s2 where up: "upload_chunks st cs w s1 = (r2, s2)" by fastforce
    from upload_chunks_failed [OF st assms(2) up] Inr p mp run q s1 up show ?thesis
      by (auto simp: unity_put_file_stream_def)
  qed
qed

section \<open>Resuming a flat listing\<close>

text \<open>The entries of one level of a volume, and how the flat listing cuts them.\<close>

lemma unity_list_directory_page:
  assumes "unity_list_directory env path \<lparr>max_results = None, page_token = None\<rparr> s = Inr (es, tok)"
  shows "unity_list_directory env path pg s = Inr (paginate es pg)"
  using assms by (auto simp: unity_list_directory_def try_bind_Inr_iff Let_def)

lemma unity_list_directory_resolved:
  "unity_list_directory env path pg s = Inr r \<Longrightarrow> \<exists>st v. unity_resolve env path Op_Read s = Inr (st, v)"
  by (auto simp: unity_list_directory_def try_bind_Inr_iff)

lemma paginate_first:
  "fst (paginate es \<lparr>max_results = m, page_token = None\<rparr>) = (case m of Some n \<Rightarrow> take n es | None \<Rightarrow> es)"
  by (auto simp: paginate_def Let_def split: option.split)

lemma unity_flat_listing:
  assumes "unity_list_directory env path \<lparr>max_results = None, page_token = None\<rparr> s = Inr (es, tok)"
    and "\<not> lo_recursive opts"
  shows "unity_list_files_opts env path opts s = Inr (map Inr (filter_after
    (case lo_max_results opts of Some n \<Rightarrow> take n es | None \<Rightarrow> es) (lo_start_after opts)))"
proof -
  let ?pg = "\<lparr>max_results = lo_max_results opts, page_token = None\<rparr>"
  obtain st v where "unity_resolve env path Op_Read s = Inr (st, v)"
    using unity_list_directory_resolved [OF assms(1)] by blast
  moreover have "unity_list_directory env path ?pg s = Inr (paginate es ?pg)"
    by (rule unity_list_directory_page [OF assms(1)])
  ultimately show ?thesis
    using assms(2) paginate_first [of es "lo_max_results opts"]
    by (simp add: unity_list_files_opts_def case_prod_unfold)
qed

lemma unity_list_directory_sorted:
  "unity_list_directory env path \<lparr>max_results = None, page_token = None\<rparr> s = Inr (es, tok)
    \<Longrightarrow> sorted (map de_path es)"
  by (auto simp: unity_list_directory_def try_bind_Inr_iff Let_def)

lemma sorted_take_le_last:
  assumes "sorted (map f xs)" and "x \<in> set (take n xs)" and "n \<le> length xs" and "0 < n"
  shows "f x \<le> f (xs ! (n - 1))"
proof -
  from assms(2,3) obtain i where "i < n" "x = xs ! i" by (auto simp: in_set_conv_nth)
  with assms sorted_nth_mono [OF assms(1), of i "n - 1"] show ?thesis by simp
qed

text \<open>
  A listing of \<^verbatim>\<open>n\<close> entries that resumes at or after the last of the first \<^verbatim>\<open>n\<close> entries yields none, however
  many there are: the cap is applied before the resume point.
\<close>

lemma unity_resume_empty:
  assumes "unity_list_directory env path \<lparr>max_results = None, page_token = None\<rparr> s = Inr (es, tok)"
    and "0 < n" and "n \<le> length es" and "de_path (es ! (n - 1)) \<le> after"
  shows "unity_list_files_opts env path
      \<lparr>lo_recursive = False, lo_start_after = Some after, lo_max_results = Some n\<rparr> s = Inr []"
proof -
  have "filter (\<lambda>e. after < de_path e) (take n es) = []"
    using sorted_take_le_last [OF unity_list_directory_sorted [OF assms(1)] _ assms(3,2)] assms(4)
    by (intro filter_False_nil) (metis leD order_trans)
  with unity_flat_listing [OF assms(1)] show ?thesis by (simp add: filter_after_def)
qed

end
