(* ===== verification/Portal_Config.thy ===== *)
theory Portal_Config
  imports Store_Types
begin

text \<open>
  \<^verbatim>\<open>crates/portal/src/config.rs\<close>: the files backend configuration, its resolution and the environment
  overlay. The crate \<^verbatim>\<open>config\<close> (file and \<^verbatim>\<open>PORTAL__*\<close> layering) is outside: \<^verbatim>\<open>load\<close> starts from the
  value it deserialises, or its error, and the process environment is a map.
\<close>

datatype config_error =
    Source string
  | UnknownBackend string
  | UnityMissingEndpoint

record files_config =
  fc_backend :: string
  fc_endpoint :: "string option"
  fc_token :: "string option"
  fc_region :: "string option"

definition default_files_config :: files_config where
  "default_files_config =
     \<lparr>fc_backend = ''memory'', fc_endpoint = None, fc_token = None, fc_region = None\<rparr>"

datatype files_backend =
    Backend_Memory
  | Backend_Unity string "string option" "string option"

definition files_config_resolve :: "files_config \<Rightarrow> config_error + files_backend" where
  "files_config_resolve c =
     (let wants_unity = (fc_backend c = ''unity'' \<or> (fc_backend c = ''memory'' \<and> fc_endpoint c \<noteq> None))
      in if fc_backend c = ''memory'' \<and> \<not> wants_unity then Inr Backend_Memory
         else if (fc_backend c = ''memory'' \<or> fc_backend c = ''unity'') \<and> wants_unity then
           try_bind (ok_or UnityMissingEndpoint (fc_endpoint c)) (\<lambda>endpoint.
             Inr (Backend_Unity endpoint (fc_token c) (fc_region c)))
         else Inl (UnknownBackend (fc_backend c)))"

record portal_config =
  pc_port :: nat
  pc_files :: files_config

definition default_portal_config :: portal_config where
  "default_portal_config = \<lparr>pc_port = 8080, pc_files = default_files_config\<rparr>"

type_synonym environment = "string \<Rightarrow> string option"

definition non_empty_env :: "environment \<Rightarrow> string \<Rightarrow> string option" where
  "non_empty_env env key = option_filter (\<lambda>v. v \<noteq> []) (env key)"

definition or_else :: "'a option \<Rightarrow> 'a option \<Rightarrow> 'a option" where
  "or_else a b = (case a of Some x \<Rightarrow> Some x | None \<Rightarrow> b)"

definition overlay_env :: "environment \<Rightarrow> portal_config \<Rightarrow> portal_config" where
  "overlay_env env c =
     (let f0 = pc_files c;
          f1 = (case non_empty_env env ''UNITY_ENDPOINT'' of
                  Some v \<Rightarrow> f0\<lparr>fc_endpoint := Some v\<rparr> | None \<Rightarrow> f0);
          f2 = (case non_empty_env env ''UNITY_TOKEN'' of
                  Some v \<Rightarrow> f1\<lparr>fc_token := Some v\<rparr> | None \<Rightarrow> f1);
          f3 = (case or_else (non_empty_env env ''UNITY_REGION'') (non_empty_env env ''AWS_REGION'') of
                  Some v \<Rightarrow> f2\<lparr>fc_region := Some v\<rparr> | None \<Rightarrow> f2)
      in c\<lparr>pc_files := f3\<rparr>)"

definition portal_validate :: "portal_config \<Rightarrow> config_error + unit" where
  "portal_validate c = map_ok (\<lambda>_. ()) (files_config_resolve (pc_files c))"

text \<open>\<^verbatim>\<open>load\<close> after deserialisation; \<^verbatim>\<open>files_backend\<close>.\<close>

definition portal_load :: "environment \<Rightarrow> string + portal_config \<Rightarrow> config_error + portal_config" where
  "portal_load env source =
     try_bind (map_err Source source) (\<lambda>c.
       let cfg = overlay_env env c in map_ok (\<lambda>_. cfg) (portal_validate cfg))"

definition portal_files_backend :: "portal_config \<Rightarrow> config_error + files_backend" where
  "portal_files_backend c = files_config_resolve (pc_files c)"

section \<open>What resolution decides\<close>

lemma files_config_resolve_cases:
  "files_config_resolve c =
     (if fc_backend c = ''memory'' \<and> fc_endpoint c = None then Inr Backend_Memory
      else if fc_backend c = ''memory'' \<or> fc_backend c = ''unity'' then
        (case fc_endpoint c of
           Some e \<Rightarrow> Inr (Backend_Unity e (fc_token c) (fc_region c))
         | None \<Rightarrow> Inl UnityMissingEndpoint)
      else Inl (UnknownBackend (fc_backend c)))"
  by (auto simp: files_config_resolve_def Let_def split: option.split)

lemma overlay_fields:
  "fc_backend (pc_files (overlay_env env c)) = fc_backend (pc_files c)"
  "fc_endpoint (pc_files (overlay_env env c))
     = or_else (non_empty_env env ''UNITY_ENDPOINT'') (fc_endpoint (pc_files c))"
  "fc_token (pc_files (overlay_env env c))
     = or_else (non_empty_env env ''UNITY_TOKEN'') (fc_token (pc_files c))"
  "pc_port (overlay_env env c) = pc_port c"
  by (auto simp: overlay_env_def or_else_def Let_def split: option.split)

lemma portal_load_resolves:
  assumes "portal_load env src = Inr c"
  shows "\<exists>b. portal_files_backend c = Inr b"
  using assms
  by (auto simp: portal_load_def portal_files_backend_def portal_validate_def try_bind_Inr_iff
      map_ok_Inr_iff Let_def)

text \<open>With a non-empty \<^verbatim>\<open>UNITY_ENDPOINT\<close> in the environment, what loads is the Unity backend there.\<close>

lemma portal_load_endpoint:
  assumes "portal_load env src = Inr c" and "env ''UNITY_ENDPOINT'' = Some e" and "e \<noteq> []"
  shows "\<exists>t r. portal_files_backend c = Inr (Backend_Unity e t r)"
proof -
  from assms(1) obtain c0 where "c = overlay_env env c0"
    by (auto simp: portal_load_def try_bind_Inr_iff map_ok_Inr_iff Let_def)
  with assms(2,3) have "fc_endpoint (pc_files c) = Some e"
    by (simp add: overlay_fields non_empty_env_def or_else_def)
  with portal_load_resolves [OF assms(1)] show ?thesis
    by (auto simp: portal_files_backend_def files_config_resolve_cases split: if_splits)
qed

end
