(* ===== verification/Portal_Properties.thy ===== *)
theory Portal_Properties
  imports Local_Walk Unity_Facts Portal_Service Portal_Config
begin

text \<open>
  The properties of the portal: the stores against their specifications, the sandbox, listings and
  paging, the volume paths, the configuration; each with a concrete instance where it has hypotheses.
\<close>

section \<open>Concrete states\<close>

definition amb0 :: ambient where
  "amb0 = \<lparr>now_millis = 7, new_id = ''id-1''\<rparr>"

definition policy0 :: tag_policy where
  "policy0 = \<lparr>tp_tag_key = ''pii'', tp_description = None, tp_values = [], tp_id = None,
     tp_created_at = None, tp_updated_at = None\<rparr>"

definition tree0 :: filesystem where
  "tree0 = [([], DirNode 1), ([''etc''], DirNode 1), ([''etc'', ''pw''], FileNode 1 [9]),
            ([''h''], DirNode 1), ([''h'', ''a''], FileNode 1 [1, 2]), ([''h'', ''d''], DirNode 1),
            ([''h'', ''d'', ''b''], FileNode 5 [3])]"

lemma tree_ok_entries:
  assumes "bm_wf fs" and "\<exists>t. bm_get fs [] = Some (DirNode t)"
    and "\<forall>(p, n) \<in> set fs. p = [] \<or> (\<exists>t. bm_get fs (butlast p) = Some (DirNode t)) \<and> valid_name (last p)"
  shows "tree_ok fs"
  using assms bm_entries_get [OF assms(1)] by (fastforce simp: tree_ok_def)

lemma local_inv_tree0: "local_inv [''h''] tree0"
proof -
  have "tree_ok tree0"
    by (rule tree_ok_entries) (simp_all add: tree0_def bm_wf_def valid_name_def slash_def)
  then show ?thesis by (simp add: local_inv_def valid_name_def slash_def) (simp add: tree0_def)
qed

section \<open>Stores and specifications\<close>

text \<open>
  C1. Whatever sequence of tag calls a memory store serves, every reply and every listing is the one
  the abstract machine over two finite maps gives, and the store's state abstracts to the machine's.
\<close>

theorem tag_store_refines:
  assumes "tag_run memory_tag_store ops new_memory_store = (replies, s')"
  shows "tag_spec_run ops \<lparr>sp_policies = Map.empty, sp_assignments = Map.empty\<rparr> = (replies, mem_tag_abs s')"
  using mem_tags.run_refines [OF mem_tag_inv_new assms] by simp

theorem tag_store_refines_witness:
  "tag_spec_run [OpCreatePolicy amb0 policy0, OpDeletePolicy ''pii'', OpDeletePolicy ''pii'']
      \<lparr>sp_policies = Map.empty, sp_assignments = Map.empty\<rparr> =
    ([RPolicy (Inr (policy0\<lparr>tp_id := Some ''id-1'', tp_created_at := Some 7, tp_updated_at := Some 7\<rparr>)),
      RUnit (Inr ()), RUnit (Inl (policy_not_found ''pii''))],
     mem_tag_abs new_memory_store)"
  by (rule tag_store_refines [of "[OpCreatePolicy amb0 policy0, OpDeletePolicy ''pii'', OpDeletePolicy ''pii'']"])
    (simp add: memory_tag_store_def mem_create_policy_def mem_delete_policy_def new_memory_store_def
      amb0_def policy0_def bm_contains_key_def Let_def)

text \<open>
  C2. After any sequence of writing calls on a fresh memory store, the file contents are those that the
  calls which succeeded wrote, in order; a failed call changes no contents.
\<close>

theorem memory_files_contents:
  assumes "file_run memory_file_store ops new_memory_store = (oks, s')"
  shows "mem_contents s' = contents_run Some ops oks Map.empty"
proof -
  have "mem_file_inv new_memory_store" by (simp add: mem_file_inv_def new_memory_store_def)
  from mem_files.run_contents [OF this assms] have "mem_contents s'
      = contents_run Some ops oks (mem_contents new_memory_store)" by simp
  also have "mem_contents new_memory_store = Map.empty"
    by (simp add: mem_contents_def new_memory_store_def fun_eq_iff)
  finally show ?thesis .
qed

theorem memory_files_contents_witness:
  "mem_contents (snd (file_run memory_file_store
      [FPut amb0 ''/a'' None [1], FPut amb0 '''' None [2], FPutStream amb0 ''/b'' None [Inr [3], Inr [4]],
       FDelete ''/a''] new_memory_store)) = [''/b'' \<mapsto> [3, 4]]"
proof -
  have "file_run memory_file_store
      [FPut amb0 ''/a'' None [1], FPut amb0 '''' None [2], FPutStream amb0 ''/b'' None [Inr [3], Inr [4]],
       FDelete ''/a''] new_memory_store = ([True, False, True, True], snd (file_run memory_file_store
      [FPut amb0 ''/a'' None [1], FPut amb0 '''' None [2], FPutStream amb0 ''/b'' None [Inr [3], Inr [4]],
       FDelete ''/a''] new_memory_store))"
    by (simp add: memory_file_store_def mem_put_file_def mem_put_file_stream_def mem_delete_file_def
        new_memory_store_def Let_def)
  from memory_files_contents [OF this] show ?thesis by (simp add: fun_eq_iff)
qed

section \<open>The local store\<close>

text \<open>
  A path resolves to the root followed by its segments, all of them plain names, exactly if it has
  no parent segment; empty and current-directory segments do not count.
\<close>

theorem local_resolve_iff:
  "local_resolve root p = Inr target \<longleftrightarrow>
     ''..'' \<notin> set (logical_segments p) \<and> (\<forall>s \<in> set (logical_segments p). valid_name s) \<and>
     target = root @ logical_segments p"
  using logical_segments_valid [of _ p] by (auto simp: local_resolve_alt)

theorem local_resolve_iff_witness:
  "local_resolve [''h''] ''/a/./b/'' = Inr [''h'', ''a'', ''b''] \<and> local_resolve [''h''] ''/a/../b'' \<noteq> Inr [''h'', ''b'']"
proof -
  have "logical_segments ''/a/./b/'' = [''a'', ''b'']" "''..'' \<in> set (logical_segments ''/a/../b'')"
    by code_simp+
  then show ?thesis
    using local_resolve_iff [of "[''h'']" "''/a/./b/''" "[''h'', ''a'', ''b'']"] local_resolve_iff [of "[''h'']" "''/a/../b''" "[''h'', ''b'']"]
    by (simp add: valid_name_def slash_def)
qed

text \<open>
  C3. No sequence of calls, whatever their paths, changes anything outside the root of a local store:
  the same names exist there, and every file has its bytes and its modification time.
\<close>

theorem local_store_sandboxed:
  assumes "local_inv root fs" and "file_run (local_file_store root t) ops fs = (oks, fs')"
  shows "same_outside root fs fs'"
  using local_run_outside [OF assms] by simp

definition escape_ops :: "file_op list" where
  "escape_ops = [FPut amb0 ''/../etc/pw'' None [0], FDelete ''/d/../../etc/pw'', FPut amb0 ''/n/x'' None [5]]"

theorem local_store_sandboxed_witness:
  "same_outside [''h''] tree0 (snd (file_run (local_file_store [''h''] 0) escape_ops tree0))"
proof -
  obtain oks fs' where "file_run (local_file_store [''h''] 0) escape_ops tree0 = (oks, fs')" by fastforce
  with local_store_sandboxed [OF local_inv_tree0 this] show ?thesis by simp
qed

text \<open>
  An upload over an existing file whose stream fails returns the stream's error, and the file then
  holds the chunks before the failure, in place of its former contents: the upload is not undone.
\<close>

theorem local_failed_upload_truncates:
  assumes "local_inv root fs" and "local_resolve root p = Inr target"
    and "file_at fs target = Some old" and "collect_chunks cs = Inl e"
  shows "\<exists>fs'. local_put_file_stream root amb p ct cs fs = (Inl e, fs') \<and>
    file_at fs' = (file_at fs)(target \<mapsto> written cs)"
  by (rule local_put_stream_existing [OF assms])

theorem local_failed_upload_truncates_witness:
  "\<exists>fs'. local_put_file_stream [''h''] amb0 ''/a'' None [Inr [7], Inl (Internal ''net'')] tree0
      = (Inl (Internal ''net''), fs') \<and> file_at fs' [''h'', ''a''] = Some [7]"
proof -
  have res: "local_resolve [''h''] ''/a'' = Inr [''h'', ''a'']" by code_simp
  have at: "file_at tree0 [''h'', ''a''] = Some [1, 2]" by code_simp
  have "collect_chunks [Inr [7], Inl (Internal ''net'')] = Inl (Internal ''net'')" by simp
  from local_failed_upload_truncates [OF local_inv_tree0 res at this, of amb0 None] show ?thesis by auto
qed

text \<open>
  C6. The recursive listing of a directory of the local store returns (the bound on the directories it
  visits is never the reason it stops), and its entries are the files below the directory.
\<close>

theorem local_walk_complete:
  assumes "local_inv root fs" and "bm_get fs (root @ logical_segments path) = Some (DirNode t)"
    and "''..'' \<notin> set (logical_segments path)"
  shows "\<exists>r. walk_loop (Suc (length fs)) root fs [path] [] = Some (Inr r) \<and>
    local_walk root path fs = Inr r \<and> set r = files_below root fs path"
proof -
  from assms(2) have "bm_get fs (target_of root path) = Some (DirNode t)" by (simp add: target_of_def)
  from local_walk_dir [OF assms(1) this assms(3)] obtain r where r: "local_walk root path fs = Inr r" by blast
  with walk_fuel_enough [OF assms(1), of path] local_walk_files [OF assms(1) r]
  show ?thesis by (simp del: walk_loop.simps)
qed

theorem local_walk_complete_witness:
  "\<exists>r. local_walk [''h''] ''/'' tree0 = Inr r \<and> set r = files_below [''h''] tree0 ''/''"
proof -
  have "bm_get tree0 ([''h''] @ logical_segments ''/'') = Some (DirNode 1)" by code_simp
  moreover have "''..'' \<notin> set (logical_segments ''/'')" by code_simp
  ultimately show ?thesis using local_walk_complete [OF local_inv_tree0] by blast
qed

section \<open>Uploads and downloads\<close>

text \<open>
  C4. On the desktop host's stores (home on disk, volumes in memory, behind the router), an upload that
  succeeded can be downloaded under its path: the download's chunks are those of the upload's messages.
\<close>

theorem desktop_upload_download:
  assumes "local_inv root (fst s)" and "mem_file_inv (snd s)"
    and "upload_file display (routing_file_store (local_file_store root t) memory_file_store) amb requests s
      = (Inr resp, s')"
  shows "\<exists>first msgs. requests = map Inr (first # msgs) \<and>
    download_bytes (download_file (routing_file_store (local_file_store root t) memory_file_store)
        (ur_path first) None None s') = Some (concat (map ur_chunk (first # msgs)))"
  using desktop_files.routed.upload_download [OF _ assms(3)] assms(1,2)
  by (simp add: desktop_files.rinv_def)

definition upload0 :: "upload_request service_result list" where
  "upload0 = [Inr \<lparr>ur_path = ''/home/d/n'', ur_content_type = None, ur_chunk = [1]\<rparr>,
              Inr \<lparr>ur_path = [], ur_content_type = None, ur_chunk = [2, 3]\<rparr>]"

theorem desktop_upload_download_witness:
  "download_bytes (download_file (routing_file_store (local_file_store [''h''] 0) memory_file_store)
      ''/home/d/n'' None None
      (snd (upload_file (\<lambda>_. []) (routing_file_store (local_file_store [''h''] 0) memory_file_store)
         amb0 upload0 (tree0, new_memory_store)))) = Some [1, 2, 3]"
proof -
  let ?fs = "routing_file_store (local_file_store [''h''] 0) memory_file_store"
  let ?run = "upload_file (\<lambda>_. []) ?fs amb0 upload0 (tree0, new_memory_store)"
  have "is_ok (fst ?run)" by code_simp
  then obtain resp where "?run = (Inr resp, snd ?run)" by (metis is_ok_iff prod.collapse)
  from desktop_upload_download [OF _ _ this] local_inv_tree0 obtain first msgs
    where req: "upload0 = map Inr (first # msgs)"
      and down: "download_bytes (download_file ?fs (ur_path first) None None (snd ?run))
        = Some (concat (map ur_chunk (first # msgs)))"
    by (auto simp: mem_file_inv_def new_memory_store_def)
  from req have "first = \<lparr>ur_path = ''/home/d/n'', ur_content_type = None, ur_chunk = [1]\<rparr>"
    and "msgs = [\<lparr>ur_path = [], ur_content_type = None, ur_chunk = [2, 3]\<rparr>]"
    by (auto simp: upload0_def)
  with down show ?thesis by simp
qed



section \<open>Routing\<close>

text \<open>
  A path is routed exactly if it is one of the two prefixes or lies below it at a path boundary;
  anything else is an invalid argument, and a volumes path reaches its store unchanged.
\<close>

theorem route_of_paths:
  "route_of p = Inr r \<longleftrightarrow>
     (p = HOME_PREFIX \<and> r = Home [slash]) \<or>
     (\<exists>u. p = HOME_PREFIX @ slash # u \<and> r = Home (slash # u)) \<or>
     ((p = VOLUMES_PREFIX \<or> (\<exists>u. p = VOLUMES_PREFIX @ slash # u)) \<and> r = Volumes p)"
  by (rule route_cases [of p]) auto

text \<open>
  A response of the home store carries the path of the request again: putting the prefix back on
  what the router passed to the store yields the request's path, unless it had doubled slashes after
  the prefix (or was the prefix with a trailing slash).
\<close>

theorem rehome_inverts_route:
  assumes "route_of p = Inr (Home q)" and "\<not> str_starts_with [slash, slash] q" and "p \<noteq> HOME_PREFIX @ [slash]"
  shows "rehome q = p"
proof (cases "q = [slash]")
  case True
  with assms(1,3) have "p = HOME_PREFIX" by (auto simp: route_home_iff)
  with rehome_route [OF assms(1,2)] True show ?thesis by simp
next
  case False
  with rehome_route [OF assms(1,2)] show ?thesis by simp
qed

theorem rehome_inverts_route_witness: "rehome ''/d/b'' = ''/home/d/b''"
proof -
  have "route_of ''/home/d/b'' = Inr (Home ''/d/b'')" by code_simp
  moreover have "\<not> str_starts_with [slash, slash] ''/d/b''" by code_simp
  moreover have "''/home/d/b'' \<noteq> HOME_PREFIX @ [slash]" by code_simp
  ultimately show ?thesis by (rule rehome_inverts_route)
qed

text \<open>
  The router hands the resume point of a listing to the home store as it came, with its prefix,
  while the store compares it with its own paths: a file whose path lies after the resume point is not
  listed. Here \<^verbatim>\<open>/home/d/b\<close> is after \<^verbatim>\<open>/home/c\<close>, and the listing from there is empty.
\<close>

theorem routed_resume_loses_entries:
  "\<exists>s. rt_list_files_opts memory_file_store memory_file_store ''/home''
        \<lparr>lo_recursive = True, lo_start_after = None, lo_max_results = None\<rparr> (s, new_memory_store)
      = Inr [Inr \<lparr>de_path = ''/home/d/b'', de_is_directory = False, de_file_size = 1, de_last_modified = 7\<rparr>] \<and>
    ''/home/c'' < ''/home/d/b'' \<and>
    rt_list_files_opts memory_file_store memory_file_store ''/home''
        \<lparr>lo_recursive = True, lo_start_after = Some ''/home/c'', lo_max_results = None\<rparr> (s, new_memory_store)
      = Inr []"
  by (rule exI [of _ "snd (mem_put_file amb0 ''/d/b'' None [1] new_memory_store)"]) code_simp

section \<open>Listings and pages\<close>

text \<open>
  C37. A client that asks a store for pages of a positive size and follows the tokens gets every item,
  in order, once, and stops.
\<close>

theorem pages_cover_listing:
  assumes "0 < limit" and "length items \<le> usize_max"
  shows "follow_pages (Suc (length items)) items limit None = Some items"
  using follow_pages_from [OF assms, of None 0 "Suc (length items)"] by simp

theorem pages_cover_listing_witness:
  "follow_pages 6 [10, 20, 30, 40, 50 :: nat] 2 None = Some [10, 20, 30, 40, 50]"
proof -
  have "length [10, 20, 30, 40, 50 :: nat] \<le> usize_max" by (simp add: usize_max_def)
  from pages_cover_listing [OF _ this, of 2] show ?thesis by (simp del: follow_pages.simps add: numeral_eq_Suc)
qed

text \<open>
  A page of size zero (what a request's negative or zero limit becomes) is empty and carries a
  token for the place it started from, so a client that follows the tokens never gets an item and
  never stops.
\<close>

theorem empty_pages_never_end:
  assumes "start < length items" and "length items \<le> usize_max"
  shows "paginate items \<lparr>max_results = Some 0, page_token = Some (nat_to_string start)\<rparr>
      = ([], Some (nat_to_string start)) \<and>
    follow_pages fuel items 0 (Some (nat_to_string start)) = None"
proof -
  have page: "paginate items \<lparr>max_results = Some 0, page_token = Some (nat_to_string start)\<rparr>
      = ([], Some (nat_to_string start))"
    using assms by (simp add: paginate_def Let_def)
  moreover have "follow_pages fuel items 0 (Some (nat_to_string start)) = None"
    by (induction fuel) (simp_all add: page)
  ultimately show ?thesis ..
qed

theorem empty_pages_never_end_witness:
  "paginate [True, False] \<lparr>max_results = Some 0, page_token = Some ''1''\<rparr> = ([], Some ''1'')"
proof -
  have "nat_to_string 1 = ''1''" by code_simp
  then show ?thesis using empty_pages_never_end [of 1 "[True, False]"] by (simp add: usize_max_def)
qed

text \<open>
  A recursive listing of the memory store read in pieces, each resumed after the last path of the
  piece before, is the whole listing: every file below the prefix, in path order, once.
\<close>

theorem memory_listing_resumes:
  assumes "mem_file_inv s" and "0 < n" and "length (files s) < fuel"
  shows "resume_all fuel (\<lambda>o1. map projr (projr (mem_list_files_opts path o1 s))) True n None
    = Some (map (\<lambda>(p, f). file_entry p f) (filter (\<lambda>(p, _). below (dir_prefix path) p) (files s)))"
proof -
  let ?es = "scan_files (dir_prefix path) True [] (files s)"
  have sorted: "sorted_wrt (<) (map de_path ?es)"
    using assms(1) by (simp add: mem_file_inv_def scan_recursive_sorted)
  have same: "resume_all k (\<lambda>o1. map projr (projr (mem_list_files_opts path o1 s))) True n st
      = resume_all k (\<lambda>o1. cap_entries o1 ?es) True n st" for k st
    using assms(1) by (induction k arbitrary: st) (simp_all add: mem_list_recursive comp_def Let_def)
  have "length (after_entries None ?es) < fuel"
    using assms(3) by (simp add: after_entries_def scan_recursive le_less_trans [OF length_filter_le])
  from resume_cap_entries [OF sorted assms(2) this] same show ?thesis
    by (simp add: after_entries_def scan_recursive)
qed


theorem memory_listing_resumes_witness:
  "resume_all 3 (\<lambda>o1. map projr (projr (mem_list_files_opts ''/'' o1
      (snd (file_run memory_file_store [FPut amb0 ''/b'' None [1], FPut amb0 ''/a'' None []] new_memory_store)))))
    True 1 None = Some [\<lparr>de_path = ''/a'', de_is_directory = False, de_file_size = 0, de_last_modified = 7\<rparr>,
      \<lparr>de_path = ''/b'', de_is_directory = False, de_file_size = 1, de_last_modified = 7\<rparr>]"
proof -
  let ?s = "snd (file_run memory_file_store [FPut amb0 ''/b'' None [1], FPut amb0 ''/a'' None []] new_memory_store)"
  have "mem_file_inv new_memory_store" by (simp add: mem_file_inv_def new_memory_store_def)
  then have inv: "mem_file_inv ?s"
    using mem_files.run_contents by (metis prod.collapse)
  have "length (files ?s) < 3" by code_simp
  moreover have "map (\<lambda>(p, f). file_entry p f) (filter (\<lambda>(p, _). below (dir_prefix ''/'') p) (files ?s)) =
    [\<lparr>de_path = ''/a'', de_is_directory = False, de_file_size = 0, de_last_modified = 7\<rparr>,
      \<lparr>de_path = ''/b'', de_is_directory = False, de_file_size = 1, de_last_modified = 7\<rparr>]"
  proof -
    have fs: "files ?s = [(''/a'', \<lparr>sf_content_type = ''application/octet-stream'', sf_last_modified = 7, sf_bytes = []\<rparr>),
        (''/b'', \<lparr>sf_content_type = ''application/octet-stream'', sf_last_modified = 7, sf_bytes = [1]\<rparr>)]"
      by code_simp
    show ?thesis unfolding fs by (simp add: below_def dir_prefix_def str_ends_with_char_def slash_def file_entry_def)
  qed
  ultimately show ?thesis using memory_listing_resumes [OF inv, of 1 3 "''/''"] by simp
qed

text \<open>
  A memory directory is deleted exactly if it exists and no file and no other directory lies under
  it; a refused deletion changes nothing, a successful one removes that directory alone.
\<close>

theorem memory_rmdir_only_empty:
  assumes "mem_file_inv s"
  shows "(fst (mem_delete_directory path s) = Inr () \<longleftrightarrow>
      bm_get (directories s) path \<noteq> None \<and>
      (\<forall>p. bm_get (files s) p \<noteq> None \<longrightarrow> \<not> str_starts_with (dir_prefix path) p) \<and>
      (\<forall>p. bm_get (directories s) p \<noteq> None \<longrightarrow> p \<noteq> path \<longrightarrow> \<not> str_starts_with (dir_prefix path) p)) \<and>
    snd (mem_delete_directory path s) =
      (if fst (mem_delete_directory path s) = Inr ()
       then s\<lparr>directories := bm_remove (directories s) path\<rparr> else s)"
proof -
  have keys: "list_ex P (bm_keys m) \<longleftrightarrow> (\<exists>k. bm_get m k \<noteq> None \<and> P k)" for P and m :: "(string, 'v) btree_map"
    by (auto simp: list_ex_iff set_bm_keys)
  have deleted: "fst (mem_delete_directory path s) = Inr () \<longleftrightarrow>
      bm_get (directories s) path \<noteq> None \<and>
      (\<forall>p. bm_get (files s) p \<noteq> None \<longrightarrow> \<not> str_starts_with (dir_prefix path) p) \<and>
      (\<forall>p. bm_get (directories s) p \<noteq> None \<longrightarrow> p \<noteq> path \<longrightarrow> \<not> str_starts_with (dir_prefix path) p)"
    by (auto simp: mem_delete_directory_def Let_def keys ok_or_Inr_iff) (metis option.distinct(1))+
  have "bm_remove m k = m" if "bm_get m k = None" for m :: "(string, int) btree_map" and k
    using that by (induction m k rule: bm_remove.induct) auto
  then have "snd (mem_delete_directory path s) =
      (if fst (mem_delete_directory path s) = Inr ()
       then s\<lparr>directories := bm_remove (directories s) path\<rparr> else s)"
    by (cases "bm_get (directories s) path") (auto simp: mem_delete_directory_def Let_def)
  with deleted show ?thesis by simp
qed

theorem memory_rmdir_only_empty_witness:
  "fst (mem_delete_directory ''/d'' \<lparr>policies = [], assignments = [],
      files = [(''/d/x'', \<lparr>sf_content_type = [], sf_last_modified = 0, sf_bytes = []\<rparr>)],
      directories = [(''/d'', 3)]\<rparr>) \<noteq> Inr ()"
proof -
  let ?s = "\<lparr>policies = [], assignments = [],
      files = [(''/d/x'', \<lparr>sf_content_type = [], sf_last_modified = 0, sf_bytes = []\<rparr>)],
      directories = [(''/d'', 3)]\<rparr>"
  have "mem_file_inv ?s" by (simp add: mem_file_inv_def bm_wf_def)
  moreover have "str_starts_with (dir_prefix ''/d'') ''/d/x''" by code_simp
  ultimately show ?thesis using memory_rmdir_only_empty [of ?s "''/d''"] by auto
qed

section \<open>Unity Catalog volumes\<close>

text \<open>
  The absolute path of an entry of a volume parses to the same volume, with the entry's segments as
  its relative path, and its listing offset is the entry's store path again.
\<close>

theorem volume_path_roundtrip:
  assumes "parse_volume_path path = Inr v" and "\<not> str_starts_with [slash] rel"
  shows "parse_volume_path (vp_absolute v rel) = Inr (v\<lparr>vp_relative := str_join [slash] (path_segments rel)\<rparr>) \<and>
    vp_relativize v (vp_absolute v rel) = rel"
proof -
  have "trim_start_char slash rel = rel"
    using assms(2) by (cases rel) (auto simp: trim_start_char_def str_starts_with_iff)
  then have "vp_relativize v (vp_absolute v rel) = rel" by (simp add: relativize_absolute)
  with parse_absolute [OF assms(1)] show ?thesis by blast
qed

theorem volume_path_roundtrip_witness:
  "vp_relativize (projr (parse_volume_path ''volumes/c/s/v/d'')) ''/Volumes/c/s/v/d/f'' = ''d/f''"
proof -
  let ?v = "projr (parse_volume_path ''volumes/c/s/v/d'')"
  have "parse_volume_path ''volumes/c/s/v/d'' = Inr ?v" by code_simp
  moreover have "\<not> str_starts_with [slash] ''d/f''" by code_simp
  moreover have "vp_absolute ?v ''d/f'' = ''/Volumes/c/s/v/d/f''" by code_simp
  ultimately show ?thesis using volume_path_roundtrip [of "''volumes/c/s/v/d''" ?v "''d/f''"] by simp
qed



text \<open>
  A volume's store as an association list of paths and bytes, whose multipart upload collects its parts
  and writes them when it finishes: an instance of the interface on which the witnesses below run.
\<close>

definition list_store :: "((string \<times> bytes) list, string \<times> bytes) object_store" where
  "list_store =
     \<lparr>os_put_opts = \<lambda>p b ct s. (Inr (), (p, b) # filter (\<lambda>(q, _). q \<noteq> p) s),
      os_put_multipart = \<lambda>p ct s. (Inr (p, []), s),
      os_wait_for_capacity = \<lambda>n w s. (Inr (), w, s),
      os_put_part = \<lambda>b w s. ((fst w, snd w @ b), s),
      os_abort = \<lambda>w s. s,
      os_finish = \<lambda>w s. (Inr (), w # filter (\<lambda>(q, _). q \<noteq> fst w) s),
      os_get_opts = \<lambda>p o1 s. (case map_of s p of
          None \<Rightarrow> Inl (Os_NotFound p)
        | Some b \<Rightarrow> Inr \<lparr>gr_meta = \<lparr>om_location = p, om_size = length b, om_last_modified = 0, om_e_tag = None\<rparr>,
              gr_content_type = None, gr_bytes = Inr b, gr_stream = [Inr b]\<rparr>),
      os_delete = \<lambda>p s. (Inr (), filter (\<lambda>(q, _). q \<noteq> p) s),
      os_list = \<lambda>pre s. map (\<lambda>(p, b). Inr \<lparr>om_location = p, om_size = length b, om_last_modified = 0, om_e_tag = None\<rparr>) s,
      os_list_with_offset = \<lambda>pre off s. [],
      os_list_with_delimiter = \<lambda>pre s. Inr \<lparr>lr_common_prefixes = [],
        lr_objects = map (\<lambda>(p, b). \<lparr>om_location = p, om_size = length b, om_last_modified = 0, om_e_tag = None\<rparr>) s\<rparr>\<rparr>"

definition list_env :: "((string \<times> bytes) list, string \<times> bytes) unity_env" where
  "list_env = \<lparr>ue_for_volume = \<lambda>_ _ _. Inr list_store, ue_store_path_from = id\<rparr>"

text \<open>
  An upload into a volume that meets a failed chunk fails and leaves what is visible of the volume
  as it was, for every object store whose unfinished multipart uploads are invisible.
\<close>

theorem unity_failed_upload_invisible:
  assumes "\<And>name op s st. ue_for_volume env name op s = Inr st \<Longrightarrow> upload_isolated st view"
    and "Inl e \<in> set chunks" and "unity_put_file_stream env amb path ct chunks s = (r, s')"
  shows "view s' = view s \<and> (\<exists>e'. r = Inl e')"
  by (rule unity_put_stream_failed [OF assms])

theorem unity_failed_upload_invisible_witness:
  "snd (unity_put_file_stream list_env amb0 ''/Volumes/c/s/v/f'' None
     [Inr [1], Inl (Internal ''reset'')] [(''f'', [7])]) = [(''f'', [7])]"
proof -
  let ?cs = "[Inr [1], Inl (Internal ''reset'')]"
  have iso: "upload_isolated st id" if "ue_for_volume list_env name op s = Inr st" for name op s st
    using that by (auto simp: list_env_def list_store_def upload_isolated_def)
  have failed: "Inl (Internal ''reset'') \<in> set ?cs" by simp
  obtain r s' where run: "unity_put_file_stream list_env amb0 ''/Volumes/c/s/v/f'' None ?cs [(''f'', [7])] = (r, s')"
    by (rule prod.exhaust)
  from unity_failed_upload_invisible [where view = id, OF iso failed run] run show ?thesis by simp
qed

text \<open>
  A flat listing of a volume that resumes at the last entry of a page of at most n entries, with the
  same limit, is empty, although entries lie after it: the limit is applied before the resume point.
\<close>

theorem unity_flat_resume_empty:
  assumes "unity_list_directory env path \<lparr>max_results = None, page_token = None\<rparr> s = Inr (es, tok)"
    and "0 < n" and "n < length es" and "distinct (map de_path es)"
  shows "unity_list_files_opts env path
      \<lparr>lo_recursive = False, lo_start_after = Some (de_path (es ! (n - 1))), lo_max_results = Some n\<rparr> s = Inr [] \<and>
    de_path (es ! (n - 1)) < de_path (es ! n)"
proof -
  have "sorted (map de_path es)" by (rule unity_list_directory_sorted [OF assms(1)])
  then have "de_path (es ! (n - 1)) \<le> de_path (es ! n)"
    using sorted_nth_mono [of "map de_path es" "n - 1" n] assms(3) by simp
  moreover have "de_path (es ! (n - 1)) \<noteq> de_path (es ! n)"
    using nth_eq_iff_index_eq [OF assms(4), of "n - 1" n] assms(2,3) by simp
  ultimately show ?thesis
    using unity_resume_empty [OF assms(1,2), of "de_path (es ! (n - 1))"] assms(3) by simp
qed

theorem unity_flat_resume_empty_witness:
  "unity_list_files_opts list_env ''/Volumes/c/s/v''
     \<lparr>lo_recursive = False, lo_start_after = Some ''/Volumes/c/s/v/a'', lo_max_results = Some 1\<rparr>
     [(''a'', []), (''b'', [])] = Inr []"
proof -
  let ?s = "[(''a'', []), (''b'', [])] :: (string \<times> bytes) list"
  let ?e = "\<lambda>p. \<lparr>de_path = p, de_is_directory = False, de_file_size = 0, de_last_modified = 0\<rparr>"
  have "unity_list_directory list_env ''/Volumes/c/s/v'' \<lparr>max_results = None, page_token = None\<rparr> ?s
      = Inr ([?e ''/Volumes/c/s/v/a'', ?e ''/Volumes/c/s/v/b''], None)"
    by code_simp
  from unity_flat_resume_empty [OF this, of 1] show ?thesis by simp
qed

section \<open>Configuration\<close>

text \<open>
  A configuration that loads resolves to a backend; with a non-empty \<^verbatim>\<open>UNITY_ENDPOINT\<close> in the
  environment that backend is Unity Catalog at that endpoint, whatever the file's backend and endpoint.
\<close>

theorem portal_load_backend:
  assumes "portal_load env src = Inr c"
  shows "(\<exists>b. portal_files_backend c = Inr b) \<and>
    (\<forall>e. env ''UNITY_ENDPOINT'' = Some e \<longrightarrow> e \<noteq> [] \<longrightarrow>
      (\<exists>t r. portal_files_backend c = Inr (Backend_Unity e t r)))"
  using portal_load_resolves [OF assms] portal_load_endpoint [OF assms] by blast

theorem portal_load_backend_witness:
  "\<exists>t r. portal_files_backend (projr (portal_load [''UNITY_ENDPOINT'' \<mapsto> ''http://uc'']
     (Inr \<lparr>pc_port = 8080, pc_files = \<lparr>fc_backend = ''memory'', fc_endpoint = None, fc_token = None, fc_region = None\<rparr>\<rparr>)))
   = Inr (Backend_Unity ''http://uc'' t r)"
proof -
  let ?src = "Inr \<lparr>pc_port = 8080, pc_files = \<lparr>fc_backend = ''memory'', fc_endpoint = None, fc_token = None, fc_region = None\<rparr>\<rparr>"
  let ?env = "[''UNITY_ENDPOINT'' \<mapsto> ''http://uc'']"
  have "portal_load ?env ?src = Inr (projr (portal_load ?env ?src))" by code_simp
  from portal_load_backend [OF this] show ?thesis by simp
qed

end
