(* ===== verification/Identity.thy ===== *)
theory Identity
  imports Rust_Prelude
begin

text \<open>
  \<^verbatim>\<open>crates/hydrofoil/src/identity.rs\<close> and \<^verbatim>\<open>agent.rs\<close>: the principal, the Unity Catalog token and the agent
  context a request's headers carry, and the identity provider that resolves a user's groups from a
  static map. A header map is known by its reading \<^verbatim>\<open>get(key).and_then(to_str)\<close>. The type
  \<^verbatim>\<open>PrincipalIdentity\<close> of the policy crate is the parameter \<^verbatim>\<open>'p\<close> with the methods the code calls; an
  \<^verbatim>\<open>EntityUid\<close> is known by its text.
\<close>

type_synonym headers = "string \<Rightarrow> string option"

section \<open>The principal of a request\<close>

record group =
  gr_uid :: string
  gr_parents :: "string list"

record enrichment =
  en_attributes :: "(string \<times> string) list"
  en_groups :: "string list"
  en_group_hierarchy :: "group list"

definition no_enrichment :: enrichment where
  "no_enrichment = \<lparr>en_attributes = [], en_groups = [], en_group_hierarchy = []\<rparr>"

record 'p principal_api =
  pi_new :: "string \<Rightarrow> 'p"
  pi_with_attribute :: "string \<Rightarrow> string \<Rightarrow> 'p \<Rightarrow> 'p"
  pi_enriched :: "enrichment \<Rightarrow> 'p \<Rightarrow> 'p"
  pi_uid :: "'p \<Rightarrow> string"

text \<open>The documented behaviour of the type: only \<^verbatim>\<open>new\<close> sets the uid.\<close>

definition principal_api_ok :: "'p principal_api \<Rightarrow> bool" where
  "principal_api_ok api \<longleftrightarrow>
     (\<forall>u. pi_uid api (pi_new api u) = u) \<and>
     (\<forall>k v p. pi_uid api (pi_with_attribute api k v p) = pi_uid api p) \<and>
     (\<forall>e p. pi_uid api (pi_enriched api e p) = pi_uid api p)"

definition DEFAULT_PRINCIPAL :: string where
  "DEFAULT_PRINCIPAL = ''User::'' @ [CHR 0x22] @ ''anonymous'' @ [CHR 0x22]"

text \<open>\<^verbatim>\<open>check_uid\<close> is the Cedar parser: the text of its error, or success.\<close>

definition principal_from_headers ::
  "'p principal_api \<Rightarrow> (string \<Rightarrow> string + unit) \<Rightarrow> headers \<Rightarrow> string + 'p" where
  "principal_from_headers api check_uid get =
     (let uid_str = unwrap_or DEFAULT_PRINCIPAL (get ''x-hydrofoil-principal'') in
      try_bind (map_err (\<lambda>e. ''invalid principal '' @ [CHR 0x27] @ uid_str @ [CHR 0x27] @ '': '' @ e)
          (check_uid uid_str)) (\<lambda>_.
        let id0 = pi_new api uid_str;
            id1 = (case get ''x-hydrofoil-role'' of
                     Some role \<Rightarrow> pi_with_attribute api ''role'' role id0 | None \<Rightarrow> id0);
            id2 = (case get ''x-hydrofoil-region'' of
                     Some region \<Rightarrow> pi_with_attribute api ''region'' region id1 | None \<Rightarrow> id1)
        in Inr id2))"

definition uc_token_from_metadata :: "headers \<Rightarrow> string option" where
  "uc_token_from_metadata get = option_filter (\<lambda>t. t \<noteq> []) (get ''x-hydrofoil-uc-token'')"

definition uc_token_from_http_headers :: "headers \<Rightarrow> string option" where
  "uc_token_from_http_headers get =
     option_filter (\<lambda>t. t \<noteq> [])
       (map_option str_trim (Option.bind (get ''authorization'') (str_strip_prefix ''Bearer '')))"

lemma principal_uid:
  assumes "principal_api_ok api" and "principal_from_headers api check get = Inr p"
  shows "pi_uid api p = unwrap_or DEFAULT_PRINCIPAL (get ''x-hydrofoil-principal'')"
  using assms
  by (auto simp: principal_from_headers_def principal_api_ok_def Let_def try_bind_Inr_iff
      split: option.splits)

section \<open>Agent context\<close>

record agent_context =
  agent_id :: "string option"
  agent_session :: "string option"
  agent_task :: "string option"
  agent_purpose :: "string option"

definition agent_is_empty :: "agent_context \<Rightarrow> bool" where
  "agent_is_empty a \<longleftrightarrow>
     agent_id a = None \<and> agent_session a = None \<and> agent_task a = None \<and> agent_purpose a = None"

definition agent_context_from_metadata :: "headers \<Rightarrow> agent_context option" where
  "agent_context_from_metadata get =
     (let ctx = \<lparr>agent_id = get ''x-hydrofoil-agent-id'', agent_session = get ''x-hydrofoil-agent-session'',
                 agent_task = get ''x-hydrofoil-agent-task'', agent_purpose = get ''x-hydrofoil-agent-purpose''\<rparr>
      in if agent_is_empty ctx then None else Some ctx)"

section \<open>The configured identity provider\<close>

record user_facts =
  uf_attributes :: "(string \<times> string) list"
  uf_groups :: "string list"

record config_identity_provider =
  cp_users :: "(string \<times> user_facts) list"
  cp_groups :: "(string \<times> string list) list"

definition group_parents :: "config_identity_provider \<Rightarrow> string \<Rightarrow> string list" where
  "group_parents cp uid = unwrap_or [] (map_of (cp_groups cp) uid)"

definition group_node :: "config_identity_provider \<Rightarrow> string \<Rightarrow> group" where
  "group_node cp uid = \<lparr>gr_uid = uid, gr_parents = group_parents cp uid\<rparr>"

text \<open>
  The walk up the hierarchy. The frontier is a vector used as a stack, here with its end as the head
  of the list, so the parents are pushed in order and the last one is popped first.
\<close>

definition known_groups :: "config_identity_provider \<Rightarrow> string set" where
  "known_groups cp = (\<Union>ps \<in> snd ` set (cp_groups cp). set ps)"

lemma finite_known_groups [simp]: "finite (known_groups cp)"
  by (simp add: known_groups_def)

lemma group_parents_known: "set (group_parents cp g) \<subseteq> known_groups cp"
proof (cases "map_of (cp_groups cp) g")
  case (Some ps)
  with map_of_SomeD [OF this] show ?thesis by (force simp: group_parents_def known_groups_def)
qed (simp add: group_parents_def)

function enrich_walk ::
  "config_identity_provider \<Rightarrow> string set \<Rightarrow> string list \<Rightarrow> group list" where
  "enrich_walk cp seen [] = []"
| "enrich_walk cp seen (g # frontier) =
     (if g \<in> seen then enrich_walk cp seen frontier
      else group_node cp g # enrich_walk cp (insert g seen) (rev (group_parents cp g) @ frontier))"
  by pat_completeness auto
termination
proof (relation "measures [\<lambda>(cp, seen, fr). card ((known_groups cp \<union> set fr) - seen),
    \<lambda>(cp, seen, fr). length fr]")
  fix cp :: config_identity_provider and seen :: "string set" and g :: string and frontier :: "string list"
  assume "g \<in> seen"
  then have "(known_groups cp \<union> set (g # frontier)) - seen = (known_groups cp \<union> set frontier) - seen"
    by auto
  then show "((cp, seen, frontier), (cp, seen, g # frontier)) \<in> measures
      [\<lambda>(cp, seen, fr). card ((known_groups cp \<union> set fr) - seen), \<lambda>(cp, seen, fr). length fr]"
    by simp
next
  fix cp :: config_identity_provider and seen :: "string set" and g :: string and frontier :: "string list"
  assume g: "g \<notin> seen"
  let ?new = "(known_groups cp \<union> set (rev (group_parents cp g) @ frontier)) - insert g seen"
  have "?new \<subset> (known_groups cp \<union> set (g # frontier)) - seen"
    using g group_parents_known [of cp g] by auto
  then have "card ?new < card ((known_groups cp \<union> set (g # frontier)) - seen)"
    by (intro psubset_card_mono) simp_all
  then show "((cp, insert g seen, rev (group_parents cp g) @ frontier), (cp, seen, g # frontier))
      \<in> measures [\<lambda>(cp, seen, fr). card ((known_groups cp \<union> set fr) - seen), \<lambda>(cp, seen, fr). length fr]"
    by simp
qed simp

definition config_enrich :: "config_identity_provider \<Rightarrow> string \<Rightarrow> enrichment" where
  "config_enrich cp uid =
     (case map_of (cp_users cp) uid of
        None \<Rightarrow> no_enrichment
      | Some user \<Rightarrow>
          \<lparr>en_attributes = uf_attributes user, en_groups = uf_groups user,
           en_group_hierarchy = enrich_walk cp {} (rev (uf_groups user))\<rparr>)"

definition quoted :: "string \<Rightarrow> string \<Rightarrow> string" where
  "quoted kind name = kind @ ''::'' @ [CHR 0x22] @ name @ [CHR 0x22]"

definition default_identity_provider :: config_identity_provider where
  "default_identity_provider =
     \<lparr>cp_users =
        [(quoted ''User'' ''alice'', \<lparr>uf_attributes = [(''region'', ''eu'')],
            uf_groups = [quoted ''UserGroup'' ''privileged_readers'']\<rparr>),
         (quoted ''User'' ''bob'', \<lparr>uf_attributes = [(''region'', ''us'')],
            uf_groups = [quoted ''UserGroup'' ''readers'']\<rparr>),
         (quoted ''Agent'' ''r2d2'', \<lparr>uf_attributes = [],
            uf_groups = [quoted ''UserGroup'' ''readers'']\<rparr>)],
      cp_groups =
        [(quoted ''UserGroup'' ''privileged_readers'', [quoted ''UserGroup'' ''readers'']),
         (quoted ''UserGroup'' ''readers'', [])]\<rparr>"

section \<open>The hierarchy is the closure of the user's groups\<close>

definition member_of :: "config_identity_provider \<Rightarrow> (string \<times> string) set" where
  "member_of cp = {(g, h). h \<in> set (group_parents cp g)}"

text \<open>What is reachable from a set by parents, without going through \<^verbatim>\<open>seen\<close>.\<close>

inductive reach :: "config_identity_provider \<Rightarrow> string set \<Rightarrow> string set \<Rightarrow> string \<Rightarrow> bool"
  for cp seen starts where
  start: "g \<in> starts \<Longrightarrow> g \<notin> seen \<Longrightarrow> reach cp seen starts g"
| step: "reach cp seen starts g \<Longrightarrow> h \<in> set (group_parents cp g) \<Longrightarrow> h \<notin> seen \<Longrightarrow> reach cp seen starts h"

lemma reach_not_seen: "reach cp seen starts g \<Longrightarrow> g \<notin> seen"
  by (induction rule: reach.induct) auto

lemma reach_skip: "g \<in> seen \<Longrightarrow> reach cp seen (insert g starts) = reach cp seen starts"
proof (intro ext iffI)
  fix x
  assume g: "g \<in> seen"
  show "reach cp seen (insert g starts) x \<Longrightarrow> reach cp seen starts x"
    by (induction rule: reach.induct) (use g in \<open>auto intro: reach.intros\<close>)
  show "reach cp seen starts x \<Longrightarrow> reach cp seen (insert g starts) x"
    by (induction rule: reach.induct) (auto intro: reach.intros)
qed

lemma reach_visit:
  assumes "g \<notin> seen"
  shows "reach cp seen (insert g starts) x \<longleftrightarrow>
    x = g \<or> reach cp (insert g seen) (set (group_parents cp g) \<union> starts) x"
proof
  show "reach cp seen (insert g starts) x \<Longrightarrow>
      x = g \<or> reach cp (insert g seen) (set (group_parents cp g) \<union> starts) x"
    by (induction rule: reach.induct) (auto intro: reach.intros)
next
  have g: "reach cp seen (insert g starts) g" using assms by (auto intro: reach.start)
  have "reach cp (insert g seen) (set (group_parents cp g) \<union> starts) x \<Longrightarrow>
      reach cp seen (insert g starts) x"
  proof (induction rule: reach.induct)
    case (start y)
    then show ?case using g by (auto intro: reach.intros)
  next
    case (step y z)
    then show ?case by (auto intro: reach.step)
  qed
  with g show "x = g \<or> reach cp (insert g seen) (set (group_parents cp g) \<union> starts) x \<Longrightarrow>
      reach cp seen (insert g starts) x" by auto
qed

lemma enrich_walk_uids:
  "gr_uid ` set (enrich_walk cp seen frontier) = {g. reach cp seen (set frontier) g}"
proof (induction cp seen frontier rule: enrich_walk.induct)
  case (1 cp seen)
  have "\<not> reach cp seen {} g" for g
  proof
    show "reach cp seen {} g \<Longrightarrow> False" by (induction rule: reach.induct) auto
  qed
  then show ?case by simp
next
  case (2 cp seen g frontier)
  show ?case
  proof (cases "g \<in> seen")
    case True
    with 2 show ?thesis by (simp add: reach_skip)
  next
    case False
    with 2 reach_visit [OF False, of cp "set frontier"] show ?thesis
      by (auto simp: group_node_def)
  qed
qed

lemma enrich_walk_distinct:
  "distinct (map gr_uid (enrich_walk cp seen frontier))"
proof (induction cp seen frontier rule: enrich_walk.induct)
  case (2 cp seen g frontier)
  show ?case
  proof (cases "g \<in> seen")
    case False
    have "g \<notin> gr_uid ` set (enrich_walk cp (insert g seen) (rev (group_parents cp g) @ frontier))"
      using reach_not_seen [of cp "insert g seen" _ g] by (auto simp: enrich_walk_uids)
    with False 2 show ?thesis by (simp add: group_node_def)
  qed (use 2 in simp)
qed simp

lemma reach_rtrancl: "reach cp {} starts g \<longleftrightarrow> (\<exists>s \<in> starts. (s, g) \<in> (member_of cp)\<^sup>*)"
proof
  show "reach cp {} starts g \<Longrightarrow> \<exists>s \<in> starts. (s, g) \<in> (member_of cp)\<^sup>*"
    by (induction rule: reach.induct)
      (auto simp: member_of_def intro: rtrancl_into_rtrancl)
next
  assume "\<exists>s \<in> starts. (s, g) \<in> (member_of cp)\<^sup>*"
  then obtain s where s: "s \<in> starts" and r: "(s, g) \<in> (member_of cp)\<^sup>*" by blast
  from r show "reach cp {} starts g"
    by (induction rule: rtrancl_induct) (use s in \<open>auto simp: member_of_def intro: reach.intros\<close>)
qed

lemma config_enrich_closure:
  assumes "map_of (cp_users cp) uid = Some user"
  shows "gr_uid ` set (en_group_hierarchy (config_enrich cp uid))
      = {g. \<exists>s \<in> set (uf_groups user). (s, g) \<in> (member_of cp)\<^sup>*}"
    and "distinct (map gr_uid (en_group_hierarchy (config_enrich cp uid)))"
  using assms
  by (simp_all add: config_enrich_def enrich_walk_uids enrich_walk_distinct reach_rtrancl)

end
