(* ===== verification/Lineage.thy ===== *)
theory Lineage
  imports Identity
begin

unbundle bit_operations_syntax

text \<open>
  \<^verbatim>\<open>crates/hydrofoil/src/lineage.rs\<close>: the OpenLineage context of a request (parent run, job namespace, job
  facets), the job name of a statement, and the context of one execution of a stored statement. The
  structs of the lineage crate are records with the fields the code sets; a facet is the data the code
  serialises. A UUID is known by its text. White space is that of ASCII.
\<close>

section \<open>Facets and contexts\<close>

record job_ref =
  jr_run_id :: string
  jr_namespace :: string
  jr_name :: string

record parent_run_facet =
  pf_producer :: string
  pf_run :: job_ref
  pf_root :: "job_ref option"

record tag_field =
  tf_key :: string
  tf_value :: "string option"
  tf_source :: "string option"

record owner =
  ow_name :: string
  ow_type :: "string option"

datatype facet =
    Documentation string string
  | Tags string "tag_field list"
  | Ownership string "owner list"
  | Hydrofoil string "string option" "agent_context option"

record lineage_context =
  lc_parent_run :: "parent_run_facet option"
  lc_job_namespace :: "string option"
  lc_job_name :: "string option"
  lc_job_facets :: "string \<rightharpoonup> facet"
  lc_run_facets :: "string \<rightharpoonup> facet"
  lc_run_id :: "string option"
  lc_sql :: "string option"

record lineage_config =
  lcfg_producer :: string
  lcfg_job_namespace :: string

definition three :: "'a option \<Rightarrow> 'b option \<Rightarrow> 'c option \<Rightarrow> ('a \<times> 'b \<times> 'c) option" where
  "three a b c =
     (case (a, b, c) of (Some x, Some y, Some z) \<Rightarrow> Some (x, y, z) | _ \<Rightarrow> None)"

section \<open>Job facets\<close>

text \<open>\<^verbatim>\<open>str::splitn\<close>.\<close>

fun str_splitn :: "nat \<Rightarrow> char \<Rightarrow> string \<Rightarrow> string list" where
  "str_splitn 0 c s = []"
| "str_splitn (Suc 0) c s = [s]"
| "str_splitn (Suc (Suc n)) c s =
     (case str_split_once c s of None \<Rightarrow> [s] | Some (a, b) \<Rightarrow> a # str_splitn (Suc n) c b)"

definition nonempty :: "string option \<Rightarrow> string option" where
  "nonempty = option_filter (\<lambda>s. s \<noteq> [])"

definition nth_part :: "nat \<Rightarrow> string list \<Rightarrow> string option" where
  "nth_part i parts = (if i < length parts then Some (parts ! i) else None)"

definition header_text :: "headers \<Rightarrow> string \<Rightarrow> string option" where
  "header_text get key = nonempty (map_option str_trim (get key))"

definition parse_tag_entry :: "string \<Rightarrow> tag_field option" where
  "parse_tag_entry entry =
     (let parts = map str_trim (str_splitn 3 CHR '':'' entry) in
      case nonempty (nth_part 0 parts) of
        None \<Rightarrow> None
      | Some key \<Rightarrow> Some \<lparr>tf_key = key, tf_value = nonempty (nth_part 1 parts),
                         tf_source = nonempty (nth_part 2 parts)\<rparr>)"

definition parse_owner_entry :: "string \<Rightarrow> owner option" where
  "parse_owner_entry entry =
     (let parts = map str_trim (str_splitn 2 CHR '':'' entry) in
      case nonempty (nth_part 0 parts) of
        None \<Rightarrow> None
      | Some first \<Rightarrow>
          (case nonempty (nth_part 1 parts) of
             Some name \<Rightarrow> Some \<lparr>ow_name = name, ow_type = Some first\<rparr>
           | None \<Rightarrow> Some \<lparr>ow_name = first, ow_type = None\<rparr>))"

definition job_facets_from_metadata :: "headers \<Rightarrow> lineage_config \<Rightarrow> string \<rightharpoonup> facet" where
  "job_facets_from_metadata get config =
     (let f0 = Map.empty;
          f1 = (case header_text get ''x-openlineage-job-description'' of
                  Some d \<Rightarrow> f0(''documentation'' \<mapsto> Documentation (lcfg_producer config) d)
                | None \<Rightarrow> f0);
          f2 = (case header_text get ''x-openlineage-job-tags'' of
                  Some raw \<Rightarrow>
                    (let tags = List.map_filter parse_tag_entry (str_split CHR '';'' raw) in
                     if tags \<noteq> [] then f1(''tags'' \<mapsto> Tags (lcfg_producer config) tags) else f1)
                | None \<Rightarrow> f1);
          f3 = (case header_text get ''x-openlineage-job-owners'' of
                  Some raw \<Rightarrow>
                    (let owners = List.map_filter parse_owner_entry (str_split CHR '';'' raw) in
                     if owners \<noteq> [] then f2(''ownership'' \<mapsto> Ownership (lcfg_producer config) owners)
                     else f2)
                | None \<Rightarrow> f2)
      in f3)"

section \<open>The context of a request\<close>

definition root_from_headers :: "headers \<Rightarrow> job_ref option" where
  "root_from_headers get =
     map_option (\<lambda>(r, ns, n). \<lparr>jr_run_id = r, jr_namespace = ns, jr_name = n\<rparr>)
       (three (get ''x-openlineage-root-parent-run-id'') (get ''x-openlineage-root-parent-job-namespace'')
          (get ''x-openlineage-root-parent-job-name''))"

definition context_from_metadata :: "headers \<Rightarrow> lineage_config \<Rightarrow> lineage_context" where
  "context_from_metadata get config =
     \<lparr>lc_parent_run =
        map_option (\<lambda>(r, ns, n).
            \<lparr>pf_producer = lcfg_producer config,
             pf_run = \<lparr>jr_run_id = r, jr_namespace = ns, jr_name = n\<rparr>, pf_root = root_from_headers get\<rparr>)
          (three (get ''x-openlineage-parent-run-id'') (get ''x-openlineage-parent-job-namespace'')
             (get ''x-openlineage-parent-job-name'')),
      lc_job_namespace =
        option_filter (\<lambda>ns. str_trim ns \<noteq> []) (get ''x-openlineage-job-namespace''),
      lc_job_name = None, lc_job_facets = job_facets_from_metadata get config,
      lc_run_facets = Map.empty, lc_run_id = None, lc_sql = None\<rparr>"

definition hydrofoil_run_facet ::
  "string option \<Rightarrow> agent_context option \<Rightarrow> lineage_config \<Rightarrow> facet option" where
  "hydrofoil_run_facet principal_uid agent config =
     (let principal = option_filter (\<lambda>uid. uid \<noteq> DEFAULT_PRINCIPAL) principal_uid in
      if principal = None \<and> agent = None then None
      else Some (Hydrofoil (lcfg_producer config) principal agent))"

section \<open>Job names\<close>

fun split_on :: "(char \<Rightarrow> bool) \<Rightarrow> string \<Rightarrow> string list" where
  "split_on P [] = [[]]"
| "split_on P (x # xs) =
     (if P x then [] # split_on P xs
      else (case split_on P xs of [] \<Rightarrow> [[x]] | w # ws \<Rightarrow> (x # w) # ws))"

definition split_whitespace :: "string \<Rightarrow> string list" where
  "split_whitespace s = filter (\<lambda>w. w \<noteq> []) (split_on is_space s)"

definition normalize_whitespace :: "string \<Rightarrow> string" where
  "normalize_whitespace s = str_join [CHR '' ''] (split_whitespace s)"

definition fnv1a_64 :: "string \<Rightarrow> 64 word" where
  "fnv1a_64 bytes = fold (\<lambda>b hash. (hash XOR of_char b) * 0x00000100000001b3) bytes 0xcbf29ce484222325"

definition hex16 :: "64 word \<Rightarrow> string" where
  "hex16 w = map (\<lambda>i. hex_digit (unat (drop_bit (4 * (15 - i)) w AND 0xF))) [0..<16]"

definition job_name_from_sql :: "string \<Rightarrow> string" where
  "job_name_from_sql sql = ''query-'' @ take 12 (hex16 (fnv1a_64 (normalize_whitespace sql)))"

definition job_name_from_metadata :: "headers \<Rightarrow> string \<Rightarrow> string" where
  "job_name_from_metadata get sql =
     unwrap_or (job_name_from_sql sql) (header_text get ''x-openlineage-job-name'')"

section \<open>The context of an execution\<close>

text \<open>\<^verbatim>\<open>fresh\<close> is the UUID minted for the execution.\<close>

definition execution_context :: "string \<Rightarrow> lineage_context \<Rightarrow> lineage_config \<Rightarrow> lineage_context" where
  "execution_context fresh planning config =
     (let cx = planning\<lparr>lc_run_id := Some fresh\<rparr> in
      case lc_run_id planning of
        None \<Rightarrow> cx
      | Some planning_run \<Rightarrow>
          cx\<lparr>lc_parent_run := Some
               \<lparr>pf_producer = lcfg_producer config,
                pf_run = \<lparr>jr_run_id = planning_run,
                          jr_namespace = unwrap_or (lcfg_job_namespace config) (lc_job_namespace planning),
                          jr_name = unwrap_or ''datafusion_query'' (lc_job_name planning)\<rparr>,
                pf_root = map_option pf_run (lc_parent_run planning)\<rparr>\<rparr>)"

text \<open>\<^verbatim>\<open>FlightSqlServiceImpl::lineage_context\<close>: the context of a planning request.\<close>

definition request_lineage ::
  "headers \<Rightarrow> lineage_config \<Rightarrow> string \<Rightarrow> string option \<Rightarrow> string \<Rightarrow> agent_context option
    \<Rightarrow> lineage_context" where
  "request_lineage get config run_id sql principal_uid agent =
     (let ctx = (context_from_metadata get config)
            \<lparr>lc_run_id := Some run_id, lc_job_name := map_option (job_name_from_metadata get) sql,
             lc_sql := sql\<rparr>
      in case hydrofoil_run_facet (Some principal_uid) agent config of
           Some f \<Rightarrow> ctx\<lparr>lc_run_facets := (lc_run_facets ctx)(''hydrofoil'' \<mapsto> f)\<rparr>
         | None \<Rightarrow> ctx)"

section \<open>Facts\<close>

lemma execution_context_identity [simp]:
  "lc_run_id (execution_context fresh pl config) = Some fresh"
  "lc_job_name (execution_context fresh pl config) = lc_job_name pl"
  "lc_job_namespace (execution_context fresh pl config) = lc_job_namespace pl"
  "lc_sql (execution_context fresh pl config) = lc_sql pl"
  "lc_job_facets (execution_context fresh pl config) = lc_job_facets pl"
  "lc_run_facets (execution_context fresh pl config) = lc_run_facets pl"
  by (simp_all add: execution_context_def Let_def split: option.split)

lemma execution_context_parent:
  "lc_run_id pl = Some r \<Longrightarrow> \<exists>p. lc_parent_run (execution_context fresh pl config) = Some p \<and>
     jr_run_id (pf_run p) = r \<and> pf_root p = map_option pf_run (lc_parent_run pl)"
  by (simp add: execution_context_def)

text \<open>Of a planning context's parent facet only the run and the job reach an execution.\<close>

lemma execution_context_drops_root:
  "execution_context fresh (pl\<lparr>lc_parent_run := Some (p\<lparr>pf_root := r\<rparr>), lc_run_id := Some run\<rparr>) config
     = execution_context fresh (pl\<lparr>lc_parent_run := Some (p\<lparr>pf_root := r'\<rparr>), lc_run_id := Some run\<rparr>) config"
  by (simp add: execution_context_def)

lemma split_on_nonempty [simp]: "split_on P s \<noteq> []"
  by (induction s) (auto split: list.splits)

lemma split_on_append: "P c \<Longrightarrow> split_on P (a @ c # b) = split_on P a @ split_on P b"
  by (induction a) (auto split: list.splits)

lemma split_on_plain: "\<forall>c \<in> set w. \<not> P c \<Longrightarrow> split_on P w = [w]"
  by (induction w) auto

lemma split_on_no_sep: "w \<in> set (split_on P s) \<Longrightarrow> \<forall>c \<in> set w. \<not> P c"
  by (induction s arbitrary: w) (force split: if_splits list.splits)+

lemma split_whitespace_words: "w \<in> set (split_whitespace s) \<Longrightarrow> w \<noteq> [] \<and> (\<forall>c \<in> set w. \<not> is_space c)"
  by (auto simp: split_whitespace_def dest: split_on_no_sep)

lemma is_space_space [simp]: "is_space (CHR '' '')"
  by (simp add: is_space_def)

lemma split_whitespace_join:
  "\<forall>w \<in> set ws. w \<noteq> [] \<and> (\<forall>c \<in> set w. \<not> is_space c) \<Longrightarrow> split_whitespace (str_join [CHR '' ''] ws) = ws"
proof (induction "[CHR '' '']" ws rule: str_join.induct)
  case (3 w v ws)
  then show ?case
    by (simp add: split_whitespace_def split_on_append split_on_plain)
qed (simp_all add: split_whitespace_def split_on_plain)

lemma split_normalize [simp]: "split_whitespace (normalize_whitespace s) = split_whitespace s"
  using split_whitespace_words [of _ s] by (simp add: normalize_whitespace_def split_whitespace_join)

lemma normalize_idem [simp]: "normalize_whitespace (normalize_whitespace s) = normalize_whitespace s"
  by (simp add: normalize_whitespace_def [of "normalize_whitespace s"])
    (simp add: normalize_whitespace_def)

text \<open>Two statements get one job name when they have the same words, and the name is well formed.\<close>

lemma job_name_same_words:
  "split_whitespace s = split_whitespace t \<Longrightarrow> job_name_from_sql s = job_name_from_sql t"
  by (simp add: job_name_from_sql_def normalize_whitespace_def)

lemma hex_digit_hex: "n < 16 \<Longrightarrow> hex_digit n \<in> set ''0123456789abcdef''"
proof -
  assume "n < 16"
  then have "n \<in> set [0..<16]" by simp
  moreover have "\<forall>n \<in> set [0..<16]. hex_digit n \<in> set ''0123456789abcdef''" by code_simp
  ultimately show ?thesis by blast
qed

lemma hex16_digits: "c \<in> set (hex16 w) \<Longrightarrow> c \<in> set ''0123456789abcdef''"
proof -
  have "unat (x AND 0xF) < 16" for x :: "64 word"
    using word_and_le1 [of x "0xF"] by (simp add: word_le_nat_alt)
  then show "c \<in> set (hex16 w) \<Longrightarrow> c \<in> set ''0123456789abcdef''"
    unfolding hex16_def using hex_digit_hex by force
qed

lemma length_hex16 [simp]: "length (hex16 w) = 16"
  by (simp add: hex16_def)

lemma job_name_shape:
  "\<exists>h. job_name_from_sql sql = ''query-'' @ h \<and> length h = 12 \<and> set h \<subseteq> set ''0123456789abcdef''"
  using hex16_digits by (fastforce simp: job_name_from_sql_def dest: in_set_takeD)

end
