(* ===== verification/Session_Engine.thy ===== *)
theory Session_Engine
  imports Lineage
begin

text \<open>
  \<^verbatim>\<open>crates/hydrofoil/src/engine.rs\<close>: the engine, the sessions and the session store. A session lives
  behind an \<^verbatim>\<open>Arc\<close>: the store's map holds addresses into a heap of sessions, so a handler that still
  holds an evicted session keeps it. \<^verbatim>\<open>DashMap\<close>s are maps, an \<^verbatim>\<open>Instant\<close> is a number of milliseconds.
  Parameters: the principal type, the Unity Catalog factory \<^verbatim>\<open>'f\<close> and its builder, plans \<^verbatim>\<open>'pl\<close>, and the
  hasher of the standard library. \<^verbatim>\<open>create_session_for\<close> is known by its error or by the fresh runtime
  it returns.
\<close>

section \<open>State\<close>

record 'pl stored_statement =
  ss_plan :: 'pl
  ss_lineage :: lineage_context
  ss_created_at :: nat

record ('p, 'f, 'pl) session =
  se_correlation_id :: string
  se_principal :: 'p
  se_unity :: "'f option"
  se_statements :: "string \<rightharpoonup> 'pl stored_statement"
  se_created_at :: nat
  se_last_used_ms :: nat

record ('p, 'f) engine =
  eg_principals :: "'p principal_api"
  eg_unity_factory :: "'f option"
  eg_unity_endpoint :: "string option"
  eg_unity_region :: "string option"
  eg_build_factory :: "string \<Rightarrow> string option \<Rightarrow> string \<Rightarrow> string + 'f"
  eg_identity :: "string \<Rightarrow> string + enrichment"
  eg_enrichment_cache :: "string \<rightharpoonup> enrichment"

record ('p, 'f, 'pl) session_store =
  sst_engine :: "('p, 'f) engine"
  sst_sessions :: "string \<rightharpoonup> nat"
  sst_heap :: "nat \<Rightarrow> ('p, 'f, 'pl) session"
  sst_next :: nat
  sst_ttl :: nat

text \<open>What a call reads from outside: the clock, two UUIDs, and whether the context could be built.\<close>

record call_env =
  ce_now :: nat
  ce_session_uuid :: string
  ce_store_uuid :: string
  ce_ctx_error :: "string option"

section \<open>The engine\<close>

definition new_engine ::
  "'p principal_api \<Rightarrow> (string \<Rightarrow> string option \<Rightarrow> string \<Rightarrow> string + 'f) \<Rightarrow> 'f option \<Rightarrow> ('p, 'f) engine"
where
  "new_engine api build unity_factory =
     \<lparr>eg_principals = api, eg_unity_factory = unity_factory, eg_unity_endpoint = None,
      eg_unity_region = None, eg_build_factory = build, eg_identity = (\<lambda>_. Inr no_enrichment),
      eg_enrichment_cache = Map.empty\<rparr>"

definition with_unity_config ::
  "string option \<Rightarrow> string option \<Rightarrow> ('p, 'f) engine \<Rightarrow> ('p, 'f) engine" where
  "with_unity_config endpoint region e =
     e\<lparr>eg_unity_endpoint := nonempty endpoint, eg_unity_region := nonempty region\<rparr>"

definition with_identity_provider ::
  "(string \<Rightarrow> string + enrichment) \<Rightarrow> ('p, 'f) engine \<Rightarrow> ('p, 'f) engine" where
  "with_identity_provider identity e = e\<lparr>eg_identity := identity\<rparr>"

definition engine_enrich :: "'p \<Rightarrow> ('p, 'f) engine \<Rightarrow> (string + 'p) \<times> ('p, 'f) engine" where
  "engine_enrich who e =
     (let api = eg_principals e; key = pi_uid api who in
      case eg_enrichment_cache e key of
        Some cached \<Rightarrow> (Inr (pi_enriched api cached who), e)
      | None \<Rightarrow>
          (case eg_identity e key of
             Inl err \<Rightarrow> (Inl err, e)
           | Inr enrichment \<Rightarrow>
               (Inr (pi_enriched api enrichment who),
                e\<lparr>eg_enrichment_cache := (eg_enrichment_cache e)(key \<mapsto> enrichment)\<rparr>)))"

definition unity_factory_for :: "string option \<Rightarrow> ('p, 'f) engine \<Rightarrow> string + 'f option" where
  "unity_factory_for uc_token e =
     (case (uc_token, eg_unity_endpoint e) of
        (Some token, Some endpoint) \<Rightarrow>
          map_ok Some (eg_build_factory e endpoint (eg_unity_region e) token)
      | _ \<Rightarrow> Inr (eg_unity_factory e))"

definition new_session ::
  "call_env \<Rightarrow> 'p \<Rightarrow> string option \<Rightarrow> ('p, 'f) engine \<Rightarrow> string + ('p, 'f, 'pl) session" where
  "new_session env who uc_token e =
     try_bind (unity_factory_for uc_token e) (\<lambda>factory.
       case ce_ctx_error env of
         Some err \<Rightarrow> Inl err
       | None \<Rightarrow>
           Inr \<lparr>se_correlation_id = ce_session_uuid env, se_principal = who, se_unity = factory,
                se_statements = Map.empty, se_created_at = ce_now env, se_last_used_ms = 0\<rparr>)"

section \<open>A session\<close>

definition session_touch :: "nat \<Rightarrow> ('p, 'f, 'pl) session \<Rightarrow> ('p, 'f, 'pl) session" where
  "session_touch now s = s\<lparr>se_last_used_ms := now - se_created_at s\<rparr>"

definition session_idle :: "nat \<Rightarrow> ('p, 'f, 'pl) session \<Rightarrow> nat" where
  "session_idle now s = (now - se_created_at s) - se_last_used_ms s"

definition sweep_statements :: "nat \<Rightarrow> nat \<Rightarrow> ('p, 'f, 'pl) session \<Rightarrow> ('p, 'f, 'pl) session" where
  "sweep_statements now ttl s =
     s\<lparr>se_statements := (\<lambda>h. option_filter (\<lambda>st. now - ss_created_at st < ttl) (se_statements s h))\<rparr>"

section \<open>The session store\<close>

definition uc_token_fingerprint :: "(string \<Rightarrow> 64 word) \<Rightarrow> string option \<Rightarrow> string" where
  "uc_token_fingerprint hash uc_token =
     (case uc_token of None \<Rightarrow> ''shared'' | Some token \<Rightarrow> hex16 (hash token))"

definition ephemeral_key ::
  "'p principal_api \<Rightarrow> (string \<Rightarrow> 64 word) \<Rightarrow> 'p \<Rightarrow> string option \<Rightarrow> string" where
  "ephemeral_key api hash who uc_token =
     ''ephemeral:'' @ pi_uid api who @ '':'' @ uc_token_fingerprint hash uc_token"

definition new_store :: "('p, 'f) engine \<Rightarrow> nat \<Rightarrow> (nat \<Rightarrow> ('p, 'f, 'pl) session) \<Rightarrow> ('p, 'f, 'pl) session_store"
where
  "new_store e ttl blank =
     \<lparr>sst_engine = e, sst_sessions = Map.empty, sst_heap = blank, sst_next = 0, sst_ttl = ttl\<rparr>"

definition upd_session ::
  "nat \<Rightarrow> (('p, 'f, 'pl) session \<Rightarrow> ('p, 'f, 'pl) session) \<Rightarrow> ('p, 'f, 'pl) session_store
    \<Rightarrow> ('p, 'f, 'pl) session_store" where
  "upd_session a f st = st\<lparr>sst_heap := (sst_heap st)(a := f (sst_heap st a))\<rparr>"

definition store_enrich :: "'p \<Rightarrow> ('p, 'f, 'pl) session_store \<Rightarrow> (string + 'p) \<times> ('p, 'f, 'pl) session_store"
where
  "store_enrich who st =
     (let (r, e) = engine_enrich who (sst_engine st) in (r, st\<lparr>sst_engine := e\<rparr>))"

text \<open>\<^verbatim>\<open>Arc::new\<close> of a session, then its insertion under a key.\<close>

definition store_insert ::
  "string \<Rightarrow> ('p, 'f, 'pl) session \<Rightarrow> ('p, 'f, 'pl) session_store \<Rightarrow> nat \<times> ('p, 'f, 'pl) session_store"
where
  "store_insert key s st =
     (sst_next st,
      st\<lparr>sst_sessions := (sst_sessions st)(key \<mapsto> sst_next st),
         sst_heap := (sst_heap st)(sst_next st := s), sst_next := Suc (sst_next st)\<rparr>)"

definition store_create ::
  "call_env \<Rightarrow> 'p \<Rightarrow> string option \<Rightarrow> ('p, 'f, 'pl) session_store
    \<Rightarrow> (string + string \<times> nat) \<times> ('p, 'f, 'pl) session_store" where
  "store_create env who uc_token st =
     (case new_session env who uc_token (sst_engine st) of
        Inl err \<Rightarrow> (Inl err, st)
      | Inr s \<Rightarrow> (let (a, st') = store_insert (ce_store_uuid env) s st
                 in (Inr (ce_store_uuid env, a), st')))"

definition store_get ::
  "nat \<Rightarrow> string \<Rightarrow> ('p, 'f, 'pl) session_store \<Rightarrow> nat option \<times> ('p, 'f, 'pl) session_store" where
  "store_get now sid st =
     (case sst_sessions st sid of
        None \<Rightarrow> (None, st)
      | Some a \<Rightarrow> (Some a, upd_session a (session_touch now) st))"

text \<open>\<^verbatim>\<open>entry(key).or_insert(session)\<close>, then the touch: the second half of \<^verbatim>\<open>ephemeral_for\<close>.\<close>

definition ephemeral_insert ::
  "nat \<Rightarrow> string \<Rightarrow> ('p, 'f, 'pl) session \<Rightarrow> ('p, 'f, 'pl) session_store
    \<Rightarrow> nat \<times> ('p, 'f, 'pl) session_store" where
  "ephemeral_insert now key s st =
     (case sst_sessions st key of
        Some a \<Rightarrow> (a, upd_session a (session_touch now) st)
      | None \<Rightarrow> (let (a, st') = store_insert key s st in (a, upd_session a (session_touch now) st')))"

definition ephemeral_for ::
  "(string \<Rightarrow> 64 word) \<Rightarrow> call_env \<Rightarrow> 'p \<Rightarrow> string option \<Rightarrow> ('p, 'f, 'pl) session_store
    \<Rightarrow> (string + nat) \<times> ('p, 'f, 'pl) session_store" where
  "ephemeral_for hash env who uc_token st =
     (let key = ephemeral_key (eg_principals (sst_engine st)) hash who uc_token in
      case store_get (ce_now env) key st of
        (Some a, st') \<Rightarrow> (Inr a, st')
      | (None, st') \<Rightarrow>
          (case new_session env who uc_token (sst_engine st') of
             Inl err \<Rightarrow> (Inl err, st')
           | Inr s \<Rightarrow> (let (a, st'') = ephemeral_insert (ce_now env) key s st' in (Inr a, st''))))"

definition store_sweep :: "nat \<Rightarrow> ('p, 'f, 'pl) session_store \<Rightarrow> ('p, 'f, 'pl) session_store" where
  "store_sweep now st =
     (let live = (\<lambda>k. option_filter (\<lambda>a. session_idle now (sst_heap st a) < sst_ttl st) (sst_sessions st k))
      in st\<lparr>sst_sessions := live,
            sst_heap := (\<lambda>a. if a \<in> ran live then sweep_statements now (sst_ttl st) (sst_heap st a)
                             else sst_heap st a)\<rparr>)"

definition sweeper_interval :: "nat \<Rightarrow> nat" where
  "sweeper_interval ttl = max (ttl div 4) 30000"

end
