(* ===== verification/Flight_Server.thy ===== *)
theory Flight_Server
  imports Session_Engine
begin

text \<open>
  \<^verbatim>\<open>crates/hydrofoil/src/server.rs\<close>: which session a request runs in, and the life of a statement from
  its planning to its execution. Planning, plan verification and execution (DataFusion, Arrow Flight)
  are parameters; a response is the part of it that depends on the server's state. \<^verbatim>\<open>fe_update\<close> runs a
  plan: its first error is that of \<^verbatim>\<open>execute_logical_plan\<close>, its second that of \<^verbatim>\<open>collect\<close>.
\<close>

section \<open>Statuses\<close>

datatype status =
    Status_internal string
  | Status_invalid_argument string
  | Status_unimplemented string

text \<open>The \<^verbatim>\<open>status!\<close> macro; \<^verbatim>\<open>loc\<close> is its \<^verbatim>\<open>file!():line!()\<close>.\<close>

definition status_at :: "string \<Rightarrow> string \<Rightarrow> string \<Rightarrow> status" where
  "status_at desc loc err = Status_internal (desc @ '': '' @ err @ '' at '' @ loc)"

section \<open>The session of a request\<close>

definition cookie_session_id :: "string \<Rightarrow> string option" where
  "cookie_session_id cookie =
     (case List.map_filter (\<lambda>part. str_strip_prefix ''session_id='' (str_trim part)) (str_split CHR '';'' cookie) of
        [] \<Rightarrow> None
      | val # _ \<Rightarrow> Some val)"

definition session_id_from_metadata :: "headers \<Rightarrow> string option" where
  "session_id_from_metadata get =
     (case get ''x-session-id'' of
        Some sid \<Rightarrow> Some sid
      | None \<Rightarrow>
          (case Option.bind (get ''cookie'') cookie_session_id of
             Some sid \<Rightarrow> Some sid
           | None \<Rightarrow> map_option str_trim (Option.bind (get ''authorization'') (str_strip_prefix ''Bearer ''))))"

definition session_for_principal ::
  "(string \<Rightarrow> 64 word) \<Rightarrow> call_env \<Rightarrow> 'p \<Rightarrow> string option \<Rightarrow> ('p, 'f, 'pl) session_store
    \<Rightarrow> (status + nat) \<times> ('p, 'f, 'pl) session_store" where
  "session_for_principal hash env who uc_token st =
     (case store_enrich who st of
        (Inl e, st1) \<Rightarrow> (Inl (status_at ''Failed to resolve identity'' ''crates/hydrofoil/src/server.rs:240'' e), st1)
      | (Inr p, st1) \<Rightarrow>
          map_prod (map_err (status_at ''Failed to resolve session'' ''crates/hydrofoil/src/server.rs:244'')) id
            (ephemeral_for hash env p uc_token st1))"

definition resolve_session ::
  "(string \<Rightarrow> string + unit) \<Rightarrow> (string \<Rightarrow> 64 word) \<Rightarrow> call_env \<Rightarrow> headers \<Rightarrow> ('p, 'f, 'pl) session_store
    \<Rightarrow> (status + nat) \<times> ('p, 'f, 'pl) session_store" where
  "resolve_session check_uid hash env get st =
     (case (case session_id_from_metadata get of
              None \<Rightarrow> (None, st)
            | Some sid \<Rightarrow> store_get (ce_now env) sid st) of
        (Some a, st1) \<Rightarrow> (Inr a, st1)
      | (None, st1) \<Rightarrow>
          (case principal_from_headers (eg_principals (sst_engine st1)) check_uid get of
             Inl e \<Rightarrow> (Inl (Status_invalid_argument e), st1)
           | Inr p \<Rightarrow> session_for_principal hash env p (uc_token_from_metadata get) st1))"

text \<open>\<^verbatim>\<open>do_handshake\<close>: the minted id is the payload, the bearer token and the \<^verbatim>\<open>x-session-id\<close> of the answer.\<close>

definition do_handshake ::
  "(string \<Rightarrow> string + unit) \<Rightarrow> call_env \<Rightarrow> headers \<Rightarrow> ('p, 'f, 'pl) session_store
    \<Rightarrow> (status + string \<times> (string \<times> string) list) \<times> ('p, 'f, 'pl) session_store" where
  "do_handshake check_uid env get st =
     (case principal_from_headers (eg_principals (sst_engine st)) check_uid get of
        Inl e \<Rightarrow> (Inl (Status_invalid_argument e), st)
      | Inr p \<Rightarrow>
          (case store_enrich p st of
             (Inl e, st1) \<Rightarrow>
               (Inl (status_at ''Failed to resolve identity'' ''crates/hydrofoil/src/server.rs:703'' e), st1)
           | (Inr p', st1) \<Rightarrow>
               (case store_create env p' (uc_token_from_metadata get) st1 of
                  (Inl e, st2) \<Rightarrow>
                    (Inl (status_at ''Failed to create session'' ''crates/hydrofoil/src/server.rs:713'' e), st2)
                | (Inr (sid, _), st2) \<Rightarrow>
                    (Inr (sid, [(''authorization'', ''Bearer '' @ sid), (''x-session-id'', sid)]), st2))))"

section \<open>Statements\<close>

text \<open>
  What the handlers call: the planner (on the session's principal and catalogs, and the lineage and
  agent context), \<^verbatim>\<open>verify_plan\<close> with the options of the server, and the execution of a plan. A plan
  handle is the UUID's text; \<^verbatim>\<open>parse_handle\<close> is \<^verbatim>\<open>Uuid::from_slice\<close>.
\<close>

record ('p, 'f, 'pl, 'r) flight_env =
  fe_check_uid :: "string \<Rightarrow> string + unit"
  fe_hash :: "string \<Rightarrow> 64 word"
  fe_config :: lineage_config
  fe_plan :: "('p, 'f, 'pl) session \<Rightarrow> lineage_context \<Rightarrow> agent_context option \<Rightarrow> string \<Rightarrow> string + 'pl"
  fe_verify :: "'pl \<Rightarrow> string + unit"
  fe_execute :: "('p, 'f, 'pl) session \<Rightarrow> lineage_context \<Rightarrow> agent_context option \<Rightarrow> 'pl \<Rightarrow> 'r"
  fe_parse_handle :: "bytes \<Rightarrow> string + string"
  fe_encode_schema :: "'pl \<Rightarrow> string + bytes"
  fe_update :: "('p, 'f, 'pl) session \<Rightarrow> 'pl \<Rightarrow> string + (string + unit)"

definition fe_resolve where
  "fe_resolve fe env get st = resolve_session (fe_check_uid fe) (fe_hash fe) env get st"

definition principal_uid_at :: "nat \<Rightarrow> ('p, 'f, 'pl) session_store \<Rightarrow> string" where
  "principal_uid_at a st = pi_uid (eg_principals (sst_engine st)) (se_principal (sst_heap st a))"

text \<open>\<^verbatim>\<open>emit_planning_failure\<close>'s event, when lineage is wired: the context and the error.\<close>

type_synonym fail_event = "lineage_context \<times> string"

definition get_flight_info_statement ::
  "('p, 'f, 'pl, 'r) flight_env \<Rightarrow> call_env \<Rightarrow> string \<Rightarrow> string \<Rightarrow> headers \<Rightarrow> string \<Rightarrow> ('p, 'f, 'pl) session_store
    \<Rightarrow> (status + string \<times> 'pl) \<times> fail_event list \<times> ('p, 'f, 'pl) session_store" where
  "get_flight_info_statement fe env run_id plan_id get query st =
     (case fe_resolve fe env get st of
        (Inl e, st1) \<Rightarrow> (Inl e, [], st1)
      | (Inr a, st1) \<Rightarrow>
          (let agent = agent_context_from_metadata get;
               lineage = request_lineage get (fe_config fe) run_id (Some query) (principal_uid_at a st1) agent
           in case fe_plan fe (sst_heap st1 a) lineage agent query of
                Inl e \<Rightarrow> (Inl (Status_internal (''Error building plan: '' @ e)), [(lineage, e)], st1)
              | Inr plan \<Rightarrow>
                  (case fe_verify fe plan of
                     Inl e \<Rightarrow> (Inl (Status_internal e), [], st1)
                   | Inr _ \<Rightarrow>
                       (Inr (plan_id, plan), [],
                        upd_session a (\<lambda>s. s\<lparr>se_statements := (se_statements s)(plan_id \<mapsto>
                          \<lparr>ss_plan = plan, ss_lineage = lineage, ss_created_at = ce_now env\<rparr>)\<rparr>) st1))))"

definition handle_not_found :: "string \<Rightarrow> status" where
  "handle_not_found h = Status_internal (''Plan handle not found: '' @ h)"

text \<open>The lineage of one execution of a stored statement, with the provenance of this request.\<close>

definition execution_lineage ::
  "lineage_config \<Rightarrow> string \<Rightarrow> string \<Rightarrow> agent_context option \<Rightarrow> lineage_context \<Rightarrow> lineage_context" where
  "execution_lineage config fresh who_uid agent planning =
     (let cx = execution_context fresh planning config in
      if agent = None then cx
      else case hydrofoil_run_facet (Some who_uid) agent config of
             Some f \<Rightarrow> cx\<lparr>lc_run_facets := (lc_run_facets cx)(''hydrofoil'' \<mapsto> f)\<rparr>
           | None \<Rightarrow> cx)"

text \<open>\<^verbatim>\<open>do_get_handle\<close>.\<close>

definition do_get_handle ::
  "('p, 'f, 'pl, 'r) flight_env \<Rightarrow> ('p, 'f, 'pl) session \<Rightarrow> lineage_context \<Rightarrow> agent_context option \<Rightarrow> 'pl
    \<Rightarrow> status + 'r" where
  "do_get_handle fe s lineage agent plan =
     try_bind (map_err Status_internal (fe_verify fe plan)) (\<lambda>_. Inr (fe_execute fe s lineage agent plan))"

definition do_get_statement ::
  "('p, 'f, 'pl, 'r) flight_env \<Rightarrow> call_env \<Rightarrow> string \<Rightarrow> bytes \<Rightarrow> headers \<Rightarrow> ('p, 'f, 'pl) session_store
    \<Rightarrow> (status + 'r) \<times> ('p, 'f, 'pl) session_store" where
  "do_get_statement fe env fresh ticket get st =
     (case fe_parse_handle fe ticket of
        Inl e \<Rightarrow> (Inl (status_at ''Invalid handle'' ''crates/hydrofoil/src/server.rs:1072'' e), st)
      | Inr handle \<Rightarrow>
          (case fe_resolve fe env get st of
             (Inl e, st1) \<Rightarrow> (Inl e, st1)
           | (Inr a, st1) \<Rightarrow>
               (case se_statements (sst_heap st1 a) handle of
                  None \<Rightarrow> (Inl (handle_not_found handle), st1)
                | Some stored \<Rightarrow>
                    (let agent = agent_context_from_metadata get;
                         lineage = execution_lineage (fe_config fe) fresh (principal_uid_at a st1) agent
                                     (ss_lineage stored);
                         result = do_get_handle fe (sst_heap st1 a) lineage agent (ss_plan stored)
                     in (result,
                         upd_session a (\<lambda>s. s\<lparr>se_statements := (se_statements s)(handle := None)\<rparr>) st1)))))"

definition do_get_prepared_statement ::
  "('p, 'f, 'pl, 'r) flight_env \<Rightarrow> call_env \<Rightarrow> string \<Rightarrow> bytes \<Rightarrow> headers \<Rightarrow> ('p, 'f, 'pl) session_store
    \<Rightarrow> (status + 'r) \<times> ('p, 'f, 'pl) session_store" where
  "do_get_prepared_statement fe env fresh ticket get st =
     (case fe_parse_handle fe ticket of
        Inl e \<Rightarrow> (Inl (status_at ''Invalid handle'' ''crates/hydrofoil/src/server.rs:1119'' e), st)
      | Inr handle \<Rightarrow>
          (case fe_resolve fe env get st of
             (Inl e, st1) \<Rightarrow> (Inl e, st1)
           | (Inr a, st1) \<Rightarrow>
               (case se_statements (sst_heap st1 a) handle of
                  None \<Rightarrow> (Inl (handle_not_found handle), st1)
                | Some stored \<Rightarrow>
                    (let agent = agent_context_from_metadata get;
                         lineage = execution_lineage (fe_config fe) fresh (principal_uid_at a st1) agent
                                     (ss_lineage stored)
                     in (do_get_handle fe (sst_heap st1 a) lineage agent (ss_plan stored), st1)))))"

section \<open>Prepared statements and updates\<close>

definition get_flight_info_prepared_statement ::
  "('p, 'f, 'pl, 'r) flight_env \<Rightarrow> call_env \<Rightarrow> bytes \<Rightarrow> headers \<Rightarrow> ('p, 'f, 'pl) session_store
    \<Rightarrow> (status + 'pl) \<times> ('p, 'f, 'pl) session_store" where
  "get_flight_info_prepared_statement fe env ticket get st =
     (case fe_parse_handle fe ticket of
        Inl e \<Rightarrow> (Inl (status_at ''Invalid handle'' ''crates/hydrofoil/src/server.rs:983'' e), st)
      | Inr handle \<Rightarrow>
          (case fe_resolve fe env get st of
             (Inl e, st1) \<Rightarrow> (Inl e, st1)
           | (Inr a, st1) \<Rightarrow>
               (ok_or (handle_not_found handle) (map_option ss_plan (se_statements (sst_heap st1 a) handle)),
                st1)))"

definition do_action_create_prepared_statement ::
  "('p, 'f, 'pl, 'r) flight_env \<Rightarrow> call_env \<Rightarrow> string \<Rightarrow> string \<Rightarrow> headers \<Rightarrow> string \<Rightarrow> ('p, 'f, 'pl) session_store
    \<Rightarrow> (status + string \<times> bytes) \<times> fail_event list \<times> ('p, 'f, 'pl) session_store" where
  "do_action_create_prepared_statement fe env run_id plan_id get query st =
     (case fe_resolve fe env get st of
        (Inl e, st1) \<Rightarrow> (Inl e, [], st1)
      | (Inr a, st1) \<Rightarrow>
          (let agent = agent_context_from_metadata get;
               lineage = request_lineage get (fe_config fe) run_id (Some query) (principal_uid_at a st1) agent
           in case fe_plan fe (sst_heap st1 a) lineage agent query of
                Inl e \<Rightarrow>
                  (Inl (status_at ''Error building plan'' ''crates/hydrofoil/src/server.rs:1379'' e),
                   [(lineage, e)], st1)
              | Inr plan \<Rightarrow>
                  (map_ok (Pair plan_id)
                     (map_err (status_at ''Error encoding schema'' ''crates/hydrofoil/src/server.rs:1393'')
                        (fe_encode_schema fe plan)), [],
                   upd_session a (\<lambda>s. s\<lparr>se_statements := (se_statements s)(plan_id \<mapsto>
                     \<lparr>ss_plan = plan, ss_lineage = lineage, ss_created_at = ce_now env\<rparr>)\<rparr>) st1)))"

definition do_action_close_prepared_statement ::
  "('p, 'f, 'pl, 'r) flight_env \<Rightarrow> call_env \<Rightarrow> bytes \<Rightarrow> headers \<Rightarrow> ('p, 'f, 'pl) session_store
    \<Rightarrow> (status + unit) \<times> ('p, 'f, 'pl) session_store" where
  "do_action_close_prepared_statement fe env ticket get st =
     (case fe_parse_handle fe ticket of
        Inl _ \<Rightarrow> (Inr (), st)
      | Inr handle \<Rightarrow>
          (case fe_resolve fe env get st of
             (Inl _, st1) \<Rightarrow> (Inr (), st1)
           | (Inr a, st1) \<Rightarrow>
               (Inr (), upd_session a (\<lambda>s. s\<lparr>se_statements := (se_statements s)(handle := None)\<rparr>) st1)))"

definition execute_update_plan ::
  "('p, 'f, 'pl, 'r) flight_env \<Rightarrow> ('p, 'f, 'pl) session \<Rightarrow> 'pl \<Rightarrow> status + int" where
  "execute_update_plan fe s plan =
     try_bind (map_err Status_internal (fe_verify fe plan)) (\<lambda>_.
       try_bind (map_err
           (status_at ''Failed to execute update statement'' ''crates/hydrofoil/src/server.rs:654'')
           (fe_update fe s plan)) (\<lambda>frame.
         try_bind (map_err
             (status_at ''Failed to execute update statement'' ''crates/hydrofoil/src/server.rs:657'')
             frame) (\<lambda>_. Inr (- 1))))"

definition do_put_statement_update ::
  "('p, 'f, 'pl, 'r) flight_env \<Rightarrow> call_env \<Rightarrow> string \<Rightarrow> headers \<Rightarrow> string \<Rightarrow> ('p, 'f, 'pl) session_store
    \<Rightarrow> (status + int) \<times> fail_event list \<times> ('p, 'f, 'pl) session_store" where
  "do_put_statement_update fe env run_id get sql st =
     (case fe_resolve fe env get st of
        (Inl e, st1) \<Rightarrow> (Inl e, [], st1)
      | (Inr a, st1) \<Rightarrow>
          (let agent = agent_context_from_metadata get;
               lineage = request_lineage get (fe_config fe) run_id (Some sql) (principal_uid_at a st1) agent
           in case fe_plan fe (sst_heap st1 a) lineage agent sql of
                Inl e \<Rightarrow>
                  (Inl (status_at ''Error building plan'' ''crates/hydrofoil/src/server.rs:631'' e),
                   [(lineage, e)], st1)
              | Inr plan \<Rightarrow> (execute_update_plan fe (sst_heap st1 a) plan, [], st1)))"

definition do_put_prepared_statement_update ::
  "('p, 'f, 'pl, 'r) flight_env \<Rightarrow> call_env \<Rightarrow> bytes \<Rightarrow> headers \<Rightarrow> ('p, 'f, 'pl) session_store
    \<Rightarrow> (status + int) \<times> ('p, 'f, 'pl) session_store" where
  "do_put_prepared_statement_update fe env ticket get st =
     (case fe_parse_handle fe ticket of
        Inl e \<Rightarrow> (Inl (status_at ''Invalid handle'' ''crates/hydrofoil/src/server.rs:1208'' e), st)
      | Inr handle \<Rightarrow>
          (case fe_resolve fe env get st of
             (Inl e, st1) \<Rightarrow> (Inl e, st1)
           | (Inr a, st1) \<Rightarrow>
               (try_bind (ok_or (handle_not_found handle)
                    (map_option ss_plan (se_statements (sst_heap st1 a) handle)))
                  (execute_update_plan fe (sst_heap st1 a)), st1)))"

definition do_get_fallback :: "string \<Rightarrow> status" where
  "do_get_fallback type_url = Status_unimplemented (''do_get_fallback: '' @ type_url)"

end
