(* ===== verification/Session_Facts.thy ===== *)
theory Session_Facts
  imports Flight_Server
begin

text \<open>
  What the session store guarantees: an ephemeral session belongs to the principal and the token
  fingerprint of its key, in every state the server reaches; two racing requests of one principal get
  one session; what a sweep keeps. And what it does not: an ephemeral key is accepted as a session id,
  and a session keeps the attributes of the request that created it.
\<close>

section \<open>Keys\<close>

lemma fingerprint_no_colon: "CHR '':'' \<notin> set (uc_token_fingerprint hash tok)"
proof (cases tok)
  case (Some t)
  have "CHR '':'' \<notin> set ''0123456789abcdef''" by simp
  with hex16_digits [of "CHR '':''" "hash t"] Some show ?thesis
    by (auto simp: uc_token_fingerprint_def)
qed (simp add: uc_token_fingerprint_def)

lemma colon_split_unique:
  assumes "a @ c # b = a' @ c # b'" and "c \<notin> set b" and "c \<notin> set b'"
  shows "a = a' \<and> b = b'"
proof -
  have "rev b @ c # rev a = rev b' @ c # rev a'"
    using arg_cong [OF assms(1), of rev] by simp
  moreover have "takeWhile (\<lambda>x. x \<noteq> c) (rev y @ c # z) = rev y" if "c \<notin> set y" for y z
    using that by (subst takeWhile_append2) auto
  ultimately have "rev b = rev b'" using assms(2,3) by metis
  with assms(1) show ?thesis by simp
qed

lemma ephemeral_key_eq:
  "ephemeral_key api hash p tok = ephemeral_key api hash p' tok' \<longleftrightarrow>
     pi_uid api p = pi_uid api p' \<and> uc_token_fingerprint hash tok = uc_token_fingerprint hash tok'"
  using colon_split_unique [OF _ fingerprint_no_colon fingerprint_no_colon]
  by (auto simp: ephemeral_key_def)

lemma fingerprint_eq:
  assumes "inj hash"
  shows "uc_token_fingerprint hash tok = uc_token_fingerprint hash tok' \<longleftrightarrow> tok = tok' \<or>
    (\<exists>t t'. tok = Some t \<and> tok' = Some t' \<and> hex16 (hash t) = hex16 (hash t'))"
proof -
  have "hex16 w \<noteq> ''shared''" for w using length_hex16 [of w] by (auto simp del: length_hex16)
  then show ?thesis by (cases tok; cases tok') (auto simp: uc_token_fingerprint_def dest: sym)
qed

section \<open>The invariant\<close>

text \<open>
  The owner of an ephemeral session: the principal of its key, with the catalog access of a token of
  the key's fingerprint.
\<close>

definition owned_by ::
  "(string \<Rightarrow> 64 word) \<Rightarrow> ('p, 'f) engine \<Rightarrow> 'p \<Rightarrow> string option \<Rightarrow> ('p, 'f, 'pl) session \<Rightarrow> bool" where
  "owned_by hash e who tok s \<longleftrightarrow>
     pi_uid (eg_principals e) (se_principal s) = pi_uid (eg_principals e) who \<and>
     (\<exists>tok'. uc_token_fingerprint hash tok' = uc_token_fingerprint hash tok \<and>
        unity_factory_for tok' e = Inr (se_unity s))"

definition store_inv :: "(string \<Rightarrow> 64 word) \<Rightarrow> ('p, 'f, 'pl) session_store \<Rightarrow> bool" where
  "store_inv hash st \<longleftrightarrow>
     principal_api_ok (eg_principals (sst_engine st)) \<and>
     (\<forall>k a. sst_sessions st k = Some a \<longrightarrow> a < sst_next st) \<and>
     (\<forall>who tok a. sst_sessions st (ephemeral_key (eg_principals (sst_engine st)) hash who tok) = Some a
        \<longrightarrow> owned_by hash (sst_engine st) who tok (sst_heap st a))"

text \<open>Engines that build sessions alike, and sessions that differ in activity only.\<close>

definition same_engine :: "('p, 'f) engine \<Rightarrow> ('p, 'f) engine \<Rightarrow> bool" where
  "same_engine e e' \<longleftrightarrow> eg_principals e' = eg_principals e \<and> (\<forall>t. unity_factory_for t e' = unity_factory_for t e)"

definition same_owner :: "('p, 'f, 'pl) session \<Rightarrow> ('p, 'f, 'pl) session \<Rightarrow> bool" where
  "same_owner s s' \<longleftrightarrow> se_principal s' = se_principal s \<and> se_unity s' = se_unity s"

lemma owned_by_same:
  "same_engine e e' \<Longrightarrow> same_owner s s' \<Longrightarrow> owned_by hash e' who tok s' \<longleftrightarrow> owned_by hash e who tok s"
  by (simp add: owned_by_def same_engine_def same_owner_def)

lemma same_owner_refl [simp]: "same_owner s s"
  by (simp add: same_owner_def)

lemma same_engine_refl [simp]: "same_engine e e"
  by (simp add: same_engine_def)

lemma same_owner_touch [simp]: "same_owner s (session_touch now s)"
  by (simp add: same_owner_def session_touch_def)

lemma same_owner_sweep [simp]: "same_owner s (sweep_statements now ttl s)"
  by (simp add: same_owner_def sweep_statements_def)

text \<open>A step that adds no key, allocates nothing and changes no owner keeps the invariant.\<close>

lemma store_inv_keep:
  assumes "store_inv hash st" and "same_engine (sst_engine st) (sst_engine st')"
    and "\<And>k a. sst_sessions st' k = Some a \<Longrightarrow> sst_sessions st k = Some a"
    and "\<And>a. same_owner (sst_heap st a) (sst_heap st' a)" and "sst_next st' = sst_next st"
  shows "store_inv hash st'"
proof -
  from assms(2) have "eg_principals (sst_engine st') = eg_principals (sst_engine st)"
    by (simp add: same_engine_def)
  moreover have "owned_by hash (sst_engine st') who tok (sst_heap st' a) \<longleftrightarrow>
      owned_by hash (sst_engine st) who tok (sst_heap st a)" for who tok a
    by (rule owned_by_same [OF assms(2,4)])
  moreover have "a < sst_next st'" if "sst_sessions st' k = Some a" for k a
    using assms(1,5) assms(3) [OF that] by (auto simp: store_inv_def)
  ultimately show ?thesis
    using assms(1,3) by (auto simp: store_inv_def)
qed

lemma store_inv_upd:
  "store_inv hash st \<Longrightarrow> (\<And>s. same_owner s (f s)) \<Longrightarrow> store_inv hash (upd_session a f st)"
  by (rule store_inv_keep [of hash st]) (simp_all add: upd_session_def)

lemma store_inv_get: "store_inv hash st \<Longrightarrow> store_inv hash (snd (store_get now k st))"
  by (simp add: store_get_def store_inv_upd split: option.split)

lemma store_inv_enrich:
  fixes st :: "('p, 'f, 'pl) session_store"
  assumes "store_inv hash st"
  shows "store_inv hash (snd (store_enrich who st))"
proof (rule store_inv_keep [of hash st])
  have "eg_principals (snd (engine_enrich who e)) = eg_principals e"
    and "unity_factory_for t (snd (engine_enrich who e)) = unity_factory_for t e"
    for e :: "('p, 'f) engine" and t
    by (auto simp: engine_enrich_def unity_factory_for_def Let_def split: option.split sum.split)
  then show "same_engine (sst_engine st) (sst_engine (snd (store_enrich who st)))"
    by (simp add: store_enrich_def Let_def same_engine_def case_prod_unfold)
qed (use assms in \<open>simp_all add: store_enrich_def Let_def case_prod_unfold\<close>)

lemma store_inv_sweep: "store_inv hash st \<Longrightarrow> store_inv hash (store_sweep now st)"
  by (rule store_inv_keep [of hash st])
    (auto simp: store_sweep_def Let_def option_filter_def split: option.splits if_splits)

lemma new_session_owned:
  assumes "new_session env who tok e = Inr s"
  shows "owned_by hash e who tok s"
  using assms by (auto simp: new_session_def owned_by_def try_bind_Inr_iff split: option.splits)

lemma store_inv_insert:
  assumes "store_inv hash st"
    and "\<And>who tok. key = ephemeral_key (eg_principals (sst_engine st)) hash who tok \<Longrightarrow>
      owned_by hash (sst_engine st) who tok s"
  shows "store_inv hash (snd (store_insert key s st))"
  using assms unfolding store_inv_def store_insert_def
  by (auto split: if_splits) (metis less_irrefl less_SucI)+

text \<open>A UUID's text is not an ephemeral key.\<close>

definition uuid_text :: "string \<Rightarrow> bool" where
  "uuid_text u \<longleftrightarrow> CHR '':'' \<notin> set u"

lemma uuid_not_ephemeral: "uuid_text u \<Longrightarrow> u \<noteq> ephemeral_key api hash who tok"
  by (auto simp: uuid_text_def ephemeral_key_def)

lemma store_inv_create:
  fixes st :: "('p, 'f, 'pl) session_store"
  assumes "store_inv hash st" and "uuid_text (ce_store_uuid env)"
  shows "store_inv hash (snd (store_create env who tok st))"
proof (cases "new_session env who tok (sst_engine st) :: string + ('p, 'f, 'pl) session")
  case (Inr s)
  have "store_inv hash (snd (store_insert (ce_store_uuid env) s st))"
    by (rule store_inv_insert [OF assms(1)]) (simp add: uuid_not_ephemeral [OF assms(2)])
  with Inr show ?thesis by (simp add: store_create_def Let_def case_prod_unfold)
qed (use assms in \<open>simp add: store_create_def\<close>)

lemma owned_by_cong:
  "pi_uid (eg_principals e) who = pi_uid (eg_principals e) who' \<Longrightarrow>
     uc_token_fingerprint hash tok = uc_token_fingerprint hash tok' \<Longrightarrow>
     owned_by hash e who tok s \<longleftrightarrow> owned_by hash e who' tok' s"
  by (simp add: owned_by_def)

section \<open>Ephemeral sessions\<close>

lemma ephemeral_insert_result:
  assumes "store_inv hash st" and "owned_by hash (sst_engine st) who tok s"
    and "key = ephemeral_key (eg_principals (sst_engine st)) hash who tok"
    and "ephemeral_insert now key s st = (a, st')"
  shows "store_inv hash st' \<and> sst_sessions st' key = Some a \<and> sst_engine st' = sst_engine st"
proof (cases "sst_sessions st key")
  case (Some b)
  with assms(4) have "a = b" "st' = upd_session a (session_touch now) st"
    by (auto simp: ephemeral_insert_def)
  with Some store_inv_upd [OF assms(1)] show ?thesis by (simp add: upd_session_def)
next
  case None
  have "store_inv hash (snd (store_insert key s st))"
    using store_inv_insert [OF assms(1), of key s] assms(2,3) ephemeral_key_eq owned_by_cong by metis
  then have "store_inv hash (upd_session a (session_touch now) (snd (store_insert key s st)))"
    by (rule store_inv_upd) simp
  with None assms(4) show ?thesis
    by (auto simp: ephemeral_insert_def store_insert_def upd_session_def)
qed

lemma ephemeral_for_result:
  fixes st :: "('p, 'f, 'pl) session_store"
  assumes "store_inv hash st" and "ephemeral_for hash env who tok st = (r, st')"
  shows "store_inv hash st' \<and> sst_engine st' = sst_engine st \<and>
    (\<forall>a. r = Inr a \<longrightarrow>
       sst_sessions st' (ephemeral_key (eg_principals (sst_engine st)) hash who tok) = Some a)"
proof -
  let ?key = "ephemeral_key (eg_principals (sst_engine st)) hash who tok"
  show ?thesis
  proof (cases "sst_sessions st ?key")
    case (Some a)
    with assms(2) have "r = Inr a" "st' = upd_session a (session_touch (ce_now env)) st"
      by (auto simp: ephemeral_for_def store_get_def)
    with Some store_inv_upd [OF assms(1)] show ?thesis by (simp add: upd_session_def)
  next
    case None
    show ?thesis
    proof (cases "new_session env who tok (sst_engine st) :: string + ('p, 'f, 'pl) session")
      case (Inl e)
      with None assms show ?thesis by (auto simp: ephemeral_for_def store_get_def)
    next
      case (Inr s)
      obtain a st'' where ins: "ephemeral_insert (ce_now env) ?key s st = (a, st'')" by fastforce
      with None Inr assms(2) have "r = Inr a" "st' = st''"
        by (auto simp: ephemeral_for_def store_get_def)
      with ephemeral_insert_result [OF assms(1) new_session_owned [OF Inr] refl ins]
      show ?thesis by simp
    qed
  qed
qed

lemma ephemeral_for_owned:
  assumes "store_inv hash st" and "ephemeral_for hash env who tok st = (Inr a, st')"
  shows "owned_by hash (sst_engine st) who tok (sst_heap st' a)"
  using ephemeral_for_result [OF assms] by (auto simp: store_inv_def)

text \<open>
  Two requests of one principal race: both find no session, both build one, and one inserts first. Both
  get the session of the first.
\<close>

lemma ephemeral_race:
  assumes "ephemeral_insert now1 key s1 st = (a, st1)" and "ephemeral_insert now2 key s2 st1 = (b, st2)"
  shows "a = b"
  using assms
  by (auto simp: ephemeral_insert_def store_insert_def upd_session_def Let_def split: option.splits)

text \<open>A later request of the principal gets the same session, as long as no sweep has removed it.\<close>

lemma ephemeral_for_again:
  assumes "store_inv hash st" and "ephemeral_for hash env who tok st = (Inr a, st1)"
    and "pi_uid (eg_principals (sst_engine st)) who' = pi_uid (eg_principals (sst_engine st)) who"
  shows "ephemeral_for hash env' who' tok st1 = (Inr a, upd_session a (session_touch (ce_now env')) st1)"
proof -
  from ephemeral_for_result [OF assms(1,2)]
  have "sst_sessions st1 (ephemeral_key (eg_principals (sst_engine st1)) hash who tok) = Some a"
    and e: "sst_engine st1 = sst_engine st" by simp_all
  moreover have "ephemeral_key (eg_principals (sst_engine st1)) hash who' tok
      = ephemeral_key (eg_principals (sst_engine st1)) hash who tok"
    using assms(3) e by (simp add: ephemeral_key_eq)
  ultimately show ?thesis by (simp add: ephemeral_for_def store_get_def)
qed

section \<open>Reachable states\<close>

text \<open>
  The steps of the server's store: a lookup by id, a session created for a handshake, the ephemeral
  session of a principal, an enrichment, a change of a session's statements, a sweep.
\<close>

inductive store_step ::
  "(string \<Rightarrow> 64 word) \<Rightarrow> ('p, 'f, 'pl) session_store \<Rightarrow> ('p, 'f, 'pl) session_store \<Rightarrow> bool" for hash where
  get: "store_step hash st (snd (store_get now k st))"
| create: "uuid_text (ce_store_uuid env) \<Longrightarrow> store_step hash st (snd (store_create env who tok st))"
| ephemeral: "store_step hash st (snd (ephemeral_for hash env who tok st))"
| enrich: "store_step hash st (snd (store_enrich who st))"
| statements: "store_step hash st (upd_session a (\<lambda>s. s\<lparr>se_statements := f (se_statements s)\<rparr>) st)"
| sweep: "store_step hash st (store_sweep now st)"

lemma store_step_inv: "store_step hash st st' \<Longrightarrow> store_inv hash st \<Longrightarrow> store_inv hash st'"
proof (induction rule: store_step.induct)
  case (ephemeral st env who tok)
  then show ?case
    using ephemeral_for_result [of hash st env who tok] by (metis surjective_pairing)
next
  case (statements st a f)
  then show ?case by (intro store_inv_upd) (simp_all add: same_owner_def)
qed (simp_all add: store_inv_get store_inv_create store_inv_enrich store_inv_sweep)

lemma store_inv_new: "principal_api_ok (eg_principals e) \<Longrightarrow> store_inv hash (new_store e ttl blank)"
  by (simp add: store_inv_def new_store_def)

lemma reachable_inv:
  assumes "(store_step hash)\<^sup>*\<^sup>* (new_store e ttl blank) st" and "principal_api_ok (eg_principals e)"
  shows "store_inv hash st"
  using assms(1)
  by (induction rule: rtranclp_induct) (auto simp: store_inv_new [OF assms(2)] store_step_inv)

inductive_cases store_stepE: "store_step hash st st'"

section \<open>The session of a request\<close>

lemma engine_enrich_uid:
  assumes "principal_api_ok (eg_principals e)" and "engine_enrich p e = (Inr p', e')"
  shows "pi_uid (eg_principals e) p' = pi_uid (eg_principals e) p \<and> eg_principals e' = eg_principals e"
  using assms by (auto simp: engine_enrich_def principal_api_ok_def Let_def split: option.splits sum.splits)

lemma session_for_principal_uid:
  assumes inv: "store_inv hash st" and run: "session_for_principal hash env who tok st = (Inr a, st')"
  shows "principal_uid_at a st' = pi_uid (eg_principals (sst_engine st)) who"
proof -
  from run obtain p st1 where en: "store_enrich who st = (Inr p, st1)"
    and eph: "ephemeral_for hash env p tok st1 = (Inr a, st')"
    by (cases "store_enrich who st"; cases "fst (store_enrich who st)")
      (auto simp: session_for_principal_def map_prod_def split: prod.splits)
  have inv1: "store_inv hash st1" using store_inv_enrich [OF inv, of who] en by simp
  from en obtain e where "engine_enrich who (sst_engine st) = (Inr p, e)" "sst_engine st1 = e"
    by (auto simp: store_enrich_def Let_def split: prod.splits)
  with engine_enrich_uid [of "sst_engine st" who p e] inv
  have "pi_uid (eg_principals (sst_engine st)) p = pi_uid (eg_principals (sst_engine st)) who"
    and "eg_principals (sst_engine st1) = eg_principals (sst_engine st)"
    by (auto simp: store_inv_def)
  with ephemeral_for_owned [OF inv1 eph] ephemeral_for_result [OF inv1 eph] show ?thesis
    by (simp add: owned_by_def principal_uid_at_def)
qed

lemma resolve_session_uid:
  assumes inv: "store_inv hash st" and "session_id_from_metadata get = None"
    and run: "resolve_session check hash env get st = (Inr a, st')"
  shows "principal_uid_at a st' = unwrap_or DEFAULT_PRINCIPAL (get ''x-hydrofoil-principal'')"
proof -
  let ?api = "eg_principals (sst_engine st)"
  from assms(2) run obtain p where p: "principal_from_headers ?api check get = Inr p"
    and sp: "session_for_principal hash env p (uc_token_from_metadata get) st = (Inr a, st')"
    by (cases "principal_from_headers ?api check get") (auto simp: resolve_session_def)
  from principal_uid [OF _ p] inv session_for_principal_uid [OF inv sp] show ?thesis
    by (simp add: store_inv_def)
qed

text \<open>The session id of a request is looked up among all keys, those of ephemeral sessions too.\<close>

lemma resolve_session_by_id:
  assumes "sst_sessions st k = Some a" and "get ''x-session-id'' = Some k"
  shows "resolve_session check hash env get st = (Inr a, upd_session a (session_touch (ce_now env)) st)"
  using assms by (simp add: resolve_session_def session_id_from_metadata_def store_get_def)

section \<open>Sweeps\<close>

lemma store_sweep_sessions:
  "sst_sessions (store_sweep now st) k = Some a \<longleftrightarrow>
     sst_sessions st k = Some a \<and> session_idle now (sst_heap st a) < sst_ttl st"
  by (auto simp: store_sweep_def Let_def option_filter_def split: option.splits)

lemma store_sweep_statements:
  assumes "sst_sessions (store_sweep now st) k = Some a"
  shows "se_statements (sst_heap (store_sweep now st) a) h = Some x \<longleftrightarrow>
    se_statements (sst_heap st a) h = Some x \<and> now - ss_created_at x < sst_ttl st"
proof -
  from assms have "a \<in> ran (\<lambda>k. option_filter (\<lambda>a. session_idle now (sst_heap st a) < sst_ttl st) (sst_sessions st k))"
    by (auto simp: store_sweep_def Let_def intro: ranI)
  then show ?thesis
    by (auto simp: store_sweep_def Let_def sweep_statements_def option_filter_def split: option.splits)
qed

end
