(* ===== verification/Statement_Facts.thy ===== *)
theory Statement_Facts
  imports Session_Facts
begin

text \<open>
  The life of a statement: planned once, executed once by whoever resolves to the session that planned
  it, unknown to every other session; prepared statements stay until they are closed or swept.
\<close>

section \<open>Resolving a session keeps statements\<close>

definition same_statements :: "('p, 'f, 'pl) session_store \<Rightarrow> ('p, 'f, 'pl) session_store \<Rightarrow> bool" where
  "same_statements st st' \<longleftrightarrow>
     (\<forall>b < sst_next st. se_statements (sst_heap st' b) = se_statements (sst_heap st b)) \<and>
     sst_next st \<le> sst_next st'"

lemma same_statements_refl [simp]: "same_statements st st"
  by (simp add: same_statements_def)

lemma same_statements_trans:
  "same_statements a b \<Longrightarrow> same_statements b c \<Longrightarrow> same_statements a c"
  by (simp add: same_statements_def)

lemma same_statements_touch [simp]: "same_statements st (upd_session a (session_touch now) st)"
  by (simp add: same_statements_def upd_session_def session_touch_def)

lemma same_statements_insert [simp]: "same_statements st (snd (store_insert key s st))"
  by (simp add: same_statements_def store_insert_def)

lemma same_statements_get [simp]: "same_statements st (snd (store_get now k st))"
  by (simp add: store_get_def split: option.split)

lemma same_statements_enrich [simp]: "same_statements st (snd (store_enrich who st))"
  by (simp add: same_statements_def store_enrich_def Let_def case_prod_unfold)

lemma same_statements_ephemeral_insert: "same_statements st (snd (ephemeral_insert now key s st))"
  using same_statements_trans [OF same_statements_insert same_statements_touch]
  by (auto simp: ephemeral_insert_def Let_def case_prod_unfold split: option.split)

lemma same_statements_ephemeral:
  fixes st :: "('p, 'f, 'pl) session_store"
  shows "same_statements st (snd (ephemeral_for hash env who tok st))"
proof -
  let ?key = "ephemeral_key (eg_principals (sst_engine st)) hash who tok"
  show ?thesis
  proof (cases "sst_sessions st ?key")
    case None
    then show ?thesis
      using same_statements_ephemeral_insert [of st "ce_now env" ?key]
      by (simp add: ephemeral_for_def store_get_def Let_def case_prod_unfold split: sum.split)
  qed (simp add: ephemeral_for_def store_get_def)
qed

lemma same_statements_for_principal:
  "same_statements st (snd (session_for_principal hash env who tok st))"
proof (cases "store_enrich who st")
  case (Pair r st1)
  have "same_statements st st1" using same_statements_enrich [of st who] Pair by simp
  with Pair same_statements_trans [OF _ same_statements_ephemeral] show ?thesis
    by (cases r) (simp_all add: session_for_principal_def)
qed

lemma same_statements_resolve: "same_statements st (snd (resolve_session check hash env get st))"
proof -
  have "same_statements st (snd (case p of
        (Some a, st1) \<Rightarrow> (Inr a, st1)
      | (None, st1) \<Rightarrow>
          (case principal_from_headers (eg_principals (sst_engine st1)) check get of
             Inl e \<Rightarrow> (Inl (Status_invalid_argument e), st1)
           | Inr p \<Rightarrow> session_for_principal hash env p (uc_token_from_metadata get) st1)))"
    if "same_statements st (snd p)" for p :: "nat option \<times> ('a, 'b, 'c) session_store"
    using that same_statements_trans [OF _ same_statements_for_principal]
    by (auto split: prod.split option.split sum.split)
  moreover have "same_statements st (snd (case session_id_from_metadata get of
      None \<Rightarrow> (None, st) | Some sid \<Rightarrow> store_get (ce_now env) sid st))"
    by (simp split: option.split)
  ultimately show ?thesis unfolding resolve_session_def by blast
qed

lemma resolve_statements:
  assumes "fe_resolve fe env get st = (r, st')" and "b < sst_next st"
  shows "se_statements (sst_heap st' b) = se_statements (sst_heap st b)"
  using same_statements_resolve [of st "fe_check_uid fe" "fe_hash fe" env get] assms
  by (simp add: fe_resolve_def same_statements_def)

text \<open>A resolved session has an address.\<close>

lemma resolve_address:
  assumes inv: "store_inv (fe_hash fe) st" and run: "fe_resolve fe env get st = (Inr a, st')"
  shows "store_inv (fe_hash fe) st' \<and> a < sst_next st'"
proof -
  define p where "p = (case session_id_from_metadata get of
      None \<Rightarrow> (None, st) | Some sid \<Rightarrow> store_get (ce_now env) sid st)"
  obtain o1 st1 where p1: "p = (o1, st1)" by fastforce
  have inv1: "store_inv (fe_hash fe) st1"
    using inv store_inv_get [OF inv] p1 by (auto simp: p_def split: option.splits) (metis snd_conv)
  show ?thesis
  proof (cases o1)
    case (Some b)
    with p1 run have "b = a" "st' = st1"
      by (auto simp: fe_resolve_def resolve_session_def p_def)
    moreover have "b < sst_next st1"
      using inv p1 Some
      by (auto simp: p_def store_get_def store_inv_def upd_session_def split: option.splits)
    ultimately show ?thesis using inv1 by simp
  next
    case None
    with p1 run obtain q where sp: "session_for_principal (fe_hash fe) env q (uc_token_from_metadata get) st1 = (Inr a, st')"
      by (auto simp: fe_resolve_def resolve_session_def p_def split: sum.splits)
    obtain r2 st2 where en: "store_enrich q st1 = (r2, st2)" by fastforce
    have inv2: "store_inv (fe_hash fe) st2" using store_inv_enrich [OF inv1, of q] en by simp
    from sp en obtain q' where eph: "ephemeral_for (fe_hash fe) env q' (uc_token_from_metadata get) st2 = (Inr a, st')"
      by (auto simp: session_for_principal_def map_prod_def split: sum.splits prod.splits)
    from ephemeral_for_result [OF inv2 eph] show ?thesis by (auto simp: store_inv_def)
  qed
qed

section \<open>Statements\<close>

lemma info_statement_ok:
  assumes run: "get_flight_info_statement fe env run_id plan_id get q st = (Inr (h, plan), ev, st1)"
    and res: "fe_resolve fe env get st = (Inr a, st0)"
  shows "h = plan_id \<and> ev = [] \<and> fe_verify fe plan = Inr () \<and>
    sst_next st1 = sst_next st0 \<and>
    (\<exists>s. se_statements (sst_heap st1 a) h = Some s \<and> ss_plan s = plan \<and>
         lc_run_id (ss_lineage s) = Some run_id \<and> ss_created_at s = ce_now env) \<and>
    (\<forall>b. b \<noteq> a \<longrightarrow> sst_heap st1 b = sst_heap st0 b)"
proof -
  have lin: "lc_run_id (request_lineage get c run_id sql u agent) = Some run_id" for c sql u agent
    by (simp add: request_lineage_def Let_def split: option.split)
  from run res show ?thesis
    by (auto simp: get_flight_info_statement_def Let_def upd_session_def lin split: sum.splits)
qed

lemma do_get_statement_ok:
  assumes "fe_parse_handle fe t = Inr h" and "fe_resolve fe env get st = (Inr a, st1)"
    and "se_statements (sst_heap st1 a) h = Some s"
  shows "do_get_statement fe env fresh t get st =
    (do_get_handle fe (sst_heap st1 a)
       (execution_lineage (fe_config fe) fresh (principal_uid_at a st1) (agent_context_from_metadata get)
          (ss_lineage s)) (agent_context_from_metadata get) (ss_plan s),
     upd_session a (\<lambda>s. s\<lparr>se_statements := (se_statements s)(h := None)\<rparr>) st1)"
  using assms by (simp add: do_get_statement_def Let_def)

lemma do_get_statement_unknown:
  assumes "fe_parse_handle fe t = Inr h" and "fe_resolve fe env get st = (Inr a, st1)"
    and "se_statements (sst_heap st1 a) h = None"
  shows "do_get_statement fe env fresh t get st = (Inl (handle_not_found h), st1)"
  using assms by (simp add: do_get_statement_def)

lemma execution_lineage_run:
  assumes "lc_run_id pl = Some run_id"
  shows "lc_run_id (execution_lineage c fresh u agent pl) = Some fresh \<and>
    (\<exists>p. lc_parent_run (execution_lineage c fresh u agent pl) = Some p \<and> jr_run_id (pf_run p) = run_id)"
  using execution_context_parent [OF assms, of fresh c]
  by (auto simp: execution_lineage_def Let_def split: option.split)

lemma statement_executes:
  assumes inv: "store_inv (fe_hash fe) st"
    and plan: "get_flight_info_statement fe env run_id h get q st = (Inr (h', plan), ev, st1)"
    and res: "fe_resolve fe env get st = (Inr a, st0)"
    and t: "fe_parse_handle fe t = Inr h"
    and res2: "fe_resolve fe env2 get2 st1 = (Inr a, st2)"
  shows "\<exists>lineage p. lc_run_id lineage = Some fresh \<and> lc_parent_run lineage = Some p \<and>
      jr_run_id (pf_run p) = run_id \<and>
      do_get_statement fe env2 fresh t get2 st1 =
        (Inr (fe_execute fe (sst_heap st2 a) lineage (agent_context_from_metadata get2) plan),
         upd_session a (\<lambda>s. s\<lparr>se_statements := (se_statements s)(h := None)\<rparr>) st2)"
proof -
  from info_statement_ok [OF plan res] obtain s where
    s: "se_statements (sst_heap st1 a) h = Some s" "ss_plan s = plan" "lc_run_id (ss_lineage s) = Some run_id"
    and ok: "fe_verify fe plan = Inr ()" and nxt: "sst_next st1 = sst_next st0" by auto
  have "a < sst_next st1" using resolve_address [OF inv res] nxt by simp
  with resolve_statements [OF res2] s(1) have "se_statements (sst_heap st2 a) h = Some s" by simp
  from do_get_statement_ok [OF t res2 this, of fresh] s(2) ok
    execution_lineage_run [OF s(3), of "fe_config fe" fresh "principal_uid_at a st2" "agent_context_from_metadata get2"]
  show ?thesis by (auto simp: do_get_handle_def)
qed

text \<open>The next request for the handle in that session is refused.\<close>

lemma statement_gone:
  assumes "store_inv (fe_hash fe) st" and "fe_parse_handle fe t = Inr h"
    and "fe_resolve fe env get st = (Inr a, st1)"
    and "do_get_statement fe env fresh t get st = (r, st2)"
    and "fe_resolve fe env2 get2 st2 = (Inr a, st3)"
  shows "do_get_statement fe env2 fresh2 t get2 st2 = (Inl (handle_not_found h), st3)"
proof -
  have a: "a < sst_next st1" using resolve_address [OF assms(1,3)] by simp
  have st2: "se_statements (sst_heap st2 a) h = None \<and> sst_next st2 = sst_next st1"
  proof (cases "se_statements (sst_heap st1 a) h")
    case None
    with do_get_statement_unknown [OF assms(2,3) None, of fresh] assms(4) show ?thesis by auto
  next
    case (Some s)
    with do_get_statement_ok [OF assms(2,3) Some, of fresh] assms(4) show ?thesis
      by (auto simp: upd_session_def)
  qed
  with resolve_statements [OF assms(5), of a] a
  have "se_statements (sst_heap st3 a) h = None" by simp
  then show ?thesis by (rule do_get_statement_unknown [OF assms(2,5)])
qed

text \<open>A prepared statement is executed any number of times, and dropped by its age alone.\<close>

lemma prepared_statement_kept:
  assumes "do_get_prepared_statement fe env fresh t get st = (r, st')" and "b < sst_next st"
  shows "se_statements (sst_heap st' b) = se_statements (sst_heap st b)"
proof (cases "fe_parse_handle fe t")
  case (Inr h)
  obtain r1 st1 where res: "fe_resolve fe env get st = (r1, st1)" by fastforce
  with Inr assms(1) have "st' = st1"
    by (auto simp: do_get_prepared_statement_def Let_def split: sum.splits option.splits)
  with resolve_statements [OF res assms(2)] show ?thesis by simp
qed (use assms in \<open>auto simp: do_get_prepared_statement_def\<close>)

lemma closed_statement_gone:
  assumes "fe_parse_handle fe t = Inr h" and "fe_resolve fe env get st = (Inr a, st1)"
    and "do_action_close_prepared_statement fe env t get st = (r, st')"
  shows "r = Inr () \<and> se_statements (sst_heap st' a) h = None"
  using assms by (auto simp: do_action_close_prepared_statement_def upd_session_def)

end
