(* ===== verification/Server_Runs.thy ===== *)
theory Server_Runs
  imports Statement_Facts
begin

text \<open>
  The server as a state machine: one step for each handler and one for the sweeper. Every handler is a
  run of the store's own steps, so what the store guarantees holds in every state the server reaches.
\<close>

inductive server_step ::
  "('p, 'f, 'pl, 'r) flight_env \<Rightarrow> ('p, 'f, 'pl) session_store \<Rightarrow> ('p, 'f, 'pl) session_store \<Rightarrow> bool"
  for fe where
  handshake: "uuid_text (ce_store_uuid env) \<Longrightarrow>
    server_step fe st (snd (do_handshake (fe_check_uid fe) env get st))"
| plan_statement: "server_step fe st (snd (snd (get_flight_info_statement fe env run_id plan_id get q st)))"
| get_statement: "server_step fe st (snd (do_get_statement fe env fresh ticket get st))"
| create_prepared:
    "server_step fe st (snd (snd (do_action_create_prepared_statement fe env run_id plan_id get q st)))"
| prepared_info: "server_step fe st (snd (get_flight_info_prepared_statement fe env ticket get st))"
| get_prepared: "server_step fe st (snd (do_get_prepared_statement fe env fresh ticket get st))"
| close_prepared: "server_step fe st (snd (do_action_close_prepared_statement fe env ticket get st))"
| put_update: "server_step fe st (snd (snd (do_put_statement_update fe env run_id get sql st)))"
| put_prepared: "server_step fe st (snd (do_put_prepared_statement_update fe env ticket get st))"
| sweeper: "server_step fe st (store_sweep now st)"

section \<open>Handlers are runs of the store\<close>

abbreviation store_run ::
  "(string \<Rightarrow> 64 word) \<Rightarrow> ('p, 'f, 'pl) session_store \<Rightarrow> ('p, 'f, 'pl) session_store \<Rightarrow> bool" where
  "store_run hash \<equiv> (store_step hash)\<^sup>*\<^sup>*"

lemmas store_steps = store_step.intros [THEN r_into_rtranclp [where r = "store_step hash" for hash]]

lemma for_principal_run: "store_run hash st (snd (session_for_principal hash env who tok st))"
proof -
  obtain r st1 where en: "store_enrich who st = (r, st1)" by fastforce
  have "store_run hash st st1" using store_steps(4) [of hash st who] en by simp
  moreover have "store_run hash st1 (snd (ephemeral_for hash env p tok st1))" for p
    by (rule store_steps(3))
  ultimately show ?thesis
    by (cases r) (auto simp: session_for_principal_def en intro: rtranclp_trans)
qed

lemma resolve_run: "store_run hash st (snd (resolve_session check hash env get st))"
proof -
  define p where "p = (case session_id_from_metadata get of
      None \<Rightarrow> (None, st) | Some sid \<Rightarrow> store_get (ce_now env) sid st)"
  obtain o1 st1 where p1: "p = (o1, st1)" by fastforce
  have "store_run hash st st1"
    using store_steps(1) [of hash st "ce_now env"] p1
    by (auto simp: p_def split: option.splits) (metis snd_conv)
  moreover have "resolve_session check hash env get st = (case o1 of
        Some a \<Rightarrow> (Inr a, st1)
      | None \<Rightarrow> (case principal_from_headers (eg_principals (sst_engine st1)) check get of
             Inl e \<Rightarrow> (Inl (Status_invalid_argument e), st1)
           | Inr p \<Rightarrow> session_for_principal hash env p (uc_token_from_metadata get) st1))"
    using p1 by (simp add: resolve_session_def p_def)
  ultimately show ?thesis
    by (auto split: option.split sum.split intro: rtranclp_trans for_principal_run)
qed

lemma fe_resolve_run: "fe_resolve fe env get st = (r, st1) \<Longrightarrow> store_run (fe_hash fe) st st1"
  using resolve_run [of "fe_hash fe" st "fe_check_uid fe" env get] by (simp add: fe_resolve_def)

lemma statements_run:
  "store_run hash st st1 \<Longrightarrow>
     store_run hash st (upd_session a (\<lambda>s. s\<lparr>se_statements := f (se_statements s)\<rparr>) st1)"
  by (rule rtranclp.rtrancl_into_rtrancl) (auto intro: store_step.statements)

lemma statement_added_run:
  "store_run hash st st1 \<Longrightarrow>
     store_run hash st (upd_session a (\<lambda>s. s\<lparr>se_statements := (se_statements s)(h := x)\<rparr>) st1)"
  by (rule statements_run [where f = "\<lambda>m. m(h := x)"])

lemma handshake_run:
  assumes "uuid_text (ce_store_uuid env)"
  shows "store_run hash st (snd (do_handshake check env get st))"
proof (cases "principal_from_headers (eg_principals (sst_engine st)) check get")
  case (Inr p)
  obtain r st1 where en: "store_enrich p st = (r, st1)" by fastforce
  have "store_run hash st st1" using store_steps(4) [of hash st p] en by simp
  moreover have "store_run hash st1 (snd (store_create env q tok st1))" for q tok
    by (rule store_steps(2) [OF assms])
  ultimately have "store_run hash st (snd (store_create env q tok st1))" for q tok
    by (rule rtranclp_trans)
  with Inr en \<open>store_run hash st st1\<close> show ?thesis
    by (cases r) (simp_all add: do_handshake_def split: prod.split sum.split, metis snd_conv)
qed (simp add: do_handshake_def)

lemma server_step_run: "server_step fe st st' \<Longrightarrow> store_run (fe_hash fe) st st'"
proof (induction rule: server_step.induct)
  case (handshake env st get)
  then show ?case by (rule handshake_run)
next
  case (plan_statement st env run_id plan_id get q)
  show ?case
    by (cases "fe_resolve fe env get st")
      (auto simp: get_flight_info_statement_def Let_def fe_resolve_run statement_added_run split: sum.split)
next
  case (get_statement st env fresh ticket get)
  show ?case
    by (cases "fe_resolve fe env get st")
      (auto simp: do_get_statement_def Let_def fe_resolve_run statement_added_run split: sum.split option.split)
next
  case (create_prepared st env run_id plan_id get q)
  show ?case
    by (cases "fe_resolve fe env get st")
      (auto simp: do_action_create_prepared_statement_def Let_def fe_resolve_run statement_added_run
        split: sum.split)
next
  case (prepared_info st env ticket get)
  show ?case
    by (cases "fe_resolve fe env get st")
      (auto simp: get_flight_info_prepared_statement_def fe_resolve_run split: sum.split)
next
  case (get_prepared st env fresh ticket get)
  show ?case
    by (cases "fe_resolve fe env get st")
      (auto simp: do_get_prepared_statement_def Let_def fe_resolve_run split: sum.split option.split)
next
  case (close_prepared st env ticket get)
  show ?case
    by (cases "fe_resolve fe env get st")
      (auto simp: do_action_close_prepared_statement_def fe_resolve_run statement_added_run split: sum.split)
next
  case (put_update st env run_id get sql)
  show ?case
    by (cases "fe_resolve fe env get st")
      (auto simp: do_put_statement_update_def Let_def fe_resolve_run split: sum.split)
next
  case (put_prepared st env ticket get)
  show ?case
    by (cases "fe_resolve fe env get st")
      (auto simp: do_put_prepared_statement_update_def fe_resolve_run split: sum.split)
next
  case (sweeper st now)
  show ?case by (rule store_steps(6))
qed

section \<open>Reachable states\<close>

lemma server_reachable_run:
  "(server_step fe)\<^sup>*\<^sup>* st st' \<Longrightarrow> store_run (fe_hash fe) st st'"
  by (induction rule: rtranclp_induct) (auto intro: rtranclp_trans server_step_run)

lemma server_reachable_inv:
  "(server_step fe)\<^sup>*\<^sup>* (new_store e ttl blank) st \<Longrightarrow> principal_api_ok (eg_principals e)
    \<Longrightarrow> store_inv (fe_hash fe) st"
  by (rule reachable_inv [OF server_reachable_run])

lemma store_step_principals: "store_step hash st st' \<Longrightarrow> store_inv hash st \<Longrightarrow>
    eg_principals (sst_engine st') = eg_principals (sst_engine st)"
proof (induction rule: store_step.induct)
  case (ephemeral st env who tok)
  then show ?case
    using ephemeral_for_result [of hash st env who tok] by (metis surjective_pairing)
qed (auto simp: store_get_def upd_session_def store_create_def store_insert_def store_enrich_def
    engine_enrich_def store_sweep_def Let_def split: option.splits sum.splits prod.splits)

lemma server_reachable_principals:
  assumes "(server_step fe)\<^sup>*\<^sup>* (new_store e ttl blank) st" and "principal_api_ok (eg_principals e)"
  shows "eg_principals (sst_engine st) = eg_principals e"
  using server_reachable_run [OF assms(1)]
proof (induction rule: rtranclp_induct)
  case base
  then show ?case by (simp add: new_store_def)
next
  case (step st1 st2)
  then show ?case using store_step_principals [OF step(2) reachable_inv [OF step(1) assms(2)]] by simp
qed

section \<open>A second request\<close>

text \<open>What a first request without a session id leaves: its ephemeral session and its enrichment.\<close>

lemma store_enrich_cached:
  assumes "store_enrich who st = (Inr p, st1)" and "principal_api_ok (eg_principals (sst_engine st))"
  shows "(\<exists>c. eg_enrichment_cache (sst_engine st1) (pi_uid (eg_principals (sst_engine st)) who) = Some c) \<and>
    pi_uid (eg_principals (sst_engine st)) p = pi_uid (eg_principals (sst_engine st)) who \<and>
    eg_principals (sst_engine st1) = eg_principals (sst_engine st)"
  using assms
  by (auto simp: store_enrich_def engine_enrich_def principal_api_ok_def Let_def
      split: prod.splits option.splits sum.splits)

lemma for_principal_key:
  assumes inv: "store_inv hash st" and run: "session_for_principal hash env who tok st = (Inr a, st')"
  shows "store_inv hash st' \<and> eg_principals (sst_engine st') = eg_principals (sst_engine st) \<and>
    sst_sessions st' (ephemeral_key (eg_principals (sst_engine st)) hash who tok) = Some a \<and>
    (\<exists>c. eg_enrichment_cache (sst_engine st') (pi_uid (eg_principals (sst_engine st)) who) = Some c)"
proof -
  from run obtain p st1 where en: "store_enrich who st = (Inr p, st1)"
    and eph: "ephemeral_for hash env p tok st1 = (Inr a, st')"
    by (cases "store_enrich who st"; cases "fst (store_enrich who st)")
      (auto simp: session_for_principal_def map_prod_def split: prod.splits)
  have inv1: "store_inv hash st1" using store_inv_enrich [OF inv, of who] en by simp
  have api: "principal_api_ok (eg_principals (sst_engine st))" using inv by (simp add: store_inv_def)
  note cached = store_enrich_cached [OF en api]
  have "ephemeral_key (eg_principals (sst_engine st)) hash p tok
      = ephemeral_key (eg_principals (sst_engine st)) hash who tok"
    using cached by (simp add: ephemeral_key_eq)
  with ephemeral_for_result [OF inv1 eph] cached show ?thesis by simp
qed

lemma resolve_fresh:
  assumes "session_id_from_metadata get = None" and "fe_resolve fe env get st = (Inr a, st')"
  obtains p where "principal_from_headers (eg_principals (sst_engine st)) (fe_check_uid fe) get = Inr p"
    and "session_for_principal (fe_hash fe) env p (uc_token_from_metadata get) st = (Inr a, st')"
  using assms by (auto simp: fe_resolve_def resolve_session_def split: sum.splits)

text \<open>A later request of that principal and token finds the session.\<close>

lemma for_principal_found:
  assumes "store_inv hash st"
    and "sst_sessions st (ephemeral_key (eg_principals (sst_engine st)) hash who tok) = Some a"
    and "eg_enrichment_cache (sst_engine st) (pi_uid (eg_principals (sst_engine st)) who) = Some c"
  shows "session_for_principal hash env who tok st = (Inr a, upd_session a (session_touch (ce_now env)) st)"
proof -
  let ?api = "eg_principals (sst_engine st)"
  have en: "store_enrich who st = (Inr (pi_enriched ?api c who), st)"
    using assms(3) by (simp add: store_enrich_def engine_enrich_def Let_def)
  have "ephemeral_key ?api hash (pi_enriched ?api c who) tok = ephemeral_key ?api hash who tok"
    using assms(1) by (simp add: ephemeral_key_eq store_inv_def principal_api_ok_def)
  with assms(2) en show ?thesis
    by (simp add: session_for_principal_def ephemeral_for_def store_get_def)
qed

lemma resolve_again:
  assumes inv: "store_inv (fe_hash fe) st" and no_id: "session_id_from_metadata get = None"
    and first: "fe_resolve fe env get st = (Inr a, st1)"
    and no_id': "session_id_from_metadata get' = None"
    and same: "get' ''x-hydrofoil-principal'' = get ''x-hydrofoil-principal''"
      "uc_token_from_metadata get' = uc_token_from_metadata get"
  shows "fe_resolve fe env' get' st1 = (Inr a, upd_session a (session_touch (ce_now env')) st1)"
proof -
  let ?api = "eg_principals (sst_engine st)" and ?tok = "uc_token_from_metadata get"
  have api: "principal_api_ok ?api" using inv by (simp add: store_inv_def)
  from resolve_fresh [OF no_id first] obtain p where
    p: "principal_from_headers ?api (fe_check_uid fe) get = Inr p"
    and sp: "session_for_principal (fe_hash fe) env p ?tok st = (Inr a, st1)" .
  note key = for_principal_key [OF inv sp]
  from p same obtain p' where p': "principal_from_headers ?api (fe_check_uid fe) get' = Inr p'"
    by (auto simp: principal_from_headers_def Let_def try_bind_Inr_iff)
  have uid: "pi_uid ?api p' = pi_uid ?api p"
    using principal_uid [OF api p] principal_uid [OF api p'] same(1) by simp
  then have "ephemeral_key ?api (fe_hash fe) p' ?tok = ephemeral_key ?api (fe_hash fe) p ?tok"
    by (simp add: ephemeral_key_eq)
  with key uid have "session_for_principal (fe_hash fe) env' p' ?tok st1
      = (Inr a, upd_session a (session_touch (ce_now env')) st1)"
    by (metis for_principal_found)
  with p' same(2) no_id' key show ?thesis by (simp add: fe_resolve_def resolve_session_def)
qed

text \<open>And so does a request of anyone that sends the session's key as its session id.\<close>

lemma resolve_by_key:
  assumes inv: "store_inv (fe_hash fe) st" and no_id: "session_id_from_metadata get = None"
    and no_tok: "uc_token_from_metadata get = None" and first: "fe_resolve fe env get st = (Inr a, st1)"
    and k: "get' ''x-session-id'' = Some
      (''ephemeral:'' @ unwrap_or DEFAULT_PRINCIPAL (get ''x-hydrofoil-principal'') @ '':shared'')"
  shows "fe_resolve fe env' get' st1 = (Inr a, upd_session a (session_touch (ce_now env')) st1)"
proof -
  have api: "principal_api_ok (eg_principals (sst_engine st))" using inv by (simp add: store_inv_def)
  from resolve_fresh [OF no_id first] obtain p where
    p: "principal_from_headers (eg_principals (sst_engine st)) (fe_check_uid fe) get = Inr p"
    and sp: "session_for_principal (fe_hash fe) env p (uc_token_from_metadata get) st = (Inr a, st1)" .
  have "ephemeral_key (eg_principals (sst_engine st)) (fe_hash fe) p None
      = ''ephemeral:'' @ unwrap_or DEFAULT_PRINCIPAL (get ''x-hydrofoil-principal'') @ '':shared''"
    by (simp add: ephemeral_key_def principal_uid [OF api p] uc_token_fingerprint_def)
  with for_principal_key [OF inv sp] no_tok
  have "sst_sessions st1 (''ephemeral:'' @ unwrap_or DEFAULT_PRINCIPAL (get ''x-hydrofoil-principal'') @ '':shared'')
      = Some a" by metis
  from resolve_session_by_id [where get = get', OF this k] show ?thesis by (simp only: fe_resolve_def)
qed

text \<open>The id of a handshake resolves to the session it opened.\<close>

lemma handshake_session:
  assumes api: "principal_api_ok (eg_principals (sst_engine st))"
    and run: "do_handshake check env get st = (Inr (sid, md), st1)"
  shows "\<exists>a. sst_sessions st1 sid = Some a \<and>
    principal_uid_at a st1 = unwrap_or DEFAULT_PRINCIPAL (get ''x-hydrofoil-principal'')"
proof -
  from run obtain p p' st2 a where p: "principal_from_headers (eg_principals (sst_engine st)) check get = Inr p"
    and en: "store_enrich p st = (Inr p', st2)"
    and cr: "store_create env p' (uc_token_from_metadata get) st2 = (Inr (sid, a), st1)"
    by (auto simp: do_handshake_def split: sum.splits prod.splits)
  from cr have "sst_sessions st1 sid = Some a" "se_principal (sst_heap st1 a) = p'"
    "eg_principals (sst_engine st1) = eg_principals (sst_engine st2)"
    by (auto simp: store_create_def store_insert_def new_session_def try_bind_Inr_iff Let_def
        split: sum.splits option.splits)
  with store_enrich_cached [OF en api] principal_uid [OF api p] show ?thesis
    by (auto simp: principal_uid_at_def)
qed

section \<open>Requests with a session id\<close>

lemma resolve_id:
  "sst_sessions st sid = Some a \<Longrightarrow> get ''x-session-id'' = Some sid
    \<Longrightarrow> fe_resolve fe env get st = (Inr a, upd_session a (session_touch (ce_now env)) st)"
  by (simp add: fe_resolve_def resolve_session_by_id)

text \<open>A client that executes a prepared statement again and again: the answers, in order.\<close>

fun prepared_gets ::
  "('p, 'f, 'pl, 'r) flight_env \<Rightarrow> bytes \<Rightarrow> (call_env \<times> string \<times> headers) list \<Rightarrow> ('p, 'f, 'pl) session_store
    \<Rightarrow> (status + 'r) list \<times> ('p, 'f, 'pl) session_store" where
  "prepared_gets fe t [] st = ([], st)"
| "prepared_gets fe t ((env, fresh, get) # reqs) st =
     (let (r, st1) = do_get_prepared_statement fe env fresh t get st;
          (rs, st2) = prepared_gets fe t reqs st1
      in (r # rs, st2))"

lemma prepared_get_by_id:
  assumes "fe_parse_handle fe t = Inr h" and "sst_sessions st sid = Some a"
    and "se_statements (sst_heap st a) h = Some s" and "fe_verify fe (ss_plan s) = Inr ()"
    and "get ''x-session-id'' = Some sid"
  shows "do_get_prepared_statement fe env fresh t get st =
    (Inr (fe_execute fe (session_touch (ce_now env) (sst_heap st a))
       (execution_lineage (fe_config fe) fresh (principal_uid_at a st) (agent_context_from_metadata get)
          (ss_lineage s)) (agent_context_from_metadata get) (ss_plan s)),
     upd_session a (session_touch (ce_now env)) st)"
  using assms(1,3,4) resolve_id [where fe = fe and get = get, OF assms(2,5)]
  by (simp add: do_get_prepared_statement_def do_get_handle_def upd_session_def session_touch_def
      principal_uid_at_def Let_def)

lemma prepared_gets_by_id:
  assumes "fe_parse_handle fe t = Inr h" and "sst_sessions st sid = Some a"
    and "se_statements (sst_heap st a) h = Some s" and "fe_verify fe (ss_plan s) = Inr ()"
    and "\<forall>(env, fresh, get) \<in> set reqs. get ''x-session-id'' = Some sid"
  shows "list_all2 (\<lambda>(env, fresh, get) r. \<exists>se. r = Inr (fe_execute fe se
       (execution_lineage (fe_config fe) fresh (principal_uid_at a st) (agent_context_from_metadata get)
          (ss_lineage s)) (agent_context_from_metadata get) (ss_plan s)))
     reqs (fst (prepared_gets fe t reqs st))"
  using assms(2,3,5)
proof (induction reqs arbitrary: st)
  case (Cons req reqs)
  obtain env fresh get where req: "req = (env, fresh, get)" by (cases req)
  let ?st = "upd_session a (session_touch (ce_now env)) st"
  have "sst_sessions ?st sid = Some a" "se_statements (sst_heap ?st a) h = Some s"
    and uid: "principal_uid_at a ?st = principal_uid_at a st"
    using Cons.prems by (simp_all add: upd_session_def session_touch_def principal_uid_at_def)
  note rest = Cons.IH [OF this(1,2)]
  have "get ''x-session-id'' = Some sid" using Cons.prems(3) req by auto
  from prepared_get_by_id [where get = get, OF assms(1) Cons.prems(1,2) assms(4) this] rest uid Cons.prems(3) req
  show ?case by (auto simp: case_prod_unfold Let_def)
qed simp

section \<open>Statements stay in their session\<close>

lemma plan_statement_elsewhere:
  assumes inv: "store_inv (fe_hash fe) st"
    and plan: "get_flight_info_statement fe env run_id h get q st = (Inr (h', plan), ev, st1)"
    and res: "fe_resolve fe env get st = (Inr a, st0)"
    and t: "fe_parse_handle fe t = Inr h"
    and res2: "fe_resolve fe env2 get2 st1 = (Inr b, st2)" and "b \<noteq> a" and "b < sst_next st"
    and "se_statements (sst_heap st b) h = None"
  shows "do_get_statement fe env2 fresh t get2 st1 = (Inl (handle_not_found h), st2)"
proof -
  note ok = info_statement_ok [OF plan res]
  have "sst_next st \<le> sst_next st0"
    using same_statements_resolve [of st "fe_check_uid fe" "fe_hash fe" env get] res
    by (simp add: same_statements_def fe_resolve_def)
  with assms(7) ok have "b < sst_next st1" by simp
  then have "se_statements (sst_heap st2 b) h = se_statements (sst_heap st1 b) h"
    using resolve_statements [OF res2] by simp
  also have "\<dots> = None"
    using ok assms(6,8) resolve_statements [OF res assms(7)] by simp
  finally show ?thesis by (rule do_get_statement_unknown [OF t res2])
qed

section \<open>Sweeps and prepared statements\<close>

text \<open>A session used at the time of a sweep survives it, if its clock is sound.\<close>

lemma swept_while_used:
  assumes "sst_sessions st sid = Some a" and "se_statements (sst_heap st a) h = Some s"
    and "0 < sst_ttl st" and "ss_created_at s + sst_ttl st \<le> now"
  shows "sst_sessions (store_sweep now (upd_session a (session_touch now) st)) sid = Some a \<and>
    se_statements (sst_heap (store_sweep now (upd_session a (session_touch now) st)) a) h = None"
proof -
  let ?st = "upd_session a (session_touch now) st"
  have "sst_sessions ?st sid = Some a" using assms(1) by (simp add: upd_session_def)
  moreover have "session_idle now (sst_heap ?st a) = 0"
    by (simp add: upd_session_def session_idle_def session_touch_def)
  moreover have "sst_ttl ?st = sst_ttl st" by (simp add: upd_session_def)
  ultimately have kept: "sst_sessions (store_sweep now ?st) sid = Some a"
    using assms(3) by (simp add: store_sweep_sessions)
  have "se_statements (sst_heap ?st a) h = Some s"
    using assms(2) by (simp add: upd_session_def session_touch_def)
  moreover have "\<not> now - ss_created_at s < sst_ttl ?st"
    using assms(4) by (simp add: upd_session_def)
  ultimately have "se_statements (sst_heap (store_sweep now ?st) a) h = None"
    using store_sweep_statements [OF kept, of h] by (metis not_Some_eq option.inject)
  with kept show ?thesis ..
qed

end
