(* ===== verification/Server_Properties.thy ===== *)
theory Server_Properties
  imports Server_Runs
begin

text \<open>
  The properties of the query server: whose session a request runs in, how often a statement runs, what
  the sweeper drops, the lineage of an execution, and the groups a principal is enriched with.
\<close>

section \<open>A concrete server\<close>

text \<open>
  A principal as its uid and its attributes, an engine with the default identity provider, and a planner
  whose plans are the statements' texts: the instance the witnesses run on.
\<close>

type_synonym who0 = "string \<times> (string \<times> string) list"

definition api0 :: "who0 principal_api" where
  "api0 = \<lparr>pi_new = \<lambda>u. (u, []), pi_with_attribute = \<lambda>k v p. (fst p, snd p @ [(k, v)]),
     pi_enriched = \<lambda>e p. (fst p, snd p @ en_attributes e), pi_uid = fst\<rparr>"

lemma api0_ok [simp]: "principal_api_ok api0"
  by (simp add: principal_api_ok_def api0_def)

definition engine0 :: "(who0, string) engine" where
  "engine0 = with_identity_provider (\<lambda>u. Inr (config_enrich default_identity_provider u))
     (new_engine api0 (\<lambda>e r t. Inr t) None)"

definition store0 :: "(who0, string, string) session_store" where
  "store0 = new_store engine0 1000
     (\<lambda>_. \<lparr>se_correlation_id = [], se_principal = ([], []), se_unity = None, se_statements = Map.empty,
          se_created_at = 0, se_last_used_ms = 0\<rparr>)"

lemma engine0_principals [simp]: "eg_principals engine0 = api0"
  by (simp add: engine0_def with_identity_provider_def new_engine_def)

lemma api0_sel [simp]: "pi_uid api0 = fst" "pi_enriched api0 c p = (fst p, snd p @ en_attributes c)"
  by (simp_all add: api0_def)

lemma store0_inv [simp]: "store_inv hash store0"
  by (simp add: store0_def store_inv_new)

definition call0 :: "nat \<Rightarrow> call_env" where
  "call0 now = \<lparr>ce_now = now, ce_session_uuid = ''c0'', ce_store_uuid = ''s0'', ce_ctx_error = None\<rparr>"

definition check0 :: "string \<Rightarrow> string + unit" where
  "check0 u = Inr ()"

definition server0 :: "(who0, string, string, string) flight_env" where
  "server0 = \<lparr>fe_check_uid = check0, fe_hash = fnv1a_64,
     fe_config = \<lparr>lcfg_producer = ''hydrofoil'', lcfg_job_namespace = ''default''\<rparr>,
     fe_plan = \<lambda>s lin agent q. Inr q, fe_verify = \<lambda>p. Inr (), fe_execute = \<lambda>s lin agent p. p,
     fe_parse_handle = \<lambda>b. Inr (map (\<lambda>x. char_of (unat x)) b), fe_encode_schema = \<lambda>p. Inr [],
     fe_update = \<lambda>s p. Inr (Inr ())\<rparr>"

definition as_user :: "string \<Rightarrow> headers" where
  "as_user name = [''x-hydrofoil-principal'' \<mapsto> quoted ''User'' name]"

section \<open>Whose session a request runs in\<close>

text \<open>
  C7. In every state the server reaches, whatever requests and sweeps came before, a session stored
  under a principal's ephemeral key runs as that principal, with the catalog access that a token of the
  key's fingerprint gives.
\<close>

theorem ephemeral_sessions_owned:
  assumes "(server_step fe)\<^sup>*\<^sup>* (new_store e ttl blank) st" and "principal_api_ok (eg_principals e)"
    and "sst_sessions st (ephemeral_key (eg_principals e) (fe_hash fe) who tok) = Some a"
  shows "pi_uid (eg_principals e) (se_principal (sst_heap st a)) = pi_uid (eg_principals e) who \<and>
    (\<exists>tok'. uc_token_fingerprint (fe_hash fe) tok' = uc_token_fingerprint (fe_hash fe) tok \<and>
       unity_factory_for tok' (sst_engine st) = Inr (se_unity (sst_heap st a)))"
  using server_reachable_inv [OF assms(1,2)] server_reachable_principals [OF assms(1,2)] assms(3)
  by (auto simp: store_inv_def owned_by_def)

theorem ephemeral_sessions_owned_witness:
  "\<exists>a. fst (se_principal (sst_heap
     (snd (do_get_statement server0 (call0 5) ''f'' [] (as_user ''alice'') store0)) a)) = quoted ''User'' ''alice''"
proof -
  define st where "st = snd (do_get_statement server0 (call0 5) ''f'' [] (as_user ''alice'') store0)"
  have "(server_step server0)\<^sup>*\<^sup>* store0 st"
    unfolding st_def by (rule r_into_rtranclp, rule server_step.get_statement)
  then have run: "(server_step server0)\<^sup>*\<^sup>* (new_store engine0 1000 (sst_heap store0)) st"
    by (simp add: store0_def new_store_def)
  have "sst_sessions st (ephemeral_key api0 fnv1a_64 (quoted ''User'' ''alice'', []) None) = Some 0"
    unfolding st_def by code_simp
  moreover have "fe_hash server0 = fnv1a_64" by (simp add: server0_def)
  ultimately have "sst_sessions st (ephemeral_key (eg_principals engine0) (fe_hash server0)
      (quoted ''User'' ''alice'', []) None) = Some 0" by simp
  from ephemeral_sessions_owned [OF run _ this]
  have "fst (se_principal (sst_heap st 0)) = quoted ''User'' ''alice''"
    by simp
  then show ?thesis unfolding st_def by - (rule exI)
qed

text \<open>
  C8. In every state the server reaches, a request that carries no session id and is accepted runs in a
  session of the principal its header names, or of the anonymous one.
\<close>

theorem request_runs_as_header:
  assumes "(server_step fe)\<^sup>*\<^sup>* (new_store e ttl blank) st" and "principal_api_ok (eg_principals e)"
    and "session_id_from_metadata get = None" and "fe_resolve fe env get st = (Inr a, st')"
  shows "principal_uid_at a st' = unwrap_or DEFAULT_PRINCIPAL (get ''x-hydrofoil-principal'')"
  using resolve_session_uid [OF server_reachable_inv [OF assms(1,2)] assms(3)] assms(4)
  by (simp add: fe_resolve_def)

theorem request_runs_as_header_witness:
  "principal_uid_at 0 (snd (fe_resolve server0 (call0 5) Map.empty store0)) = DEFAULT_PRINCIPAL"
proof -
  have "(server_step server0)\<^sup>*\<^sup>* (new_store engine0 1000 (sst_heap store0)) store0"
    by (simp add: store0_def new_store_def)
  moreover have "session_id_from_metadata Map.empty = None" by code_simp
  moreover have "fst (fe_resolve server0 (call0 5) Map.empty store0) = Inr 0" by code_simp
  then have "fe_resolve server0 (call0 5) Map.empty store0
      = (Inr 0, snd (fe_resolve server0 (call0 5) Map.empty store0))"
    by (metis prod.collapse)
  ultimately show ?thesis
    using request_runs_as_header [of server0 engine0 1000 "sst_heap store0" store0 Map.empty] by simp
qed

text \<open>
  C21. A session id is looked up among the keys of the ephemeral sessions too, and those are guessable:
  after a principal's request without a session id and without a catalog token, any request that sends
  \<^verbatim>\<open>ephemeral:\<close>, the principal's uid and \<^verbatim>\<open>:shared\<close> as its session id runs in the principal's session, as
  that principal, whatever its own principal header says.
\<close>

theorem ephemeral_key_as_session_id:
  assumes "(server_step fe)\<^sup>*\<^sup>* (new_store e ttl blank) st" and "principal_api_ok (eg_principals e)"
    and "session_id_from_metadata get = None" and "uc_token_from_metadata get = None"
    and "fe_resolve fe env get st = (Inr a, st1)"
    and "other ''x-session-id'' = Some
      (''ephemeral:'' @ unwrap_or DEFAULT_PRINCIPAL (get ''x-hydrofoil-principal'') @ '':shared'')"
  shows "fst (fe_resolve fe env' other st1) = Inr a \<and>
    principal_uid_at a (snd (fe_resolve fe env' other st1))
      = unwrap_or DEFAULT_PRINCIPAL (get ''x-hydrofoil-principal'')"
proof -
  note inv = server_reachable_inv [OF assms(1,2)]
  have "principal_uid_at a st1 = unwrap_or DEFAULT_PRINCIPAL (get ''x-hydrofoil-principal'')"
    using resolve_session_uid [OF inv assms(3)] assms(5) by (simp add: fe_resolve_def)
  then show ?thesis
    using resolve_by_key [where get = get and get' = other, OF inv assms(3-6)]
    by (simp add: principal_uid_at_def upd_session_def session_touch_def)
qed

lemma store0_reachable: "(server_step fe)\<^sup>*\<^sup>* (new_store engine0 1000 (sst_heap store0)) store0"
  by (simp add: store0_def new_store_def)

theorem ephemeral_key_as_session_id_witness:
  "fst (fe_resolve server0 (call0 9)
      [''x-hydrofoil-principal'' \<mapsto> quoted ''User'' ''mallory'',
       ''x-session-id'' \<mapsto> ''ephemeral:User::'' @ [CHR 0x22] @ ''alice'' @ [CHR 0x22] @ '':shared'']
      (snd (fe_resolve server0 (call0 5) (as_user ''alice'') store0))) = Inr 0"
proof -
  define st1 where "st1 = snd (fe_resolve server0 (call0 5) (as_user ''alice'') store0)"
  have "fst (fe_resolve server0 (call0 5) (as_user ''alice'') store0) = Inr 0" by code_simp
  then have first: "fe_resolve server0 (call0 5) (as_user ''alice'') store0 = (Inr 0, st1)"
    unfolding st1_def by (metis prod.collapse)
  have no_id: "session_id_from_metadata (as_user ''alice'') = None" by code_simp
  have no_tok: "uc_token_from_metadata (as_user ''alice'') = None" by code_simp
  show ?thesis
    unfolding st1_def [symmetric]
    using ephemeral_key_as_session_id [OF store0_reachable _ no_id no_tok first,
        where env' = "call0 9" and other = "[''x-hydrofoil-principal'' \<mapsto> quoted ''User'' ''mallory'',
          ''x-session-id'' \<mapsto> ''ephemeral:User::'' @ [CHR 0x22] @ ''alice'' @ [CHR 0x22] @ '':shared'']"]
    by (simp add: as_user_def quoted_def unwrap_or_def)
qed

text \<open>
  Two requests of one principal race: both find no session and build one. Whichever inserts first,
  both run in that session.
\<close>

theorem racing_requests_share_session:
  "fst (ephemeral_insert now2 key s2 (snd (ephemeral_insert now1 key s1 st)))
     = fst (ephemeral_insert now1 key s1 st)"
  using ephemeral_race by (metis prod.collapse)

text \<open>
  A principal's later request without a session id runs in the session of the first, with the
  principal value the first one built: the role and region headers of later requests have no effect.
\<close>

theorem later_attributes_ignored:
  assumes "(server_step fe)\<^sup>*\<^sup>* (new_store e ttl blank) st" and "principal_api_ok (eg_principals e)"
    and "session_id_from_metadata get = None" and "fe_resolve fe env get st = (Inr a, st1)"
    and "session_id_from_metadata get' = None"
    and "get' ''x-hydrofoil-principal'' = get ''x-hydrofoil-principal''"
    and "uc_token_from_metadata get' = uc_token_from_metadata get"
  shows "fst (fe_resolve fe env' get' st1) = Inr a \<and>
    se_principal (sst_heap (snd (fe_resolve fe env' get' st1)) a) = se_principal (sst_heap st1 a)"
  using resolve_again [OF server_reachable_inv [OF assms(1,2)] assms(3-7)]
  by (simp add: upd_session_def session_touch_def)

theorem later_attributes_ignored_witness:
  "se_principal (sst_heap (snd (fe_resolve server0 (call0 9)
      ((as_user ''alice'')(''x-hydrofoil-role'' \<mapsto> ''admin''))
      (snd (fe_resolve server0 (call0 5) (as_user ''alice'') store0)))) 0)
   = (quoted ''User'' ''alice'', [(''region'', ''eu'')])"
proof -
  define st1 where "st1 = snd (fe_resolve server0 (call0 5) (as_user ''alice'') store0)"
  let ?get = "(as_user ''alice'')(''x-hydrofoil-role'' \<mapsto> ''admin'')"
  have "fst (fe_resolve server0 (call0 5) (as_user ''alice'') store0) = Inr 0" by code_simp
  then have first: "fe_resolve server0 (call0 5) (as_user ''alice'') store0 = (Inr 0, st1)"
    unfolding st1_def by (metis prod.collapse)
  have no_id: "session_id_from_metadata (as_user ''alice'') = None" by code_simp
  have no_id': "session_id_from_metadata ?get = None" by code_simp
  have "?get ''x-hydrofoil-principal'' = as_user ''alice'' ''x-hydrofoil-principal''" by code_simp
  moreover have "uc_token_from_metadata ?get = uc_token_from_metadata (as_user ''alice'')" by code_simp
  moreover have "se_principal (sst_heap st1 0) = (quoted ''User'' ''alice'', [(''region'', ''eu'')])"
    unfolding st1_def by code_simp
  ultimately show ?thesis
    unfolding st1_def [symmetric]
    using later_attributes_ignored [OF store0_reachable _ no_id first no_id', where env' = "call0 9"] by simp
qed

text \<open>
  The session id of a successful handshake resolves to a session of the principal in the
  handshake's headers.
\<close>

theorem handshake_id_resolves:
  assumes "(server_step fe)\<^sup>*\<^sup>* (new_store e ttl blank) st" and "principal_api_ok (eg_principals e)"
    and "do_handshake (fe_check_uid fe) env get st = (Inr (sid, md), st1)"
    and "get' ''x-session-id'' = Some sid"
  shows "\<exists>a. fst (fe_resolve fe env' get' st1) = Inr a \<and>
    principal_uid_at a (snd (fe_resolve fe env' get' st1))
      = unwrap_or DEFAULT_PRINCIPAL (get ''x-hydrofoil-principal'')"
proof -
  have "principal_api_ok (eg_principals (sst_engine st))"
    using server_reachable_inv [OF assms(1,2)] by (simp add: store_inv_def)
  from handshake_session [OF this assms(3)] obtain a where "sst_sessions st1 sid = Some a"
    and uid: "principal_uid_at a st1 = unwrap_or DEFAULT_PRINCIPAL (get ''x-hydrofoil-principal'')" by blast
  from resolve_session_by_id [where get = get', OF this(1) assms(4)]
  have "fe_resolve fe env' get' st1 = (Inr a, upd_session a (session_touch (ce_now env')) st1)"
    by (simp add: fe_resolve_def)
  with uid show ?thesis
    by (simp add: principal_uid_at_def upd_session_def session_touch_def)
qed

theorem handshake_id_resolves_witness:
  "\<exists>a. principal_uid_at a (snd (fe_resolve server0 (call0 9) [''x-session-id'' \<mapsto> ''s0'']
     (snd (do_handshake check0 (call0 5) (as_user ''bob'') store0)))) = quoted ''User'' ''bob''"
proof -
  define md where "md = [(''authorization'', ''Bearer s0''), (''x-session-id'', ''s0'')]"
  define st1 where "st1 = snd (do_handshake check0 (call0 5) (as_user ''bob'') store0)"
  have "fst (do_handshake check0 (call0 5) (as_user ''bob'') store0) = Inr (''s0'', md)"
    unfolding md_def by code_simp
  moreover have "fe_check_uid server0 = check0" by (simp add: server0_def)
  ultimately have "do_handshake (fe_check_uid server0) (call0 5) (as_user ''bob'') store0 = (Inr (''s0'', md), st1)"
    unfolding st1_def by (metis prod.collapse)
  from handshake_id_resolves [OF store0_reachable _ this, where env' = "call0 9" and get' = "[''x-session-id'' \<mapsto> ''s0'']"]
  show ?thesis unfolding st1_def [symmetric] by (auto simp: as_user_def unwrap_or_def)
qed

text \<open>
  The identity provider is asked once for a uid: after a successful enrichment, a principal with the
  same uid is enriched with the same facts, whatever the provider would answer then.
\<close>

theorem enrichment_is_cached:
  assumes "principal_api_ok (eg_principals e)" and "engine_enrich who e = (Inr p, e1)"
    and "pi_uid (eg_principals e) who' = pi_uid (eg_principals e) who"
  shows "\<exists>c. p = pi_enriched (eg_principals e) c who \<and>
    engine_enrich who' (with_identity_provider f e1)
      = (Inr (pi_enriched (eg_principals e) c who'), with_identity_provider f e1)"
  using assms
  by (auto simp: engine_enrich_def with_identity_provider_def Let_def split: option.splits sum.splits)

theorem enrichment_is_cached_witness:
  "fst (engine_enrich (quoted ''User'' ''bob'', [(''role'', ''x'')]) (with_identity_provider (\<lambda>_. Inl ''down'')
     (snd (engine_enrich (quoted ''User'' ''bob'', []) engine0))))
   = Inr (quoted ''User'' ''bob'', [(''role'', ''x''), (''region'', ''us'')])"
proof -
  define e1 where "e1 = snd (engine_enrich (quoted ''User'' ''bob'', []) engine0)"
  have "fst (engine_enrich (quoted ''User'' ''bob'', []) engine0) = Inr (quoted ''User'' ''bob'', [(''region'', ''us'')])"
    by code_simp
  then have "engine_enrich (quoted ''User'' ''bob'', []) engine0
      = (Inr (quoted ''User'' ''bob'', [(''region'', ''us'')]), e1)"
    unfolding e1_def by (metis prod.collapse)
  from enrichment_is_cached [OF _ this, of "(quoted ''User'' ''bob'', [(''role'', ''x'')])" "\<lambda>_. Inl ''down''"]
  show ?thesis unfolding e1_def [symmetric] by auto
qed

section \<open>Statements\<close>



text \<open>
  A handle is good in the session that planned it only: a request that resolves to any other session
  that existed before, and does not itself hold the handle, is refused.
\<close>

theorem statement_unknown_elsewhere:
  assumes "(server_step fe)\<^sup>*\<^sup>* (new_store e ttl blank) st" and "principal_api_ok (eg_principals e)"
    and "get_flight_info_statement fe env run_id h get q st = (Inr (h', plan), ev, st1)"
    and "fe_resolve fe env get st = (Inr a, st0)" and "fe_parse_handle fe t = Inr h"
    and "fe_resolve fe env2 get2 st1 = (Inr b, st2)" and "b \<noteq> a" and "b < sst_next st"
    and "se_statements (sst_heap st b) h = None"
  shows "fst (do_get_statement fe env2 fresh t get2 st1) = Inl (handle_not_found h)"
  using plan_statement_elsewhere [OF server_reachable_inv [OF assms(1,2)] assms(3-9)] by simp

theorem statement_unknown_elsewhere_witness:
  "let st = snd (fe_resolve server0 (call0 4) (as_user ''bob'') store0);
       st1 = snd (snd (get_flight_info_statement server0 (call0 5) ''r'' ''h'' (as_user ''alice'') ''SELECT 1'' st))
   in fst (do_get_statement server0 (call0 6) ''f'' [104] (as_user ''bob'') st1) = Inl (handle_not_found ''h'')"
proof -
  let ?alice = "as_user ''alice''" and ?bob = "as_user ''bob''"
  define st where "st = snd (fe_resolve server0 (call0 4) ?bob store0)"
  define st1 where "st1 = snd (snd (get_flight_info_statement server0 (call0 5) ''r'' ''h'' ?alice ''SELECT 1'' st))"
  have "get_flight_info_prepared_statement server0 (call0 4) [104] ?bob store0 = (Inl (handle_not_found ''h''), st)"
    unfolding st_def by (rule prod_eqI) (simp only: fst_conv snd_conv, code_simp, simp add:
        get_flight_info_prepared_statement_def server0_def split: prod.split sum.split)
  then have reach: "(server_step server0)\<^sup>*\<^sup>* (new_store engine0 1000 (sst_heap store0)) st"
    using store0_reachable [of server0] server_step.prepared_info [of server0 store0 "call0 4" "[104]" ?bob]
    by (simp add: rtranclp.rtrancl_into_rtrancl)
  have "fst (get_flight_info_statement server0 (call0 5) ''r'' ''h'' ?alice ''SELECT 1'' st) = Inr (''h'', ''SELECT 1'')"
    unfolding st_def by code_simp
  moreover have "fst (snd (get_flight_info_statement server0 (call0 5) ''r'' ''h'' ?alice ''SELECT 1'' st)) = []"
    unfolding st_def by code_simp
  ultimately have plan: "get_flight_info_statement server0 (call0 5) ''r'' ''h'' ?alice ''SELECT 1'' st
      = (Inr (''h'', ''SELECT 1''), [], st1)"
    unfolding st1_def by (simp add: prod_eq_iff)
  have h: "fe_parse_handle server0 [104] = Inr ''h''" by code_simp
  have r1: "fe_resolve server0 (call0 5) ?alice st = (Inr 1, snd (fe_resolve server0 (call0 5) ?alice st))"
    unfolding st_def by (rule fst_snd_eq) code_simp
  have r2: "fe_resolve server0 (call0 6) ?bob st1 = (Inr 0, snd (fe_resolve server0 (call0 6) ?bob st1))"
    unfolding st1_def st_def by (rule fst_snd_eq) code_simp
  have nxt: "0 < sst_next st" unfolding st_def by code_simp
  have none: "se_statements (sst_heap st 0) ''h'' = None" unfolding st_def by code_simp
  from statement_unknown_elsewhere [OF reach _ plan r1 h r2 _ nxt none, of "''f''"]
  show ?thesis by (simp add: st1_def st_def Let_def)
qed

text \<open>
  A prepared statement executes as often as its handle is asked for by the session's id: each answer
  runs the stored plan for the session's principal, under the lineage of an execution of its own.
\<close>

theorem prepared_statement_repeats:
  assumes "fe_parse_handle fe t = Inr h" and "sst_sessions st sid = Some a"
    and "se_statements (sst_heap st a) h = Some s" and "fe_verify fe (ss_plan s) = Inr ()"
    and "\<forall>(env, fresh, get) \<in> set reqs. get ''x-session-id'' = Some sid"
  shows "list_all2 (\<lambda>(env, fresh, get) r. \<exists>se. r = Inr (fe_execute fe se
       (execution_lineage (fe_config fe) fresh (principal_uid_at a st) (agent_context_from_metadata get)
          (ss_lineage s)) (agent_context_from_metadata get) (ss_plan s)))
     reqs (fst (prepared_gets fe t reqs st))"
  by (rule prepared_gets_by_id [OF assms])

theorem prepared_statement_repeats_witness:
  "fst (prepared_gets server0 [104] [(call0 6, ''f'', [''x-session-id'' \<mapsto> ''s'']), (call0 7, ''g'', [''x-session-id'' \<mapsto> ''s''])]
     (store0\<lparr>sst_sessions := [''s'' \<mapsto> 0], sst_next := 1,
       sst_heap := (\<lambda>_. (sst_heap store0 0)\<lparr>se_statements := [''h'' \<mapsto>
         \<lparr>ss_plan = ''SELECT 1'', ss_lineage = context_from_metadata Map.empty (fe_config server0), ss_created_at = 5\<rparr>]\<rparr>)\<rparr>))
   = [Inr ''SELECT 1'', Inr ''SELECT 1'']"
proof -
  let ?s = "\<lparr>ss_plan = ''SELECT 1'', ss_lineage = context_from_metadata Map.empty (fe_config server0), ss_created_at = 5\<rparr>"
  define st where "st = store0\<lparr>sst_sessions := [''s'' \<mapsto> 0], sst_next := 1,
      sst_heap := (\<lambda>_. (sst_heap store0 0)\<lparr>se_statements := [''h'' \<mapsto> ?s]\<rparr>)\<rparr>"
  have h: "fe_parse_handle server0 [104] = Inr ''h''" by code_simp
  have "sst_sessions st ''s'' = Some 0" "se_statements (sst_heap st 0) ''h'' = Some ?s"
    by (simp_all add: st_def)
  moreover have "fe_verify server0 (ss_plan ?s) = Inr ()" by (simp add: server0_def)
  ultimately show ?thesis
    using prepared_statement_repeats [OF h, of st "''s''" 0 ?s
        "[(call0 6, ''f'', [''x-session-id'' \<mapsto> ''s'']), (call0 7, ''g'', [''x-session-id'' \<mapsto> ''s''])]"]
    unfolding st_def [symmetric] by (auto simp: list_all2_Cons1 server0_def)
qed

section \<open>Sweeps\<close>

text \<open>
  A sweep keeps exactly the sessions idle for less than the time to live, and of a kept session
  exactly the statements younger than it; it touches no owner and evicts no session from a handler that
  holds it.
\<close>

theorem sweep_keeps_live:
  "(sst_sessions (store_sweep now st) k = Some a \<longleftrightarrow>
      sst_sessions st k = Some a \<and> session_idle now (sst_heap st a) < sst_ttl st) \<and>
   (sst_sessions (store_sweep now st) k = Some a \<longrightarrow>
      (se_statements (sst_heap (store_sweep now st) a) h = Some x \<longleftrightarrow>
         se_statements (sst_heap st a) h = Some x \<and> now - ss_created_at x < sst_ttl st)) \<and>
   se_principal (sst_heap (store_sweep now st) b) = se_principal (sst_heap st b)"
  using store_sweep_sessions [of now st k a] store_sweep_statements [of now st k a h x]
  by (auto simp: store_sweep_def sweep_statements_def Let_def)

theorem sweep_keeps_live_witness:
  "sst_sessions (store_sweep 900 (store0\<lparr>sst_sessions := [''s'' \<mapsto> 0]\<rparr>)) ''s'' = Some 0 \<and>
   sst_sessions (store_sweep 1000 (store0\<lparr>sst_sessions := [''s'' \<mapsto> 0]\<rparr>)) ''s'' = None"
proof -
  let ?st = "store0\<lparr>sst_sessions := [''s'' \<mapsto> 0]\<rparr>"
  have idle: "session_idle now (sst_heap ?st 0) = now" and ttl: "sst_ttl ?st = 1000" for now
    by (simp_all add: store0_def new_store_def session_idle_def)
  have "sst_sessions (store_sweep now ?st) ''s'' = Some a \<longleftrightarrow> a = 0 \<and> now < 1000" for now a
    using sweep_keeps_live [of now ?st "''s''" a] idle ttl by auto
  then show ?thesis by (auto simp: not_Some_eq [symmetric])
qed

text \<open>
  A statement is dropped by its age, not by disuse: a session used at the time of the sweep survives
  it, and a prepared statement older than the time to live is dropped from it, even one just executed.
\<close>

theorem sweep_drops_used_statement:
  assumes "fe_parse_handle fe t = Inr h" and "sst_sessions st sid = Some a"
    and "se_statements (sst_heap st a) h = Some s" and "fe_verify fe (ss_plan s) = Inr ()"
    and "get ''x-session-id'' = Some sid" and "0 < sst_ttl st"
    and "ss_created_at s + sst_ttl st \<le> ce_now env"
  shows "\<exists>r st1. do_get_prepared_statement fe env fresh t get st = (Inr r, st1) \<and>
    sst_sessions (store_sweep (ce_now env) st1) sid = Some a \<and>
    se_statements (sst_heap (store_sweep (ce_now env) st1) a) h = None"
  using prepared_get_by_id [where fe = fe and get = get, OF assms(1-5)] swept_while_used [OF assms(2,3,6,7)]
  by simp

theorem sweep_drops_used_statement_witness:
  "se_statements (sst_heap (store_sweep 2000 (snd (do_get_prepared_statement server0 (call0 2000) ''f'' [104]
     [''x-session-id'' \<mapsto> ''s''] (store0\<lparr>sst_sessions := [''s'' \<mapsto> 0], sst_next := 1,
       sst_heap := (\<lambda>_. (sst_heap store0 0)\<lparr>se_statements := [''h'' \<mapsto>
         \<lparr>ss_plan = ''SELECT 1'', ss_lineage = context_from_metadata Map.empty (fe_config server0), ss_created_at = 5\<rparr>]\<rparr>)\<rparr>)))) 0) ''h''
   = None"
proof -
  let ?s = "\<lparr>ss_plan = ''SELECT 1'', ss_lineage = context_from_metadata Map.empty (fe_config server0), ss_created_at = 5\<rparr>"
  let ?get = "[''x-session-id'' \<mapsto> ''s'']"
  define st where "st = store0\<lparr>sst_sessions := [''s'' \<mapsto> 0], sst_next := 1,
      sst_heap := (\<lambda>_. (sst_heap store0 0)\<lparr>se_statements := [''h'' \<mapsto> ?s]\<rparr>)\<rparr>"
  have h: "fe_parse_handle server0 [104] = Inr ''h''" by code_simp
  have "sst_sessions st ''s'' = Some 0" "se_statements (sst_heap st 0) ''h'' = Some ?s" "sst_ttl st = 1000"
    by (simp_all add: st_def) (simp add: store0_def new_store_def)
  moreover have "fe_verify server0 (ss_plan ?s) = Inr ()" by (simp add: server0_def)
  moreover have "?get ''x-session-id'' = Some ''s''" by simp
  ultimately have "\<exists>r st1. do_get_prepared_statement server0 (call0 2000) ''f'' [104] ?get st = (Inr r, st1) \<and>
      sst_sessions (store_sweep (ce_now (call0 2000)) st1) ''s'' = Some 0 \<and>
      se_statements (sst_heap (store_sweep (ce_now (call0 2000)) st1) 0) ''h'' = None"
    by (intro sweep_drops_used_statement [OF h, where s = ?s]) (simp_all add: call0_def)
  then show ?thesis unfolding st_def [symmetric] by (auto simp: call0_def)
qed

section \<open>Lineage\<close>

text \<open>
  An execution of a stored statement is a run of its own whose parent is the planning run, under the
  planning's job name and namespace, and whose root is the parent of the planning; job, facets and
  statement text are the planning's.
\<close>

theorem execution_lineage_chain:
  assumes "lc_run_id planning = Some run_id"
  shows "let cx = execution_lineage c fresh uid agent planning in
    lc_run_id cx = Some fresh \<and> lc_sql cx = lc_sql planning \<and> lc_job_name cx = lc_job_name planning \<and>
    lc_job_facets cx = lc_job_facets planning \<and>
    lc_parent_run cx = Some \<lparr>pf_producer = lcfg_producer c,
      pf_run = \<lparr>jr_run_id = run_id, jr_namespace = unwrap_or (lcfg_job_namespace c) (lc_job_namespace planning),
                jr_name = unwrap_or ''datafusion_query'' (lc_job_name planning)\<rparr>,
      pf_root = map_option pf_run (lc_parent_run planning)\<rparr>"
  using assms by (auto simp: execution_lineage_def execution_context_def Let_def split: option.split)

theorem execution_lineage_chain_witness:
  "map_option pf_root (lc_parent_run (execution_lineage (fe_config server0) ''f'' ''u'' None
      ((context_from_metadata [''x-openlineage-parent-run-id'' \<mapsto> ''dag'', ''x-openlineage-parent-job-namespace'' \<mapsto> ''ns'',
        ''x-openlineage-parent-job-name'' \<mapsto> ''task''] (fe_config server0))\<lparr>lc_run_id := Some ''r''\<rparr>)))
   = Some (Some \<lparr>jr_run_id = ''dag'', jr_namespace = ''ns'', jr_name = ''task''\<rparr>)"
proof -
  let ?get = "[''x-openlineage-parent-run-id'' \<mapsto> ''dag'', ''x-openlineage-parent-job-namespace'' \<mapsto> ''ns'',
        ''x-openlineage-parent-job-name'' \<mapsto> ''task'']"
  let ?pl = "(context_from_metadata ?get (fe_config server0))\<lparr>lc_run_id := Some ''r''\<rparr>"
  have "lc_run_id ?pl = Some ''r''" by simp
  note chain = execution_lineage_chain [OF this, of "fe_config server0" "''f''" "''u''" None]
  have "map_option pf_run (lc_parent_run ?pl) = Some \<lparr>jr_run_id = ''dag'', jr_namespace = ''ns'', jr_name = ''task''\<rparr>"
    by code_simp
  with chain show ?thesis by (simp add: Let_def)
qed

text \<open>
  The root that the planning request's own headers name never reaches an execution: two plannings
  that differ in it alone give the same execution context.
\<close>

theorem execution_forgets_root:
  "execution_context fresh (pl\<lparr>lc_parent_run := Some (p\<lparr>pf_root := r\<rparr>), lc_run_id := Some run\<rparr>) config
     = execution_context fresh (pl\<lparr>lc_parent_run := Some (p\<lparr>pf_root := r'\<rparr>), lc_run_id := Some run\<rparr>) config"
  by (rule execution_context_drops_root)

text \<open>
  The job name of a statement depends on its words alone, and is \<^verbatim>\<open>query-\<close> and twelve hexadecimal
  digits.
\<close>

theorem job_name_of_words:
  "job_name_from_sql (normalize_whitespace sql) = job_name_from_sql sql \<and>
   (split_whitespace sql = split_whitespace sql' \<longrightarrow> job_name_from_sql sql = job_name_from_sql sql') \<and>
   (\<exists>h. job_name_from_sql sql = ''query-'' @ h \<and> length h = 12 \<and> set h \<subseteq> set ''0123456789abcdef'')"
proof (intro conjI impI)
  show "job_name_from_sql (normalize_whitespace sql) = job_name_from_sql sql"
    by (rule job_name_same_words) simp
qed (erule job_name_same_words, rule job_name_shape)

theorem job_name_of_words_witness:
  "job_name_from_sql '' SELECT  1 '' = job_name_from_sql ''SELECT 1''"
proof -
  have "split_whitespace '' SELECT  1 '' = split_whitespace ''SELECT 1''" by code_simp
  then show ?thesis using job_name_of_words [of "'' SELECT  1 ''" "''SELECT 1''"] by blast
qed

section \<open>Enrichment\<close>

text \<open>
  The group hierarchy of a configured user is the closure of the user's groups under the parents of
  the configuration, each group once, cycles included; an unknown user has no groups.
\<close>

theorem enrichment_is_closure:
  "case map_of (cp_users cp) uid of
     None \<Rightarrow> config_enrich cp uid = no_enrichment
   | Some user \<Rightarrow>
       gr_uid ` set (en_group_hierarchy (config_enrich cp uid))
         = {g. \<exists>s \<in> set (uf_groups user). (s, g) \<in> (member_of cp)\<^sup>*} \<and>
       distinct (map gr_uid (en_group_hierarchy (config_enrich cp uid)))"
  using config_enrich_closure [of cp uid]
  by (simp add: config_enrich_def split: option.split)

section \<open>Failures\<close>

text \<open>
  A statement that the planner refuses is answered with an error, emits one planning failure under
  the request's lineage with that error, and stores no statement.
\<close>

theorem planning_failure_reported:
  assumes "fe_resolve fe env get st = (Inr a, st1)"
    and "fe_plan fe (sst_heap st1 a) (request_lineage get (fe_config fe) run_id (Some q) (principal_uid_at a st1)
      (agent_context_from_metadata get)) (agent_context_from_metadata get) q = Inl err"
  shows "get_flight_info_statement fe env run_id h get q st =
      (Inl (Status_internal (''Error building plan: '' @ err)),
       [(request_lineage get (fe_config fe) run_id (Some q) (principal_uid_at a st1) (agent_context_from_metadata get), err)], st1) \<and>
    (\<forall>b < sst_next st. se_statements (sst_heap st1 b) = se_statements (sst_heap st b))"
  using assms resolve_statements [OF assms(1)] by (simp add: get_flight_info_statement_def Let_def)

theorem planning_failure_reported_witness:
  "fst (get_flight_info_statement (server0\<lparr>fe_plan := \<lambda>_ _ _ _. Inl ''no table''\<rparr>) (call0 5) ''r'' ''h'' Map.empty ''SELECT'' store0)
   = Inl (Status_internal (''Error building plan: '' @ ''no table''))"
proof -
  let ?fe = "server0\<lparr>fe_plan := \<lambda>_ _ _ _. Inl ''no table''\<rparr>"
  have "fe_resolve ?fe (call0 5) Map.empty store0 = (Inr 0, snd (fe_resolve ?fe (call0 5) Map.empty store0))"
    by (rule fst_snd_eq) code_simp
  from planning_failure_reported [OF this, of "''r''" "''SELECT''" "''no table''" "''h''"]
  show ?thesis by simp
qed

end
