(* ===== verification/Sql_Parser.thy ===== *)
theory Sql_Parser
  imports Rust_Prelude
begin

text \<open>
  \<^verbatim>\<open>crates/datafusion/src/sql\<close>: the front end that recognises Unity Catalog statements and \<^verbatim>\<open>VACUUM\<close> and
  leaves everything else to DataFusion's parser. The tokens and the cursor over them belong to
  \<^verbatim>\<open>sqlparser\<close>: the cursor is a record of its calls over a cursor state \<open>'p\<close>. A parsed DataFusion statement
  \<open>'d\<close>, a column definition \<open>'c\<close> and a 64-bit float \<open>'f\<close> are opaque. A loop over the tokens takes fuel.
\<close>

section \<open>Tokens and statements\<close>

datatype sql_keyword =
    K_CREATE | K_DROP | K_VACUUM | K_CATALOG | K_CONNECTION | K_FOREIGN | K_LOCATION | K_SCHEMA | K_SHARE
  | K_TABLE | K_IF | K_NOT | K_EXISTS | K_USING | K_MANAGED | K_COMMENT | K_DEFAULT | K_COLLATION
  | K_OPTIONS | K_WITH | K_CASCADE | K_DRY | K_RUN | K_FULL | K_RETAIN | K_HOURS
  | K_Other string | NoKeyword

text \<open>A word keeps its text, its quote and the keyword it is, \<^verbatim>\<open>NoKeyword\<close> for an identifier.\<close>

datatype sql_token =
    Tok_Word string "char option" sql_keyword
  | Tok_Number string bool
  | Tok_SingleQuotedString string
  | Tok_DoubleQuotedString string
  | Tok_EscapedStringLiteral string
  | Tok_Comma | Tok_Period | Tok_SemiColon | Tok_LParen | Tok_RParen | Tok_EOF
  | Tok_Other string

datatype sql_value =
    Number string bool
  | SingleQuotedString string
  | DoubleQuotedString string
  | EscapedStringLiteral string
  | Other_Value string

text \<open>An \<^verbatim>\<open>Ident\<close> is its text and quote; an \<^verbatim>\<open>ObjectName\<close> its parts.\<close>

type_synonym ident = "string \<times> char option"
type_synonym object_name = "ident list"
type_synonym location = "nat \<times> nat"

datatype vacuum_mode = Mode_Full | Mode_Lite

record 'f vacuum_statement =
  vs_name :: object_name
  vs_mode :: "vacuum_mode option"
  vs_retention_hours :: "'f option"
  vs_dry_run :: "bool option"

record create_catalog_statement =
  cc_name :: object_name
  cc_if_not_exists :: bool
  cc_using_share :: "object_name option"
  cc_managed_location :: "string option"
  cc_default_collation :: "string option"
  cc_comment :: "string option"
  cc_options :: "(string \<times> sql_value) list option"

record create_schema_statement =
  cs_name :: object_name
  cs_if_not_exists :: bool
  cs_managed_location :: "string option"
  cs_comment :: "string option"
  cs_properties :: "(string \<times> sql_value) list option"

record 'c create_managed_table_statement =
  ct_name :: object_name
  ct_columns :: "'c list"
  ct_if_not_exists :: bool

record drop_statement =
  dr_name :: object_name
  dr_if_exists :: bool
  dr_cascade :: bool

datatype 'c unity_catalog_statement =
    CreateCatalog create_catalog_statement
  | CreateSchema create_schema_statement
  | CreateManagedTable "'c create_managed_table_statement"
  | DropCatalog drop_statement
  | DropSchema drop_statement

datatype ('d, 'c, 'f) statement =
    DFStatement 'd
  | UnityCatalog "'c unity_catalog_statement"
  | Vacuum "'f vacuum_statement"

section \<open>Errors\<close>

datatype parser_error = RecursionLimitExceeded | TokenizerError string | ParserError string

datatype df_error = SQL parser_error "string option" | External string

text \<open>How a call ends without a value: an error, a panic (\<^verbatim>\<open>todo!\<close>, \<^verbatim>\<open>unreachable!\<close>), or out of fuel.\<close>

datatype failure = Failed df_error | Panicked string | Out_of_Fuel

definition parser_err :: "string \<Rightarrow> failure + 'a" where
  "parser_err msg = Inl (Failed (SQL (ParserError msg) None))"

section \<open>The cursor\<close>

record ('p, 'd, 'c, 'f) sql_cursor =
  peek_token :: "'p \<Rightarrow> sql_token \<times> location"
  next_token :: "'p \<Rightarrow> (sql_token \<times> location) \<times> 'p"
  consume_token :: "sql_token \<Rightarrow> 'p \<Rightarrow> bool \<times> 'p"
  parse_keyword :: "sql_keyword \<Rightarrow> 'p \<Rightarrow> bool \<times> 'p"
  parse_keywords :: "sql_keyword list \<Rightarrow> 'p \<Rightarrow> bool \<times> 'p"
  parse_one_of_keywords :: "sql_keyword list \<Rightarrow> 'p \<Rightarrow> sql_keyword option \<times> 'p"
  peek_keyword :: "sql_keyword \<Rightarrow> 'p \<Rightarrow> bool"
  expect_keyword :: "sql_keyword \<Rightarrow> 'p \<Rightarrow> (parser_error + unit) \<times> 'p"
  expect_token :: "sql_token \<Rightarrow> 'p \<Rightarrow> (parser_error + unit) \<times> 'p"
  parse_object_name :: "'p \<Rightarrow> (parser_error + object_name) \<times> 'p"
  parse_number_value :: "'p \<Rightarrow> (parser_error + sql_value) \<times> 'p"
  parse_literal_string :: "'p \<Rightarrow> (parser_error + string) \<times> 'p"
  parse_columns :: "'p \<Rightarrow> (parser_error + 'c list) \<times> 'p"
  native_statement :: "'p \<Rightarrow> (parser_error + 'd) \<times> 'p"
  native_create :: "'p \<Rightarrow> (df_error + 'd) \<times> 'p"
  token_text :: "sql_token \<Rightarrow> string"
  location_text :: "location \<Rightarrow> string"
  url_parse :: "string \<Rightarrow> string option"
  f64_parse :: "string \<Rightarrow> string + 'f"

text \<open>\<^verbatim>\<open>?\<close> on a call of the cursor.\<close>

definition lift_parser :: "(parser_error + 'a) \<times> 'p \<Rightarrow> (failure + 'a) \<times> 'p" where
  "lift_parser m = map_prod (map_err (\<lambda>e. Failed (SQL e None))) id m"

definition expected :: "('p, 'd, 'c, 'f) sql_cursor \<Rightarrow> string \<Rightarrow> sql_token \<times> location \<Rightarrow> failure + 'a" where
  "expected C e found =
     parser_err (''Expected: '' @ e @ '', found: '' @ token_text C (fst found) @ location_text C (snd found))"

definition ensure_not_set :: "'b option \<Rightarrow> string \<Rightarrow> failure + unit" where
  "ensure_not_set field name =
     (if field \<noteq> None then parser_err (name @ '' specified more than once'') else Inr ())"

text \<open>The tail every clause loop has: the token after the last clause is consumed and must end the statement.\<close>

definition end_of_statement :: "('p, 'd, 'c, 'f) sql_cursor \<Rightarrow> string \<Rightarrow> 'p \<Rightarrow> (failure + unit) \<times> 'p" where
  "end_of_statement C what p =
     (case next_token C p of (found, p') \<Rightarrow>
        if fst found = Tok_EOF \<or> fst found = Tok_SemiColon then (Inr (), p')
        else (expected C what found, p'))"

section \<open>Options\<close>

fun parse_key_parts ::
  "('p, 'd, 'c, 'f) sql_cursor \<Rightarrow> nat \<Rightarrow> string list \<Rightarrow> 'p \<Rightarrow> (failure + string list) \<times> 'p" where
  "parse_key_parts C 0 parts p = (Inl Out_of_Fuel, p)"
| "parse_key_parts C (Suc n) parts p =
     (case consume_token C Tok_Period p of
        (False, p1) \<Rightarrow> (Inr parts, p1)
      | (True, p1) \<Rightarrow>
          (case next_token C p1 of (found, p2) \<Rightarrow>
             (case fst found of
                Tok_Word w _ _ \<Rightarrow> parse_key_parts C n (parts @ [w]) p2
              | _ \<Rightarrow> (expected C ''key name'' found, p2))))"

definition parse_option_key :: "('p, 'd, 'c, 'f) sql_cursor \<Rightarrow> nat \<Rightarrow> 'p \<Rightarrow> (failure + string) \<times> 'p" where
  "parse_option_key C n p =
     (case next_token C p of (found, p1) \<Rightarrow>
        (case fst found of
           Tok_Word w _ _ \<Rightarrow>
             and_then (parse_key_parts C n [w] p1) (\<lambda>parts p2. (Inr (str_join ''.'' parts), p2))
         | Tok_SingleQuotedString s \<Rightarrow> (Inr s, p1)
         | Tok_DoubleQuotedString s \<Rightarrow> (Inr s, p1)
         | Tok_EscapedStringLiteral s \<Rightarrow> (Inr s, p1)
         | _ \<Rightarrow> (expected C ''key name'' found, p1)))"

definition parse_option_value :: "('p, 'd, 'c, 'f) sql_cursor \<Rightarrow> 'p \<Rightarrow> (failure + sql_value) \<times> 'p" where
  "parse_option_value C p =
     (case next_token C p of (found, p1) \<Rightarrow>
        (case fst found of
           Tok_Word w _ _ \<Rightarrow> (Inr (SingleQuotedString w), p1)
         | Tok_SingleQuotedString s \<Rightarrow> (Inr (SingleQuotedString s), p1)
         | Tok_DoubleQuotedString s \<Rightarrow> (Inr (DoubleQuotedString s), p1)
         | Tok_EscapedStringLiteral s \<Rightarrow> (Inr (EscapedStringLiteral s), p1)
         | Tok_Number s l \<Rightarrow> (Inr (Number s l), p1)
         | _ \<Rightarrow> (expected C ''string or numeric value'' found, p1)))"

fun value_options_loop ::
  "('p, 'd, 'c, 'f) sql_cursor \<Rightarrow> nat \<Rightarrow> (string \<times> sql_value) list \<Rightarrow> 'p
    \<Rightarrow> (failure + (string \<times> sql_value) list) \<times> 'p" where
  "value_options_loop C 0 options p = (Inl Out_of_Fuel, p)"
| "value_options_loop C (Suc n) options p =
     and_then (parse_option_key C (Suc n) p) (\<lambda>key p1.
       and_then (parse_option_value C p1) (\<lambda>val p2.
         (case consume_token C Tok_Comma p2 of (comma, p3) \<Rightarrow>
            (case consume_token C Tok_RParen p3 of
               (True, p4) \<Rightarrow> (Inr (options @ [(key, val)]), p4)
             | (False, p4) \<Rightarrow>
                 if \<not> comma then (expected C ([CHR 0x27, CHR '','', CHR 0x27] @ '' or '' @ [CHR 0x27, CHR '')'', CHR 0x27]
                                     @ '' after option definition'') (peek_token C p4), p4)
                 else value_options_loop C n (options @ [(key, val)]) p4))))"

definition parse_value_options ::
  "('p, 'd, 'c, 'f) sql_cursor \<Rightarrow> nat \<Rightarrow> 'p \<Rightarrow> (failure + (string \<times> sql_value) list) \<times> 'p" where
  "parse_value_options C n p =
     and_then (lift_parser (expect_token C Tok_LParen p)) (\<lambda>_. value_options_loop C n [])"

section \<open>VACUUM\<close>

definition unreachable :: "failure + 'a" where
  "unreachable = Inl (Panicked ''internal error: entered unreachable code'')"

definition vacuum_clause ::
  "('p, 'd, 'c, 'f) sql_cursor \<Rightarrow> sql_keyword \<Rightarrow> 'f vacuum_statement \<Rightarrow> 'p
    \<Rightarrow> (failure + 'f vacuum_statement) \<times> 'p" where
  "vacuum_clause C keyword cmd p =
     (case keyword of
        K_DRY \<Rightarrow>
          and_then (lift_parser (expect_keyword C K_RUN p)) (\<lambda>_ p1.
            and_then (ensure_not_set (vs_dry_run cmd) ''DRY RUN'', p1) (\<lambda>_ p2.
              (Inr (cmd\<lparr>vs_dry_run := Some True\<rparr>), p2)))
      | K_FULL \<Rightarrow> (Inr (cmd\<lparr>vs_mode := Some Mode_Full\<rparr>), p)
      | K_RETAIN \<Rightarrow>
          and_then (lift_parser (parse_number_value C p)) (\<lambda>hours p1.
            (case hours of
               Number n _ \<Rightarrow>
                 and_then (map_err (\<lambda>e. Failed (External e)) (f64_parse C n), p1) (\<lambda>h p2.
                   and_then (lift_parser (expect_keyword C K_HOURS p2)) (\<lambda>_ p3.
                     (Inr (cmd\<lparr>vs_retention_hours := Some h\<rparr>), p3)))
             | _ \<Rightarrow> (parser_err ''expected number value'', p1)))
      | _ \<Rightarrow> (unreachable, p))"

fun vacuum_loop ::
  "('p, 'd, 'c, 'f) sql_cursor \<Rightarrow> nat \<Rightarrow> 'f vacuum_statement \<Rightarrow> 'p \<Rightarrow> (failure + 'f vacuum_statement) \<times> 'p" where
  "vacuum_loop C 0 cmd p = (Inl Out_of_Fuel, p)"
| "vacuum_loop C (Suc n) cmd p =
     (case parse_one_of_keywords C [K_DRY, K_FULL, K_RETAIN] p of
        (Some keyword, p1) \<Rightarrow> and_then (vacuum_clause C keyword cmd p1) (\<lambda>cmd1 p2. vacuum_loop C n cmd1 p2)
      | (None, p1) \<Rightarrow> and_then (end_of_statement C ''end of statement or ;'' p1) (\<lambda>_ p2. (Inr cmd, p2)))"

definition parse_vacuum ::
  "('p, 'd, 'c, 'f) sql_cursor \<Rightarrow> nat \<Rightarrow> 'p \<Rightarrow> (failure + ('d, 'c, 'f) statement) \<times> 'p" where
  "parse_vacuum C n p =
     and_then (lift_parser (parse_object_name C (snd (next_token C p)))) (\<lambda>name p1.
       and_then (vacuum_loop C n \<lparr>vs_name = name, vs_mode = None, vs_retention_hours = None, vs_dry_run = None\<rparr> p1)
         (\<lambda>cmd p2. (Inr (Vacuum cmd), p2)))"

section \<open>CREATE CATALOG\<close>

record catalog_builder =
  cb_using_share :: "object_name option"
  cb_managed_location :: "string option"
  cb_default_collation :: "string option"
  cb_comment :: "string option"
  cb_options :: "(string \<times> sql_value) list option"

definition if_not_exists :: "sql_keyword list" where
  "if_not_exists = [K_IF, K_NOT, K_EXISTS]"

text \<open>\<^verbatim>\<open>MANAGED LOCATION '<url>'\<close>, in both \<^verbatim>\<open>CREATE CATALOG\<close> and \<^verbatim>\<open>CREATE SCHEMA\<close>.\<close>

definition managed_location_clause ::
  "('p, 'd, 'c, 'f) sql_cursor \<Rightarrow> string option \<Rightarrow> 'p \<Rightarrow> (failure + string) \<times> 'p" where
  "managed_location_clause C field p =
     and_then (lift_parser (expect_keyword C K_LOCATION p)) (\<lambda>_ p1.
       and_then (ensure_not_set field ''MANAGED LOCATION'', p1) (\<lambda>_ p2.
         and_then (lift_parser (parse_literal_string C p2)) (\<lambda>s p3.
           (case url_parse C s of
              None \<Rightarrow> (parser_err ''Expected managed location to be a valid URL'', p3)
            | Some u \<Rightarrow> (Inr u, p3)))))"

definition comment_clause ::
  "('p, 'd, 'c, 'f) sql_cursor \<Rightarrow> string option \<Rightarrow> 'p \<Rightarrow> (failure + string) \<times> 'p" where
  "comment_clause C field p =
     and_then (ensure_not_set field ''COMMENT'', p) (\<lambda>_ p1. lift_parser (parse_literal_string C p1))"

definition catalog_clause ::
  "('p, 'd, 'c, 'f) sql_cursor \<Rightarrow> nat \<Rightarrow> sql_keyword \<Rightarrow> catalog_builder \<Rightarrow> 'p \<Rightarrow> (failure + catalog_builder) \<times> 'p" where
  "catalog_clause C n keyword b p =
     (case keyword of
        K_USING \<Rightarrow>
          and_then (lift_parser (expect_keyword C K_SHARE p)) (\<lambda>_ p1.
            and_then (ensure_not_set (cb_using_share b) ''USING SHARE'', p1) (\<lambda>_ p2.
              and_then (lift_parser (parse_object_name C p2)) (\<lambda>share p3.
                if length share \<noteq> 2
                then (parser_err ''Expected share name to be a two-part identifier (<provider>.<share>)'', p3)
                else (Inr (b\<lparr>cb_using_share := Some share\<rparr>), p3))))
      | K_MANAGED \<Rightarrow>
          and_then (managed_location_clause C (cb_managed_location b) p) (\<lambda>u p1.
            (Inr (b\<lparr>cb_managed_location := Some u\<rparr>), p1))
      | K_DEFAULT \<Rightarrow>
          and_then (lift_parser (expect_keyword C K_COLLATION p)) (\<lambda>_ p1.
            and_then (ensure_not_set (cb_default_collation b) ''DEFAULT COLLATION'', p1) (\<lambda>_ p2.
              and_then (lift_parser (parse_literal_string C p2)) (\<lambda>s p3.
                (Inr (b\<lparr>cb_default_collation := Some s\<rparr>), p3))))
      | K_COMMENT \<Rightarrow>
          and_then (comment_clause C (cb_comment b) p) (\<lambda>s p1. (Inr (b\<lparr>cb_comment := Some s\<rparr>), p1))
      | K_OPTIONS \<Rightarrow>
          and_then (ensure_not_set (cb_options b) ''OPTIONS'', p) (\<lambda>_ p1.
            and_then (parse_value_options C n p1) (\<lambda>options p2.
              (Inr (b\<lparr>cb_options := Some options\<rparr>), p2)))
      | _ \<Rightarrow> (unreachable, p))"

fun catalog_loop ::
  "('p, 'd, 'c, 'f) sql_cursor \<Rightarrow> nat \<Rightarrow> catalog_builder \<Rightarrow> 'p \<Rightarrow> (failure + catalog_builder) \<times> 'p" where
  "catalog_loop C 0 b p = (Inl Out_of_Fuel, p)"
| "catalog_loop C (Suc n) b p =
     (case parse_one_of_keywords C [K_USING, K_MANAGED, K_COMMENT, K_DEFAULT, K_OPTIONS] p of
        (Some keyword, p1) \<Rightarrow> and_then (catalog_clause C (Suc n) keyword b p1) (\<lambda>b1 p2. catalog_loop C n b1 p2)
      | (None, p1) \<Rightarrow> and_then (end_of_statement C ''end of statement or ;'' p1) (\<lambda>_ p2. (Inr b, p2)))"

definition parse_create_catalog ::
  "('p, 'd, 'c, 'f) sql_cursor \<Rightarrow> nat \<Rightarrow> 'p \<Rightarrow> (failure + ('d, 'c, 'f) statement) \<times> 'p" where
  "parse_create_catalog C n p =
     (case parse_keywords C if_not_exists p of (ine, p1) \<Rightarrow>
        and_then (lift_parser (parse_object_name C p1)) (\<lambda>name p2.
          if length name \<noteq> 1
          then (parser_err ''Expected catalog name to be a single-part identifier (<catalog>)'', p2)
          else
            and_then (catalog_loop C n
                \<lparr>cb_using_share = None, cb_managed_location = None, cb_default_collation = None,
                 cb_comment = None, cb_options = None\<rparr> p2) (\<lambda>b p3.
              if cb_using_share b \<noteq> None \<and> cb_managed_location b \<noteq> None
              then (parser_err ''USING SHARE and MANAGED LOCATION are mutually exclusive.'', p3)
              else (Inr (UnityCatalog (CreateCatalog
                \<lparr>cc_name = name, cc_if_not_exists = ine, cc_using_share = cb_using_share b,
                 cc_managed_location = cb_managed_location b, cc_default_collation = cb_default_collation b,
                 cc_comment = cb_comment b, cc_options = cb_options b\<rparr>)), p3))))"

section \<open>CREATE SCHEMA and CREATE TABLE\<close>

record schema_builder =
  sb_managed_location :: "string option"
  sb_comment :: "string option"
  sb_properties :: "(string \<times> sql_value) list option"

definition schema_clause ::
  "('p, 'd, 'c, 'f) sql_cursor \<Rightarrow> nat \<Rightarrow> sql_keyword \<Rightarrow> schema_builder \<Rightarrow> 'p \<Rightarrow> (failure + schema_builder) \<times> 'p" where
  "schema_clause C n keyword b p =
     (case keyword of
        K_MANAGED \<Rightarrow>
          and_then (managed_location_clause C (sb_managed_location b) p) (\<lambda>u p1.
            (Inr (b\<lparr>sb_managed_location := Some u\<rparr>), p1))
      | K_COMMENT \<Rightarrow>
          and_then (comment_clause C (sb_comment b) p) (\<lambda>s p1. (Inr (b\<lparr>sb_comment := Some s\<rparr>), p1))
      | K_WITH \<Rightarrow>
          (case next_token C p of (found, p1) \<Rightarrow>
             if (case fst found of Tok_Word w _ _ \<Rightarrow> eq_ignore_ascii_case w ''DBPROPERTIES'' | _ \<Rightarrow> False)
             then
               and_then (ensure_not_set (sb_properties b) ''WITH DBPROPERTIES'', p1) (\<lambda>_ p2.
                 and_then (parse_value_options C n p2) (\<lambda>properties p3.
                   (Inr (b\<lparr>sb_properties := Some properties\<rparr>), p3)))
             else (expected C ''DBPROPERTIES'' found, p1))
      | _ \<Rightarrow> (unreachable, p))"

fun schema_loop ::
  "('p, 'd, 'c, 'f) sql_cursor \<Rightarrow> nat \<Rightarrow> schema_builder \<Rightarrow> 'p \<Rightarrow> (failure + schema_builder) \<times> 'p" where
  "schema_loop C 0 b p = (Inl Out_of_Fuel, p)"
| "schema_loop C (Suc n) b p =
     (case parse_one_of_keywords C [K_MANAGED, K_COMMENT, K_WITH] p of
        (Some keyword, p1) \<Rightarrow> and_then (schema_clause C (Suc n) keyword b p1) (\<lambda>b1 p2. schema_loop C n b1 p2)
      | (None, p1) \<Rightarrow> and_then (end_of_statement C ''end of statement or ;'' p1) (\<lambda>_ p2. (Inr b, p2)))"

definition parse_create_schema ::
  "('p, 'd, 'c, 'f) sql_cursor \<Rightarrow> nat \<Rightarrow> 'p \<Rightarrow> (failure + ('d, 'c, 'f) statement) \<times> 'p" where
  "parse_create_schema C n p =
     (case parse_keywords C if_not_exists p of (ine, p1) \<Rightarrow>
        and_then (lift_parser (parse_object_name C p1)) (\<lambda>name p2.
          if 2 < length name
          then (parser_err ''Expected schema name to be a one- or two-part identifier (<schema> or <catalog>.<schema>)'', p2)
          else
            and_then (schema_loop C n \<lparr>sb_managed_location = None, sb_comment = None, sb_properties = None\<rparr> p2)
              (\<lambda>b p3.
                (Inr (UnityCatalog (CreateSchema
                  \<lparr>cs_name = name, cs_if_not_exists = ine, cs_managed_location = sb_managed_location b,
                   cs_comment = sb_comment b, cs_properties = sb_properties b\<rparr>)), p3))))"

fun table_loop :: "('p, 'd, 'c, 'f) sql_cursor \<Rightarrow> nat \<Rightarrow> 'p \<Rightarrow> (failure + unit) \<times> 'p" where
  "table_loop C 0 p = (Inl Out_of_Fuel, p)"
| "table_loop C (Suc n) p =
     (case parse_keyword C K_USING p of
        (True, p1) \<Rightarrow> and_then (lift_parser (parse_object_name C p1)) (\<lambda>_ p2. table_loop C n p2)
      | (False, p1) \<Rightarrow>
          (case parse_keyword C K_LOCATION p1 of
             (True, p2) \<Rightarrow>
               (parser_err (''CREATE TABLE with LOCATION creates an external table, which is not ''
                  @ ''supported on this path; omit LOCATION to create a Unity Catalog managed table''), p2)
           | (False, p2) \<Rightarrow> end_of_statement C ''USING <format> or end of statement'' p2))"

definition parse_create_table ::
  "('p, 'd, 'c, 'f) sql_cursor \<Rightarrow> nat \<Rightarrow> 'p \<Rightarrow> (failure + ('d, 'c, 'f) statement) \<times> 'p" where
  "parse_create_table C n p =
     and_then (lift_parser (expect_keyword C K_TABLE p)) (\<lambda>_ p1.
       (case parse_keywords C if_not_exists p1 of (ine, p2) \<Rightarrow>
          and_then (lift_parser (parse_object_name C p2)) (\<lambda>name p3.
            if fst (peek_token C p3) \<noteq> Tok_LParen
            then (parser_err (''Expected column definitions '' @ [CHR 0x27] @ ''(...)'' @ [CHR 0x27] @ '' for CREATE TABLE; ''
                    @ ''CREATE TABLE AS SELECT is not yet supported for managed tables''), p3)
            else
              and_then (lift_parser (parse_columns C p3)) (\<lambda>columns p4.
                and_then (table_loop C n p4) (\<lambda>_ p5.
                  (Inr (UnityCatalog (CreateManagedTable
                    \<lparr>ct_name = name, ct_columns = columns, ct_if_not_exists = ine\<rparr>)), p5))))))"

section \<open>Statements\<close>

definition parse_and_handle_statement ::
  "('p, 'd, 'c, 'f) sql_cursor \<Rightarrow> 'p \<Rightarrow> (failure + ('d, 'c, 'f) statement) \<times> 'p" where
  "parse_and_handle_statement C p =
     map_prod (\<lambda>r. map_ok DFStatement (map_err (\<lambda>e.
       (case e of
          RecursionLimitExceeded \<Rightarrow> Failed (SQL RecursionLimitExceeded (Some '' (current limit)''))
        | other \<Rightarrow> Failed (SQL other None))) r)) id (native_statement C p)"

text \<open>\<^verbatim>\<open>todo!\<close>.\<close>

definition not_implemented :: "string \<Rightarrow> failure + 'a" where
  "not_implemented what = Inl (Panicked (''not yet implemented: Implement '' @ what))"

definition parse_create ::
  "('p, 'd, 'c, 'f) sql_cursor \<Rightarrow> nat \<Rightarrow> 'p \<Rightarrow> (failure + ('d, 'c, 'f) statement) \<times> 'p" where
  "parse_create C n p =
     (case parse_keyword C K_CATALOG p of
        (True, p1) \<Rightarrow> parse_create_catalog C n p1
      | (False, p1) \<Rightarrow>
     (case parse_keyword C K_CONNECTION p1 of
        (True, p2) \<Rightarrow> (not_implemented ''parse_create_connection'', p2)
      | (False, p2) \<Rightarrow>
     (case parse_keywords C [K_FOREIGN, K_CATALOG] p2 of
        (True, p3) \<Rightarrow> (not_implemented ''parse_create_foreign_catalog'', p3)
      | (False, p3) \<Rightarrow>
     (case parse_keyword C K_LOCATION p3 of
        (True, p4) \<Rightarrow> (not_implemented ''parse_create_location'', p4)
      | (False, p4) \<Rightarrow>
     (case parse_keyword C K_SCHEMA p4 of
        (True, p5) \<Rightarrow> parse_create_schema C n p5
      | (False, p5) \<Rightarrow>
     (case parse_keyword C K_SHARE p5 of
        (True, p6) \<Rightarrow> (not_implemented ''parse_create_share'', p6)
      | (False, p6) \<Rightarrow>
          if peek_keyword C K_TABLE p6 then parse_create_table C n p6
          else map_prod (\<lambda>r. map_ok DFStatement (map_err Failed r)) id (native_create C p6)))))))"

text \<open>\<^verbatim>\<open>parse_drop_catalog\<close> and \<^verbatim>\<open>parse_drop_schema\<close> differ in the parts a name may have and in what they build.\<close>

definition parse_drop_entity ::
  "('p, 'd, 'c, 'f) sql_cursor \<Rightarrow> (object_name \<Rightarrow> bool) \<Rightarrow> string \<Rightarrow> (drop_statement \<Rightarrow> 'c unity_catalog_statement)
    \<Rightarrow> 'p \<Rightarrow> (failure + ('d, 'c, 'f) statement) \<times> 'p" where
  "parse_drop_entity C accepted msg build p =
     (case parse_keywords C [K_IF, K_EXISTS] p of (ie, p1) \<Rightarrow>
        and_then (lift_parser (parse_object_name C p1)) (\<lambda>name p2.
          if \<not> accepted name then (parser_err msg, p2)
          else
            (case parse_keyword C K_CASCADE p2 of (cascade, p3) \<Rightarrow>
               (Inr (UnityCatalog (build \<lparr>dr_name = name, dr_if_exists = ie, dr_cascade = cascade\<rparr>)), p3))))"

definition parse_drop_catalog :: "('p, 'd, 'c, 'f) sql_cursor \<Rightarrow> 'p \<Rightarrow> (failure + ('d, 'c, 'f) statement) \<times> 'p" where
  "parse_drop_catalog C =
     parse_drop_entity C (\<lambda>name. length name = 1)
       ''Expected catalog name to be a single-part identifier (<catalog>)'' DropCatalog"

definition parse_drop_schema :: "('p, 'd, 'c, 'f) sql_cursor \<Rightarrow> 'p \<Rightarrow> (failure + ('d, 'c, 'f) statement) \<times> 'p" where
  "parse_drop_schema C =
     parse_drop_entity C (\<lambda>name. length name \<le> 2)
       ''Expected schema name to be a one- or two-part identifier (<schema> or <catalog>.<schema>)'' DropSchema"

definition parse_drop :: "('p, 'd, 'c, 'f) sql_cursor \<Rightarrow> 'p \<Rightarrow> (failure + ('d, 'c, 'f) statement) \<times> 'p" where
  "parse_drop C p =
     (case parse_keywords C [K_DROP, K_CATALOG] p of
        (True, p1) \<Rightarrow> parse_drop_catalog C p1
      | (False, p1) \<Rightarrow>
     (case parse_keywords C [K_DROP, K_SCHEMA] p1 of
        (True, p2) \<Rightarrow> parse_drop_schema C p2
      | (False, p2) \<Rightarrow> parse_and_handle_statement C p2))"

definition parse_statement ::
  "('p, 'd, 'c, 'f) sql_cursor \<Rightarrow> nat \<Rightarrow> 'p \<Rightarrow> (failure + ('d, 'c, 'f) statement) \<times> 'p" where
  "parse_statement C n p =
     (case fst (peek_token C p) of
        Tok_Word _ _ keyword \<Rightarrow>
          (case keyword of
             K_CREATE \<Rightarrow> parse_create C n (snd (next_token C p))
           | K_DROP \<Rightarrow> parse_drop C p
           | K_VACUUM \<Rightarrow> parse_vacuum C n p
           | _ \<Rightarrow> parse_and_handle_statement C p)
      | _ \<Rightarrow> parse_and_handle_statement C p)"

text \<open>
  The two loops of \<^verbatim>\<open>parse_statements\<close>: the inner one skips delimiters and answers whether it met any.
\<close>

fun skip_delimiters :: "('p, 'd, 'c, 'f) sql_cursor \<Rightarrow> nat \<Rightarrow> bool \<Rightarrow> 'p \<Rightarrow> (failure + bool) \<times> 'p" where
  "skip_delimiters C 0 expecting p = (Inl Out_of_Fuel, p)"
| "skip_delimiters C (Suc n) expecting p =
     (case consume_token C Tok_SemiColon p of
        (True, p1) \<Rightarrow> skip_delimiters C n False p1
      | (False, p1) \<Rightarrow> (Inr expecting, p1))"

fun statements_loop ::
  "('p, 'd, 'c, 'f) sql_cursor \<Rightarrow> nat \<Rightarrow> nat \<Rightarrow> bool \<Rightarrow> ('d, 'c, 'f) statement list \<Rightarrow> 'p
    \<Rightarrow> (failure + ('d, 'c, 'f) statement list) \<times> 'p" where
  "statements_loop C fuel 0 expecting stmts p = (Inl Out_of_Fuel, p)"
| "statements_loop C fuel (Suc n) expecting stmts p =
     and_then (skip_delimiters C fuel expecting p) (\<lambda>still p1.
       if fst (peek_token C p1) = Tok_EOF then (Inr stmts, p1)
       else if still then (expected C ''end of statement'' (peek_token C p1), p1)
       else
         and_then (parse_statement C fuel p1) (\<lambda>stmt p2.
           statements_loop C fuel n True (stmts @ [stmt]) p2))"

definition parse_statements ::
  "('p, 'd, 'c, 'f) sql_cursor \<Rightarrow> nat \<Rightarrow> 'p \<Rightarrow> (failure + ('d, 'c, 'f) statement list) \<times> 'p" where
  "parse_statements C fuel p = statements_loop C fuel fuel False [] p"

text \<open>\<^verbatim>\<open>HFParser::parse_sql\<close>: \<open>open_cursor\<close> is the tokenizer, DataFusion's \<^verbatim>\<open>DFParserBuilder::build\<close>.\<close>

definition parse_sql ::
  "('p, 'd, 'c, 'f) sql_cursor \<Rightarrow> (string \<Rightarrow> df_error + 'p) \<Rightarrow> nat \<Rightarrow> string
    \<Rightarrow> failure + ('d, 'c, 'f) statement list" where
  "parse_sql C open_cursor fuel sql =
     try_bind (map_err Failed (open_cursor sql)) (\<lambda>p. fst (parse_statements C fuel p))"

section \<open>The VACUUM plan node\<close>

definition mode_text :: "vacuum_mode \<Rightarrow> string" where
  "mode_text m = (case m of Mode_Full \<Rightarrow> ''FULL'' | Mode_Lite \<Rightarrow> ''LITE'')"

definition vacuum_fmt_for_explain ::
  "(object_name \<Rightarrow> string) \<Rightarrow> ('f option \<Rightarrow> string) \<Rightarrow> 'f vacuum_statement \<Rightarrow> string" where
  "vacuum_fmt_for_explain name_text hours_debug v =
     ''Vacuum: table='' @ name_text (vs_name v)
     @ '' mode='' @ mode_text (unwrap_or Mode_Full (vs_mode v))
     @ '' retention_hours='' @ hours_debug (vs_retention_hours v)
     @ '' dry_run='' @ (if unwrap_or False (vs_dry_run v) then ''true'' else ''false'')"

definition vacuum_with_exprs_and_inputs ::
  "'f vacuum_statement \<Rightarrow> 'e list \<Rightarrow> 'i list \<Rightarrow> string + 'f vacuum_statement" where
  "vacuum_with_exprs_and_inputs v exprs inputs =
     (if exprs \<noteq> [] \<or> inputs \<noteq> []
      then Inl ''VacuumStatement plan node does not support exprs and inputs'' else Inr v)"

end
