(* ===== verification/Sql_Parser_Facts.thy ===== *)
theory Sql_Parser_Facts
  imports Sql_Parser
begin

text \<open>
  What \<open>Sql_Parser\<close> relies on and what follows from it: the documented behaviour of \<^verbatim>\<open>sqlparser\<close>'s cursor, that
  every loop of the parser ends, and that what it accepts is well formed.
\<close>

section \<open>The behaviour of the cursor\<close>

text \<open>
  \<open>rest p\<close> are the tokens still ahead of \<open>p\<close>, without the end mark. The calls on single tokens and keywords
  either take what they look for or leave the cursor alone; a name, a string and a number are read when
  they are there; the parsers of columns and of whole statements never put tokens back.
\<close>

definition hd_tok :: "sql_token list \<Rightarrow> sql_token" where
  "hd_tok ts = (case ts of [] \<Rightarrow> Tok_EOF | t # _ \<Rightarrow> t)"

definition is_kw :: "sql_keyword \<Rightarrow> sql_token \<Rightarrow> bool" where
  "is_kw k t = (case t of Tok_Word _ _ k' \<Rightarrow> k' = k | _ \<Rightarrow> False)"

definition one_of :: "sql_keyword list \<Rightarrow> sql_token \<Rightarrow> sql_keyword option" where
  "one_of ks t = (case t of Tok_Word _ _ k \<Rightarrow> if k \<in> set ks then Some k else None | _ \<Rightarrow> None)"

definition ident_token :: "ident \<Rightarrow> sql_token" where
  "ident_token i = Tok_Word (fst i) (snd i) NoKeyword"

fun name_tokens :: "object_name \<Rightarrow> sql_token list" where
  "name_tokens [] = []"
| "name_tokens [i] = [ident_token i]"
| "name_tokens (i # j # is) = ident_token i # Tok_Period # name_tokens (j # is)"

definition shrinks :: "('p \<Rightarrow> sql_token list) \<Rightarrow> ('p \<Rightarrow> 'r \<times> 'p) \<Rightarrow> bool" where
  "shrinks rest f \<longleftrightarrow> (\<forall>p. length (rest (snd (f p))) \<le> length (rest p))"

definition takes :: "('p \<Rightarrow> sql_token list) \<Rightarrow> ('p \<Rightarrow> (parser_error + 'a) \<times> 'p) \<Rightarrow> sql_token list \<Rightarrow> 'a \<Rightarrow> bool" where
  "takes rest f ts a \<longleftrightarrow>
     (\<forall>p later. rest p = ts @ later \<longrightarrow> fst (f p) = Inr a \<and> rest (snd (f p)) = later)"

definition cursor_steps :: "('p, 'd, 'c, 'f) sql_cursor \<Rightarrow> ('p \<Rightarrow> sql_token list) \<Rightarrow> bool" where
  "cursor_steps C rest \<longleftrightarrow>
     (\<forall>p. fst (peek_token C p) = hd_tok (rest p)) \<and>
     (\<forall>p. fst (next_token C p) = peek_token C p \<and> rest (snd (next_token C p)) = tl (rest p)) \<and>
     (\<forall>t p. consume_token C t p = (if hd_tok (rest p) = t then (True, snd (next_token C p)) else (False, p))) \<and>
     (\<forall>k p. parse_keyword C k p = (if is_kw k (hd_tok (rest p)) then (True, snd (next_token C p)) else (False, p))) \<and>
     (\<forall>ks p. if list_all2 is_kw ks (take (length ks) (rest p))
             then fst (parse_keywords C ks p) \<and> rest (snd (parse_keywords C ks p)) = drop (length ks) (rest p)
             else parse_keywords C ks p = (False, p)) \<and>
     (\<forall>ks p. parse_one_of_keywords C ks p =
        (case one_of ks (hd_tok (rest p)) of Some k \<Rightarrow> (Some k, snd (next_token C p)) | None \<Rightarrow> (None, p))) \<and>
     (\<forall>k p. peek_keyword C k p = is_kw k (hd_tok (rest p)))"

definition cursor_reads :: "('p, 'd, 'c, 'f) sql_cursor \<Rightarrow> ('p \<Rightarrow> sql_token list) \<Rightarrow> bool" where
  "cursor_reads C rest \<longleftrightarrow>
     (\<forall>k p. if is_kw k (hd_tok (rest p)) then expect_keyword C k p = (Inr (), snd (next_token C p))
            else \<exists>e. expect_keyword C k p = (Inl e, p)) \<and>
     (\<forall>t p. if hd_tok (rest p) = t then expect_token C t p = (Inr (), snd (next_token C p))
            else \<exists>e. expect_token C t p = (Inl e, p)) \<and>
     (\<forall>p name later. name \<noteq> [] \<and> rest p = name_tokens name @ later \<and> hd_tok later \<noteq> Tok_Period \<longrightarrow>
        fst (parse_object_name C p) = Inr name \<and> rest (snd (parse_object_name C p)) = later) \<and>
     (\<forall>s. takes rest (parse_literal_string C) [Tok_SingleQuotedString s] s) \<and>
     (\<forall>s l. takes rest (parse_number_value C) [Tok_Number s l] (Number s l)) \<and>
     shrinks rest (parse_object_name C) \<and> shrinks rest (parse_literal_string C) \<and>
     shrinks rest (parse_number_value C) \<and> shrinks rest (parse_columns C) \<and>
     shrinks rest (native_statement C) \<and> shrinks rest (native_create C)"

definition cursor_ok :: "('p, 'd, 'c, 'f) sql_cursor \<Rightarrow> ('p \<Rightarrow> sql_token list) \<Rightarrow> bool" where
  "cursor_ok C rest \<longleftrightarrow> cursor_steps C rest \<and> cursor_reads C rest"

named_theorems cursor_simps \<open>the calls of a cursor that behaves as documented\<close>

lemma cursor_steps_of: "cursor_ok C rest \<Longrightarrow> cursor_steps C rest"
  by (simp add: cursor_ok_def)

lemma cursor_reads_of: "cursor_ok C rest \<Longrightarrow> cursor_reads C rest"
  by (simp add: cursor_ok_def)

lemma cursor_calls [cursor_simps]:
  assumes "cursor_ok C rest"
  shows "fst (peek_token C p) = hd_tok (rest p)"
    and "fst (next_token C p) = peek_token C p"
    and "rest (snd (next_token C p)) = tl (rest p)"
    and "consume_token C t p = (if hd_tok (rest p) = t then (True, snd (next_token C p)) else (False, p))"
    and "parse_keyword C k p = (if is_kw k (hd_tok (rest p)) then (True, snd (next_token C p)) else (False, p))"
    and "parse_one_of_keywords C ks p =
        (case one_of ks (hd_tok (rest p)) of Some k \<Rightarrow> (Some k, snd (next_token C p)) | None \<Rightarrow> (None, p))"
    and "peek_keyword C k p = is_kw k (hd_tok (rest p))"
  using cursor_steps_of [OF assms] unfolding cursor_steps_def by auto

lemma cursor_keywords:
  assumes "cursor_ok C rest"
  shows "list_all2 is_kw ks (take (length ks) (rest p)) \<Longrightarrow>
           fst (parse_keywords C ks p) \<and> rest (snd (parse_keywords C ks p)) = drop (length ks) (rest p)"
    and "\<not> list_all2 is_kw ks (take (length ks) (rest p)) \<Longrightarrow> parse_keywords C ks p = (False, p)"
  using cursor_steps_of [OF assms] unfolding cursor_steps_def by metis+

lemma cursor_expects:
  assumes "cursor_ok C rest"
  shows "is_kw k (hd_tok (rest p)) \<Longrightarrow> expect_keyword C k p = (Inr (), snd (next_token C p))"
    and "\<not> is_kw k (hd_tok (rest p)) \<Longrightarrow> \<exists>e. expect_keyword C k p = (Inl e, p)"
    and "hd_tok (rest p) = t \<Longrightarrow> expect_token C t p = (Inr (), snd (next_token C p))"
    and "hd_tok (rest p) \<noteq> t \<Longrightarrow> \<exists>e. expect_token C t p = (Inl e, p)"
  using cursor_reads_of [OF assms] unfolding cursor_reads_def by metis+

lemma cursor_name:
  "cursor_ok C rest \<Longrightarrow> name \<noteq> [] \<Longrightarrow> rest p = name_tokens name @ later \<Longrightarrow> hd_tok later \<noteq> Tok_Period \<Longrightarrow>
     fst (parse_object_name C p) = Inr name \<and> rest (snd (parse_object_name C p)) = later"
  using cursor_reads_of unfolding cursor_reads_def by blast

lemma cursor_literals:
  assumes "cursor_ok C rest"
  shows "takes rest (parse_literal_string C) [Tok_SingleQuotedString s] s"
    and "takes rest (parse_number_value C) [Tok_Number s l] (Number s l)"
  using cursor_reads_of [OF assms] unfolding cursor_reads_def by blast+

lemma cursor_shrinks:
  assumes "cursor_ok C rest"
  shows "shrinks rest (parse_object_name C)" and "shrinks rest (parse_literal_string C)"
    and "shrinks rest (parse_number_value C)" and "shrinks rest (parse_columns C)"
    and "shrinks rest (native_statement C)" and "shrinks rest (native_create C)"
  using cursor_reads_of [OF assms] unfolding cursor_reads_def by blast+

section \<open>The loops end\<close>

text \<open>
  A call fails properly when it neither runs out of fuel nor panics. It stays within \<open>k\<close> tokens when it
  also leaves at most \<open>k\<close> tokens.
\<close>

definition proper :: "failure + 'a \<Rightarrow> bool" where
  "proper r \<longleftrightarrow> r \<noteq> Inl Out_of_Fuel \<and> (\<forall>msg. r \<noteq> Inl (Panicked msg))"

definition within :: "('p \<Rightarrow> sql_token list) \<Rightarrow> nat \<Rightarrow> (failure + 'a) \<times> 'p \<Rightarrow> bool" where
  "within rest k m \<longleftrightarrow> proper (fst m) \<and> length (rest (snd m)) \<le> k"

lemma within_pair: "within rest k (r, p) \<longleftrightarrow> proper r \<and> length (rest p) \<le> k"
  by (simp add: within_def)

lemma proper_simps [simp]:
  "proper (Inr a)" "proper (Inl (Failed e))" "\<not> proper (Inl Out_of_Fuel)" "\<not> proper (Inl (Panicked msg))"
  by (auto simp: proper_def)

lemma proper_map_ok [simp]: "proper (map_ok f r) = proper r"
  by (cases r) (auto simp: proper_def)

lemma proper_map_err [simp]: "proper (map_err (\<lambda>e. Failed (f e)) r)"
  by (cases r) auto

lemma within_mono: "within rest j m \<Longrightarrow> j \<le> k \<Longrightarrow> within rest k m"
  by (auto simp: within_def)

lemma within_and_then:
  assumes "within rest k m" and "\<And>a p. length (rest p) \<le> k \<Longrightarrow> within rest k (f a p)"
  shows "within rest k (and_then m f)"
  using assms by (cases m; cases "fst m") (auto simp: within_def proper_def)

lemma within_lift: "length (rest (snd m)) \<le> k \<Longrightarrow> within rest k (lift_parser m)"
  by (cases m; cases "fst m") (auto simp: within_def lift_parser_def)

lemma within_shrinks: "shrinks rest f \<Longrightarrow> length (rest p) \<le> k \<Longrightarrow> within rest k (lift_parser (f p))"
  by (rule within_lift) (metis shrinks_def le_trans)

lemma errors_proper [simp]:
  "proper (parser_err msg)" "proper (expected C e found)" "proper (ensure_not_set field name)"
  by (simp_all add: parser_err_def expected_def ensure_not_set_def)

lemma hd_tok_Nil [simp]: "hd_tok [] = Tok_EOF"
  by (simp add: hd_tok_def)

lemma hd_tok_Cons [simp]: "hd_tok (t # ts) = t"
  by (simp add: hd_tok_def)

lemma is_kw_EOF [simp]: "\<not> is_kw k Tok_EOF"
  by (simp add: is_kw_def)

lemma one_of_EOF [simp]: "one_of ks Tok_EOF = None"
  by (simp add: one_of_def)

lemma tl_shorter: "hd_tok ts \<noteq> Tok_EOF \<Longrightarrow> length ts \<le> k \<Longrightarrow> length (tl ts) < k"
  by (cases ts) auto

lemma tl_no_longer: "length ts \<le> k \<Longrightarrow> length (tl ts) \<le> k"
  by simp

lemma within_next:
  "cursor_ok C rest \<Longrightarrow> length (rest p) \<le> k \<Longrightarrow> length (rest (snd (next_token C p))) \<le> k"
  by (simp add: cursor_simps)

lemma expects_shrink:
  assumes "cursor_ok C rest"
  shows "shrinks rest (expect_keyword C kw)" and "shrinks rest (expect_token C t)"
  using cursor_expects [OF assms] within_next [OF assms] unfolding shrinks_def
  by (metis order_refl snd_conv)+

lemma keywords_shrink:
  assumes "cursor_ok C rest" and "parse_keywords C ks p = (b, p1)"
  shows "length (rest p1) \<le> length (rest p)"
  using cursor_keywords [OF assms(1), of ks p] assms(2)
  by (cases "list_all2 is_kw ks (take (length ks) (rest p))") auto

lemma keyword_taken:
  assumes "cursor_ok C rest"
  shows "parse_keyword C kw p = (True, p1) \<Longrightarrow> length (rest p) \<le> k \<Longrightarrow> length (rest p1) < k"
    and "parse_keyword C kw p = (False, p1) \<Longrightarrow> p1 = p"
    and "consume_token C t p = (True, p1) \<Longrightarrow> t \<noteq> Tok_EOF \<Longrightarrow> length (rest p) \<le> k \<Longrightarrow> length (rest p1) < k"
    and "consume_token C t p = (False, p1) \<Longrightarrow> p1 = p"
    and "parse_one_of_keywords C ks p = (Some kw', p1) \<Longrightarrow> length (rest p) \<le> k \<Longrightarrow> length (rest p1) < k"
    and "parse_one_of_keywords C ks p = (None, p1) \<Longrightarrow> p1 = p"
    and "parse_one_of_keywords C ks p = (Some kw', p1) \<Longrightarrow> kw' \<in> set ks"
  using cursor_calls [OF assms] tl_shorter
  by (auto split: if_splits option.splits)
    (metis is_kw_EOF one_of_EOF option.distinct(1), metis is_kw_EOF one_of_EOF option.distinct(1),
      auto simp: one_of_def split: sql_token.splits if_splits)

lemma within_end:
  "cursor_ok C rest \<Longrightarrow> length (rest p) \<le> k \<Longrightarrow> within rest k (end_of_statement C what p)"
  using within_next [of C rest p k]
  by (auto simp: end_of_statement_def within_pair split: prod.splits)

lemma within_key_parts:
  assumes "cursor_ok C rest"
  shows "length (rest p) \<le> k \<Longrightarrow> k < n \<Longrightarrow> within rest k (parse_key_parts C n parts p)"
proof (induction n arbitrary: p parts k)
  case 0
  then show ?case by simp
next
  case (Suc n)
  show ?case
  proof (cases "consume_token C Tok_Period p")
    case (Pair b p1)
    show ?thesis
    proof (cases b)
      case True
      then have lt: "length (rest p1) < k"
        using keyword_taken(3) [OF assms, of Tok_Period p p1 k] Pair Suc.prems by simp
      obtain found p2 where n: "next_token C p1 = (found, p2)" by fastforce
      have le: "length (rest p2) \<le> k - 1"
        using lt within_next [OF assms, of p1 "k - 1"] n by simp
      have "within rest k (parse_key_parts C n (parts @ [w]) p2)" for w
        by (rule within_mono [OF Suc.IH [OF le, of "parts @ [w]"]]) (use lt Suc.prems in auto)
      then show ?thesis
        using True Pair n le by (auto simp: within_pair split: sql_token.splits)
    next
      case False
      then show ?thesis
        using keyword_taken(4) [OF assms, of Tok_Period p p1] Pair Suc.prems by (simp add: within_pair)
    qed
  qed
qed

lemma within_option_key:
  assumes "cursor_ok C rest" and "length (rest p) \<le> k" and "k < n"
  shows "within rest k (parse_option_key C n p)"
proof (cases "next_token C p")
  case (Pair found p1)
  then have le: "length (rest p1) \<le> k"
    using within_next [OF assms(1,2)] by simp
  have "within rest k (and_then (parse_key_parts C n [w] p1) (\<lambda>parts p2. (Inr (str_join ''.'' parts), p2)))" for w
    by (rule within_and_then) (use within_key_parts [OF assms(1) le assms(3)] in \<open>auto simp: within_pair\<close>)
  then show ?thesis
    using Pair le by (auto simp: parse_option_key_def within_pair split: sql_token.splits)
qed

lemma within_option_value:
  assumes "cursor_ok C rest" and "length (rest p) \<le> k"
  shows "within rest k (parse_option_value C p)"
proof (cases "next_token C p")
  case (Pair found p1)
  then have "length (rest p1) \<le> k" using within_next [OF assms] by simp
  then show ?thesis using Pair by (auto simp: parse_option_value_def within_pair split: sql_token.splits)
qed

lemma within_value_options_loop:
  assumes "cursor_ok C rest"
  shows "length (rest p) \<le> k \<Longrightarrow> k < n \<Longrightarrow> within rest k (value_options_loop C n options p)"
proof (induction n arbitrary: p options k)
  case 0
  then show ?case by simp
next
  case (Suc n)
  have tail: "within rest k
      (case consume_token C Tok_Comma p2 of (comma, p3) \<Rightarrow>
         (case consume_token C Tok_RParen p3 of
            (True, p4) \<Rightarrow> (Inr opts, p4)
          | (False, p4) \<Rightarrow>
              if \<not> comma then (expected C what (peek_token C p4), p4) else value_options_loop C n opts p4))"
    if le: "length (rest p2) \<le> k" for p2 opts what
  proof -
    obtain comma p3 where c: "consume_token C Tok_Comma p2 = (comma, p3)" by fastforce
    obtain close p4 where r: "consume_token C Tok_RParen p3 = (close, p4)" by fastforce
    have le3: "length (rest p3) \<le> k" and lt3: "comma \<Longrightarrow> length (rest p3) < k"
      using keyword_taken(3,4) [OF assms, of Tok_Comma p2 p3] c le by (cases comma; fastforce)+
    have le4: "length (rest p4) \<le> length (rest p3)"
      using keyword_taken(3,4) [OF assms, of Tok_RParen p3 p4] r by (cases close) fastforce+
    have "within rest k (value_options_loop C n opts p4)" if "comma"
      by (rule within_mono [OF Suc.IH [of p4 "k - 1"]]) (use that lt3 le4 Suc.prems in auto)
    then show ?thesis using c r le3 le4 by (auto simp: within_pair split: bool.splits)
  qed
  show ?case
    using tail by (auto intro!: within_and_then within_option_key within_option_value assms Suc.prems)
qed

lemma within_value_options:
  assumes "cursor_ok C rest" and "length (rest p) \<le> k" and "k < n"
  shows "within rest k (parse_value_options C n p)"
  unfolding parse_value_options_def
  by (rule within_and_then [OF within_shrinks [OF expects_shrink(2) [OF assms(1)] assms(2)]])
    (use within_value_options_loop [OF assms(1)] assms(3) in blast)

lemmas within_calls =
  within_and_then within_value_options within_shrinks expects_shrink cursor_shrinks within_end

lemma within_vacuum_clause:
  assumes "cursor_ok C rest" and "length (rest p) \<le> k" and "kw \<in> set [K_DRY, K_FULL, K_RETAIN]"
  shows "within rest k (vacuum_clause C kw cmd p)"
  using assms by (auto simp: vacuum_clause_def within_pair split: sql_value.splits intro!: within_calls)

lemma within_managed_location:
  assumes "cursor_ok C rest" and "length (rest p) \<le> k"
  shows "within rest k (managed_location_clause C field p)"
  using assms by (auto simp: managed_location_clause_def within_pair split: option.splits intro!: within_calls)

lemma within_comment:
  assumes "cursor_ok C rest" and "length (rest p) \<le> k"
  shows "within rest k (comment_clause C field p)"
  using assms by (auto simp: comment_clause_def within_pair intro!: within_calls)

lemma within_catalog_clause:
  assumes "cursor_ok C rest" and "length (rest p) \<le> k" and "k < n"
    and "kw \<in> set [K_USING, K_MANAGED, K_COMMENT, K_DEFAULT, K_OPTIONS]"
  shows "within rest k (catalog_clause C n kw b p)"
  using assms
  by (auto simp: catalog_clause_def within_pair intro!: within_calls within_managed_location within_comment)

lemma within_schema_clause:
  assumes "cursor_ok C rest" and "length (rest p) \<le> k" and "k < n"
    and "kw \<in> set [K_MANAGED, K_COMMENT, K_WITH]"
  shows "within rest k (schema_clause C n kw b p)"
  using assms within_next [OF assms(1,2)]
  by (auto simp: schema_clause_def within_pair split: prod.splits
      intro!: within_calls within_managed_location within_comment)

text \<open>The clause loops of \<^verbatim>\<open>VACUUM\<close>, \<^verbatim>\<open>CREATE CATALOG\<close> and \<^verbatim>\<open>CREATE SCHEMA\<close> have one shape.\<close>

lemma within_clause_loop:
  assumes ok: "cursor_ok C rest"
    and step: "\<And>n st p. loop (Suc n) st p =
      (case parse_one_of_keywords C ks p of
         (Some kw, p1) \<Rightarrow> and_then (clause (Suc n) kw st p1) (\<lambda>st1 p2. loop n st1 p2)
       | (None, p1) \<Rightarrow> and_then (end_of_statement C what p1) (\<lambda>_ p2. (Inr st, p2)))"
    and clause: "\<And>n kw st p k. length (rest p) \<le> k \<Longrightarrow> k < n \<Longrightarrow> kw \<in> set ks \<Longrightarrow>
      within rest k (clause n kw st p)"
  shows "length (rest p) \<le> k \<Longrightarrow> k < n \<Longrightarrow> within rest k (loop n st p)"
proof (induction n arbitrary: p st k)
  case 0
  then show ?case by simp
next
  case (Suc n)
  obtain kw p1 where o: "parse_one_of_keywords C ks p = (kw, p1)" by fastforce
  show ?case
  proof (cases kw)
    case None
    with keyword_taken(6) [OF ok] o have "p1 = p" by blast
    then show ?thesis
      using None o Suc.prems by (auto simp: step within_pair intro!: within_calls ok)
  next
    case (Some w)
    have lt: "length (rest p1) < k"
      using keyword_taken(5) [OF ok] o Some Suc.prems by blast
    have w: "w \<in> set ks"
      using keyword_taken(7) [OF ok] o Some by blast
    have "within rest (k - 1) (and_then (clause (Suc n) w st p1) (\<lambda>st1 p2. loop n st1 p2))"
      by (rule within_and_then [OF clause]) (use w lt Suc.prems Suc.IH in auto)
    then show ?thesis
      using Some o by (auto simp: step intro: within_mono)
  qed
qed

lemma within_vacuum_loop:
  assumes "cursor_ok C rest" and "length (rest p) \<le> k" and "k < n"
  shows "within rest k (vacuum_loop C n cmd p)"
  by (rule within_clause_loop [OF assms(1), where loop = "vacuum_loop C" and clause = "\<lambda>n. vacuum_clause C", OF vacuum_loop.simps(2) _ assms(2,3)])
    (rule within_vacuum_clause [OF assms(1)])

lemma within_catalog_loop:
  assumes "cursor_ok C rest" and "length (rest p) \<le> k" and "k < n"
  shows "within rest k (catalog_loop C n b p)"
  by (rule within_clause_loop [OF assms(1), where loop = "catalog_loop C" and clause = "catalog_clause C", OF catalog_loop.simps(2) _ assms(2,3)])
    (rule within_catalog_clause [OF assms(1)])

lemma within_schema_loop:
  assumes "cursor_ok C rest" and "length (rest p) \<le> k" and "k < n"
  shows "within rest k (schema_loop C n b p)"
  by (rule within_clause_loop [OF assms(1), where loop = "schema_loop C" and clause = "schema_clause C", OF schema_loop.simps(2) _ assms(2,3)])
    (rule within_schema_clause [OF assms(1)])

lemma keyword_shrink:
  assumes "cursor_ok C rest" and "parse_keyword C kw p = (b, p1)"
  shows "length (rest p1) \<le> length (rest p)"
  using cursor_calls(3,5) [OF assms(1)] assms(2) by (auto split: if_splits)

lemma within_table_loop:
  assumes "cursor_ok C rest"
  shows "length (rest p) \<le> k \<Longrightarrow> k < n \<Longrightarrow> within rest k (table_loop C n p)"
proof (induction n arbitrary: p k)
  case 0
  then show ?case by simp
next
  case (Suc n)
  obtain b p1 where u: "parse_keyword C K_USING p = (b, p1)" by fastforce
  show ?case
  proof (cases b)
    case True
    have lt: "length (rest p1) < k"
      using keyword_taken(1) [OF assms, of K_USING p p1 k] u True Suc.prems by simp
    have "within rest (k - 1) (and_then (lift_parser (parse_object_name C p1)) (\<lambda>_. table_loop C n))"
      by (rule within_and_then [OF within_shrinks [OF cursor_shrinks(1) [OF assms]]])
        (use lt Suc.prems Suc.IH in auto)
    then show ?thesis using True u by (auto intro: within_mono)
  next
    case False
    obtain l p2 where l: "parse_keyword C K_LOCATION p1 = (l, p2)" by fastforce
    have "p1 = p" using keyword_taken(2) [OF assms, of K_USING p p1] u False by simp
    moreover have "length (rest p2) \<le> length (rest p1)"
      using keyword_shrink [OF assms l] .
    ultimately show ?thesis
      using False u l Suc.prems by (auto simp: within_pair split: bool.splits intro!: within_end assms)
  qed
qed

lemma keywords_case:
  assumes "cursor_ok C rest" and "length (rest p) \<le> k"
    and "\<And>b p1. length (rest p1) \<le> k \<Longrightarrow> within rest k (f b p1)"
  shows "within rest k (case parse_keywords C ks p of (b, p1) \<Rightarrow> f b p1)"
  using keywords_shrink [OF assms(1)] assms(2,3) by (auto split: prod.splits) (meson le_trans)

lemma keyword_case:
  assumes "cursor_ok C rest" and "length (rest p) \<le> k"
    and "\<And>p1. length (rest p1) \<le> k \<Longrightarrow> within rest k (f p1)"
    and "\<And>p1. length (rest p1) \<le> k \<Longrightarrow> within rest k (g p1)"
  shows "within rest k (case parse_keyword C kw p of (True, p1) \<Rightarrow> f p1 | (False, p1) \<Rightarrow> g p1)"
  using keyword_shrink [OF assms(1)] assms(2-4)
  by (auto split: prod.splits bool.splits) (meson le_trans)+

lemma keywords_branch:
  assumes "cursor_ok C rest" and "length (rest p) \<le> k"
    and "\<And>p1. length (rest p1) \<le> k \<Longrightarrow> within rest k (f p1)"
    and "\<And>p1. length (rest p1) \<le> k \<Longrightarrow> within rest k (g p1)"
  shows "within rest k (case parse_keywords C ks p of (True, p1) \<Rightarrow> f p1 | (False, p1) \<Rightarrow> g p1)"
  using keywords_shrink [OF assms(1)] assms(2-4)
  by (auto split: prod.splits bool.splits) (meson le_trans)+

lemma within_native:
  assumes "shrinks rest f" and "length (rest p) \<le> k" and "\<And>r. proper (g r)"
  shows "within rest k (map_prod g id (f p))"
  using assms by (cases "f p") (simp add: within_pair shrinks_def, metis le_trans snd_conv)

lemma within_handle:
  assumes "cursor_ok C rest" and "length (rest p) \<le> k"
  shows "within rest k (parse_and_handle_statement C p)"
  unfolding parse_and_handle_statement_def
  by (rule within_native [OF cursor_shrinks(5) [OF assms(1)] assms(2)])
    (auto simp: map_ok_def map_err_def split: sum.splits parser_error.splits)

lemma within_create_catalog:
  assumes "cursor_ok C rest" and "length (rest p) \<le> k" and "k < n"
  shows "within rest k (parse_create_catalog C n p)"
  unfolding parse_create_catalog_def
  by (rule keywords_case [OF assms(1,2)])
    (auto simp: within_pair intro!: within_calls within_catalog_loop assms)

lemma within_create_schema:
  assumes "cursor_ok C rest" and "length (rest p) \<le> k" and "k < n"
  shows "within rest k (parse_create_schema C n p)"
  unfolding parse_create_schema_def
  by (rule keywords_case [OF assms(1,2)])
    (auto simp: within_pair intro!: within_calls within_schema_loop assms)

lemma within_create_table:
  assumes "cursor_ok C rest" and "length (rest p) \<le> k" and "k < n"
  shows "within rest k (parse_create_table C n p)"
  unfolding parse_create_table_def
  by (rule within_and_then [OF within_shrinks [OF expects_shrink(1) [OF assms(1)] assms(2)]],
      rule keywords_case [OF assms(1)], assumption)
    (auto simp: within_pair intro!: within_calls within_table_loop assms)

lemma within_vacuum:
  assumes "cursor_ok C rest" and "length (rest p) \<le> k" and "k < n"
  shows "within rest k (parse_vacuum C n p)"
  unfolding parse_vacuum_def
  by (auto simp: within_pair intro!: within_calls within_vacuum_loop within_next assms)

text \<open>The four statements after \<^verbatim>\<open>CREATE\<close> whose parser is a \<^verbatim>\<open>todo!\<close>.\<close>

definition unfinished :: "sql_token list \<Rightarrow> bool" where
  "unfinished ts \<longleftrightarrow>
     is_kw K_CONNECTION (hd_tok ts) \<or> is_kw K_LOCATION (hd_tok ts) \<or> is_kw K_SHARE (hd_tok ts) \<or>
     list_all2 is_kw [K_FOREIGN, K_CATALOG] (take 2 ts)"

lemma is_kw_unique: "is_kw k t \<Longrightarrow> is_kw k' t \<longleftrightarrow> k = k'"
  by (auto simp: is_kw_def split: sql_token.splits)

lemma foreign_hd: "list_all2 is_kw [K_FOREIGN, K_CATALOG] (take 2 ts) \<Longrightarrow> is_kw K_FOREIGN (hd_tok ts)"
  by (cases ts) auto

lemma foreign_keywords:
  assumes "cursor_ok C rest"
  shows "list_all2 is_kw [K_FOREIGN, K_CATALOG] (take 2 (rest p)) \<Longrightarrow>
      \<exists>p1. parse_keywords C [K_FOREIGN, K_CATALOG] p = (True, p1)"
    and "\<not> list_all2 is_kw [K_FOREIGN, K_CATALOG] (take 2 (rest p)) \<Longrightarrow>
      parse_keywords C [K_FOREIGN, K_CATALOG] p = (False, p)"
  using cursor_keywords [OF assms, of "[K_FOREIGN, K_CATALOG]" p]
  by (cases "parse_keywords C [K_FOREIGN, K_CATALOG] p"; auto simp: numeral_2_eq_2)+

lemma within_create:
  assumes "cursor_ok C rest" and "length (rest p) \<le> k" and "k < n" and "\<not> unfinished (rest p)"
  shows "within rest k (parse_create C n p)"
proof -
  have no: "parse_keyword C kw p = (False, p)" if "kw \<in> {K_CONNECTION, K_LOCATION, K_SHARE}" for kw
    using assms(4) that by (auto simp: unfinished_def cursor_calls(5) [OF assms(1)])
  have no_foreign: "parse_keywords C [K_FOREIGN, K_CATALOG] p = (False, p)"
    using foreign_keywords(2) [OF assms(1)] assms(4) by (auto simp: unfinished_def)
  have native: "within rest k (map_prod (\<lambda>r. map_ok DFStatement (map_err Failed r)) id (native_create C p))"
    by (rule within_native [OF cursor_shrinks(6) [OF assms(1)] assms(2)]) simp
  have le: "length (rest (snd (next_token C p))) \<le> k"
    using within_next [OF assms(1,2)] .
  show ?thesis
    using no no_foreign native le
      within_create_catalog [OF assms(1) le assms(3)] within_create_schema [OF assms(1) le assms(3)]
      within_create_table [OF assms(1-3)]
    by (auto simp: parse_create_def cursor_calls(5,7) [OF assms(1)] split: if_splits)
qed

lemma create_unfinished:
  assumes "cursor_ok C rest" and "unfinished (rest p)"
  shows "\<exists>msg p1. parse_create C n p = (Inl (Panicked msg), p1) \<and> length (rest p1) \<le> length (rest p)"
proof -
  have le: "length (rest (snd (next_token C p))) \<le> length (rest p)"
    using within_next [OF assms(1)] by blast
  have no_foreign: "parse_keywords C [K_FOREIGN, K_CATALOG] p = (False, p)"
    if "is_kw kw (hd_tok (rest p))" "kw \<noteq> K_FOREIGN" for kw
    using foreign_keywords(2) [OF assms(1)] foreign_hd is_kw_unique that by blast
  consider "is_kw K_CONNECTION (hd_tok (rest p))" | "is_kw K_LOCATION (hd_tok (rest p))"
    | "is_kw K_SHARE (hd_tok (rest p))" | "list_all2 is_kw [K_FOREIGN, K_CATALOG] (take 2 (rest p))"
    using assms(2) by (auto simp: unfinished_def)
  then show ?thesis
  proof cases
    case 1
    then show ?thesis
      using le by (simp add: parse_create_def cursor_calls(5) [OF assms(1)] not_implemented_def is_kw_unique [OF 1])
  next
    case 2
    then show ?thesis
      using le by (simp add: parse_create_def cursor_calls(5) [OF assms(1)] not_implemented_def is_kw_unique [OF 2]
          no_foreign [OF 2])
  next
    case 3
    then show ?thesis
      using le by (simp add: parse_create_def cursor_calls(5) [OF assms(1)] not_implemented_def is_kw_unique [OF 3]
          no_foreign [OF 3])
  next
    case 4
    then obtain p1 where p1: "parse_keywords C [K_FOREIGN, K_CATALOG] p = (True, p1)"
      using foreign_keywords(1) [OF assms(1)] by blast
    then show ?thesis
      using keywords_shrink [OF assms(1) p1] is_kw_unique [OF foreign_hd [OF 4]]
      by (simp add: parse_create_def cursor_calls(5) [OF assms(1)] not_implemented_def)
  qed
qed

lemma within_drop:
  assumes "cursor_ok C rest" and "length (rest p) \<le> k"
  shows "within rest k (parse_drop C p)"
proof -
  have entity: "within rest k (parse_drop_entity C accepted msg build p1)"
    if "length (rest p1) \<le> k" for p1 accepted msg build
    unfolding parse_drop_entity_def
    by (rule keywords_case [OF assms(1) that])
      (auto simp: within_pair split: prod.splits intro!: within_calls assms
        dest!: keyword_shrink [OF assms(1)])
  show ?thesis
    unfolding parse_drop_def parse_drop_catalog_def parse_drop_schema_def
    by (intro keywords_branch [OF assms(1)] within_handle [OF assms(1)] entity assms(2))
qed

lemma within_statement:
  assumes "cursor_ok C rest" and "length (rest p) \<le> k" and "k < n"
    and "\<not> (is_kw K_CREATE (hd_tok (rest p)) \<and> unfinished (tl (rest p)))"
  shows "within rest k (parse_statement C n p)"
  using assms(4) cursor_calls(1,3) [OF assms(1)] unfolding parse_statement_def
  by (auto simp: is_kw_def split: sql_token.splits sql_keyword.splits
      intro!: within_create within_drop within_vacuum within_handle within_next assms(1-3))

lemma statement_unfinished:
  assumes "cursor_ok C rest" and "is_kw K_CREATE (hd_tok (rest p))" and "unfinished (tl (rest p))"
  shows "\<exists>msg p1. parse_statement C n p = (Inl (Panicked msg), p1) \<and> length (rest p1) \<le> length (rest p)"
proof -
  have t: "rest (snd (next_token C p)) = tl (rest p)" using cursor_calls(3) [OF assms(1)] .
  then have "parse_statement C n p = parse_create C n (snd (next_token C p))"
    using assms(2) cursor_calls(1) [OF assms(1), of p]
    by (auto simp: parse_statement_def is_kw_def split: sql_token.splits)
  moreover obtain msg p1 where "parse_create C n (snd (next_token C p)) = (Inl (Panicked msg), p1)"
      "length (rest p1) \<le> length (tl (rest p))"
    using create_unfinished [OF assms(1), of "snd (next_token C p)" n] t assms(3) by auto
  ultimately show ?thesis by (auto intro: diff_le_self order_trans)
qed

text \<open>A call that may panic still ends.\<close>

definition halts :: "('p \<Rightarrow> sql_token list) \<Rightarrow> nat \<Rightarrow> (failure + 'a) \<times> 'p \<Rightarrow> bool" where
  "halts rest k m \<longleftrightarrow> fst m \<noteq> Inl Out_of_Fuel \<and> length (rest (snd m)) \<le> k"

lemma within_halts: "within rest k m \<Longrightarrow> halts rest k m"
  by (auto simp: halts_def within_def)

lemma halts_mono: "halts rest j m \<Longrightarrow> j \<le> k \<Longrightarrow> halts rest k m"
  by (auto simp: halts_def)

lemma halts_and_then:
  assumes "halts rest k m" and "\<And>a p. length (rest p) \<le> k \<Longrightarrow> halts rest k (f a p)"
  shows "halts rest k (and_then m f)"
  using assms by (cases m; cases "fst m") (auto simp: halts_def)

lemma halts_statement:
  assumes "cursor_ok C rest" and "length (rest p) \<le> k" and "k < n"
  shows "halts rest k (parse_statement C n p)"
proof (cases "is_kw K_CREATE (hd_tok (rest p)) \<and> unfinished (tl (rest p))")
  case True
  then show ?thesis using statement_unfinished [OF assms(1), of p n] assms(2) by (auto simp: halts_def)
next
  case False
  then show ?thesis using within_statement [OF assms] within_halts by blast
qed

lemma skip_delimiters_ends:
  assumes "cursor_ok C rest"
  shows "length (rest p) < n \<Longrightarrow>
    \<exists>still p1. skip_delimiters C n e p = (Inr still, p1) \<and> length (rest p1) \<le> length (rest p) \<and>
      (still \<longrightarrow> e) \<and> (e \<and> \<not> still \<longrightarrow> length (rest p1) < length (rest p))"
proof (induction n arbitrary: p e)
  case 0
  then show ?case by simp
next
  case (Suc n)
  obtain b p1 where c: "consume_token C Tok_SemiColon p = (b, p1)" by fastforce
  show ?case
  proof (cases b)
    case True
    have "length (rest p1) < length (rest p)"
      using keyword_taken(3) [OF assms, of Tok_SemiColon p p1] c True by simp
    with Suc.IH [of p1 False] Suc.prems show ?thesis using c True by fastforce
  next
    case False
    then show ?thesis
      using keyword_taken(4) [OF assms, of Tok_SemiColon p p1] c by simp
  qed
qed

lemma halts_statements_loop:
  assumes "cursor_ok C rest" and "k0 < fuel"
  shows "length (rest p) \<le> k \<Longrightarrow> k \<le> k0 \<Longrightarrow> k + (if e then 0 else 1) < n \<Longrightarrow>
    halts rest k (statements_loop C fuel n e stmts p)"
proof (induction n arbitrary: p e stmts k)
  case 0
  then show ?case by simp
next
  case (Suc n)
  obtain still p1 where s: "skip_delimiters C fuel e p = (Inr still, p1)"
    and le: "length (rest p1) \<le> length (rest p)"
    and lt: "e \<and> \<not> still \<longrightarrow> length (rest p1) < length (rest p)" and st: "still \<longrightarrow> e"
    using skip_delimiters_ends [OF assms(1), of p fuel e] assms(2) Suc.prems by fastforce
  have le1: "length (rest p1) \<le> k" using le Suc.prems by simp
  show ?case
  proof (cases "still \<or> fst (peek_token C p1) = Tok_EOF")
    case True
    then show ?thesis using s le1 by (auto simp: halts_def expected_def parser_err_def)
  next
    case False
    define j where "j = (if e then k - 1 else k)"
    have j: "length (rest p1) \<le> j" "j \<le> k" "j < n"
      using False lt le1 le Suc.prems by (auto simp: j_def)
    have "halts rest j (and_then (parse_statement C fuel p1)
            (\<lambda>stmt p2. statements_loop C fuel n True (stmts @ [stmt]) p2))"
      by (rule halts_and_then [OF halts_statement [OF assms(1) j(1)]])
        (use j assms(2) Suc.prems Suc.IH in auto)
    then show ?thesis using s False j(2) by (auto intro: halts_mono)
  qed
qed

lemma parse_statements_ends:
  assumes "cursor_ok C rest" and "length (rest p) + 1 < fuel"
  shows "fst (parse_statements C fuel p) \<noteq> Inl Out_of_Fuel"
  using halts_statements_loop [OF assms(1), of "length (rest p)" fuel p "length (rest p)" False fuel "[]"] assms(2)
  by (simp add: parse_statements_def halts_def)

end
