(* ===== verification/Sql_Grammar.thy ===== *)
theory Sql_Grammar
  imports Sql_Parser_Facts
begin

text \<open>
  The grammar the parser of \<open>Sql_Parser\<close> reads, as printing functions from statements to tokens, and that
  the parser inverts them. A keyword may be spelled in any way (\<open>sp\<close>), a float is written by \<open>ft\<close>.
\<close>

section \<open>Printing\<close>

definition kw :: "(sql_keyword \<Rightarrow> string) \<Rightarrow> sql_keyword \<Rightarrow> sql_token" where
  "kw sp k = Tok_Word (sp k) None k"

definition when_set :: "bool \<Rightarrow> 'a list \<Rightarrow> 'a list" where
  "when_set b ts = (if b then ts else [])"

definition clause :: "'b option \<Rightarrow> ('b \<Rightarrow> 'a list) \<Rightarrow> 'a list" where
  "clause x f = (case x of None \<Rightarrow> [] | Some y \<Rightarrow> f y)"

definition value_token :: "sql_value \<Rightarrow> sql_token" where
  "value_token v =
     (case v of
        Number s l \<Rightarrow> Tok_Number s l
      | SingleQuotedString s \<Rightarrow> Tok_SingleQuotedString s
      | DoubleQuotedString s \<Rightarrow> Tok_DoubleQuotedString s
      | EscapedStringLiteral s \<Rightarrow> Tok_EscapedStringLiteral s
      | Other_Value s \<Rightarrow> Tok_Other s)"

fun option_tokens :: "(string \<times> sql_value) list \<Rightarrow> sql_token list" where
  "option_tokens [] = [Tok_RParen]"
| "option_tokens [(k, v)] = [Tok_SingleQuotedString k, value_token v, Tok_RParen]"
| "option_tokens ((k, v) # o1 # os) = Tok_SingleQuotedString k # value_token v # Tok_Comma # option_tokens (o1 # os)"

fun statement_tokens ::
  "(sql_keyword \<Rightarrow> string) \<Rightarrow> ('f \<Rightarrow> string) \<Rightarrow> ('d, 'c, 'f) statement \<Rightarrow> sql_token list" where
  "statement_tokens sp ft (DFStatement d) = []"
| "statement_tokens sp ft (UnityCatalog (CreateCatalog s)) =
     [kw sp K_CREATE, kw sp K_CATALOG] @ when_set (cc_if_not_exists s) (map (kw sp) if_not_exists)
     @ name_tokens (cc_name s)
     @ clause (cc_using_share s) (\<lambda>n. [kw sp K_USING, kw sp K_SHARE] @ name_tokens n)
     @ clause (cc_managed_location s) (\<lambda>u. [kw sp K_MANAGED, kw sp K_LOCATION, Tok_SingleQuotedString u])
     @ clause (cc_default_collation s) (\<lambda>c. [kw sp K_DEFAULT, kw sp K_COLLATION, Tok_SingleQuotedString c])
     @ clause (cc_comment s) (\<lambda>c. [kw sp K_COMMENT, Tok_SingleQuotedString c])
     @ clause (cc_options s) (\<lambda>os. [kw sp K_OPTIONS, Tok_LParen] @ option_tokens os)"
| "statement_tokens sp ft (UnityCatalog (CreateSchema s)) =
     [kw sp K_CREATE, kw sp K_SCHEMA] @ when_set (cs_if_not_exists s) (map (kw sp) if_not_exists)
     @ name_tokens (cs_name s)
     @ clause (cs_managed_location s) (\<lambda>u. [kw sp K_MANAGED, kw sp K_LOCATION, Tok_SingleQuotedString u])
     @ clause (cs_comment s) (\<lambda>c. [kw sp K_COMMENT, Tok_SingleQuotedString c])
     @ clause (cs_properties s)
         (\<lambda>os. [kw sp K_WITH, Tok_Word ''DBPROPERTIES'' None NoKeyword, Tok_LParen] @ option_tokens os)"
| "statement_tokens sp ft (UnityCatalog (CreateManagedTable s)) = []"
| "statement_tokens sp ft (UnityCatalog (DropCatalog s)) =
     [kw sp K_DROP, kw sp K_CATALOG] @ when_set (dr_if_exists s) (map (kw sp) [K_IF, K_EXISTS])
     @ name_tokens (dr_name s) @ when_set (dr_cascade s) [kw sp K_CASCADE]"
| "statement_tokens sp ft (UnityCatalog (DropSchema s)) =
     [kw sp K_DROP, kw sp K_SCHEMA] @ when_set (dr_if_exists s) (map (kw sp) [K_IF, K_EXISTS])
     @ name_tokens (dr_name s) @ when_set (dr_cascade s) [kw sp K_CASCADE]"
| "statement_tokens sp ft (Vacuum s) =
     kw sp K_VACUUM # name_tokens (vs_name s)
     @ clause (vs_mode s) (\<lambda>_. [kw sp K_FULL])
     @ clause (vs_retention_hours s) (\<lambda>h. [kw sp K_RETAIN, Tok_Number (ft h) False, kw sp K_HOURS])
     @ clause (vs_dry_run s) (\<lambda>_. [kw sp K_DRY, kw sp K_RUN])"

section \<open>What can be printed\<close>

definition options_ok :: "(string \<times> sql_value) list option \<Rightarrow> bool" where
  "options_ok os = (case os of None \<Rightarrow> True | Some xs \<Rightarrow> xs \<noteq> [] \<and> (\<forall>x \<in> set xs. \<forall>s. snd x \<noteq> Other_Value s))"

definition location_ok :: "('p, 'd, 'c, 'f) sql_cursor \<Rightarrow> string option \<Rightarrow> bool" where
  "location_ok C l = (case l of None \<Rightarrow> True | Some u \<Rightarrow> url_parse C u = Some u)"

fun printable :: "('p, 'd, 'c, 'f) sql_cursor \<Rightarrow> ('f \<Rightarrow> string) \<Rightarrow> ('d, 'c, 'f) statement \<Rightarrow> bool" where
  "printable C ft (DFStatement d) = False"
| "printable C ft (UnityCatalog (CreateCatalog s)) =
     (length (cc_name s) = 1 \<and> (\<forall>n. cc_using_share s = Some n \<longrightarrow> length n = 2) \<and>
      \<not> (cc_using_share s \<noteq> None \<and> cc_managed_location s \<noteq> None) \<and>
      location_ok C (cc_managed_location s) \<and> options_ok (cc_options s))"
| "printable C ft (UnityCatalog (CreateSchema s)) =
     (cs_name s \<noteq> [] \<and> length (cs_name s) \<le> 2 \<and> location_ok C (cs_managed_location s) \<and>
      options_ok (cs_properties s))"
| "printable C ft (UnityCatalog (CreateManagedTable s)) = False"
| "printable C ft (UnityCatalog (DropCatalog s)) = (length (dr_name s) = 1)"
| "printable C ft (UnityCatalog (DropSchema s)) = (dr_name s \<noteq> [] \<and> length (dr_name s) \<le> 2)"
| "printable C ft (Vacuum s) =
     (vs_name s \<noteq> [] \<and> vs_mode s \<noteq> Some Mode_Lite \<and> vs_dry_run s \<noteq> Some False \<and>
      (\<forall>h. vs_retention_hours s = Some h \<longrightarrow> f64_parse C (ft h) = Inr h))"

text \<open>A \<^verbatim>\<open>DROP\<close> leaves its delimiter to the caller; the other statements read it as part of themselves.\<close>

fun reads_delimiter :: "('d, 'c, 'f) statement \<Rightarrow> bool" where
  "reads_delimiter (UnityCatalog (DropCatalog _)) = False"
| "reads_delimiter (UnityCatalog (DropSchema _)) = False"
| "reads_delimiter _ = True"

text \<open>What follows a statement: nothing, or a delimiter.\<close>

definition delimited :: "sql_token list \<Rightarrow> bool" where
  "delimited ts \<longleftrightarrow> ts = [] \<or> hd ts = Tok_SemiColon"

section \<open>Reading single pieces\<close>

lemma is_kw_kw [simp]: "is_kw k (kw sp k') \<longleftrightarrow> k = k'"
  by (auto simp: is_kw_def kw_def)

lemma one_of_kw [simp]: "one_of ks (kw sp k) = (if k \<in> set ks then Some k else None)"
  by (simp add: one_of_def kw_def)

lemma kw_neq [simp]:
  "kw sp k \<noteq> Tok_Period" "kw sp k \<noteq> Tok_EOF" "kw sp k \<noteq> Tok_SemiColon" "kw sp k \<noteq> Tok_LParen"
  by (simp_all add: kw_def)

lemma kw_inj [simp]: "kw sp k = kw sp k' \<longleftrightarrow> k = k'"
  by (auto simp: kw_def)

lemma delimited_hd: "delimited ts \<Longrightarrow> hd_tok ts = Tok_EOF \<or> hd_tok ts = Tok_SemiColon"
  by (cases ts) (auto simp: delimited_def)

lemma hd_tok_append: "hd_tok (ts @ us) = (if ts = [] then hd_tok us else hd_tok ts)"
  by (cases ts) auto

text \<open>A call that succeeds with \<open>a\<close> and leaves \<open>ts\<close>.\<close>

definition reads :: "('p \<Rightarrow> sql_token list) \<Rightarrow> (failure + 'a) \<times> 'p \<Rightarrow> 'a \<Rightarrow> sql_token list \<Rightarrow> bool" where
  "reads rest m a ts \<longleftrightarrow> (\<exists>p. m = (Inr a, p) \<and> rest p = ts)"

lemma reads_and_then:
  assumes "reads rest m a us" and "\<And>p. rest p = us \<Longrightarrow> reads rest (f a p) b ts"
  shows "reads rest (and_then m f) b ts"
  using assms by (auto simp: reads_def)

lemma reads_pair: "reads rest (Inr a, p) a (rest p)"
  by (auto simp: reads_def)

lemma reads_takes:
  assumes "takes rest f us a" and "rest p = us @ ts"
  shows "reads rest (lift_parser (f p)) a ts"
proof -
  have "fst (f p) = Inr a \<and> rest (snd (f p)) = ts"
    using assms unfolding takes_def by blast
  then show ?thesis by (cases "f p") (auto simp: reads_def lift_parser_def)
qed

lemma reads_name:
  assumes "cursor_ok C rest" and "name \<noteq> []" and "rest p = name_tokens name @ ts" and "hd_tok ts \<noteq> Tok_Period"
  shows "reads rest (lift_parser (parse_object_name C p)) name ts"
  using cursor_name [OF assms]
  by (cases "parse_object_name C p") (auto simp: reads_def lift_parser_def)

lemma reads_keyword:
  assumes "cursor_ok C rest" and "rest p = kw sp k # ts"
  shows "reads rest (lift_parser (expect_keyword C k p)) () ts"
  using cursor_expects(1) [OF assms(1), of k p] cursor_calls(3) [OF assms(1), of p] assms(2)
  by (auto simp: reads_def lift_parser_def)

lemma reads_token:
  assumes "cursor_ok C rest" and "rest p = t # ts"
  shows "reads rest (lift_parser (expect_token C t p)) () ts"
  using cursor_expects(3) [OF assms(1), of p t] cursor_calls(3) [OF assms(1), of p] assms(2)
  by (auto simp: reads_def lift_parser_def)

lemma next_reads:
  assumes "cursor_ok C rest" and "rest p = t # ts"
  shows "\<exists>loc p1. next_token C p = ((t, loc), p1) \<and> rest p1 = ts"
  using cursor_calls(1,2,3) [OF assms(1), of p] assms(2)
  by (metis hd_tok_Cons list.sel(3) prod.collapse)

lemma reads_end:
  assumes "cursor_ok C rest" and "delimited (rest p)"
  shows "reads rest (end_of_statement C what p) () (tl (rest p))"
  using cursor_calls(1,2,3) [OF assms(1), of p] delimited_hd [OF assms(2)]
  by (cases "next_token C p") (auto simp: end_of_statement_def reads_def)

section \<open>Options\<close>

lemma reads_option_key:
  assumes "cursor_ok C rest" and "rest p = Tok_SingleQuotedString k # ts"
  shows "reads rest (parse_option_key C n p) k ts"
  using next_reads [OF assms] by (auto simp: parse_option_key_def reads_def)

lemma reads_option_value:
  assumes "cursor_ok C rest" and "rest p = value_token v # ts" and "\<forall>s. v \<noteq> Other_Value s"
  shows "reads rest (parse_option_value C p) v ts"
  using next_reads [OF assms(1,2)] assms(3)
  by (cases v) (auto simp: parse_option_value_def reads_def value_token_def)

lemma consume_reads:
  assumes "cursor_ok C rest" and "rest p = t # ts"
  shows "\<exists>p1. consume_token C t p = (True, p1) \<and> rest p1 = ts"
  using cursor_calls(3,4) [OF assms(1)] assms(2) by (metis hd_tok_Cons list.sel(3))

lemma consume_passes:
  "cursor_ok C rest \<Longrightarrow> hd_tok (rest p) \<noteq> t \<Longrightarrow> consume_token C t p = (False, p)"
  by (simp add: cursor_simps)

lemma reads_options_loop:
  assumes "cursor_ok C rest"
  shows "os \<noteq> [] \<Longrightarrow> \<forall>x \<in> set os. \<forall>s. snd x \<noteq> Other_Value s \<Longrightarrow> rest p = option_tokens os @ ts \<Longrightarrow>
    length os \<le> n \<Longrightarrow> reads rest (value_options_loop C n acc p) (acc @ os) ts"
proof (induction os arbitrary: n acc p rule: option_tokens.induct)
  case 1
  then show ?case by simp
next
  case (2 k v)
  then obtain m where n: "n = Suc m" by (cases n) auto
  have tail: "reads rest
      (case consume_token C Tok_Comma p2 of (comma, p3) \<Rightarrow>
         (case consume_token C Tok_RParen p3 of
            (True, p4) \<Rightarrow> (Inr opts, p4) | (False, p4) \<Rightarrow> g comma p4)) opts ts"
    if "rest p2 = Tok_RParen # ts" for p2 g and opts :: "(string \<times> sql_value) list"
    using consume_passes [OF assms, of p2 Tok_Comma] consume_reads [OF assms that] that
    by (auto simp: reads_def)
  show ?case
    unfolding n value_options_loop.simps
    by (rule reads_and_then [OF reads_option_key [OF assms]], use 2 in simp,
        rule reads_and_then [OF reads_option_value [OF assms]], assumption, use 2 in simp)
      (simp add: tail)
next
  case (3 k v o1 os)
  then obtain m where n: "n = Suc m" by (cases n) auto
  have o1: "\<exists>t us. option_tokens (o1 # os) = Tok_SingleQuotedString t # us"
    by (cases os; cases o1) auto
  have tail: "reads rest
      (case consume_token C Tok_Comma p2 of (comma, p3) \<Rightarrow>
         (case consume_token C Tok_RParen p3 of
            (True, p4) \<Rightarrow> (Inr opts, p4)
          | (False, p4) \<Rightarrow>
              if \<not> comma then (expected C what (peek_token C p4), p4)
              else value_options_loop C m (acc @ [(k, v)]) p4)) (acc @ (k, v) # o1 # os) ts"
    if p2: "rest p2 = Tok_Comma # option_tokens (o1 # os) @ ts" for p2 opts what
  proof -
    obtain p3 where p3: "consume_token C Tok_Comma p2 = (True, p3)" "rest p3 = option_tokens (o1 # os) @ ts"
      using consume_reads [OF assms p2] by blast
    then have "consume_token C Tok_RParen p3 = (False, p3)"
      using o1 by (intro consume_passes [OF assms]) auto
    then show ?thesis
      using "3.IH" [of p3 m "acc @ [(k, v)]"] "3.prems" p3 n by simp
  qed
  show ?case
    unfolding n value_options_loop.simps
    by (rule reads_and_then [OF reads_option_key [OF assms]], use 3 in simp,
        rule reads_and_then [OF reads_option_value [OF assms]], assumption, use 3 in simp)
      (simp add: tail)
qed

lemma reads_value_options:
  assumes "cursor_ok C rest" and "rest p = Tok_LParen # option_tokens os @ ts" and "options_ok (Some os)"
    and "length os \<le> n"
  shows "reads rest (parse_value_options C n p) os ts"
  unfolding parse_value_options_def
  by (rule reads_and_then [OF reads_token [OF assms(1,2)]])
    (use reads_options_loop [OF assms(1), of os _ ts n "[]"] assms(3,4) in \<open>auto simp: options_ok_def\<close>)

section \<open>Clauses\<close>

lemma one_of_reads:
  assumes "cursor_ok C rest" and "rest p = kw sp k # ts" and "k \<in> set ks"
  shows "\<exists>p1. parse_one_of_keywords C ks p = (Some k, p1) \<and> rest p1 = ts"
  using cursor_calls(3,6) [OF assms(1)] assms(2,3) by (metis hd_tok_Cons list.sel(3) one_of_kw option.simps(5))

lemma clause_step:
  assumes ok: "cursor_ok C rest"
    and step: "\<And>n st p. loop (Suc n) st p =
      (case parse_one_of_keywords C ks p of
         (Some k, p1) \<Rightarrow> and_then (cls (Suc n) k st p1) (\<lambda>st1 p2. loop n st1 p2)
       | (None, p1) \<Rightarrow> and_then (end_of_statement C what p1) (\<lambda>_ p2. (Inr st, p2)))"
    and k: "k \<in> set ks" and p: "rest p = clause x (\<lambda>y. kw sp k # f y) @ vs" and n: "Suc m \<le> n"
    and cls: "\<And>y n p1. x = Some y \<Longrightarrow> Suc m \<le> n \<Longrightarrow> rest p1 = f y @ vs \<Longrightarrow> 
      reads rest (cls n k st p1) (upd (Some y) st) vs"
    and upd: "upd None st = st"
    and later: "\<And>n p2. m \<le> n \<Longrightarrow> rest p2 = vs \<Longrightarrow> reads rest (loop n (upd x st) p2) fin ts"
  shows "reads rest (loop n st p) fin ts"
proof (cases x)
  case None
  then show ?thesis using later [of n p] p n upd by (simp add: clause_def)
next
  case (Some y)
  then have "rest p = kw sp k # f y @ vs" using p by (simp add: clause_def)
  then obtain p1 where p1: "parse_one_of_keywords C ks p = (Some k, p1)" "rest p1 = f y @ vs"
    using one_of_reads [OF ok _ k] by blast
  obtain n' where n': "n = Suc n'" "m \<le> n'" using n by (cases n) auto
  have "reads rest (and_then (cls (Suc n') k st p1) (\<lambda>st1 p2. loop n' st1 p2)) fin ts"
    by (rule reads_and_then [OF cls [OF Some]]) (use p1 n' later [of n'] Some in auto)
  then show ?thesis using p1 n' by (simp add: step)
qed

lemma loop_end:
  assumes ok: "cursor_ok C rest"
    and step: "loop (Suc n) st p =
      (case parse_one_of_keywords C ks p of
         (Some k, p1) \<Rightarrow> g k p1
       | (None, p1) \<Rightarrow> and_then (end_of_statement C what p1) (\<lambda>_ p2. (Inr st, p2)))"
    and p: "delimited (rest p)"
  shows "reads rest (loop (Suc n) st p) st (tl (rest p))"
proof -
  have "one_of ks (hd_tok (rest p)) = None"
    using delimited_hd [OF p] by (auto simp: one_of_def)
  then have "parse_one_of_keywords C ks p = (None, p)"
    using cursor_calls(6) [OF ok] by simp
  then show ?thesis
    using reads_end [OF ok p, of what] by (auto simp: step reads_def)
qed

lemma reads_managed_location:
  assumes "cursor_ok C rest" and "rest p = [kw sp K_LOCATION, Tok_SingleQuotedString u] @ ts"
    and "location_ok C (Some u)"
  shows "reads rest (managed_location_clause C None p) u ts"
  unfolding managed_location_clause_def
  by (rule reads_and_then [OF reads_keyword [OF assms(1)]], use assms(2) in simp, simp add: ensure_not_set_def)
    (rule reads_and_then [OF reads_takes [OF cursor_literals(1) [OF assms(1)]]], simp,
      use assms(3) in \<open>auto simp: location_ok_def reads_def\<close>)

lemma reads_comment:
  assumes "cursor_ok C rest" and "rest p = Tok_SingleQuotedString c # ts"
  shows "reads rest (comment_clause C None p) c ts"
  using reads_takes [OF cursor_literals(1) [OF assms(1)], of p c ts] assms(2)
  by (simp add: comment_clause_def ensure_not_set_def)

lemma not_set [simp]: "ensure_not_set None name = Inr ()"
  by (simp add: ensure_not_set_def)

lemma reads_now: "rest p = ts \<Longrightarrow> reads rest (Inr a, p) a ts"
  by (auto simp: reads_def)

lemma reads_literal:
  "cursor_ok C rest \<Longrightarrow> rest p = Tok_SingleQuotedString s # ts \<Longrightarrow> reads rest (lift_parser (parse_literal_string C p)) s ts"
  using reads_takes [OF cursor_literals(1)] by fastforce

lemma catalog_clauses_read:
  assumes ok: "cursor_ok C rest"
  shows "cb_using_share b = None \<Longrightarrow> length nm = 2 \<Longrightarrow> hd_tok ts \<noteq> Tok_Period \<Longrightarrow>
      rest p = [kw sp K_SHARE] @ name_tokens nm @ ts \<Longrightarrow>
      reads rest (catalog_clause C n K_USING b p) (b\<lparr>cb_using_share := Some nm\<rparr>) ts"
    and "cb_managed_location b = None \<Longrightarrow> location_ok C (Some u) \<Longrightarrow>
      rest p = [kw sp K_LOCATION, Tok_SingleQuotedString u] @ ts \<Longrightarrow>
      reads rest (catalog_clause C n K_MANAGED b p) (b\<lparr>cb_managed_location := Some u\<rparr>) ts"
    and "cb_default_collation b = None \<Longrightarrow> rest p = [kw sp K_COLLATION, Tok_SingleQuotedString c] @ ts \<Longrightarrow>
      reads rest (catalog_clause C n K_DEFAULT b p) (b\<lparr>cb_default_collation := Some c\<rparr>) ts"
    and "cb_comment b = None \<Longrightarrow> rest p = [Tok_SingleQuotedString c] @ ts \<Longrightarrow>
      reads rest (catalog_clause C n K_COMMENT b p) (b\<lparr>cb_comment := Some c\<rparr>) ts"
    and "cb_options b = None \<Longrightarrow> options_ok (Some os) \<Longrightarrow> length os \<le> n \<Longrightarrow>
      rest p = [Tok_LParen] @ option_tokens os @ ts \<Longrightarrow>
      reads rest (catalog_clause C n K_OPTIONS b p) (b\<lparr>cb_options := Some os\<rparr>) ts"
proof -
  show "reads rest (catalog_clause C n K_USING b p) (b\<lparr>cb_using_share := Some nm\<rparr>) ts"
    if "cb_using_share b = None" "length nm = 2" "hd_tok ts \<noteq> Tok_Period"
      "rest p = [kw sp K_SHARE] @ name_tokens nm @ ts"
    using that
    by (auto simp: catalog_clause_def intro!: reads_and_then [OF reads_keyword [OF ok]]
        reads_and_then [OF reads_name [OF ok, where name = nm]] reads_now)
  show "reads rest (catalog_clause C n K_MANAGED b p) (b\<lparr>cb_managed_location := Some u\<rparr>) ts"
    if "cb_managed_location b = None" "location_ok C (Some u)"
      "rest p = [kw sp K_LOCATION, Tok_SingleQuotedString u] @ ts"
    using that
    by (auto simp: catalog_clause_def intro!: reads_and_then [OF reads_managed_location [OF ok]] reads_now)
  show "reads rest (catalog_clause C n K_DEFAULT b p) (b\<lparr>cb_default_collation := Some c\<rparr>) ts"
    if "cb_default_collation b = None" "rest p = [kw sp K_COLLATION, Tok_SingleQuotedString c] @ ts"
    using that
    by (auto simp: catalog_clause_def intro!: reads_and_then [OF reads_keyword [OF ok]]
        reads_and_then [OF reads_literal [OF ok]] reads_now)
  show "reads rest (catalog_clause C n K_COMMENT b p) (b\<lparr>cb_comment := Some c\<rparr>) ts"
    if "cb_comment b = None" "rest p = [Tok_SingleQuotedString c] @ ts"
    using that by (auto simp: catalog_clause_def intro!: reads_and_then [OF reads_comment [OF ok]] reads_now)
  show "reads rest (catalog_clause C n K_OPTIONS b p) (b\<lparr>cb_options := Some os\<rparr>) ts"
    if "cb_options b = None" "options_ok (Some os)" "length os \<le> n"
      "rest p = [Tok_LParen] @ option_tokens os @ ts"
    using that
    by (auto simp: catalog_clause_def intro!: reads_and_then [OF reads_value_options [OF ok]] reads_now)
qed

lemma catalog_end:
  assumes "cursor_ok C rest" and "delimited ts" and "m + 1 \<le> n" and "rest p = ts" and "b = b'"
  shows "reads rest (catalog_loop C n b p) b' (tl ts)"
proof -
  obtain n' where "n = Suc n'" using assms(3) by (cases n) auto
  then show ?thesis
    using loop_end [OF assms(1), where loop = "catalog_loop C", OF catalog_loop.simps(2)] assms(2,4,5) by blast
qed

lemma catalog_loop_reads:
  assumes ok: "cursor_ok C rest" and ts: "delimited ts"
    and n: "length (clause os id) + 6 \<le> n"
    and sh: "\<And>y. sh = Some y \<Longrightarrow> length y = 2" and lo: "location_ok C lo" and os: "options_ok os"
    and p: "rest p =
       clause sh (\<lambda>y. kw sp K_USING # [kw sp K_SHARE] @ name_tokens y)
     @ clause lo (\<lambda>u. kw sp K_MANAGED # [kw sp K_LOCATION, Tok_SingleQuotedString u])
     @ clause co (\<lambda>c. kw sp K_DEFAULT # [kw sp K_COLLATION, Tok_SingleQuotedString c])
     @ clause cm (\<lambda>c. kw sp K_COMMENT # [Tok_SingleQuotedString c])
     @ clause os (\<lambda>os. kw sp K_OPTIONS # [Tok_LParen] @ option_tokens os) @ ts"
  shows "reads rest (catalog_loop C n
      \<lparr>cb_using_share = None, cb_managed_location = None, cb_default_collation = None, cb_comment = None,
       cb_options = None\<rparr> p)
      \<lparr>cb_using_share = sh, cb_managed_location = lo, cb_default_collation = co, cb_comment = cm,
       cb_options = os\<rparr> (tl ts)"
proof -
  define L where "L = length (clause os id)"
  note cls = catalog_clauses_read [OF ok]
  note eat = clause_step [OF ok, where loop = "catalog_loop C" and cls = "catalog_clause C", OF catalog_loop.simps(2)]
  have hd: "hd_tok (clause lo (\<lambda>u. kw sp K_MANAGED # f1 u) @ clause co (\<lambda>c. kw sp K_DEFAULT # f2 c)
      @ clause cm (\<lambda>c. kw sp K_COMMENT # f3 c) @ clause os (\<lambda>os. kw sp K_OPTIONS # f4 os) @ ts) \<noteq> Tok_Period"
    for f1 f2 f3 f4
    using delimited_hd [OF ts] by (auto simp: clause_def hd_tok_append split: option.splits)
  show ?thesis
    apply (rule eat [OF _ p, where upd = "\<lambda>x b. b\<lparr>cb_using_share := x\<rparr>" and m = "L + 5"])
        apply simp
       apply (use n L_def in simp)
      apply (rule cls(1); use sh hd in simp)
     apply simp
    apply (rule eat [where upd = "\<lambda>x b. b\<lparr>cb_managed_location := x\<rparr>" and m = "L + 4" and k = K_MANAGED], simp, assumption, simp)
      apply (rule cls(2); use lo in simp)
     apply simp
    apply (rule eat [where upd = "\<lambda>x b. b\<lparr>cb_default_collation := x\<rparr>" and m = "L + 3" and k = K_DEFAULT], simp, assumption, simp)
      apply (rule cls(3); simp)
     apply simp
    apply (rule eat [where upd = "\<lambda>x b. b\<lparr>cb_comment := x\<rparr>" and m = "L + 2" and k = K_COMMENT], simp, assumption, simp)
      apply (rule cls(4); simp)
     apply simp
    apply (rule eat [where upd = "\<lambda>x b. b\<lparr>cb_options := x\<rparr>" and m = "L + 1" and k = K_OPTIONS], simp, assumption, simp)
      apply (rule cls(5); use os in \<open>simp add: L_def clause_def\<close>)
     apply simp
    apply (rule catalog_end [OF ok ts]; simp)
    done
qed

lemma schema_clauses_read:
  assumes ok: "cursor_ok C rest"
  shows "sb_managed_location b = None \<Longrightarrow> location_ok C (Some u) \<Longrightarrow>
      rest p = [kw sp K_LOCATION, Tok_SingleQuotedString u] @ ts \<Longrightarrow>
      reads rest (schema_clause C n K_MANAGED b p) (b\<lparr>sb_managed_location := Some u\<rparr>) ts"
    and "sb_comment b = None \<Longrightarrow> rest p = [Tok_SingleQuotedString c] @ ts \<Longrightarrow>
      reads rest (schema_clause C n K_COMMENT b p) (b\<lparr>sb_comment := Some c\<rparr>) ts"
    and "sb_properties b = None \<Longrightarrow> options_ok (Some os) \<Longrightarrow> length os \<le> n \<Longrightarrow>
      rest p = [Tok_Word ''DBPROPERTIES'' None NoKeyword, Tok_LParen] @ option_tokens os @ ts \<Longrightarrow>
      reads rest (schema_clause C n K_WITH b p) (b\<lparr>sb_properties := Some os\<rparr>) ts"
proof -
  show "reads rest (schema_clause C n K_MANAGED b p) (b\<lparr>sb_managed_location := Some u\<rparr>) ts"
    if "sb_managed_location b = None" "location_ok C (Some u)"
      "rest p = [kw sp K_LOCATION, Tok_SingleQuotedString u] @ ts"
    using that
    by (auto simp: schema_clause_def intro!: reads_and_then [OF reads_managed_location [OF ok]] reads_now)
  show "reads rest (schema_clause C n K_COMMENT b p) (b\<lparr>sb_comment := Some c\<rparr>) ts"
    if "sb_comment b = None" "rest p = [Tok_SingleQuotedString c] @ ts"
    using that by (auto simp: schema_clause_def intro!: reads_and_then [OF reads_comment [OF ok]] reads_now)
  show "reads rest (schema_clause C n K_WITH b p) (b\<lparr>sb_properties := Some os\<rparr>) ts"
    if os: "sb_properties b = None" "options_ok (Some os)" "length os \<le> n"
      and p: "rest p = [Tok_Word ''DBPROPERTIES'' None NoKeyword, Tok_LParen] @ option_tokens os @ ts"
  proof -
    obtain loc p1 where "next_token C p = ((Tok_Word ''DBPROPERTIES'' None NoKeyword, loc), p1)"
      and "rest p1 = Tok_LParen # option_tokens os @ ts"
      using next_reads [OF ok] p by fastforce
    then show ?thesis
      using os
      by (auto simp: schema_clause_def eq_ignore_ascii_case_def
          intro!: reads_and_then [OF reads_value_options [OF ok]] reads_now)
  qed
qed

lemma schema_end:
  assumes "cursor_ok C rest" and "delimited ts" and "m + 1 \<le> n" and "rest p = ts" and "b = b'"
  shows "reads rest (schema_loop C n b p) b' (tl ts)"
proof -
  obtain n' where "n = Suc n'" using assms(3) by (cases n) auto
  then show ?thesis
    using loop_end [OF assms(1), where loop = "schema_loop C", OF schema_loop.simps(2)] assms(2,4,5) by blast
qed

lemma schema_loop_reads:
  assumes ok: "cursor_ok C rest" and ts: "delimited ts"
    and n: "length (clause os id) + 4 \<le> n" and lo: "location_ok C lo" and os: "options_ok os"
    and p: "rest p =
       clause lo (\<lambda>u. kw sp K_MANAGED # [kw sp K_LOCATION, Tok_SingleQuotedString u])
     @ clause cm (\<lambda>c. kw sp K_COMMENT # [Tok_SingleQuotedString c])
     @ clause os (\<lambda>os. kw sp K_WITH # [Tok_Word ''DBPROPERTIES'' None NoKeyword, Tok_LParen] @ option_tokens os) @ ts"
  shows "reads rest (schema_loop C n \<lparr>sb_managed_location = None, sb_comment = None, sb_properties = None\<rparr> p)
      \<lparr>sb_managed_location = lo, sb_comment = cm, sb_properties = os\<rparr> (tl ts)"
proof -
  define L where "L = length (clause os id)"
  note cls = schema_clauses_read [OF ok]
  note eat = clause_step [OF ok, where loop = "schema_loop C" and cls = "schema_clause C", OF schema_loop.simps(2)]
  show ?thesis
    apply (rule eat [OF _ p, where upd = "\<lambda>x b. b\<lparr>sb_managed_location := x\<rparr>" and m = "L + 3"])
        apply simp
       apply (use n L_def in simp)
      apply (rule cls(1); use lo in simp)
     apply simp
    apply (rule eat [where upd = "\<lambda>x b. b\<lparr>sb_comment := x\<rparr>" and m = "L + 2" and k = K_COMMENT], simp, assumption, simp)
      apply (rule cls(2); simp)
     apply simp
    apply (rule eat [where upd = "\<lambda>x b. b\<lparr>sb_properties := x\<rparr>" and m = "L + 1" and k = K_WITH], simp, assumption, simp)
      apply (rule cls(3); use os in \<open>simp add: L_def clause_def\<close>)
     apply simp
    apply (rule schema_end [OF ok ts]; simp)
    done
qed

lemma vacuum_clauses_read:
  assumes ok: "cursor_ok C rest"
  shows "rest p = ts \<Longrightarrow> reads rest (vacuum_clause C K_FULL v p) (v\<lparr>vs_mode := Some Mode_Full\<rparr>) ts"
    and "f64_parse C s = Inr h \<Longrightarrow> rest p = [Tok_Number s l, kw sp K_HOURS] @ ts \<Longrightarrow>
      reads rest (vacuum_clause C K_RETAIN v p) (v\<lparr>vs_retention_hours := Some h\<rparr>) ts"
    and "vs_dry_run v = None \<Longrightarrow> rest p = [kw sp K_RUN] @ ts \<Longrightarrow>
      reads rest (vacuum_clause C K_DRY v p) (v\<lparr>vs_dry_run := Some True\<rparr>) ts"
proof -
  show "reads rest (vacuum_clause C K_FULL v p) (v\<lparr>vs_mode := Some Mode_Full\<rparr>) ts" if "rest p = ts"
    using that by (auto simp: vacuum_clause_def intro!: reads_now)
  show "reads rest (vacuum_clause C K_RETAIN v p) (v\<lparr>vs_retention_hours := Some h\<rparr>) ts"
    if "f64_parse C s = Inr h" "rest p = [Tok_Number s l, kw sp K_HOURS] @ ts"
    using that
    by (auto simp: vacuum_clause_def intro!: reads_and_then [OF reads_takes [OF cursor_literals(2) [OF ok, of s l]]]
        reads_and_then [OF reads_keyword [OF ok]] reads_now)
  show "reads rest (vacuum_clause C K_DRY v p) (v\<lparr>vs_dry_run := Some True\<rparr>) ts"
    if "vs_dry_run v = None" "rest p = [kw sp K_RUN] @ ts"
    using that
    by (auto simp: vacuum_clause_def intro!: reads_and_then [OF reads_keyword [OF ok]] reads_now)
qed

lemma vacuum_end:
  assumes "cursor_ok C rest" and "delimited ts" and "m + 1 \<le> n" and "rest p = ts" and "b = b'"
  shows "reads rest (vacuum_loop C n b p) b' (tl ts)"
proof -
  obtain n' where "n = Suc n'" using assms(3) by (cases n) auto
  then show ?thesis
    using loop_end [OF assms(1), where loop = "vacuum_loop C", OF vacuum_loop.simps(2)] assms(2,4,5) by blast
qed

lemma vacuum_loop_reads:
  assumes ok: "cursor_ok C rest" and ts: "delimited ts" and n: "4 \<le> n"
    and mo: "mo \<noteq> Some Mode_Lite" and dr: "dr \<noteq> Some False" and ho: "\<And>h. ho = Some h \<Longrightarrow> f64_parse C (ft h) = Inr h"
    and p: "rest p =
       clause mo (\<lambda>_. kw sp K_FULL # []) @ clause ho (\<lambda>h. kw sp K_RETAIN # [Tok_Number (ft h) False, kw sp K_HOURS])
     @ clause dr (\<lambda>_. kw sp K_DRY # [kw sp K_RUN]) @ ts"
  shows "reads rest (vacuum_loop C n
      \<lparr>vs_name = name, vs_mode = None, vs_retention_hours = None, vs_dry_run = None\<rparr> p)
      \<lparr>vs_name = name, vs_mode = mo, vs_retention_hours = ho, vs_dry_run = dr\<rparr> (tl ts)"
proof -
  note cls = vacuum_clauses_read [OF ok]
  note eat = clause_step [OF ok, where loop = "vacuum_loop C" and cls = "\<lambda>_. vacuum_clause C", OF vacuum_loop.simps(2)]
  have full: "mo = Some y \<Longrightarrow> y = Mode_Full" for y using mo by (cases y) auto
  have dry: "dr = Some y \<Longrightarrow> y" for y using dr by auto
  show ?thesis
    apply (rule eat [OF _ p, where upd = "\<lambda>x b. b\<lparr>vs_mode := x\<rparr>" and m = 3])
        apply simp
       apply (use n in simp)
      apply (use full in \<open>auto simp: vacuum_clause_def intro!: reads_now\<close>)[1]
     apply simp
    apply (rule eat [where upd = "\<lambda>x b. b\<lparr>vs_retention_hours := x\<rparr>" and m = 2 and k = K_RETAIN], simp, assumption, simp)
      apply (rule cls(2) [where l = False and sp = sp]; use ho in simp)
     apply simp
    apply (rule eat [where upd = "\<lambda>x b. b\<lparr>vs_dry_run := x\<rparr>" and m = 1 and k = K_DRY], simp, assumption, simp)
      apply (use dry in \<open>auto simp: vacuum_clause_def intro!: reads_and_then [OF reads_keyword [OF ok]] reads_now\<close>)[1]
     apply simp
    apply (rule vacuum_end [OF ok ts, where m = 0]; simp)
    done
qed

section \<open>Statements\<close>

lemma keywords_read:
  assumes "cursor_ok C rest" and "rest p = map (kw sp) ks @ ts"
  shows "\<exists>p1. parse_keywords C ks p = (True, p1) \<and> rest p1 = ts"
proof -
  have "list_all2 is_kw ks (take (length ks) (rest p))"
    using assms(2) by (simp add: list_all2_conv_all_nth)
  then show ?thesis
    using cursor_keywords(1) [OF assms(1), of ks p] assms(2) by (cases "parse_keywords C ks p") auto
qed

lemma keywords_pass:
  "cursor_ok C rest \<Longrightarrow> \<not> is_kw k (hd_tok (rest p)) \<Longrightarrow> parse_keywords C (k # ks) p = (False, p)"
  using cursor_keywords(2) [of C rest "k # ks" p] by (cases "rest p") auto

lemma keywords_pass2:
  assumes "cursor_ok C rest" and "rest p = t # u # ts" and "\<not> is_kw k2 u"
  shows "parse_keywords C [k1, k2] p = (False, p)"
  using cursor_keywords(2) [OF assms(1), of "[k1, k2]" p] assms(2,3) by auto

text \<open>The optional words before a name.\<close>

lemma if_words:
  assumes "cursor_ok C rest" and "rest p = when_set b (map (kw sp) (k # ks)) @ ts" and "\<not> is_kw k (hd_tok ts)"
  shows "\<exists>p1. parse_keywords C (k # ks) p = (b, p1) \<and> rest p1 = ts"
  using keywords_read [OF assms(1), of p sp "k # ks" ts] keywords_pass [OF assms(1), of k p ks] assms(2,3)
  by (cases b) (auto simp: when_set_def)

lemma name_hd:
  assumes "name \<noteq> []" and "k \<noteq> NoKeyword"
  shows "\<not> is_kw k (hd_tok (name_tokens name @ ts))"
  using assms by (cases name rule: name_tokens.cases) (auto simp: is_kw_def ident_token_def)

lemma keyword_reads:
  assumes "cursor_ok C rest" and "rest p = kw sp k # ts"
  shows "\<exists>p1. parse_keyword C k p = (True, p1) \<and> rest p1 = ts"
  using cursor_calls(3,5) [OF assms(1)] assms(2) by (metis hd_tok_Cons is_kw_kw list.sel(3))

lemma keyword_passes:
  "cursor_ok C rest \<Longrightarrow> \<not> is_kw k (hd_tok (rest p)) \<Longrightarrow> parse_keyword C k p = (False, p)"
  by (simp add: cursor_simps)

lemma delimited_not_kw: "delimited ts \<Longrightarrow> \<not> is_kw k (hd_tok ts)"
  using delimited_hd [of ts] by (auto simp: is_kw_def)

text \<open>A record is made of its fields.\<close>

lemma statement_eta:
  "\<lparr>cc_name = cc_name c, cc_if_not_exists = cc_if_not_exists c, cc_using_share = cc_using_share c,
    cc_managed_location = cc_managed_location c, cc_default_collation = cc_default_collation c,
    cc_comment = cc_comment c, cc_options = cc_options c\<rparr> = c"
  "\<lparr>cs_name = cs_name h, cs_if_not_exists = cs_if_not_exists h, cs_managed_location = cs_managed_location h,
    cs_comment = cs_comment h, cs_properties = cs_properties h\<rparr> = h"
  "\<lparr>dr_name = dr_name d, dr_if_exists = dr_if_exists d, dr_cascade = dr_cascade d\<rparr> = d"
  "\<lparr>vs_name = vs_name v, vs_mode = vs_mode v, vs_retention_hours = vs_retention_hours v,
    vs_dry_run = vs_dry_run v\<rparr> = v"
  by simp_all

lemma reads_drop_entity:
  assumes ok: "cursor_ok C rest" and ts: "delimited ts" and nm: "dr_name s \<noteq> []" "accepted (dr_name s)"
    and p: "rest p = when_set (dr_if_exists s) (map (kw sp) [K_IF, K_EXISTS]) @ name_tokens (dr_name s)
      @ when_set (dr_cascade s) [kw sp K_CASCADE] @ ts"
  shows "reads rest (parse_drop_entity C accepted msg build p) (UnityCatalog (build s)) ts"
proof -
  have hd: "hd_tok (when_set (dr_cascade s) [kw sp K_CASCADE] @ ts) \<noteq> Tok_Period"
    using delimited_hd [OF ts] by (auto simp: when_set_def)
  obtain p1 where p1: "parse_keywords C [K_IF, K_EXISTS] p = (dr_if_exists s, p1)"
      "rest p1 = name_tokens (dr_name s) @ when_set (dr_cascade s) [kw sp K_CASCADE] @ ts"
    using if_words [OF ok p name_hd [OF nm(1)]] by auto
  have cascade: "\<exists>p3. parse_keyword C K_CASCADE p2 = (dr_cascade s, p3) \<and> rest p3 = ts"
    if "rest p2 = when_set (dr_cascade s) [kw sp K_CASCADE] @ ts" for p2
    using keyword_reads [OF ok, of p2 sp K_CASCADE ts] keyword_passes [OF ok, of K_CASCADE p2] that
      delimited_not_kw [OF ts]
    by (cases "dr_cascade s") (auto simp: when_set_def)
  show ?thesis
    unfolding parse_drop_entity_def p1(1) prod.case
    by (rule reads_and_then [OF reads_name [OF ok nm(1) p1(2) hd]])
      (use nm(2) in \<open>auto simp: reads_def statement_eta dest!: cascade\<close>)
qed

lemma reads_create_catalog:
  assumes ok: "cursor_ok C rest" and ts: "delimited ts" and s: "printable C ft (UnityCatalog (CreateCatalog s))"
    and n: "length (clause (cc_options s) id) + 6 \<le> n"
    and p: "[kw sp K_CREATE, kw sp K_CATALOG] @ rest p =
      statement_tokens sp ft (UnityCatalog (CreateCatalog s)) @ ts"
  shows "reads rest (parse_create_catalog C n p) (UnityCatalog (CreateCatalog s)) (tl ts)"
proof -
  define us where "us =
       clause (cc_using_share s) (\<lambda>n. kw sp K_USING # [kw sp K_SHARE] @ name_tokens n)
     @ clause (cc_managed_location s) (\<lambda>u. kw sp K_MANAGED # [kw sp K_LOCATION, Tok_SingleQuotedString u])
     @ clause (cc_default_collation s) (\<lambda>c. kw sp K_DEFAULT # [kw sp K_COLLATION, Tok_SingleQuotedString c])
     @ clause (cc_comment s) (\<lambda>c. kw sp K_COMMENT # [Tok_SingleQuotedString c])
     @ clause (cc_options s) (\<lambda>os. kw sp K_OPTIONS # [Tok_LParen] @ option_tokens os) @ ts"
  have nm: "cc_name s \<noteq> []" "length (cc_name s) = 1" using s by auto
  have hd: "hd_tok us \<noteq> Tok_Period"
    using delimited_hd [OF ts] by (auto simp: us_def clause_def hd_tok_append split: option.splits)
  have p': "rest p = when_set (cc_if_not_exists s) (map (kw sp) [K_IF, K_NOT, K_EXISTS]) @ name_tokens (cc_name s) @ us"
    using p by (simp add: us_def if_not_exists_def)
  obtain p1 where p1: "parse_keywords C if_not_exists p = (cc_if_not_exists s, p1)"
      "rest p1 = name_tokens (cc_name s) @ us"
    using if_words [OF ok p' name_hd [OF nm(1)]] by (auto simp: if_not_exists_def)
  have loop: "reads rest (catalog_loop C n
      \<lparr>cb_using_share = None, cb_managed_location = None, cb_default_collation = None, cb_comment = None,
       cb_options = None\<rparr> p2)
      \<lparr>cb_using_share = cc_using_share s, cb_managed_location = cc_managed_location s,
       cb_default_collation = cc_default_collation s, cb_comment = cc_comment s, cb_options = cc_options s\<rparr> (tl ts)"
    if "rest p2 = us" for p2
    by (rule catalog_loop_reads [OF ok ts n, where sp = sp]) (use s that in \<open>auto simp: us_def\<close>)
  show ?thesis
    unfolding parse_create_catalog_def p1(1) prod.case
    by (rule reads_and_then [OF reads_name [OF ok nm(1) p1(2) hd]], simp add: nm(2) del: not_None_eq,
        rule reads_and_then [OF loop], assumption)
      (subst if_not_P, use s in simp, simp add: statement_eta reads_now)
qed

lemma reads_create_schema:
  assumes ok: "cursor_ok C rest" and ts: "delimited ts" and s: "printable C ft (UnityCatalog (CreateSchema s))"
    and n: "length (clause (cs_properties s) id) + 4 \<le> n"
    and p: "[kw sp K_CREATE, kw sp K_SCHEMA] @ rest p =
      statement_tokens sp ft (UnityCatalog (CreateSchema s)) @ ts"
  shows "reads rest (parse_create_schema C n p) (UnityCatalog (CreateSchema s)) (tl ts)"
proof -
  define us where "us =
       clause (cs_managed_location s) (\<lambda>u. kw sp K_MANAGED # [kw sp K_LOCATION, Tok_SingleQuotedString u])
     @ clause (cs_comment s) (\<lambda>c. kw sp K_COMMENT # [Tok_SingleQuotedString c])
     @ clause (cs_properties s)
         (\<lambda>os. kw sp K_WITH # [Tok_Word ''DBPROPERTIES'' None NoKeyword, Tok_LParen] @ option_tokens os) @ ts"
  have nm: "cs_name s \<noteq> []" "length (cs_name s) \<le> 2" using s by auto
  have hd: "hd_tok us \<noteq> Tok_Period"
    using delimited_hd [OF ts] by (auto simp: us_def clause_def hd_tok_append split: option.splits)
  have p': "rest p = when_set (cs_if_not_exists s) (map (kw sp) [K_IF, K_NOT, K_EXISTS]) @ name_tokens (cs_name s) @ us"
    using p by (simp add: us_def if_not_exists_def)
  obtain p1 where p1: "parse_keywords C if_not_exists p = (cs_if_not_exists s, p1)"
      "rest p1 = name_tokens (cs_name s) @ us"
    using if_words [OF ok p' name_hd [OF nm(1)]] by (auto simp: if_not_exists_def)
  have loop: "reads rest (schema_loop C n
      \<lparr>sb_managed_location = None, sb_comment = None, sb_properties = None\<rparr> p2)
      \<lparr>sb_managed_location = cs_managed_location s, sb_comment = cs_comment s,
       sb_properties = cs_properties s\<rparr> (tl ts)"
    if "rest p2 = us" for p2
    by (rule schema_loop_reads [OF ok ts n, where sp = sp]) (use s that in \<open>auto simp: us_def\<close>)
  show ?thesis
    unfolding parse_create_schema_def p1(1) prod.case
    by (rule reads_and_then [OF reads_name [OF ok nm(1) p1(2) hd]], subst if_not_P, use nm(2) in simp,
        rule reads_and_then [OF loop], assumption)
      (simp add: statement_eta reads_now)
qed

lemma reads_vacuum:
  assumes ok: "cursor_ok C rest" and ts: "delimited ts" and s: "printable C ft (Vacuum s)"
    and n: "4 \<le> n" and p: "rest p = statement_tokens sp ft (Vacuum s) @ ts"
  shows "reads rest (parse_vacuum C n p) (Vacuum s) (tl ts)"
proof -
  define us where "us =
       clause (vs_mode s) (\<lambda>_. kw sp K_FULL # [])
     @ clause (vs_retention_hours s) (\<lambda>h. kw sp K_RETAIN # [Tok_Number (ft h) False, kw sp K_HOURS])
     @ clause (vs_dry_run s) (\<lambda>_. kw sp K_DRY # [kw sp K_RUN]) @ ts"
  have nm: "vs_name s \<noteq> []" using s by auto
  have hd: "hd_tok us \<noteq> Tok_Period"
    using delimited_hd [OF ts] by (auto simp: us_def clause_def hd_tok_append split: option.splits)
  have p1: "rest (snd (next_token C p)) = name_tokens (vs_name s) @ us"
    using p cursor_calls(3) [OF ok, of p] by (simp add: us_def)
  have loop: "reads rest (vacuum_loop C n
      \<lparr>vs_name = vs_name s, vs_mode = None, vs_retention_hours = None, vs_dry_run = None\<rparr> p2)
      \<lparr>vs_name = vs_name s, vs_mode = vs_mode s, vs_retention_hours = vs_retention_hours s,
       vs_dry_run = vs_dry_run s\<rparr> (tl ts)"
    if "rest p2 = us" for p2
    by (rule vacuum_loop_reads [OF ok ts n, where sp = sp and ft = ft]) (use s that in \<open>auto simp: us_def\<close>)
  show ?thesis
    unfolding parse_vacuum_def
    by (rule reads_and_then [OF reads_name [OF ok nm p1 hd]], rule reads_and_then [OF loop], assumption)
      (simp add: statement_eta reads_now)
qed

text \<open>How many tokens an option list takes, which bounds the fuel its loop needs.\<close>

lemma option_tokens_length: "length os \<le> length (option_tokens os)"
  by (induction os rule: option_tokens.induct) auto

lemma clause_length:
  "length (clause os id) \<le> length (clause os (\<lambda>x. t # u # option_tokens x))"
  "length (clause os id) \<le> length (clause os (\<lambda>x. t # u # w # option_tokens x))"
  using option_tokens_length by (auto simp: clause_def le_SucI split: option.splits)

lemma statement_reads:
  assumes ok: "cursor_ok C rest" and ts: "delimited ts" and s: "printable C ft s"
    and p: "rest p = statement_tokens sp ft s @ ts" and n: "length (rest p) + 6 \<le> n"
  shows "reads rest (parse_statement C n p) s (if reads_delimiter s then tl ts else ts)"
proof -
  note calls = cursor_calls(1) [OF ok] cursor_calls(3) [OF ok]
  show ?thesis
  proof (cases "(C, ft, s)" rule: printable.cases)
    case (2 _ _ c)
    then have s': "s = UnityCatalog (CreateCatalog c)" by simp
    have fuel: "length (clause (cc_options c) id) + 6 \<le> n"
      using n p clause_length(1) [of "cc_options c" "kw sp K_OPTIONS" Tok_LParen] by (simp add: s')
    have q: "rest (snd (next_token C p)) = kw sp K_CATALOG # tl (tl (statement_tokens sp ft s)) @ ts"
      using p calls by (simp add: s')
    obtain p1 where p1: "parse_keyword C K_CATALOG (snd (next_token C p)) = (True, p1)"
        "rest p1 = tl (tl (statement_tokens sp ft s)) @ ts"
      using keyword_reads [OF ok q] by blast
    have "reads rest (parse_create_catalog C n p1) s (tl ts)"
      unfolding s' by (rule reads_create_catalog [OF ok ts s [unfolded s'] fuel, where sp = sp]) (use p1 s' in simp)
    then show ?thesis using p p1 calls by (simp add: parse_statement_def parse_create_def s' kw_def)
  next
    case (3 _ _ c)
    then have s': "s = UnityCatalog (CreateSchema c)" by simp
    have fuel: "length (clause (cs_properties c) id) + 4 \<le> n"
      using n p clause_length(2) [of "cs_properties c" "kw sp K_WITH" "Tok_Word ''DBPROPERTIES'' None NoKeyword" Tok_LParen]
      by (simp add: s')
    have q: "rest (snd (next_token C p)) = kw sp K_SCHEMA # tl (tl (statement_tokens sp ft s)) @ ts"
      using p calls by (simp add: s')
    obtain p1 where p1: "parse_keyword C K_SCHEMA (snd (next_token C p)) = (True, p1)"
        "rest p1 = tl (tl (statement_tokens sp ft s)) @ ts"
      using keyword_reads [OF ok q] by blast
    have "reads rest (parse_create_schema C n p1) s (tl ts)"
      unfolding s' by (rule reads_create_schema [OF ok ts s [unfolded s'] fuel, where sp = sp]) (use p1 s' in simp)
    then show ?thesis
      using p p1 q calls keyword_passes [OF ok, of _ "snd (next_token C p)"]
        keywords_pass [OF ok, of K_FOREIGN "snd (next_token C p)" "[K_CATALOG]"]
      by (simp add: parse_statement_def parse_create_def s' kw_def is_kw_def)
  next
    case (5 _ _ d)
    then have s': "s = UnityCatalog (DropCatalog d)" by simp
    obtain p1 where p1: "parse_keywords C [K_DROP, K_CATALOG] p = (True, p1)"
        "rest p1 = tl (tl (statement_tokens sp ft s)) @ ts"
      using keywords_read [OF ok, of p sp "[K_DROP, K_CATALOG]"] p by (auto simp: s')
    have "reads rest (parse_drop_catalog C p1) s ts"
      unfolding parse_drop_catalog_def s'
      by (rule reads_drop_entity [OF ok ts, where sp = sp]) (use s p1 s' in auto)
    then show ?thesis using p p1 calls by (simp add: parse_statement_def parse_drop_def s' kw_def)
  next
    case (6 _ _ d)
    then have s': "s = UnityCatalog (DropSchema d)" by simp
    obtain p1 where p1: "parse_keywords C [K_DROP, K_SCHEMA] p = (True, p1)"
        "rest p1 = tl (tl (statement_tokens sp ft s)) @ ts"
      using keywords_read [OF ok, of p sp "[K_DROP, K_SCHEMA]"] p by (auto simp: s')
    have pass: "parse_keywords C [K_DROP, K_CATALOG] p = (False, p)"
      by (rule keywords_pass2 [OF ok, where t = "kw sp K_DROP" and u = "kw sp K_SCHEMA"]) (use p s' in auto)
    have "reads rest (parse_drop_schema C p1) s ts"
      unfolding parse_drop_schema_def s'
      by (rule reads_drop_entity [OF ok ts, where sp = sp]) (use s p1 s' in auto)
    then show ?thesis using p p1 pass calls by (simp add: parse_statement_def parse_drop_def s' kw_def)
  next
    case (7 _ _ v)
    then have s': "s = Vacuum v" by simp
    have "reads rest (parse_vacuum C n p) s (tl ts)"
      unfolding s' by (rule reads_vacuum [OF ok ts s [unfolded s'], where sp = sp]) (use n p s' in auto)
    then show ?thesis using p calls by (simp add: parse_statement_def s' kw_def)
  qed (use s in auto)
qed

end
