(* ===== verification/Sql_Statements.thy ===== *)
theory Sql_Statements
  imports Sql_Grammar
begin

text \<open>
  Whole scripts through \<open>parse_statements\<close>: which sequences of statements are read back, which are refused,
  which make the parser panic, and what every accepted statement satisfies.
\<close>

section \<open>Scripts\<close>

fun script_tokens :: "(sql_keyword \<Rightarrow> string) \<Rightarrow> ('f \<Rightarrow> string) \<Rightarrow> ('d, 'c, 'f) statement list \<Rightarrow> sql_token list" where
  "script_tokens sp ft [] = []"
| "script_tokens sp ft [s] = statement_tokens sp ft s"
| "script_tokens sp ft (s # t # ss) = statement_tokens sp ft s @ Tok_SemiColon # script_tokens sp ft (t # ss)"

lemma statement_hd:
  assumes "printable C ft s"
  shows "\<exists>k us. statement_tokens sp ft s = kw sp k # us"
  using assms by (cases "(sp, ft, s)" rule: statement_tokens.cases) auto

lemma statement_hd_tok:
  assumes "printable C ft s"
  shows "hd_tok (statement_tokens sp ft s @ ts) \<noteq> Tok_SemiColon" "hd_tok (statement_tokens sp ft s @ ts) \<noteq> Tok_EOF"
  using statement_hd [OF assms, of sp] by auto

lemma script_hd_tok:
  assumes "ss \<noteq> []" and "\<forall>s \<in> set ss. printable C ft s"
  shows "hd_tok (script_tokens sp ft ss @ ts) \<noteq> Tok_SemiColon" "hd_tok (script_tokens sp ft ss @ ts) \<noteq> Tok_EOF"
proof -
  obtain s us where "script_tokens sp ft ss @ ts = statement_tokens sp ft s @ us" "printable C ft s"
    using assms by (cases "(sp, ft, ss)" rule: script_tokens.cases) auto
  then show "hd_tok (script_tokens sp ft ss @ ts) \<noteq> Tok_SemiColon" "hd_tok (script_tokens sp ft ss @ ts) \<noteq> Tok_EOF"
    using statement_hd_tok by metis+
qed

lemma skip_none:
  assumes "cursor_ok C rest" and "hd_tok (rest p) \<noteq> Tok_SemiColon"
  shows "skip_delimiters C (Suc n) e p = (Inr e, p)"
  using consume_passes [OF assms] by simp

lemma skip_one:
  assumes "cursor_ok C rest" and "rest p = Tok_SemiColon # us" and "hd_tok us \<noteq> Tok_SemiColon"
  shows "\<exists>p1. skip_delimiters C (Suc (Suc n)) e p = (Inr False, p1) \<and> rest p1 = us"
proof -
  obtain p1 where "consume_token C Tok_SemiColon p = (True, p1)" "rest p1 = us"
    using consume_reads [OF assms(1,2)] by blast
  then show ?thesis using skip_none [OF assms(1), of p1 n False] assms(3) by simp
qed

lemma peek_hd: "cursor_ok C rest \<Longrightarrow> fst (peek_token C p) = hd_tok (rest p)"
  by (rule cursor_calls(1))

text \<open>At the end of a script nothing is left but delimiters.\<close>

lemma statements_stop:
  assumes "cursor_ok C rest" and "rest p = [] \<or> rest p = [Tok_SemiColon]"
  shows "fst (statements_loop C (Suc (Suc fuel)) (Suc n) e acc p) = Inr acc"
proof (cases "rest p = []")
  case True
  then show ?thesis
    using skip_none [OF assms(1), of p "Suc fuel" e] peek_hd [OF assms(1), of p] by simp
next
  case False
  then obtain p1 where "skip_delimiters C (Suc (Suc fuel)) e p = (Inr False, p1)" "rest p1 = []"
    using skip_one [OF assms(1), of p "[]"] assms(2) by auto
  then show ?thesis using peek_hd [OF assms(1), of p1] by (simp del: skip_delimiters.simps)
qed

text \<open>One statement that is there, then the rest of the loop.\<close>

lemma statements_step:
  assumes ok: "cursor_ok C rest" and s: "printable C ft s" and ts: "delimited ts"
    and p: "skip_delimiters C fuel e p = (Inr False, p1)" "rest p1 = statement_tokens sp ft s @ ts"
    and n: "length (rest p1) + 6 \<le> fuel"
  shows "\<exists>p2. statements_loop C fuel (Suc n) e acc p = statements_loop C fuel n True (acc @ [s]) p2 \<and>
    rest p2 = (if reads_delimiter s then tl ts else ts)"
proof -
  obtain p2 where "parse_statement C fuel p1 = (Inr s, p2)" "rest p2 = (if reads_delimiter s then tl ts else ts)"
    using statement_reads [OF ok ts s p(2) n] by (auto simp: reads_def)
  moreover have "fst (peek_token C p1) \<noteq> Tok_EOF"
    using peek_hd [OF ok, of p1] p(2) statement_hd_tok(2) [OF s, of sp ts] by simp
  ultimately show ?thesis using p(1) by (intro exI [of _ p2]) simp
qed

lemma script_reads:
  assumes ok: "cursor_ok C rest"
  shows "ss \<noteq> [] \<Longrightarrow> \<forall>s \<in> set ss. printable C ft s \<Longrightarrow> \<forall>s \<in> set (butlast ss). \<not> reads_delimiter s \<Longrightarrow>
    ts = [] \<or> ts = [Tok_SemiColon] \<Longrightarrow>
    skip_delimiters C fuel e p = (Inr False, p1) \<Longrightarrow> rest p1 = script_tokens sp ft ss @ ts \<Longrightarrow>
    length (rest p1) + 6 \<le> fuel \<Longrightarrow> length ss < n \<Longrightarrow>
    fst (statements_loop C fuel n e acc p) = Inr (acc @ ss)"
proof (induction ss arbitrary: n e acc p p1 rule: script_tokens.induct)
  case (2 sp ft s)
  obtain m f where m: "n = Suc (Suc m)" and f: "fuel = Suc (Suc f)"
    using "2.prems" by (cases n; cases "n - 1"; cases fuel; cases "fuel - 1") auto
  have ts: "delimited ts" using "2.prems"(4) by (auto simp: delimited_def)
  obtain p2 where "statements_loop C fuel n e acc p = statements_loop C fuel (Suc m) True (acc @ [s]) p2"
    and "rest p2 = (if reads_delimiter s then tl ts else ts)"
    unfolding m using statements_step [OF ok _ ts "2.prems"(5), of ft s sp "Suc m" acc] "2.prems" by auto
  then show ?case
    using statements_stop [OF ok, of p2 f m True "acc @ [s]"] "2.prems"(4) f by auto
next
  case (3 sp ft s t ss)
  obtain m where m: "n = Suc m" using "3.prems" by (cases n) auto
  obtain f where f: "fuel = Suc (Suc f)" using "3.prems"(7) by (cases fuel; cases "fuel - 1") auto
  define us where "us = script_tokens sp ft (t # ss) @ ts"
  obtain p2 where p2: "statements_loop C fuel n e acc p = statements_loop C fuel m True (acc @ [s]) p2"
      "rest p2 = Tok_SemiColon # us"
    unfolding m using statements_step [OF ok _ _ "3.prems"(5), of ft s "Tok_SemiColon # us" sp m acc] "3.prems"
    by (auto simp: us_def delimited_def)
  obtain p3 where p3: "skip_delimiters C fuel True p2 = (Inr False, p3)" "rest p3 = us"
    unfolding f using skip_one [OF ok p2(2), of f True] script_hd_tok(1) [of "t # ss" C ft sp ts] "3.prems"
    by (auto simp: us_def)
  have "fst (statements_loop C fuel m True (acc @ [s]) p2) = Inr ((acc @ [s]) @ t # ss)"
    by (rule "3.IH" [OF _ _ _ _ p3(1)]) (use "3.prems" p3 us_def m in auto)
  then show ?case using p2(1) by simp
qed simp

lemma parse_script:
  assumes "cursor_ok C rest" and "ss \<noteq> []" and "\<forall>s \<in> set ss. printable C ft s"
    and "\<forall>s \<in> set (butlast ss). \<not> reads_delimiter s" and "ts = [] \<or> ts = [Tok_SemiColon]"
    and "rest p = script_tokens sp ft ss @ ts" and "length (rest p) + 6 \<le> fuel"
  shows "fst (parse_statements C fuel p) = Inr ss"
proof -
  have "length us \<le> length (script_tokens sp ft us)" if "\<forall>s \<in> set us. printable C ft s" for us
    using that
  proof (induction us rule: script_tokens.induct)
    case (2 sp ft s)
    then show ?case using statement_hd [of C ft s sp] by auto
  next
    case (3 sp ft s t ss)
    then show ?case by simp
  qed simp
  then have "length ss < fuel" using assms(3,6,7) by fastforce
  moreover have "skip_delimiters C fuel False p = (Inr False, p)"
    using skip_none [OF assms(1), of p "fuel - 1" False] script_hd_tok(1) [OF assms(2,3), of sp ts] assms(6,7)
    by (cases fuel) auto
  ultimately show ?thesis
    using script_reads [OF assms(1-5) _ assms(6,7), of False p fuel "[]"] by (simp add: parse_statements_def)
qed

text \<open>A statement that reads its own delimiter leaves none for the next statement.\<close>

lemma second_statement_refused:
  assumes ok: "cursor_ok C rest" and s: "printable C ft s" "reads_delimiter s"
    and p: "rest p = statement_tokens sp ft s @ Tok_SemiColon # t # us"
    and t: "t \<noteq> Tok_SemiColon" "t \<noteq> Tok_EOF" and fuel: "length (rest p) + 6 \<le> fuel"
  shows "\<exists>loc. fst (parse_statements C fuel p) = expected C ''end of statement'' (t, loc)"
proof -
  obtain f where f: "fuel = Suc (Suc f)" using fuel by (cases fuel; cases "fuel - 1") auto
  have skip: "skip_delimiters C fuel False p = (Inr False, p)"
    unfolding f using skip_none [OF ok] statement_hd_tok(1) [OF s(1), of sp] p by simp
  obtain p2 where p2: "statements_loop C fuel fuel False [] p = statements_loop C fuel (Suc f) True [s] p2"
      "rest p2 = t # us"
    using statements_step [OF ok s(1) _ skip p fuel, of "Suc f" "[]"] s(2) f by (auto simp: delimited_def)
  have "skip_delimiters C fuel True p2 = (Inr True, p2)"
    unfolding f using skip_none [OF ok] p2(2) t by simp
  then show ?thesis
    using p2 peek_hd [OF ok, of p2] t
    by (cases "peek_token C p2") (auto simp: parse_statements_def simp del: skip_delimiters.simps)
qed

section \<open>What is accepted\<close>

fun accepted :: "('d, 'c, 'f) statement \<Rightarrow> bool" where
  "accepted (DFStatement d) = True"
| "accepted (UnityCatalog (CreateCatalog s)) =
     (length (cc_name s) = 1 \<and> (\<forall>n. cc_using_share s = Some n \<longrightarrow> length n = 2) \<and>
      (cc_using_share s = None \<or> cc_managed_location s = None) \<and> cc_options s \<noteq> Some [])"
| "accepted (UnityCatalog (CreateSchema s)) = (length (cs_name s) \<le> 2 \<and> cs_properties s \<noteq> Some [])"
| "accepted (UnityCatalog (CreateManagedTable s)) = True"
| "accepted (UnityCatalog (DropCatalog s)) = (length (dr_name s) = 1)"
| "accepted (UnityCatalog (DropSchema s)) = (length (dr_name s) \<le> 2)"
| "accepted (Vacuum s) = (vs_mode s \<noteq> Some Mode_Lite \<and> vs_dry_run s \<noteq> Some False)"

definition yields :: "('a \<Rightarrow> bool) \<Rightarrow> (failure + 'a) \<times> 'p \<Rightarrow> bool" where
  "yields P m \<longleftrightarrow> (\<forall>a. fst m = Inr a \<longrightarrow> P a)"

lemma yields_pair [simp]: "yields P (Inr a, p) = P a" "yields P (Inl e, p)"
  by (simp_all add: yields_def)

lemma yields_and_then:
  assumes "\<And>a p. fst m = Inr a \<Longrightarrow> yields P (f a p)"
  shows "yields P (and_then m f)"
  using assms by (cases m; cases "fst m") (auto simp: yields_def)

lemma yieldsD: "yields P m \<Longrightarrow> fst m = Inr a \<Longrightarrow> P a"
  by (simp add: yields_def)

lemma yields_error [simp]:
  "yields P (parser_err msg, p)" "yields P (expected C e found, p)" "yields P (unreachable, p)"
  "yields P (not_implemented what, p)"
  by (simp_all add: yields_def parser_err_def expected_def unreachable_def not_implemented_def)

lemma options_nonempty: "yields (\<lambda>os. os \<noteq> []) (value_options_loop C n acc p)"
proof (induction n arbitrary: acc p)
  case 0
  then show ?case by simp
next
  case (Suc n)
  show ?case
    by (auto intro!: yields_and_then Suc.IH split: prod.splits bool.splits)
qed

lemma parse_options_nonempty:
  assumes "fst (parse_value_options C n p) = Inr os"
  shows "os \<noteq> []"
proof -
  have "yields (\<lambda>os. os \<noteq> []) (parse_value_options C n p)"
    unfolding parse_value_options_def by (intro yields_and_then options_nonempty)
  then show ?thesis using assms by (simp add: yields_def)
qed

definition catalog_builder_ok :: "catalog_builder \<Rightarrow> bool" where
  "catalog_builder_ok b \<longleftrightarrow> (\<forall>n. cb_using_share b = Some n \<longrightarrow> length n = 2) \<and> cb_options b \<noteq> Some []"

lemma catalog_clause_ok:
  "catalog_builder_ok b \<Longrightarrow> yields catalog_builder_ok (catalog_clause C n k b p)"
  unfolding catalog_clause_def
  by (cases k) (auto intro!: yields_and_then simp: catalog_builder_ok_def dest: parse_options_nonempty)

lemma catalog_loop_ok:
  "catalog_builder_ok b \<Longrightarrow> yields catalog_builder_ok (catalog_loop C n b p)"
proof (induction n arbitrary: b p)
  case 0
  then show ?case by simp
next
  case (Suc n)
  show ?case
    using Suc.prems
    by (auto intro!: yields_and_then Suc.IH dest: yieldsD [OF catalog_clause_ok] split: prod.splits option.splits)
qed

definition schema_builder_ok :: "schema_builder \<Rightarrow> bool" where
  "schema_builder_ok b \<longleftrightarrow> sb_properties b \<noteq> Some []"

lemma schema_clause_ok:
  "schema_builder_ok b \<Longrightarrow> yields schema_builder_ok (schema_clause C n k b p)"
  unfolding schema_clause_def
  by (cases k)
    (auto intro!: yields_and_then simp: schema_builder_ok_def dest: parse_options_nonempty split: prod.splits)

lemma schema_loop_ok:
  "schema_builder_ok b \<Longrightarrow> yields schema_builder_ok (schema_loop C n b p)"
proof (induction n arbitrary: b p)
  case 0
  then show ?case by simp
next
  case (Suc n)
  show ?case
    using Suc.prems
    by (auto intro!: yields_and_then Suc.IH dest: yieldsD [OF schema_clause_ok] split: prod.splits option.splits)
qed

definition vacuum_ok :: "'f vacuum_statement \<Rightarrow> bool" where
  "vacuum_ok v \<longleftrightarrow> vs_mode v \<noteq> Some Mode_Lite \<and> vs_dry_run v \<noteq> Some False"

lemma vacuum_clause_ok: "vacuum_ok v \<Longrightarrow> yields vacuum_ok (vacuum_clause C k v p)"
  unfolding vacuum_clause_def
  by (cases k) (auto intro!: yields_and_then simp: vacuum_ok_def split: sql_value.splits)

lemma vacuum_loop_ok: "vacuum_ok v \<Longrightarrow> yields vacuum_ok (vacuum_loop C n v p)"
proof (induction n arbitrary: v p)
  case 0
  then show ?case by simp
next
  case (Suc n)
  show ?case
    using Suc.prems
    by (auto intro!: yields_and_then Suc.IH dest: yieldsD [OF vacuum_clause_ok] split: prod.splits option.splits)
qed

lemma native_accepted: "yields accepted (parse_and_handle_statement C p)"
  by (cases "native_statement C p"; cases "fst (native_statement C p)") (auto simp: parse_and_handle_statement_def yields_def)

lemma create_catalog_accepted: "yields accepted (parse_create_catalog C n p)"
  unfolding parse_create_catalog_def
  by (auto intro!: yields_and_then split: prod.splits simp: catalog_builder_ok_def
      dest!: yieldsD [OF catalog_loop_ok, rotated])

lemma create_schema_accepted: "yields accepted (parse_create_schema C n p)"
  unfolding parse_create_schema_def
  by (auto intro!: yields_and_then split: prod.splits simp: schema_builder_ok_def
      dest!: yieldsD [OF schema_loop_ok, rotated])

lemma create_table_accepted: "yields accepted (parse_create_table C n p)"
  unfolding parse_create_table_def by (auto intro!: yields_and_then split: prod.splits)

lemma vacuum_accepted: "yields accepted (parse_vacuum C n p)"
  unfolding parse_vacuum_def
  by (auto intro!: yields_and_then simp: vacuum_ok_def dest!: yieldsD [OF vacuum_loop_ok, rotated])

lemma drop_accepted: "yields accepted (parse_drop C p)"
  unfolding parse_drop_def parse_drop_catalog_def parse_drop_schema_def parse_drop_entity_def
  by (auto intro!: yields_and_then native_accepted split: prod.splits bool.splits)

lemma create_accepted: "yields accepted (parse_create C n p)"
proof -
  have native: "yields accepted (map_prod (\<lambda>r. map_ok DFStatement (map_err Failed r)) id (native_create C p1))"
    for p1
    by (cases "native_create C p1"; cases "fst (native_create C p1)") (auto simp: yields_def)
  show ?thesis
    unfolding parse_create_def
    by (auto intro!: create_catalog_accepted create_schema_accepted create_table_accepted native
        split: prod.splits bool.splits)
qed

lemma statement_accepted: "yields accepted (parse_statement C n p)"
  unfolding parse_statement_def
  by (auto intro!: create_accepted drop_accepted vacuum_accepted native_accepted
      split: sql_token.splits sql_keyword.splits)

lemma statements_accepted:
  "\<forall>s \<in> set acc. accepted s \<Longrightarrow> yields (\<lambda>ss. \<forall>s \<in> set ss. accepted s) (statements_loop C fuel n e acc p)"
proof (induction n arbitrary: e acc p)
  case 0
  then show ?case by simp
next
  case (Suc n)
  have "yields (\<lambda>ss. \<forall>s \<in> set ss. accepted s) (statements_loop C fuel n True (acc @ [stmt]) p2)"
    if "fst (parse_statement C fuel p1) = Inr stmt" for p1 p2 stmt
    using Suc.IH [of "acc @ [stmt]"] Suc.prems yieldsD [OF statement_accepted that] by simp
  then show ?case
    using Suc.prems by (auto intro!: yields_and_then)
qed

section \<open>Panics\<close>

lemma statement_panics_iff:
  assumes "cursor_ok C rest" and "length (rest p) < n"
  shows "(\<exists>msg. fst (parse_statement C n p) = Inl (Panicked msg)) \<longleftrightarrow>
    is_kw K_CREATE (hd_tok (rest p)) \<and> unfinished (tl (rest p))"
  using statement_unfinished [OF assms(1), of p n] within_statement [OF assms(1) order_refl assms(2)]
  by (auto simp: within_def proper_def)

lemma script_panics:
  assumes "cursor_ok C rest" and "is_kw K_CREATE (hd_tok (rest p))" and "unfinished (tl (rest p))"
    and "length (rest p) + 1 < fuel"
  shows "\<exists>msg. fst (parse_statements C fuel p) = Inl (Panicked msg)"
proof -
  have ne: "hd_tok (rest p) \<noteq> Tok_SemiColon" "hd_tok (rest p) \<noteq> Tok_EOF"
    using assms(2) by (auto simp: is_kw_def)
  obtain f where f: "fuel = Suc f" using assms(4) by (cases fuel) auto
  obtain msg p1 where "parse_statement C fuel p = (Inl (Panicked msg), p1)"
    using statement_unfinished [OF assms(1-3)] by blast
  then show ?thesis
    using skip_none [OF assms(1) ne(1), of f False] peek_hd [OF assms(1), of p] ne(2) f
    by (auto simp: parse_statements_def simp del: skip_delimiters.simps)
qed

section \<open>A cursor over a list of tokens\<close>

text \<open>A cursor that behaves as documented, to run the parser on concrete tokens.\<close>

fun read_name :: "sql_token list \<Rightarrow> (parser_error + object_name) \<times> sql_token list" where
  "read_name [] = (Inl (ParserError ''Expected: identifier''), [])"
| "read_name (t # ts) =
     (case t of
        Tok_Word v q k \<Rightarrow>
          if hd_tok ts = Tok_Period
          then (case read_name (tl ts) of (r, us) \<Rightarrow> (map_ok (Cons (v, q)) r, us))
          else (Inr [(v, q)], ts)
      | _ \<Rightarrow> (Inl (ParserError ''Expected: identifier''), t # ts))"

definition take_if :: "bool \<Rightarrow> sql_token list \<Rightarrow> bool \<times> sql_token list" where
  "take_if b ts = (if b then (True, tl ts) else (False, ts))"

definition take_statement :: "sql_token list \<Rightarrow> sql_token list \<times> sql_token list" where
  "take_statement ts = (takeWhile (\<lambda>t. t \<noteq> Tok_SemiColon) ts, dropWhile (\<lambda>t. t \<noteq> Tok_SemiColon) ts)"

definition list_cursor :: "(sql_token list, sql_token list, string, string) sql_cursor" where
  "list_cursor = \<lparr>
     peek_token = (\<lambda>ts. (hd_tok ts, (0, length ts))),
     next_token = (\<lambda>ts. ((hd_tok ts, (0, length ts)), tl ts)),
     consume_token = (\<lambda>t ts. take_if (hd_tok ts = t) ts),
     parse_keyword = (\<lambda>k ts. take_if (is_kw k (hd_tok ts)) ts),
     parse_keywords = (\<lambda>ks ts. if list_all2 is_kw ks (take (length ks) ts) then (True, drop (length ks) ts) else (False, ts)),
     parse_one_of_keywords = (\<lambda>ks ts. case one_of ks (hd_tok ts) of Some k \<Rightarrow> (Some k, tl ts) | None \<Rightarrow> (None, ts)),
     peek_keyword = (\<lambda>k ts. is_kw k (hd_tok ts)),
     expect_keyword = (\<lambda>k ts. if is_kw k (hd_tok ts) then (Inr (), tl ts) else (Inl (ParserError ''Expected: keyword''), ts)),
     expect_token = (\<lambda>t ts. if hd_tok ts = t then (Inr (), tl ts) else (Inl (ParserError ''Expected: token''), ts)),
     parse_object_name = read_name,
     parse_number_value = (\<lambda>ts. case ts of Tok_Number s l # us \<Rightarrow> (Inr (Number s l), us)
                                         | _ \<Rightarrow> (Inl (ParserError ''Expected: number''), ts)),
     parse_literal_string = (\<lambda>ts. case ts of Tok_SingleQuotedString s # us \<Rightarrow> (Inr s, us)
                                           | _ \<Rightarrow> (Inl (ParserError ''Expected: literal string''), ts)),
     parse_columns = (\<lambda>ts. case take_statement ts of (a, us) \<Rightarrow> (Inr [], us)),
     native_statement = (\<lambda>ts. map_prod Inr id (take_statement ts)),
     native_create = (\<lambda>ts. map_prod Inr id (take_statement ts)),
     token_text = (\<lambda>t. ''token''),
     location_text = (\<lambda>l. ''''),
     url_parse = Some,
     f64_parse = Inr\<rparr>"

lemma read_name_shrinks: "length (snd (read_name ts)) \<le> length ts"
proof (induction ts rule: read_name.induct)
  case (2 t ts)
  then show ?case
    by (cases t; cases ts) (auto split: prod.splits)
qed simp

lemma read_name_reads:
  "name \<noteq> [] \<Longrightarrow> hd_tok ts \<noteq> Tok_Period \<Longrightarrow> read_name (name_tokens name @ ts) = (Inr name, ts)"
  by (induction name rule: name_tokens.induct) (auto simp: ident_token_def)

lemma take_statement_shrinks: "length (snd (take_statement ts)) \<le> length ts"
  by (simp add: take_statement_def length_dropWhile_le)

lemma list_cursor_ok: "cursor_ok list_cursor (\<lambda>ts. ts)"
proof -
  have "cursor_steps list_cursor (\<lambda>ts. ts)"
    unfolding cursor_steps_def list_cursor_def by (auto simp: take_if_def split: option.splits)
  moreover have "cursor_reads list_cursor (\<lambda>ts. ts)"
    unfolding cursor_reads_def list_cursor_def shrinks_def takes_def
    using read_name_shrinks read_name_reads take_statement_shrinks
    by (auto split: list.splits sql_token.splits prod.splits) (metis snd_conv)+
  ultimately show ?thesis by (simp add: cursor_ok_def)
qed

end
