(* ===== verification/Catalog_Tags.thy ===== *)
theory Catalog_Tags
  imports Rust_Prelude
begin

text \<open>
  \<^verbatim>\<open>crates/hydrofoil/src/catalog\<close>: what the policy layer is told of a Unity Catalog table (\<^verbatim>\<open>tags.rs\<close>), how the
  resolver records it and builds a governed provider (\<^verbatim>\<open>unity.rs\<close>), and the signatures of masking functions
  (\<^verbatim>\<open>functions.rs\<close>). A \<^verbatim>\<open>HashMap\<close> that is read is the list of its entries in the order it happens to be iterated
  in; one that is built is a map. Calls to the Unity Catalog client, and the Delta and policy crates, are
  parameters.
\<close>

section \<open>Tables\<close>

record uc_column =
  uco_name :: string
  uco_comment :: "string option"

record uc_table =
  tb_catalog_name :: string
  tb_schema_name :: string
  tb_name :: string
  tb_full_name :: string
  tb_owner :: "string option"
  tb_properties :: "(string \<times> string) list"
  tb_columns :: "uc_column list"

type_synonym table_ref = "string \<times> string \<times> string"

definition full_ref :: "uc_table \<Rightarrow> table_ref" where
  "full_ref t = (tb_catalog_name t, tb_schema_name t, tb_name t)"

section \<open>Classification tags\<close>

definition split_tags :: "string \<Rightarrow> string list" where
  "split_tags s = filter (\<lambda>t. t \<noteq> []) (map (\<lambda>t. to_ascii_lowercase (str_trim t)) (str_split CHR '','' s))"

definition parse_comment_tags :: "string \<Rightarrow> string list" where
  "parse_comment_tags comment =
     (case str_after ''[tags:'' comment of
        None \<Rightarrow> []
      | Some inner \<Rightarrow>
          (case str_split_once CHR '']'' inner of
             None \<Rightarrow> []
           | Some (marked, _) \<Rightarrow> split_tags marked))"

record table_classification =
  tc_table_tags :: "string set"
  tc_column_tags :: "string \<rightharpoonup> string set"

text \<open>\<^verbatim>\<open>column_tags.entry(col).or_default().extend(tags)\<close>.\<close>

definition extend_column :: "string \<Rightarrow> string list \<Rightarrow> (string \<rightharpoonup> string set) \<Rightarrow> (string \<rightharpoonup> string set)" where
  "extend_column col tags m = m(col \<mapsto> unwrap_or {} (m col) \<union> set tags)"

definition property_column_tags ::
  "(string \<times> string) list \<Rightarrow> (string \<rightharpoonup> string set) \<Rightarrow> (string \<rightharpoonup> string set)" where
  "property_column_tags props =
     fold (\<lambda>(k, v) m. case str_strip_prefix ''tag.'' k of None \<Rightarrow> m | Some col \<Rightarrow> extend_column col (split_tags v) m) props"

definition comment_column_tags :: "uc_column list \<Rightarrow> (string \<rightharpoonup> string set) \<Rightarrow> (string \<rightharpoonup> string set)" where
  "comment_column_tags cols =
     fold (\<lambda>c m. case uco_comment c of
                   None \<Rightarrow> m
                 | Some comment \<Rightarrow>
                     (case parse_comment_tags comment of [] \<Rightarrow> m | tags \<Rightarrow> extend_column (uco_name c) tags m)) cols"

definition classify :: "uc_table \<Rightarrow> table_classification" where
  "classify t =
     \<lparr>tc_table_tags =
        fold (\<lambda>key out. case map_of (tb_properties t) key of None \<Rightarrow> out | Some v \<Rightarrow> out \<union> set (split_tags v))
          [''tags'', ''classification''] {},
      tc_column_tags = comment_column_tags (tb_columns t) (property_column_tags (tb_properties t) Map.empty)\<rparr>"

section \<open>Governed tags\<close>

record governed_tags =
  gt_table_tags :: "string \<rightharpoonup> string"
  gt_column_tags :: "string \<rightharpoonup> (string \<rightharpoonup> string)"

definition no_governed_tags :: governed_tags where
  "no_governed_tags = \<lparr>gt_table_tags = Map.empty, gt_column_tags = Map.empty\<rparr>"

text \<open>\<^verbatim>\<open>ConventionGovernedTagProvider\<close>: one property at a time.\<close>

definition fold_property :: "string \<times> string \<Rightarrow> governed_tags \<Rightarrow> governed_tags" where
  "fold_property kv out =
     (case str_strip_prefix ''govtag.'' (fst kv) of
        None \<Rightarrow> out
      | Some rest \<Rightarrow>
          (case str_split_once CHR ''.'' rest of
             Some (col, key) \<Rightarrow>
               if col \<noteq> [] \<and> key \<noteq> []
               then out\<lparr>gt_column_tags := (gt_column_tags out)
                          (col \<mapsto> (unwrap_or Map.empty (gt_column_tags out col))(key \<mapsto> snd kv))\<rparr>
               else out\<lparr>gt_table_tags := (gt_table_tags out)(rest \<mapsto> snd kv)\<rparr>
           | None \<Rightarrow> out\<lparr>gt_table_tags := (gt_table_tags out)(rest \<mapsto> snd kv)\<rparr>))"

definition convention_governed_tags :: "uc_table \<Rightarrow> governed_tags" where
  "convention_governed_tags t = fold fold_property (tb_properties t) no_governed_tags"

text \<open>
  \<^verbatim>\<open>UnityGovernedTagProvider\<close>: \<open>list_tags\<close> is \<^verbatim>\<open>list_entity_tag_assignments\<close> with neither a page size nor a page
  token, so the first page of the assignments of an entity.
\<close>

type_synonym tag_api = "string \<Rightarrow> string \<Rightarrow> string + (string \<times> string option) list"

definition fold_entity :: "tag_api \<Rightarrow> string \<Rightarrow> string \<Rightarrow> (string \<rightharpoonup> string) \<Rightarrow> (string \<rightharpoonup> string)" where
  "fold_entity list_tags entity_type entity_name out =
     (case list_tags entity_type entity_name of
        Inl _ \<Rightarrow> out
      | Inr assignments \<Rightarrow>
          fold (\<lambda>(key, v) out. case v of Some x \<Rightarrow> out(key \<mapsto> x) | None \<Rightarrow> out) assignments out)"

definition unity_column_tags ::
  "tag_api \<Rightarrow> uc_table \<Rightarrow> uc_column \<Rightarrow> (string \<rightharpoonup> (string \<rightharpoonup> string)) \<Rightarrow> (string \<rightharpoonup> (string \<rightharpoonup> string))" where
  "unity_column_tags list_tags t c out =
     (let tags = fold_entity list_tags ''columns'' (tb_full_name t @ ''.'' @ uco_name c) Map.empty
      in if tags \<noteq> Map.empty then out(uco_name c \<mapsto> tags) else out)"

definition unity_governed_tags :: "tag_api \<Rightarrow> uc_table \<Rightarrow> governed_tags" where
  "unity_governed_tags list_tags t =
     \<lparr>gt_table_tags = fold_entity list_tags ''tables'' (tb_full_name t) Map.empty,
      gt_column_tags = fold (unity_column_tags list_tags t) (tb_columns t) Map.empty\<rparr>"

section \<open>Readers, writers and facts\<close>

definition table_acl_facts :: "uc_table \<Rightarrow> string option \<times> string set \<times> string set" where
  "table_acl_facts t =
     (tb_owner t,
      (case map_of (tb_properties t) ''readers'' of None \<Rightarrow> {} | Some v \<Rightarrow> set (split_tags v)),
      (case map_of (tb_properties t) ''writers'' of None \<Rightarrow> {} | Some v \<Rightarrow> set (split_tags v)))"

record table_facts =
  tf_owner :: "string option"
  tf_readers :: "string set"
  tf_writers :: "string set"
  tf_tags :: "string set"
  tf_column_tags :: "string \<rightharpoonup> string set"
  tf_governed_tags :: "string \<rightharpoonup> string"
  tf_governed_column_tags :: "string \<rightharpoonup> (string \<rightharpoonup> string)"

text \<open>The fact sink of a session, when the session carries one.\<close>

type_synonym fact_sink = "(table_ref \<rightharpoonup> table_facts) option"

text \<open>
  \<open>tags_of\<close> and \<open>governed_of\<close> are the two providers; an error of either is recorded as no tags.
\<close>

definition gather_facts ::
  "(uc_table \<Rightarrow> string + table_classification) \<Rightarrow> (uc_table \<Rightarrow> string + governed_tags) \<Rightarrow> uc_table \<Rightarrow> table_facts" where
  "gather_facts tags_of governed_of t =
     (let (owner, readers, writers) = table_acl_facts t;
          classification = (case tags_of t of Inr c \<Rightarrow> c | Inl _ \<Rightarrow> \<lparr>tc_table_tags = {}, tc_column_tags = Map.empty\<rparr>);
          governed = (case governed_of t of Inr g \<Rightarrow> g | Inl _ \<Rightarrow> no_governed_tags)
      in \<lparr>tf_owner = owner, tf_readers = readers, tf_writers = writers,
          tf_tags = tc_table_tags classification, tf_column_tags = tc_column_tags classification,
          tf_governed_tags = gt_table_tags governed, tf_governed_column_tags = gt_column_tags governed\<rparr>)"

definition record_facts ::
  "(uc_table \<Rightarrow> string + table_classification) \<Rightarrow> (uc_table \<Rightarrow> string + governed_tags) \<Rightarrow> uc_table
    \<Rightarrow> fact_sink \<Rightarrow> fact_sink" where
  "record_facts tags_of governed_of t sink =
     (case sink of None \<Rightarrow> None | Some facts \<Rightarrow> Some (facts(full_ref t \<mapsto> gather_facts tags_of governed_of t)))"

section \<open>Building a provider\<close>

datatype 'k read_state = Managed 'k nat | NotManaged

text \<open>
  What \<^verbatim>\<open>build_delta\<close> calls: \<^verbatim>\<open>loadTable\<close> and whether its error means an old server, the state it resolves to,
  the two ways to open a Delta table (from the log in its location, or from the catalog's commits), and
  the policy crate's \<^verbatim>\<open>govern_provider_from_config\<close>, which reads the recorded facts.
\<close>

record ('l, 'k, 'v) delta_env =
  de_load_table :: "string \<Rightarrow> string \<Rightarrow> string \<Rightarrow> string + 'l"
  de_should_fall_back :: "string \<Rightarrow> bool"
  de_read_state :: "'l \<Rightarrow> string + 'k read_state"
  de_delta_provider :: "string \<Rightarrow> string + 'v"
  de_managed_provider :: "string \<Rightarrow> 'k \<Rightarrow> nat \<Rightarrow> string + 'v"
  de_govern :: "fact_sink \<Rightarrow> 'v \<Rightarrow> table_ref \<Rightarrow> string + 'v"

definition build_provider :: "('l, 'k, 'v) delta_env \<Rightarrow> string \<Rightarrow> uc_table \<Rightarrow> string + 'v" where
  "build_provider de location t =
     (case de_load_table de (tb_catalog_name t) (tb_schema_name t) (tb_name t) of
        Inl e \<Rightarrow> if de_should_fall_back de e then de_delta_provider de location else Inl e
      | Inr loaded \<Rightarrow>
          try_bind (de_read_state de loaded) (\<lambda>rs.
            (case rs of
               Managed commits latest \<Rightarrow> de_managed_provider de location commits latest
             | NotManaged \<Rightarrow> de_delta_provider de location)))"

definition build_delta ::
  "('l, 'k, 'v) delta_env \<Rightarrow> (uc_table \<Rightarrow> string + table_classification) \<Rightarrow> (uc_table \<Rightarrow> string + governed_tags)
    \<Rightarrow> string \<Rightarrow> uc_table \<Rightarrow> fact_sink \<Rightarrow> (string + 'v) \<times> fact_sink" where
  "build_delta de tags_of governed_of location t sink =
     (let sink1 = record_facts tags_of governed_of t sink
      in (try_bind (build_provider de location t) (\<lambda>v. de_govern de sink1 v (full_ref t)), sink1))"

section \<open>Masking functions\<close>

datatype column_type_name =
    CT_Boolean | CT_Byte | CT_Short | CT_Int | CT_Long | CT_Float | CT_Double | CT_String | CT_Other string

datatype enum_value = Known column_type_name | Unknown int

datatype arrow_type =
    DT_Boolean | DT_Int8 | DT_Int16 | DT_Int32 | DT_Int64 | DT_Float32 | DT_Float64
  | DT_Utf8 | DT_LargeUtf8 | DT_Utf8View | DT_Binary | DT_BinaryView | DT_Date32 | DT_Date64
  | DT_Timestamp string | DT_Other string

definition col_type_to_arrow :: "enum_value \<Rightarrow> string + arrow_type" where
  "col_type_to_arrow type_name =
     (case type_name of
        Unknown i \<Rightarrow> Inl (''unknown UC column type enum value '' @ int_to_string i)
      | Known CT_Boolean \<Rightarrow> Inr DT_Boolean
      | Known CT_Byte \<Rightarrow> Inr DT_Int8
      | Known CT_Short \<Rightarrow> Inr DT_Int16
      | Known CT_Int \<Rightarrow> Inr DT_Int32
      | Known CT_Long \<Rightarrow> Inr DT_Int64
      | Known CT_Float \<Rightarrow> Inr DT_Float32
      | Known CT_Double \<Rightarrow> Inr DT_Float64
      | Known CT_String \<Rightarrow> Inr DT_Utf8
      | Known (CT_Other other) \<Rightarrow>
          Inl (''unsupported UC column type '' @ other @ '' in catalog function signature''))"

text \<open>\<^verbatim>\<open>collect::<Result<Vec<_>>>\<close>: the first error ends the collection.\<close>

fun collect_results :: "('a \<Rightarrow> 'e + 'b) \<Rightarrow> 'a list \<Rightarrow> 'e + 'b list" where
  "collect_results f [] = Inr []"
| "collect_results f (x # xs) = try_bind (f x) (\<lambda>y. map_ok (Cons y) (collect_results f xs))"

record mask_udf =
  mu_name :: string
  mu_arguments :: "arrow_type list"
  mu_return_type :: arrow_type

text \<open>\<^verbatim>\<open>CatalogMaskUdf::from_function\<close>: the types of the function's parameters, none when it declares none.\<close>

definition mask_from_function :: "string \<Rightarrow> enum_value list option \<Rightarrow> string + mask_udf" where
  "mask_from_function name params =
     map_ok (\<lambda>args. \<lparr>mu_name = name, mu_arguments = args, mu_return_type = DT_Utf8\<rparr>)
       (case params of None \<Rightarrow> Inr [] | Some ps \<Rightarrow> collect_results col_type_to_arrow ps)"

definition MASK_LITERAL :: string where
  "MASK_LITERAL = ''***''"

definition mask_invoke :: "mask_udf \<Rightarrow> 'v list \<Rightarrow> string" where
  "mask_invoke udf args = MASK_LITERAL"

definition resolve_function ::
  "(string \<Rightarrow> string + enum_value list option) \<Rightarrow> string \<Rightarrow> string + mask_udf" where
  "resolve_function get_function name =
     try_bind (map_err (\<lambda>e. ''failed to resolve catalog function '' @ [CHR 0x27] @ name @ [CHR 0x27] @ '': '' @ e)
                 (get_function name))
       (mask_from_function name)"

end
