(* ===== verification/Catalog_Tag_Facts.thy ===== *)
theory Catalog_Tag_Facts
  imports Catalog_Tags
begin

text \<open>
  What the recorded facts of a table say: each map of \<open>Catalog_Tags\<close> read at a column and a key is an exact
  condition on the table's properties and comments, so the order a \<^verbatim>\<open>HashMap\<close> is iterated in does not show; and
  which tables reach the policy layer.
\<close>

section \<open>Two-level maps\<close>

definition tag_of :: "(string \<rightharpoonup> (string \<rightharpoonup> string)) \<Rightarrow> string \<Rightarrow> string \<Rightarrow> string option" where
  "tag_of m col key = Option.bind (m col) (\<lambda>tags. tags key)"

definition tags_of_column :: "(string \<rightharpoonup> string set) \<Rightarrow> string \<Rightarrow> string set" where
  "tags_of_column m col = unwrap_or {} (m col)"

lemma tag_of_upd:
  "tag_of (m(c \<mapsto> (unwrap_or Map.empty (m c))(k \<mapsto> v))) col key =
     (if col = c \<and> key = k then Some v else tag_of m col key)"
  by (cases "m c") (auto simp: tag_of_def)

lemma tag_of_empty [simp]: "tag_of Map.empty col key = None"
  by (simp add: tag_of_def)

lemma tags_of_column_empty [simp]: "tags_of_column Map.empty col = {}"
  by (simp add: tags_of_column_def)

section \<open>Governed tags by convention\<close>

text \<open>A key after \<^verbatim>\<open>govtag.\<close> names a column when a dot splits it into two non-empty parts.\<close>

definition names_column :: "string \<Rightarrow> bool" where
  "names_column rest \<longleftrightarrow>
     (case str_split_once CHR ''.'' rest of None \<Rightarrow> False | Some (col, key) \<Rightarrow> col \<noteq> [] \<and> key \<noteq> [])"

lemma fold_property_table:
  "gt_table_tags (fold_property (k, v) out) key =
     (if k = ''govtag.'' @ key \<and> \<not> names_column key then Some v else gt_table_tags out key)"
proof (cases "str_strip_prefix ''govtag.'' k")
  case None
  then have "k \<noteq> ''govtag.'' @ r" for r by (auto simp: str_strip_prefix_None_iff)
  then show ?thesis using None by (simp add: fold_property_def)
next
  case (Some rest)
  then have "k = ''govtag.'' @ rest" by (simp add: str_strip_prefix_Some_iff)
  then show ?thesis
    using Some by (cases "str_split_once CHR ''.'' rest") (auto simp: fold_property_def names_column_def)
qed

lemma fold_property_column:
  "tag_of (gt_column_tags (fold_property (k, v) out)) col key =
     (if k = ''govtag.'' @ col @ ''.'' @ key \<and> CHR ''.'' \<notin> set col \<and> col \<noteq> [] \<and> key \<noteq> [] then Some v
      else tag_of (gt_column_tags out) col key)"
proof (cases "str_strip_prefix ''govtag.'' k")
  case None
  then have "k \<noteq> ''govtag.'' @ r" for r by (auto simp: str_strip_prefix_None_iff)
  then show ?thesis using None by (simp add: fold_property_def)
next
  case (Some rest)
  then have k: "k = ''govtag.'' @ rest" by (simp add: str_strip_prefix_Some_iff)
  show ?thesis
  proof (cases "str_split_once CHR ''.'' rest")
    case None
    then have "CHR ''.'' \<notin> set rest" by (simp add: str_split_once_None_iff)
    then have "rest \<noteq> col @ ''.'' @ key" by auto
    then show ?thesis using None Some k by (auto simp: fold_property_def)
  next
    case (Some ck)
    obtain c0 k0 where ck: "ck = (c0, k0)" by fastforce
    with Some have rest: "rest = c0 @ ''.'' @ k0" "CHR ''.'' \<notin> set c0"
      by (simp_all add: str_split_once_Some_iff)
    have eq: "rest = col @ ''.'' @ key \<and> CHR ''.'' \<notin> set col \<longleftrightarrow> col = c0 \<and> key = k0"
      using Some ck str_split_once_Some_iff [of "CHR ''.''" rest col key] by auto
    show ?thesis
      using Some \<open>str_strip_prefix ''govtag.'' k = Some rest\<close> ck k eq
      by (auto simp: fold_property_def tag_of_upd)
  qed
qed

lemma convention_fold:
  assumes "distinct (map fst props)"
  shows "gt_table_tags (fold fold_property props no_governed_tags) key = Some v \<longleftrightarrow>
      (''govtag.'' @ key, v) \<in> set props \<and> \<not> names_column key"
    and "tag_of (gt_column_tags (fold fold_property props no_governed_tags)) col key = Some v \<longleftrightarrow>
      (''govtag.'' @ col @ ''.'' @ key, v) \<in> set props \<and> CHR ''.'' \<notin> set col \<and> col \<noteq> [] \<and> key \<noteq> []"
proof -
  show "gt_table_tags (fold fold_property props no_governed_tags) key = Some v \<longleftrightarrow>
      (''govtag.'' @ key, v) \<in> set props \<and> \<not> names_column key"
    using assms
  proof (induction props rule: rev_induct)
    case (snoc kv props)
    then show ?case by (cases kv) (auto simp: fold_property_table image_iff split: if_splits)
  qed (simp add: no_governed_tags_def)
  show "tag_of (gt_column_tags (fold fold_property props no_governed_tags)) col key = Some v \<longleftrightarrow>
      (''govtag.'' @ col @ ''.'' @ key, v) \<in> set props \<and> CHR ''.'' \<notin> set col \<and> col \<noteq> [] \<and> key \<noteq> []"
    using assms
  proof (induction props rule: rev_induct)
    case (snoc kv props)
    then show ?case by (cases kv) (auto simp: fold_property_column image_iff split: if_splits)
  qed (simp add: no_governed_tags_def)
qed

section \<open>Governed tags of the API\<close>

definition assign :: "string \<times> string option \<Rightarrow> (string \<rightharpoonup> string) \<Rightarrow> (string \<rightharpoonup> string)" where
  "assign = (\<lambda>(key, v) out. case v of Some x \<Rightarrow> out(key \<mapsto> x) | None \<Rightarrow> out)"

lemma fold_entity_assign:
  "fold_entity api ty name out = (case api ty name of Inl _ \<Rightarrow> out | Inr as \<Rightarrow> fold assign as out)"
  by (cases "api ty name") (simp_all add: fold_entity_def assign_def)

lemma assign_fold:
  assumes "distinct (map fst as)"
  shows "fold assign as Map.empty key = Some v \<longleftrightarrow> (key, Some v) \<in> set as"
  using assms
proof (induction "as" rule: rev_induct)
  case (snoc a xs)
  then show ?case by (cases a; cases "snd a") (auto simp: assign_def image_iff split: if_splits)
qed simp

lemma unity_columns_fold:
  "tag_of (fold (unity_column_tags api t) cols out) col key =
     (if col \<in> uco_name ` set cols \<and> fold_entity api ''columns'' (tb_full_name t @ ''.'' @ col) Map.empty \<noteq> Map.empty
      then fold_entity api ''columns'' (tb_full_name t @ ''.'' @ col) Map.empty key
      else tag_of out col key)"
  by (induction cols arbitrary: out) (auto simp: unity_column_tags_def Let_def tag_of_def)

lemma unity_column_tag:
  "tag_of (gt_column_tags (unity_governed_tags api t)) col key =
     (if col \<in> uco_name ` set (tb_columns t)
      then fold_entity api ''columns'' (tb_full_name t @ ''.'' @ col) Map.empty key else None)"
  by (auto simp: unity_governed_tags_def unity_columns_fold)

section \<open>Classification\<close>

lemma extend_column_tags:
  "tags_of_column (extend_column c tags m) col = tags_of_column m col \<union> (if col = c then set tags else {})"
  by (auto simp: tags_of_column_def extend_column_def)

lemma property_column_tags_fold:
  "tags_of_column (property_column_tags props m) col =
     tags_of_column m col \<union> (\<Union>(k, v) \<in> set props. if k = ''tag.'' @ col then set (split_tags v) else {})"
  unfolding property_column_tags_def
proof (induction props arbitrary: m)
  case (Cons kv props)
  then show ?case
    by (cases kv) (auto simp: extend_column_tags str_strip_prefix_Some_iff str_strip_prefix_None_iff
        split: option.splits if_splits)
qed simp

lemma comment_column_tags_fold:
  "tags_of_column (comment_column_tags cols m) col =
     tags_of_column m col \<union>
     (\<Union>c \<in> set cols. if uco_name c = col then (case uco_comment c of None \<Rightarrow> {} | Some x \<Rightarrow> set (parse_comment_tags x)) else {})"
  unfolding comment_column_tags_def
proof (induction cols arbitrary: m)
  case (Cons c cols)
  then show ?case
    by (auto simp: extend_column_tags split: option.splits list.splits if_splits)
qed simp

lemma split_tags_clean:
  assumes "t \<in> set (split_tags s)"
  shows "t \<noteq> []" and "\<exists>raw. raw \<in> set (str_split CHR '','' s) \<and> t = to_ascii_lowercase (str_trim raw)"
  using assms by (auto simp: split_tags_def)

end
