(* ===== verification/Query_Plans.thy ===== *)
theory Query_Plans
  imports Flight_Server Sql_Parser Catalog_Tags
begin

text \<open>
  From the text of a query to a plan that may run: a session's planner (\<^verbatim>\<open>session/mod.rs\<close>), the executor that
  runs it (\<^verbatim>\<open>execution.rs\<close>), the physical planner that authorises before it emits lineage
  (\<^verbatim>\<open>planner/governed_lineage.rs\<close>), and the path the HTTP and Connect surfaces share (\<^verbatim>\<open>query.rs\<close>). DataFusion, the
  policy and the lineage crates are parameters; a logical plan is a tree of opaque nodes with its inputs.
\<close>

section \<open>Logical plans\<close>

datatype 'n plan = Plan (plan_node: 'n) (plan_inputs: "'n plan list")

text \<open>\<open>scan\<close> tells the name of the table a node scans. A \<^verbatim>\<open>BTreeSet\<close> is the sorted list of its elements.\<close>

fun collect_table_names :: "('n \<Rightarrow> string option) \<Rightarrow> 'n plan \<Rightarrow> string list \<Rightarrow> string list" where
  "collect_table_names scan (Plan n inputs) out =
     fold (collect_table_names scan) inputs (case scan n of Some name \<Rightarrow> insort_insert name out | None \<Rightarrow> out)"

definition referenced_tables :: "('n \<Rightarrow> string option) \<Rightarrow> 'n plan \<Rightarrow> string list" where
  "referenced_tables scan plan = collect_table_names scan plan []"

section \<open>The planner of a session\<close>

text \<open>
  The calls of \<^verbatim>\<open>LakehouseSession::create_logical_plan\<close>: the front end of \<open>Sql_Parser\<close> with its tokenizer and
  fuel, the extension node of a catalog statement, DataFusion's own planner over the catalogs registered
  on the session, and the Unity Catalog resolver, when one is wired.
\<close>

record ('p, 'd, 'c, 'f, 'n, 'cat) planner_env =
  pe_cursor :: "('p, 'd, 'c, 'f) sql_cursor"
  pe_open :: "string \<Rightarrow> df_error + 'p"
  pe_fuel :: "string \<Rightarrow> nat"
  pe_ddl_node :: "'c unity_catalog_statement \<Rightarrow> 'n"
  pe_native_plan :: "(string \<rightharpoonup> 'cat) \<Rightarrow> string \<Rightarrow> string + 'n plan"
  pe_sql_to_statement :: "string \<Rightarrow> string + 'd"
  pe_references :: "'d \<Rightarrow> string + string list"
  pe_resolver :: "(string list \<Rightarrow> string + (string \<times> 'cat option) list) option"
  pe_statement_to_plan :: "(string \<rightharpoonup> 'cat) \<Rightarrow> 'd \<Rightarrow> string + 'n plan"

text \<open>How planning fails: with an error's text, or with a panic of the parser.\<close>

datatype plan_failure = Plan_Error string | Plan_Panic string | Plan_Out_of_Fuel

definition try_plan_unity_ddl ::
  "('p, 'd, 'c, 'f, 'n, 'cat) planner_env \<Rightarrow> string \<Rightarrow> plan_failure + 'n plan option" where
  "try_plan_unity_ddl pe query =
     (case parse_sql (pe_cursor pe) (pe_open pe) (pe_fuel pe query) query of
        Inl (Failed _) \<Rightarrow> Inr None
      | Inl (Panicked msg) \<Rightarrow> Inl (Plan_Panic msg)
      | Inl Out_of_Fuel \<Rightarrow> Inl Plan_Out_of_Fuel
      | Inr [UnityCatalog statement] \<Rightarrow> Inr (Some (Plan (pe_ddl_node pe statement) []))
      | Inr _ \<Rightarrow> Inr None)"

text \<open>\<open>for name in resolved.catalog_names() { if let Some(catalog) = resolved.catalog(&name) ... }\<close>.\<close>

definition register_catalogs :: "(string \<times> 'cat option) list \<Rightarrow> (string \<rightharpoonup> 'cat) \<Rightarrow> (string \<rightharpoonup> 'cat)" where
  "register_catalogs resolved cats =
     fold (\<lambda>(name, catalog) m. case catalog of Some c \<Rightarrow> m(name \<mapsto> c) | None \<Rightarrow> m) resolved cats"

definition create_logical_plan ::
  "('p, 'd, 'c, 'f, 'n, 'cat) planner_env \<Rightarrow> string \<Rightarrow> (string \<rightharpoonup> 'cat)
    \<Rightarrow> (plan_failure + 'n plan) \<times> (string \<rightharpoonup> 'cat)" where
  "create_logical_plan pe query cats =
     and_then (try_plan_unity_ddl pe query, cats) (\<lambda>ddl cats.
       (case ddl of
          Some plan \<Rightarrow> (Inr plan, cats)
        | None \<Rightarrow>
            (case pe_resolver pe of
               None \<Rightarrow> (map_err Plan_Error (pe_native_plan pe cats query), cats)
             | Some resolve \<Rightarrow>
                 and_then (map_err Plan_Error (pe_sql_to_statement pe query), cats) (\<lambda>statement cats.
                   and_then (map_err Plan_Error (pe_references pe statement), cats) (\<lambda>references cats.
                     and_then (map_err Plan_Error (resolve references), cats) (\<lambda>resolved cats.
                       (let cats1 = register_catalogs resolved cats
                        in (map_err Plan_Error (pe_statement_to_plan pe cats1 statement), cats1))))))))"

text \<open>
  \<^verbatim>\<open>CpuRuntime::create_logical_plan\<close>: the planner runs in a task of its own; a panic there is the task's error
  (\<open>join_error\<close> is its text), which becomes a plan error.
\<close>

definition executor_create_logical_plan ::
  "('p, 'd, 'c, 'f, 'n, 'cat) planner_env \<Rightarrow> (string \<Rightarrow> string) \<Rightarrow> string \<Rightarrow> (string \<rightharpoonup> 'cat)
    \<Rightarrow> (plan_failure + 'n plan) \<times> (string \<rightharpoonup> 'cat)" where
  "executor_create_logical_plan pe join_error query cats =
     map_prod (\<lambda>r. case r of
         Inl (Plan_Panic msg) \<Rightarrow> Inl (Plan_Error (''Error during planning: '' @ join_error msg))
       | other \<Rightarrow> other) id (create_logical_plan pe query cats)"

text \<open>\<^verbatim>\<open>LakehouseCtx::resolve_table_provider\<close>: the resolver runs first, then the session looks the table up.\<close>

definition resolve_table_provider ::
  "(string list \<Rightarrow> string + (string \<times> 'cat option) list) option \<Rightarrow> ((string \<rightharpoonup> 'cat) \<Rightarrow> string \<Rightarrow> string + 'tp)
    \<Rightarrow> string \<Rightarrow> (string \<rightharpoonup> 'cat) \<Rightarrow> (string + 'tp) \<times> (string \<rightharpoonup> 'cat)" where
  "resolve_table_provider resolver table_provider ref cats =
     and_then (case resolver of
         None \<Rightarrow> (Inr cats, cats)
       | Some resolve \<Rightarrow> (map_ok (\<lambda>resolved. register_catalogs resolved cats) (resolve [ref]), cats))
       (\<lambda>cats1 _. (table_provider cats1 ref, cats1))"

section \<open>The physical planner\<close>

text \<open>
  A lineage event, as far as the order of policy and lineage is concerned: its kind and run. \<open>ge_begin\<close> is
  \<^verbatim>\<open>begin_lineage(..).start()\<close>, which emits nothing and gives no handle for a query without datasets;
  \<open>ge_handle_plan\<close> is the handle's \<^verbatim>\<open>create_physical_plan\<close>.
\<close>

datatype event_kind = Event_Start | Event_Complete | Event_Fail

type_synonym event = "event_kind \<times> string"

record ('n, 'x, 'h, 'w, 'ec) governed_env =
  ge_eval_context :: 'ec
  ge_principal :: "'w option"
  ge_authorize :: "'n plan \<Rightarrow> 'w \<Rightarrow> 'ec \<Rightarrow> string + 'n plan"
  ge_optimize :: "'n plan \<Rightarrow> string + 'n plan"
  ge_lineage_wired :: bool
  ge_begin :: "'n plan \<Rightarrow> 'h option \<times> event list"
  ge_handle_plan :: "'h \<Rightarrow> (string + 'x) \<times> event list"
  ge_physical :: "'n plan \<Rightarrow> string + 'x"

definition create_physical_plan ::
  "('n, 'x, 'h, 'w, 'ec) governed_env \<Rightarrow> 'n plan \<Rightarrow> event list \<Rightarrow> (string + 'x) \<times> event list" where
  "create_physical_plan ge plan log =
     (case ge_principal ge of
        None \<Rightarrow> (Inl ''no principal bound to session; cannot authorize query'', log)
      | Some who \<Rightarrow>
          and_then (ge_authorize ge plan who (ge_eval_context ge), log) (\<lambda>governed log.
            and_then (ge_optimize ge governed, log) (\<lambda>optimized log.
              if \<not> ge_lineage_wired ge then (ge_physical ge optimized, log)
              else
                (case ge_begin ge optimized of
                   (None, started) \<Rightarrow> (ge_physical ge optimized, log @ started)
                 | (Some handle, started) \<Rightarrow>
                     (case ge_handle_plan ge handle of (r, planned) \<Rightarrow> (r, log @ started @ planned))))))"

text \<open>\<^verbatim>\<open>LakehouseCtx::authorize_logical_plan\<close> and \<^verbatim>\<open>execute_logical_plan\<close>, the path of writes and updates.\<close>

definition authorize_logical_plan ::
  "('n plan \<Rightarrow> 'w \<Rightarrow> 'ec \<Rightarrow> string + 'n plan) \<Rightarrow> 'w \<Rightarrow> 'ec \<Rightarrow> 'n plan \<Rightarrow> string + 'n plan" where
  "authorize_logical_plan authorize who eval plan = authorize plan who eval"

definition execute_logical_plan ::
  "('n plan \<Rightarrow> 'w \<Rightarrow> 'ec \<Rightarrow> string + 'n plan) \<Rightarrow> 'w \<Rightarrow> 'ec \<Rightarrow> ('n plan \<Rightarrow> string + 'r) \<Rightarrow> 'n plan \<Rightarrow> string + 'r" where
  "execute_logical_plan authorize who eval execute plan =
     try_bind (authorize_logical_plan authorize who eval plan) execute"

section \<open>Planning a query of the HTTP and Connect surfaces\<close>

text \<open>
  Beside what the Flight handlers call: \<^verbatim>\<open>verify_plan\<close> with both DDL and DML refused, the names of scans, and
  \<^verbatim>\<open>LogicalPlanBuilder::limit\<close> followed by \<^verbatim>\<open>build\<close>.
\<close>

record ('p, 'f, 'n, 'r) query_env = "('p, 'f, 'n plan, 'r) flight_env" +
  qe_verify_read :: "'n plan \<Rightarrow> string + unit"
  qe_scan :: "'n \<Rightarrow> string option"
  qe_limit :: "nat \<Rightarrow> 'n plan \<Rightarrow> string + 'n plan"

record ('p, 'f, 'n) planned_query =
  pq_session :: "('p, 'f, 'n plan) session"
  pq_lineage :: lineage_context
  pq_plan :: "'n plan"
  pq_tables_registered :: "string list"

definition status_message :: "status \<Rightarrow> string" where
  "status_message s =
     (case s of Status_internal m \<Rightarrow> m | Status_invalid_argument m \<Rightarrow> m | Status_unimplemented m \<Rightarrow> m)"

definition query_lineage :: "string \<Rightarrow> string \<Rightarrow> lineage_context" where
  "query_lineage run_id sql =
     \<lparr>lc_parent_run = None, lc_job_namespace = None, lc_job_name = Some (job_name_from_sql sql),
      lc_job_facets = Map.empty, lc_run_facets = Map.empty, lc_run_id = Some run_id, lc_sql = Some sql\<rparr>"

definition row_limit :: "nat option \<Rightarrow> nat \<Rightarrow> nat \<Rightarrow> nat" where
  "row_limit limit default_limit max_limit = min (unwrap_or default_limit limit) max_limit"

definition plan_query ::
  "('p, 'f, 'n, 'r) query_env \<Rightarrow> call_env \<Rightarrow> string \<Rightarrow> headers \<Rightarrow> string \<Rightarrow> nat option \<Rightarrow> nat \<Rightarrow> nat
    \<Rightarrow> ('p, 'f, 'n plan) session_store \<Rightarrow> (string + ('p, 'f, 'n) planned_query) \<times> ('p, 'f, 'n plan) session_store" where
  "plan_query qe env run_id get sql limit default_limit max_limit st =
     and_then (principal_from_headers (eg_principals (sst_engine st)) (fe_check_uid qe) get, st) (\<lambda>who st.
       and_then (map_prod (map_err status_message) id
           (session_for_principal (fe_hash qe) env who (uc_token_from_http_headers get) st)) (\<lambda>a st1.
         (let lineage = query_lineage run_id sql;
              s = sst_heap st1 a
          in (try_bind (map_err (\<lambda>e. ''Error building plan: '' @ e) (fe_plan qe s lineage None sql)) (\<lambda>plan.
                try_bind (qe_verify_read qe plan) (\<lambda>_.
                  try_bind (map_err (\<lambda>e. ''Error applying limit: '' @ e)
                      (qe_limit qe (row_limit limit default_limit max_limit) plan)) (\<lambda>capped.
                    Inr \<lparr>pq_session = s, pq_lineage = lineage, pq_plan = capped,
                         pq_tables_registered = referenced_tables (qe_scan qe) plan\<rparr>))), st1))))"

end
