(* ===== verification/Query_Results.thy ===== *)
theory Query_Results
  imports Query_Plans
begin

text \<open>
  From a plan to its answer: the Arrow IPC encoding of \<^verbatim>\<open>query.rs\<close>, the bounded channel between a running
  query and its reader (\<^verbatim>\<open>stream.rs\<close>), and the surfaces that answer: buffered HTTP (\<^verbatim>\<open>http.rs\<close>), streamed
  Connect (\<^verbatim>\<open>query_service.rs\<close>) and Flight. Arrow's writer, casts and encoders are parameters. The items an
  execution produces are a list: a record batch each, or the error that ends it.
\<close>

section \<open>Schemas and batches\<close>

record field =
  fd_name :: string
  fd_type :: arrow_type
  fd_nullable :: bool
  fd_metadata :: "(string \<times> string) list"

record schema =
  sc_fields :: "field list"
  sc_metadata :: "(string \<times> string) list"

record 'a column =
  ac_type :: arrow_type
  ac_values :: 'a

record 'a record_batch =
  rb_schema :: schema
  rb_columns :: "'a column list"
  rb_rows :: nat

text \<open>\<^verbatim>\<open>Field::new\<close> and \<^verbatim>\<open>Schema::new\<close> start without metadata.\<close>

definition normalize_type :: "arrow_type \<Rightarrow> arrow_type" where
  "normalize_type t = (case t of DT_Utf8View \<Rightarrow> DT_Utf8 | DT_BinaryView \<Rightarrow> DT_Binary | other \<Rightarrow> other)"

definition normalize_schema :: "schema \<Rightarrow> schema" where
  "normalize_schema s =
     \<lparr>sc_fields = map (\<lambda>f. \<lparr>fd_name = fd_name f, fd_type = normalize_type (fd_type f),
                             fd_nullable = fd_nullable f, fd_metadata = []\<rparr>) (sc_fields s),
      sc_metadata = []\<rparr>"

record ('a, 'w) arrow =
  ar_cast :: "'a column \<Rightarrow> arrow_type \<Rightarrow> string + 'a column"
  ar_empty :: "arrow_type \<Rightarrow> 'a column"
  ar_batch :: "schema \<Rightarrow> 'a column list \<Rightarrow> string + 'a record_batch"
  ar_writer :: "schema \<Rightarrow> string + 'w"
  ar_write :: "'w \<Rightarrow> 'a record_batch \<Rightarrow> string + 'w"
  ar_finish :: "'w \<Rightarrow> string + bytes"

definition normalize_column ::
  "('a, 'w) arrow \<Rightarrow> nat \<Rightarrow> 'a column \<times> field \<Rightarrow> string + 'a column" where
  "normalize_column ar rows cf =
     (let (col, field) = cf in
      if ac_type col = fd_type field then Inr col
      else if rows = 0 then Inr (ar_empty ar (fd_type field))
      else map_err (\<lambda>e. ''arrow cast '' @ fd_name field @ '': '' @ e) (ar_cast ar col (fd_type field)))"

definition normalize_batch :: "('a, 'w) arrow \<Rightarrow> 'a record_batch \<Rightarrow> schema \<Rightarrow> string + 'a record_batch" where
  "normalize_batch ar b target =
     try_bind (collect_results (normalize_column ar (rb_rows b)) (zip (rb_columns b) (sc_fields target))) (\<lambda>columns.
       map_err (\<lambda>e. ''arrow batch: '' @ e) (ar_batch ar target columns))"

definition arrow_ipc :: "string + 'b \<Rightarrow> string + 'b" where
  "arrow_ipc r = map_err (\<lambda>e. ''arrow ipc: '' @ e) r"

fun write_batches :: "('a, 'w) arrow \<Rightarrow> schema \<Rightarrow> 'a record_batch list \<Rightarrow> 'w \<Rightarrow> string + 'w" where
  "write_batches ar target [] w = Inr w"
| "write_batches ar target (b # bs) w =
     try_bind (normalize_batch ar b target) (\<lambda>normalized.
       try_bind (arrow_ipc (ar_write ar w normalized)) (\<lambda>w1. write_batches ar target bs w1))"

definition encode_ipc_stream :: "('a, 'w) arrow \<Rightarrow> schema \<Rightarrow> 'a record_batch list \<Rightarrow> string + bytes" where
  "encode_ipc_stream ar s batches =
     (let target = normalize_schema s in
      try_bind (arrow_ipc (ar_writer ar target)) (\<lambda>w.
        try_bind (write_batches ar target batches w) (\<lambda>w1. arrow_ipc (ar_finish ar w1))))"

definition encode_ipc_batch :: "('a, 'w) arrow \<Rightarrow> schema \<Rightarrow> 'a record_batch \<Rightarrow> string + bytes" where
  "encode_ipc_batch ar s b = encode_ipc_stream ar s [b]"

definition encode_ipc_schema_only :: "('a, 'w) arrow \<Rightarrow> schema \<Rightarrow> string + bytes" where
  "encode_ipc_schema_only ar s = encode_ipc_stream ar s []"

section \<open>The channel to the reader\<close>

text \<open>
  What was sent, and how many more items the reader takes before it goes away (\<^verbatim>\<open>None\<close>: it never does). A send
  to a reader that is gone fails. The capacity only delays a send, so it is not part of the state.
\<close>

record 'o channel =
  ch_sent :: "(string + 'o) list"
  ch_open :: "nat option"

definition new_channel :: "nat option \<Rightarrow> 'o channel" where
  "new_channel reader = \<lparr>ch_sent = [], ch_open = reader\<rparr>"

definition send_item :: "string + 'o \<Rightarrow> 'o channel \<Rightarrow> bool \<times> 'o channel" where
  "send_item item ch =
     (case ch_open ch of
        Some 0 \<Rightarrow> (False, ch)
      | Some (Suc n) \<Rightarrow> (True, \<lparr>ch_sent = ch_sent ch @ [item], ch_open = Some n\<rparr>)
      | None \<Rightarrow> (True, ch\<lparr>ch_sent := ch_sent ch @ [item]\<rparr>))"

section \<open>The drivers\<close>

text \<open>
  \<open>xe_plan\<close> is the session's \<^verbatim>\<open>create_physical_plan\<close> (with the gate and the lineage events of \<open>Query_Plans\<close>),
  \<open>xe_execute\<close> is \<^verbatim>\<open>execute_stream\<close>, \<open>xe_collect\<close> DataFusion's \<^verbatim>\<open>collect\<close>.
\<close>

record ('n, 'x, 'a) exec_env =
  xe_plan :: "'n plan \<Rightarrow> event list \<Rightarrow> (string + 'x) \<times> event list"
  xe_schema :: "'x \<Rightarrow> schema"
  xe_execute :: "'x \<Rightarrow> string + (string + 'a record_batch) list"
  xe_collect :: "'x \<Rightarrow> string + 'a record_batch list"

record query_response =
  qr_arrow_ipc :: bytes
  qr_num_rows :: nat

fun drive_query ::
  "('a, 'w) arrow \<Rightarrow> schema \<Rightarrow> (string + 'a record_batch) list \<Rightarrow> bool \<Rightarrow> query_response channel
    \<Rightarrow> query_response channel" where
  "drive_query ar s [] sent_any ch =
     (if sent_any then ch
      else snd (send_item (map_ok (\<lambda>b. \<lparr>qr_arrow_ipc = b, qr_num_rows = 0\<rparr>) (encode_ipc_schema_only ar s)) ch))"
| "drive_query ar s (Inl e # items) sent_any ch = snd (send_item (Inl e) ch)"
| "drive_query ar s (Inr b # items) sent_any ch =
     (let item = map_ok (\<lambda>bytes. \<lparr>qr_arrow_ipc = bytes, qr_num_rows = rb_rows b\<rparr>) (encode_ipc_batch ar s b) in
      case send_item item ch of
        (False, ch1) \<Rightarrow> ch1
      | (True, ch1) \<Rightarrow> if is_ok item then drive_query ar s items True ch1 else ch1)"

definition run_query_arrow_stream ::
  "('a, 'w) arrow \<Rightarrow> ('n, 'x, 'a) exec_env \<Rightarrow> 'n plan \<Rightarrow> nat option \<Rightarrow> event list
    \<Rightarrow> (string + query_response) list \<times> event list" where
  "run_query_arrow_stream ar xe plan reader log =
     (let ch = new_channel reader in
      case xe_plan xe plan log of
        (Inl e, log1) \<Rightarrow> (ch_sent (snd (send_item (Inl e) ch)), log1)
      | (Inr x, log1) \<Rightarrow>
          (case xe_execute xe x of
             Inl e \<Rightarrow> (ch_sent (snd (send_item (Inl e) ch)), log1)
           | Inr items \<Rightarrow> (ch_sent (drive_query ar (xe_schema xe x) items False ch), log1)))"

text \<open>
  \<^verbatim>\<open>FlightDataReceiverStreamBuilder::execute_logical_plan\<close>: \<open>encoded\<close> is Flight's encoder over the same items,
  which may split a batch into several messages.
\<close>

fun drive_flight :: "(string + 'o) list \<Rightarrow> 'o channel \<Rightarrow> 'o channel" where
  "drive_flight [] ch = ch"
| "drive_flight (item # items) ch =
     (case send_item item ch of
        (False, ch1) \<Rightarrow> ch1
      | (True, ch1) \<Rightarrow> if is_ok item then drive_flight items ch1 else ch1)"

definition flight_execute_logical_plan ::
  "(schema \<Rightarrow> (string + 'a record_batch) list \<Rightarrow> (string + 'o) list) \<Rightarrow> ('n, 'x, 'a) exec_env \<Rightarrow> 'n plan
    \<Rightarrow> nat option \<Rightarrow> event list \<Rightarrow> (string + 'o) list \<times> event list" where
  "flight_execute_logical_plan encoded xe plan reader log =
     (let ch = new_channel reader in
      case xe_plan xe plan log of
        (Inl e, log1) \<Rightarrow> (ch_sent (snd (send_item (Inl e) ch)), log1)
      | (Inr x, log1) \<Rightarrow>
          (case xe_execute xe x of
             Inl e \<Rightarrow> (ch_sent (snd (send_item (Inl e) ch)), log1)
           | Inr items \<Rightarrow> (ch_sent (drive_flight (encoded (xe_schema xe x) items) ch), log1)))"

text \<open>
  \<^verbatim>\<open>FlightDataStream\<close>, the source of an ingest: the incoming stream is taken by the first execution, and a second
  one only gets an error.
\<close>

definition flight_data_execute :: "'o list option \<Rightarrow> (string + 'o list) \<times> 'o list option" where
  "flight_data_execute inner =
     (case inner of
        Some items \<Rightarrow> (Inr items, None)
      | None \<Rightarrow> (Inl ''FlightDataStream has already been executed once and cannot be executed again'', None))"

section \<open>The surfaces\<close>

record http_request =
  hq_sql :: string
  hq_catalog :: "string option"
  hq_schema :: "string option"
  hq_limit :: "nat option"

record http_response =
  hr_arrow_ipc :: bytes
  hr_row_count :: nat
  hr_tables_registered :: "string list"

record query_limits =
  ql_default :: nat
  ql_max :: nat

text \<open>\<^verbatim>\<open>http::execute\<close>. The exec environment depends on the session and lineage of the planned query.\<close>

definition http_execute ::
  "('p, 'f, 'n, 'r) query_env \<Rightarrow> ('a, 'w) arrow \<Rightarrow> (('p, 'f, 'n) planned_query \<Rightarrow> ('n, 'x, 'a) exec_env)
    \<Rightarrow> call_env \<Rightarrow> string \<Rightarrow> query_limits \<Rightarrow> headers \<Rightarrow> http_request \<Rightarrow> ('p, 'f, 'n plan) session_store
    \<Rightarrow> event list \<Rightarrow> (string + http_response) \<times> ('p, 'f, 'n plan) session_store \<times> event list" where
  "http_execute qe ar xes env run_id ql get req st log =
     (if str_trim (hq_sql req) = [] then (Inl ''sql is required'', st, log)
      else
        (case plan_query qe env run_id get (hq_sql req) (hq_limit req) (ql_default ql) (ql_max ql) st of
           (Inl e, st1) \<Rightarrow> (Inl e, st1, log)
         | (Inr pq, st1) \<Rightarrow>
             (let xe = xes pq in
              case xe_plan xe (pq_plan pq) log of
                (Inl e, log1) \<Rightarrow> (Inl e, st1, log1)
              | (Inr x, log1) \<Rightarrow>
                  (try_bind (xe_collect xe x) (\<lambda>batches.
                     map_ok (\<lambda>bytes. \<lparr>hr_arrow_ipc = bytes, hr_row_count = sum_list (map rb_rows batches),
                                       hr_tables_registered = pq_tables_registered pq\<rparr>)
                       (encode_ipc_stream ar (xe_schema xe x) batches)), st1, log1))))"

text \<open>\<^verbatim>\<open>http::query\<close>: every error is a bad request.\<close>

definition http_query_status :: "string + http_response \<Rightarrow> nat" where
  "http_query_status r = (if is_ok r then 200 else 400)"

text \<open>\<^verbatim>\<open>QueryService::run_query\<close>: an error before the stream is an invalid argument, one in it is internal.\<close>

datatype rpc_error = Connect_Invalid_Argument string | Connect_Internal string

text \<open>\<open>flight_text\<close> is the text of a Flight error around a message.\<close>

definition flight_to_connect :: "(string \<Rightarrow> string) \<Rightarrow> string \<Rightarrow> rpc_error" where
  "flight_to_connect flight_text e = Connect_Internal (flight_text e)"

definition run_query ::
  "(string \<Rightarrow> string) \<Rightarrow> ('p, 'f, 'n, 'r) query_env \<Rightarrow> ('a, 'w) arrow \<Rightarrow> (('p, 'f, 'n) planned_query \<Rightarrow> ('n, 'x, 'a) exec_env)
    \<Rightarrow> call_env \<Rightarrow> string \<Rightarrow> query_limits \<Rightarrow> headers \<Rightarrow> string \<Rightarrow> nat option \<Rightarrow> nat option
    \<Rightarrow> ('p, 'f, 'n plan) session_store \<Rightarrow> event list
    \<Rightarrow> (rpc_error + (rpc_error + query_response) list) \<times> ('p, 'f, 'n plan) session_store \<times> event list" where
  "run_query flight_text qe ar xes env run_id ql get sql limit reader st log =
     (if str_trim sql = [] then (Inl (Connect_Invalid_Argument ''sql is required''), st, log)
      else
        (case plan_query qe env run_id get sql limit (ql_default ql) (ql_max ql) st of
           (Inl e, st1) \<Rightarrow> (Inl (Connect_Invalid_Argument e), st1, log)
         | (Inr pq, st1) \<Rightarrow>
             (case run_query_arrow_stream ar (xes pq) (pq_plan pq) reader log of
                (items, log1) \<Rightarrow> (Inr (map (map_err (flight_to_connect flight_text)) items), st1, log1))))"

end
