(* ===== verification/Ingest.thy ===== *)
theory Ingest
  imports Query_Results
begin

text \<open>
  Writing batches into a table: the tail both ingest paths share and the Flight path (\<^verbatim>\<open>server.rs\<close>,
  \<^verbatim>\<open>planner/flight.rs\<close>), the Delta commands (\<^verbatim>\<open>planner/delta.rs\<close>), and the Connect service that turns a file
  into a managed table (\<^verbatim>\<open>ingest_service.rs\<close>). What is written outside the server is a list of effects, and the
  catalog's answers depend on the effects so far. Arrow, Parquet, Delta and the catalog client are parameters.
\<close>

section \<open>Coercing batches\<close>

definition column_by_name :: "'a record_batch \<Rightarrow> string \<Rightarrow> 'a column option" where
  "column_by_name b name = map_of (zip (map fd_name (sc_fields (rb_schema b))) (rb_columns b)) name"

definition coerce_column ::
  "('a, 'w) arrow \<Rightarrow> (arrow_type \<Rightarrow> string) \<Rightarrow> 'a record_batch \<Rightarrow> field \<Rightarrow> string + 'a column" where
  "coerce_column ar type_debug b field =
     try_bind (ok_or (''ingest batch is missing column '' @ [CHR 0x27] @ fd_name field @ [CHR 0x27]
                        @ '' required by the target table'') (column_by_name b (fd_name field))) (\<lambda>col.
       map_err (\<lambda>e. ''failed to coerce column '' @ [CHR 0x27] @ fd_name field @ [CHR 0x27]
                      @ '' to target type '' @ type_debug (fd_type field) @ '': '' @ e)
         (ar_cast ar col (fd_type field)))"

definition coerce_batches_to_schema ::
  "('a, 'w) arrow \<Rightarrow> (arrow_type \<Rightarrow> string) \<Rightarrow> 'a record_batch list \<Rightarrow> schema \<Rightarrow> string + 'a record_batch list" where
  "coerce_batches_to_schema ar type_debug batches target =
     collect_results (\<lambda>b.
       try_bind (collect_results (coerce_column ar type_debug b) (sc_fields target)) (\<lambda>columns.
         map_err (\<lambda>e. ''failed to assemble coerced batch: '' @ e) (ar_batch ar target columns))) batches"

section \<open>The environment of an ingest\<close>

text \<open>
  An effect: a commit to a managed table, an insert through a table's provider, a lineage event of an ingest,
  the statement that created a table, a Delta command that ran.
\<close>

record ingest_event =
  iv_kind :: event_kind
  iv_run_id :: string
  iv_lineage :: lineage_context
  iv_output :: string
  iv_fields :: "(string \<times> string) list"

datatype ('a, 'tp, 'ws, 'n) effect =
    Appended table_ref "'a record_batch"
  | Inserted 'tp 'ws
  | Emitted ingest_event
  | Created string
  | Ran_Command "'n plan"

datatype table_reference = Bare string | Partial string string | Full string string string

definition ref_table :: "table_reference \<Rightarrow> string" where
  "ref_table r = (case r of Bare t \<Rightarrow> t | Partial _ t \<Rightarrow> t | Full _ _ t \<Rightarrow> t)"

text \<open>
  Per session: whether Unity Catalog is wired; \<^verbatim>\<open>loadTable\<close>; the provider of a qualified name (through the
  resolver) and of a text (as the session resolves it); the insert plan and its authorisation; Arrow's
  concatenation; the catalog's commit; the execution of an insert plan, with the count it returns, and of DDL.
\<close>

record ('a, 'w, 'tp, 'ws, 'n, 'l, 'k) ingest_env =
  ie_arrow :: "('a, 'w) arrow"
  ie_type_debug :: "arrow_type \<Rightarrow> string"
  ie_unity_wired :: bool
  ie_parse_ref :: "string \<Rightarrow> table_reference"
  ie_load_table :: "('a, 'tp, 'ws, 'n) effect list \<Rightarrow> table_ref \<Rightarrow> string + 'l"
  ie_read_state :: "'l \<Rightarrow> string + 'k read_state"
  ie_partition_columns :: "'l \<Rightarrow> string list option"
  ie_provider :: "table_ref \<Rightarrow> string + 'tp"
  ie_lookup :: "string \<Rightarrow> string + 'tp"
  ie_schema :: "'tp \<Rightarrow> schema"
  ie_insert_plan :: "string \<Rightarrow> 'tp \<Rightarrow> string + 'n plan"
  ie_authorize :: "'n plan \<Rightarrow> string + 'n plan"
  ie_concat :: "schema \<Rightarrow> 'a record_batch list \<Rightarrow> string + 'a record_batch"
  ie_append :: "table_ref \<Rightarrow> 'a record_batch \<Rightarrow> string + unit"
  ie_lineage_wired :: bool
  ie_fresh_run :: string
  ie_dataset_name :: "string \<Rightarrow> string"
  ie_type_text :: "arrow_type \<Rightarrow> string"
  ie_decode_wire :: "'ws \<Rightarrow> string + 'a record_batch list"
  ie_run_insert :: "'n plan \<Rightarrow> 'tp \<Rightarrow> 'ws \<Rightarrow> string + nat option"
  ie_plan_ddl :: "string \<Rightarrow> string + 'n plan"
  ie_run_plan :: "'n plan \<Rightarrow> string + unit"

definition ref_text :: "table_ref \<Rightarrow> string" where
  "ref_text r = (case r of (c, s, t) \<Rightarrow> c @ ''.'' @ s @ ''.'' @ t)"

definition resolve_managed_target ::
  "('a, 'w, 'tp, 'ws, 'n, 'l, 'k) ingest_env \<Rightarrow> ('a, 'tp, 'ws, 'n) effect list \<Rightarrow> table_ref
    \<Rightarrow> string + table_ref option" where
  "resolve_managed_target ie effects ref =
     (if \<not> ie_unity_wired ie then Inr None
      else
        (case ie_load_table ie effects ref of
           Inl _ \<Rightarrow> Inr None
         | Inr loaded \<Rightarrow>
             try_bind (ie_read_state ie loaded) (\<lambda>rs.
               (case rs of
                  NotManaged \<Rightarrow> Inr None
                | Managed _ _ \<Rightarrow>
                    if unwrap_or [] (ie_partition_columns ie loaded) \<noteq> []
                    then Inl (''ingest into partitioned managed table '' @ [CHR 0x27] @ ref_text ref @ [CHR 0x27]
                                @ '' is not yet supported'')
                    else Inr (Some ref)))))"

section \<open>Appending to a managed table\<close>

text \<open>
  \<open>ie_fresh_run\<close> is the run id made up when the context has none, \<open>ie_dataset_name\<close> the dataset's name in the job
  namespace, \<open>ie_type_text\<close> how a type shows. The event builder of the lineage crate gets the context as it is.
\<close>

definition emit_managed_ingest ::
  "('a, 'w, 'tp, 'ws, 'n, 'l, 'k) ingest_env \<Rightarrow> lineage_context \<Rightarrow> string \<Rightarrow> schema
    \<Rightarrow> ('a, 'tp, 'ws, 'n) effect list" where
  "emit_managed_ingest ie lineage qualified s =
     (if \<not> ie_lineage_wired ie then []
      else
        map (\<lambda>kind. Emitted
          \<lparr>iv_kind = kind, iv_run_id = unwrap_or (ie_fresh_run ie) (lc_run_id lineage), iv_lineage = lineage,
           iv_output = ie_dataset_name ie qualified,
           iv_fields = map (\<lambda>f. (fd_name f, ie_type_text ie (fd_type f))) (sc_fields s)\<rparr>)
          [Event_Start, Event_Complete])"

definition append_managed_batches ::
  "('a, 'w, 'tp, 'ws, 'n, 'l, 'k) ingest_env \<Rightarrow> lineage_context \<Rightarrow> table_ref \<Rightarrow> 'a record_batch list
    \<Rightarrow> ('a, 'tp, 'ws, 'n) effect list \<Rightarrow> (string + nat) \<times> ('a, 'tp, 'ws, 'n) effect list" where
  "append_managed_batches ie lineage target batches effects =
     and_then (ie_provider ie target, effects) (\<lambda>provider effects.
       and_then (ie_insert_plan ie (ref_text target) provider, effects) (\<lambda>plan effects.
         and_then (ie_authorize ie plan, effects) (\<lambda>_ effects.
           and_then (coerce_batches_to_schema (ie_arrow ie) (ie_type_debug ie) batches (ie_schema ie provider), effects)
             (\<lambda>coerced effects.
               (let total = sum_list (map rb_rows coerced) in
                if total = 0 then (Inr 0, effects)
                else
                  and_then (map_err (\<lambda>e. ''failed to concatenate ingest batches: '' @ e)
                      (ie_concat ie (ie_schema ie provider) coerced), effects) (\<lambda>batch effects.
                    and_then (map_err (\<lambda>e. ''managed append failed: '' @ e) (ie_append ie target batch), effects)
                      (\<lambda>_ effects.
                        (Inr total, effects @ Appended target batch #
                           emit_managed_ingest ie lineage (ref_text target) (ie_schema ie provider)))))))))"

section \<open>The Flight path\<close>

record ingest_ticket =
  it_catalog :: "string option"
  it_schema :: "string option"
  it_table :: string

definition resolve_managed_ingest ::
  "('a, 'w, 'tp, 'ws, 'n, 'l, 'k) ingest_env \<Rightarrow> ('a, 'tp, 'ws, 'n) effect list \<Rightarrow> ingest_ticket
    \<Rightarrow> string + table_ref option" where
  "resolve_managed_ingest ie effects ticket =
     (let r = ie_parse_ref ie (it_table ticket) in
      case (it_catalog ticket, it_schema ticket) of
        (Some c, Some s) \<Rightarrow> resolve_managed_target ie effects (c, s, ref_table r)
      | _ \<Rightarrow>
          (case r of
             Full c s t \<Rightarrow> resolve_managed_target ie effects (c, s, t)
           | _ \<Rightarrow> Inr None))"

definition ingest_managed ::
  "('a, 'w, 'tp, 'ws, 'n, 'l, 'k) ingest_env \<Rightarrow> lineage_context \<Rightarrow> table_ref \<Rightarrow> 'ws
    \<Rightarrow> ('a, 'tp, 'ws, 'n) effect list \<Rightarrow> (string + nat) \<times> ('a, 'tp, 'ws, 'n) effect list" where
  "ingest_managed ie lineage target wire effects =
     and_then (ie_provider ie target, effects) (\<lambda>provider effects.
       and_then (map_err (\<lambda>e. ''Failed to receive flight stream: '' @ e) (ie_decode_wire ie wire), effects)
         (\<lambda>raw effects.
           and_then (coerce_batches_to_schema (ie_arrow ie) (ie_type_debug ie) raw (ie_schema ie provider), effects)
             (\<lambda>batches effects. append_managed_batches ie lineage target batches effects)))"

text \<open>\<^verbatim>\<open>FlightPlanner::plan_ingest\<close>: the target is looked up by the table text of the command.\<close>

definition plan_ingest ::
  "('a, 'w, 'tp, 'ws, 'n, 'l, 'k) ingest_env \<Rightarrow> ingest_ticket \<Rightarrow> string + 'tp \<times> 'n plan" where
  "plan_ingest ie ticket =
     try_bind (ie_lookup ie (it_table ticket)) (\<lambda>provider.
       map_ok (Pair provider) (ie_insert_plan ie (it_table ticket) provider))"

definition do_put_statement_ingest ::
  "('p, 'f, 'pl, 'r) flight_env \<Rightarrow> (('p, 'f, 'pl) session \<Rightarrow> ('a, 'w, 'tp, 'ws, 'n, 'l, 'k) ingest_env)
    \<Rightarrow> call_env \<Rightarrow> string \<Rightarrow> headers \<Rightarrow> ingest_ticket \<Rightarrow> 'ws \<Rightarrow> ('p, 'f, 'pl) session_store \<Rightarrow> ('a, 'tp, 'ws, 'n) effect list
    \<Rightarrow> (status + nat) \<times> ('p, 'f, 'pl) session_store \<times> ('a, 'tp, 'ws, 'n) effect list" where
  "do_put_statement_ingest fe ies env run_id get ticket wire st effects =
     (case fe_resolve fe env get st of
        (Inl e, st1) \<Rightarrow> (Inl e, st1, effects)
      | (Inr a, st1) \<Rightarrow>
          (let ie = ies (sst_heap st1 a) in
           case resolve_managed_ingest ie effects ticket of
             Inl e \<Rightarrow>
               (Inl (status_at ''Failed to resolve managed ingest target'' ''crates/hydrofoil/src/server.rs:1248'' e),
                st1, effects)
           | Inr (Some target) \<Rightarrow>
               (case ingest_managed ie (request_lineage get (fe_config fe) run_id (Some (''INGEST INTO '' @ ref_text target))
                       (principal_uid_at a st1) (agent_context_from_metadata get)) target wire effects of
                  (r, effects1) \<Rightarrow>
                    (map_err (status_at ''Failed managed ingest'' ''crates/hydrofoil/src/server.rs:1270'') r,
                     st1, effects1))
           | Inr None \<Rightarrow>
               (case plan_ingest ie ticket of
                  Inl e \<Rightarrow>
                    (Inl (status_at ''Failed to spawn ingest command'' ''crates/hydrofoil/src/server.rs:1284'' e),
                     st1, effects)
                | Inr (provider, plan) \<Rightarrow>
                    (case try_bind (ie_authorize ie plan) (\<lambda>governed. ie_run_insert ie governed provider wire) of
                       Inl e \<Rightarrow>
                         (Inl (status_at ''Failed to execute ingest command'' ''crates/hydrofoil/src/server.rs:1290'' e),
                          st1, effects)
                     | Inr rows \<Rightarrow> (Inr (unwrap_or 0 rows), st1, effects @ [Inserted provider wire])))))"

section \<open>Delta commands\<close>

datatype delta_mode = Mode_Unspecified | Create_Only | Create_If_Not_Exists | Replace_Existing | Create_Or_Replace

record 'col create_delta_table =
  cd_table_name :: string
  cd_location :: "string option"
  cd_comment :: "string option"
  cd_columns :: "'col list"
  cd_partitioning_columns :: "string list"
  cd_mode :: delta_mode
  cd_properties :: "(string \<times> string) list"
  cd_clustering_columns :: "string list"

datatype 'col delta_command = No_Command_Type | Create_Delta_Table "'col create_delta_table" | Other_Command string

record 'fi create_external_table =
  cx_schema :: "'fi list"
  cx_name :: table_reference
  cx_locations :: "string list"
  cx_table_partition_cols :: "string list"
  cx_if_not_exists :: bool
  cx_or_replace :: bool
  cx_options :: "(string \<times> string) list"
  cx_unbounded :: bool
  cx_temporary :: bool

definition plan_create_delta_table ::
  "('col \<Rightarrow> string + 'fi) \<Rightarrow> (string \<Rightarrow> table_reference) \<Rightarrow> 'col create_delta_table
    \<Rightarrow> string + 'fi create_external_table" where
  "plan_create_delta_table column_to_arrow parse_ref cmd =
     try_bind (ok_or ''CreateDeltaTable command requires a location. Registration to catalogs not yet implemented.''
         (cd_location cmd)) (\<lambda>location.
       map_ok (\<lambda>fields.
         \<lparr>cx_schema = fields, cx_name = parse_ref (cd_table_name cmd), cx_locations = [location],
          cx_table_partition_cols = cd_partitioning_columns cmd,
          cx_if_not_exists = (cd_mode cmd = Create_If_Not_Exists),
          cx_or_replace = (cd_mode cmd = Create_Or_Replace), cx_options = cd_properties cmd,
          cx_unbounded = False, cx_temporary = False\<rparr>)
         (collect_results column_to_arrow (cd_columns cmd)))"

definition plan_delta_connect ::
  "('col \<Rightarrow> string + 'fi) \<Rightarrow> (string \<Rightarrow> table_reference) \<Rightarrow> 'col delta_command
    \<Rightarrow> string + 'fi create_external_table" where
  "plan_delta_connect column_to_arrow parse_ref command =
     (case command of
        No_Command_Type \<Rightarrow> Inl ''DeltaCommand has no command_type''
      | Create_Delta_Table cmd \<Rightarrow> plan_create_delta_table column_to_arrow parse_ref cmd
      | Other_Command debug \<Rightarrow> Inl (''Unsupported command in DeltaPlanner: '' @ debug))"

text \<open>\<^verbatim>\<open>DeltaTableFactory::create\<close> (\<^verbatim>\<open>catalog/external_table.rs\<close>), up to what it asks of the Delta crate's builder.\<close>

datatype save_mode = Save_Overwrite | Save_Ignore | Save_Error_If_Exists

record 'kc create_builder =
  bu_location :: string
  bu_table_name :: string
  bu_columns :: "'kc list"
  bu_save_mode :: save_mode
  bu_configuration :: "(string \<times> string option) list"
  bu_partition_columns :: "string list option"

definition delta_factory_create ::
  "(string \<Rightarrow> string + string) \<Rightarrow> (string \<Rightarrow> string + unit) \<Rightarrow> ('fi \<Rightarrow> string + 'kc) \<Rightarrow> (nat \<Rightarrow> string)
    \<Rightarrow> 'fi create_external_table \<Rightarrow> string + 'kc create_builder" where
  "delta_factory_create url log_store to_kernel show_nat cmd =
     (if cx_unbounded cmd then Inl ''Creating unbounded Delta tables is not supported''
      else if cx_temporary cmd then Inl ''Creating temporary Delta tables is not supported''
      else
        (case cx_locations cmd of
           [loc] \<Rightarrow>
             try_bind (url loc) (\<lambda>location.
               try_bind (log_store location) (\<lambda>_.
                 try_bind (collect_results to_kernel (cx_schema cmd)) (\<lambda>columns.
                   Inr \<lparr>bu_location = location, bu_table_name = ref_table (cx_name cmd), bu_columns = columns,
                        bu_save_mode =
                          (if cx_or_replace cmd then Save_Overwrite
                           else if cx_if_not_exists cmd then Save_Ignore else Save_Error_If_Exists),
                        bu_configuration = map (\<lambda>(k, v). (k, Some v)) (cx_options cmd),
                        bu_partition_columns =
                          (if cx_table_partition_cols cmd = [] then None
                           else Some (cx_table_partition_cols cmd))\<rparr>)))
         | locs \<Rightarrow> Inl (''Delta tables take exactly one LOCATION, got '' @ show_nat (length locs))))"

text \<open>\<^verbatim>\<open>do_put_fallback\<close>: \<open>unpack\<close> is the decoding of the message, \<open>ddl_plan\<close> the logical plan of the command.\<close>

definition do_put_fallback ::
  "('p, 'f, 'pl, 'r) flight_env \<Rightarrow> (('p, 'f, 'pl) session \<Rightarrow> ('a, 'w, 'tp, 'ws, 'n, 'l, 'k) ingest_env)
    \<Rightarrow> ('col \<Rightarrow> string + 'fi) \<Rightarrow> ('fi create_external_table \<Rightarrow> 'n plan) \<Rightarrow> (bytes \<Rightarrow> string + 'col delta_command option)
    \<Rightarrow> bool \<Rightarrow> call_env \<Rightarrow> headers \<Rightarrow> string \<Rightarrow> bytes \<Rightarrow> ('p, 'f, 'pl) session_store \<Rightarrow> ('a, 'tp, 'ws, 'n) effect list
    \<Rightarrow> (status + int) \<times> ('p, 'f, 'pl) session_store \<times> ('a, 'tp, 'ws, 'n) effect list" where
  "do_put_fallback fe ies column_to_arrow ddl_plan unpack is_delta env get type_url message st effects =
     (if \<not> is_delta
      then (Inl (Status_unimplemented (''do_put: The defined request is invalid: '' @ type_url)), st, effects)
      else
        (case try_bind (map_err Status_internal (unpack message))
                (ok_or (Status_internal ''Expected DeltaCommand but got None!'')) of
           Inl e \<Rightarrow> (Inl e, st, effects)
         | Inr command \<Rightarrow>
             (case fe_resolve fe env get st of
                (Inl e, st1) \<Rightarrow> (Inl e, st1, effects)
              | (Inr a, st1) \<Rightarrow>
                  (let ie = ies (sst_heap st1 a) in
                   case plan_delta_connect column_to_arrow (ie_parse_ref ie) command of
                     Inl e \<Rightarrow> (Inl (Status_internal (''Error planning delta command: '' @ e)), st1, effects)
                   | Inr cmd \<Rightarrow>
                       (let plan = ddl_plan cmd in
                        case try_bind (ie_authorize ie plan) (ie_run_plan ie) of
                          Inl e \<Rightarrow>
                            (Inl (status_at ''Failed to execute ingest command'' ''crates/hydrofoil/src/server.rs:1337'' e),
                             st1, effects)
                        | Inr _ \<Rightarrow> (Inr (- 1), st1, effects @ [Ran_Command plan]))))))"

section \<open>The Connect service\<close>

definition PREVIEW_DEFAULT_ROWS :: nat where
  "PREVIEW_DEFAULT_ROWS = 100"

definition PREVIEW_MAX_ROWS :: nat where
  "PREVIEW_MAX_ROWS = 1000"

text \<open>
  A Parquet file has a schema, the row count of its metadata, and a reader, with a limit of rows when one is given:
  the batches it yields, each or the error that ends the reading. \<open>if_ipc_reader\<close> is Arrow's stream reader,
  \<open>if_open\<close> opens a file, \<open>if_parquet\<close> reads its metadata.
\<close>

record 'a parquet_file =
  pq_schema :: schema
  pq_num_rows :: int
  pq_read :: "nat option \<Rightarrow> string + (string + 'a record_batch) list"

record 'a ingest_files =
  if_ipc_reader :: "bytes \<Rightarrow> string + schema \<times> (string + 'a record_batch) list"
  if_open :: "string \<Rightarrow> string + bytes"
  if_parquet :: "bytes \<Rightarrow> string + 'a parquet_file"

definition read_error :: "string \<Rightarrow> string + 'b \<Rightarrow> string + 'b" where
  "read_error path r = map_err (\<lambda>e. ''read '' @ path @ '': '' @ e) r"

definition open_parquet :: "'a ingest_files \<Rightarrow> string \<Rightarrow> string + 'a parquet_file" where
  "open_parquet io path =
     try_bind (map_err (\<lambda>e. ''open '' @ path @ '': '' @ e) (if_open io path)) (\<lambda>file. read_error path (if_parquet io file))"

definition read_parquet_preview ::
  "'a ingest_files \<Rightarrow> string \<Rightarrow> nat \<Rightarrow> string + schema \<times> 'a record_batch list \<times> nat" where
  "read_parquet_preview io path sample_rows =
     try_bind (open_parquet io path) (\<lambda>file.
       try_bind (read_error path (pq_read file (Some sample_rows))) (\<lambda>items.
         try_bind (read_error path (collect_results id items)) (\<lambda>batches.
           Inr (pq_schema file, batches, nat (max 0 (pq_num_rows file))))))"

definition read_parquet_batches ::
  "'a ingest_files \<Rightarrow> string \<Rightarrow> string + 'a record_batch list" where
  "read_parquet_batches io path =
     try_bind (open_parquet io path) (\<lambda>file.
       try_bind (read_error path (pq_read file None)) (\<lambda>items. read_error path (collect_results id items)))"

record preview_response =
  pr_schema_ipc :: bytes
  pr_sample_ipc :: bytes
  pr_total_rows_estimate :: nat

definition preview_file ::
  "('a, 'w) arrow \<Rightarrow> 'a ingest_files \<Rightarrow> string \<Rightarrow> nat option \<Rightarrow> rpc_error + preview_response" where
  "preview_file ar io path sample =
     (let sample_rows = min (unwrap_or PREVIEW_DEFAULT_ROWS sample) PREVIEW_MAX_ROWS in
      if str_trim path = [] then Inl (Connect_Invalid_Argument ''path is required'')
      else
        try_bind (map_err Connect_Invalid_Argument (read_parquet_preview io path sample_rows))
          (\<lambda>(s, batches, total).
            try_bind (map_err Connect_Internal (encode_ipc_stream ar s [])) (\<lambda>schema_ipc.
              try_bind (map_err Connect_Internal (encode_ipc_stream ar s batches)) (\<lambda>sample_ipc.
                Inr \<lparr>pr_schema_ipc = schema_ipc, pr_sample_ipc = sample_ipc, pr_total_rows_estimate = total\<rparr>))))"

text \<open>The type of a column in the DDL; \<open>type_debug\<close> shows a type in the message about an unsupported one.\<close>

definition sql_type :: "(arrow_type \<Rightarrow> string) \<Rightarrow> field \<Rightarrow> string + string" where
  "sql_type type_debug f =
     (case fd_type f of
        DT_Boolean \<Rightarrow> Inr ''BOOLEAN''
      | DT_Int8 \<Rightarrow> Inr ''INT'' | DT_Int16 \<Rightarrow> Inr ''INT'' | DT_Int32 \<Rightarrow> Inr ''INT''
      | DT_Int64 \<Rightarrow> Inr ''BIGINT''
      | DT_Float32 \<Rightarrow> Inr ''FLOAT''
      | DT_Float64 \<Rightarrow> Inr ''DOUBLE''
      | DT_Utf8 \<Rightarrow> Inr ''STRING'' | DT_LargeUtf8 \<Rightarrow> Inr ''STRING'' | DT_Utf8View \<Rightarrow> Inr ''STRING''
      | DT_Date32 \<Rightarrow> Inr ''DATE'' | DT_Date64 \<Rightarrow> Inr ''DATE''
      | DT_Timestamp _ \<Rightarrow> Inr ''TIMESTAMP''
      | other \<Rightarrow> Inl (''column '' @ [CHR 0x27] @ fd_name f @ [CHR 0x27] @ '' has unsupported type ''
                       @ type_debug other))"

definition ddl_column :: "(arrow_type \<Rightarrow> string) \<Rightarrow> field \<Rightarrow> string + string" where
  "ddl_column type_debug f =
     map_ok (\<lambda>ty. [CHR 0x60] @ fd_name f @ [CHR 0x60] @ '' '' @ ty @ (if fd_nullable f then '''' else '' NOT NULL''))
       (sql_type type_debug f)"

definition ddl_columns :: "(arrow_type \<Rightarrow> string) \<Rightarrow> schema \<Rightarrow> string + string" where
  "ddl_columns type_debug s = map_ok (str_join '', '') (collect_results (ddl_column type_debug) (sc_fields s))"

definition create_managed_table ::
  "('a, 'w, 'tp, 'ws, 'n, 'l, 'k) ingest_env \<Rightarrow> string \<Rightarrow> schema \<Rightarrow> ('a, 'tp, 'ws, 'n) effect list
    \<Rightarrow> (rpc_error + unit) \<times> ('a, 'tp, 'ws, 'n) effect list" where
  "create_managed_table ie qualified target_schema effects =
     and_then (map_err (\<lambda>e. Connect_Invalid_Argument (''unsupported schema: '' @ e))
         (ddl_columns (ie_type_debug ie) target_schema), effects) (\<lambda>columns effects.
       (let ddl = ''CREATE TABLE '' @ qualified @ '' ('' @ columns @ '') USING DELTA'' in
        and_then (map_err (\<lambda>e. Connect_Internal (''error planning CREATE: '' @ e)) (ie_plan_ddl ie ddl), effects)
          (\<lambda>plan effects.
            and_then (map_err (\<lambda>e. Connect_Internal (''error creating table: '' @ e))
                (try_bind (ie_authorize ie plan) (ie_run_plan ie)), effects) (\<lambda>_ effects.
              (Inr (), effects @ [Created ddl])))))"

record ingest_frame =
  fr_catalog :: string
  fr_schema :: string
  fr_table :: string
  fr_target_schema_ipc :: bytes
  fr_create_if_missing :: bool
  fr_source_path :: "string option"
  fr_arrow_ipc :: bytes

record ingest_response =
  ir_rows_written :: nat
  ir_qualified_name :: string
  ir_created :: bool

definition decode_ipc_schema :: "'a ingest_files \<Rightarrow> bytes \<Rightarrow> string + schema" where
  "decode_ipc_schema io b = map_ok fst (arrow_ipc (if_ipc_reader io b))"

definition decode_ipc_batches :: "'a ingest_files \<Rightarrow> bytes \<Rightarrow> string + 'a record_batch list" where
  "decode_ipc_batches io b =
     try_bind (arrow_ipc (if_ipc_reader io b)) (\<lambda>(_, items). arrow_ipc (collect_results id items))"

text \<open>The batches of the frames after the first, in order; a frame without a chunk is passed over.\<close>

definition decode_chunk ::
  "'a ingest_files \<Rightarrow> bytes \<Rightarrow> rpc_error + 'a record_batch list" where
  "decode_chunk io chunk =
     (if chunk = [] then Inr []
      else map_err (\<lambda>e. Connect_Invalid_Argument (''arrow_ipc: '' @ e)) (decode_ipc_batches io chunk))"

fun frame_batches ::
  "'a ingest_files \<Rightarrow> (rpc_error + ingest_frame) list
    \<Rightarrow> rpc_error + 'a record_batch list" where
  "frame_batches io [] = Inr []"
| "frame_batches io (item # items) =
     try_bind item (\<lambda>frame.
       try_bind (decode_chunk io (fr_arrow_ipc frame)) (\<lambda>bs. map_ok (\<lambda>more. bs @ more) (frame_batches io items)))"

definition ingest_source ::
  "'a ingest_files \<Rightarrow> ingest_frame \<Rightarrow> (rpc_error + ingest_frame) list
    \<Rightarrow> rpc_error + 'a record_batch list" where
  "ingest_source io first later =
     (case option_filter (\<lambda>p. p \<noteq> []) (fr_source_path first) of
        Some path \<Rightarrow> map_err Connect_Invalid_Argument (read_parquet_batches io path)
      | None \<Rightarrow>
          try_bind (decode_chunk io (fr_arrow_ipc first)) (\<lambda>bs.
            map_ok (\<lambda>more. bs @ more) (frame_batches io later)))"

definition ensure_target ::
  "('a, 'w, 'tp, 'ws, 'n, 'l, 'k) ingest_env \<Rightarrow> ingest_frame \<Rightarrow> table_ref \<Rightarrow> schema \<Rightarrow> ('a, 'tp, 'ws, 'n) effect list
    \<Rightarrow> (rpc_error + table_ref \<times> bool) \<times> ('a, 'tp, 'ws, 'n) effect list" where
  "ensure_target ie first ref target_schema effects =
     and_then (map_err Connect_Internal (resolve_managed_target ie effects ref), effects) (\<lambda>target effects.
       (case target of
          Some t \<Rightarrow> (Inr (t, False), effects)
        | None \<Rightarrow>
            if \<not> fr_create_if_missing first
            then (Inl (Connect_Invalid_Argument (''table '' @ ref_text ref
                    @ '' is not a Unity Catalog managed table and create_if_missing is false'')), effects)
            else
              and_then (create_managed_table ie (ref_text ref) target_schema effects) (\<lambda>_ effects.
                and_then (map_err Connect_Internal (resolve_managed_target ie effects ref), effects) (\<lambda>again effects.
                  (map_ok (\<lambda>t. (t, True))
                     (ok_or (Connect_Internal (''managed table '' @ ref_text ref @ '' could not be resolved after create''))
                        again), effects)))))"

definition ingest_lineage :: "string \<Rightarrow> string \<Rightarrow> lineage_context" where
  "ingest_lineage run_id qualified = (query_lineage run_id qualified)\<lparr>lc_sql := Some (''INGEST INTO '' @ qualified)\<rparr>"

definition ingest_table ::
  "('p, 'f, 'pl, 'r) flight_env \<Rightarrow> (('p, 'f, 'pl) session \<Rightarrow> ('a, 'w, 'tp, 'ws, 'n, 'l, 'k) ingest_env)
    \<Rightarrow> 'a ingest_files \<Rightarrow> call_env \<Rightarrow> string \<Rightarrow> headers \<Rightarrow> (rpc_error + ingest_frame) list
    \<Rightarrow> ('p, 'f, 'pl) session_store \<Rightarrow> ('a, 'tp, 'ws, 'n) effect list
    \<Rightarrow> (rpc_error + ingest_response) \<times> ('p, 'f, 'pl) session_store \<times> ('a, 'tp, 'ws, 'n) effect list" where
  "ingest_table fe ies io env run_id get requests st effects =
     (case requests of
        [] \<Rightarrow> (Inl (Connect_Invalid_Argument ''ingest stream was empty''), st, effects)
      | Inl e # _ \<Rightarrow> (Inl e, st, effects)
      | Inr first # later \<Rightarrow>
          if fr_catalog first = [] \<or> fr_schema first = [] \<or> fr_table first = []
          then (Inl (Connect_Invalid_Argument ''first frame must set catalog, schema, and table''), st, effects)
          else
            (case decode_ipc_schema io (fr_target_schema_ipc first) of
               Inl e \<Rightarrow> (Inl (Connect_Invalid_Argument (''target_schema_ipc: '' @ e)), st, effects)
             | Inr target_schema \<Rightarrow>
                 (case principal_from_headers (eg_principals (sst_engine st)) (fe_check_uid fe) get of
                    Inl e \<Rightarrow> (Inl (Connect_Invalid_Argument e), st, effects)
                  | Inr who \<Rightarrow>
                      (case session_for_principal (fe_hash fe) env who (uc_token_from_http_headers get) st of
                         (Inl s, st1) \<Rightarrow> (Inl (Connect_Internal (status_message s)), st1, effects)
                       | (Inr a, st1) \<Rightarrow>
                           (let ie = ies (sst_heap st1 a);
                                ref = (fr_catalog first, fr_schema first, fr_table first)
                            in (case and_then (ensure_target ie first ref target_schema effects)
                                       (\<lambda>(target, created) effects.
                                         and_then (ingest_source io first later, effects) (\<lambda>batches effects.
                                           and_then (map_prod (map_err Connect_Internal) id
                                               (append_managed_batches ie (ingest_lineage run_id (ref_text ref)) target batches effects)) (\<lambda>rows effects.
                                             (Inr \<lparr>ir_rows_written = rows, ir_qualified_name = ref_text ref,
                                                   ir_created = created\<rparr>, effects)))) of
                                  (r, effects1) \<Rightarrow> (r, st1, effects1)))))))"

end
