(* ===== verification/Query_Facts.thy ===== *)
theory Query_Facts
  imports Ingest Server_Runs
begin

text \<open>
  Lemmas on the shared path of a query, on what a reader of its stream sees, and on the effects of an ingest;
  and the server with all its surfaces as a state machine, of which every call is a run of the session store.
\<close>

section \<open>The tables of a plan\<close>

fun plan_nodes :: "'n plan \<Rightarrow> 'n list" where
  "plan_nodes (Plan n inputs) = n # concat (map plan_nodes inputs)"

lemma set_collect_table_names:
  "set (collect_table_names scan p out) = set out \<union> {name. \<exists>n \<in> set (plan_nodes p). scan n = Some name}"
proof (induction scan p out rule: collect_table_names.induct)
  case (1 scan n inputs out)
  have "set (fold (collect_table_names scan) ps out') =
      set out' \<union> {name. \<exists>p \<in> set ps. \<exists>m \<in> set (plan_nodes p). scan m = Some name}"
    if "set ps \<subseteq> set inputs" for ps out'
    using that
  proof (induction ps arbitrary: out')
    case (Cons p ps)
    then show ?case using "1.IH" [of p out'] by auto
  qed simp
  then show ?case by (auto simp: set_insort_insert split: option.split)
qed

lemma collect_table_names_sorted:
  "sorted out \<and> distinct out \<Longrightarrow> sorted (collect_table_names scan p out) \<and> distinct (collect_table_names scan p out)"
proof (induction scan p out rule: collect_table_names.induct)
  case (1 scan n inputs out)
  have "sorted (fold (collect_table_names scan) ps out') \<and> distinct (fold (collect_table_names scan) ps out')"
    if "set ps \<subseteq> set inputs" "sorted out' \<and> distinct out'" for ps out'
    using that
  proof (induction ps arbitrary: out')
    case (Cons p ps)
    then show ?case using "1.IH" [of p out'] by auto
  qed simp
  then show ?case using "1.prems"
    by (auto simp: sorted_insort_insert distinct_insort_insert split: option.split)
qed

lemma referenced_tables:
  "sorted (referenced_tables scan p)" "distinct (referenced_tables scan p)"
  "set (referenced_tables scan p) = {name. \<exists>n \<in> set (plan_nodes p). scan n = Some name}"
  using collect_table_names_sorted [of "[]" scan p] set_collect_table_names [of scan p "[]"]
  by (simp_all add: referenced_tables_def)

section \<open>What a reader sees\<close>

text \<open>
  The whole answer of a query: one message a batch up to the first that fails to arrive or to encode, and a
  message with the schema alone when there is no batch. A reader that goes away after \<open>n\<close> items sees the first \<open>n\<close>.
\<close>

fun upto_error :: "('e + 'a) list \<Rightarrow> ('e + 'a) list" where
  "upto_error [] = []"
| "upto_error (Inl e # rs) = [Inl e]"
| "upto_error (Inr a # rs) = Inr a # upto_error rs"

definition read_by :: "nat option \<Rightarrow> 'a list \<Rightarrow> 'a list" where
  "read_by reader xs = (case reader of None \<Rightarrow> xs | Some n \<Rightarrow> take n xs)"

lemma read_by_simps [simp]:
  "read_by reader [] = []" "read_by None xs = xs" "read_by (Some 0) xs = []"
  "read_by (Some (Suc n)) (x # xs) = x # read_by (Some n) xs"
  by (simp_all add: read_by_def split: option.split)

definition batch_message ::
  "('a, 'w) arrow \<Rightarrow> schema \<Rightarrow> string + 'a record_batch \<Rightarrow> string + query_response" where
  "batch_message ar s item =
     try_bind item (\<lambda>b. map_ok (\<lambda>bytes. \<lparr>qr_arrow_ipc = bytes, qr_num_rows = rb_rows b\<rparr>) (encode_ipc_batch ar s b))"

definition schema_message :: "('a, 'w) arrow \<Rightarrow> schema \<Rightarrow> string + query_response" where
  "schema_message ar s = map_ok (\<lambda>bytes. \<lparr>qr_arrow_ipc = bytes, qr_num_rows = 0\<rparr>) (encode_ipc_schema_only ar s)"

definition answer_messages ::
  "('a, 'w) arrow \<Rightarrow> schema \<Rightarrow> (string + 'a record_batch) list \<Rightarrow> (string + query_response) list" where
  "answer_messages ar s items = (if items = [] then [schema_message ar s] else upto_error (map (batch_message ar s) items))"

lemma send_item_open:
  "ch_open ch = Some 0 \<Longrightarrow> send_item i ch = (False, ch)"
  "ch_open ch = Some (Suc n) \<Longrightarrow> send_item i ch = (True, \<lparr>ch_sent = ch_sent ch @ [i], ch_open = Some n\<rparr>)"
  "ch_open ch = None \<Longrightarrow> send_item i ch = (True, ch\<lparr>ch_sent := ch_sent ch @ [i]\<rparr>)"
  by (simp_all add: send_item_def)

lemma sent_item: "ch_sent (snd (send_item i ch)) = ch_sent ch @ read_by (ch_open ch) [i]"
  by (auto simp: send_item_def read_by_def take_Cons' split: option.split nat.split)

lemma drive_query_messages:
  "ch_sent (drive_query ar s items sent ch) =
     ch_sent ch @ read_by (ch_open ch)
       (if items = [] then (if sent then [] else [schema_message ar s]) else upto_error (map (batch_message ar s) items))"
proof (induction ar s items sent ch rule: drive_query.induct)
  case (1 ar s sent ch)
  then show ?case by (simp add: sent_item schema_message_def)
next
  case (2 ar s e items sent ch)
  then show ?case by (simp add: sent_item batch_message_def)
next
  case (3 ar s b items sent ch)
  define item where "item = batch_message ar s (Inr b)"
  have item: "item = map_ok (\<lambda>bytes. \<lparr>qr_arrow_ipc = bytes, qr_num_rows = rb_rows b\<rparr>) (encode_ipc_batch ar s b)"
    by (simp add: item_def batch_message_def)
  have step: "drive_query ar s (Inr b # items) sent ch =
      (case send_item item ch of (False, ch1) \<Rightarrow> ch1
       | (True, ch1) \<Rightarrow> if is_ok item then drive_query ar s items True ch1 else ch1)"
    by (simp only: item drive_query.simps Let_def)
  have IH: "ch_sent (drive_query ar s items True ch1) = ch_sent ch1 @ read_by (ch_open ch1) (upto_error (map (batch_message ar s) items))"
    if "send_item item ch = (True, ch1)" "is_ok item" for ch1
    using "3.IH" [OF item that(1) [symmetric] refl that(2)] by simp
  show ?case
  proof (cases "ch_open ch")
    case None
    then show ?thesis
      using IH by (cases item) (auto simp: step send_item_open item_def [symmetric] simp del: drive_query.simps)
  next
    case (Some k)
    then show ?thesis
      using IH by (cases k; cases item) (auto simp: step send_item_open item_def [symmetric] simp del: drive_query.simps)
  qed
qed

lemma drive_flight_messages: "ch_sent (drive_flight items ch) = ch_sent ch @ read_by (ch_open ch) (upto_error items)"
proof (induction items ch rule: drive_flight.induct)
  case (2 item items ch)
  then show ?case
    by (cases "ch_open ch"; cases item; cases "the (ch_open ch)") (auto simp: send_item_open is_ok_def)
qed simp

lemma answer_of_stream:
  "fst (run_query_arrow_stream ar xe plan reader log) =
     (case xe_plan xe plan log of
        (Inl e, _) \<Rightarrow> read_by reader [Inl e]
      | (Inr x, _) \<Rightarrow>
          (case xe_execute xe x of
             Inl e \<Rightarrow> read_by reader [Inl e]
           | Inr items \<Rightarrow> read_by reader (answer_messages ar (xe_schema xe x) items)))"
  by (simp add: run_query_arrow_stream_def Let_def sent_item drive_query_messages new_channel_def answer_messages_def
      split: prod.split sum.split)

lemma flight_answer:
  "fst (flight_execute_logical_plan enc xe plan reader log) =
     (case xe_plan xe plan log of
        (Inl e, _) \<Rightarrow> read_by reader [Inl e]
      | (Inr x, _) \<Rightarrow>
          (case xe_execute xe x of
             Inl e \<Rightarrow> read_by reader [Inl e]
           | Inr items \<Rightarrow> read_by reader (upto_error (enc (xe_schema xe x) items))))"
  by (simp add: flight_execute_logical_plan_def Let_def sent_item drive_flight_messages new_channel_def
      split: prod.split sum.split)

lemma stream_events: "snd (run_query_arrow_stream ar xe plan reader log) = snd (xe_plan xe plan log)"
  by (simp add: run_query_arrow_stream_def Let_def split: prod.split sum.split)

lemma flight_events: "snd (flight_execute_logical_plan enc xe plan reader log) = snd (xe_plan xe plan log)"
  by (simp add: flight_execute_logical_plan_def Let_def split: prod.split sum.split)

lemma upto_error_all: "(\<forall>r \<in> set (upto_error rs). is_ok r) \<longleftrightarrow> (\<forall>r \<in> set rs. is_ok r)"
  by (induction rs rule: upto_error.induct) auto

lemma upto_error_ok: "\<forall>r \<in> set rs. is_ok r \<Longrightarrow> upto_error rs = rs"
  by (induction rs rule: upto_error.induct) auto

lemma collect_results_map: "collect_results id (map Inr xs) = Inr xs"
  by (induction xs) simp_all

lemma collect_results_Inr_iff: "collect_results id rs = Inr xs \<longleftrightarrow> rs = map Inr xs"
proof (induction rs arbitrary: xs)
  case (Cons r rs)
  show ?case
  proof (cases r)
    case (Inr y)
    have "collect_results id (r # rs) = Inr xs \<longleftrightarrow> (\<exists>ys. xs = y # ys \<and> collect_results id rs = Inr ys)"
      using Inr by (cases "collect_results id rs") auto
    moreover have "r # rs = map Inr xs \<longleftrightarrow> (\<exists>ys. xs = y # ys \<and> rs = map Inr ys)"
      using Inr by (auto simp: Cons_eq_map_conv)
    ultimately show ?thesis by (simp only: Cons.IH)
  qed (auto simp: Cons_eq_map_conv)
qed auto

definition message_rows :: "string + query_response \<Rightarrow> nat" where
  "message_rows r = (case r of Inl _ \<Rightarrow> 0 | Inr m \<Rightarrow> qr_num_rows m)"

lemma message_rows_batch:
  "is_ok (batch_message ar s (Inr b)) \<Longrightarrow> message_rows (batch_message ar s (Inr b)) = rb_rows b"
  by (cases "encode_ipc_batch ar s b") (simp_all add: batch_message_def message_rows_def)

lemma answer_rows:
  assumes "\<forall>m \<in> set (answer_messages ar s (map Inr bs)). is_ok m"
  shows "sum_list (map message_rows (answer_messages ar s (map Inr bs))) = sum_list (map rb_rows bs)"
proof (cases "bs = []")
  case True
  then show ?thesis
    by (cases "encode_ipc_schema_only ar s") (simp_all add: answer_messages_def schema_message_def message_rows_def)
next
  case False
  have ok: "\<forall>b \<in> set bs. is_ok (batch_message ar s (Inr b))"
    using assms False by (simp add: answer_messages_def upto_error_all)
  then have "answer_messages ar s (map Inr bs) = map (batch_message ar s \<circ> Inr) bs"
    using False by (simp add: answer_messages_def upto_error_ok)
  then show ?thesis using ok
    by (simp add: comp_def message_rows_batch cong: map_cong)
qed

section \<open>The shared path of a query\<close>

lemma plan_query_Inr:
  assumes "plan_query qe env run_id get sql limit d m st = (Inr pq, st1)"
  obtains who a plan where
    "principal_from_headers (eg_principals (sst_engine st)) (fe_check_uid qe) get = Inr who"
    "session_for_principal (fe_hash qe) env who (uc_token_from_http_headers get) st = (Inr a, st1)"
    "pq_session pq = sst_heap st1 a" "pq_lineage pq = query_lineage run_id sql"
    "fe_plan qe (pq_session pq) (pq_lineage pq) None sql = Inr plan" "qe_verify_read qe plan = Inr ()"
    "qe_limit qe (row_limit limit d m) plan = Inr (pq_plan pq)"
    "pq_tables_registered pq = referenced_tables (qe_scan qe) plan"
proof -
  obtain who where who: "principal_from_headers (eg_principals (sst_engine st)) (fe_check_uid qe) get = Inr who"
    using assms by (cases "principal_from_headers (eg_principals (sst_engine st)) (fe_check_uid qe) get")
      (simp_all add: plan_query_def)
  obtain r st2 where sp: "session_for_principal (fe_hash qe) env who (uc_token_from_http_headers get) st = (r, st2)"
    by fastforce
  obtain a where a: "r = Inr a" using assms who sp by (cases r) (simp_all add: plan_query_def)
  have st2: "st2 = st1" using assms who sp a by (simp add: plan_query_def Let_def)
  let ?s = "sst_heap st1 a" and ?l = "query_lineage run_id sql"
  obtain plan where plan: "fe_plan qe ?s ?l None sql = Inr plan"
    using assms who sp a st2 by (cases "fe_plan qe ?s ?l None sql") (simp_all add: plan_query_def Let_def)
  have v: "qe_verify_read qe plan = Inr ()"
    using assms who sp a st2 plan by (cases "qe_verify_read qe plan") (simp_all add: plan_query_def Let_def)
  obtain capped where "qe_limit qe (row_limit limit d m) plan = Inr capped"
    using assms who sp a st2 plan v
    by (cases "qe_limit qe (row_limit limit d m) plan") (simp_all add: plan_query_def Let_def)
  then show ?thesis
    using that [of who a plan] assms who sp a st2 plan v by (auto simp: plan_query_def Let_def)
qed

lemma plan_query_run: "store_run (fe_hash qe) st (snd (plan_query qe env run_id get sql limit d m st))"
proof (cases "principal_from_headers (eg_principals (sst_engine st)) (fe_check_uid qe) get")
  case (Inr who)
  obtain r st1 where sp: "session_for_principal (fe_hash qe) env who (uc_token_from_http_headers get) st = (r, st1)"
    by fastforce
  have "snd (plan_query qe env run_id get sql limit d m st) = st1"
    by (cases r) (simp_all add: plan_query_def Inr sp Let_def)
  then show ?thesis
    using for_principal_run [of "fe_hash qe" st env who "uc_token_from_http_headers get"] sp by simp
qed (simp add: plan_query_def)

end
