(* ===== verification/Ingest_Facts.thy ===== *)
theory Ingest_Facts
  imports Query_Facts
begin

text \<open>
  What an ingest leaves behind: postconditions of fallible steps, the effects of an append and of the creation
  of a table, and of the whole Connect call; and the server with all its surfaces as a state machine.
\<close>

section \<open>Postconditions of fallible steps\<close>

text \<open>\<open>ends E P m\<close>: after an error the state satisfies \<open>E\<close>, after a value the two satisfy \<open>P\<close>.\<close>

definition ends :: "('w \<Rightarrow> bool) \<Rightarrow> ('a \<Rightarrow> 'w \<Rightarrow> bool) \<Rightarrow> ('e + 'a) \<times> 'w \<Rightarrow> bool" where
  "ends E P m = (case fst m of Inl _ \<Rightarrow> E (snd m) | Inr a \<Rightarrow> P a (snd m))"

named_theorems ends_intros \<open>rules that push a postcondition through a chain of fallible steps\<close>

lemma ends_pair [simp]: "ends E P (Inl e, w) = E w" "ends E P (Inr a, w) = P a w"
  by (simp_all add: ends_def)

lemma ends_and_then:
  assumes "ends E Q m" and "\<And>a w. Q a w \<Longrightarrow> ends E P (f a w)"
  shows "ends E P (and_then m f)"
  using assms by (cases "fst m") (simp_all add: ends_def and_then_def)

lemma ends_call [ends_intros]:
  assumes "E w" and "\<And>a. r = Inr a \<Longrightarrow> ends E P (f a w)"
  shows "ends E P (and_then (r, w) f)"
  using assms by (cases r) simp_all

lemma ends_mono: "ends E P m \<Longrightarrow> (\<And>w. E w \<Longrightarrow> E' w) \<Longrightarrow> (\<And>a w. P a w \<Longrightarrow> Q a w) \<Longrightarrow> ends E' Q m"
  by (auto simp: ends_def split: sum.splits)

lemma ends_map_err: "ends E P (map_prod (map_err f) id m) = ends E P m"
  by (cases m; cases "fst m") (auto simp: ends_def)

lemma ends_let [ends_intros]: "ends E P (f x) \<Longrightarrow> ends E P (Let x f)"
  by simp

lemma ends_if [ends_intros]:
  "(b \<Longrightarrow> ends E P m) \<Longrightarrow> (\<not> b \<Longrightarrow> ends E P m') \<Longrightarrow> ends E P (if b then m else m')"
  by simp

lemma endsD: "ends E P m \<Longrightarrow> m = (r, w) \<Longrightarrow> (case r of Inl _ \<Rightarrow> E w | Inr a \<Rightarrow> P a w)"
  by (cases r) simp_all

section \<open>Appending\<close>

text \<open>What an append adds: nothing when it has no rows, else one commit and, if wired, the two lineage events.\<close>

definition appends ::
  "('a, 'w, 'tp, 'ws, 'n, 'l, 'k) ingest_env \<Rightarrow> lineage_context \<Rightarrow> table_ref \<Rightarrow> nat \<Rightarrow> ('a, 'tp, 'ws, 'n) effect list \<Rightarrow> bool" where
  "appends ie lineage target rows added \<longleftrightarrow>
     (if rows = 0 then added = []
      else \<exists>provider batch. ie_provider ie target = Inr provider \<and>
        added = Appended target batch # emit_managed_ingest ie lineage (ref_text target) (ie_schema ie provider) \<and>
        ie_append ie target batch = Inr () \<and>
        (\<exists>bs s. ie_concat ie s bs = Inr batch \<and> rows = sum_list (map rb_rows bs)))"

definition write_authorized :: "('a, 'w, 'tp, 'ws, 'n, 'l, 'k) ingest_env \<Rightarrow> table_ref \<Rightarrow> bool" where
  "write_authorized ie target \<longleftrightarrow>
     (\<exists>provider plan. ie_provider ie target = Inr provider \<and>
        ie_insert_plan ie (ref_text target) provider = Inr plan \<and> is_ok (ie_authorize ie plan))"

lemma append_ends:
  "ends (\<lambda>w. w = effects)
     (\<lambda>rows w. write_authorized ie target \<and> (\<exists>added. w = effects @ added \<and> appends ie lineage target rows added))
     (append_managed_batches ie lineage target batches effects)"
  unfolding append_managed_batches_def
  by (intro ends_intros refl) (auto simp: write_authorized_def appends_def is_ok_iff)

section \<open>The target of a Connect ingest\<close>

lemma resolve_managed_is_ref: "resolve_managed_target ie effects ref = Inr (Some t) \<Longrightarrow> t = ref"
  by (cases "ie_load_table ie effects ref"; cases "ie_read_state ie (projr (ie_load_table ie effects ref))";
      cases "projr (ie_read_state ie (projr (ie_load_table ie effects ref)))")
    (auto simp: resolve_managed_target_def split: if_splits)

definition creates :: "('a, 'w, 'tp, 'ws, 'n, 'l, 'k) ingest_env \<Rightarrow> ('a, 'tp, 'ws, 'n) effect list \<Rightarrow> bool" where
  "creates ie added \<longleftrightarrow>
     (\<exists>ddl plan. added = [Created ddl] \<and> ie_plan_ddl ie ddl = Inr plan \<and> is_ok (ie_authorize ie plan))"

lemma create_managed_table_ends:
  "ends (\<lambda>w. w = effects) (\<lambda>_ w. \<exists>added. w = effects @ added \<and> creates ie added)
     (create_managed_table ie qualified target_schema effects)"
  unfolding create_managed_table_def
  by (intro ends_intros refl) (auto simp: creates_def try_bind_Inr_iff is_ok_iff)

lemma ensure_target_ends:
  "ends (\<lambda>w. w = effects \<or> fr_create_if_missing first \<and> (\<exists>added. w = effects @ added \<and> creates ie added))
     (\<lambda>(target, created) w. target = ref \<and>
        (if created then fr_create_if_missing first \<and> (\<exists>added. w = effects @ added \<and> creates ie added) else w = effects))
     (ensure_target ie first ref target_schema effects)"
  unfolding ensure_target_def
proof (intro ends_call)
  fix target
  assume "map_err Connect_Internal (resolve_managed_target ie effects ref) = Inr target"
  then have t: "target = Some t \<Longrightarrow> t = ref" for t by (auto dest: resolve_managed_is_ref)
  show "ends (\<lambda>w. w = effects \<or> fr_create_if_missing first \<and> (\<exists>added. w = effects @ added \<and> creates ie added))
     (\<lambda>(target, created) w. target = ref \<and>
        (if created then fr_create_if_missing first \<and> (\<exists>added. w = effects @ added \<and> creates ie added) else w = effects))
     (case target of
        Some t \<Rightarrow> (Inr (t, False), effects)
      | None \<Rightarrow>
          if \<not> fr_create_if_missing first
          then (Inl (Connect_Invalid_Argument (''table '' @ ref_text ref
                  @ '' is not a Unity Catalog managed table and create_if_missing is false'')), effects)
          else
            and_then (create_managed_table ie (ref_text ref) target_schema effects) (\<lambda>_ effects.
              and_then (map_err Connect_Internal (resolve_managed_target ie effects ref), effects) (\<lambda>again effects.
                (map_ok (\<lambda>t. (t, True))
                   (ok_or (Connect_Internal (''managed table '' @ ref_text ref @ '' could not be resolved after create''))
                      again), effects))))"
  proof (cases "target = None \<and> fr_create_if_missing first")
    case True
    have "ends (\<lambda>w. w = effects \<or> fr_create_if_missing first \<and> (\<exists>added. w = effects @ added \<and> creates ie added))
        (\<lambda>_ w. \<exists>added. w = effects @ added \<and> creates ie added) (create_managed_table ie (ref_text ref) target_schema effects)"
      by (rule ends_mono [OF create_managed_table_ends]) auto
    moreover obtain c s n where "ref = (c, s, n)" by (cases ref)
    ultimately show ?thesis
      using True resolve_managed_is_ref [of ie _ ref]
      by (auto intro!: ends_and_then ends_call simp: ok_or_def map_ok_def split: option.split)
  qed (use t in \<open>auto split: option.split\<close>)
qed simp

text \<open>The effects of a Connect ingest: a table that was created, then what was appended.\<close>

definition ingests ::
  "string \<Rightarrow> ('a, 'w, 'tp, 'ws, 'n, 'l, 'k) ingest_env \<Rightarrow> ingest_frame \<Rightarrow> ingest_response \<Rightarrow> ('a, 'tp, 'ws, 'n) effect list \<Rightarrow> bool" where
  "ingests run_id ie first resp added \<longleftrightarrow>
     (let ref = (fr_catalog first, fr_schema first, fr_table first) in
      ir_qualified_name resp = ref_text ref \<and> write_authorized ie ref \<and>
      (\<exists>made appended. added = made @ appended \<and> appends ie (ingest_lineage run_id (ref_text ref)) ref (ir_rows_written resp) appended \<and>
         (if ir_created resp then fr_create_if_missing first \<and> creates ie made else made = [])))"

lemma ingestsI:
  assumes "write_authorized ie (fr_catalog first, fr_schema first, fr_table first)"
    and "appends ie (ingest_lineage run_id (ref_text (fr_catalog first, fr_schema first, fr_table first))) (fr_catalog first, fr_schema first, fr_table first) rows added"
    and "if created then fr_create_if_missing first \<and> creates ie made else made = []"
  shows "ingests run_id ie first
     \<lparr>ir_rows_written = rows, ir_qualified_name = ref_text (fr_catalog first, fr_schema first, fr_table first),
      ir_created = created\<rparr> (made @ added)"
  unfolding ingests_def Let_def
  by (intro conjI exI [of _ made] exI [of _ added]) (use assms in simp_all)

lemma ingest_rows_end:
  assumes "w = effects @ made" and "if created then fr_create_if_missing first \<and> creates ie made else made = []"
  shows "ends (\<lambda>w. w = effects \<or> fr_create_if_missing first \<and> (\<exists>added. w = effects @ added \<and> creates ie added))
     (\<lambda>resp w. \<exists>added. w = effects @ added \<and> ingests run_id ie first resp added)
     (and_then (map_prod (map_err Connect_Internal) id
         (append_managed_batches ie
           (ingest_lineage run_id (ref_text (fr_catalog first, fr_schema first, fr_table first))) (fr_catalog first, fr_schema first, fr_table first) batches w)) (\<lambda>rows effects.
        (Inr \<lparr>ir_rows_written = rows, ir_qualified_name = ref_text (fr_catalog first, fr_schema first, fr_table first),
              ir_created = created\<rparr>, effects)))"
proof (rule ends_and_then)
  have "w = effects \<or> fr_create_if_missing first \<and> (\<exists>added. w = effects @ added \<and> creates ie added)"
    using assms by (auto split: if_splits)
  then show "ends (\<lambda>w. w = effects \<or> fr_create_if_missing first \<and> (\<exists>added. w = effects @ added \<and> creates ie added))
      (\<lambda>rows w'. write_authorized ie (fr_catalog first, fr_schema first, fr_table first) \<and>
         (\<exists>added. w' = w @ added \<and> appends ie (ingest_lineage run_id (ref_text (fr_catalog first, fr_schema first, fr_table first))) (fr_catalog first, fr_schema first, fr_table first) rows added))
      (map_prod (map_err Connect_Internal) id
         (append_managed_batches ie
           (ingest_lineage run_id (ref_text (fr_catalog first, fr_schema first, fr_table first))) (fr_catalog first, fr_schema first, fr_table first) batches w))"
    unfolding ends_map_err by (intro ends_mono [OF append_ends]) auto
  fix rows w'
  assume "write_authorized ie (fr_catalog first, fr_schema first, fr_table first) \<and>
    (\<exists>added. w' = w @ added \<and> appends ie (ingest_lineage run_id (ref_text (fr_catalog first, fr_schema first, fr_table first))) (fr_catalog first, fr_schema first, fr_table first) rows added)"
  then show "ends (\<lambda>w. w = effects \<or> fr_create_if_missing first \<and> (\<exists>added. w = effects @ added \<and> creates ie added))
      (\<lambda>resp w. \<exists>added. w = effects @ added \<and> ingests run_id ie first resp added)
      (Inr \<lparr>ir_rows_written = rows, ir_qualified_name = ref_text (fr_catalog first, fr_schema first, fr_table first),
            ir_created = created\<rparr>, w')"
    using ingestsI [OF _ _ assms(2)] assms(1) by auto
qed

lemma ingest_body_ends:
  "ends (\<lambda>w. w = effects \<or> fr_create_if_missing first \<and> (\<exists>added. w = effects @ added \<and> creates ie added))
     (\<lambda>resp w. \<exists>added. w = effects @ added \<and> ingests run_id ie first resp added)
     (and_then (ensure_target ie first (fr_catalog first, fr_schema first, fr_table first) target_schema effects)
       (\<lambda>(target, created) effects.
          and_then (ingest_source io first later, effects) (\<lambda>batches effects.
            and_then (map_prod (map_err Connect_Internal) id (append_managed_batches ie
               (ingest_lineage run_id (ref_text (fr_catalog first, fr_schema first, fr_table first))) target batches effects))
              (\<lambda>rows effects.
                (Inr \<lparr>ir_rows_written = rows,
                      ir_qualified_name = ref_text (fr_catalog first, fr_schema first, fr_table first),
                      ir_created = created\<rparr>, effects)))))"
proof (rule ends_and_then [OF ensure_target_ends], goal_cases)
  case (1 tc w)
  obtain target created where tc: "tc = (target, created)" by fastforce
  with 1 have target: "target = (fr_catalog first, fr_schema first, fr_table first)" by simp
  obtain made where made: "w = effects @ made"
      "if created then fr_create_if_missing first \<and> creates ie made else made = []"
    using 1 unfolding tc by (cases created) auto
  have "w = effects \<or> fr_create_if_missing first \<and> (\<exists>added. w = effects @ added \<and> creates ie added)"
    using made by (cases created) auto
  then show ?case
    unfolding tc target prod.case by (intro ends_call ingest_rows_end [OF made]) simp_all
qed

lemma ingest_table_cases:
  assumes run: "ingest_table fe ies io env run_id get requests st effects = (r, st1, effects1)"
  obtains (early) e where "r = Inl e" "effects1 = effects"
      "st1 = st \<or> (\<exists>who. st1 = snd (session_for_principal (fe_hash fe) env who (uc_token_from_http_headers get) st))"
  | (body) "first" later target_schema who a where "requests = Inr first # later"
      "principal_from_headers (eg_principals (sst_engine st)) (fe_check_uid fe) get = Inr who"
      "session_for_principal (fe_hash fe) env who (uc_token_from_http_headers get) st = (Inr a, st1)"
      "(r, effects1) =
         and_then (ensure_target (ies (sst_heap st1 a)) first (fr_catalog first, fr_schema first, fr_table first)
             target_schema effects)
           (\<lambda>(target, created) effects.
              and_then (ingest_source io first later, effects) (\<lambda>batches effects.
                and_then (map_prod (map_err Connect_Internal) id
                    (append_managed_batches (ies (sst_heap st1 a))
                      (ingest_lineage run_id (ref_text (fr_catalog first, fr_schema first, fr_table first))) target batches effects))
                  (\<lambda>rows effects.
                    (Inr \<lparr>ir_rows_written = rows,
                          ir_qualified_name = ref_text (fr_catalog first, fr_schema first, fr_table first),
                          ir_created = created\<rparr>, effects))))"
proof (cases requests)
  case Nil
  then show ?thesis using run early by (auto simp: ingest_table_def)
next
  case (Cons item later)
  show ?thesis
  proof (cases "\<exists>frame. item = Inr frame \<and> fr_catalog frame \<noteq> [] \<and> fr_schema frame \<noteq> [] \<and> fr_table frame \<noteq> []")
    case False
    then show ?thesis using run early Cons by (cases item) (auto simp: ingest_table_def)
  next
    case True
    then obtain frame where item: "item = Inr frame" "fr_catalog frame \<noteq> []" "fr_schema frame \<noteq> []" "fr_table frame \<noteq> []"
      by blast
    show ?thesis
    proof (cases "decode_ipc_schema io (fr_target_schema_ipc frame)")
      case (Inl e)
      then show ?thesis using run early Cons item by (auto simp: ingest_table_def)
    next
      case (Inr target_schema)
      show ?thesis
      proof (cases "principal_from_headers (eg_principals (sst_engine st)) (fe_check_uid fe) get")
        case (Inl e)
        then show ?thesis using run early Cons item Inr by (auto simp: ingest_table_def)
      next
        case who: (Inr who)
        obtain s st2 where sp: "session_for_principal (fe_hash fe) env who (uc_token_from_http_headers get) st = (s, st2)"
          by fastforce
        show ?thesis
        proof (cases s)
          case (Inl e)
          have "r = Inl (Connect_Internal (status_message e))" "st1 = st2" "effects1 = effects"
            using run Cons item Inr who sp Inl by (simp_all add: ingest_table_def)
          then show ?thesis using early [of "Connect_Internal (status_message e)"] sp by (metis snd_conv)
        next
          case a: (Inr a)
          have st: "st2 = st1"
            using run Cons item Inr who sp a by (simp add: ingest_table_def Let_def split: prod.splits)
          show ?thesis
            by (rule body [where target_schema = target_schema, OF _ who sp [unfolded a st]])
              (use run Cons item Inr who sp a st in \<open>auto simp: ingest_table_def Let_def split: prod.splits\<close>)
        qed
      qed
    qed
  qed
qed

lemma ingest_table_run: "store_run (fe_hash fe) st (fst (snd (ingest_table fe ies io env run_id get requests st effects)))"
proof -
  obtain r st1 effects1 where run: "ingest_table fe ies io env run_id get requests st effects = (r, st1, effects1)"
    by (metis prod.collapse)
  from run have "store_run (fe_hash fe) st st1"
  proof (cases rule: ingest_table_cases)
    case (early e)
    then show ?thesis by (auto intro: for_principal_run)
  next
    case (body "first" later target_schema who a)
    then show ?thesis
      using for_principal_run [of "fe_hash fe" st env who "uc_token_from_http_headers get"] by simp
  qed
  then show ?thesis using run by simp
qed

lemma ingest_table_effects:
  assumes "ingest_table fe ies io env run_id get requests st effects = (r, st1, effects1)"
  shows "case r of
      Inl _ \<Rightarrow> effects1 = effects \<or>
        (\<exists>first later s added. requests = Inr first # later \<and> fr_create_if_missing first \<and>
           effects1 = effects @ added \<and> creates (ies s) added)
    | Inr resp \<Rightarrow>
        (\<exists>first later who a added. requests = Inr first # later \<and>
           principal_from_headers (eg_principals (sst_engine st)) (fe_check_uid fe) get = Inr who \<and>
           session_for_principal (fe_hash fe) env who (uc_token_from_http_headers get) st = (Inr a, st1) \<and>
           effects1 = effects @ added \<and> ingests run_id (ies (sst_heap st1 a)) first resp added)"
  using assms
proof (cases rule: ingest_table_cases)
  case (body "first" later target_schema who a)
  note endsD [OF ingest_body_ends [of effects "first" "ies (sst_heap st1 a)" run_id target_schema io later] body(4) [symmetric]]
  then show ?thesis using body(1-3) by (cases r) auto
qed simp

section \<open>The server with all its surfaces\<close>

text \<open>
  A step is a call of a Flight handler, of the HTTP or Connect query, of an ingest, or a sweep. Flight's ingest
  and fallback only resolve a session.
\<close>

inductive surface_step ::
  "('p, 'f, 'n, 'r) query_env \<Rightarrow> ('p, 'f, 'n plan) session_store \<Rightarrow> ('p, 'f, 'n plan) session_store \<Rightarrow> bool"
  for qe where
  flight: "server_step (flight_env.truncate qe) st st' \<Longrightarrow> surface_step qe st st'"
| query: "surface_step qe st (snd (plan_query qe env run_id get sql limit d m st))"
| connect_ingest: "surface_step qe st (snd (session_for_principal (fe_hash qe) env who tok st))"
| flight_put: "surface_step qe st (snd (resolve_session (fe_check_uid qe) (fe_hash qe) env get st))"

lemma truncate_hash [simp]: "fe_hash (flight_env.truncate qe) = fe_hash qe"
  by (simp add: flight_env.truncate_def)

lemma surface_step_run: "surface_step qe st st' \<Longrightarrow> store_run (fe_hash qe) st st'"
proof (induction rule: surface_step.induct)
  case (flight st st')
  then show ?case using server_step_run by fastforce
qed (auto intro: plan_query_run for_principal_run resolve_run)

lemma surface_reachable_run: "(surface_step qe)\<^sup>*\<^sup>* st st' \<Longrightarrow> store_run (fe_hash qe) st st'"
  by (induction rule: rtranclp_induct) (auto intro: rtranclp_trans surface_step_run)

lemma surface_reachable_inv:
  "(surface_step qe)\<^sup>*\<^sup>* (new_store e ttl blank) st \<Longrightarrow> principal_api_ok (eg_principals e) \<Longrightarrow> store_inv (fe_hash qe) st"
  by (rule reachable_inv [OF surface_reachable_run])

lemma http_execute_step:
  "(surface_step qe)\<^sup>*\<^sup>* st (fst (snd (http_execute qe ar xes env run_id ql get req st log)))"
proof -
  obtain r st1 where "plan_query qe env run_id get (hq_sql req) (hq_limit req) (ql_default ql) (ql_max ql) st = (r, st1)"
    by fastforce
  then show ?thesis
    using surface_step.query [of qe st env run_id get "hq_sql req" "hq_limit req" "ql_default ql" "ql_max ql"]
    by (auto simp: http_execute_def Let_def split: sum.split prod.split intro: r_into_rtranclp)
qed

lemma run_query_step:
  "(surface_step qe)\<^sup>*\<^sup>* st (fst (snd (run_query flight_text qe ar xes env run_id ql get sql limit reader st log)))"
proof -
  obtain r st1 where "plan_query qe env run_id get sql limit (ql_default ql) (ql_max ql) st = (r, st1)"
    by fastforce
  then show ?thesis
    using surface_step.query [of qe st env run_id get sql limit "ql_default ql" "ql_max ql"]
    by (auto simp: run_query_def Let_def split: sum.split prod.split intro: r_into_rtranclp)
qed

lemma ingest_table_step:
  "(surface_step qe)\<^sup>*\<^sup>* st (fst (snd (ingest_table (flight_env.truncate qe) ies io env run_id get requests st effects)))"
proof -
  obtain r st1 effects1 where run: "ingest_table (flight_env.truncate qe) ies io env run_id get requests st effects = (r, st1, effects1)"
    by (metis prod.collapse)
  from run have "st1 = st \<or> surface_step qe st st1"
  proof (cases rule: ingest_table_cases)
    case (early e)
    then show ?thesis using surface_step.connect_ingest [of qe st env] by auto
  next
    case (body "first" later target_schema who a)
    then show ?thesis
      using surface_step.connect_ingest [of qe st env who "uc_token_from_http_headers get"] by simp
  qed
  then show ?thesis using run by auto
qed

lemma put_ingest_step:
  "surface_step qe st (fst (snd (do_put_statement_ingest (flight_env.truncate qe) ies env run_id get ticket wire st effects)))"
proof -
  obtain r st1 where rs: "resolve_session (fe_check_uid qe) (fe_hash qe) env get st = (r, st1)" by fastforce
  have "fst (snd (do_put_statement_ingest (flight_env.truncate qe) ies env run_id get ticket wire st effects)) = st1"
    using rs by (cases r) (auto simp: do_put_statement_ingest_def fe_resolve_def flight_env.truncate_def Let_def
        split: sum.split prod.split option.split)
  then show ?thesis using surface_step.flight_put [of qe st env get] rs by simp
qed

section \<open>The text of a table's columns\<close>

definition ddl_types :: "string set" where
  "ddl_types = {''BOOLEAN'', ''INT'', ''BIGINT'', ''FLOAT'', ''DOUBLE'', ''STRING'', ''DATE'', ''TIMESTAMP''}"

definition null_text :: "bool \<Rightarrow> string" where
  "null_text nullable = (if nullable then '''' else '' NOT NULL'')"

lemma sql_type_known: "sql_type td f = Inr ty \<Longrightarrow> ty \<in> ddl_types"
  by (auto simp: sql_type_def ddl_types_def split: arrow_type.splits)

lemma ddl_column_text:
  "ddl_column td f = Inr w \<longleftrightarrow>
     (\<exists>ty. sql_type td f = Inr ty \<and> w = CHR 0x60 # fd_name f @ CHR 0x60 # '' '' @ ty @ null_text (fd_nullable f))"
  by (auto simp: ddl_column_def map_ok_Inr_iff null_text_def)

lemma ddl_type_text:
  assumes "ty @ null_text b = ty' @ null_text b'" and "ty \<in> ddl_types" and "ty' \<in> ddl_types"
  shows "ty = ty' \<and> b = b'"
proof -
  have no_N: "CHR ''N'' \<in> set (null_text c) \<longleftrightarrow> \<not> c" for c by (simp add: null_text_def)
  have plain: "CHR '' '' \<notin> set x" if "x \<in> ddl_types" for x using that by (auto simp: ddl_types_def)
  have "takeWhile (\<lambda>c. c \<noteq> CHR '' '') (x @ null_text c) = x" if "x \<in> ddl_types" for x c
    using plain [OF that] by (auto simp: null_text_def takeWhile_append2 takeWhile_tail)
  then have "ty = ty'" using assms by metis
  moreover from this have "null_text b = null_text b'" using assms(1) by simp
  ultimately show ?thesis using no_N [of b] no_N [of b'] by metis
qed

lemma break_unique:
  assumes "u @ z = u' @ z'" and "c \<notin> set u" and "c \<notin> set u'" and "z = [] \<or> hd z = c" and "z' = [] \<or> hd z' = c"
  shows "u = u' \<and> z = z'"
proof -
  have "takeWhile (\<lambda>x. x \<noteq> c) (v @ y) = v" if "c \<notin> set v" "y = [] \<or> hd y = c" for v y
    using that by (cases y) (auto simp: takeWhile_append2 takeWhile_tail)
  then show ?thesis using assms by (metis same_append_eq)
qed

lemma column_text_unique:
  assumes "CHR 0x60 # n @ CHR 0x60 # '' '' @ ty @ null_text b @ z = CHR 0x60 # m @ CHR 0x60 # '' '' @ ty' @ null_text b' @ z'"
    and "CHR 0x60 \<notin> set n" and "CHR 0x60 \<notin> set m" and "ty \<in> ddl_types" and "ty' \<in> ddl_types"
    and "z = [] \<or> hd z = CHR '',''" and "z' = [] \<or> hd z' = CHR '',''"
  shows "n = m \<and> ty = ty' \<and> b = b' \<and> z = z'"
proof -
  have plain: "CHR '','' \<notin> set (x @ null_text c)" if "x \<in> ddl_types" for x c
    using that by (auto simp: ddl_types_def null_text_def)
  have "n = m \<and> CHR 0x60 # '' '' @ ty @ null_text b @ z = CHR 0x60 # '' '' @ ty' @ null_text b' @ z'"
    by (rule break_unique [where c = "CHR 0x60"]) (use assms(1-3) in simp_all)
  moreover from this have "ty @ null_text b = ty' @ null_text b' \<and> z = z'"
    by (intro break_unique [where c = "CHR '',''"]) (use plain assms(4-7) in simp_all)
  ultimately show ?thesis using ddl_type_text [of ty b ty' b'] assms(4,5) by simp
qed

definition column_spec :: "(arrow_type \<Rightarrow> string) \<Rightarrow> field \<Rightarrow> string \<times> (string + string) \<times> bool" where
  "column_spec td f = (fd_name f, sql_type td f, fd_nullable f)"

lemma str_join_Cons: "str_join sep (w # ws) = w @ (if ws = [] then [] else sep @ str_join sep ws)"
  by (cases ws) simp_all

lemma ddl_text_unique:
  assumes "collect_results (ddl_column td) fs = Inr ws" and "collect_results (ddl_column td) gs = Inr vs"
    and "str_join '', '' ws = str_join '', '' vs" and "\<forall>f \<in> set fs \<union> set gs. CHR 0x60 \<notin> set (fd_name f)"
  shows "map (column_spec td) fs = map (column_spec td) gs"
  using assms
proof (induction fs arbitrary: gs ws vs)
  case Nil
  then show ?case
    by (cases gs) (auto simp: try_bind_Inr_iff map_ok_Inr_iff ddl_column_text str_join_Cons)
next
  case (Cons f fs)
  obtain w ws' where ws: "ws = w # ws'" "ddl_column td f = Inr w" "collect_results (ddl_column td) fs = Inr ws'"
    using Cons.prems(1) by (auto simp: try_bind_Inr_iff map_ok_Inr_iff)
  obtain g gs' where gs: "gs = g # gs'"
    using Cons.prems(2,3) ws by (cases gs) (auto simp: ddl_column_text str_join_Cons)
  obtain v vs' where vs: "vs = v # vs'" "ddl_column td g = Inr v" "collect_results (ddl_column td) gs' = Inr vs'"
    using Cons.prems(2) gs by (auto simp: try_bind_Inr_iff map_ok_Inr_iff)
  obtain ty where ty: "sql_type td f = Inr ty" "w = CHR 0x60 # fd_name f @ CHR 0x60 # '' '' @ ty @ null_text (fd_nullable f)"
    using ws(2) by (auto simp: ddl_column_text)
  obtain ty' where ty': "sql_type td g = Inr ty'" "v = CHR 0x60 # fd_name g @ CHR 0x60 # '' '' @ ty' @ null_text (fd_nullable g)"
    using vs(2) by (auto simp: ddl_column_text)
  define z where "z us = (if us = [] then [] else '', '' @ str_join '', '' us)" for us
  have z: "z us = [] \<or> hd (z us) = CHR '',''" for us by (simp add: z_def)
  have "w @ z ws' = v @ z vs'" using Cons.prems(3) ws(1) vs(1) by (simp add: str_join_Cons z_def)
  then have same: "fd_name f = fd_name g \<and> ty = ty' \<and> fd_nullable f = fd_nullable g \<and> z ws' = z vs'"
    using Cons.prems(4) gs by (intro column_text_unique [OF _ _ _ sql_type_known [OF ty(1)] sql_type_known [OF ty'(1)] z z])
      (simp_all add: ty(2) ty'(2))
  then have "ws' = [] \<longleftrightarrow> vs' = []" "str_join '', '' ws' = str_join '', '' vs'"
    by (auto simp: z_def split: if_splits)
  then have "map (column_spec td) fs = map (column_spec td) gs'"
    using Cons.IH [OF ws(3) vs(3)] Cons.prems(4) gs by auto
  moreover have "column_spec td f = column_spec td g" using same ty(1) ty'(1) by (simp add: column_spec_def)
  ultimately show ?case using gs by simp
qed

end
