(* ===== verification/Governance_Properties.thy ===== *)
theory Governance_Properties
  imports Sql_Statements Catalog_Tag_Facts Ingest_Facts Server_Properties
begin

text \<open>
  Properties of the SQL front end, of what the policy layer is told of a table, and of the paths of a query
  and of an ingest: what runs, in which order policy, lineage and commits happen, and what is left after an error.
\<close>

section \<open>The front end\<close>

lemma parse_sql_open [simp]: "open_cursor sql = Inr p \<Longrightarrow> parse_sql C open_cursor fuel sql = fst (parse_statements C fuel p)"
  by (simp add: parse_sql_def)

text \<open>
  C29. Parsing a text ends: with two more rounds than there are tokens no loop of the parser runs out, on
  any input, well formed or not, and whatever sqlparser's own statements and columns read.
\<close>

theorem parser_ends:
  assumes "cursor_ok C rest" and "open_cursor sql = Inr p" and "length (rest p) + 1 < fuel"
  shows "parse_sql C open_cursor fuel sql \<noteq> Inl Out_of_Fuel"
  using parse_statements_ends [OF assms(1,3)] assms(2) by simp

definition some_ddl :: "(sql_token list, string, string) statement" where
  "some_ddl = UnityCatalog (CreateCatalog
     \<lparr>cc_name = [(''sales'', None)], cc_if_not_exists = True, cc_using_share = None,
      cc_managed_location = Some ''s3://lake/sales'', cc_default_collation = None, cc_comment = Some ''all sales'',
      cc_options = Some [(''tier'', SingleQuotedString ''gold''), (''keep'', Number ''7'' False)]\<rparr>)"

definition some_drop :: "(sql_token list, string, string) statement" where
  "some_drop = UnityCatalog (DropSchema
     \<lparr>dr_name = [(''sales'', None), (''old'', None)], dr_if_exists = True, dr_cascade = True\<rparr>)"

definition some_tokens :: "sql_token list" where
  "some_tokens = script_tokens (\<lambda>k. ''word'') (\<lambda>x. x) [some_drop, some_ddl]"

definition open_tokens :: "sql_token list \<Rightarrow> string \<Rightarrow> df_error + sql_token list" where
  "open_tokens ts sql = Inr ts"

theorem parser_ends_witness:
  "parse_sql list_cursor (open_tokens [Tok_LParen, Tok_Other ''=='', Tok_RParen]) 5 ''q'' \<noteq> Inl Out_of_Fuel"
  by (rule parser_ends [OF list_cursor_ok, where p = "[Tok_LParen, Tok_Other ''=='', Tok_RParen]"])
    (simp_all add: open_tokens_def)



text \<open>
  C33. What the parser accepts is well formed, on any input and for any behaviour of the cursor: a catalog
  has a one-part name, never both a share (a two-part name) and a managed location, and no empty options; a
  schema has at most two parts; VACUUM never carries LITE or a disabled dry run.
\<close>

theorem accepted_well_formed:
  assumes "parse_sql C open_cursor fuel sql = Inr ss" and "s \<in> set ss"
  shows "accepted s"
proof (cases "open_cursor sql")
  case (Inr p)
  then have "fst (statements_loop C fuel fuel False [] p) = Inr ss" using assms(1) by (simp add: parse_statements_def)
  then show ?thesis using yieldsD [OF statements_accepted [of "[]"]] assms(2) by fastforce
qed (use assms(1) in \<open>simp add: parse_sql_def\<close>)

lemma some_script_reads: "parse_sql list_cursor (open_tokens some_tokens) 60 ''q'' = Inr [some_drop, some_ddl]"
  using parse_script [OF list_cursor_ok, of "[some_drop, some_ddl]" "\<lambda>x. x" "[]" some_tokens "\<lambda>k. ''word''" 60]
  by (simp add: open_tokens_def some_tokens_def some_drop_def some_ddl_def location_ok_def options_ok_def
      list_cursor_def when_set_def clause_def if_not_exists_def)

theorem accepted_well_formed_witness: "accepted some_ddl"
  by (rule accepted_well_formed [OF some_script_reads]) simp

text \<open>
  Only DROP leaves its delimiter to the script: after a CREATE or VACUUM statement with a delimiter, a
  second statement is refused with an error that asks for the end of the statement just read.
\<close>

theorem statement_after_delimiter_refused:
  assumes "cursor_ok C rest" and "printable C ft s" and "reads_delimiter s"
    and "open_cursor sql = Inr p" and "rest p = statement_tokens sp ft s @ Tok_SemiColon # t # us"
    and "t \<noteq> Tok_SemiColon" and "t \<noteq> Tok_EOF" and "length (rest p) + 6 \<le> fuel"
  shows "\<exists>loc. parse_sql C open_cursor fuel sql = expected C ''end of statement'' (t, loc)"
  using second_statement_refused [OF assms(1-3,5-8)] assms(4) by simp

theorem statement_after_delimiter_refused_witness:
  "\<exists>loc. parse_sql list_cursor
       (open_tokens (statement_tokens (\<lambda>k. ''word'') (\<lambda>x. x) some_ddl @ Tok_SemiColon # Tok_Word ''select'' None NoKeyword # [])) 60 ''q''
     = expected list_cursor ''end of statement'' (Tok_Word ''select'' None NoKeyword, loc)"
  by (rule statement_after_delimiter_refused [OF list_cursor_ok, where ft = "\<lambda>x. x" and s = some_ddl and sp = "\<lambda>k. ''word''" and us = "[]"
        and p = "statement_tokens (\<lambda>k. ''word'') (\<lambda>x. x) some_ddl @ Tok_SemiColon # Tok_Word ''select'' None NoKeyword # []"])
    (simp_all add: open_tokens_def some_ddl_def location_ok_def options_ok_def list_cursor_def when_set_def clause_def
      if_not_exists_def)

section \<open>Planning\<close>

text \<open>
  The parsers of CREATE CONNECTION, LOCATION, SHARE and FOREIGN CATALOG are a \<^verbatim>\<open>todo!\<close>: parsing a statement
  panics exactly for them, and a query that starts with one panics the planner's task, which the executor
  turns into a plan error. The engine's own parser, which could refuse or accept the text, is never asked.
\<close>

theorem unfinished_statements_panic:
  assumes "cursor_ok (pe_cursor pe) rest"
  shows "(\<forall>p n. length (rest p) < n \<longrightarrow>
      ((\<exists>msg. fst (parse_statement (pe_cursor pe) n p) = Inl (Panicked msg)) \<longleftrightarrow>
        is_kw K_CREATE (hd_tok (rest p)) \<and> unfinished (tl (rest p)))) \<and>
    (pe_open pe query = Inr p \<and> is_kw K_CREATE (hd_tok (rest p)) \<and> unfinished (tl (rest p)) \<and>
      length (rest p) + 1 < pe_fuel pe query \<longrightarrow>
      (\<exists>msg. executor_create_logical_plan pe join_error query cats =
         (Inl (Plan_Error (''Error during planning: '' @ join_error msg)), cats)))"
proof (intro conjI impI)
  show "\<forall>p n. length (rest p) < n \<longrightarrow>
      ((\<exists>msg. fst (parse_statement (pe_cursor pe) n p) = Inl (Panicked msg)) \<longleftrightarrow>
        is_kw K_CREATE (hd_tok (rest p)) \<and> unfinished (tl (rest p)))"
    using statement_panics_iff [OF assms] by blast
  assume p: "pe_open pe query = Inr p \<and> is_kw K_CREATE (hd_tok (rest p)) \<and> unfinished (tl (rest p)) \<and>
      length (rest p) + 1 < pe_fuel pe query"
  then obtain msg where "parse_sql (pe_cursor pe) (pe_open pe) (pe_fuel pe query) query = Inl (Panicked msg)"
    using script_panics [OF assms] by fastforce
  then show "\<exists>msg. executor_create_logical_plan pe join_error query cats =
      (Inl (Plan_Error (''Error during planning: '' @ join_error msg)), cats)"
    by (intro exI [of _ msg]) (simp add: executor_create_logical_plan_def create_logical_plan_def try_plan_unity_ddl_def)
qed

definition some_planner ::
  "sql_token list \<Rightarrow> (sql_token list, sql_token list, string, string, string, nat) planner_env" where
  "some_planner ts =
     \<lparr>pe_cursor = list_cursor, pe_open = open_tokens ts, pe_fuel = (\<lambda>_. 60), pe_ddl_node = (\<lambda>_. ''DDL''),
      pe_native_plan = (\<lambda>_ _. Inr (Plan ''native'' [])), pe_sql_to_statement = (\<lambda>_. Inr []),
      pe_references = (\<lambda>_. Inr []), pe_resolver = None, pe_statement_to_plan = (\<lambda>_ _. Inr (Plan ''native'' []))\<rparr>"

theorem unfinished_statements_panic_witness:
  "\<exists>msg. executor_create_logical_plan (some_planner [kw (\<lambda>k. ''word'') K_CREATE, kw (\<lambda>k. ''word'') K_SHARE])
      (\<lambda>m. m) ''create share'' Map.empty = (Inl (Plan_Error (''Error during planning: '' @ msg)), Map.empty)"
  using conjunct2 [OF unfinished_statements_panic [of "some_planner [kw (\<lambda>k. ''word'') K_CREATE, kw (\<lambda>k. ''word'') K_SHARE]" "\<lambda>ts. ts"
      "''create share''" "[kw (\<lambda>k. ''word'') K_CREATE, kw (\<lambda>k. ''word'') K_SHARE]" "\<lambda>m. m" Map.empty]] list_cursor_ok
  by (simp add: some_planner_def open_tokens_def unfinished_def)

text \<open>
  A text that is one catalog statement is planned as that statement's own node, without asking the engine
  or the catalog resolver and without registering a catalog.
\<close>

theorem catalog_statement_planned:
  fixes pe :: "('p, 'd, 'c, 'f, 'n, 'cat) planner_env"
  assumes "cursor_ok (pe_cursor pe) rest" and "printable (pe_cursor pe) ft (UnityCatalog s)"
    and "ts = [] \<or> ts = [Tok_SemiColon]" and "pe_open pe query = Inr p"
    and "rest p = statement_tokens sp ft (UnityCatalog s :: ('d, 'c, 'f) statement) @ ts" and "length (rest p) + 6 \<le> pe_fuel pe query"
  shows "executor_create_logical_plan pe join_error query cats = (Inr (Plan (pe_ddl_node pe s) []), cats)"
proof -
  have "parse_sql (pe_cursor pe) (pe_open pe) (pe_fuel pe query) query = Inr [UnityCatalog s]"
    using parse_script [OF assms(1) _ _ _ assms(3), of "[UnityCatalog s]" ft p sp "pe_fuel pe query"] assms by simp
  then show ?thesis
    by (simp add: executor_create_logical_plan_def create_logical_plan_def try_plan_unity_ddl_def)
qed

theorem catalog_statement_planned_witness:
  "executor_create_logical_plan (some_planner (statement_tokens (\<lambda>k. ''word'') (\<lambda>x. x) some_drop)) (\<lambda>m. m) ''q'' Map.empty
    = (Inr (Plan ''DDL'' []), Map.empty)"
  using catalog_statement_planned [of "some_planner (statement_tokens (\<lambda>k. ''word'') (\<lambda>x. x) some_drop)" "\<lambda>ts. ts" "\<lambda>x. x"
      "DropSchema \<lparr>dr_name = [(''sales'', None), (''old'', None)], dr_if_exists = True, dr_cascade = True\<rparr>" "[]" "''q''"
      "statement_tokens (\<lambda>k. ''word'') (\<lambda>x. x) some_drop" "\<lambda>k. ''word''" "\<lambda>m. m" Map.empty] list_cursor_ok
  by (simp add: some_planner_def open_tokens_def some_drop_def when_set_def)

section \<open>Queries\<close>

text \<open>A query server whose plans scan two tables, for the witnesses.\<close>

definition query0 :: "(who0, string, string, string) query_env" where
  "query0 = \<lparr>fe_check_uid = check0, fe_hash = fnv1a_64,
     fe_config = \<lparr>lcfg_producer = ''hydrofoil'', lcfg_job_namespace = ''default''\<rparr>,
     fe_plan = \<lambda>s lin agent q. Inr (Plan ''join'' [Plan ''t.b'' [], Plan ''t.a'' []]), fe_verify = \<lambda>p. Inr (),
     fe_execute = \<lambda>s lin agent p. ''ran'', fe_parse_handle = \<lambda>b. Inr [], fe_encode_schema = \<lambda>p. Inr [],
     fe_update = \<lambda>s p. Inr (Inr ()), qe_verify_read = \<lambda>p. Inr (),
     qe_scan = \<lambda>n. str_strip_prefix ''t.'' n, qe_limit = \<lambda>n p. Inr (Plan ''limit'' [p])\<rparr>"

definition plans0 :: "(who0, string, string plan) session_store" where
  "plans0 = new_store engine0 1000
     (\<lambda>_. \<lparr>se_correlation_id = [], se_principal = ([], []), se_unity = None, se_statements = Map.empty,
          se_created_at = 0, se_last_used_ms = 0\<rparr>)"

text \<open>
  C11. Whatever calls of any surface came before, a query of the HTTP or Connect surface that is planned runs in
  a session of the principal its header names (a session id it sends is not looked at); the plan is of its own
  text, passed the check that refuses writes and DDL, and is capped at a row limit no greater than the
  server's maximum and the caller's own; the reported tables are the scanned ones, sorted and without repeats.
\<close>

theorem query_planned_for_header:
  assumes "(surface_step qe)\<^sup>*\<^sup>* (new_store e ttl blank) st" and "principal_api_ok (eg_principals e)"
    and "plan_query qe env run_id get sql limit default_limit max_limit st = (Inr pq, st1)"
  shows "pi_uid (eg_principals (sst_engine st1)) (se_principal (pq_session pq))
      = unwrap_or DEFAULT_PRINCIPAL (get ''x-hydrofoil-principal'') \<and>
    (\<exists>plan. fe_plan qe (pq_session pq) (query_lineage run_id sql) None sql = Inr plan \<and>
       qe_verify_read qe plan = Inr () \<and>
       (\<exists>n. qe_limit qe n plan = Inr (pq_plan pq) \<and> n \<le> max_limit \<and> n \<le> unwrap_or default_limit limit) \<and>
       sorted (pq_tables_registered pq) \<and> distinct (pq_tables_registered pq) \<and>
       set (pq_tables_registered pq) = {name. \<exists>n \<in> set (plan_nodes plan). qe_scan qe n = Some name})"
proof -
  note inv = surface_reachable_inv [OF assms(1,2)]
  from assms(3) obtain who a plan where q:
    "principal_from_headers (eg_principals (sst_engine st)) (fe_check_uid qe) get = Inr who"
    "session_for_principal (fe_hash qe) env who (uc_token_from_http_headers get) st = (Inr a, st1)"
    "pq_session pq = sst_heap st1 a" "pq_lineage pq = query_lineage run_id sql"
    "fe_plan qe (pq_session pq) (pq_lineage pq) None sql = Inr plan" "qe_verify_read qe plan = Inr ()"
    "qe_limit qe (row_limit limit default_limit max_limit) plan = Inr (pq_plan pq)"
    "pq_tables_registered pq = referenced_tables (qe_scan qe) plan"
    by (rule plan_query_Inr)
  have "pi_uid (eg_principals (sst_engine st1)) (se_principal (pq_session pq))
      = unwrap_or DEFAULT_PRINCIPAL (get ''x-hydrofoil-principal'')"
    using session_for_principal_uid [OF inv q(2)] principal_uid [OF _ q(1)] inv q(3)
    by (simp add: principal_uid_at_def store_inv_def)
  moreover have "row_limit limit default_limit max_limit \<le> max_limit"
    "row_limit limit default_limit max_limit \<le> unwrap_or default_limit limit"
    by (simp_all add: row_limit_def)
  ultimately show ?thesis using q(4-8) referenced_tables [of "qe_scan qe" plan] by auto
qed

definition asked0 :: "(string + (who0, string, string) planned_query) \<times> (who0, string, string plan) session_store" where
  "asked0 = plan_query query0 (call0 5) ''r'' (as_user ''alice'') ''select 1'' (Some 50) 1000 10 plans0"

lemma asked0_planned: "is_ok (fst asked0)"
  by code_simp

lemma plans0_reachable: "(surface_step qe)\<^sup>*\<^sup>* (new_store engine0 1000 (sst_heap plans0)) plans0"
  by (simp add: plans0_def new_store_def)

theorem query_planned_for_header_witness:
  "\<exists>pq. fst asked0 = Inr pq \<and> set (pq_tables_registered pq) = {''a'', ''b''} \<and>
     pi_uid (eg_principals (sst_engine (snd asked0))) (se_principal (pq_session pq)) = quoted ''User'' ''alice''"
proof -
  obtain pq where "fst asked0 = Inr pq" using asked0_planned by (auto simp: is_ok_iff)
  then have run: "plan_query query0 (call0 5) ''r'' (as_user ''alice'') ''select 1'' (Some 50) 1000 10 plans0 = (Inr pq, snd asked0)"
    unfolding asked0_def by (metis prod.collapse)
  have strip: "{name. \<exists>n \<in> set (plan_nodes (Plan ''join'' [Plan ''t.b'' [], Plan ''t.a'' []])). str_strip_prefix ''t.'' n = Some name}
      = {''a'', ''b''}"
    by auto
  show ?thesis
    using query_planned_for_header [OF plans0_reachable _ run] \<open>fst asked0 = Inr pq\<close> strip
    by (auto simp: query0_def as_user_def)
qed




definition arrow0 :: "(nat, nat) arrow" where
  "arrow0 = \<lparr>ar_cast = \<lambda>c t. Inr (c\<lparr>ac_type := t\<rparr>), ar_empty = \<lambda>t. \<lparr>ac_type = t, ac_values = 0\<rparr>,
     ar_batch = \<lambda>s cols. Inr \<lparr>rb_schema = s, rb_columns = cols, rb_rows = 3\<rparr>, ar_writer = \<lambda>s. Inr 0,
     ar_write = \<lambda>w b. Inr (Suc w), ar_finish = \<lambda>w. Inr [of_nat w]\<rparr>"

definition schema0 :: schema where
  "schema0 = \<lparr>sc_fields = [\<lparr>fd_name = ''id'', fd_type = DT_Utf8View, fd_nullable = True, fd_metadata = []\<rparr>], sc_metadata = []\<rparr>"

definition batch0 :: "nat record_batch" where
  "batch0 = \<lparr>rb_schema = schema0, rb_columns = [\<lparr>ac_type = DT_Utf8View, ac_values = 7\<rparr>], rb_rows = 3\<rparr>"

text \<open>A gate that lets everyone but the anonymous principal through, over lineage that is wired.\<close>

definition gate0 :: "string \<Rightarrow> (string, nat, unit, string, unit) governed_env" where
  "gate0 who = \<lparr>ge_eval_context = (), ge_principal = Some who,
     ge_authorize = \<lambda>plan who ec. if who = DEFAULT_PRINCIPAL then Inl ''denied'' else Inr (Plan ''masked'' [plan]),
     ge_optimize = Inr, ge_lineage_wired = True, ge_begin = \<lambda>plan. (Some (), [(Event_Start, ''r'')]),
     ge_handle_plan = \<lambda>h. (Inr 1, [(Event_Complete, ''r'')]), ge_physical = \<lambda>plan. Inr 2\<rparr>"

definition exec0 :: "(who0, string, string) planned_query \<Rightarrow> (string, nat, nat) exec_env" where
  "exec0 pq = \<lparr>xe_plan = create_physical_plan (gate0 (fst (se_principal (pq_session pq)))), xe_schema = \<lambda>x. schema0,
     xe_execute = \<lambda>x. Inr (map Inr [batch0, batch0]), xe_collect = \<lambda>x. Inr [batch0, batch0]\<rparr>"

definition request0 :: http_request where
  "request0 = \<lparr>hq_sql = ''select 1'', hq_catalog = None, hq_schema = None, hq_limit = None\<rparr>"

definition limits0 :: query_limits where
  "limits0 = \<lparr>ql_default = 1000, ql_max = 10000\<rparr>"





text \<open>
  C12. Policy comes before lineage and before any data: a query the gate denies answers with the gate's error on both
  surfaces and emits no event, and whenever a physical plan or a lineage event comes out of the planner, the plan
  was authorised for the principal of the session first.
\<close>

theorem denied_query_is_silent:
  assumes "plan_query qe env run_id get (hq_sql req) (hq_limit req) (ql_default ql) (ql_max ql) st = (Inr pq, st1)"
    and "str_trim (hq_sql req) \<noteq> []" and "xe_plan (xes pq) = create_physical_plan ge"
  shows "(\<forall>who e. ge_principal ge = Some who \<and> ge_authorize ge (pq_plan pq) who (ge_eval_context ge) = Inl e \<longrightarrow>
      http_execute qe ar xes env run_id ql get req st log = (Inl e, st1, log) \<and>
      run_query flight_text qe ar xes env run_id ql get (hq_sql req) (hq_limit req) reader st log
        = (Inr (read_by reader [Inl (flight_to_connect flight_text e)]), st1, log)) \<and>
    (is_ok (fst (xe_plan (xes pq) (pq_plan pq) log)) \<or> snd (xe_plan (xes pq) (pq_plan pq) log) \<noteq> log \<longrightarrow>
      (\<exists>who. ge_principal ge = Some who \<and> is_ok (ge_authorize ge (pq_plan pq) who (ge_eval_context ge))))"
proof (rule conjI, intro allI impI)
  fix who e
  assume "ge_principal ge = Some who \<and> ge_authorize ge (pq_plan pq) who (ge_eval_context ge) = Inl e"
  then have xp: "xe_plan (xes pq) (pq_plan pq) log = (Inl e, log)"
    by (simp add: assms(3) create_physical_plan_def)
  have "run_query_arrow_stream ar (xes pq) (pq_plan pq) reader log = (read_by reader [Inl e], log)"
    using answer_of_stream [of ar "xes pq" "pq_plan pq" reader log] stream_events [of ar "xes pq" "pq_plan pq" reader log] xp
    by (simp add: prod_eq_iff)
  moreover have "map (map_err (flight_to_connect flight_text)) (read_by reader [Inl e]) = read_by reader [Inl (flight_to_connect flight_text e)]"
    by (cases reader) (auto simp: read_by_def take_Cons')
  ultimately show "http_execute qe ar xes env run_id ql get req st log = (Inl e, st1, log) \<and>
      run_query flight_text qe ar xes env run_id ql get (hq_sql req) (hq_limit req) reader st log
        = (Inr (read_by reader [Inl (flight_to_connect flight_text e)]), st1, log)"
    using assms(1,2) xp by (simp add: http_execute_def run_query_def)
next
  show "is_ok (fst (xe_plan (xes pq) (pq_plan pq) log)) \<or> snd (xe_plan (xes pq) (pq_plan pq) log) \<noteq> log \<longrightarrow>
      (\<exists>who. ge_principal ge = Some who \<and> is_ok (ge_authorize ge (pq_plan pq) who (ge_eval_context ge)))"
    unfolding assms(3) create_physical_plan_def
    by (cases "ge_principal ge"; cases "ge_authorize ge (pq_plan pq) (the (ge_principal ge)) (ge_eval_context ge)") auto
qed

definition asked_anonymous where
  "asked_anonymous = plan_query query0 (call0 5) ''r'' Map.empty ''select 1'' None 1000 10000 plans0"

theorem denied_query_is_silent_witness:
  "\<exists>st1. http_execute query0 arrow0 exec0 (call0 5) ''r'' limits0 Map.empty request0 plans0 [] = (Inl ''denied'', st1, []) \<and>
     run_query (\<lambda>m. m) query0 arrow0 exec0 (call0 5) ''r'' limits0 Map.empty ''select 1'' None None plans0 []
       = (Inr [Inl (Connect_Internal ''denied'')], st1, [])"
proof -
  have "map_ok (\<lambda>pq. fst (se_principal (pq_session pq))) (fst asked_anonymous) = Inr DEFAULT_PRINCIPAL" by code_simp
  then obtain pq where pq: "fst asked_anonymous = Inr pq" "fst (se_principal (pq_session pq)) = DEFAULT_PRINCIPAL"
    by (auto simp: map_ok_Inr_iff)
  then have plan: "plan_query query0 (call0 5) ''r'' Map.empty (hq_sql request0) (hq_limit request0) (ql_default limits0)
      (ql_max limits0) plans0 = (Inr pq, snd asked_anonymous)"
    unfolding asked_anonymous_def request0_def limits0_def by (auto simp: prod_eq_iff)
  have sql: "str_trim (hq_sql request0) \<noteq> []" by code_simp
  have xe: "xe_plan (exec0 pq) = create_physical_plan (gate0 DEFAULT_PRINCIPAL)" by (simp add: exec0_def pq(2))
  have gate: "ge_principal (gate0 DEFAULT_PRINCIPAL) = Some DEFAULT_PRINCIPAL \<and>
      ge_authorize (gate0 DEFAULT_PRINCIPAL) (pq_plan pq) DEFAULT_PRINCIPAL (ge_eval_context (gate0 DEFAULT_PRINCIPAL)) = Inl ''denied''"
    by (simp add: gate0_def)
  show ?thesis
    using denied_query_is_silent [where xes = exec0, OF plan sql xe, where ar = arrow0 and log = "[]" and reader = None
        and flight_text = "\<lambda>m. m"] gate
    by (auto simp: request0_def flight_to_connect_def)
qed

section \<open>What the policy layer is told\<close>


definition table0 :: uc_table where
  "table0 = \<lparr>tb_catalog_name = ''main'', tb_schema_name = ''hr'', tb_name = ''people'', tb_full_name = ''main.hr.people'',
     tb_owner = Some ''ann'', tb_properties = [(''govtag.ssn.pii'', ''high''), (''tag.ssn'', ''Secret''), (''readers'', ''Bob'')],
     tb_columns = [\<lparr>uco_name = ''ssn'', uco_comment = Some ''number [tags: pii]''\<rparr>]\<rparr>"


text \<open>
  When listing the governed tags of a table or its columns fails, the failure does not show: the facts recorded
  for the policy layer are those of a table without governed tags, so a mask that a tag would ask for has nothing
  to match on.
\<close>

theorem tag_listing_fails_open:
  assumes "\<forall>c \<in> set (tb_columns t). \<exists>e. failing ''columns'' (tb_full_name t @ ''.'' @ uco_name c) = Inl e"
    and "failing ''tables'' (tb_full_name t) = Inl e"
    and "\<forall>ty name. untagged ty name = Inr []"
  shows "gather_facts tags_of (\<lambda>t. Inr (unity_governed_tags failing t)) t
      = gather_facts tags_of (\<lambda>t. Inr (unity_governed_tags untagged t)) t \<and>
    tf_governed_tags (gather_facts tags_of (\<lambda>t. Inr (unity_governed_tags failing t)) t) = Map.empty \<and>
    tf_governed_column_tags (gather_facts tags_of (\<lambda>t. Inr (unity_governed_tags failing t)) t) = Map.empty"
proof -
  have "fold (unity_column_tags api t) cols out = out"
    if "\<forall>c \<in> set cols. fold_entity api ''columns'' (tb_full_name t @ ''.'' @ uco_name c) Map.empty = Map.empty"
    for api cols and out :: "string \<rightharpoonup> (string \<rightharpoonup> string)"
    using that by (induction cols) (simp_all add: unity_column_tags_def)
  moreover have "fold_entity failing ''columns'' (tb_full_name t @ ''.'' @ uco_name c) Map.empty = Map.empty"
    if "c \<in> set (tb_columns t)" for c
    using assms(1) that by (auto simp: fold_entity_def)
  ultimately have "unity_governed_tags failing t = no_governed_tags" "unity_governed_tags untagged t = no_governed_tags"
    using assms(2,3) by (simp_all add: unity_governed_tags_def no_governed_tags_def fold_entity_def)
  then show ?thesis by (simp add: gather_facts_def no_governed_tags_def Let_def split: prod.split)
qed

theorem tag_listing_fails_open_witness:
  "gather_facts (\<lambda>t. Inr (classify t)) (\<lambda>t. Inr (unity_governed_tags (\<lambda>ty name. Inl ''down'') t)) table0
    = gather_facts (\<lambda>t. Inr (classify t)) (\<lambda>t. Inr (unity_governed_tags (\<lambda>ty name. Inr []) t)) table0"
  using tag_listing_fails_open [of table0 "\<lambda>ty name. Inl ''down''" "''down''" "\<lambda>ty name. Inr []" "\<lambda>t. Inr (classify t)"]
  by simp




section \<open>Ingest\<close>

text \<open>
  C16. What a Connect ingest leaves, in any state the server reaches: one that answers with an error has committed no
  rows, and left at most the table it was asked to create; one that succeeds ran in a session of the principal its
  header names, was authorised to write, and made at most one commit, to the table it names, of as many rows as it
  reports, with its two lineage events when lineage is wired.
\<close>

theorem connect_ingest_effects:
  assumes "(surface_step qe)\<^sup>*\<^sup>* (new_store e ttl blank) st" and "principal_api_ok (eg_principals e)"
    and "\<forall>s sch bs b. ie_concat (ies s) sch bs = Inr b \<longrightarrow> rb_rows b = sum_list (map rb_rows bs)"
    and "ingest_table (flight_env.truncate qe) ies io env run_id get requests st effects = (r, st1, effects1)"
  shows "case r of
      Inl _ \<Rightarrow> effects1 = effects \<or>
        (\<exists>first later ddl. requests = Inr first # later \<and> fr_create_if_missing first \<and> effects1 = effects @ [Created ddl])
    | Inr resp \<Rightarrow>
        (\<exists>first later s made appended. requests = Inr first # later \<and>
           pi_uid (eg_principals (sst_engine st1)) (se_principal s)
             = unwrap_or DEFAULT_PRINCIPAL (get ''x-hydrofoil-principal'') \<and>
           write_authorized (ies s) (fr_catalog first, fr_schema first, fr_table first) \<and>
           ir_qualified_name resp = ref_text (fr_catalog first, fr_schema first, fr_table first) \<and>
           effects1 = effects @ made @ appended \<and>
           (if ir_created resp then fr_create_if_missing first \<and> (\<exists>ddl. made = [Created ddl]) else made = []) \<and>
           (if ir_rows_written resp = 0 then appended = []
            else \<exists>batch sch. rb_rows batch = ir_rows_written resp \<and>
              appended = Appended (fr_catalog first, fr_schema first, fr_table first) batch
                # emit_managed_ingest (ies s) (ingest_lineage run_id (ir_qualified_name resp)) (ir_qualified_name resp) sch))"
proof (cases r)
  case (Inl err)
  then show ?thesis using ingest_table_effects [OF assms(4)] by (fastforce simp: creates_def)
next
  case (Inr resp)
  note inv = surface_reachable_inv [OF assms(1,2)]
  obtain "first" later who a added where run: "requests = Inr first # later"
    "principal_from_headers (eg_principals (sst_engine st)) (fe_check_uid (flight_env.truncate qe)) get = Inr who"
    "session_for_principal (fe_hash qe) env who (uc_token_from_http_headers get) st = (Inr a, st1)"
    "effects1 = effects @ added" "ingests run_id (ies (sst_heap st1 a)) first resp added"
    using ingest_table_effects [OF assms(4)] Inr by auto
  have uid: "pi_uid (eg_principals (sst_engine st1)) (se_principal (sst_heap st1 a))
      = unwrap_or DEFAULT_PRINCIPAL (get ''x-hydrofoil-principal'')"
    using session_for_principal_uid [OF inv run(3)] principal_uid [OF _ run(2)] inv
    by (simp add: principal_uid_at_def store_inv_def)
  let ?ie = "ies (sst_heap st1 a)" and ?ref = "(fr_catalog first, fr_schema first, fr_table first)"
  obtain made appended where i: "ir_qualified_name resp = ref_text ?ref" "write_authorized ?ie ?ref" "added = made @ appended"
    "appends ?ie (ingest_lineage run_id (ref_text ?ref)) ?ref (ir_rows_written resp) appended"
    "if ir_created resp then fr_create_if_missing first \<and> creates ?ie made else made = []"
    using run(5) unfolding ingests_def Let_def by blast
  have made: "if ir_created resp then fr_create_if_missing first \<and> (\<exists>ddl. made = [Created ddl]) else made = []"
    using i(5) by (auto simp: creates_def split: if_splits)
  have rows: "if ir_rows_written resp = 0 then appended = []
      else \<exists>batch sch. rb_rows batch = ir_rows_written resp \<and> appended = Appended ?ref batch
        # emit_managed_ingest ?ie (ingest_lineage run_id (ir_qualified_name resp)) (ir_qualified_name resp) sch"
    using i(1,4) assms(3) by (auto simp: appends_def split: if_splits)
  show ?thesis
    unfolding Inr sum.case
    by (intro exI [of _ "first"] exI [of _ later] exI [of _ "sst_heap st1 a"] exI [of _ made] exI [of _ appended] conjI)
      (use run(1,4) uid i made rows in simp_all)
qed

text \<open>A catalog in which a table is managed once it was created.\<close>

definition ingest0 :: "(who0, string, string plan) session \<Rightarrow> (nat, nat, string, string, string, nat, nat list) ingest_env" where
  "ingest0 s = \<lparr>ie_arrow = arrow0, ie_type_debug = \<lambda>t. ''type'', ie_unity_wired = True, ie_parse_ref = Bare,
     ie_load_table = \<lambda>effects ref. if effects = [] then Inl ''not found'' else Inr 4,
     ie_read_state = \<lambda>l. Inr (Managed [] l), ie_partition_columns = \<lambda>l. None, ie_provider = \<lambda>ref. Inr ''table'',
     ie_lookup = \<lambda>t. Inr t, ie_schema = \<lambda>tp. schema0, ie_insert_plan = \<lambda>t tp. Inr (Plan ''insert'' []),
     ie_authorize = Inr,
     ie_concat = \<lambda>s bs. Inr \<lparr>rb_schema = s, rb_columns = [], rb_rows = sum_list (map rb_rows bs)\<rparr>,
     ie_append = \<lambda>ref b. Inr (), ie_lineage_wired = True, ie_fresh_run = ''fresh'', ie_dataset_name = \<lambda>t. ''ns.'' @ t,
     ie_type_text = \<lambda>t. ''type'', ie_decode_wire = \<lambda>w. Inr [batch0],
     ie_run_insert = \<lambda>p tp w. Inr (Some 3), ie_plan_ddl = \<lambda>ddl. Inr (Plan ddl []), ie_run_plan = \<lambda>p. Inr ()\<rparr>"

definition files0 :: "nat ingest_files" where
  "files0 = \<lparr>if_ipc_reader = \<lambda>b. if b = [0] then Inl ''bad magic'' else Inr (schema0, [Inr batch0]),
     if_open = \<lambda>p. Inl ''no file'', if_parquet = \<lambda>b. Inl ''no file''\<rparr>"

definition frame0 :: "bytes \<Rightarrow> ingest_frame" where
  "frame0 chunk = \<lparr>fr_catalog = ''main'', fr_schema = ''hr'', fr_table = ''people'', fr_target_schema_ipc = [],
     fr_create_if_missing = True, fr_source_path = None, fr_arrow_ipc = chunk\<rparr>"

definition ingested0 where
  "ingested0 chunk = ingest_table (flight_env.truncate query0) ingest0 files0 (call0 5) ''run'' (as_user ''alice'')
     [Inr (frame0 chunk)] plans0 []"

lemma ingest0_concat: "\<forall>s sch bs b. ie_concat (ingest0 s) sch bs = Inr b \<longrightarrow> rb_rows b = sum_list (map rb_rows bs)"
  by (auto simp: ingest0_def)

theorem connect_ingest_effects_witness:
  "(\<exists>ddl batch s sch. snd (snd (ingested0 [1])) =
      Created ddl # Appended (''main'', ''hr'', ''people'') batch
        # emit_managed_ingest (ingest0 s) (ingest_lineage ''run'' ''main.hr.people'') ''main.hr.people'' sch \<and>
      rb_rows batch = 3) \<and>
   (\<exists>ddl. snd (snd (ingested0 [0])) = [Created ddl])"
proof -
  have "fst (ingested0 [1]) = Inr \<lparr>ir_rows_written = 3, ir_qualified_name = ''main.hr.people'', ir_created = True\<rparr>"
    by code_simp
  then have good: "ingested0 [1] = (Inr \<lparr>ir_rows_written = 3, ir_qualified_name = ''main.hr.people'', ir_created = True\<rparr>,
      fst (snd (ingested0 [1])), snd (snd (ingested0 [1])))"
    by (metis prod.collapse)
  have "fst (ingested0 [0]) = Inl (Connect_Invalid_Argument ''arrow_ipc: arrow ipc: bad magic'')" by code_simp
  then have bad: "ingested0 [0] = (Inl (Connect_Invalid_Argument ''arrow_ipc: arrow ipc: bad magic''),
      fst (snd (ingested0 [0])), snd (snd (ingested0 [0])))"
    by (metis prod.collapse)
  have "length (snd (snd (ingested0 [0]))) = 1" by code_simp
  then show ?thesis
    using connect_ingest_effects [OF plans0_reachable _ ingest0_concat good [unfolded ingested0_def]]
      connect_ingest_effects [OF plans0_reachable _ ingest0_concat bad [unfolded ingested0_def]]
    by (fastforce simp: ingested0_def frame0_def)
qed

text \<open>
  Which table an external Flight ingest writes to depends on the table text of the command alone: commands that
  differ in catalog and schema and name no managed table have the same answer and insert into the same table.
\<close>

theorem external_ingest_ignores_catalog:
  assumes "fe_resolve fe env get st = (Inr a, st1)" and "it_table ticket = it_table ticket'"
    and "resolve_managed_ingest (ies (sst_heap st1 a)) effects ticket = Inr None"
    and "resolve_managed_ingest (ies (sst_heap st1 a)) effects ticket' = Inr None"
  shows "do_put_statement_ingest fe ies env run_id get ticket wire st effects = do_put_statement_ingest fe ies env run_id get ticket' wire st effects \<and>
    (\<forall>n. fst (do_put_statement_ingest fe ies env run_id get ticket wire st effects) = Inr n \<longrightarrow>
      (\<exists>provider. ie_lookup (ies (sst_heap st1 a)) (it_table ticket) = Inr provider \<and>
         snd (snd (do_put_statement_ingest fe ies env run_id get ticket wire st effects)) = effects @ [Inserted provider wire]))"
  using assms
  by (auto simp: do_put_statement_ingest_def Let_def plan_ingest_def try_bind_Inr_iff map_ok_Inr_iff
      split: sum.split prod.split)

text \<open>A catalog in which every table is an external one.\<close>

definition ingest1 :: "(who0, string, string plan) session \<Rightarrow> (nat, nat, string, string, string, nat, nat list) ingest_env" where
  "ingest1 s = (ingest0 s)\<lparr>ie_load_table := \<lambda>effects ref. Inr 4, ie_read_state := \<lambda>l. Inr NotManaged\<rparr>"

definition put1 where
  "put1 ticket = do_put_statement_ingest (flight_env.truncate query0) ingest1 (call0 5) ''run'' (as_user ''alice'') ticket ''wire'' plans0 []"

theorem external_ingest_ignores_catalog_witness:
  "put1 \<lparr>it_catalog = Some ''prod'', it_schema = Some ''hr'', it_table = ''people''\<rparr>
     = put1 \<lparr>it_catalog = Some ''test'', it_schema = Some ''tmp'', it_table = ''people''\<rparr> \<and>
   snd (snd (put1 \<lparr>it_catalog = Some ''prod'', it_schema = Some ''hr'', it_table = ''people''\<rparr>)) = [Inserted ''people'' ''wire'']"
proof -
  define r where "r = fe_resolve (flight_env.truncate query0) (call0 5) (as_user ''alice'') plans0"
  have "is_ok (fst r)" unfolding r_def by code_simp
  then obtain a where r: "fe_resolve (flight_env.truncate query0) (call0 5) (as_user ''alice'') plans0 = (Inr a, snd r)"
    unfolding r_def by (metis is_ok_iff prod.collapse)
  have none: "resolve_managed_ingest (ingest1 s) effects t = Inr None" for s effects t
    by (auto simp: resolve_managed_ingest_def resolve_managed_target_def ingest1_def ingest0_def Let_def split: option.split)
  have lookup: "ie_lookup (ingest1 s) t = Inr t" for s t by (simp add: ingest1_def ingest0_def)
  have "fst (put1 \<lparr>it_catalog = Some ''prod'', it_schema = Some ''hr'', it_table = ''people''\<rparr>) = Inr 3" by code_simp
  then show ?thesis
    using external_ingest_ignores_catalog [where ies = ingest1, OF r _ none none,
        where ticket = "\<lparr>it_catalog = Some ''prod'', it_schema = Some ''hr'', it_table = ''people''\<rparr>"
          and ticket' = "\<lparr>it_catalog = Some ''test'', it_schema = Some ''tmp'', it_table = ''people''\<rparr>"
          and wire = "''wire''" and effects = "[]" and run_id = "''run''"]
    unfolding put1_def by (auto simp: lookup)
qed

text \<open>
  An ingest that loses the race to create its table fails: when the table is missing at first and its CREATE
  fails because another client made it in between, the error of the CREATE is the answer, although the table that is
  there by then could be resolved.
\<close>

theorem lost_create_race_fails:
  assumes "resolve_managed_target ie effects ref = Inr None" and "fr_create_if_missing first"
    and "ddl_columns (ie_type_debug ie) target_schema = Inr columns"
    and "ie_plan_ddl ie (''CREATE TABLE '' @ ref_text ref @ '' ('' @ columns @ '') USING DELTA'') = Inr plan"
    and "ie_authorize ie plan = Inr governed" and "ie_run_plan ie governed = Inl message"
  shows "ensure_target ie first ref target_schema effects
      = (Inl (Connect_Internal (''error creating table: '' @ message)), effects)"
  using assms by (simp add: ensure_target_def create_managed_table_def)

theorem lost_create_race_fails_witness:
  "ensure_target ((ingest0 (sst_heap plans0 0))\<lparr>ie_run_plan := \<lambda>p. Inl ''table already exists''\<rparr>) (frame0 [1]) (''main'', ''hr'', ''people'') schema0 []
    = (Inl (Connect_Internal (''error creating table: '' @ ''table already exists'')), [])"
proof (rule lost_create_race_fails)
  show "resolve_managed_target ((ingest0 (sst_heap plans0 0))\<lparr>ie_run_plan := \<lambda>p. Inl ''table already exists''\<rparr>) [] (''main'', ''hr'', ''people'') = Inr None"
    by (simp add: resolve_managed_target_def ingest0_def)
  show "ddl_columns (ie_type_debug ((ingest0 (sst_heap plans0 0))\<lparr>ie_run_plan := \<lambda>p. Inl ''table already exists''\<rparr>)) schema0
      = Inr ([CHR 0x60] @ ''id'' @ [CHR 0x60] @ '' STRING'')"
    by (simp add: ddl_columns_def ddl_column_def sql_type_def schema0_def)
qed (simp_all add: ingest0_def frame0_def)

text \<open>
  The text of a table's columns: when no column name has a backtick, two schemas with the same text agree in the
  name, the SQL type and the nullability of every column, in order; but a backtick is not escaped, so one column
  whose name spells two has the text of those two.
\<close>

theorem ddl_text_identifies_columns:
  "(\<forall>s s' cols. ddl_columns td s = Inr cols \<and> ddl_columns td s' = Inr cols \<and>
      (\<forall>f \<in> set (sc_fields s) \<union> set (sc_fields s'). CHR 0x60 \<notin> set (fd_name f)) \<longrightarrow>
      map (column_spec td) (sc_fields s) = map (column_spec td) (sc_fields s')) \<and>
   (\<forall>a b ty m m' cols. ddl_columns td \<lparr>sc_fields = [\<lparr>fd_name = a, fd_type = DT_Utf8, fd_nullable = True, fd_metadata = []\<rparr>,
         \<lparr>fd_name = b, fd_type = ty, fd_nullable = True, fd_metadata = []\<rparr>], sc_metadata = m\<rparr> = Inr cols \<longrightarrow>
      ddl_columns td \<lparr>sc_fields = [\<lparr>fd_name = a @ [CHR 0x60] @ '' STRING, '' @ [CHR 0x60] @ b, fd_type = ty,
         fd_nullable = True, fd_metadata = []\<rparr>], sc_metadata = m'\<rparr> = Inr cols)"
proof (intro conjI allI impI)
  fix s s' cols
  assume "ddl_columns td s = Inr cols \<and> ddl_columns td s' = Inr cols \<and>
    (\<forall>f \<in> set (sc_fields s) \<union> set (sc_fields s'). CHR 0x60 \<notin> set (fd_name f))"
  then show "map (column_spec td) (sc_fields s) = map (column_spec td) (sc_fields s')"
    by (auto simp: ddl_columns_def map_ok_Inr_iff intro!: ddl_text_unique)
next
  fix a b ty m m' cols
  assume "ddl_columns td \<lparr>sc_fields = [\<lparr>fd_name = a, fd_type = DT_Utf8, fd_nullable = True, fd_metadata = []\<rparr>,
         \<lparr>fd_name = b, fd_type = ty, fd_nullable = True, fd_metadata = []\<rparr>], sc_metadata = m\<rparr> = Inr cols"
  then show "ddl_columns td \<lparr>sc_fields = [\<lparr>fd_name = a @ [CHR 0x60] @ '' STRING, '' @ [CHR 0x60] @ b, fd_type = ty,
         fd_nullable = True, fd_metadata = []\<rparr>], sc_metadata = m'\<rparr> = Inr cols"
    by (cases ty) (auto simp: ddl_columns_def ddl_column_def sql_type_def)
qed

definition column0 :: "string \<Rightarrow> field" where
  "column0 name = \<lparr>fd_name = name, fd_type = DT_Utf8, fd_nullable = True, fd_metadata = []\<rparr>"

theorem ddl_text_identifies_columns_witness:
  "ddl_columns (\<lambda>t. ''type'') \<lparr>sc_fields = [column0 (''a'' @ [CHR 0x60] @ '' STRING, '' @ [CHR 0x60] @ ''b'')], sc_metadata = []\<rparr>
    = ddl_columns (\<lambda>t. ''type'') \<lparr>sc_fields = [column0 ''a'', column0 ''b''], sc_metadata = []\<rparr>"
proof -
  obtain cols where "ddl_columns (\<lambda>t. ''type'') \<lparr>sc_fields = [column0 ''a'', column0 ''b''], sc_metadata = []\<rparr> = Inr cols"
    by (simp add: ddl_columns_def ddl_column_def sql_type_def column0_def)
  then show ?thesis
    using conjunct2 [OF ddl_text_identifies_columns [of "\<lambda>t. ''type''"]] unfolding column0_def by metis
qed





end
