(* ===== verification/Desktop_Text.thy ===== *)
theory Desktop_Text
  imports Lineage File_Contract
begin

text \<open>
  The string functions of the desktop application (\<^verbatim>\<open>node/desktop/src-tauri/src\<close>): ids of environments,
  names of notebook copies and of compose projects, and the addresses scraped from what a started process
  prints. A path is its text; \<^verbatim>\<open>app_data_dir\<close> is \<^verbatim>\<open>root\<close>.
\<close>

section \<open>Addresses\<close>

text \<open>\<^verbatim>\<open>parse_uc_addr\<close>: cut at white space, a slash or the escape character; and \<^verbatim>\<open>parse_marimo_base\<close>.\<close>

definition parse_uc_addr :: "string \<Rightarrow> string option" where
  "parse_uc_addr line =
     (case str_after ''http://'' line of
        None \<Rightarrow> None
      | Some rest \<Rightarrow>
          (let addr = str_trim (takeWhile (\<lambda>c. \<not> (is_space c \<or> c = slash \<or> c = CHR 0x1B)) rest) in
           if CHR '':'' \<in> set addr then Some addr else None))"

definition parse_marimo_base :: "string \<Rightarrow> string option" where
  "parse_marimo_base line =
     (case str_after ''http://'' line of
        None \<Rightarrow> None
      | Some after_scheme \<Rightarrow>
          (let authority = takeWhile (\<lambda>c. \<not> (c = slash \<or> is_space c)) after_scheme in
           if CHR '':'' \<in> set authority then Some (''http://'' @ authority) else None))"

section \<open>Names\<close>

text \<open>\<^verbatim>\<open>rsplit_once\<close>.\<close>

definition str_rsplit_once :: "char \<Rightarrow> string \<Rightarrow> (string \<times> string) option" where
  "str_rsplit_once c s = map_option (\<lambda>(a, b). (rev b, rev a)) (str_split_once c (rev s))"

definition working_name :: "string \<Rightarrow> string" where
  "working_name volume_path =
     (let name = rsplit_first slash volume_path;
          ext = unwrap_or ''py'' (option_filter (\<lambda>e. e \<noteq> []) (map_option snd (str_rsplit_once CHR ''.'' name)))
      in hex16 (fnv1a_64 volume_path) @ ''.'' @ ext)"

definition compose_project :: "string \<Rightarrow> string" where
  "compose_project env_id = ''ol-'' @ env_id"

definition TELEMETRY_PROJECT :: string where
  "TELEMETRY_PROJECT = ''ol-telemetry''"

definition join_path :: "string \<Rightarrow> string \<Rightarrow> string" where
  "join_path dir name = dir @ [slash] @ name"

definition env_uc_dir :: "string \<Rightarrow> string \<Rightarrow> string" where
  "env_uc_dir root env_id = join_path (join_path (join_path root ''envs'') env_id) ''uc''"

definition env_home_dir :: "string \<Rightarrow> string \<Rightarrow> string" where
  "env_home_dir root env_id = join_path (join_path (join_path root ''envs'') env_id) ''home''"

definition env_notebooks_dir :: "string \<Rightarrow> string \<Rightarrow> string" where
  "env_notebooks_dir root env_id = join_path (join_path (join_path root ''envs'') env_id) ''notebooks''"

definition env_modules_dir :: "string \<Rightarrow> string \<Rightarrow> string" where
  "env_modules_dir root env_id = join_path (join_path (join_path root ''envs'') env_id) ''modules''"

definition env_manifest_path :: "string \<Rightarrow> string \<Rightarrow> string" where
  "env_manifest_path root env_id = join_path (join_path (join_path root ''envs'') env_id) ''env.toml''"

definition env_data_dir :: "string \<Rightarrow> string \<Rightarrow> string" where
  "env_data_dir root env_id = join_path (env_modules_dir root env_id) ''data''"

text \<open>\<^verbatim>\<open>String::parse::<u16>\<close> of \<^verbatim>\<open>ENVOY_PORT\<close>, or the default.\<close>

definition parse_u16 :: "string \<Rightarrow> nat option" where
  "parse_u16 s = option_filter (\<lambda>n. n < 2 ^ 16) (parse_usize s)"

definition gateway_host_port :: "(string \<Rightarrow> string option) \<Rightarrow> nat" where
  "gateway_host_port env = unwrap_or 9080 (Option.bind (env ''ENVOY_PORT'') parse_u16)"

section \<open>Artifacts\<close>

definition artifact_language :: "string \<Rightarrow> string" where
  "artifact_language path =
     (let ext = rsplit_first CHR ''.'' path in
      if ext = ''toml'' then ''toml''
      else if ext = ''md'' then ''markdown''
      else if ext = ''env'' then ''ini''
      else ''yaml'')"

definition artifact_label :: "string \<Rightarrow> string" where
  "artifact_label path =
     (if path = ''compose.yaml'' then ''Top-level compose''
      else if path = ''.env'' then ''Environment (.env)''
      else if path = ''LAYOUT.md'' then ''Gateway layout (LAYOUT.md)''
      else if path = ''modules/envoy/envoy.yaml'' then ''Envoy gateway (envoy.yaml)''
      else unwrap_or path
        (map_option (\<lambda>rest. str_join '' / '' (str_split slash rest)) (str_strip_prefix ''modules/'' path)))"

definition artifact_description :: "string \<Rightarrow> string" where
  "artifact_description path =
     (if path = ''compose.yaml''
        then ''The top-level Docker Compose file: includes each module's fragment.''
      else if path = ''.env'' then ''Plan-injected environment values the compose file substitutes.''
      else if path = ''LAYOUT.md'' then ''Human-readable summary of the gateway routes '' @
        [CHR 0xE2, CHR 0x86, CHR 0x92] @ '' services.''
      else if path = ''modules/envoy/envoy.yaml''
        then ''The gateway bootstrap: routes to the containerised services.''
      else ''Rendered artifact at '' @ path @ ''.'')"

section \<open>Environment ids\<close>

text \<open>
  \<^verbatim>\<open>allocate_env_id\<close>. \<^verbatim>\<open>lower\<close> is \<^verbatim>\<open>to_lowercase().chars()\<close>: the characters of the lower-cased name, each as
  its UTF-8 bytes (the Unicode case table is not restated here). \<^verbatim>\<open>existing\<close> is the list of ids taken.
\<close>

definition is_ascii_alphanumeric :: "char \<Rightarrow> bool" where
  "is_ascii_alphanumeric c \<longleftrightarrow>
     (let n = (of_char c :: nat) in (48 \<le> n \<and> n \<le> 57) \<or> (65 \<le> n \<and> n \<le> 90) \<or> (97 \<le> n \<and> n \<le> 122))"

definition slug_char :: "string \<Rightarrow> char" where
  "slug_char c = (case c of [x] \<Rightarrow> if is_ascii_alphanumeric x then x else CHR ''-'' | _ \<Rightarrow> CHR ''-'')"

definition env_slug :: "(string \<Rightarrow> string list) \<Rightarrow> string \<Rightarrow> string" where
  "env_slug lower name = trim_end_char CHR ''-'' (trim_start_char CHR ''-'' (map slug_char (lower (str_trim name))))"

definition env_candidate :: "string \<Rightarrow> nat \<Rightarrow> string" where
  "env_candidate base n = base @ ''-'' @ nat_to_string n"

lemma decimal_value:
  "fold (\<lambda>c acc. 10 * acc + (of_char c - 48)) (nat_to_string n) 0 = (n :: nat)"
proof (induction n rule: nat_to_string.induct)
  case (1 n)
  then show ?case
    by (cases "n < 10") (simp_all add: nat_to_string.simps [of n] digit_char_def)
qed

lemma env_candidate_inj: "env_candidate base m = env_candidate base n \<Longrightarrow> m = n"
  unfolding env_candidate_def by (metis append_same_eq decimal_value same_append_eq)

function first_free :: "string list \<Rightarrow> string \<Rightarrow> nat \<Rightarrow> string" where
  "first_free existing base n =
     (if env_candidate base n \<in> set existing then first_free existing base (Suc n)
      else env_candidate base n)"
  by pat_completeness auto
termination
proof (relation "measure (\<lambda>(existing, base, n). card (set existing \<inter> env_candidate base ` {n..}))")
  fix existing :: "string list" and base :: string and n :: nat
  assume taken: "env_candidate base n \<in> set existing"
  have "env_candidate base n \<notin> env_candidate base ` {Suc n..}"
    using env_candidate_inj by fastforce
  moreover have "env_candidate base ` {Suc n..} \<subseteq> env_candidate base ` {n..}" by auto
  ultimately have "set existing \<inter> env_candidate base ` {Suc n..} \<subset> set existing \<inter> env_candidate base ` {n..}"
    using taken by auto
  then show "((existing, base, Suc n), (existing, base, n))
      \<in> measure (\<lambda>(existing, base, n). card (set existing \<inter> env_candidate base ` {n..}))"
    by (simp add: psubset_card_mono)
qed simp

declare first_free.simps [simp del]

definition allocate_env_id :: "(string \<Rightarrow> string list) \<Rightarrow> string \<Rightarrow> string list \<Rightarrow> string" where
  "allocate_env_id lower name existing =
     (let slug = env_slug lower name;
          base = (if slug = [] then ''env'' else slug)
      in if base \<notin> set existing then base else first_free existing base 2)"

lemma first_free_fresh: "first_free existing base n \<notin> set existing"
  by (induction existing base n rule: first_free.induct) (subst first_free.simps, simp)

lemma first_free_candidate: "\<exists>k \<ge> n. first_free existing base n = env_candidate base k"
proof (induction existing base n rule: first_free.induct)
  case (1 existing base n)
  show ?case
  proof (cases "env_candidate base n \<in> set existing")
    case True
    with 1 obtain k where "Suc n \<le> k" "first_free existing base (Suc n) = env_candidate base k" by blast
    with True show ?thesis by (subst first_free.simps) (auto intro!: exI [of _ k])
  next
    case False
    then show ?thesis by (subst first_free.simps) auto
  qed
qed

text \<open>An id is safe in a file name: its characters are ASCII letters, digits and hyphens.\<close>

definition id_char :: "char \<Rightarrow> bool" where
  "id_char c \<longleftrightarrow> is_ascii_alphanumeric c \<or> c = CHR ''-''"

lemma slug_char_ok: "id_char (slug_char c)"
  by (simp add: slug_char_def id_char_def split: list.split)

lemma id_char_digit: "d < 10 \<Longrightarrow> id_char (digit_char d)"
  by (simp add: id_char_def is_ascii_alphanumeric_def digit_char_def Let_def)

lemma nat_to_string_id_chars: "\<forall>c \<in> set (nat_to_string n). id_char c"
proof (induction n rule: nat_to_string.induct)
  case (1 n)
  then show ?case
    by (cases "n < 10") (simp_all add: nat_to_string.simps [of n] id_char_digit)
qed

lemma env_slug_id_chars: "\<forall>c \<in> set (env_slug lower name). id_char c"
  by (auto simp: env_slug_def trim_end_char_def trim_start_char_def slug_char_ok dest!: set_dropWhileD)

lemma allocate_env_id_chars: "\<forall>c \<in> set (allocate_env_id lower name existing). id_char c"
proof -
  let ?base = "if env_slug lower name = [] then ''env'' else env_slug lower name"
  have base: "\<forall>c \<in> set ?base. id_char c"
    using env_slug_id_chars [of lower name] by (auto simp: id_char_def is_ascii_alphanumeric_def)
  obtain k where "first_free existing ?base 2 = env_candidate ?base k"
    using first_free_candidate by blast
  moreover have "\<forall>c \<in> set (env_candidate ?base k). id_char c"
    using base nat_to_string_id_chars [of k] by (auto simp: env_candidate_def id_char_def)
  ultimately show ?thesis using base by (simp add: allocate_env_id_def Let_def)
qed

lemma allocate_env_id_fresh: "allocate_env_id lower name existing \<notin> set existing"
  using first_free_fresh by (simp add: allocate_env_id_def Let_def)

lemma allocate_env_id_nonempty: "allocate_env_id lower name existing \<noteq> []"
proof -
  let ?base = "if env_slug lower name = [] then ''env'' else env_slug lower name"
  obtain k where "first_free existing ?base 2 = env_candidate ?base k"
    using first_free_candidate by blast
  then show ?thesis by (simp add: allocate_env_id_def Let_def env_candidate_def)
qed

text \<open>The copy names of 64-bit hashes cannot all differ: infinitely many paths, finitely many names.\<close>

lemma working_name_collides: "\<exists>p q. p \<noteq> q \<and> working_name p = working_name q"
proof -
  define P where "P = range (\<lambda>n. replicate n CHR ''a'')"
  have "inj (\<lambda>n. replicate n CHR ''a'')" by (rule injI) (metis length_replicate)
  then have inf: "infinite P" unfolding P_def using finite_imageD [of _ "UNIV :: nat set"] by auto
  have "working_name p \<in> (\<lambda>w. hex16 w @ ''.py'') ` UNIV" if "p \<in> P" for p
  proof -
    from that obtain n where p: "p = replicate n CHR ''a''" by (auto simp: P_def)
    have "str_split slash p = [p]" by (rule str_split_plain) (auto simp: p slash_def)
    then have "rsplit_first slash p = p" by (simp add: rsplit_first_def)
    moreover have "str_split_once CHR ''.'' (rev p) = None"
      by (auto simp: str_split_once_None_iff p)
    ultimately show ?thesis by (simp add: working_name_def str_rsplit_once_def)
  qed
  then have "working_name ` P \<subseteq> (\<lambda>w. hex16 w @ ''.py'') ` UNIV" by blast
  then have "finite (working_name ` P)" by (rule finite_subset) simp
  with inf have "\<not> inj_on working_name P" by (auto dest: finite_imageD)
  then show ?thesis by (auto simp: inj_on_def)
qed

end
