(* ===== verification/Desktop_Keys.thy ===== *)
theory Desktop_Keys
  imports Desktop_Text
begin

text \<open>
  \<^verbatim>\<open>node/desktop/src-tauri/src/kek.rs\<close>: the key-encryption key of an environment in the secret store of
  the operating system. The crates \<^verbatim>\<open>keyring\<close> and \<^verbatim>\<open>security_framework\<close> are a record of their calls over
  the state \<^verbatim>\<open>'s\<close> of the secret store, for the fixed service name; \<^verbatim>\<open>key.json\<close> is a map from its directory
  to the record it holds (\<^verbatim>\<open>remote\<close>, a JSON value, as its text), and a file operation's outcome is an argument. \<^verbatim>\<open>macos\<close> is \<^verbatim>\<open>cfg!(target_os)\<close>.
\<close>

section \<open>The secret store\<close>

datatype keyring_error = NoEntry | Keyring_Other string

record 's keychain =
  kc_entry :: "string \<Rightarrow> string + unit"
  kc_get :: "string \<Rightarrow> 's \<Rightarrow> keyring_error + string"
  kc_set :: "string \<Rightarrow> string \<Rightarrow> 's \<Rightarrow> (keyring_error + unit) \<times> 's"
  kc_delete :: "string \<Rightarrow> 's \<Rightarrow> (keyring_error + unit) \<times> 's"
  bio_get :: "string \<Rightarrow> 's \<Rightarrow> (int \<times> string) + (string + string)"
  bio_set :: "string \<Rightarrow> string \<Rightarrow> 's \<Rightarrow> ((int \<times> string) + unit) \<times> 's"
  bio_delete :: "string \<Rightarrow> 's \<Rightarrow> ((int \<times> string) + unit) \<times> 's"
  kc_display :: "keyring_error \<Rightarrow> string"

datatype key_read = Found string | Missing | Read_Error string

definition plain_read :: "'s keychain \<Rightarrow> string \<Rightarrow> 's \<Rightarrow> key_read" where
  "plain_read kc env_id s =
     (case kc_entry kc env_id of
        Inl e \<Rightarrow> Read_Error (''opening keychain entry for '' @ env_id @ '': '' @ e)
      | Inr _ \<Rightarrow>
          (case kc_get kc env_id s of
             Inr kek \<Rightarrow> Found kek
           | Inl NoEntry \<Rightarrow> Missing
           | Inl e \<Rightarrow> Read_Error (''reading KEK from keychain for '' @ env_id @ '': '' @ kc_display kc e)))"

definition plain_write :: "'s keychain \<Rightarrow> string \<Rightarrow> string \<Rightarrow> 's \<Rightarrow> (string + unit) \<times> 's" where
  "plain_write kc env_id kek s =
     (case kc_entry kc env_id of
        Inl e \<Rightarrow> (Inl (''opening keychain entry for '' @ env_id @ '': '' @ e), s)
      | Inr _ \<Rightarrow>
          (let (r, s') = kc_set kc env_id kek s
           in (map_err (\<lambda>e. ''storing KEK in keychain for '' @ env_id @ '': '' @ kc_display kc e) r, s')))"

definition plain_delete :: "'s keychain \<Rightarrow> string \<Rightarrow> 's \<Rightarrow> (string + unit) \<times> 's" where
  "plain_delete kc env_id s =
     (case kc_entry kc env_id of
        Inl e \<Rightarrow> (Inl (''opening keychain entry for '' @ env_id @ '': '' @ e), s)
      | Inr _ \<Rightarrow>
          (let (r, s') = kc_delete kc env_id s
           in (case r of
                 Inr _ \<Rightarrow> Inr ()
               | Inl NoEntry \<Rightarrow> Inr ()
               | Inl e \<Rightarrow> Inl (''deleting keychain entry for '' @ env_id @ '': '' @ kc_display kc e), s')))"

definition ERR_ITEM_NOT_FOUND :: int where
  "ERR_ITEM_NOT_FOUND = - 25300"

definition ERR_MISSING_ENTITLEMENT :: int where
  "ERR_MISSING_ENTITLEMENT = - 34018"

definition MISSING_ENTITLEMENT :: string where
  "MISSING_ENTITLEMENT = ''MISSING_KEYCHAIN_ENTITLEMENT''"

definition biometric_read :: "'s keychain \<Rightarrow> string \<Rightarrow> 's \<Rightarrow> key_read" where
  "biometric_read kc env_id s =
     (case bio_get kc env_id s of
        Inr (Inr kek) \<Rightarrow> Found kek
      | Inr (Inl e) \<Rightarrow> Read_Error (''KEK for '' @ env_id @ '' is not valid UTF-8: '' @ e)
      | Inl (code, e) \<Rightarrow>
          if code = ERR_ITEM_NOT_FOUND then Missing
          else Read_Error (''reading biometric KEK for '' @ env_id @ '': '' @ e))"

definition biometric_write :: "'s keychain \<Rightarrow> string \<Rightarrow> string \<Rightarrow> 's \<Rightarrow> (string + unit) \<times> 's" where
  "biometric_write kc env_id kek s =
     (let (r, s') = bio_set kc env_id kek s
      in (map_err (\<lambda>(code, e). if code = ERR_MISSING_ENTITLEMENT then MISSING_ENTITLEMENT
                      else ''storing biometric KEK for '' @ env_id @ '': '' @ e) r, s'))"

definition biometric_delete :: "'s keychain \<Rightarrow> string \<Rightarrow> 's \<Rightarrow> (string + unit) \<times> 's" where
  "biometric_delete kc env_id s =
     (let (r, s') = bio_delete kc env_id s
      in (case r of
            Inr _ \<Rightarrow> Inr ()
          | Inl (code, e) \<Rightarrow>
              if code = ERR_ITEM_NOT_FOUND \<or> code = ERR_MISSING_ENTITLEMENT then Inr ()
              else Inl (''deleting biometric KEK for '' @ env_id @ '': '' @ e), s'))"

text \<open>\<^verbatim>\<open>store::read\<close>, \<^verbatim>\<open>store::delete\<close> and the move between the two stores.\<close>

definition store_read :: "bool \<Rightarrow> 's keychain \<Rightarrow> string \<Rightarrow> 's \<Rightarrow> key_read" where
  "store_read macos kc env_id s =
     (if macos then (case biometric_read kc env_id s of
                       Missing \<Rightarrow> plain_read kc env_id s
                     | other \<Rightarrow> other)
      else plain_read kc env_id s)"

definition store_delete :: "bool \<Rightarrow> 's keychain \<Rightarrow> string \<Rightarrow> 's \<Rightarrow> (string + unit) \<times> 's" where
  "store_delete macos kc env_id s =
     (case (if macos then biometric_delete kc env_id s else (Inr (), s)) of
        (Inl e, s') \<Rightarrow> (Inl e, s')
      | (Inr _, s') \<Rightarrow> plain_delete kc env_id s')"

definition set_biometric_protection ::
  "bool \<Rightarrow> 's keychain \<Rightarrow> string \<Rightarrow> string \<Rightarrow> bool \<Rightarrow> 's \<Rightarrow> (string + unit) \<times> 's" where
  "set_biometric_protection macos kc env_id kek enabled s =
     (if \<not> macos then (Inl ''biometric protection is not supported on this platform'', s)
      else if enabled then
        (case biometric_write kc env_id kek s of
           (Inl e, s') \<Rightarrow> (Inl e, s')
         | (Inr _, s') \<Rightarrow> plain_delete kc env_id s')
      else
        (case plain_write kc env_id kek s of
           (Inl e, s') \<Rightarrow> (Inl e, s')
         | (Inr _, s') \<Rightarrow> biometric_delete kc env_id s'))"

section \<open>Records and operations\<close>

datatype key_provider = Keychain_Provider | Remote_Provider

record key_config =
  kcf_provider :: key_provider
  kcf_key_id :: string
  kcf_biometric :: bool
  kcf_remote :: "string option"

datatype key_status =
  Status_Unconfigured | Status_Keychain | Status_KeychainBiometric | Status_Remote | Status_Unavailable

record 's key_world =
  kw_store :: 's
  kw_records :: "string \<rightharpoonup> key_config"

text \<open>\<^verbatim>\<open>write_key_config\<close>; \<^verbatim>\<open>io\<close> is the outcome of writing the file.\<close>

definition write_key_config ::
  "string + unit \<Rightarrow> string \<Rightarrow> key_config \<Rightarrow> 's key_world \<Rightarrow> (string + unit) \<times> 's key_world" where
  "write_key_config io uc_dir cfg w =
     (case io of
        Inl e \<Rightarrow> (Inl e, w)
      | Inr _ \<Rightarrow> (Inr (), w\<lparr>kw_records := (kw_records w)(uc_dir \<mapsto> cfg)\<rparr>))"

text \<open>\<^verbatim>\<open>minted\<close> is what \<^verbatim>\<open>generate_kek\<close> returns if it is called.\<close>

definition ensure_kek ::
  "bool \<Rightarrow> 's keychain \<Rightarrow> string + string \<Rightarrow> string \<Rightarrow> 's key_world \<Rightarrow> (string + string) \<times> 's key_world" where
  "ensure_kek macos kc minted env_id w =
     (case store_read macos kc env_id (kw_store w) of
        Found kek \<Rightarrow> (Inr kek, w)
      | Missing \<Rightarrow>
          (case minted of
             Inl e \<Rightarrow> (Inl e, w)
           | Inr kek \<Rightarrow>
               (let (r, s') = plain_write kc env_id kek (kw_store w)
                in (map_ok (\<lambda>_. kek) r, w\<lparr>kw_store := s'\<rparr>)))
      | Read_Error e \<Rightarrow> (Inl e, w))"

definition key_status_of :: "'s keychain \<Rightarrow> string \<Rightarrow> string \<Rightarrow> 's key_world \<Rightarrow> key_status" where
  "key_status_of kc env_id uc_dir w =
     (let cfg = kw_records w uc_dir in
      case map_option kcf_provider cfg of
        Some Remote_Provider \<Rightarrow> Status_Remote
      | _ \<Rightarrow>
          if unwrap_or False (map_option kcf_biometric cfg) then Status_KeychainBiometric
          else (case plain_read kc env_id (kw_store w) of
                  Found _ \<Rightarrow> Status_Keychain
                | Missing \<Rightarrow> Status_Unconfigured
                | Read_Error _ \<Rightarrow> Status_Unavailable))"

definition configure ::
  "bool \<Rightarrow> 's keychain \<Rightarrow> string + string \<Rightarrow> string + unit \<Rightarrow> string \<Rightarrow> string \<Rightarrow> key_provider
    \<Rightarrow> 's key_world \<Rightarrow> (string + key_status) \<times> 's key_world" where
  "configure macos kc minted io env_id uc_dir provider w =
     (let biometric = unwrap_or False (map_option kcf_biometric (kw_records w uc_dir)) in
      case (case provider of
              Keychain_Provider \<Rightarrow> map_prod (map_ok (\<lambda>_. ())) id (ensure_kek macos kc minted env_id w)
            | Remote_Provider \<Rightarrow> (Inr (), w)) of
        (Inl e, w') \<Rightarrow> (Inl e, w')
      | (Inr _, w') \<Rightarrow>
          (case write_key_config io uc_dir
               \<lparr>kcf_provider = provider, kcf_key_id = env_id, kcf_biometric = biometric,
                kcf_remote = None\<rparr> w' of
             (Inl e, w'') \<Rightarrow> (Inl e, w'')
           | (Inr _, w'') \<Rightarrow> (Inr (key_status_of kc env_id uc_dir w''), w'')))"

definition unsigned_build_message :: string where
  "unsigned_build_message =
     ''Touch ID requires a code-signed build of the app (a `keychain-access-groups` '' @
     ''entitlement). It can't be enabled in this unsigned build.''"

definition set_biometric ::
  "bool \<Rightarrow> 's keychain \<Rightarrow> string + string \<Rightarrow> string + unit \<Rightarrow> string \<Rightarrow> string \<Rightarrow> bool
    \<Rightarrow> 's key_world \<Rightarrow> (string + key_status) \<times> 's key_world" where
  "set_biometric macos kc minted io env_id uc_dir enabled w =
     (if enabled \<and> \<not> macos then (Inl ''biometric protection is not supported on this platform'', w)
      else
        let cfg = kw_records w uc_dir in
        if map_option kcf_provider cfg = Some Remote_Provider
        then (Inl ''biometric protection applies to keychain-stored keys only'', w)
        else
          (case ensure_kek macos kc minted env_id w of
             (Inl e, w') \<Rightarrow> (Inl e, w')
           | (Inr kek, w') \<Rightarrow>
               (case set_biometric_protection macos kc env_id kek enabled (kw_store w') of
                  (Inl e, s') \<Rightarrow>
                    (Inl (if e = MISSING_ENTITLEMENT then unsigned_build_message else e), w'\<lparr>kw_store := s'\<rparr>)
                | (Inr _, s') \<Rightarrow>
                    (case write_key_config io uc_dir
                         \<lparr>kcf_provider = Keychain_Provider,
                          kcf_key_id = unwrap_or env_id (map_option kcf_key_id cfg), kcf_biometric = enabled,
                          kcf_remote = None\<rparr>
                         (w'\<lparr>kw_store := s'\<rparr>) of
                       (Inl e, w'') \<Rightarrow> (Inl e, w'')
                     | (Inr _, w'') \<Rightarrow> (Inr (key_status_of kc env_id uc_dir w''), w'')))))"

text \<open>\<^verbatim>\<open>delete_key\<close> ignores failures; \<^verbatim>\<open>removed\<close> tells whether the record's file could be removed.\<close>

definition delete_key ::
  "bool \<Rightarrow> 's keychain \<Rightarrow> bool \<Rightarrow> string \<Rightarrow> string \<Rightarrow> 's key_world \<Rightarrow> 's key_world" where
  "delete_key macos kc removed env_id uc_dir w =
     (let w' = w\<lparr>kw_store := snd (store_delete macos kc env_id (kw_store w))\<rparr>
      in if removed then w'\<lparr>kw_records := (kw_records w')(uc_dir := None)\<rparr> else w')"

end
