(* ===== verification/Desktop_Key_Facts.thy ===== *)
theory Desktop_Key_Facts
  imports Desktop_Keys
begin

text \<open>
  The key of an environment is minted once: whatever a client configures, and whichever calls of the
  secret store fail, a key that was there stays there, with the same material.
\<close>

section \<open>The secret store's documented behaviour\<close>

text \<open>
  What each store holds is a map from environments to keys. A read that answers tells what is held; a
  write or a deletion that succeeds changes the entry it names alone, one that fails changes nothing.
\<close>

definition keychain_ok ::
  "'s keychain \<Rightarrow> ('s \<Rightarrow> string \<Rightarrow> string option) \<Rightarrow> ('s \<Rightarrow> string \<Rightarrow> string option) \<Rightarrow> bool" where
  "keychain_ok kc plain bio \<longleftrightarrow>
     (\<forall>i s k. kc_get kc i s = Inr k \<longrightarrow> plain s i = Some k) \<and>
     (\<forall>i s. kc_get kc i s = Inl NoEntry \<longrightarrow> plain s i = None) \<and>
     (\<forall>i k s. bio (snd (kc_set kc i k s)) = bio s \<and>
        plain (snd (kc_set kc i k s)) = (if is_ok (fst (kc_set kc i k s)) then (plain s)(i \<mapsto> k) else plain s)) \<and>
     (\<forall>i s. bio (snd (kc_delete kc i s)) = bio s \<and>
        plain (snd (kc_delete kc i s)) = (if is_ok (fst (kc_delete kc i s)) then (plain s)(i := None) else plain s)) \<and>
     (\<forall>i s k. bio_get kc i s = Inr (Inr k) \<longrightarrow> bio s i = Some k) \<and>
     (\<forall>i s e. bio_get kc i s = Inl (ERR_ITEM_NOT_FOUND, e) \<longrightarrow> bio s i = None) \<and>
     (\<forall>i k s. plain (snd (bio_set kc i k s)) = plain s \<and>
        bio (snd (bio_set kc i k s)) = (if is_ok (fst (bio_set kc i k s)) then (bio s)(i \<mapsto> k) else bio s)) \<and>
     (\<forall>i s. plain (snd (bio_delete kc i s)) = plain s \<and>
        bio (snd (bio_delete kc i s)) = (if is_ok (fst (bio_delete kc i s)) then (bio s)(i := None) else bio s))"

text \<open>The key in force: the protected one if there is one (on macOS), else the plain one.\<close>

definition current_key ::
  "bool \<Rightarrow> ('s \<Rightarrow> string \<Rightarrow> string option) \<Rightarrow> ('s \<Rightarrow> string \<Rightarrow> string option) \<Rightarrow> string \<Rightarrow> 's \<Rightarrow> string option"
where
  "current_key macos plain bio i s =
     (if macos \<and> bio s i \<noteq> None then bio s i else plain s i)"

section \<open>The wrappers\<close>

lemma plain_read_facts:
  assumes ok: "keychain_ok kc plain bio"
  shows "plain_read kc i s = Found k \<Longrightarrow> plain s i = Some k"
  "plain_read kc i s = Missing \<Longrightarrow> plain s i = None"
  using ok by (auto simp: plain_read_def keychain_ok_def split: sum.splits keyring_error.splits)

lemma biometric_read_facts:
  assumes ok: "keychain_ok kc plain bio"
  shows "biometric_read kc i s = Found k \<Longrightarrow> bio s i = Some k"
  "biometric_read kc i s = Missing \<Longrightarrow> bio s i = None"
  using ok by (auto simp: biometric_read_def keychain_ok_def split: sum.splits if_splits)

lemma plain_write_facts:
  assumes ok: "keychain_ok kc plain bio" and "plain_write kc i k s = (r, s')"
  shows "bio s' = bio s \<and> plain s' = (if is_ok r then (plain s)(i \<mapsto> k) else plain s)"
proof (cases "kc_entry kc i")
  case (Inr u)
  obtain q t where "kc_set kc i k s = (q, t)" by fastforce
  moreover from this have "bio t = bio s \<and> plain t = (if is_ok q then (plain s)(i \<mapsto> k) else plain s)"
    using ok unfolding keychain_ok_def by (metis fst_conv snd_conv)
  moreover have "is_ok (map_err f q) = is_ok q" for f by (cases q) auto
  ultimately show ?thesis using assms Inr by (auto simp: plain_write_def)
qed (use assms in \<open>auto simp: plain_write_def\<close>)

lemma plain_delete_facts:
  assumes ok: "keychain_ok kc plain bio" and "plain_delete kc i s = (r, s')"
  shows "bio s' = bio s \<and> (plain s' = (plain s)(i := None) \<or> plain s' = plain s)"
proof (cases "kc_entry kc i")
  case (Inr u)
  obtain q t where "kc_delete kc i s = (q, t)" by fastforce
  moreover from this have "bio t = bio s \<and> plain t = (if is_ok q then (plain s)(i := None) else plain s)"
    using ok unfolding keychain_ok_def by (metis fst_conv snd_conv)
  ultimately show ?thesis using assms Inr by (auto simp: plain_delete_def)
qed (use assms in \<open>auto simp: plain_delete_def\<close>)

lemma biometric_write_facts:
  assumes ok: "keychain_ok kc plain bio" and "biometric_write kc i k s = (r, s')"
  shows "plain s' = plain s \<and> bio s' = (if is_ok r then (bio s)(i \<mapsto> k) else bio s)"
proof -
  obtain q t where "bio_set kc i k s = (q, t)" by fastforce
  moreover from this have "plain t = plain s \<and> bio t = (if is_ok q then (bio s)(i \<mapsto> k) else bio s)"
    using ok unfolding keychain_ok_def by (metis fst_conv snd_conv)
  moreover have "is_ok (map_err f q) = is_ok q" for f by (cases q) auto
  ultimately show ?thesis using assms by (auto simp: biometric_write_def)
qed

lemma biometric_delete_facts:
  assumes ok: "keychain_ok kc plain bio" and "biometric_delete kc i s = (r, s')"
  shows "plain s' = plain s \<and> (bio s' = (bio s)(i := None) \<or> bio s' = bio s)"
proof -
  obtain q t where "bio_delete kc i s = (q, t)" by fastforce
  moreover from this have "plain t = plain s \<and> bio t = (if is_ok q then (bio s)(i := None) else bio s)"
    using ok unfolding keychain_ok_def by (metis fst_conv snd_conv)
  ultimately show ?thesis using assms by (auto simp: biometric_delete_def)
qed

lemma store_read_facts:
  assumes ok: "keychain_ok kc plain bio"
  shows "store_read macos kc i s = Found k \<Longrightarrow> current_key macos plain bio i s = Some k"
  "store_read macos kc i s = Missing \<Longrightarrow> current_key macos plain bio i s = None"
  using plain_read_facts [OF ok] biometric_read_facts [OF ok]
  by (auto simp: store_read_def current_key_def split: if_splits key_read.splits)

section \<open>The operations\<close>

lemma ensure_kek_result:
  assumes ok: "keychain_ok kc plain bio" and "ensure_kek macos kc minted i w = (r, w')"
  shows "kw_records w' = kw_records w \<and>
    (\<forall>k. r = Inr k \<longrightarrow> current_key macos plain bio i (kw_store w') = Some k) \<and>
    (\<forall>k. current_key macos plain bio i (kw_store w) = Some k \<longrightarrow> w' = w) \<and>
    (\<forall>j \<noteq> i. current_key macos plain bio j (kw_store w') = current_key macos plain bio j (kw_store w))"
proof (cases "store_read macos kc i (kw_store w)")
  case (Found k)
  with assms store_read_facts(1) [OF ok Found] show ?thesis by (auto simp: ensure_kek_def)
next
  case Missing
  note none = store_read_facts(2) [OF ok Missing]
  show ?thesis
  proof (cases minted)
    case (Inr kek)
    obtain q t where wr: "plain_write kc i kek (kw_store w) = (q, t)" by fastforce
    with Missing Inr assms have "r = map_ok (\<lambda>_. kek) q" "w' = w\<lparr>kw_store := t\<rparr>"
      by (auto simp: ensure_kek_def)
    with plain_write_facts [OF ok wr] none show ?thesis
      by (cases q) (auto simp: current_key_def split: if_splits)
  qed (use Missing assms none in \<open>auto simp: ensure_kek_def\<close>)
qed (use assms in \<open>auto simp: ensure_kek_def\<close>)

lemma set_protection_keeps:
  assumes ok: "keychain_ok kc plain bio" and "set_biometric_protection macos kc i kek enabled s = (r, s')"
    and "current_key macos plain bio i s = Some kek"
  shows "current_key macos plain bio i s' = Some kek"
proof (cases "macos \<and> enabled")
  case True
  obtain q t where wr: "biometric_write kc i kek s = (q, t)" by fastforce
  show ?thesis
  proof (cases q)
    case (Inr u)
    with True wr assms(2) have "plain_delete kc i t = (r, s')" by (simp add: set_biometric_protection_def)
    from plain_delete_facts [OF ok this] biometric_write_facts [OF ok wr] Inr True
    show ?thesis by (auto simp: current_key_def)
  qed (use True wr assms biometric_write_facts [OF ok wr] in \<open>auto simp: set_biometric_protection_def current_key_def\<close>)
next
  case False
  show ?thesis
  proof (cases macos)
    case True
    with False have dis: "\<not> enabled" by simp
    obtain q t where wr: "plain_write kc i kek s = (q, t)" by fastforce
    show ?thesis
    proof (cases q)
      case (Inr u)
      with True dis wr assms(2) have "biometric_delete kc i t = (r, s')" by (simp add: set_biometric_protection_def)
      from biometric_delete_facts [OF ok this] plain_write_facts [OF ok wr] Inr True assms(3)
      show ?thesis by (auto simp: current_key_def split: if_splits)
    qed (use True dis wr assms plain_write_facts [OF ok wr] in \<open>auto simp: set_biometric_protection_def current_key_def\<close>)
  qed (use assms in \<open>auto simp: set_biometric_protection_def\<close>)
qed

lemma write_key_config_store: "write_key_config io d cfg w = (r, w') \<Longrightarrow> kw_store w' = kw_store w"
  by (auto simp: write_key_config_def split: sum.splits)

lemma configure_keeps:
  assumes ok: "keychain_ok kc plain bio" and cur: "current_key macos plain bio i (kw_store w) = Some k"
  shows "kw_store (snd (configure macos kc minted io i d provider w)) = kw_store w"
proof -
  obtain r w' where en: "ensure_kek macos kc minted i w = (r, w')" by fastforce
  with ensure_kek_result [OF ok en] cur have "w' = w" by blast
  with en show ?thesis
    by (cases provider; cases r)
      (auto simp: configure_def Let_def split: prod.split sum.split dest: write_key_config_store)
qed

lemma set_biometric_keeps:
  assumes ok: "keychain_ok kc plain bio" and cur: "current_key macos plain bio i (kw_store w) = Some k"
  shows "current_key macos plain bio i (kw_store (snd (set_biometric macos kc minted io i d enabled w))) = Some k"
proof -
  obtain r w' where en: "ensure_kek macos kc minted i w = (r, w')" by fastforce
  with ensure_kek_result [OF ok en] cur have w': "w' = w" by blast
  show ?thesis
  proof (cases r)
    case (Inr kek)
    with ensure_kek_result [OF ok en] cur w' have kek: "kek = k" by simp
    obtain q t where sp: "set_biometric_protection macos kc i k enabled (kw_store w) = (q, t)" by fastforce
    have "current_key macos plain bio i t = Some k" by (rule set_protection_keeps [OF ok sp cur])
    with cur en Inr kek w' sp show ?thesis
      by (auto simp: set_biometric_def Let_def split: prod.split sum.split dest!: write_key_config_store)
  qed (use cur en w' in \<open>auto simp: set_biometric_def Let_def\<close>)
qed

section \<open>Runs\<close>

datatype key_op =
    Ensure "string + string"
  | Configure "string + string" "string + unit" key_provider
  | Set_Biometric "string + string" "string + unit" bool

text \<open>One call for an environment, with the key it returned, if it was \<^verbatim>\<open>ensure_kek\<close> and succeeded.\<close>

fun key_step ::
  "bool \<Rightarrow> 's keychain \<Rightarrow> string \<Rightarrow> string \<Rightarrow> key_op \<Rightarrow> 's key_world \<Rightarrow> string option \<times> 's key_world" where
  "key_step macos kc i d (Ensure minted) w =
     map_prod (case_sum (\<lambda>_. None) Some) id (ensure_kek macos kc minted i w)"
| "key_step macos kc i d (Configure minted io provider) w =
     (None, snd (configure macos kc minted io i d provider w))"
| "key_step macos kc i d (Set_Biometric minted io enabled) w =
     (None, snd (set_biometric macos kc minted io i d enabled w))"

fun key_run ::
  "bool \<Rightarrow> 's keychain \<Rightarrow> string \<Rightarrow> string \<Rightarrow> key_op list \<Rightarrow> 's key_world \<Rightarrow> string option list \<times> 's key_world" where
  "key_run macos kc i d [] w = ([], w)"
| "key_run macos kc i d (c # cs) w =
     (let (k, w1) = key_step macos kc i d c w; (ks, w2) = key_run macos kc i d cs w1 in (k # ks, w2))"

lemma key_step_keeps:
  assumes "keychain_ok kc plain bio" and "current_key macos plain bio i (kw_store w) = Some k"
    and "key_step macos kc i d c w = (q, w')"
  shows "current_key macos plain bio i (kw_store w') = Some k \<and> (q = None \<or> q = Some k)"
proof (cases c)
  case (Ensure minted)
  obtain r w1 where en: "ensure_kek macos kc minted i w = (r, w1)" by fastforce
  with ensure_kek_result [OF assms(1) en] assms Ensure show ?thesis
    by (cases r) auto
next
  case (Configure minted io provider)
  with assms configure_keeps [OF assms(1,2)] show ?thesis by auto
next
  case (Set_Biometric minted io enabled)
  with assms set_biometric_keeps [OF assms(1,2)] show ?thesis by auto
qed

lemma key_run_keeps:
  assumes "keychain_ok kc plain bio" and "current_key macos plain bio i (kw_store w) = Some k"
    and "key_run macos kc i d ops w = (ks, w')"
  shows "current_key macos plain bio i (kw_store w') = Some k \<and> set ks \<subseteq> {None, Some k}"
  using assms(2,3)
proof (induction ops arbitrary: w ks w')
  case (Cons c cs)
  obtain q w1 where st: "key_step macos kc i d c w = (q, w1)" by fastforce
  obtain qs w2 where rest: "key_run macos kc i d cs w1 = (qs, w2)" by fastforce
  from key_step_keeps [OF assms(1) Cons.prems(1) st] Cons.IH [OF _ rest] st rest Cons.prems(2)
  show ?case by auto
qed simp

end
