(* ===== verification/Desktop_World.thy ===== *)
theory Desktop_World
  imports Desktop_Key_Facts
begin

text \<open>
  The state of the desktop application (\<^verbatim>\<open>node/desktop/src-tauri/src\<close>): the registry of environments and
  the active one (\<^verbatim>\<open>env.rs\<close>), the supervised processes (\<^verbatim>\<open>supervisor.rs\<close>), the notebook sessions
  (\<^verbatim>\<open>notebook.rs\<close>), the shared collector (\<^verbatim>\<open>telemetry.rs\<close>), and the files written. What the operating
  system and the libraries answer is an argument of each operation; what is asked of processes and servers is logged.
\<close>

section \<open>Environments\<close>

record environment_entry =
  en_id :: string
  en_name :: string
  en_modules :: "string list"
  en_observability :: bool

text \<open>\<^verbatim>\<open>environments.json\<close>: no file, the list it parses to, or the message of a failed read or parse.\<close>

datatype registry_file = Registry_Absent | Registry "environment_entry list" | Registry_Broken string

text \<open>\<^verbatim>\<open>Hosted\<close>: the routers ('r) and the state ('h) of the file store the host built.\<close>

record ('r, 'h) hosted =
  ho_tags :: 'r
  ho_query :: 'r
  ho_ingest :: 'r
  ho_files :: 'h

record ('r, 'h) active_env =
  ae_id :: "string option"
  ae_hosted :: "('r, 'h) hosted option"
  ae_unity_endpoint :: "string option"
  ae_lineage_endpoint :: "string option"
  ae_has_home :: bool

definition no_active_env :: "('r, 'h) active_env" where
  "no_active_env = \<lparr>ae_id = None, ae_hosted = None, ae_unity_endpoint = None,
     ae_lineage_endpoint = None, ae_has_home = False\<rparr>"

section \<open>JSON values\<close>

datatype json = JNull | JBool bool | JNumber string | JString string | JArray "json list" | JObject "(string \<times> json) list"

text \<open>\<^verbatim>\<open>Value::get\<close> with a text, and \<^verbatim>\<open>as_str\<close>.\<close>

fun json_get :: "string \<Rightarrow> json \<Rightarrow> json option" where
  "json_get k (JObject kvs) = map_of kvs k"
| "json_get k _ = None"

fun json_as_str :: "json \<Rightarrow> string option" where
  "json_as_str (JString s) = Some s"
| "json_as_str _ = None"

section \<open>Processes\<close>

text \<open>A child is known by a number the operating system does not reuse within a run.\<close>

datatype managed_process = Sidecar string nat | Compose string

datatype http_call = Http_Get string | Http_Post string json

datatype effect =
    Spawned nat
  | Killed nat
  | Compose_Up string
  | Compose_Down string
  | Http_Sent http_call

fun shut_down :: "managed_process \<Rightarrow> effect" where
  "shut_down (Sidecar label child) = Killed child"
| "shut_down (Compose project) = Compose_Down project"

record notebook_session =
  ns_volume_path :: string
  ns_working_path :: string

record ('r, 'h, 's) desktop =
  dk_registry :: registry_file
  dk_keys :: "'s key_world"
  dk_active :: "('r, 'h) active_env"
  dk_procs :: "managed_process list"
  dk_endpoint :: "string option"
  dk_sessions :: "string \<rightharpoonup> notebook_session"
  dk_telemetry :: bool
  dk_otel :: "string option"
  dk_files :: "string \<rightharpoonup> bytes"
  dk_log :: "effect list"

text \<open>What does not change: the data directory, the platform, the secret store, the environment variables.\<close>

record 's desktop_host =
  dh_root :: string
  dh_macos :: bool
  dh_keychain :: "'s keychain"
  dh_lower :: "string \<Rightarrow> string list"
  dh_env :: "string \<Rightarrow> string option"

definition log_effect :: "effect \<Rightarrow> ('r, 'h, 's) desktop \<Rightarrow> ('r, 'h, 's) desktop" where
  "log_effect e w = w\<lparr>dk_log := dk_log w @ [e]\<rparr>"

definition log_effects :: "effect list \<Rightarrow> ('r, 'h, 's) desktop \<Rightarrow> ('r, 'h, 's) desktop" where
  "log_effects es w = w\<lparr>dk_log := dk_log w @ es\<rparr>"

definition write_file :: "string \<Rightarrow> bytes \<Rightarrow> ('r, 'h, 's) desktop \<Rightarrow> ('r, 'h, 's) desktop" where
  "write_file path content w = w\<lparr>dk_files := (dk_files w)(path \<mapsto> content)\<rparr>"

text \<open>The bytes of a text.\<close>

definition as_bytes :: "string \<Rightarrow> bytes" where
  "as_bytes s = map of_char s"

text \<open>\<^verbatim>\<open>Supervisor::track\<close>, \<^verbatim>\<open>Supervisor::shut_down_all\<close> and \<^verbatim>\<open>compose_down\<close>; failures are only logged.\<close>

definition track :: "managed_process \<Rightarrow> ('r, 'h, 's) desktop \<Rightarrow> ('r, 'h, 's) desktop" where
  "track p w = w\<lparr>dk_procs := dk_procs w @ [p]\<rparr>"

definition shut_down_all :: "('r, 'h, 's) desktop \<Rightarrow> ('r, 'h, 's) desktop" where
  "shut_down_all w = w\<lparr>dk_procs := [], dk_log := dk_log w @ map shut_down (dk_procs w)\<rparr>"

definition compose_down :: "string \<Rightarrow> ('r, 'h, 's) desktop \<Rightarrow> ('r, 'h, 's) desktop" where
  "compose_down project w = log_effect (Compose_Down project) w"

definition notebooks_reset :: "('r, 'h, 's) desktop \<Rightarrow> ('r, 'h, 's) desktop" where
  "notebooks_reset w = w\<lparr>dk_endpoint := None, dk_sessions := Map.empty\<rparr>"

text \<open>\<^verbatim>\<open>Telemetry::shut_down\<close>, and the exit hook of \<^verbatim>\<open>lib.rs\<close>.\<close>

definition telemetry_shut_down :: "('r, 'h, 's) desktop \<Rightarrow> ('r, 'h, 's) desktop" where
  "telemetry_shut_down w = compose_down TELEMETRY_PROJECT (w\<lparr>dk_telemetry := False\<rparr>)"

definition app_exit :: "('r, 'h, 's) desktop \<Rightarrow> ('r, 'h, 's) desktop" where
  "app_exit w = telemetry_shut_down (shut_down_all w)"

definition desktop_boot :: "registry_file \<Rightarrow> 's key_world \<Rightarrow> (string \<rightharpoonup> bytes) \<Rightarrow> ('r, 'h, 's) desktop" where
  "desktop_boot reg keys disk =
     \<lparr>dk_registry = reg, dk_keys = keys, dk_active = no_active_env, dk_procs = [], dk_endpoint = None,
      dk_sessions = Map.empty, dk_telemetry = False, dk_otel = None, dk_files = disk, dk_log = []\<rparr>"

section \<open>Reading the state\<close>

definition snapshot :: "('r, 'h, 's) desktop \<Rightarrow> string + ('r, 'h) active_env" where
  "snapshot w =
     (if ae_hosted (dk_active w) = None then Inl ''no environment selected'' else Inr (dk_active w))"

definition app_unity_endpoint :: "('r, 'h, 's) desktop \<Rightarrow> string option" where
  "app_unity_endpoint w = ae_unity_endpoint (dk_active w)"

definition active_router :: "('r, 'h) active_env \<Rightarrow> string \<Rightarrow> string + 'r" where
  "active_router a service =
     (case ae_hosted a of
        None \<Rightarrow> Inl ''no environment selected''
      | Some hosted \<Rightarrow>
          if service = ''tags'' then Inr (ho_tags hosted)
          else if service = ''query'' then Inr (ho_query hosted)
          else if service = ''ingest'' then Inr (ho_ingest hosted)
          else Inl (''unknown service group: '' @ service))"

definition active_files :: "('r, 'h) active_env \<Rightarrow> string + 'h" where
  "active_files a =
     (case ae_hosted a of None \<Rightarrow> Inl ''no environment selected'' | Some hosted \<Rightarrow> Inr (ho_files hosted))"

definition read_environments :: "('r, 'h, 's) desktop \<Rightarrow> string + environment_entry list" where
  "read_environments w =
     (case dk_registry w of
        Registry envs \<Rightarrow> Inr envs
      | Registry_Absent \<Rightarrow> Inr []
      | Registry_Broken e \<Rightarrow> Inl e)"

text \<open>\<^verbatim>\<open>io\<close> is the outcome of creating the directory, serialising and writing.\<close>

definition write_environments ::
  "string + unit \<Rightarrow> environment_entry list \<Rightarrow> ('r, 'h, 's) desktop \<Rightarrow> (string + unit) \<times> ('r, 'h, 's) desktop" where
  "write_environments io envs w =
     (case io of
        Inl e \<Rightarrow> (Inl e, w)
      | Inr _ \<Rightarrow> (Inr (), w\<lparr>dk_registry := Registry envs\<rparr>))"

definition find_environment :: "string \<Rightarrow> environment_entry list \<Rightarrow> environment_entry option" where
  "find_environment i envs = find (\<lambda>e. en_id e = i) envs"

record descriptor =
  ds_id :: string
  ds_name :: string
  ds_has_home :: bool

definition active_environment_descriptor :: "('r, 'h, 's) desktop \<Rightarrow> descriptor option" where
  "active_environment_descriptor w =
     (case ae_id (dk_active w) of
        None \<Rightarrow> None
      | Some i \<Rightarrow>
          (let name = unwrap_or i
             (case read_environments w of
                Inl _ \<Rightarrow> None
              | Inr envs \<Rightarrow> map_option en_name (find_environment i envs))
           in Some \<lparr>ds_id = i, ds_name = name, ds_has_home = ae_has_home (dk_active w)\<rparr>))"

end
