(* ===== verification/Desktop_Modules.thy ===== *)
theory Desktop_Modules
  imports Desktop_World
begin

text \<open>
  The containerised services of an environment (\<^verbatim>\<open>topology.rs\<close>, \<^verbatim>\<open>modules.rs\<close>) and the shared collector
  (\<^verbatim>\<open>telemetry.rs\<close>). The crate \<^verbatim>\<open>olai-stack-topology\<close> plans a manifest; its plan is a record of what the code
  reads from it. An invocation of \<^verbatim>\<open>docker\<close> is an argument with its outcome.
\<close>

section \<open>The module catalogue\<close>

record module_descriptor =
  md_id :: string
  md_label :: string

definition topology_modules :: "module_descriptor list" where
  "topology_modules =
     [\<lparr>md_id = ''headwaters'', md_label = ''Lineage''\<rparr>,
      \<lparr>md_id = ''mlflow'', md_label = ''Model tracking''\<rparr>,
      \<lparr>md_id = ''azurite'', md_label = ''Object storage''\<rparr>]"

definition is_known_module :: "string \<Rightarrow> bool" where
  "is_known_module i \<longleftrightarrow> list_ex (\<lambda>m. md_id m = i) topology_modules"

definition HEADWATERS_SERVE_UI :: string where
  "HEADWATERS_SERVE_UI = ''HEADWATERS_SERVE_UI''"

definition LINEAGE_ENDPOINT_ID :: string where
  "LINEAGE_ENDPOINT_ID = ''api''"

text \<open>The roles and the vantage the code names.\<close>

datatype service_role = Role_Object_Store | Role_Lineage

datatype vantage = Vantage_Host

definition IN_PROCESS_VANTAGE :: vantage where
  "IN_PROCESS_VANTAGE = Vantage_Host"

record selection =
  sl_modules :: "string list"
  sl_knob_overrides :: "string \<rightharpoonup> (string \<rightharpoonup> string)"

definition selection_of :: "string list \<Rightarrow> selection" where
  "selection_of modules =
     \<lparr>sl_modules = modules,
      sl_knob_overrides =
        (if list_ex (\<lambda>m. m = ''headwaters'') modules
         then [''headwaters'' \<mapsto> [HEADWATERS_SERVE_UI \<mapsto> ''false'']] else Map.empty)\<rparr>"

record plan_ctx =
  pc_env_name :: string
  pc_data_root :: string
  pc_gateway_host_port :: nat
  pc_provider_preference :: "service_role \<rightharpoonup> string list"

definition plan_ctx_of :: "string \<Rightarrow> string \<Rightarrow> nat \<Rightarrow> plan_ctx" where
  "plan_ctx_of env_name data_root port =
     \<lparr>pc_env_name = env_name, pc_data_root = data_root, pc_gateway_host_port = port,
      pc_provider_preference = [Role_Object_Store \<mapsto> [''azurite'']]\<rparr>"

record stack_manifest =
  sm_selection :: selection
  sm_ctx :: plan_ctx

definition topology_manifest :: "string list \<Rightarrow> string \<Rightarrow> string \<Rightarrow> nat \<Rightarrow> stack_manifest" where
  "topology_manifest modules env_name data_root port =
     \<lparr>sm_selection = selection_of modules, sm_ctx = plan_ctx_of env_name data_root port\<rparr>"

text \<open>
  A plan: the nodes of its graph, the address of the service of a role from a vantage at an endpoint
  (both lookups can fail), and the files it renders.
\<close>

record stack_plan =
  sp_nodes :: "string list"
  sp_service_by_role :: "service_role \<Rightarrow> string + (vantage \<Rightarrow> string \<Rightarrow> string + string)"
  sp_files :: "(string \<times> string) list"

section \<open>Starting the modules of an environment\<close>

definition env_manifest :: "'s desktop_host \<Rightarrow> string \<Rightarrow> string list \<Rightarrow> stack_manifest" where
  "env_manifest dh env_id modules =
     topology_manifest modules (compose_project env_id) (env_data_dir (dh_root dh) env_id)
       (gateway_host_port (dh_env dh))"

record compose_exit =
  ce_success :: bool
  ce_status :: string
  ce_stderr :: string

record compose_io =
  co_docker :: bool
  co_dir :: "string + unit"
  co_data_dir :: "string + unit"
  co_manifest :: "string + unit"
  co_materialize :: "string + unit"
  co_up :: "string + compose_exit"

text \<open>\<^verbatim>\<open>docker compose up\<close>: if it could be run, the project may be up even when it reports failure.\<close>

definition compose_up ::
  "string \<Rightarrow> string \<Rightarrow> string \<Rightarrow> string + compose_exit \<Rightarrow> ('r, 'h, 's) desktop
    \<Rightarrow> (string + unit) \<times> ('r, 'h, 's) desktop" where
  "compose_up running failing project out w =
     (case out of
        Inl e \<Rightarrow> (Inl (running @ e), w)
      | Inr ex \<Rightarrow>
          (let w' = log_effect (Compose_Up project) w in
           if ce_success ex then (Inr (), w')
           else (Inl (failing @ '' ('' @ ce_status ex @ ''): '' @ str_trim (ce_stderr ex)), w')))"

definition start_compose ::
  "'s desktop_host \<Rightarrow> compose_io \<Rightarrow> string \<Rightarrow> ('r, 'h, 's) desktop \<Rightarrow> (string + unit) \<times> ('r, 'h, 's) desktop" where
  "start_compose dh io env_id w =
     (let project = compose_project env_id;
          dir = env_modules_dir (dh_root dh) env_id;
          data_dir = env_data_dir (dh_root dh) env_id in
      and_then (map_err (\<lambda>e. ''creating '' @ debug_str dir @ '': '' @ e) (co_dir io), compose_down project w) (\<lambda>_ w.
      and_then (map_err (\<lambda>e. ''creating '' @ debug_str data_dir @ '': '' @ e) (co_data_dir io), w) (\<lambda>_ w.
      and_then (map_err (\<lambda>e. ''writing environment manifest: '' @ e) (co_manifest io), w) (\<lambda>_ w.
      and_then (map_err (\<lambda>e. ''writing rendered compose project to '' @ debug_str dir @ '': '' @ e)
                  (co_materialize io), w) (\<lambda>_ w.
      compose_up ''running docker compose up: '' ''docker compose up failed'' project (co_up io)
        (track (Compose project) w))))))"

definition docker_missing :: string where
  "docker_missing =
     ''Docker is required for the selected services but the Docker daemon '' @
     ''is not running. Start Docker and try again.''"

definition start_modules ::
  "'s desktop_host \<Rightarrow> (stack_manifest \<Rightarrow> string + stack_plan) \<Rightarrow> compose_io \<Rightarrow> string \<Rightarrow> string list
    \<Rightarrow> ('r, 'h, 's) desktop \<Rightarrow> (string + stack_plan) \<times> ('r, 'h, 's) desktop" where
  "start_modules dh plan_of io env_id modules w =
     and_then (map_err (\<lambda>e. ''planning environment topology: '' @ e) (plan_of (env_manifest dh env_id modules)), w)
       (\<lambda>plan w.
          if sp_nodes plan = [] then (Inr plan, w)
          else if \<not> co_docker io then (Inl docker_missing, w)
          else and_then (start_compose dh io env_id w) (\<lambda>_ w. (Inr plan, w)))"

definition modules_lineage_endpoint :: "stack_plan \<Rightarrow> string option" where
  "modules_lineage_endpoint plan =
     (case sp_service_by_role plan Role_Lineage of
        Inl _ \<Rightarrow> None
      | Inr address \<Rightarrow>
          (case address IN_PROCESS_VANTAGE LINEAGE_ENDPOINT_ID of Inl _ \<Rightarrow> None | Inr url \<Rightarrow> Some url))"

section \<open>The shared collector\<close>

definition jaeger_otlp_port :: "(string \<Rightarrow> string option) \<Rightarrow> string" where
  "jaeger_otlp_port env = unwrap_or ''4318'' (env ''JAEGER_OTLP_HTTP_PORT'')"

definition start_jaeger ::
  "string + compose_exit \<Rightarrow> ('r, 'h, 's) desktop \<Rightarrow> (string + unit) \<times> ('r, 'h, 's) desktop" where
  "start_jaeger up w =
     compose_up ''starting shared telemetry collector: '' ''shared telemetry collector failed to start''
       TELEMETRY_PROJECT up w"

text \<open>\<^verbatim>\<open>telemetry::ensure\<close>; \<^verbatim>\<open>dk_telemetry\<close> tells that the guard is held.\<close>

definition telemetry_ensure ::
  "'s desktop_host \<Rightarrow> string + compose_exit \<Rightarrow> ('r, 'h, 's) desktop \<Rightarrow> (string + unit) \<times> ('r, 'h, 's) desktop" where
  "telemetry_ensure dh up w =
     (if dk_telemetry w then (Inr (), w)
      else and_then (start_jaeger up (compose_down TELEMETRY_PROJECT w)) (\<lambda>_ w.
        (Inr (), w\<lparr>dk_otel := Some (''http://localhost:'' @ jaeger_otlp_port (dh_env dh) @ ''/v1/traces''),
                   dk_telemetry := True\<rparr>)))"

section \<open>Status and artifacts\<close>

text \<open>\<^verbatim>\<open>str::lines\<close>.\<close>

definition str_lines :: "string \<Rightarrow> string list" where
  "str_lines s =
     (let ls = str_split CHR 0x0A s;
          ls' = (if last ls = [] then butlast ls else ls)
      in map (\<lambda>l. if str_ends_with_char CHR 0x0D l then butlast l else l) ls')"

record service_status =
  ss_service :: string
  ss_state :: string
  ss_health :: string
  ss_shared :: bool

definition status_row :: "bool \<Rightarrow> json \<Rightarrow> service_status option" where
  "status_row shared row =
     map_option (\<lambda>service.
         \<lparr>ss_service = service,
          ss_state = unwrap_or [] (Option.bind (json_get ''State'' row) json_as_str),
          ss_health = unwrap_or [] (Option.bind (json_get ''Health'' row) json_as_str),
          ss_shared = shared\<rparr>)
       (Option.bind (json_get ''Service'' row) json_as_str)"

text \<open>
  \<^verbatim>\<open>compose_ps\<close>: \<^verbatim>\<open>out\<close> is what the command printed if it could be run and succeeded, \<^verbatim>\<open>parse\<close> is
  \<^verbatim>\<open>serde_json::from_str\<close>.
\<close>

definition compose_ps :: "(string \<Rightarrow> json option) \<Rightarrow> string option \<Rightarrow> bool \<Rightarrow> service_status list" where
  "compose_ps parse out shared =
     (case out of
        None \<Rightarrow> []
      | Some txt \<Rightarrow>
          (let rows = List.map_filter parse (filter (\<lambda>l. str_trim l \<noteq> []) (str_lines txt));
               rows' = (if rows = []
                        then (case parse (str_trim txt) of Some (JArray arr) \<Rightarrow> arr | _ \<Rightarrow> [])
                        else rows)
           in List.map_filter (status_row shared) rows'))"

text \<open>\<^verbatim>\<open>ps\<close> gives the output of \<^verbatim>\<open>docker compose ps\<close> for a project.\<close>

definition service_status_of ::
  "(string \<Rightarrow> json option) \<Rightarrow> (string \<Rightarrow> string option) \<Rightarrow> string \<Rightarrow> service_status list" where
  "service_status_of parse ps env_id =
     compose_ps parse (ps (compose_project env_id)) False @ compose_ps parse (ps TELEMETRY_PROJECT) True"

definition telemetry_running :: "(string \<Rightarrow> json option) \<Rightarrow> (string \<Rightarrow> string option) \<Rightarrow> bool" where
  "telemetry_running parse ps \<longleftrightarrow>
     list_ex (\<lambda>s. ss_state s = ''running'') (compose_ps parse (ps TELEMETRY_PROJECT) True)"

record config_artifact =
  ca_id :: string
  ca_label :: string
  ca_description :: string
  ca_language :: string
  ca_content :: string

definition config_artifacts ::
  "'s desktop_host \<Rightarrow> (stack_manifest \<Rightarrow> string + stack_plan) \<Rightarrow> string list \<Rightarrow> string + config_artifact list" where
  "config_artifacts dh plan_of modules =
     map_ok (\<lambda>plan. map (\<lambda>(path, contents).
           \<lparr>ca_id = path, ca_label = artifact_label path, ca_description = artifact_description path,
            ca_language = artifact_language path, ca_content = contents\<rparr>) (sp_files plan))
       (map_err (\<lambda>e. ''planning environment topology: '' @ e)
         (plan_of (topology_manifest modules ''<env>'' (env_data_dir (dh_root dh) ''<env>'')
            (gateway_host_port (dh_env dh)))))"

end
