(* ===== verification/Desktop_Uc.thy ===== *)
theory Desktop_Uc
  imports Desktop_Modules
begin

text \<open>
  The Unity Catalog server of an environment and the proxy to it (\<^verbatim>\<open>uc.rs\<close>). The events of a child, HTTP
  exchanges and the URL parser are arguments.
\<close>

section \<open>Configuration\<close>

definition KEK_ENV_VAR :: string where
  "KEK_ENV_VAR = ''OPEN_LAKEHOUSE_UC_KEK''"

definition uc_config_text :: "string \<Rightarrow> string \<Rightarrow> string \<Rightarrow> string" where
  "uc_config_text db key_id root =
     concat (map (\<lambda>l. l @ [CHR 0x0A])
       [''host: 127.0.0.1'',
        ''port: 0'',
        ''backend:'',
        ''  engine: sqlite'',
        ''  path: '' @ db,
        ''encryption:'',
        ''  active:'',
        ''    id: '' @ key_id,
        ''    key:'',
        ''      env: '' @ KEK_ENV_VAR,
        ''local_storage:'',
        ''  allowed-roots:'',
        ''    - '' @ root,
        ''managed_storage_root: '' @ [CHR 0x22] @ ''file://'' @ root @ [CHR 0x22]])"

record uc_config_io =
  uc_data_dir :: "string + unit"
  uc_canonical :: "string + string"
  uc_storage :: "string + unit"
  uc_write :: "string + unit"

text \<open>
  \<^verbatim>\<open>write_uc_config\<close>: \<^verbatim>\<open>canonicalize\<close> gives another name of the data directory, where the key record is
  therefore the one of that directory.
\<close>

definition write_uc_config ::
  "uc_config_io \<Rightarrow> string \<Rightarrow> string \<Rightarrow> ('r, 'h, 's) desktop \<Rightarrow> (string + string) \<times> ('r, 'h, 's) desktop" where
  "write_uc_config io env_id data_dir w =
     and_then (map_err (\<lambda>e. ''creating '' @ debug_str data_dir @ '': '' @ e) (uc_data_dir io), w) (\<lambda>_ w.
     and_then (uc_canonical io, w) (\<lambda>canonical w.
       let db_path = join_path canonical ''catalog.db'';
           storage_root = join_path canonical ''storage'' in
       and_then (uc_storage io, w) (\<lambda>_ w.
         let key_id = unwrap_or env_id (map_option kcf_key_id (kw_records (dk_keys w) data_dir));
             config_path = join_path canonical ''config.yaml'' in
         and_then (map_err (\<lambda>e. ''writing config: '' @ e) (uc_write io), w) (\<lambda>_ w.
           (Inr config_path, write_file config_path (as_bytes (uc_config_text db_path key_id storage_root)) w)))))"

section \<open>Seeding\<close>

text \<open>
  \<^verbatim>\<open>get\<close> is sending and reading the JSON answer; \<^verbatim>\<open>post\<close> is sending, then checking the status. The result
  comes with the calls made.
\<close>

definition seed_uc ::
  "(string \<Rightarrow> string + json) \<Rightarrow> (string \<Rightarrow> json \<Rightarrow> string + (string + unit)) \<Rightarrow> string
    \<Rightarrow> (string + unit) \<times> http_call list" where
  "seed_uc get_json post endpoint =
     (let base = trim_end_char slash endpoint;
          catalogs = base @ ''/catalogs'';
          schemas = base @ ''/schemas'';
          main = JObject [(''name'', JString ''main''), (''comment'', JString ''Default catalog'')];
          dflt = JObject [(''name'', JString ''default''), (''catalog_name'', JString ''main'')] in
      case get_json catalogs of
        Inl e \<Rightarrow> (Inl e, [Http_Get catalogs])
      | Inr existing \<Rightarrow>
          if (case json_get ''catalogs'' existing of Some (JArray a) \<Rightarrow> a \<noteq> [] | _ \<Rightarrow> False)
          then (Inr (), [Http_Get catalogs])
          else
            (case post catalogs main of
               Inl e \<Rightarrow> (Inl e, [Http_Get catalogs, Http_Post catalogs main])
             | Inr (Inl e) \<Rightarrow> (Inl (''create catalog: '' @ e), [Http_Get catalogs, Http_Post catalogs main])
             | Inr (Inr _) \<Rightarrow>
                 (case post schemas dflt of
                    Inl e \<Rightarrow> Inl e
                  | Inr (Inl e) \<Rightarrow> Inl (''create schema: '' @ e)
                  | Inr (Inr _) \<Rightarrow> Inr (),
                  [Http_Get catalogs, Http_Post catalogs main, Http_Post schemas dflt])))"

section \<open>Starting the server\<close>

datatype command_event = Stdout string | Stderr string | Terminated "int option" | Other_Event

text \<open>
  The loop over a child's events up to the line that announces its address: lines without one are
  skipped, an exit or the end of the events is an error. It returns at the latest when the events end.
\<close>

fun scrape_address :: "string \<Rightarrow> (string \<Rightarrow> 'a option) \<Rightarrow> command_event list \<Rightarrow> string + 'a" where
  "scrape_address who parse [] = Inl (who @ '' stream ended before announcing its address'')"
| "scrape_address who parse (Stdout line # evs) =
     (case parse line of Some a \<Rightarrow> Inr a | None \<Rightarrow> scrape_address who parse evs)"
| "scrape_address who parse (Stderr line # evs) =
     (case parse line of Some a \<Rightarrow> Inr a | None \<Rightarrow> scrape_address who parse evs)"
| "scrape_address who parse (Terminated code # evs) =
     Inl (who @ '' exited before announcing its address (code '' @
       (case code of None \<Rightarrow> ''None'' | Some c \<Rightarrow> ''Some('' @ int_to_string c @ '')'') @ '')'')"
| "scrape_address who parse (Other_Event # evs) = scrape_address who parse evs"

text \<open>What the child is started with; the key travels in its environment only.\<close>

record spawn_request =
  sr_program :: string
  sr_args :: "string list"
  sr_env :: "(string \<times> string) list"
  sr_dir :: "string option"

record uc_spawn_io =
  us_minted :: "string + string"
  us_sidecar :: "string + unit"
  us_child :: "spawn_request \<Rightarrow> string + nat"
  us_events :: "command_event list"
  us_get :: "string \<Rightarrow> string + json"
  us_post :: "string \<Rightarrow> json \<Rightarrow> string + (string + unit)"

definition uc_arguments :: "string \<Rightarrow> string list" where
  "uc_arguments config_path =
     [''server'', ''--config'', config_path, ''--port'', ''0'', ''--quiet'']"

text \<open>\<^verbatim>\<open>spawn_uc_sidecar\<close>; a failure of the seeding is only logged.\<close>

definition spawn_uc_sidecar ::
  "'s desktop_host \<Rightarrow> uc_spawn_io \<Rightarrow> string \<Rightarrow> string \<Rightarrow> ('r, 'h, 's) desktop
    \<Rightarrow> (string + string) \<times> ('r, 'h, 's) desktop" where
  "spawn_uc_sidecar dh io env_id config_path w =
     (let (key, keys) = ensure_kek (dh_macos dh) (dh_keychain dh) (us_minted io) env_id (dk_keys w) in
      and_then (key, w\<lparr>dk_keys := keys\<rparr>) (\<lambda>kek w.
      and_then (map_err (\<lambda>e. ''uc-server sidecar not found (run `just uc-setup`?): '' @ e) (us_sidecar io), w) (\<lambda>_ w.
      and_then (map_err (\<lambda>e. ''failed to spawn uc server: '' @ e)
                  (us_child io \<lparr>sr_program = ''uc-server'', sr_args = uc_arguments config_path,
                                sr_env = [(KEK_ENV_VAR, kek)], sr_dir = None\<rparr>), w) (\<lambda>child w.
      and_then (scrape_address ''uc server'' parse_uc_addr (us_events io),
                track (Sidecar ''uc-server'' child) (log_effect (Spawned child) w)) (\<lambda>addr w.
        let endpoint = ''http://'' @ addr @ ''/api/2.1/unity-catalog/'' in
        (Inr endpoint, log_effects (map Http_Sent (snd (seed_uc (us_get io) (us_post io) endpoint))) w))))))"

section \<open>The proxy\<close>

definition UI_UC_PREFIX :: string where
  "UI_UC_PREFIX = ''/api/2.1/unity-catalog''"

record proxy_call =
  px_method :: string
  px_target :: string
  px_headers :: "(string \<times> string) list"
  px_body :: "string option"

record proxy_response =
  pr_status :: nat
  pr_body :: string
  pr_headers :: "(string \<times> string) list"

text \<open>The forwarded URL; \<^verbatim>\<open>join\<close> parses against the dummy base and gives the path and the query.\<close>

definition proxy_target ::
  "(string \<Rightarrow> string + (string \<times> string option)) \<Rightarrow> string \<Rightarrow> string \<Rightarrow> string + string" where
  "proxy_target join endpoint url =
     (case join url of
        Inl e \<Rightarrow> Inl (''bad proxy url '' @ url @ '': '' @ e)
      | Inr (path, query) \<Rightarrow>
          (case str_strip_prefix UI_UC_PREFIX path of
             None \<Rightarrow> Inl (''not a Unity Catalog path: '' @ path)
           | Some rest \<Rightarrow>
               (let target = trim_end_char slash endpoint @ [slash] @ trim_start_char slash rest
                in Inr (case query of None \<Rightarrow> target | Some q \<Rightarrow> target @ ''?'' @ q))))"

definition forwarded_header :: "string \<times> string \<Rightarrow> bool" where
  "forwarded_header h \<longleftrightarrow> to_ascii_lowercase (fst h) \<notin> {''host'', ''origin'', ''content-length''}"

text \<open>
  \<^verbatim>\<open>proxy_request\<close>: \<^verbatim>\<open>verb\<close> checks the method, \<^verbatim>\<open>send\<close> answers the status, the headers (a value that is not
  visible ASCII is given as \<^const>\<open>None\<close>) and the body.
\<close>

definition proxy_request ::
  "(string \<Rightarrow> string + (string \<times> string option)) \<Rightarrow> (string \<Rightarrow> string + unit)
    \<Rightarrow> (proxy_call \<Rightarrow> string + (nat \<times> (string \<times> string option) list \<times> (string + string)))
    \<Rightarrow> string \<Rightarrow> string \<Rightarrow> (string \<times> string) list \<Rightarrow> string
    \<Rightarrow> ('r, 'h, 's) desktop \<Rightarrow> string + proxy_response" where
  "proxy_request join verb send method url hdrs body w =
     (case app_unity_endpoint w of
        None \<Rightarrow> Inl ''Unity Catalog is not running''
      | Some endpoint \<Rightarrow>
          try_bind (proxy_target join endpoint url) (\<lambda>target.
          try_bind (map_err (\<lambda>e. ''bad method '' @ method @ '': '' @ e) (verb method)) (\<lambda>_.
          try_bind (map_err (\<lambda>e. ''uc proxy: '' @ e)
            (send \<lparr>px_method = method, px_target = target, px_headers = filter forwarded_header hdrs,
                   px_body = (if body = [] then None else Some body)\<rparr>)) (\<lambda>(status, resp_headers, resp).
          map_ok (\<lambda>b. \<lparr>pr_status = status, pr_body = b,
                        pr_headers = map (\<lambda>(k, v). (k, unwrap_or [] v)) resp_headers\<rparr>)
            (map_err (\<lambda>e. ''uc proxy body: '' @ e) resp)))))"

end
