(* ===== verification/Unity_Factory.thy ===== *)
theory Unity_Factory
  imports Rust_Prelude
begin

text \<open>
  What the builder of the Unity Catalog client's factory is given, by the server binary
  (\<^verbatim>\<open>crates/hydrofoil/src/main.rs\<close>), by its engine and by the desktop host (\<^verbatim>\<open>crates/desktop-host\<close>). The
  client itself is outside; the answer of \<^verbatim>\<open>build\<close> is an argument of the operations that call it.
\<close>

datatype unity_auth = With_Token string | Allow_Unauthenticated

record factory_request =
  fr_uri :: string
  fr_auth :: unity_auth
  fr_region :: "string option"

end
