(* ===== verification/Desktop_Host.thy ===== *)
theory Desktop_Host
  imports Desktop_Uc Unity_Factory
begin

text \<open>
  The executors an environment binds: what \<^verbatim>\<open>crates/desktop-host/src/lib.rs\<close> builds from a configuration,
  and \<^verbatim>\<open>activate_endpoint\<close> of the desktop application, which makes it the active environment.
\<close>

section \<open>The host\<close>

record host_config =
  hc_unity_endpoint :: "string option"
  hc_unity_token :: "string option"
  hc_unity_region :: "string option"
  hc_home_root :: "string option"
  hc_lineage_endpoint :: "string option"
  hc_session_ttl_secs :: nat
  hc_query_default_limit :: nat
  hc_query_max_limit :: nat

definition host_config_default :: host_config where
  "host_config_default =
     \<lparr>hc_unity_endpoint = None, hc_unity_token = None, hc_unity_region = None, hc_home_root = None,
      hc_lineage_endpoint = None, hc_session_ttl_secs = 1800, hc_query_default_limit = 1000,
      hc_query_max_limit = 10000\<rparr>"

definition nonempty_str :: "string option \<Rightarrow> string option" where
  "nonempty_str x = option_filter (\<lambda>s. s \<noteq> []) x"

definition unity_factory ::
  "(factory_request \<Rightarrow> string + 'f) \<Rightarrow> host_config \<Rightarrow> string + 'f" where
  "unity_factory build cfg =
     (case nonempty_str (hc_unity_endpoint cfg) of
        None \<Rightarrow> Inl ''unity_endpoint is required to build a Unity Catalog factory''
      | Some endpoint \<Rightarrow>
          map_err (\<lambda>_. ''failed to build Unity Catalog object-store factory'')
            (build \<lparr>fr_uri = endpoint,
                    fr_auth = (case nonempty_str (hc_unity_token cfg) of
                                 Some token \<Rightarrow> With_Token token | None \<Rightarrow> Allow_Unauthenticated),
                    fr_region = nonempty_str (hc_unity_region cfg)\<rparr>))"

text \<open>The file store by its parts: what backs the volumes, and the root of the home volume if there is one.\<close>

datatype 'f volumes_backend = Memory_Volumes | Unity_Volumes 'f

datatype 'f host_files_backend = Volumes_Only "'f volumes_backend" | Home_And_Volumes string "'f volumes_backend"

definition volumes_store ::
  "(factory_request \<Rightarrow> string + 'f) \<Rightarrow> host_config \<Rightarrow> string + 'f volumes_backend" where
  "volumes_store build cfg =
     (case nonempty_str (hc_unity_endpoint cfg) of
        None \<Rightarrow> Inr Memory_Volumes
      | Some _ \<Rightarrow> map_ok Unity_Volumes (unity_factory build cfg))"

text \<open>\<^verbatim>\<open>local\<close> is the outcome of \<^verbatim>\<open>LocalFileStore::new\<close>, which creates the root.\<close>

definition files_store ::
  "(factory_request \<Rightarrow> string + 'f) \<Rightarrow> (string \<Rightarrow> string + unit) \<Rightarrow> host_config \<Rightarrow> string + 'f host_files_backend" where
  "files_store build new_local cfg =
     try_bind (volumes_store build cfg) (\<lambda>volumes.
       case hc_home_root cfg of
         None \<Rightarrow> Inr (Volumes_Only volumes)
       | Some home_root \<Rightarrow>
           map_ok (\<lambda>_. Home_And_Volumes home_root volumes)
             (map_err (\<lambda>_. ''creating home volume at '' @ debug_str home_root) (new_local home_root)))"

text \<open>The URL the lineage client posts to; \<^verbatim>\<open>parse_url\<close> accepts or rejects it.\<close>

definition lineage_url :: "string \<Rightarrow> string" where
  "lineage_url base = trim_end_char slash base @ ''/api/v1/lineage''"

definition build_lineage_client :: "(string \<Rightarrow> string + unit) \<Rightarrow> host_config \<Rightarrow> string + string option" where
  "build_lineage_client parse_url cfg =
     (case nonempty_str (hc_lineage_endpoint cfg) of
        None \<Rightarrow> Inr None
      | Some base \<Rightarrow>
          map_ok (\<lambda>_. Some (lineage_url base))
            (map_err (\<lambda>_. ''invalid lineage endpoint '' @ debug_str (lineage_url base))
              (parse_url (lineage_url base))))"

record 'f engine_config =
  ec_unity :: "('f \<times> string option \<times> string option) option"
  ec_lineage :: "string option"
  ec_ttl_secs :: nat

text \<open>\<^verbatim>\<open>try_new\<close> is the outcome of creating the engine.\<close>

definition build_query_engine ::
  "string + unit \<Rightarrow> (factory_request \<Rightarrow> string + 'f) \<Rightarrow> (string \<Rightarrow> string + unit) \<Rightarrow> host_config
    \<Rightarrow> string + 'f engine_config" where
  "build_query_engine try_new build parse_url cfg =
     try_bind (map_err (\<lambda>_. ''failed to initialize query engine'') try_new) (\<lambda>_.
     try_bind (if nonempty_str (hc_unity_endpoint cfg) \<noteq> None
               then map_ok (\<lambda>f. Some (f, hc_unity_endpoint cfg, nonempty_str (hc_unity_region cfg)))
                      (unity_factory build cfg)
               else Inr None) (\<lambda>unity.
     try_bind (build_lineage_client parse_url cfg) (\<lambda>lineage.
       Inr \<lparr>ec_unity = unity, ec_lineage = lineage, ec_ttl_secs = hc_session_ttl_secs cfg\<rparr>)))"

record 'f host_services =
  hs_files :: "'f host_files_backend"
  hs_engine :: "'f engine_config"
  hs_default_limit :: nat
  hs_max_limit :: nat

definition host_build ::
  "(factory_request \<Rightarrow> string + 'f) \<Rightarrow> (string \<Rightarrow> string + unit) \<Rightarrow> string + unit \<Rightarrow> (string \<Rightarrow> string + unit)
    \<Rightarrow> host_config \<Rightarrow> string + 'f host_services" where
  "host_build build new_local try_new parse_url cfg =
     try_bind (files_store build new_local cfg) (\<lambda>fs.
     try_bind (build_query_engine try_new build parse_url cfg) (\<lambda>engine.
       Inr \<lparr>hs_files = fs, hs_engine = engine, hs_default_limit = hc_query_default_limit cfg,
            hs_max_limit = hc_query_max_limit cfg\<rparr>))"

section \<open>Activation\<close>

text \<open>
  \<^verbatim>\<open>seed_home_dir\<close>: \<^verbatim>\<open>non_empty\<close> tells whether the directory has entries; a write that fails is only logged
  (\<^verbatim>\<open>ok\<close> tells which succeed).
\<close>

definition seed_sql :: string where
  "seed_sql = ''SELECT * FROM main.default.users'' @ [CHR 0x0A] @ ''ORDER BY events DESC'' @ [CHR 0x0A]
     @ ''LIMIT 10;'' @ [CHR 0x0A]"

definition seed_readme :: string where
  "seed_readme = ''# Home'' @ [CHR 0x0A, CHR 0x0A] @ ''Local scratch space for SQL and notes.'' @ [CHR 0x0A]"

definition seed_home_dir ::
  "bool \<Rightarrow> (string \<Rightarrow> bool) \<Rightarrow> string \<Rightarrow> ('r, 'h, 's) desktop \<Rightarrow> ('r, 'h, 's) desktop" where
  "seed_home_dir non_empty ok home w =
     (if non_empty then w
      else
        let put = (\<lambda>rel body w. if ok (join_path home rel)
                     then write_file (join_path home rel) (as_bytes body) w else w)
        in put ''README.md'' seed_readme (put ''queries/example.sql'' seed_sql w))"

record ('r, 'h) activate_io =
  ac_home :: "string + unit"
  ac_home_non_empty :: bool
  ac_seed_ok :: "string \<Rightarrow> bool"
  ac_build :: "host_config \<Rightarrow> string + ('r, 'h) hosted"

definition activate_config ::
  "string option \<Rightarrow> string option \<Rightarrow> string option \<Rightarrow> host_config" where
  "activate_config unity_endpoint lineage_endpoint home_root =
     host_config_default\<lparr>hc_unity_endpoint := unity_endpoint, hc_lineage_endpoint := lineage_endpoint,
       hc_home_root := home_root\<rparr>"

definition activate_endpoint ::
  "'s desktop_host \<Rightarrow> ('r, 'h) activate_io \<Rightarrow> string option \<Rightarrow> string option \<Rightarrow> string option
    \<Rightarrow> ('r, 'h, 's) desktop \<Rightarrow> (string + unit) \<times> ('r, 'h, 's) desktop" where
  "activate_endpoint dh io i unity_endpoint lineage_endpoint w =
     and_then
       (case i of
          None \<Rightarrow> (Inr None, w)
        | Some env_id \<Rightarrow>
            (let home = env_home_dir (dh_root dh) env_id in
             and_then (map_err (\<lambda>e. ''creating '' @ debug_str home @ '': '' @ e) (ac_home io), w) (\<lambda>_ w.
               (Inr (Some home), seed_home_dir (ac_home_non_empty io) (ac_seed_ok io) home w))))
       (\<lambda>home_root w.
         and_then (map_err (\<lambda>e. ''failed to build in-process services: '' @ e)
                     (ac_build io (activate_config unity_endpoint lineage_endpoint home_root)), w)
           (\<lambda>hosted w.
             (Inr (), w\<lparr>dk_active :=
                \<lparr>ae_id = i, ae_hosted = Some hosted, ae_unity_endpoint = unity_endpoint,
                 ae_lineage_endpoint = lineage_endpoint, ae_has_home = (home_root \<noteq> None)\<rparr>\<rparr>)))"

end
