(* ===== verification/Desktop_Notebook.thy ===== *)
theory Desktop_Notebook
  imports Desktop_Host
begin

text \<open>
  Notebooks (\<^verbatim>\<open>notebook.rs\<close>): the shared marimo server of the active environment, and the working copies
  of the notebooks that are open. The file store of the active environment is a record of operations; a
  working copy is a file on disk that marimo edits (\<^verbatim>\<open>edit_working_copy\<close> below).
\<close>

section \<open>The marimo server\<close>

fun store_error_text :: "store_error \<Rightarrow> string" where
  "store_error_text (NotFound m) = m @ '' not found''"
| "store_error_text (AlreadyExists m) = m @ '' already exists''"
| "store_error_text (InvalidArgument m) = ''invalid argument: '' @ m"
| "store_error_text (FailedPrecondition m) = ''failed precondition: '' @ m"
| "store_error_text (Internal m) = ''internal error: '' @ m"

definition MARIMO_CONFIG :: string where
  "MARIMO_CONFIG =
     (let q = (\<lambda>s. [CHR 0x22] @ s @ [CHR 0x22]) in
      concat (map (\<lambda>l. l @ [CHR 0x0A])
       [''# Generated per-environment by open-lakehouse; do not edit by hand.'',
        ''[package_management]'',
        ''manager = '' @ q ''uv'',
        [],
        ''[ai]'',
        ''enabled = false'',
        [],
        ''[save]'',
        ''autosave = '' @ q ''after_delay'',
        ''autosave_delay = 1000'',
        ''format_on_save = true'',
        [],
        ''[formatting]'',
        ''line_length = 88'',
        [],
        ''[language_servers.ty]'',
        ''enabled = true'',
        [],
        ''[display]'',
        ''theme = '' @ q ''dark'',
        ''default_width = '' @ q ''medium'',
        [],
        ''[server]'',
        ''follow_symlink = false'']))"

definition str_ends_with :: "string \<Rightarrow> string \<Rightarrow> bool" where
  "str_ends_with p s \<longleftrightarrow> str_starts_with (rev p) (rev s)"

text \<open>
  \<^verbatim>\<open>uc_client_wheel\<close>: \<^verbatim>\<open>dev_dir\<close> is the wheels directory of a checkout, \<^verbatim>\<open>list_dir\<close> the names in a
  directory that can be read.
\<close>

definition uc_client_wheel ::
  "(string \<Rightarrow> string option) \<Rightarrow> string option \<Rightarrow> (string \<Rightarrow> string list option) \<Rightarrow> string option" where
  "uc_client_wheel env dev_dir list_dir =
     Option.bind (case env ''OPEN_LAKEHOUSE_UC_WHEELS'' of Some d \<Rightarrow> Some d | None \<Rightarrow> dev_dir) (\<lambda>dir.
     Option.bind (list_dir dir) (\<lambda>names.
       map_option (join_path dir)
         (find (\<lambda>n. str_starts_with ''unitycatalog_client-'' n \<and> str_ends_with ''.whl'' n) names)))"

definition marimo_arguments :: "string option \<Rightarrow> string \<Rightarrow> string list" where
  "marimo_arguments wheel workdir =
     (case wheel of
        None \<Rightarrow> []
      | Some p \<Rightarrow> [''--with'', ''unitycatalog_client[obstore] @ '' @ p, ''--with'', ''obstore'']) @
     [''marimo'', ''edit'', ''--headless'', ''--host'', ''127.0.0.1'', ''-p'', ''0'', ''--no-token'',
      ''--no-sandbox'', workdir]"

definition marimo_environment :: "string option \<Rightarrow> string option \<Rightarrow> (string \<times> string) list" where
  "marimo_environment uc_url sink_url =
     (case uc_url of None \<Rightarrow> [] | Some u \<Rightarrow> [(''OPEN_LAKEHOUSE_UC_URL'', u), (''UC_URI'', u)]) @
     (case sink_url of None \<Rightarrow> [] | Some u \<Rightarrow> [(''LINEAGE_URL'', u)])"

record marimo_io =
  mi_workdir :: "string + unit"
  mi_config :: "string + unit"
  mi_dev_wheels :: "string option"
  mi_list_dir :: "string \<Rightarrow> string list option"
  mi_child :: "spawn_request \<Rightarrow> string + nat"
  mi_events :: "command_event list"

definition ensure_marimo ::
  "'s desktop_host \<Rightarrow> marimo_io \<Rightarrow> string \<Rightarrow> string option \<Rightarrow> string option
    \<Rightarrow> ('r, 'h, 's) desktop \<Rightarrow> (string + string) \<times> ('r, 'h, 's) desktop" where
  "ensure_marimo dh io workdir uc_url sink_url w =
     (case dk_endpoint w of
        Some endpoint \<Rightarrow> (Inr endpoint, w)
      | None \<Rightarrow>
          and_then (map_err (\<lambda>e. ''creating notebook workdir: '' @ e) (mi_workdir io), w) (\<lambda>_ w.
          and_then (map_err (\<lambda>e. ''writing marimo config: '' @ e) (mi_config io), w) (\<lambda>_ w.
            let w = write_file (join_path workdir ''.marimo.toml'') (as_bytes MARIMO_CONFIG) w;
                req = \<lparr>sr_program = ''uvx'',
                       sr_args = marimo_arguments (uc_client_wheel (dh_env dh) (mi_dev_wheels io) (mi_list_dir io)) workdir,
                       sr_env = marimo_environment uc_url sink_url, sr_dir = Some workdir\<rparr> in
            and_then (map_err (\<lambda>e. ''failed to spawn marimo (is `uvx` on PATH?): '' @ e) (mi_child io req), w) (\<lambda>child w.
            and_then (scrape_address ''marimo'' parse_marimo_base (mi_events io),
                      track (Sidecar ''marimo'' child) (log_effect (Spawned child) w)) (\<lambda>base w.
              (Inr base, w\<lparr>dk_endpoint := Some base\<rparr>))))))"

section \<open>Sessions\<close>

record opened_notebook =
  on_url :: string
  on_session_id :: string

record open_io =
  oi_workdir :: "string + unit"
  oi_write :: "string + unit"
  oi_marimo :: marimo_io

definition open_notebook ::
  "'s desktop_host \<Rightarrow> 'h file_store \<Rightarrow> open_io \<Rightarrow> string \<Rightarrow> ('r, 'h, 's) desktop
    \<Rightarrow> (string + opened_notebook) \<times> ('r, 'h, 's) desktop" where
  "open_notebook dh fs io path w =
     (let active = dk_active w in
      and_then (ok_or ''no environment selected'' (ae_id active), w) (\<lambda>env_id w.
      and_then (ok_or ''no environment selected'' (ae_hosted active), w) (\<lambda>hosted w.
        let workdir = env_notebooks_dir (dh_root dh) env_id in
        and_then (map_err (\<lambda>e. ''creating notebook workdir: '' @ e) (oi_workdir io), w) (\<lambda>_ w.
        and_then (map_err (\<lambda>e. ''reading notebook '' @ path @ '': '' @ store_error_text e)
                    (fs_read_file fs path None None (ho_files hosted)), w) (\<lambda>content w.
          let working_path = join_path workdir (working_name path) in
          and_then (map_err (\<lambda>e. ''writing working copy: '' @ e) (oi_write io), w) (\<lambda>_ w.
          and_then (ensure_marimo dh (oi_marimo io) workdir (ae_unity_endpoint active) (ae_lineage_endpoint active)
                      (write_file working_path content w)) (\<lambda>base w.
            let session_id = working_name path in
            (Inr \<lparr>on_url = trim_end_char slash base @ ''/?file='' @ working_name path, on_session_id = session_id\<rparr>,
             w\<lparr>dk_sessions := (dk_sessions w)(session_id \<mapsto>
                 \<lparr>ns_volume_path = path, ns_working_path = working_path\<rparr>)\<rparr>))))))))"

text \<open>
  \<^verbatim>\<open>sync_notebook\<close>: the working copy is read if it is there (\<^verbatim>\<open>e\<close> is the message of a failed read) and put
  into the active environment's file store.
\<close>

definition sync_notebook ::
  "'h file_store \<Rightarrow> ambient \<Rightarrow> string \<Rightarrow> string \<Rightarrow> ('r, 'h, 's) desktop
    \<Rightarrow> (string + unit) \<times> ('r, 'h, 's) desktop" where
  "sync_notebook fs amb e session_id w =
     and_then (ok_or ''no environment selected'' (ae_hosted (dk_active w)), w) (\<lambda>hosted w.
     and_then (ok_or ''unknown notebook session'' (dk_sessions w session_id), w) (\<lambda>session w.
     and_then (ok_or (''reading working copy for sync: '' @ e) (dk_files w (ns_working_path session)), w) (\<lambda>content w.
       let (r, files) = fs_put_file fs amb (ns_volume_path session) (Some ''text/x-python'') content (ho_files hosted)
       in (map_ok (\<lambda>_. ()) (map_err (\<lambda>e. ''writing notebook back to '' @ ns_volume_path session @ '': '' @
             store_error_text e) r),
           w\<lparr>dk_active := (dk_active w)\<lparr>ae_hosted := Some (hosted\<lparr>ho_files := files\<rparr>)\<rparr>\<rparr>))))"

text \<open>\<^verbatim>\<open>close_notebook\<close>; \<^verbatim>\<open>removed\<close> tells whether the working copy's file could be removed.\<close>

definition close_notebook :: "bool \<Rightarrow> string \<Rightarrow> ('r, 'h, 's) desktop \<Rightarrow> ('r, 'h, 's) desktop" where
  "close_notebook removed session_id w =
     (case dk_sessions w session_id of
        None \<Rightarrow> w
      | Some session \<Rightarrow>
          (let w' = w\<lparr>dk_sessions := (dk_sessions w)(session_id := None)\<rparr> in
           if removed then w'\<lparr>dk_files := (dk_files w')(ns_working_path session := None)\<rparr> else w'))"

text \<open>What marimo does to a working copy between the calls: it saves other contents.\<close>

definition edit_working_copy :: "string \<Rightarrow> bytes \<Rightarrow> ('r, 'h, 's) desktop \<Rightarrow> ('r, 'h, 's) desktop" where
  "edit_working_copy session_id content w =
     (case dk_sessions w session_id of
        None \<Rightarrow> w
      | Some session \<Rightarrow> write_file (ns_working_path session) content w)"

end
