(* ===== verification/Desktop_Commands.thy ===== *)
theory Desktop_Commands
  imports Desktop_Notebook
begin

text \<open>
  The commands of the desktop application (\<^verbatim>\<open>commands.rs\<close>): managing environments, calling the routers and
  the file store of the active one.
\<close>

section \<open>Environments\<close>

definition unknown_environment :: "string \<Rightarrow> string" where
  "unknown_environment i = ''unknown environment: '' @ i"

record create_io =
  cr_uc_dir :: "string + unit"
  cr_home_dir :: "string + unit"
  cr_minted :: "string + string"
  cr_key_record :: "string + unit"
  cr_registry :: "string + unit"

text \<open>A failure to provision the key is only logged.\<close>

definition create_environment ::
  "'s desktop_host \<Rightarrow> create_io \<Rightarrow> string \<Rightarrow> ('r, 'h, 's) desktop
    \<Rightarrow> (string + environment_entry) \<times> ('r, 'h, 's) desktop" where
  "create_environment dh io name w =
     (let name = str_trim name in
      if name = [] then (Inl ''environment name must not be empty'', w)
      else
        and_then (read_environments w, w) (\<lambda>envs w.
          let i = allocate_env_id (dh_lower dh) name (map en_id envs);
              uc_dir = env_uc_dir (dh_root dh) i;
              home_dir = env_home_dir (dh_root dh) i in
          and_then (map_err (\<lambda>e. ''creating '' @ debug_str uc_dir @ '': '' @ e) (cr_uc_dir io), w) (\<lambda>_ w.
          and_then (map_err (\<lambda>e. ''creating '' @ debug_str home_dir @ '': '' @ e) (cr_home_dir io), w) (\<lambda>_ w.
            let w = w\<lparr>dk_keys := snd (configure (dh_macos dh) (dh_keychain dh) (cr_minted io) (cr_key_record io)
                                        i uc_dir Keychain_Provider (dk_keys w))\<rparr>;
                env = \<lparr>en_id = i, en_name = name, en_modules = [], en_observability = False\<rparr> in
            and_then (write_environments (cr_registry io) (envs @ [env]) w) (\<lambda>_ w. (Inr env, w))))))"

definition no_usable_key :: string where
  "no_usable_key = ''no usable encryption key for this environment '' @ [CHR 0xE2, CHR 0x80, CHR 0x94] @
     '' the OS keychain is unavailable. Configure a key store before starting.''"

record ('r, 'h) start_io =
  si_config :: uc_config_io
  si_uc :: uc_spawn_io
  si_jaeger :: "string + compose_exit"
  si_plan :: "stack_manifest \<Rightarrow> string + stack_plan"
  si_compose :: compose_io
  si_activate :: "('r, 'h) activate_io"

text \<open>The steps of \<^verbatim>\<open>start_environment\<close> after the server runs; each failure stops every process.\<close>

definition start_observability ::
  "'s desktop_host \<Rightarrow> ('r, 'h) start_io \<Rightarrow> environment_entry \<Rightarrow> ('r, 'h, 's) desktop
    \<Rightarrow> (string + unit) \<times> ('r, 'h, 's) desktop" where
  "start_observability dh io env w =
     (if en_observability env then
        (case telemetry_ensure dh (si_jaeger io) w of
           (Inl e, w') \<Rightarrow> (Inl e, shut_down_all w')
         | (Inr _, w') \<Rightarrow> (Inr (), w'))
      else (Inr (), w))"

definition start_services ::
  "'s desktop_host \<Rightarrow> ('r, 'h) start_io \<Rightarrow> environment_entry \<Rightarrow> ('r, 'h, 's) desktop
    \<Rightarrow> (string + string option) \<times> ('r, 'h, 's) desktop" where
  "start_services dh io env w =
     (if en_modules env \<noteq> [] then
        (case start_modules dh (si_plan io) (si_compose io) (en_id env) (en_modules env) w of
           (Inl e, w') \<Rightarrow> (Inl e, shut_down_all w')
         | (Inr plan, w') \<Rightarrow> (Inr (modules_lineage_endpoint plan), w'))
      else (Inr None, w))"

definition start_environment ::
  "'s desktop_host \<Rightarrow> ('r, 'h) start_io \<Rightarrow> string \<Rightarrow> ('r, 'h, 's) desktop
    \<Rightarrow> (string + descriptor) \<times> ('r, 'h, 's) desktop" where
  "start_environment dh io i w =
     and_then (read_environments w, w) (\<lambda>envs w.
     and_then (ok_or (unknown_environment i) (find_environment i envs), w) (\<lambda>env w.
       if ae_id (dk_active w) = Some i
       then (ok_or ''environment reported active but has no descriptor'' (active_environment_descriptor w), w)
       else
         let uc_dir = env_uc_dir (dh_root dh) i in
         if key_status_of (dh_keychain dh) i uc_dir (dk_keys w) = Status_Unavailable
         then (Inl no_usable_key, w)
         else
           and_then (write_uc_config (si_config io) i uc_dir (notebooks_reset (shut_down_all w))) (\<lambda>config_path w.
           and_then (spawn_uc_sidecar dh (si_uc io) i config_path w) (\<lambda>endpoint w.
           and_then (start_observability dh io env w) (\<lambda>_ w.
           and_then (start_services dh io env w) (\<lambda>lineage_endpoint w.
           and_then (activate_endpoint dh (si_activate io) (Some i) (Some endpoint) lineage_endpoint w) (\<lambda>_ w.
             (ok_or ''activation succeeded but produced no descriptor'' (active_environment_descriptor w), w))))))))"

definition stop_environment :: "string \<Rightarrow> ('r, 'h, 's) desktop \<Rightarrow> ('r, 'h, 's) desktop" where
  "stop_environment i w =
     (if ae_id (dk_active w) \<noteq> Some i then w
      else (notebooks_reset (shut_down_all w))\<lparr>dk_active := no_active_env\<rparr>)"

section \<open>Keys\<close>

definition known_environment :: "string \<Rightarrow> ('r, 'h, 's) desktop \<Rightarrow> string + unit" where
  "known_environment i w =
     try_bind (read_environments w) (\<lambda>envs.
       if list_ex (\<lambda>e. en_id e = i) envs then Inr () else Inl (unknown_environment i))"

definition environment_key_status ::
  "'s desktop_host \<Rightarrow> string \<Rightarrow> ('r, 'h, 's) desktop \<Rightarrow> string + key_status" where
  "environment_key_status dh i w =
     map_ok (\<lambda>_. key_status_of (dh_keychain dh) i (env_uc_dir (dh_root dh) i) (dk_keys w)) (known_environment i w)"

text \<open>The \<^verbatim>\<open>{:?}\<close> of a provider.\<close>

fun debug_provider :: "key_provider \<Rightarrow> string" where
  "debug_provider Keychain_Provider = ''Keychain''"
| "debug_provider Remote_Provider = ''Remote''"

definition provider_locked :: "key_provider \<Rightarrow> string" where
  "provider_locked p =
     ''this environment's key is already provisioned with the '' @ debug_provider p @ '' provider; '' @
     ''the provider can't be changed without rotation (not supported)''"

definition configure_environment_key ::
  "'s desktop_host \<Rightarrow> string + string \<Rightarrow> string + unit \<Rightarrow> string \<Rightarrow> key_provider \<Rightarrow> ('r, 'h, 's) desktop
    \<Rightarrow> (string + key_status) \<times> ('r, 'h, 's) desktop" where
  "configure_environment_key dh minted io i provider w =
     and_then (known_environment i w, w) (\<lambda>_ w.
       let uc_dir = env_uc_dir (dh_root dh) i in
       and_then (case kw_records (dk_keys w) uc_dir of
                   Some existing \<Rightarrow>
                     if kcf_provider existing \<noteq> provider then Inl (provider_locked (kcf_provider existing)) else Inr ()
                 | None \<Rightarrow> Inr (), w) (\<lambda>_ w.
         let (r, keys) = configure (dh_macos dh) (dh_keychain dh) minted io i uc_dir provider (dk_keys w)
         in (r, w\<lparr>dk_keys := keys\<rparr>)))"

definition set_environment_key_biometric ::
  "'s desktop_host \<Rightarrow> string + string \<Rightarrow> string + unit \<Rightarrow> string \<Rightarrow> bool \<Rightarrow> ('r, 'h, 's) desktop
    \<Rightarrow> (string + key_status) \<times> ('r, 'h, 's) desktop" where
  "set_environment_key_biometric dh minted io i enabled w =
     and_then (known_environment i w, w) (\<lambda>_ w.
       let (r, keys) = set_biometric (dh_macos dh) (dh_keychain dh) minted io i (env_uc_dir (dh_root dh) i)
             enabled (dk_keys w)
       in (r, w\<lparr>dk_keys := keys\<rparr>))"

section \<open>Settings\<close>

text \<open>\<^verbatim>\<open>iter_mut().find\<close> and an assignment: the first entry with the id is changed.\<close>

fun update_first :: "('a \<Rightarrow> bool) \<Rightarrow> ('a \<Rightarrow> 'a) \<Rightarrow> 'a list \<Rightarrow> 'a list option" where
  "update_first P f [] = None"
| "update_first P f (x # xs) = (if P x then Some (f x # xs) else map_option ((#) x) (update_first P f xs))"

definition update_environment ::
  "string + unit \<Rightarrow> string \<Rightarrow> (environment_entry \<Rightarrow> environment_entry) \<Rightarrow> ('r, 'h, 's) desktop
    \<Rightarrow> (string + unit) \<times> ('r, 'h, 's) desktop" where
  "update_environment io i f w =
     and_then (read_environments w, w) (\<lambda>envs w.
     and_then (ok_or (unknown_environment i) (update_first (\<lambda>e. en_id e = i) f envs), w) (\<lambda>envs' w.
       write_environments io envs' w))"

definition set_environment_modules ::
  "string + unit \<Rightarrow> string \<Rightarrow> string list \<Rightarrow> ('r, 'h, 's) desktop \<Rightarrow> (string + unit) \<times> ('r, 'h, 's) desktop" where
  "set_environment_modules io i modules w =
     (case find (\<lambda>m. \<not> is_known_module m) modules of
        Some m \<Rightarrow> (Inl (''unknown module: '' @ m), w)
      | None \<Rightarrow> update_environment io i (\<lambda>e. e\<lparr>en_modules := modules\<rparr>) w)"

definition set_environment_observability ::
  "string + unit \<Rightarrow> string \<Rightarrow> bool \<Rightarrow> ('r, 'h, 's) desktop \<Rightarrow> (string + unit) \<times> ('r, 'h, 's) desktop" where
  "set_environment_observability io i enabled w =
     update_environment io i (\<lambda>e. e\<lparr>en_observability := enabled\<rparr>) w"

definition environment_modules :: "string \<Rightarrow> ('r, 'h, 's) desktop \<Rightarrow> string + string list" where
  "environment_modules i w =
     try_bind (read_environments w) (\<lambda>envs.
       ok_or (unknown_environment i) (map_option en_modules (find_environment i envs)))"

definition environment_observability :: "string \<Rightarrow> ('r, 'h, 's) desktop \<Rightarrow> string + bool" where
  "environment_observability i w =
     try_bind (read_environments w) (\<lambda>envs.
       ok_or (unknown_environment i) (map_option en_observability (find_environment i envs)))"

definition environment_config_artifacts ::
  "'s desktop_host \<Rightarrow> (stack_manifest \<Rightarrow> string + stack_plan) \<Rightarrow> string \<Rightarrow> ('r, 'h, 's) desktop
    \<Rightarrow> string + config_artifact list" where
  "environment_config_artifacts dh plan_of i w =
     try_bind (read_environments w) (\<lambda>envs.
     try_bind (ok_or (unknown_environment i) (find_environment i envs)) (\<lambda>env.
       config_artifacts dh plan_of (en_modules env)))"

end
