(* ===== verification/Desktop_Rpc.thy ===== *)
theory Desktop_Rpc
  imports Desktop_Commands
begin

text \<open>
  The calls the web view makes on the active environment (\<^verbatim>\<open>commands.rs\<close>): Connect calls on its routers,
  whose answers are arguments, and file calls on its file store. The JSON a record is sent as is left out.
\<close>

section \<open>Connect calls\<close>

datatype codec = Codec_Json | Codec_Proto

record request_context =
  rc_path :: string
  rc_headers :: "string \<rightharpoonup> string"

text \<open>\<^verbatim>\<open>name\<close> and \<^verbatim>\<open>value\<close> are the conversions of \<^verbatim>\<open>http\<close>, which normalise or refuse; an insert replaces.\<close>

fun header_map ::
  "(string \<Rightarrow> string option) \<Rightarrow> (string \<Rightarrow> string option) \<Rightarrow> (string \<times> string) list
    \<Rightarrow> (string \<rightharpoonup> string) \<Rightarrow> (string \<rightharpoonup> string)" where
  "header_map name val [] m = m"
| "header_map name val ((k, v) # kvs) m =
     header_map name val kvs
       (case (name k, val v) of (Some n, Some x) \<Rightarrow> m(n \<mapsto> x) | _ \<Rightarrow> m)"

definition request_context_of ::
  "(string \<Rightarrow> string option) \<Rightarrow> (string \<Rightarrow> string option) \<Rightarrow> string \<Rightarrow> (string \<times> string) list \<Rightarrow> request_context" where
  "request_context_of name val path hdrs =
     \<lparr>rc_path = path, rc_headers = header_map name val hdrs Map.empty\<rparr>"

text \<open>One call: the router it goes to, the path, the context, the codec and the messages.\<close>

record 'r connect_call =
  cc_router :: 'r
  cc_path :: string
  cc_context :: request_context
  cc_codec :: codec
  cc_messages :: "bytes list"

definition connect_dispatch ::
  "(string \<Rightarrow> string option) \<Rightarrow> (string \<Rightarrow> string option) \<Rightarrow> ('r connect_call \<Rightarrow> string + 'a)
    \<Rightarrow> codec \<Rightarrow> string \<Rightarrow> string \<Rightarrow> bytes list \<Rightarrow> (string \<times> string) list \<Rightarrow> ('r, 'h, 's) desktop \<Rightarrow> string + 'a" where
  "connect_dispatch name val call codec service path messages hdrs w =
     try_bind (snapshot w) (\<lambda>active.
     try_bind (active_router active service) (\<lambda>router.
       call \<lparr>cc_router = router, cc_path = path, cc_context = request_context_of name val path hdrs,
             cc_codec = codec, cc_messages = messages\<rparr>))"

text \<open>\<^verbatim>\<open>utf8\<close> is \<^verbatim>\<open>String::from_utf8\<close>.\<close>

definition connect_unary ::
  "(string \<Rightarrow> string option) \<Rightarrow> (string \<Rightarrow> string option) \<Rightarrow> ('r connect_call \<Rightarrow> string + bytes)
    \<Rightarrow> (bytes \<Rightarrow> string + string) \<Rightarrow> string \<Rightarrow> string \<Rightarrow> string \<Rightarrow> (string \<times> string) list
    \<Rightarrow> ('r, 'h, 's) desktop \<Rightarrow> string + string" where
  "connect_unary name val call utf8 service path message hdrs w =
     try_bind (connect_dispatch name val call Codec_Json service path [as_bytes message] hdrs w) (\<lambda>body.
       map_err (\<lambda>e. ''non-UTF8 JSON response: '' @ e) (utf8 body))"

definition connect_unary_proto ::
  "(string \<Rightarrow> string option) \<Rightarrow> (string \<Rightarrow> string option) \<Rightarrow> ('r connect_call \<Rightarrow> string + bytes)
    \<Rightarrow> string \<Rightarrow> string \<Rightarrow> bytes \<Rightarrow> (string \<times> string) list \<Rightarrow> ('r, 'h, 's) desktop \<Rightarrow> string + bytes" where
  "connect_unary_proto name val call service path message hdrs w =
     connect_dispatch name val call Codec_Proto service path [message] hdrs w"

definition query_ingest ::
  "(string \<Rightarrow> string option) \<Rightarrow> (string \<Rightarrow> string option) \<Rightarrow> ('r connect_call \<Rightarrow> string + bytes)
    \<Rightarrow> string \<Rightarrow> string \<Rightarrow> bytes list \<Rightarrow> (string \<times> string) list \<Rightarrow> ('r, 'h, 's) desktop \<Rightarrow> string + bytes" where
  "query_ingest name val call service path frames hdrs w =
     connect_dispatch name val call Codec_Proto service path frames hdrs w"

text \<open>
  A stream forwarded to the web view: the chunks delivered, and how it ended. \<^verbatim>\<open>send\<close> says whether the
  channel takes a chunk after those already delivered.
\<close>

fun forward_chunks ::
  "('e \<Rightarrow> string) \<Rightarrow> (bytes list \<Rightarrow> bytes \<Rightarrow> string + unit) \<Rightarrow> bytes list \<Rightarrow> ('e + bytes) list
    \<Rightarrow> (string + unit) \<times> bytes list" where
  "forward_chunks show_err send sent [] = (Inr (), sent)"
| "forward_chunks show_err send sent (Inl e # items) = (Inl (show_err e), sent)"
| "forward_chunks show_err send sent (Inr chunk # items) =
     (case send sent chunk of
        Inl e \<Rightarrow> (Inl e, sent)
      | Inr _ \<Rightarrow> forward_chunks show_err send (sent @ [chunk]) items)"

definition connect_stream ::
  "(string \<Rightarrow> string option) \<Rightarrow> (string \<Rightarrow> string option) \<Rightarrow> ('r connect_call \<Rightarrow> string + (string + bytes) list)
    \<Rightarrow> (bytes list \<Rightarrow> bytes \<Rightarrow> string + unit) \<Rightarrow> string \<Rightarrow> string \<Rightarrow> bytes \<Rightarrow> (string \<times> string) list
    \<Rightarrow> ('r, 'h, 's) desktop \<Rightarrow> (string + unit) \<times> bytes list" where
  "connect_stream name val call send service path message hdrs w =
     (case connect_dispatch name val call Codec_Proto service path [message] hdrs w of
        Inl e \<Rightarrow> (Inl e, [])
      | Inr items \<Rightarrow> forward_chunks id send [] items)"

section \<open>Files\<close>

definition active_store :: "('r, 'h, 's) desktop \<Rightarrow> string + 'h" where
  "active_store w = try_bind (snapshot w) active_files"

definition with_store :: "'h \<Rightarrow> ('r, 'h, 's) desktop \<Rightarrow> ('r, 'h, 's) desktop" where
  "with_store h w =
     w\<lparr>dk_active := (dk_active w)\<lparr>ae_hosted := map_option (\<lambda>x. x\<lparr>ho_files := h\<rparr>) (ae_hosted (dk_active w))\<rparr>\<rparr>"

text \<open>A call that writes: the store of the active environment is updated in place.\<close>

definition files_call ::
  "('h \<Rightarrow> 'a store_result \<times> 'h) \<Rightarrow> ('r, 'h, 's) desktop \<Rightarrow> (string + 'a) \<times> ('r, 'h, 's) desktop" where
  "files_call f w =
     and_then (active_store w, w) (\<lambda>h w.
       let (r, h') = f h in (map_err store_error_text r, with_store h' w))"

definition files_stat ::
  "'h file_store \<Rightarrow> string \<Rightarrow> ('r, 'h, 's) desktop \<Rightarrow> string + file_metadata" where
  "files_stat fs path w =
     try_bind (active_store w) (\<lambda>h. map_err store_error_text (fs_stat_file fs path h))"

definition files_list ::
  "'h file_store \<Rightarrow> string \<Rightarrow> int option \<Rightarrow> string option \<Rightarrow> ('r, 'h, 's) desktop
    \<Rightarrow> string + (directory_entry list \<times> string option)" where
  "files_list fs path limit token w =
     try_bind (active_store w) (\<lambda>h.
       map_err store_error_text
         (fs_list_directory fs path
           \<lparr>max_results = map_option (\<lambda>n. nat (max n 0)) limit, page_token = token\<rparr> h))"

definition files_create_dir ::
  "'h file_store \<Rightarrow> ambient \<Rightarrow> string \<Rightarrow> ('r, 'h, 's) desktop
    \<Rightarrow> (string + directory_metadata) \<times> ('r, 'h, 's) desktop" where
  "files_create_dir fs amb path w = files_call (fs_create_directory fs amb path) w"

definition files_delete ::
  "'h file_store \<Rightarrow> string \<Rightarrow> ('r, 'h, 's) desktop \<Rightarrow> (string + unit) \<times> ('r, 'h, 's) desktop" where
  "files_delete fs path w = files_call (fs_delete_file fs path) w"

definition files_delete_dir ::
  "'h file_store \<Rightarrow> string \<Rightarrow> ('r, 'h, 's) desktop \<Rightarrow> (string + unit) \<times> ('r, 'h, 's) desktop" where
  "files_delete_dir fs path w = files_call (fs_delete_directory fs path) w"

definition files_download ::
  "'h file_store \<Rightarrow> (bytes list \<Rightarrow> bytes \<Rightarrow> string + unit) \<Rightarrow> string \<Rightarrow> int option \<Rightarrow> int option
    \<Rightarrow> ('r, 'h, 's) desktop \<Rightarrow> (string + unit) \<times> bytes list" where
  "files_download fs send path offset len w =
     (case try_bind (active_store w) (\<lambda>h. map_err store_error_text (fs_read_file_stream fs path offset len h)) of
        Inl e \<Rightarrow> (Inl e, [])
      | Inr items \<Rightarrow> forward_chunks store_error_text send [] items)"

text \<open>The request of an upload: its headers (those whose value is a text) and its body, if it is raw bytes.\<close>

definition files_upload ::
  "'h file_store \<Rightarrow> ambient \<Rightarrow> (string \<Rightarrow> string option) \<Rightarrow> bytes option \<Rightarrow> ('r, 'h, 's) desktop
    \<Rightarrow> (string + file_metadata) \<times> ('r, 'h, 's) desktop" where
  "files_upload fs amb header body w =
     and_then (ok_or ''missing `path` header'' (header ''path''), w) (\<lambda>path w.
     and_then (ok_or ''upload body must be raw bytes'' body, w) (\<lambda>content w.
       files_call (fs_put_file_stream fs amb path (header ''content_type'') [Inr content]) w))"

end
