(* ===== verification/Desktop_Runs.thy ===== *)
theory Desktop_Runs
  imports Desktop_Rpc
begin

text \<open>
  The desktop application as a state machine: a step is a command with any outcome of its calls, or an
  edit of a working copy by marimo. Invariants: every process that runs is supervised, the ids of the
  registry are distinct and safe in file names, the key of an environment and its provider stay.
\<close>

section \<open>Processes\<close>

datatype running = Child nat | Project string

fun running_of :: "managed_process \<Rightarrow> running" where
  "running_of (Sidecar label child) = Child child"
| "running_of (Compose project) = Project project"

text \<open>What was asked to start and not asked to stop since.\<close>

fun after_effect :: "effect \<Rightarrow> running set \<Rightarrow> running set" where
  "after_effect (Spawned c) s = insert (Child c) s"
| "after_effect (Killed c) s = s - {Child c}"
| "after_effect (Compose_Up p) s = insert (Project p) s"
| "after_effect (Compose_Down p) s = s - {Project p}"
| "after_effect (Http_Sent c) s = s"

definition live :: "effect list \<Rightarrow> running set" where
  "live log = fold after_effect log {}"

lemma live_Nil [simp]: "live [] = {}"
  by (simp add: live_def)

lemma live_snoc [simp]: "live (log @ [e]) = after_effect e (live log)"
  by (simp add: live_def)

lemma live_shut_down: "live (log @ map shut_down ps) = live log - running_of ` set ps"
proof (induction ps arbitrary: log)
  case (Cons p ps)
  have "live (log @ map shut_down (p # ps)) = live ((log @ [shut_down p]) @ map shut_down ps)" by simp
  also have "\<dots> = live (log @ [shut_down p]) - running_of ` set ps" by (rule Cons.IH)
  also have "\<dots> = live log - running_of ` set (p # ps)" by (cases p) auto
  finally show ?case .
qed simp

lemma live_http: "live (log @ map Http_Sent cs) = live log"
proof (induction cs arbitrary: log)
  case (Cons c cs)
  have "live (log @ map Http_Sent (c # cs)) = live ((log @ [Http_Sent c]) @ map Http_Sent cs)" by simp
  also have "\<dots> = live log" by (simp only: Cons.IH) simp
  finally show ?case .
qed simp

definition supervised :: "('r, 'h, 's) desktop \<Rightarrow> bool" where
  "supervised w \<longleftrightarrow> live (dk_log w) \<subseteq> running_of ` set (dk_procs w) \<union> {Project TELEMETRY_PROJECT}"

lemma supervised_frame [simp]:
  "supervised (w\<lparr>dk_keys := k\<rparr>) = supervised w"
  "supervised (w\<lparr>dk_registry := r\<rparr>) = supervised w"
  "supervised (w\<lparr>dk_active := a\<rparr>) = supervised w"
  "supervised (w\<lparr>dk_endpoint := e\<rparr>) = supervised w"
  "supervised (w\<lparr>dk_sessions := m\<rparr>) = supervised w"
  "supervised (w\<lparr>dk_files := f\<rparr>) = supervised w"
  "supervised (w\<lparr>dk_otel := x, dk_telemetry := t\<rparr>) = supervised w"
  "supervised (write_file path content w) = supervised w"
  "supervised (notebooks_reset w) = supervised w"
  by (simp_all add: supervised_def write_file_def notebooks_reset_def)

lemma shut_down_all_live: "supervised w \<Longrightarrow> live (dk_log (shut_down_all w)) \<subseteq> {Project TELEMETRY_PROJECT}"
  by (auto simp: supervised_def shut_down_all_def live_shut_down)

lemma supervised_shut_down_all [intro]: "supervised w \<Longrightarrow> supervised (shut_down_all w)"
  using shut_down_all_live [of w] by (simp add: supervised_def shut_down_all_def)

lemma supervised_compose_down [intro]: "supervised w \<Longrightarrow> supervised (compose_down p w)"
  by (auto simp: supervised_def compose_down_def log_effect_def)

lemma supervised_spawn [intro]: "supervised w \<Longrightarrow> supervised (track (Sidecar l c) (log_effect (Spawned c) w))"
  by (auto simp: supervised_def track_def log_effect_def)

lemma supervised_track [intro]: "supervised w \<Longrightarrow> supervised (track p w)"
  by (auto simp: supervised_def track_def)

lemma supervised_http [intro]: "supervised w \<Longrightarrow> supervised (log_effects (map Http_Sent cs) w)"
  by (simp add: supervised_def log_effects_def live_http)

lemma supervised_up:
  "supervised w \<Longrightarrow> Project p \<in> running_of ` set (dk_procs w) \<union> {Project TELEMETRY_PROJECT}
    \<Longrightarrow> supervised (snd (compose_up a b p out w))"
  by (auto simp: supervised_def compose_up_def log_effect_def Let_def split: sum.split)

lemma supervised_compose:
  assumes "supervised w"
  shows "supervised (snd (start_compose dh io i w))"
  unfolding start_compose_def Let_def
  by (intro and_then_state [where P = supervised] supervised_up)
    (use assms in \<open>auto simp: track_def intro: supervised_track [unfolded track_def]\<close>)

lemma supervised_modules: "supervised w \<Longrightarrow> supervised (snd (start_modules dh pl io i ms w))"
  unfolding start_modules_def
  by (intro and_then_state [where P = supervised])
    (auto intro!: and_then_state [where P = supervised] supervised_compose)

lemma supervised_telemetry: "supervised w \<Longrightarrow> supervised (snd (telemetry_ensure dh up w))"
  unfolding telemetry_ensure_def start_jaeger_def
  by (auto intro!: and_then_state [where P = supervised] supervised_up)

lemma supervised_config: "supervised w \<Longrightarrow> supervised (snd (write_uc_config io i d w))"
  unfolding write_uc_config_def Let_def by (intro and_then_state [where P = supervised]) auto

lemma supervised_uc: "supervised w \<Longrightarrow> supervised (snd (spawn_uc_sidecar dh io i p w))"
  unfolding spawn_uc_sidecar_def Let_def split_def
  by (intro and_then_state [where P = supervised]) auto

lemma supervised_activate: "supervised w \<Longrightarrow> supervised (snd (activate_endpoint dh io i u l w))"
  unfolding activate_endpoint_def Let_def seed_home_dir_def
  by (intro and_then_state [where P = supervised])
    (auto split: option.split intro!: and_then_state [where P = supervised])

lemma supervised_observability: "supervised w \<Longrightarrow> supervised (snd (start_observability dh io env w))"
  using supervised_telemetry [of w dh "si_jaeger io"]
  by (auto simp: start_observability_def split: prod.split sum.split)

lemma supervised_services: "supervised w \<Longrightarrow> supervised (snd (start_services dh io env w))"
  using supervised_modules [of w dh "si_plan io" "si_compose io" "en_id env" "en_modules env"]
  by (auto simp: start_services_def split: prod.split sum.split)

lemmas supervised_start_parts =
  supervised_config supervised_uc supervised_observability supervised_services supervised_activate

lemma supervised_start:
  assumes "supervised w"
  shows "supervised (snd (start_environment dh io i w))"
proof -
  have "supervised (notebooks_reset (shut_down_all w))" using assms by auto
  then show ?thesis unfolding start_environment_def Let_def
    by (intro and_then_state [where P = supervised])
      (use assms in \<open>auto intro!: and_then_state [where P = supervised] supervised_start_parts\<close>)
qed

lemma supervised_marimo: "supervised w \<Longrightarrow> supervised (snd (ensure_marimo dh io d u l w))"
  unfolding ensure_marimo_def Let_def
  by (auto split: option.split intro!: and_then_state [where P = supervised])

lemma supervised_open: "supervised w \<Longrightarrow> supervised (snd (open_notebook dh fs io p w))"
  unfolding open_notebook_def Let_def
  by (intro and_then_state [where P = supervised]) (auto intro: supervised_marimo)

section \<open>Steps\<close>

inductive desktop_step ::
  "'s desktop_host \<Rightarrow> 'h file_store \<Rightarrow> ('r, 'h, 's) desktop \<Rightarrow> ('r, 'h, 's) desktop \<Rightarrow> bool"
  for dh fs where
  Step_Create: "desktop_step dh fs w (snd (create_environment dh io name w))"
| Step_Start: "desktop_step dh fs w (snd (start_environment dh io i w))"
| Step_Stop: "desktop_step dh fs w (stop_environment i w)"
| Step_Configure: "desktop_step dh fs w (snd (configure_environment_key dh minted out i provider w))"
| Step_Biometric: "desktop_step dh fs w (snd (set_environment_key_biometric dh minted out i enabled w))"
| Step_Modules: "desktop_step dh fs w (snd (set_environment_modules out i modules w))"
| Step_Observability: "desktop_step dh fs w (snd (set_environment_observability out i enabled w))"
| Step_Open: "desktop_step dh fs w (snd (open_notebook dh fs io p w))"
| Step_Sync: "desktop_step dh fs w (snd (sync_notebook fs amb e sid w))"
| Step_Close: "desktop_step dh fs w (close_notebook removed sid w)"
| Step_Edit: "desktop_step dh fs w (edit_working_copy sid content w)"
| Step_Create_Dir: "desktop_step dh fs w (snd (files_create_dir fs amb p w))"
| Step_Delete: "desktop_step dh fs w (snd (files_delete fs p w))"
| Step_Delete_Dir: "desktop_step dh fs w (snd (files_delete_dir fs p w))"
| Step_Upload: "desktop_step dh fs w (snd (files_upload fs amb header body w))"

definition desktop_reachable ::
  "'s desktop_host \<Rightarrow> 'h file_store \<Rightarrow> ('r, 'h, 's) desktop \<Rightarrow> ('r, 'h, 's) desktop \<Rightarrow> bool" where
  "desktop_reachable dh fs = (desktop_step dh fs)\<^sup>*\<^sup>*"

text \<open>
  Many commands leave whole parts of the state alone; \<^verbatim>\<open>kept\<close> says so for a part \<^verbatim>\<open>f\<close>.
\<close>

lemma create_environment_state:
  "snd (create_environment dh io name w) = w \<or>
   (\<exists>i envs. read_environments w = Inr envs \<and> i \<notin> set (map en_id envs) \<and>
      i = allocate_env_id (dh_lower dh) (str_trim name) (map en_id envs) \<and>
      (let k = snd (configure (dh_macos dh) (dh_keychain dh) (cr_minted io) (cr_key_record io) i
                 (env_uc_dir (dh_root dh) i) Keychain_Provider (dk_keys w)) in
       snd (create_environment dh io name w) = w\<lparr>dk_keys := k\<rparr> \<or>
       snd (create_environment dh io name w) =
         w\<lparr>dk_keys := k, dk_registry := Registry (envs @
            [\<lparr>en_id = i, en_name = str_trim name, en_modules = [], en_observability = False\<rparr>])\<rparr>))"
proof (cases "str_trim name = []")
  case False
  show ?thesis
  proof (cases "read_environments w")
    case (Inr envs)
    let ?i = "allocate_env_id (dh_lower dh) (str_trim name) (map en_id envs)"
    have fresh: "?i \<notin> set (map en_id envs)" by (rule allocate_env_id_fresh)
    show ?thesis
      by (cases "cr_uc_dir io"; cases "cr_home_dir io"; cases "cr_registry io")
        (use False Inr fresh in \<open>auto simp: create_environment_def Let_def write_environments_def\<close>)
  qed (use False in \<open>simp add: create_environment_def\<close>)
qed (simp add: create_environment_def)

lemma update_environment_state:
  "snd (update_environment io i f w) = w \<or>
   (\<exists>envs envs'. read_environments w = Inr envs \<and> update_first (\<lambda>e. en_id e = i) f envs = Some envs' \<and>
      snd (update_environment io i f w) = w\<lparr>dk_registry := Registry envs'\<rparr>)"
proof (cases "read_environments w")
  case (Inr envs)
  then show ?thesis
    by (cases "update_first (\<lambda>e. en_id e = i) f envs"; cases io)
      (auto simp: update_environment_def write_environments_def)
qed (simp add: update_environment_def)

lemma files_call_state: "snd (files_call f w) = w \<or> (\<exists>h. snd (files_call f w) = with_store h w)"
  by (cases "active_store w") (auto simp: files_call_def split_def Let_def)

lemma files_upload_state:
  "snd (files_upload fs amb header body w) = w \<or> (\<exists>h. snd (files_upload fs amb header body w) = with_store h w)"
proof (cases "header ''path''")
  case (Some p)
  show ?thesis
  proof (cases body)
    case (Some content)
    with \<open>header ''path'' = Some p\<close> show ?thesis
      using files_call_state [of "fs_put_file_stream fs amb p (header ''content_type'') [Inr content]" w]
      by (simp add: files_upload_def)
  qed (use Some in \<open>simp add: files_upload_def\<close>)
qed (simp add: files_upload_def)

lemma sync_notebook_steps:
  assumes "ae_hosted (dk_active w) = Some hosted" and "dk_sessions w sid = Some session"
    and "dk_files w (ns_working_path session) = Some content"
    and "fs_put_file fs amb (ns_volume_path session) (Some ''text/x-python'') content (ho_files hosted) = (r, h)"
  shows "snd (sync_notebook fs amb e sid w) = with_store h w"
    and "is_ok (fst (sync_notebook fs amb e sid w)) = is_ok r"
  using assms by (cases r; simp add: sync_notebook_def with_store_def)+

lemma sync_notebook_fails:
  assumes "ae_hosted (dk_active w) = None \<or> dk_sessions w sid = None \<or>
    (\<exists>session. dk_sessions w sid = Some session \<and> dk_files w (ns_working_path session) = None)"
  shows "snd (sync_notebook fs amb e sid w) = w" and "\<not> is_ok (fst (sync_notebook fs amb e sid w))"
  using assms
  by (cases "ae_hosted (dk_active w)"; cases "dk_sessions w sid"; simp add: sync_notebook_def)+

lemma sync_notebook_state:
  "snd (sync_notebook fs amb e sid w) = w \<or> (\<exists>h. snd (sync_notebook fs amb e sid w) = with_store h w)"
proof (cases "\<exists>hosted session content. ae_hosted (dk_active w) = Some hosted \<and>
    dk_sessions w sid = Some session \<and> dk_files w (ns_working_path session) = Some content")
  case True
  then show ?thesis using sync_notebook_steps(1) by (metis surj_pair)
next
  case False
  then show ?thesis by (metis sync_notebook_fails(1) not_None_eq)
qed

text \<open>An invariant that does not depend on the active environment's store, nor on sessions and files.\<close>

lemma with_store_invariant:
  assumes "P w" and "\<And>a. P (w\<lparr>dk_active := a\<rparr>)"
  shows "P (snd (files_call f w))" and "P (snd (files_upload fs amb header body w))"
    and "P (snd (sync_notebook fs amb e sid w))"
  using files_call_state [of f w] files_upload_state [of fs amb header body w]
    sync_notebook_state [of fs amb e sid w] assms
  by (metis with_store_def)+

lemma configure_environment_key_state:
  "snd (configure_environment_key dh minted out i provider w) = w \<or>
   (known_environment i w = Inr () \<and>
    (\<forall>c. kw_records (dk_keys w) (env_uc_dir (dh_root dh) i) = Some c \<longrightarrow> kcf_provider c = provider) \<and>
    snd (configure_environment_key dh minted out i provider w) =
      w\<lparr>dk_keys := snd (configure (dh_macos dh) (dh_keychain dh) minted out i (env_uc_dir (dh_root dh) i)
        provider (dk_keys w))\<rparr>)"
  by (cases "known_environment i w"; cases "kw_records (dk_keys w) (env_uc_dir (dh_root dh) i)")
    (auto simp: configure_environment_key_def Let_def split_def)

lemma set_environment_key_biometric_state:
  "snd (set_environment_key_biometric dh minted out i enabled w) = w \<or>
   (known_environment i w = Inr () \<and>
    snd (set_environment_key_biometric dh minted out i enabled w) =
      w\<lparr>dk_keys := snd (set_biometric (dh_macos dh) (dh_keychain dh) minted out i (env_uc_dir (dh_root dh) i)
        enabled (dk_keys w))\<rparr>)"
  by (cases "known_environment i w") (auto simp: set_environment_key_biometric_def Let_def split_def)

lemma step_supervised:
  assumes "desktop_step dh fs w w'" and sup: "supervised w"
  shows "supervised w'"
  using assms(1)
proof cases
  case (Step_Create io name)
  then show ?thesis using sup create_environment_state [of dh io name w] by (auto simp: Let_def)
next
  case (Step_Configure minted out i provider)
  then show ?thesis using sup configure_environment_key_state [of dh minted out i provider w] by auto
next
  case (Step_Biometric minted out i enabled)
  then show ?thesis using sup set_environment_key_biometric_state [of dh minted out i enabled w] by auto
next
  case (Step_Modules out i modules)
  then show ?thesis
    using sup update_environment_state [of out i "\<lambda>e. e\<lparr>en_modules := modules\<rparr>" w]
    by (auto simp: set_environment_modules_def split: option.split)
next
  case (Step_Observability out i enabled)
  then show ?thesis
    using sup update_environment_state [of out i "\<lambda>e. e\<lparr>en_observability := enabled\<rparr>" w]
    by (auto simp: set_environment_observability_def)
qed (use sup in \<open>auto simp: stop_environment_def close_notebook_def edit_working_copy_def Let_def
      files_create_dir_def files_delete_def files_delete_dir_def
      intro: supervised_start supervised_open with_store_invariant split: option.split\<close>)

theorem reachable_supervised:
  assumes "desktop_reachable dh fs w w'" and "supervised w"
  shows "supervised w'"
  using assms(1) unfolding desktop_reachable_def
  by (induction rule: rtranclp_induct) (use assms(2) step_supervised in blast)+

end
