(* ===== verification/Desktop_Invariants.thy ===== *)
theory Desktop_Invariants
  imports Desktop_Runs
begin

text \<open>
  Invariants of the registry and of the keys over every run of the desktop application: ids, the key
  material of each environment, and the provider that holds it.
\<close>

section \<open>What a command leaves alone\<close>

definition base :: "('r, 'h, 's) desktop \<Rightarrow> registry_file \<times> 's key_world" where
  "base w = (dk_registry w, dk_keys w)"

lemma base_frame [simp]:
  "base (w\<lparr>dk_active := a\<rparr>) = base w"
  "base (w\<lparr>dk_endpoint := e\<rparr>) = base w"
  "base (w\<lparr>dk_sessions := m\<rparr>) = base w"
  "base (w\<lparr>dk_files := f\<rparr>) = base w"
  "base (w\<lparr>dk_otel := x, dk_telemetry := t\<rparr>) = base w"
  "base (write_file path content w) = base w"
  "base (notebooks_reset w) = base w"
  "base (shut_down_all w) = base w"
  "base (compose_down p w) = base w"
  "base (log_effect ev w) = base w"
  "base (log_effects es w) = base w"
  "base (track q w) = base w"
  by (simp_all add: base_def write_file_def notebooks_reset_def shut_down_all_def compose_down_def
      log_effect_def log_effects_def track_def)

lemma base_compose_up [simp]: "base (snd (compose_up a b p out w)) = base w"
  by (auto simp: compose_up_def Let_def split: sum.split)

lemma base_and_then:
  assumes "base (snd m) = b" and "\<And>a w. fst m = Inr a \<Longrightarrow> base w = b \<Longrightarrow> base (snd (f a w)) = b"
  shows "base (snd (and_then m f)) = b"
  by (rule and_then_state [where P = "\<lambda>w. base w = b"]) (use assms in auto)

lemma base_config [simp]: "base (snd (write_uc_config io i d w)) = base w"
  unfolding write_uc_config_def Let_def by (intro base_and_then) auto

lemma base_compose [simp]: "base (snd (start_compose dh io i w)) = base w"
  unfolding start_compose_def Let_def by (intro base_and_then) auto

lemma base_modules [simp]: "base (snd (start_modules dh pl io i ms w)) = base w"
  unfolding start_modules_def by (intro base_and_then) (auto intro!: base_and_then)

lemma base_telemetry [simp]: "base (snd (telemetry_ensure dh up w)) = base w"
  unfolding telemetry_ensure_def start_jaeger_def by (auto intro!: base_and_then)

lemma base_activate [simp]: "base (snd (activate_endpoint dh io i u l w)) = base w"
  unfolding activate_endpoint_def Let_def seed_home_dir_def
  by (intro base_and_then) (auto split: option.split intro!: base_and_then)

lemma base_observability [simp]: "base (snd (start_observability dh io env w)) = base w"
  using base_telemetry [of dh "si_jaeger io" w]
  by (auto simp: start_observability_def simp del: base_telemetry split: prod.split sum.split)

lemma base_services [simp]: "base (snd (start_services dh io env w)) = base w"
  using base_modules [of dh "si_plan io" "si_compose io" "en_id env" "en_modules env" w]
  by (auto simp: start_services_def simp del: base_modules split: prod.split sum.split)

lemma base_marimo [simp]: "base (snd (ensure_marimo dh io d u l w)) = base w"
  unfolding ensure_marimo_def Let_def by (auto split: option.split intro!: base_and_then)

lemma base_open [simp]: "base (snd (open_notebook dh fs io p w)) = base w"
  unfolding open_notebook_def Let_def by (intro base_and_then) auto

lemma base_uc:
  "base (snd (spawn_uc_sidecar dh io i p w)) =
     (dk_registry w, snd (ensure_kek (dh_macos dh) (dh_keychain dh) (us_minted io) i (dk_keys w)))"
  unfolding spawn_uc_sidecar_def Let_def split_def
  by (intro base_and_then) (auto simp: base_def log_effect_def log_effects_def track_def)

text \<open>Starting an environment reads or mints its own key and changes no other part of the keys.\<close>

lemma base_start:
  fixes w :: "('a, 'b, 'c) desktop"
  shows "base (snd (start_environment dh io i w)) = base w \<or>
   base (snd (start_environment dh io i w)) =
     (dk_registry w, snd (ensure_kek (dh_macos dh) (dh_keychain dh) (us_minted (si_uc io)) i (dk_keys w)))"
proof -
  define P where "P v \<longleftrightarrow> base v = base w \<or> base v =
     (dk_registry w, snd (ensure_kek (dh_macos dh) (dh_keychain dh) (us_minted (si_uc io)) i (dk_keys w)))"
    for v :: "('a, 'b, 'c) desktop"
  have same: "P w" by (simp add: P_def)
  let ?c = "write_uc_config (si_config io) i (env_uc_dir (dh_root dh) i) (notebooks_reset (shut_down_all w))"
  have c: "base (snd ?c) = base w" by simp
  have tail: "P (snd (and_then ?c (\<lambda>p v. and_then (spawn_uc_sidecar dh (si_uc io) i p v) f)))"
    if f: "\<And>a u. base (snd (f a u)) = base u" for f :: "string \<Rightarrow> ('a, 'b, 'c) desktop \<Rightarrow> (string + descriptor) \<times> _"
  proof (cases "fst ?c")
    case (Inr p)
    let ?s = "spawn_uc_sidecar dh (si_uc io) i p (snd ?c)"
    have "base (snd (and_then ?s f)) = base (snd ?s)" using f by (intro base_and_then) auto
    with Inr c base_uc [of dh "si_uc io" i p "snd ?c"] show ?thesis
      by (simp add: and_then_def [of ?c] P_def base_def)
  qed (use c in \<open>simp add: and_then_def P_def\<close>)
  have "P (snd (start_environment dh io i w))"
  proof (cases "read_environments w")
    case (Inr envs)
    then show ?thesis
      by (cases "find_environment i envs")
        (auto simp: start_environment_def Let_def same intro!: tail base_and_then)
  qed (simp add: start_environment_def same)
  then show ?thesis by (simp add: P_def)
qed

section \<open>The registry\<close>

definition safe_id :: "string \<Rightarrow> bool" where
  "safe_id i \<longleftrightarrow> i \<noteq> [] \<and> (\<forall>c \<in> set i. id_char c)"

definition registry_ok :: "registry_file \<Rightarrow> bool" where
  "registry_ok r \<longleftrightarrow>
     (case r of
        Registry envs \<Rightarrow> distinct (map en_id envs) \<and> list_all (\<lambda>e. safe_id (en_id e)) envs \<and>
          list_all (\<lambda>e. list_all is_known_module (en_modules e)) envs
      | _ \<Rightarrow> True)"

lemma update_first_Some:
  assumes "update_first P f xs = Some ys"
  shows "\<exists>a x b. xs = a @ x # b \<and> ys = a @ f x # b \<and> P x"
  using assms
proof (induction xs arbitrary: ys)
  case (Cons x xs)
  show ?case
  proof (cases "P x")
    case True
    with Cons.prems show ?thesis by (intro exI [of _ "[]"]) auto
  next
    case False
    with Cons.prems obtain zs where "update_first P f xs = Some zs" and "ys = x # zs" by auto
    with Cons.IH show ?thesis by (metis append_Cons)
  qed
qed simp

lemma update_first_ids:
  "update_first P f envs = Some envs' \<Longrightarrow> (\<And>e. en_id (f e) = en_id e) \<Longrightarrow> map en_id envs' = map en_id envs"
  by (drule update_first_Some) auto

lemma registry_ok_update:
  assumes "registry_ok (Registry envs)" and "update_first P f envs = Some envs'"
    and "\<And>e. en_id (f e) = en_id e"
    and "\<And>e. list_all is_known_module (en_modules e) \<Longrightarrow> list_all is_known_module (en_modules (f e))"
  shows "registry_ok (Registry envs')"
proof -
  from update_first_Some [OF assms(2)] obtain a x b where "envs = a @ x # b" "envs' = a @ f x # b" by blast
  with assms show ?thesis by (auto simp: registry_ok_def)
qed

lemma read_environments_ok:
  "registry_ok (dk_registry w) \<Longrightarrow> read_environments w = Inr envs \<Longrightarrow> registry_ok (Registry envs)"
  by (auto simp: read_environments_def registry_ok_def split: registry_file.splits)

lemma step_registry_ok:
  assumes "desktop_step dh fs w w'" and ok: "registry_ok (dk_registry w)"
  shows "registry_ok (dk_registry w')"
  using assms(1)
proof cases
  case (Step_Create io name)
  show ?thesis
    using ok create_environment_state [of dh io name w] allocate_env_id_nonempty allocate_env_id_chars
    unfolding Step_Create
    by (elim disjE exE conjE) (auto simp: Let_def registry_ok_def safe_id_def dest!: read_environments_ok [OF ok])
next
  case (Step_Start io i)
  then show ?thesis using ok base_start [of dh io i w] by (auto simp: base_def)
next
  case (Step_Configure minted out i provider)
  then show ?thesis using ok configure_environment_key_state [of dh minted out i provider w] by auto
next
  case (Step_Biometric minted out i enabled)
  then show ?thesis using ok set_environment_key_biometric_state [of dh minted out i enabled w] by auto
next
  case (Step_Modules out i modules)
  show ?thesis
  proof (cases "find (\<lambda>m. \<not> is_known_module m) modules")
    case None
    then have known: "list_all is_known_module modules" by (auto simp: find_None_iff list_all_iff)
    with None Step_Modules ok update_environment_state [of out i "\<lambda>e. e\<lparr>en_modules := modules\<rparr>" w]
    show ?thesis
      by (auto simp: set_environment_modules_def dest!: read_environments_ok [OF ok]
          elim!: registry_ok_update)
  qed (use Step_Modules ok in \<open>simp add: set_environment_modules_def\<close>)
next
  case (Step_Observability out i enabled)
  with ok update_environment_state [of out i "\<lambda>e. e\<lparr>en_observability := enabled\<rparr>" w] show ?thesis
    by (auto simp: set_environment_observability_def dest!: read_environments_ok [OF ok]
        elim!: registry_ok_update)
next
  case (Step_Open io p)
  then show ?thesis using ok base_open [of dh fs io p w] by (simp add: base_def)
qed (use ok in \<open>auto simp: stop_environment_def close_notebook_def edit_working_copy_def Let_def
      shut_down_all_def notebooks_reset_def write_file_def
      files_create_dir_def files_delete_def files_delete_dir_def
      intro: with_store_invariant [where P = "\<lambda>w. registry_ok (dk_registry w)"] split: option.split\<close>)

theorem reachable_registry_ok:
  assumes "desktop_reachable dh fs w w'" and "registry_ok (dk_registry w)"
  shows "registry_ok (dk_registry w')"
  using assms(1) unfolding desktop_reachable_def
  by (induction rule: rtranclp_induct) (use assms(2) step_registry_ok in blast)+

section \<open>The keys\<close>

lemma configure_others:
  assumes ok: "keychain_ok kc plain bio" and "j \<noteq> i"
  shows "current_key macos plain bio j (kw_store (snd (configure macos kc minted io i d p w)))
    = current_key macos plain bio j (kw_store w)"
proof -
  obtain r w' where en: "ensure_kek macos kc minted i w = (r, w')" by fastforce
  from ensure_kek_result [OF ok en] assms(2)
  have "current_key macos plain bio j (kw_store w') = current_key macos plain bio j (kw_store w)" by blast
  with en show ?thesis
    by (cases p; cases r)
      (auto simp: configure_def Let_def split: prod.split sum.split dest: write_key_config_store)
qed

lemma protection_others:
  assumes ok: "keychain_ok kc plain bio" and "j \<noteq> i"
    and "set_biometric_protection macos kc i kek enabled s = (r, s')"
  shows "current_key macos plain bio j s' = current_key macos plain bio j s"
proof -
  have "plain s' j = plain s j \<and> bio s' j = bio s j"
  proof (cases "macos \<and> enabled")
    case True
    obtain q t where wr: "biometric_write kc i kek s = (q, t)" by fastforce
    obtain q' t' where de: "plain_delete kc i t = (q', t')" by fastforce
    from True wr de assms(3) have "s' = t \<or> s' = t'"
      by (cases q) (auto simp: set_biometric_protection_def)
    with biometric_write_facts [OF ok wr] plain_delete_facts [OF ok de] \<open>j \<noteq> i\<close> show ?thesis by auto
  next
    case False
    obtain q t where wr: "plain_write kc i kek s = (q, t)" by fastforce
    obtain q' t' where de: "biometric_delete kc i t = (q', t')" by fastforce
    from False wr de assms(3) have "s' = s \<or> s' = t \<or> s' = t'"
      by (cases q; cases macos) (auto simp: set_biometric_protection_def)
    with plain_write_facts [OF ok wr] biometric_delete_facts [OF ok de] \<open>j \<noteq> i\<close> show ?thesis by auto
  qed
  then show ?thesis by (auto simp: current_key_def)
qed

lemma set_biometric_others:
  assumes ok: "keychain_ok kc plain bio" and "j \<noteq> i"
  shows "current_key macos plain bio j (kw_store (snd (set_biometric macos kc minted io i d enabled w)))
    = current_key macos plain bio j (kw_store w)"
proof -
  obtain r w' where en: "ensure_kek macos kc minted i w = (r, w')" by fastforce
  from ensure_kek_result [OF ok en] assms(2)
  have w': "current_key macos plain bio j (kw_store w') = current_key macos plain bio j (kw_store w)" by blast
  show ?thesis
  proof (cases r)
    case (Inr kek)
    obtain q t where sp: "set_biometric_protection macos kc i kek enabled (kw_store w') = (q, t)" by fastforce
    from protection_others [OF ok \<open>j \<noteq> i\<close> sp] w' en Inr sp show ?thesis
      by (auto simp: set_biometric_def Let_def split: prod.split sum.split dest!: write_key_config_store)
  qed (use en w' in \<open>auto simp: set_biometric_def Let_def\<close>)
qed

definition env_key ::
  "'s desktop_host \<Rightarrow> ('s \<Rightarrow> string \<Rightarrow> string option) \<Rightarrow> ('s \<Rightarrow> string \<Rightarrow> string option) \<Rightarrow> string
    \<Rightarrow> ('r, 'h, 's) desktop \<Rightarrow> string option" where
  "env_key dh plain bio i w = current_key (dh_macos dh) plain bio i (kw_store (dk_keys w))"

lemma step_env_key:
  assumes "desktop_step dh fs w w'" and ok: "keychain_ok (dh_keychain dh) plain bio"
    and key: "env_key dh plain bio j w = Some k"
  shows "env_key dh plain bio j w' = Some k"
proof -
  note key' = key [unfolded env_key_def]
  have configure: "current_key (dh_macos dh) plain bio j
      (kw_store (snd (configure (dh_macos dh) (dh_keychain dh) minted io i d p (dk_keys w)))) = Some k" for minted io i d p
    using configure_keeps [OF ok key'] configure_others [OF ok] key' by (cases "j = i") auto
  have biometric: "current_key (dh_macos dh) plain bio j
      (kw_store (snd (set_biometric (dh_macos dh) (dh_keychain dh) minted io i d e (dk_keys w)))) = Some k" for minted io i d e
    using set_biometric_keeps [OF ok key'] set_biometric_others [OF ok] key' by (cases "j = i") auto
  have ensure: "current_key (dh_macos dh) plain bio j
      (kw_store (snd (ensure_kek (dh_macos dh) (dh_keychain dh) minted i (dk_keys w)))) = Some k" for minted i
    using ensure_kek_result [OF ok, of "dh_macos dh" minted i "dk_keys w"] key'
    by (cases "j = i") (auto simp: prod_eq_iff)
  from assms(1) show ?thesis
  proof cases
    case (Step_Create io name)
    with key configure create_environment_state [of dh io name w] show ?thesis
      by (auto simp: Let_def env_key_def)
  next
    case (Step_Start io i)
    with key ensure base_start [of dh io i w] show ?thesis by (auto simp: base_def env_key_def)
  next
    case (Step_Configure minted out i provider)
    with key configure configure_environment_key_state [of dh minted out i provider w] show ?thesis
      by (auto simp: env_key_def)
  next
    case (Step_Biometric minted out i enabled)
    with key biometric set_environment_key_biometric_state [of dh minted out i enabled w] show ?thesis
      by (auto simp: env_key_def)
  next
    case (Step_Modules out i modules)
    with key update_environment_state [of out i "\<lambda>e. e\<lparr>en_modules := modules\<rparr>" w] show ?thesis
      by (auto simp: set_environment_modules_def env_key_def split: option.split)
  next
    case (Step_Observability out i enabled)
    with key update_environment_state [of out i "\<lambda>e. e\<lparr>en_observability := enabled\<rparr>" w] show ?thesis
      by (auto simp: set_environment_observability_def env_key_def)
  next
    case (Step_Open io p)
    with key base_open [of dh fs io p w] show ?thesis by (simp add: base_def env_key_def)
  qed (use key in \<open>auto simp: stop_environment_def close_notebook_def edit_working_copy_def Let_def env_key_def
        shut_down_all_def notebooks_reset_def write_file_def
        files_create_dir_def files_delete_def files_delete_dir_def
        intro: with_store_invariant [where P = "\<lambda>w. current_key (dh_macos dh) plain bio j (kw_store (dk_keys w)) = Some k"]
        split: option.split\<close>)
qed

theorem reachable_env_key:
  assumes "desktop_reachable dh fs w w'" and "keychain_ok (dh_keychain dh) plain bio"
    and "env_key dh plain bio j w = Some k"
  shows "env_key dh plain bio j w' = Some k"
  using assms(1) unfolding desktop_reachable_def
  by (induction rule: rtranclp_induct) (use assms(2,3) step_env_key in blast)+

section \<open>The provider\<close>

lemma env_uc_dir_inj [simp]: "env_uc_dir root i = env_uc_dir root j \<longleftrightarrow> i = j"
  by (simp add: env_uc_dir_def join_path_def)

definition key_record :: "'s desktop_host \<Rightarrow> string \<Rightarrow> ('r, 'h, 's) desktop \<Rightarrow> key_config option" where
  "key_record dh i w = kw_records (dk_keys w) (env_uc_dir (dh_root dh) i)"

lemma ensure_kek_records: "kw_records (snd (ensure_kek macos kc minted i w)) = kw_records w"
  by (auto simp: ensure_kek_def Let_def split_def split: key_read.split sum.split)

lemma configure_records:
  "kw_records (snd (configure macos kc minted io i d p w)) = kw_records w \<or>
   (\<exists>c. kw_records (snd (configure macos kc minted io i d p w)) = (kw_records w)(d \<mapsto> c) \<and>
      kcf_provider c = p \<and> kcf_key_id c = i)"
proof -
  obtain r w' where en: "ensure_kek macos kc minted i w = (r, w')" by fastforce
  with ensure_kek_records [of macos kc minted i w] have "kw_records w' = kw_records w" by simp
  with en show ?thesis
    by (cases p; cases r; cases io) (auto simp: configure_def Let_def write_key_config_def)
qed

lemma set_biometric_records:
  "kw_records (snd (set_biometric macos kc minted io i d e w)) = kw_records w \<or>
   (\<exists>c. kw_records (snd (set_biometric macos kc minted io i d e w)) = (kw_records w)(d \<mapsto> c) \<and>
      kcf_provider c = Keychain_Provider \<and> map_option kcf_provider (kw_records w d) \<noteq> Some Remote_Provider)"
proof -
  obtain r w' where en: "ensure_kek macos kc minted i w = (r, w')" by fastforce
  with ensure_kek_records [of macos kc minted i w] have rec: "kw_records w' = kw_records w" by simp
  show ?thesis
  proof (cases r)
    case (Inr kek)
    obtain q t where "set_biometric_protection macos kc i kek e (kw_store w') = (q, t)" by fastforce
    with en rec Inr show ?thesis
      by (cases q; cases io) (auto simp: set_biometric_def Let_def write_key_config_def)
  qed (use en rec in \<open>auto simp: set_biometric_def Let_def\<close>)
qed

text \<open>Only a registered environment can have a remote key: creating one writes a keychain record.\<close>

definition remote_known :: "'s desktop_host \<Rightarrow> ('r, 'h, 's) desktop \<Rightarrow> bool" where
  "remote_known dh w \<longleftrightarrow>
     (\<forall>i c. key_record dh i w = Some c \<longrightarrow> kcf_provider c = Remote_Provider \<longrightarrow> known_environment i w = Inr ())"

lemma known_environment_iff:
  "known_environment i w = Inr () \<longleftrightarrow> (\<exists>envs. read_environments w = Inr envs \<and> i \<in> set (map en_id envs))"
  by (cases "read_environments w") (auto simp: known_environment_def list_ex_iff)

lemma update_environment_known:
  assumes "known_environment i w = Inr ()" and "\<And>e. en_id (f e) = en_id e"
  shows "known_environment i (snd (update_environment out j f w)) = Inr ()"
proof (cases "snd (update_environment out j f w) = w")
  case False
  with update_environment_state [of out j f w] obtain envs envs' where
    envs: "read_environments w = Inr envs" "update_first (\<lambda>e. en_id e = j) f envs = Some envs'"
    and new: "snd (update_environment out j f w) = w\<lparr>dk_registry := Registry envs'\<rparr>" by blast
  from update_first_ids [OF envs(2) assms(2)] have "map en_id envs' = map en_id envs" .
  with assms(1) envs(1) new show ?thesis
    unfolding known_environment_iff by (simp add: read_environments_def flip: set_map)
qed (use assms in simp)

lemma step_known:
  fixes w w' :: "('r, 'h, 's) desktop"
  assumes "desktop_step dh fs w w'" and known: "known_environment i w = Inr ()"
  shows "known_environment i w' = Inr ()"
proof -
  have same: "known_environment i v = Inr ()" if "dk_registry v = dk_registry w" for v :: "('r, 'h, 's) desktop"
    using known that by (simp add: known_environment_def read_environments_def)
  from assms(1) show ?thesis
  proof cases
    case (Step_Create io name)
    with known same create_environment_state [of dh io name w] show ?thesis
      by (auto simp: Let_def known_environment_iff read_environments_def)
  next
    case (Step_Start io j)
    with same base_start [of dh io j w] show ?thesis by (auto simp: base_def)
  next
    case (Step_Configure minted out j provider)
    with same configure_environment_key_state [of dh minted out j provider w] show ?thesis by auto
  next
    case (Step_Biometric minted out j enabled)
    with same set_environment_key_biometric_state [of dh minted out j enabled w] show ?thesis by auto
  next
    case (Step_Modules out j modules)
    with known show ?thesis
      by (auto simp: set_environment_modules_def intro: update_environment_known split: option.split)
  next
    case (Step_Observability out j enabled)
    with known show ?thesis
      by (auto simp: set_environment_observability_def intro: update_environment_known)
  next
    case (Step_Open io p)
    with same base_open [of dh fs io p w] show ?thesis by (simp add: base_def)
  qed (use known same in \<open>auto simp: stop_environment_def close_notebook_def edit_working_copy_def Let_def
        shut_down_all_def notebooks_reset_def write_file_def
        files_create_dir_def files_delete_def files_delete_dir_def
        intro: with_store_invariant [where P = "\<lambda>w. known_environment i w = Inr ()"]
        split: option.split\<close>)
qed

text \<open>One step: a record keeps its provider, and a new one is the keychain's unless its environment is known.\<close>

definition provider_kept :: "(string \<rightharpoonup> key_config) \<Rightarrow> (string \<rightharpoonup> key_config) \<Rightarrow> bool" where
  "provider_kept m m' \<longleftrightarrow>
     (\<forall>d c. m d = Some c \<longrightarrow> (\<exists>c'. m' d = Some c' \<and> kcf_provider c' = kcf_provider c))"

lemma provider_kept_refl [simp]: "provider_kept m m"
  by (simp add: provider_kept_def)

lemma create_environment_keys:
  "dk_keys (snd (create_environment dh io name w)) = dk_keys w \<or>
   (\<exists>i. known_environment i w \<noteq> Inr () \<and>
      dk_keys (snd (create_environment dh io name w)) = snd (configure (dh_macos dh) (dh_keychain dh)
        (cr_minted io) (cr_key_record io) i (env_uc_dir (dh_root dh) i) Keychain_Provider (dk_keys w)))"
proof (cases "snd (create_environment dh io name w) = w")
  case False
  with create_environment_state [of dh io name w] obtain i envs
    where "read_environments w = Inr envs" and "i \<notin> set (map en_id envs)"
    and keys: "dk_keys (snd (create_environment dh io name w)) = snd (configure (dh_macos dh) (dh_keychain dh)
        (cr_minted io) (cr_key_record io) i (env_uc_dir (dh_root dh) i) Keychain_Provider (dk_keys w))"
    unfolding Let_def by (elim disjE exE conjE) simp_all
  then have "known_environment i w \<noteq> Inr ()" by (auto simp: known_environment_iff)
  with keys show ?thesis by blast
qed simp

definition record_write ::
  "'s desktop_host \<Rightarrow> ('r, 'h, 's) desktop \<Rightarrow> (string \<rightharpoonup> key_config) \<Rightarrow> bool" where
  "record_write dh w m \<longleftrightarrow>
     m = kw_records (dk_keys w) \<or>
     (\<exists>j c. m = (kw_records (dk_keys w))(env_uc_dir (dh_root dh) j \<mapsto> c) \<and>
        (if known_environment j w = Inr () then \<forall>c'. key_record dh j w = Some c' \<longrightarrow> kcf_provider c' = kcf_provider c
         else kcf_provider c = Keychain_Provider))"

lemma record_write_same [simp]: "record_write dh w (kw_records (dk_keys w))"
  by (simp add: record_write_def)

lemma record_write_configure:
  assumes "if known_environment j w = Inr () then \<forall>c'. key_record dh j w = Some c' \<longrightarrow> kcf_provider c' = p
    else p = Keychain_Provider"
  shows "record_write dh w (kw_records (snd (configure macos kc minted io j (env_uc_dir (dh_root dh) j) p (dk_keys w))))"
  using configure_records [of macos kc minted io j "env_uc_dir (dh_root dh) j" p "dk_keys w"] assms
  unfolding record_write_def by metis

lemma record_write_biometric:
  assumes "known_environment j w = Inr ()"
  shows "record_write dh w (kw_records (snd (set_biometric macos kc minted io j (env_uc_dir (dh_root dh) j) e (dk_keys w))))"
  using set_biometric_records [of macos kc minted io j "env_uc_dir (dh_root dh) j" e "dk_keys w"] assms
  unfolding record_write_def key_record_def by (metis key_provider.exhaust option.map(2))

lemma step_records:
  assumes "desktop_step dh fs w w'"
  shows "record_write dh w (kw_records (dk_keys w'))"
  using assms
proof cases
  case (Step_Create io name)
  with create_environment_keys [of dh io name w] show ?thesis by (auto intro!: record_write_configure)
next
  case (Step_Start io i)
  with base_start [of dh io i w] show ?thesis by (auto simp: base_def ensure_kek_records)
next
  case (Step_Configure minted out i provider)
  with configure_environment_key_state [of dh minted out i provider w] show ?thesis
    by (auto intro!: record_write_configure simp: key_record_def)
next
  case (Step_Biometric minted out i enabled)
  with set_environment_key_biometric_state [of dh minted out i enabled w] show ?thesis
    by (auto intro!: record_write_biometric)
next
  case (Step_Modules out i modules)
  with update_environment_state [of out i "\<lambda>e. e\<lparr>en_modules := modules\<rparr>" w] show ?thesis
    by (auto simp: set_environment_modules_def split: option.split)
next
  case (Step_Observability out i enabled)
  with update_environment_state [of out i "\<lambda>e. e\<lparr>en_observability := enabled\<rparr>" w] show ?thesis
    by (auto simp: set_environment_observability_def)
next
  case (Step_Open io p)
  with base_open [of dh fs io p w] show ?thesis by (simp add: base_def)
qed (auto simp: stop_environment_def close_notebook_def edit_working_copy_def Let_def
      shut_down_all_def notebooks_reset_def write_file_def
      files_create_dir_def files_delete_def files_delete_dir_def
      intro: with_store_invariant [where P = "\<lambda>v. record_write dh w (kw_records (dk_keys v))"]
      split: option.split)

lemma step_provider_kept:
  assumes st: "desktop_step dh fs w w'" and rk: "remote_known dh w"
  shows "provider_kept (kw_records (dk_keys w)) (kw_records (dk_keys w'))"
  unfolding provider_kept_def
proof (intro allI impI)
  fix d c assume rec: "kw_records (dk_keys w) d = Some c"
  from step_records [OF st] consider "kw_records (dk_keys w') = kw_records (dk_keys w)"
    | j c' where "kw_records (dk_keys w') = (kw_records (dk_keys w))(env_uc_dir (dh_root dh) j \<mapsto> c')"
      "if known_environment j w = Inr () then \<forall>c''. key_record dh j w = Some c'' \<longrightarrow> kcf_provider c'' = kcf_provider c'
       else kcf_provider c' = Keychain_Provider"
    unfolding record_write_def by blast
  then show "\<exists>c'. kw_records (dk_keys w') d = Some c' \<and> kcf_provider c' = kcf_provider c"
  proof cases
    case (2 j c')
    show ?thesis
    proof (cases "d = env_uc_dir (dh_root dh) j")
      case True
      with rec have "key_record dh j w = Some c" by (simp add: key_record_def)
      have "kcf_provider c' = kcf_provider c"
      proof (cases "known_environment j w = Inr ()")
        case True
        with 2(2) \<open>key_record dh j w = Some c\<close> show ?thesis by metis
      next
        case False
        with rk \<open>key_record dh j w = Some c\<close> have "kcf_provider c \<noteq> Remote_Provider"
          unfolding remote_known_def by blast
        with False 2(2) show ?thesis by (cases "kcf_provider c") simp_all
      qed
      with 2(1) True show ?thesis by simp
    qed (use 2(1) rec in simp)
  qed (use rec in simp)
qed

lemma step_remote_known:
  assumes st: "desktop_step dh fs w w'" and rk: "remote_known dh w"
  shows "remote_known dh w'"
  unfolding remote_known_def
proof (intro allI impI)
  fix i c assume rec: "key_record dh i w' = Some c" and remote: "kcf_provider c = Remote_Provider"
  from step_records [OF st] rec remote rk have "known_environment i w = Inr ()"
    unfolding record_write_def remote_known_def key_record_def by (auto split: if_splits)
  then show "known_environment i w' = Inr ()" by (rule step_known [OF st])
qed

theorem reachable_provider:
  assumes "desktop_reachable dh fs w w'" and "remote_known dh w" and "key_record dh i w = Some c"
  shows "\<exists>c'. key_record dh i w' = Some c' \<and> kcf_provider c' = kcf_provider c"
proof -
  have "remote_known dh w' \<and> provider_kept (kw_records (dk_keys w)) (kw_records (dk_keys w'))"
    using assms(1) unfolding desktop_reachable_def
  proof (induction rule: rtranclp_induct)
    case (step v v')
    with step_remote_known [OF step(2)] step_provider_kept [OF step(2)] show ?case
      by (auto simp: provider_kept_def) metis
  qed (simp add: assms(2))
  with assms(3) show ?thesis by (auto simp: provider_kept_def key_record_def)
qed

end
