(* ===== verification/Desktop_Start_Facts.thy ===== *)
theory Desktop_Start_Facts
  imports Desktop_Invariants
begin

text \<open>
  What starting an environment leaves behind, when it succeeds and when it fails on the way.
\<close>

section \<open>Success\<close>

lemma and_then_Inr:
  "and_then m f = (Inr b, w') \<Longrightarrow> \<exists>a v. m = (Inr a, v) \<and> f a v = (Inr b, w')"
  by (cases m; cases "fst m") (auto simp: and_then_def)

lemma map_err_Inr [simp]: "map_err f r = Inr x \<longleftrightarrow> r = Inr x"
  by (cases r) auto

text \<open>The supervised processes, the notebooks and the active environment.\<close>

definition sessions_part ::
  "('r, 'h, 's) desktop \<Rightarrow> string option \<times> (string \<rightharpoonup> notebook_session) \<times> ('r, 'h) active_env" where
  "sessions_part w = (dk_endpoint w, dk_sessions w, dk_active w)"

lemma sessions_frame [simp]:
  "sessions_part (w\<lparr>dk_keys := k\<rparr>) = sessions_part w"
  "sessions_part (w\<lparr>dk_otel := x, dk_telemetry := t\<rparr>) = sessions_part w"
  "sessions_part (write_file path content w) = sessions_part w"
  "sessions_part (compose_down p w) = sessions_part w"
  "sessions_part (log_effect ev w) = sessions_part w"
  "sessions_part (log_effects es w) = sessions_part w"
  "sessions_part (track q w) = sessions_part w"
  "sessions_part (shut_down_all w) = sessions_part w"
  by (simp_all add: sessions_part_def write_file_def compose_down_def log_effect_def log_effects_def
      track_def shut_down_all_def)

lemma procs_frame [simp]:
  "dk_procs (write_file path content w) = dk_procs w"
  "dk_procs (compose_down p w) = dk_procs w"
  "dk_procs (log_effect ev w) = dk_procs w"
  "dk_procs (log_effects es w) = dk_procs w"
  "dk_procs (track q w) = dk_procs w @ [q]"
  "dk_procs (shut_down_all w) = []"
  "dk_procs (notebooks_reset w) = dk_procs w"
  by (simp_all add: write_file_def compose_down_def log_effect_def log_effects_def track_def
      shut_down_all_def notebooks_reset_def)

lemma shut_down_all_active [simp]: "dk_active (shut_down_all w) = dk_active w"
  by (simp add: shut_down_all_def)

lemma sessions_reset [simp]: "sessions_part (notebooks_reset w) = (None, Map.empty, dk_active w)"
  by (simp add: sessions_part_def notebooks_reset_def)

lemma compose_up_parts [simp]:
  "sessions_part (snd (compose_up a b p out w)) = sessions_part w"
  "dk_procs (snd (compose_up a b p out w)) = dk_procs w"
  by (auto simp: compose_up_def Let_def split: sum.split)

lemma config_parts:
  assumes "write_uc_config io i d w = (Inr path, w')"
  shows "sessions_part w' = sessions_part w \<and> dk_procs w' = dk_procs w"
  using assms unfolding write_uc_config_def Let_def by (auto dest!: and_then_Inr)

lemma uc_parts:
  assumes "spawn_uc_sidecar dh io i path w = (Inr endpoint, w')"
  shows "sessions_part w' = sessions_part w \<and>
    (\<exists>child. dk_procs w' = dk_procs w @ [Sidecar ''uc-server'' child])"
  using assms unfolding spawn_uc_sidecar_def Let_def split_def by (auto dest!: and_then_Inr)

lemma telemetry_parts:
  assumes "telemetry_ensure dh up w = (r, w')"
  shows "sessions_part w' = sessions_part w \<and> dk_procs w' = dk_procs w"
proof -
  obtain q v where up: "start_jaeger up (compose_down TELEMETRY_PROJECT w) = (q, v)" by fastforce
  then have "v = snd (start_jaeger up (compose_down TELEMETRY_PROJECT w))" by simp
  then have "sessions_part v = sessions_part w \<and> dk_procs v = dk_procs w" by (simp add: start_jaeger_def)
  with assms up show ?thesis by (cases q) (auto simp: telemetry_ensure_def split: if_splits)
qed

lemma observability_parts:
  assumes "start_observability dh io env w = (Inr u, w')"
  shows "sessions_part w' = sessions_part w \<and> dk_procs w' = dk_procs w"
  using assms telemetry_parts
  by (fastforce simp: start_observability_def split: if_splits prod.splits sum.splits)

lemma compose_parts:
  assumes "start_compose dh io i w = (Inr u, w')"
  shows "sessions_part w' = sessions_part w \<and> dk_procs w' = dk_procs w @ [Compose (compose_project i)]"
proof -
  from assms have "w' = snd (compose_up ''running docker compose up: '' ''docker compose up failed''
      (compose_project i) (co_up io) (track (Compose (compose_project i)) (compose_down (compose_project i) w)))"
    unfolding start_compose_def Let_def by (auto dest!: and_then_Inr)
  then show ?thesis by simp
qed

lemma services_parts:
  assumes "start_services dh io env w = (Inr l, w')"
  shows "sessions_part w' = sessions_part w \<and>
    (dk_procs w' = dk_procs w \<or> dk_procs w' = dk_procs w @ [Compose (compose_project (en_id env))])"
proof (cases "en_modules env = []")
  case False
  with assms obtain plan where
    "start_modules dh (si_plan io) (si_compose io) (en_id env) (en_modules env) w = (Inr plan, w')"
    by (auto simp: start_services_def split: prod.splits sum.splits)
  then show ?thesis unfolding start_modules_def
    by (auto dest!: and_then_Inr compose_parts split: if_splits)
qed (use assms in \<open>simp add: start_services_def\<close>)

lemma activate_parts:
  assumes "activate_endpoint dh io (Some i) (Some u) l w = (Inr x, w')"
  shows "dk_endpoint w' = dk_endpoint w \<and> dk_sessions w' = dk_sessions w \<and> dk_procs w' = dk_procs w \<and>
    ae_id (dk_active w') = Some i \<and> ae_unity_endpoint (dk_active w') = Some u \<and>
    ae_lineage_endpoint (dk_active w') = l \<and> ae_has_home (dk_active w') \<and>
    (\<exists>hosted. ae_hosted (dk_active w') = Some hosted \<and>
       ac_build io (activate_config (Some u) l (Some (env_home_dir (dh_root dh) i))) = Inr hosted)"
  using assms unfolding activate_endpoint_def Let_def seed_home_dir_def
  by (auto dest!: and_then_Inr simp: write_file_def split: if_splits)

lemma find_environment_id: "find_environment i envs = Some env \<Longrightarrow> en_id env = i"
  by (auto simp: find_environment_def find_Some_iff)

lemma start_environment_parts:
  assumes st: "start_environment dh io i w = (Inr d, w')" and other: "ae_id (dk_active w) \<noteq> Some i"
  shows "ds_id d = i \<and> ae_id (dk_active w') = Some i \<and> dk_sessions w' = Map.empty \<and> dk_endpoint w' = None \<and>
    (\<exists>child. dk_procs w' = [Sidecar ''uc-server'' child] \<or>
      dk_procs w' = [Sidecar ''uc-server'' child, Compose (compose_project i)])"
proof -
  from st other obtain envs env where "read_environments w = Inr envs" and env: "find_environment i envs = Some env"
    by (auto simp: start_environment_def ok_or_Inr_iff dest!: and_then_Inr)
  with st other obtain path v1 u v2 x v3 l v4 y
    where s1: "write_uc_config (si_config io) i (env_uc_dir (dh_root dh) i)
        (notebooks_reset (shut_down_all w)) = (Inr path, v1)"
      and s2: "spawn_uc_sidecar dh (si_uc io) i path v1 = (Inr u, v2)"
      and s3: "start_observability dh io env v2 = (Inr x, v3)"
      and s4: "start_services dh io env v3 = (Inr l, v4)"
      and s5: "activate_endpoint dh (si_activate io) (Some i) (Some u) l v4 = (Inr y, w')"
      and d: "active_environment_descriptor w' = Some d"
    unfolding start_environment_def Let_def
    by (auto simp: ok_or_Inr_iff split: if_splits dest!: and_then_Inr)
  from uc_parts [OF s2] config_parts [OF s1] obtain child
    where p2: "sessions_part v2 = (None, Map.empty, dk_active w) \<and> dk_procs v2 = [Sidecar ''uc-server'' child]"
    by auto
  from observability_parts [OF s3] services_parts [OF s4] p2 find_environment_id [OF env]
  have p4: "sessions_part v4 = (None, Map.empty, dk_active w) \<and>
    (dk_procs v4 = [Sidecar ''uc-server'' child] \<or>
     dk_procs v4 = [Sidecar ''uc-server'' child, Compose (compose_project i)])"
    by auto
  have "ds_id d = i" using d activate_parts [OF s5] by (auto simp: active_environment_descriptor_def)
  with p4 activate_parts [OF s5] show ?thesis by (auto simp: sessions_part_def)
qed

section \<open>Failure\<close>

text \<open>Until the last step, the active environment stays and the log only grows.\<close>

definition extends :: "effect list \<Rightarrow> ('r, 'h) active_env \<Rightarrow> ('r, 'h, 's) desktop \<Rightarrow> bool" where
  "extends log a w \<longleftrightarrow> dk_active w = a \<and> (\<exists>rest. dk_log w = log @ rest)"

lemma extends_frame [simp]:
  "extends log a (w\<lparr>dk_keys := k\<rparr>) = extends log a w"
  "extends log a (w\<lparr>dk_otel := x, dk_telemetry := t\<rparr>) = extends log a w"
  "extends log a (write_file path content w) = extends log a w"
  "extends log a (track q w) = extends log a w"
  "extends log a (notebooks_reset w) = extends log a w"
  by (simp_all add: extends_def write_file_def track_def notebooks_reset_def)

lemma extends_log [intro]:
  "extends log a w \<Longrightarrow> extends log a (compose_down p w)"
  "extends log a w \<Longrightarrow> extends log a (log_effect ev w)"
  "extends log a w \<Longrightarrow> extends log a (log_effects es w)"
  "extends log a w \<Longrightarrow> extends log a (shut_down_all w)"
  by (auto simp: extends_def compose_down_def log_effect_def log_effects_def shut_down_all_def)

lemma extends_up [intro]: "extends log a w \<Longrightarrow> extends log a (snd (compose_up x y p out w))"
  by (auto simp: compose_up_def Let_def split: sum.split)

lemma extends_config [intro]: "extends log a w \<Longrightarrow> extends log a (snd (write_uc_config io i d w))"
  unfolding write_uc_config_def Let_def by (intro and_then_state [where P = "extends log a"]) auto

lemma extends_uc [intro]: "extends log a w \<Longrightarrow> extends log a (snd (spawn_uc_sidecar dh io i p w))"
  unfolding spawn_uc_sidecar_def Let_def split_def
  by (intro and_then_state [where P = "extends log a"]) auto

lemma extends_observability [intro]:
  assumes "extends log a w"
  shows "extends log a (snd (start_observability dh io env w))"
proof -
  have "extends log a (snd (telemetry_ensure dh (si_jaeger io) w))"
    unfolding telemetry_ensure_def start_jaeger_def
    using assms by (auto intro!: and_then_state [where P = "extends log a"])
  with assms show ?thesis by (auto simp: start_observability_def split: prod.split sum.split)
qed

lemma extends_compose [intro]: "extends log a w \<Longrightarrow> extends log a (snd (start_compose dh io i w))"
  unfolding start_compose_def Let_def by (intro and_then_state [where P = "extends log a"]) auto

lemma extends_services [intro]:
  assumes "extends log a w"
  shows "extends log a (snd (start_services dh io env w))"
proof -
  have "extends log a (snd (start_modules dh (si_plan io) (si_compose io) (en_id env) (en_modules env) w))"
    unfolding start_modules_def
    using assms by (intro and_then_state [where P = "extends log a"])
      (auto intro!: and_then_state [where P = "extends log a"])
  with assms show ?thesis by (auto simp: start_services_def split: prod.split sum.split)
qed

lemma activate_failed:
  assumes "activate_endpoint dh io i u l w = (Inl e, w')" and "extends log a w"
  shows "extends log a w'"
proof -
  let ?home = "case i of
          None \<Rightarrow> (Inr None, w)
        | Some env_id \<Rightarrow>
            (let home = env_home_dir (dh_root dh) env_id in
             and_then (map_err (\<lambda>e. ''creating '' @ debug_str home @ '': '' @ e) (ac_home io), w) (\<lambda>_ w.
               (Inr (Some home), seed_home_dir (ac_home_non_empty io) (ac_seed_ok io) home w)))"
  have "extends log a (snd ?home)" unfolding Let_def seed_home_dir_def using assms(2)
    by (auto split: option.split intro!: and_then_state [where P = "extends log a"])
  moreover from assms(1) have "w' = snd ?home" unfolding activate_endpoint_def
    by (cases "fst ?home") (auto simp: and_then_def split: sum.splits)
  ultimately show ?thesis by simp
qed

lemma and_then_Inl:
  "and_then m f = (Inl e, w') \<Longrightarrow> m = (Inl e, w') \<or> (\<exists>a v. m = (Inr a, v) \<and> f a v = (Inl e, w'))"
  by (cases m; cases "fst m") (auto simp: and_then_def)

text \<open>A switch that fails leaves the environment before it active, and its processes told to stop.\<close>

lemma failed_switch:
  assumes st: "start_environment dh io i w = (Inl e, w')"
    and envs: "read_environments w = Inr envs" and env: "find_environment i envs = Some env"
    and key: "key_status_of (dh_keychain dh) i (env_uc_dir (dh_root dh) i) (dk_keys w) \<noteq> Status_Unavailable"
    and active: "ae_id (dk_active w) = Some a" "a \<noteq> i"
  shows "dk_active w' = dk_active w \<and> (\<exists>rest. dk_log w' = dk_log w @ map shut_down (dk_procs w) @ rest)"
proof -
  let ?P = "extends (dk_log w @ map shut_down (dk_procs w)) (dk_active w)"
  have "?P (shut_down_all w)" by (simp add: extends_def shut_down_all_def)
  then have start: "?P (notebooks_reset (shut_down_all w))" by simp
  let ?c = "write_uc_config (si_config io) i (env_uc_dir (dh_root dh) i) (notebooks_reset (shut_down_all w))"
  have c: "?P (snd ?c)" using start by blast
  have s: "?P (snd (spawn_uc_sidecar dh (si_uc io) i p (snd ?c)))" for p using c by blast
  have "?P w'"
  proof -
    from st envs env key active consider "?c = (Inl e, w')"
      | p v where "?c = (Inr p, v)" "spawn_uc_sidecar dh (si_uc io) i p v = (Inl e, w')"
      | p v u v2 where "?c = (Inr p, v)" "spawn_uc_sidecar dh (si_uc io) i p v = (Inr u, v2)"
          "start_observability dh io env v2 = (Inl e, w')"
      | p v u v2 x v3 where "?c = (Inr p, v)" "spawn_uc_sidecar dh (si_uc io) i p v = (Inr u, v2)"
          "start_observability dh io env v2 = (Inr x, v3)" "start_services dh io env v3 = (Inl e, w')"
      | p v u v2 x v3 l v4 where "?c = (Inr p, v)" "spawn_uc_sidecar dh (si_uc io) i p v = (Inr u, v2)"
          "start_observability dh io env v2 = (Inr x, v3)" "start_services dh io env v3 = (Inr l, v4)"
          "activate_endpoint dh (si_activate io) (Some i) (Some u) l v4 = (Inl e, w')"
      | p v u v2 x v3 l v4 y where "?c = (Inr p, v)" "spawn_uc_sidecar dh (si_uc io) i p v = (Inr u, v2)"
          "start_observability dh io env v2 = (Inr x, v3)" "start_services dh io env v3 = (Inr l, v4)"
          "activate_endpoint dh (si_activate io) (Some i) (Some u) l v4 = (Inr y, w')"
          "active_environment_descriptor w' = None"
      unfolding start_environment_def Let_def
      by (auto dest!: and_then_Inl simp: ok_or_def split: option.splits)
    then show ?thesis
    proof cases
      case 1
      with c show ?thesis by simp
    next
      case (2 p v)
      with s [of p] show ?thesis by simp
    next
      case (3 p v u v2)
      with s [of p] extends_observability [of _ _ v2 dh io env] show ?thesis by fastforce
    next
      case (4 p v u v2 x v3)
      with s [of p] extends_observability [of _ _ v2 dh io env] extends_services [of _ _ v3 dh io env]
      show ?thesis by fastforce
    next
      case (5 p v u v2 x v3 l v4)
      have "?P v2" using s [of p] 5 by simp
      then have "?P v3" using extends_observability [of _ _ v2 dh io env] 5 by fastforce
      then have "?P v4" using extends_services [of _ _ v3 dh io env] 5 by fastforce
      with activate_failed [OF 5(5)] show ?thesis by blast
    next
      case (6 p v u v2 x v3 l v4 y)
      with activate_parts [OF 6(5)] show ?thesis by (simp add: active_environment_descriptor_def)
    qed
  qed
  then show ?thesis by (simp add: extends_def)
qed

end
