(* ===== verification/Desktop_Notebook_Facts.thy ===== *)
theory Desktop_Notebook_Facts
  imports Desktop_Start_Facts Routing_Store Local_Contract
begin

text \<open>
  What notebooks keep and lose, over any file store that satisfies the contract; and the calls the web
  view makes on the store of the active environment.
\<close>

section \<open>Opening\<close>

lemma marimo_keeps:
  "dk_active (snd (ensure_marimo dh io d u l w)) = dk_active w \<and>
   dk_sessions (snd (ensure_marimo dh io d u l w)) = dk_sessions w \<and>
   (\<forall>p. p \<noteq> join_path d ''.marimo.toml'' \<longrightarrow> dk_files (snd (ensure_marimo dh io d u l w)) p = dk_files w p)"
proof (cases "dk_endpoint w")
  case None
  let ?P = "\<lambda>v. dk_active v = dk_active w \<and> dk_sessions v = dk_sessions w \<and>
    (\<forall>p. p \<noteq> join_path d ''.marimo.toml'' \<longrightarrow> dk_files v p = dk_files w p)"
  show ?thesis unfolding ensure_marimo_def Let_def None option.case
    by (intro and_then_state [where P = ?P])
      (auto simp: write_file_def track_def log_effect_def)
qed (simp add: ensure_marimo_def)

lemma working_name_not_config [simp]: "working_name p \<noteq> ''.marimo.toml''"
proof
  assume eq: "working_name p = ''.marimo.toml''"
  define h where "h = hex16 (fnv1a_64 p)"
  have len: "length h = 16" by (simp add: h_def)
  then obtain c cs where h: "h = c # cs" by (cases h) auto
  then have "c \<in> set (hex16 (fnv1a_64 p))" by (metis h_def list.set_intros(1))
  then have "c \<in> set ''0123456789abcdef''" by (rule hex16_digits)
  moreover from eq h have "c = CHR ''.''" by (simp add: working_name_def Let_def flip: h_def)
  ultimately show False by simp
qed

lemma open_notebook_result:
  assumes op: "open_notebook dh fs io p w = (Inr n, w')"
  shows "on_session_id n = working_name p \<and> dk_active w' = dk_active w \<and>
    (\<exists>i hosted content. ae_id (dk_active w) = Some i \<and> ae_hosted (dk_active w) = Some hosted \<and>
      fs_read_file fs p None None (ho_files hosted) = Inr content \<and>
      dk_sessions w' = (dk_sessions w)(working_name p \<mapsto>
        \<lparr>ns_volume_path = p, ns_working_path = join_path (env_notebooks_dir (dh_root dh) i) (working_name p)\<rparr>) \<and>
      dk_files w' (join_path (env_notebooks_dir (dh_root dh) i) (working_name p)) = Some content)"
proof -
  from op obtain i hosted content base v where
    act: "ae_id (dk_active w) = Some i" "ae_hosted (dk_active w) = Some hosted"
    and rd: "fs_read_file fs p None None (ho_files hosted) = Inr content"
    and mar: "ensure_marimo dh (oi_marimo io) (env_notebooks_dir (dh_root dh) i) (ae_unity_endpoint (dk_active w))
      (ae_lineage_endpoint (dk_active w))
      (write_file (join_path (env_notebooks_dir (dh_root dh) i) (working_name p)) content w) = (Inr base, v)"
    and w': "w' = v\<lparr>dk_sessions := (dk_sessions v)(working_name p \<mapsto>
        \<lparr>ns_volume_path = p, ns_working_path = join_path (env_notebooks_dir (dh_root dh) i) (working_name p)\<rparr>)\<rparr>"
    and n: "on_session_id n = working_name p"
    unfolding open_notebook_def Let_def by (auto dest!: and_then_Inr simp: ok_or_Inr_iff)
  from mar have v: "v = snd (ensure_marimo dh (oi_marimo io) (env_notebooks_dir (dh_root dh) i)
      (ae_unity_endpoint (dk_active w)) (ae_lineage_endpoint (dk_active w))
      (write_file (join_path (env_notebooks_dir (dh_root dh) i) (working_name p)) content w))" by simp
  have "dk_active v = dk_active w \<and> dk_sessions v = dk_sessions w \<and>
    dk_files v (join_path (env_notebooks_dir (dh_root dh) i) (working_name p)) = Some content"
    unfolding v using marimo_keeps [of dh "oi_marimo io" "env_notebooks_dir (dh_root dh) i"
        "ae_unity_endpoint (dk_active w)" "ae_lineage_endpoint (dk_active w)"
        "write_file (join_path (env_notebooks_dir (dh_root dh) i) (working_name p)) content w"]
    by (simp add: write_file_def join_path_def)
  with act rd w' n show ?thesis by auto
qed

text \<open>Opening again gives the copy the store's contents: edits that were not synced are gone.\<close>

lemma reopen_resets_copy:
  assumes "open_notebook dh fs io p w = (Inr n, w1)"
    and "open_notebook dh fs io' p (edit_working_copy (on_session_id n) c w1) = (Inr n', w2)"
    and "ae_hosted (dk_active w) = Some hosted" and "fs_read_file fs p None None (ho_files hosted) = Inr content"
  shows "on_session_id n' = on_session_id n \<and>
    (\<exists>session. dk_sessions w2 (on_session_id n) = Some session \<and> dk_files w2 (ns_working_path session) = Some content)"
proof -
  have "dk_active (edit_working_copy (on_session_id n) c w1) = dk_active w1"
    by (simp add: edit_working_copy_def write_file_def split: option.split)
  with open_notebook_result [OF assms(1)] open_notebook_result [OF assms(2)] assms(3,4) show ?thesis by auto
qed

section \<open>Saving\<close>

lemma edit_then_sync:
  assumes "dk_sessions w sid = Some session" and "ae_hosted (dk_active w) = Some hosted"
    and "sync_notebook fs amb e sid (edit_working_copy sid c w) = (Inr (), w')"
  shows "\<exists>m h. fs_put_file fs amb (ns_volume_path session) (Some ''text/x-python'') c (ho_files hosted) = (Inr m, h) \<and>
    w' = with_store h (edit_working_copy sid c w)"
proof -
  let ?w = "edit_working_copy sid c w"
  obtain r h where put: "fs_put_file fs amb (ns_volume_path session) (Some ''text/x-python'') c (ho_files hosted) = (r, h)"
    by fastforce
  have w: "ae_hosted (dk_active ?w) = Some hosted" "dk_sessions ?w sid = Some session"
    "dk_files ?w (ns_working_path session) = Some c"
    using assms(1,2) by (simp_all add: edit_working_copy_def write_file_def)
  from sync_notebook_steps [OF w put, of e] assms(3) put show ?thesis by (auto simp: is_ok_iff)
qed

context file_store_contract
begin

text \<open>What was edited and synced is what the volume's path reads as, and no other file changed.\<close>

lemma notebook_saved:
  assumes op: "open_notebook dh fs io p w = (Inr n, w1)"
    and sy: "sync_notebook fs amb e (on_session_id n) (edit_working_copy (on_session_id n) c w1) = (Inr (), w2)"
    and hosted: "ae_hosted (dk_active w) = Some hosted" and ok: "inv (ho_files hosted)"
  shows "\<exists>hosted'. ae_hosted (dk_active w2) = Some hosted' \<and> inv (ho_files hosted') \<and>
    fs_read_file fs p None None (ho_files hosted') = Inr c \<and>
    (\<forall>q b. key q \<noteq> key p \<longrightarrow> (fs_read_file fs q None None (ho_files hosted') = Inr b \<longleftrightarrow>
       fs_read_file fs q None None (ho_files hosted) = Inr b))"
proof -
  from open_notebook_result [OF op] obtain session where ses: "dk_sessions w1 (on_session_id n) = Some session"
    and path: "ns_volume_path session = p" and act: "dk_active w1 = dk_active w" by auto
  from edit_then_sync [OF ses _ sy] hosted act path obtain m h where
    put: "fs_put_file fs amb p (Some ''text/x-python'') c (ho_files hosted) = (Inr m, h)"
    and w2: "w2 = with_store h (edit_working_copy (on_session_id n) c w1)" by auto
  have "ae_hosted (dk_active (edit_working_copy (on_session_id n) c w1)) = Some hosted"
    using hosted act by (simp add: edit_working_copy_def write_file_def split: option.split)
  with w2 have "ae_hosted (dk_active w2) = Some (hosted\<lparr>ho_files := h\<rparr>)" by (simp add: with_store_def)
  moreover have "inv h" using put_inv [OF ok, of amb p "Some ''text/x-python''" c] put by simp
  moreover have "fs_read_file fs p None None h = Inr c" by (rule put_read [OF ok put])
  moreover have "fs_read_file fs q None None h = Inr b \<longleftrightarrow> fs_read_file fs q None None (ho_files hosted) = Inr b"
    if "key q \<noteq> key p" for q b by (rule put_read_other [OF ok put that])
  ultimately show ?thesis by auto
qed

text \<open>A chunk sent to the channel is delivered; an upload through the web view reads back as sent.\<close>

lemma upload_reads_back:
  assumes hosted: "ae_hosted (dk_active w) = Some hosted" and ok: "inv (ho_files hosted)"
    and up: "files_upload fs amb header (Some content) w = (Inr m, w')"
  shows "\<exists>p hosted'. header ''path'' = Some p \<and> ae_hosted (dk_active w') = Some hosted' \<and>
    fs_read_file fs p None None (ho_files hosted') = Inr content"
proof -
  from up obtain p where p: "header ''path'' = Some p"
    and call: "files_call (fs_put_file_stream fs amb p (header ''content_type'') [Inr content]) w = (Inr m, w')"
    by (auto simp: files_upload_def ok_or_Inr_iff dest!: and_then_Inr)
  obtain r h where put: "fs_put_file_stream fs amb p (header ''content_type'') [Inr content] (ho_files hosted) = (r, h)"
    by fastforce
  have "active_store w = Inr (ho_files hosted)"
    using hosted by (simp add: active_store_def snapshot_def active_files_def)
  with call put obtain m' where r: "r = Inr m'" and w': "w' = with_store h w"
    by (cases r) (auto simp: files_call_def)
  with put_stream_read [OF ok] put have "fs_read_file fs p None None h = Inr content"
    by fastforce
  with p w' hosted show ?thesis by (simp add: with_store_def)
qed

end

end
