(* ===== verification/Desktop_Properties.thy ===== *)
theory Desktop_Properties
  imports Desktop_Notebook_Facts
begin

text \<open>
  The properties of the desktop application, each with a concrete instance: an environment \<^verbatim>\<open>a\<close> runs, an
  environment \<^verbatim>\<open>b\<close> is registered, the secret store is a pair of maps.
\<close>

section \<open>Instances\<close>

type_synonym secrets0 = "(string \<rightharpoonup> string) \<times> (string \<rightharpoonup> string)"

definition keychain0 :: "secrets0 keychain" where
  "keychain0 =
     \<lparr>kc_entry = (\<lambda>i. Inr ()),
      kc_get = (\<lambda>i s. case fst s i of None \<Rightarrow> Inl NoEntry | Some k \<Rightarrow> Inr k),
      kc_set = (\<lambda>i k s. (Inr (), ((fst s)(i \<mapsto> k), snd s))),
      kc_delete = (\<lambda>i s. (Inr (), ((fst s)(i := None), snd s))),
      bio_get = (\<lambda>i s. case snd s i of None \<Rightarrow> Inl (ERR_ITEM_NOT_FOUND, []) | Some k \<Rightarrow> Inr (Inr k)),
      bio_set = (\<lambda>i k s. (Inr (), (fst s, (snd s)(i \<mapsto> k)))),
      bio_delete = (\<lambda>i s. (Inr (), (fst s, (snd s)(i := None)))),
      kc_display = (\<lambda>e. [])\<rparr>"


definition dh0 :: "secrets0 desktop_host" where
  "dh0 = \<lparr>dh_root = ''d'', dh_macos = True, dh_keychain = keychain0,
          dh_lower = map (\<lambda>c. [char_to_lower c]), dh_env = (\<lambda>v. None)\<rparr>"

definition envs0 :: "environment_entry list" where
  "envs0 = [\<lparr>en_id = ''a'', en_name = ''A'', en_modules = [], en_observability = False\<rparr>,
            \<lparr>en_id = ''b'', en_name = ''B'', en_modules = [''mlflow''], en_observability = True\<rparr>]"

definition home0 :: filesystem where
  "home0 = [([], DirNode 1), ([''h''], DirNode 1), ([''h'', ''n''], FileNode 1 [7])]"


type_synonym desktop0 = "(nat, filesystem \<times> memory_store, secrets0) desktop"

definition files0 :: "(filesystem \<times> memory_store) file_store" where
  "files0 = routing_file_store (local_file_store [''h''] 0) memory_file_store"

definition hosted0 :: "(nat, filesystem \<times> memory_store) hosted" where
  "hosted0 = \<lparr>ho_tags = 1, ho_query = 2, ho_ingest = 3, ho_files = (home0, new_memory_store)\<rparr>"

definition keys0 :: "secrets0 key_world" where
  "keys0 = \<lparr>kw_store = ([''a'' \<mapsto> ''k1'', ''b'' \<mapsto> ''k2''], Map.empty),
     kw_records = [env_uc_dir ''d'' ''b'' \<mapsto>
       \<lparr>kcf_provider = Keychain_Provider, kcf_key_id = ''b'', kcf_biometric = False, kcf_remote = None\<rparr>]\<rparr>"

definition boot0 :: desktop0 where
  "boot0 = desktop_boot (Registry envs0) keys0 Map.empty"

definition uc_up :: uc_spawn_io where
  "uc_up = \<lparr>us_minted = Inr ''k9'', us_sidecar = Inr (), us_child = (\<lambda>r. Inr 5),
     us_events = [Other_Event, Stderr ''starting'', Stdout ''listening on http://127.0.0.1:41''],
     us_get = (\<lambda>u. Inl ''refused''), us_post = (\<lambda>u v. Inr (Inr ()))\<rparr>"

definition plan0 :: stack_plan where
  "plan0 = \<lparr>sp_nodes = [''envoy'', ''mlflow''], sp_service_by_role = (\<lambda>r. Inl ''none''), sp_files = []\<rparr>"

definition compose_ok :: compose_io where
  "compose_ok = \<lparr>co_docker = True, co_dir = Inr (), co_data_dir = Inr (), co_manifest = Inr (),
     co_materialize = Inr (), co_up = Inr \<lparr>ce_success = True, ce_status = [], ce_stderr = []\<rparr>\<rparr>"

definition start_ok :: "(nat, filesystem \<times> memory_store) start_io" where
  "start_ok =
     \<lparr>si_config = \<lparr>uc_data_dir = Inr (), uc_canonical = Inr ''/d'', uc_storage = Inr (), uc_write = Inr ()\<rparr>,
      si_uc = uc_up, si_jaeger = Inr \<lparr>ce_success = True, ce_status = [], ce_stderr = []\<rparr>,
      si_plan = (\<lambda>m. Inr plan0), si_compose = compose_ok,
      si_activate = \<lparr>ac_home = Inr (), ac_home_non_empty = True, ac_seed_ok = (\<lambda>p. True),
                     ac_build = (\<lambda>c. Inr hosted0)\<rparr>\<rparr>"

text \<open>The application with \<^verbatim>\<open>a\<close> running.\<close>

definition running0 :: desktop0 where
  "running0 = snd (start_environment dh0 start_ok ''a'' boot0)"

lemma running0_start:
  "start_environment dh0 start_ok ''a'' boot0 = (Inr \<lparr>ds_id = ''a'', ds_name = ''A'', ds_has_home = True\<rparr>, running0)"
  unfolding running0_def by (rule fst_snd_eq) code_simp

lemma running0_reachable: "desktop_reachable dh0 files0 boot0 running0"
  unfolding desktop_reachable_def running0_def by (rule r_into_rtranclp) (rule Step_Start)

section \<open>Processes\<close>

text \<open>
  C22. In every state the application can reach, whatever fails on the way, each process that was started
  and not yet told to stop is supervised, the shared collector apart; when the application exits, nothing
  it started is left running.
\<close>

theorem processes_supervised:
  assumes "desktop_reachable dh fs (desktop_boot reg keys disk) w"
  shows "live (dk_log w) \<subseteq> running_of ` set (dk_procs w) \<union> {Project TELEMETRY_PROJECT} \<and>
    live (dk_log (app_exit w)) = {}"
proof -
  have "supervised (desktop_boot reg keys disk)" by (simp add: supervised_def desktop_boot_def)
  then have sup: "supervised w" by (rule reachable_supervised [OF assms])
  from shut_down_all_live [OF sup] have "live (dk_log (app_exit w)) = {}"
    by (auto simp: app_exit_def telemetry_shut_down_def compose_down_def log_effect_def)
  with sup show ?thesis by (simp add: supervised_def)
qed

theorem processes_supervised_witness:
  "live (dk_log running0) = {Child 5} \<and> live (dk_log (app_exit running0)) = {}"
proof -
  have "dk_log running0 = [Spawned 5, Http_Sent (Http_Get ''http://127.0.0.1:41/api/2.1/unity-catalog/catalogs'')]"
    by code_simp
  then have "live (dk_log running0) = {Child 5}" by (simp add: live_def)
  with processes_supervised [OF running0_reachable [unfolded boot0_def]] show ?thesis by simp
qed

text \<open>
  C24. Starting an environment while another one (or none) is active: if it succeeds, the environment is the
  active one, no notebook of the previous one is left, and all that runs is its server, its own compose
  project and the shared collector.
\<close>

theorem start_isolates:
  assumes "desktop_reachable dh fs (desktop_boot reg keys disk) w" and "ae_id (dk_active w) \<noteq> Some i"
    and "start_environment dh io i w = (Inr d, w')"
  shows "ds_id d = i \<and> ae_id (dk_active w') = Some i \<and> dk_sessions w' = Map.empty \<and> dk_endpoint w' = None \<and>
    (\<exists>child. live (dk_log w') \<subseteq> {Child child, Project (compose_project i), Project TELEMETRY_PROJECT})"
proof -
  have "supervised (desktop_boot reg keys disk)" by (simp add: supervised_def desktop_boot_def)
  with reachable_supervised [OF assms(1)] have "supervised (snd (start_environment dh io i w))"
    by (intro supervised_start)
  then have sup: "live (dk_log w') \<subseteq> running_of ` set (dk_procs w') \<union> {Project TELEMETRY_PROJECT}"
    using assms(3) by (simp add: supervised_def)
  from start_environment_parts [OF assms(3,2)] obtain child where
    "dk_procs w' = [Sidecar ''uc-server'' child] \<or>
      dk_procs w' = [Sidecar ''uc-server'' child, Compose (compose_project i)]" by blast
  with sup have "live (dk_log w') \<subseteq> {Child child, Project (compose_project i), Project TELEMETRY_PROJECT}"
    by auto
  with start_environment_parts [OF assms(3,2)] show ?thesis by blast
qed

theorem start_isolates_witness:
  "\<exists>child. live (dk_log (snd (start_environment dh0 start_ok ''b'' running0))) \<subseteq>
     {Child child, Project (compose_project ''b''), Project TELEMETRY_PROJECT}"
proof -
  have "start_environment dh0 start_ok ''b'' running0 =
      (Inr \<lparr>ds_id = ''b'', ds_name = ''B'', ds_has_home = True\<rparr>, snd (start_environment dh0 start_ok ''b'' running0))"
    by (rule fst_snd_eq) code_simp
  moreover have "ae_id (dk_active running0) \<noteq> Some ''b''" by code_simp
  ultimately show ?thesis
    using start_isolates [OF running0_reachable [unfolded boot0_def]] by blast
qed

text \<open>
  C26. A switch that fails after the checks has told every process of the previous environment to stop, but
  still reports that environment as active, and starting it again does nothing.
\<close>

theorem failed_switch_stays_active:
  assumes "ae_id (dk_active w) = Some a" and "a \<noteq> i"
    and "read_environments w = Inr envs" and "find_environment i envs = Some env" and "find_environment a envs = Some ea"
    and "key_status_of (dh_keychain dh) i (env_uc_dir (dh_root dh) i) (dk_keys w) \<noteq> Status_Unavailable"
    and "start_environment dh io i w = (Inl e, w')"
  shows "(\<exists>rest. dk_log w' = dk_log w @ map shut_down (dk_procs w) @ rest) \<and>
    (\<exists>d. ds_id d = a \<and> start_environment dh io' a w' = (Inr d, w'))"
proof -
  note failed = failed_switch [OF assms(7,3,4,6,1,2)]
  have "dk_registry w' = dk_registry w"
    using base_start [of dh io i w] assms(7) by (auto simp: base_def)
  then have envs: "read_environments w' = Inr envs" using assms(3) by (simp add: read_environments_def)
  with failed assms(1,5) have "start_environment dh io' a w' =
      (ok_or ''environment reported active but has no descriptor'' (active_environment_descriptor w'), w')"
    by (simp add: start_environment_def)
  moreover obtain d where "active_environment_descriptor w' = Some d" and "ds_id d = a"
    using failed assms(1) by (auto simp: active_environment_descriptor_def Let_def)
  ultimately show ?thesis using failed by simp
qed

definition start_crash :: "(nat, filesystem \<times> memory_store) start_io" where
  "start_crash = start_ok\<lparr>si_uc := uc_up\<lparr>us_events := [Terminated (Some 1)]\<rparr>\<rparr>"

theorem failed_switch_stays_active_witness:
  "\<exists>d. ds_id d = ''a'' \<and>
     start_environment dh0 start_ok ''a'' (snd (start_environment dh0 start_crash ''b'' running0)) =
       (Inr d, snd (start_environment dh0 start_crash ''b'' running0))"
proof -
  define w' where "w' = snd (start_environment dh0 start_crash ''b'' running0)"
  have st: "start_environment dh0 start_crash ''b'' running0 =
      (Inl ''uc server exited before announcing its address (code Some(1))'', w')"
    unfolding w'_def by (rule fst_snd_eq) code_simp
  have "ae_id (dk_active running0) = Some ''a''" by code_simp
  moreover have "read_environments running0 = Inr envs0" by code_simp
  moreover have "find_environment ''b'' envs0 = Some (envs0 ! 1)" by code_simp
  moreover have "find_environment ''a'' envs0 = Some (envs0 ! 0)" by code_simp
  moreover have "key_status_of (dh_keychain dh0) ''b'' (env_uc_dir (dh_root dh0) ''b'') (dk_keys running0) = Status_Keychain"
    by code_simp
  ultimately have "\<exists>d. ds_id d = ''a'' \<and> start_environment dh0 start_ok ''a'' w' = (Inr d, w')"
    using failed_switch_stays_active [OF _ _ _ _ _ _ st, of "''a''" envs0 "envs0 ! 1" "envs0 ! 0" start_ok] by simp
  then show ?thesis by (simp add: w'_def)
qed

section \<open>Environments and keys\<close>

text \<open>
  C25. Whatever commands run, and whichever of their calls fail, the ids of the registry stay distinct,
  non-empty and made of ASCII letters, digits and hyphens, and only modules of the catalogue are selected.
\<close>

theorem registry_stays_valid:
  assumes "desktop_reachable dh fs w w'" and "registry_ok (dk_registry w)" and "dk_registry w' = Registry envs"
  shows "distinct (map en_id envs) \<and> list_all (\<lambda>e. safe_id (en_id e)) envs \<and>
    list_all (\<lambda>e. list_all is_known_module (en_modules e)) envs"
  using reachable_registry_ok [OF assms(1,2)] assms(3) by (simp add: registry_ok_def)

definition create_ok :: create_io where
  "create_ok = \<lparr>cr_uc_dir = Inr (), cr_home_dir = Inr (), cr_minted = Inr ''k'', cr_key_record = Inr (),
     cr_registry = Inr ()\<rparr>"

definition created_once :: desktop0 where
  "created_once = snd (create_environment dh0 create_ok '' My Lake! '' boot0)"

definition created_twice :: desktop0 where
  "created_twice = snd (create_environment dh0 create_ok ''my lake'' created_once)"

theorem registry_stays_valid_witness:
  "\<exists>envs. dk_registry created_twice = Registry envs \<and>
     map en_id envs = [''a'', ''b'', ''my-lake'', ''my-lake-2''] \<and> distinct (map en_id envs)"
proof -
  obtain envs where envs: "dk_registry created_twice = Registry envs"
    and ids: "map en_id envs = [''a'', ''b'', ''my-lake'', ''my-lake-2'']"
  proof -
    have "(case dk_registry created_twice of Registry envs \<Rightarrow> Some (map en_id envs) | _ \<Rightarrow> None)
      = Some [''a'', ''b'', ''my-lake'', ''my-lake-2'']" by code_simp
    then show ?thesis using that by (cases "dk_registry created_twice") auto
  qed
  have reach: "desktop_reachable dh0 files0 boot0 created_twice"
  proof -
    have "desktop_step dh0 files0 boot0 created_once" unfolding created_once_def by (rule Step_Create)
    moreover have "desktop_step dh0 files0 created_once created_twice" unfolding created_twice_def by (rule Step_Create)
    ultimately show ?thesis unfolding desktop_reachable_def by (rule converse_rtranclp_into_rtranclp [OF _ r_into_rtranclp])
  qed
  have "registry_ok (Registry envs0)" by code_simp
  then have "registry_ok (dk_registry boot0)" by (simp add: boot0_def desktop_boot_def)
  from registry_stays_valid [OF reach this envs] have "distinct (map en_id envs)" by (rule conjunct1)
  show ?thesis by (intro exI conjI) fact+
qed




section \<open>Notebooks\<close>


definition marimo_ok :: marimo_io where
  "marimo_ok = \<lparr>mi_workdir = Inr (), mi_config = Inr (), mi_dev_wheels = None, mi_list_dir = (\<lambda>d. None),
     mi_child = (\<lambda>r. Inr 6), mi_events = [Stdout ''  URL: http://127.0.0.1:2718'']\<rparr>"

definition open_ok :: open_io where
  "open_ok = \<lparr>oi_workdir = Inr (), oi_write = Inr (), oi_marimo = marimo_ok\<rparr>"


definition opened0 :: desktop0 where
  "opened0 = snd (open_notebook dh0 files0 open_ok ''/home/n'' running0)"

definition note0 :: opened_notebook where
  "note0 = \<lparr>on_url = ''http://127.0.0.1:2718/?file='' @ working_name ''/home/n'',
     on_session_id = working_name ''/home/n''\<rparr>"

lemma note0_session [simp]: "on_session_id note0 = working_name ''/home/n''"
  by (simp add: note0_def)

lemma opened0_open: "open_notebook dh0 files0 open_ok ''/home/n'' running0 = (Inr note0, opened0)"
  unfolding opened0_def by (rule fst_snd_eq) code_simp

lemma running0_hosted: "ae_hosted (dk_active running0) = Some hosted0"
  by code_simp


text \<open>
  Opening a notebook that is open already reuses its session and overwrites its working copy with what
  the volume holds: edits that were not synced are lost.
\<close>

theorem reopening_discards_edits:
  assumes "open_notebook dh fs io p w = (Inr n, w1)"
    and "open_notebook dh fs io' p (edit_working_copy (on_session_id n) c w1) = (Inr n', w2)"
    and "ae_hosted (dk_active w) = Some hosted" and "fs_read_file fs p None None (ho_files hosted) = Inr content"
  shows "on_session_id n' = on_session_id n \<and>
    (\<exists>session. dk_sessions w2 (on_session_id n) = Some session \<and> dk_files w2 (ns_working_path session) = Some content)"
  by (rule reopen_resets_copy [OF assms])

theorem reopening_discards_edits_witness:
  "\<exists>session. dk_sessions (snd (open_notebook dh0 files0 open_ok ''/home/n''
        (edit_working_copy (working_name ''/home/n'') [8, 9] opened0))) (working_name ''/home/n'') = Some session \<and>
     dk_files (snd (open_notebook dh0 files0 open_ok ''/home/n''
        (edit_working_copy (working_name ''/home/n'') [8, 9] opened0))) (ns_working_path session) = Some [7]"
proof -
  define w2 where "w2 = snd (open_notebook dh0 files0 open_ok ''/home/n''
      (edit_working_copy (working_name ''/home/n'') [8, 9] opened0))"
  have reopen: "open_notebook dh0 files0 open_ok ''/home/n''
      (edit_working_copy (on_session_id note0) [8, 9] opened0) = (Inr note0, w2)"
    unfolding w2_def note0_session by (rule fst_snd_eq) code_simp
  have held: "fs_read_file files0 ''/home/n'' None None (ho_files hosted0) = Inr [7]" by code_simp
  from reopening_discards_edits [OF opened0_open reopen running0_hosted held] show ?thesis
    unfolding w2_def [symmetric] note0_session by (rule conjunct2)
qed

text \<open>
  Two volume paths can share the name of their working copy: opening the second hands out the session
  of the first, so that syncing the first notebook writes the second's text to the second's path.
\<close>

theorem working_copies_collide:
  assumes "open_notebook dh fs io ''/home/8AEjci4ffIB.py'' w = (Inr n, w1)"
    and "open_notebook dh fs io' ''/home/o4EETuKq6qN.py'' w1 = (Inr n', w2)"
  shows "on_session_id n' = on_session_id n \<and>
    map_option ns_volume_path (dk_sessions w2 (on_session_id n)) = Some ''/home/o4EETuKq6qN.py''"
proof -
  have "working_name ''/home/8AEjci4ffIB.py'' = working_name ''/home/o4EETuKq6qN.py''" by code_simp
  with open_notebook_result [OF assms(1)] open_notebook_result [OF assms(2)] show ?thesis by auto
qed

definition twins0 :: "(filesystem \<times> memory_store)" where
  "twins0 = ([([], DirNode 1), ([''h''], DirNode 1), ([''h'', ''8AEjci4ffIB.py''], FileNode 1 [1]),
              ([''h'', ''o4EETuKq6qN.py''], FileNode 1 [2])], new_memory_store)"

definition running1 :: desktop0 where
  "running1 = with_store twins0 running0"

theorem working_copies_collide_witness:
  "map_option ns_volume_path (dk_sessions
     (snd (open_notebook dh0 files0 open_ok ''/home/o4EETuKq6qN.py''
       (snd (open_notebook dh0 files0 open_ok ''/home/8AEjci4ffIB.py'' running1))))
     (working_name ''/home/8AEjci4ffIB.py'')) = Some ''/home/o4EETuKq6qN.py''"
proof -
  define w1 where "w1 = snd (open_notebook dh0 files0 open_ok ''/home/8AEjci4ffIB.py'' running1)"
  define w2 where "w2 = snd (open_notebook dh0 files0 open_ok ''/home/o4EETuKq6qN.py'' w1)"
  have "is_ok (fst (open_notebook dh0 files0 open_ok ''/home/8AEjci4ffIB.py'' running1))" by code_simp
  then obtain n where op: "open_notebook dh0 files0 open_ok ''/home/8AEjci4ffIB.py'' running1 = (Inr n, w1)"
    unfolding w1_def by (metis is_ok_iff prod.collapse)
  have "is_ok (fst (open_notebook dh0 files0 open_ok ''/home/o4EETuKq6qN.py'' w1))"
    unfolding w1_def by code_simp
  then obtain n' where op': "open_notebook dh0 files0 open_ok ''/home/o4EETuKq6qN.py'' w1 = (Inr n', w2)"
    unfolding w2_def by (metis is_ok_iff prod.collapse)
  from open_notebook_result [OF op] have "on_session_id n = working_name ''/home/8AEjci4ffIB.py''" by (rule conjunct1)
  with working_copies_collide [OF op op'] show ?thesis unfolding w1_def [symmetric] w2_def [symmetric] by simp
qed

section \<open>Services\<close>

text \<open>
  The address of the lineage service that the plan gives ends in the path of its API, and the host
  appends that path once more: the engine posts its events to a URL with the path twice. The notebook server gets
  the same address as the base that notebooks append the path to.
\<close>

theorem lineage_path_doubled:
  assumes "modules_lineage_endpoint plan = Some (gateway @ ''/api/v1/lineage'')"
    and "parse_url (gateway @ ''/api/v1/lineage/api/v1/lineage'') = Inr ()"
  shows "build_lineage_client parse_url (activate_config u (modules_lineage_endpoint plan) home) =
      Inr (Some (gateway @ ''/api/v1/lineage/api/v1/lineage'')) \<and>
    (''LINEAGE_URL'', gateway @ ''/api/v1/lineage'') \<in> set (marimo_environment uc (modules_lineage_endpoint plan))"
proof -
  have "lineage_url (gateway @ ''/api/v1/lineage'') = gateway @ ''/api/v1/lineage/api/v1/lineage''"
    by (simp add: lineage_url_def trim_end_char_def slash_def)
  with assms show ?thesis
    by (simp add: build_lineage_client_def activate_config_def nonempty_str_def marimo_environment_def
        host_config_default_def)
qed

definition headwaters_plan :: stack_plan where
  "headwaters_plan = \<lparr>sp_nodes = [''headwaters''],
     sp_service_by_role = (\<lambda>r. Inr (\<lambda>v e. Inr ''http://localhost:9080/api/v1/lineage'')), sp_files = []\<rparr>"

theorem lineage_path_doubled_witness:
  "build_lineage_client (\<lambda>u. Inr ())
      (activate_config None (modules_lineage_endpoint headwaters_plan) (Some ''/h'')) =
    Inr (Some ''http://localhost:9080/api/v1/lineage/api/v1/lineage'')"
  using lineage_path_doubled [where plan = headwaters_plan and gateway = "''http://localhost:9080''"
      and parse_url = "\<lambda>u. Inr ()" and u = None and home = "Some ''/h''" and uc = None]
  by (simp add: modules_lineage_endpoint_def headwaters_plan_def)

text \<open>
  An environment named \<^verbatim>\<open>Telemetry\<close> gets the compose project of the shared collector: stopping it takes
  the collector down, which the application goes on believing to be up.
\<close>

theorem telemetry_project_clash:
  assumes "''telemetry'' \<notin> set ids" and "ae_id (dk_active w) = Some ''telemetry''"
    and "Compose (compose_project ''telemetry'') \<in> set (dk_procs w)" and "dk_telemetry w"
  shows "allocate_env_id (map (\<lambda>c. [char_to_lower c])) ''Telemetry'' ids = ''telemetry'' \<and>
    Project TELEMETRY_PROJECT \<notin> live (dk_log (stop_environment ''telemetry'' w)) \<and>
    telemetry_ensure dh up (stop_environment ''telemetry'' w) = (Inr (), stop_environment ''telemetry'' w)"
proof -
  have "env_slug (map (\<lambda>c. [char_to_lower c])) ''Telemetry'' = ''telemetry''" by code_simp
  with assms(1) have "allocate_env_id (map (\<lambda>c. [char_to_lower c])) ''Telemetry'' ids = ''telemetry''"
    by (simp add: allocate_env_id_def)
  moreover have "compose_project ''telemetry'' = TELEMETRY_PROJECT"
    by (simp add: compose_project_def TELEMETRY_PROJECT_def)
  then have "Project TELEMETRY_PROJECT \<in> running_of ` set (dk_procs w)"
    using assms(3) by (metis image_eqI running_of.simps(2))
  then have "Project TELEMETRY_PROJECT \<notin> live (dk_log (stop_environment ''telemetry'' w))"
    using assms(2) by (simp add: stop_environment_def notebooks_reset_def shut_down_all_def live_shut_down)
  moreover have "dk_telemetry (stop_environment ''telemetry'' w)"
    using assms(2,4) by (simp add: stop_environment_def notebooks_reset_def shut_down_all_def)
  then have "telemetry_ensure dh up (stop_environment ''telemetry'' w) = (Inr (), stop_environment ''telemetry'' w)"
    by (simp add: telemetry_ensure_def)
  ultimately show ?thesis by blast
qed

definition boot1 :: desktop0 where
  "boot1 = desktop_boot (Registry [\<lparr>en_id = ''telemetry'', en_name = ''Telemetry'', en_modules = [''mlflow''],
     en_observability = True\<rparr>]) keys0 Map.empty"

definition running2 :: desktop0 where
  "running2 = snd (start_environment dh0 start_ok ''telemetry'' boot1)"

theorem telemetry_project_clash_witness:
  "Project TELEMETRY_PROJECT \<in> live (dk_log running2) \<and>
   Project TELEMETRY_PROJECT \<notin> live (dk_log (stop_environment ''telemetry'' running2))"
proof -
  have "dk_log running2 = [Spawned 5, Http_Sent (Http_Get ''http://127.0.0.1:41/api/2.1/unity-catalog/catalogs''),
      Compose_Down ''ol-telemetry'', Compose_Up ''ol-telemetry'', Compose_Down ''ol-telemetry'',
      Compose_Up ''ol-telemetry'']" by code_simp
  then have up: "Project TELEMETRY_PROJECT \<in> live (dk_log running2)"
    by (simp add: live_def TELEMETRY_PROJECT_def)
  have "ae_id (dk_active running2) = Some ''telemetry''" by code_simp
  moreover have "dk_procs running2 = [Sidecar ''uc-server'' 5, Compose (compose_project ''telemetry'')]" by code_simp
  moreover have "dk_telemetry running2" by code_simp
  ultimately show ?thesis
    using telemetry_project_clash [of "[]" running2 dh0 "Inl ''down''"] up by simp
qed

text \<open>
  The container states are read when each line is an object. When the whole output is one array on one
  line, the other form the code means to handle, no service is reported.
\<close>

theorem compose_ps_formats:
  assumes "CHR 0x0A \<notin> set txt" and "\<not> str_ends_with_char CHR 0x0D txt" and "str_trim txt \<noteq> []"
  shows "(parse txt = Some (JArray rows) \<longrightarrow> compose_ps parse (Some txt) shared = []) \<and>
    (parse txt = Some (JObject kvs) \<longrightarrow>
      compose_ps parse (Some txt) shared = List.map_filter (status_row shared) [JObject kvs])"
proof -
  have "txt \<noteq> []" using assms(3) by (auto simp: str_trim_def)
  then have "str_lines txt = [txt]"
    using assms(1,2) by (simp add: str_lines_def str_split_plain Let_def)
  with assms(3) show ?thesis by (simp add: compose_ps_def map_filter_simps status_row_def)
qed

definition ps_line :: string where
  "ps_line = ''[...]''"

theorem compose_ps_formats_witness:
  "compose_ps (\<lambda>t. if t = ps_line then Some (JArray [JObject [(''Service'', JString ''mlflow'')]]) else None)
     (Some ps_line) False = []"
  using compose_ps_formats [of ps_line "\<lambda>t. if t = ps_line then Some (JArray [JObject [(''Service'', JString ''mlflow'')]]) else None"
      "[JObject [(''Service'', JString ''mlflow'')]]" False]
  by (simp add: ps_line_def str_ends_with_char_def str_trim_def is_space_def)

end
