(* ===== verification/Session_Build.thy ===== *)
theory Session_Build
  imports Query_Plans
begin

text \<open>
  \<^verbatim>\<open>crates/hydrofoil/src/session/mod.rs\<close> and the sessions of \<^verbatim>\<open>engine.rs\<close> in full: what a DataFusion session is
  built from (configuration extensions, query planner, runtime, catalogs), the sessions derived from it for one
  query, the physical plan they make, and opening a Delta table. An extension, set by its type, is a field of the
  configuration. A \<^verbatim>\<open>RuntimeEnv\<close> is an address: its object stores are a map in a heap. The client of a Unity
  Catalog factory is named by the factory \<open>'f\<close>; policies \<open>'pol\<close>, lineage clients \<open>'l\<close>, object stores \<open>'os\<close> and
  the schema provider \<open>'sp\<close> (that of \<open>Schema_Provider\<close>, fresh for each session) are opaque.
\<close>

section \<open>Configuration and planner\<close>

record ('p, 'f, 'pol) session_config =
  cf_information_schema :: bool
  cf_default_catalog :: string
  cf_default_schema :: string
  cf_principal :: "'p option"
  cf_fact_sink :: fact_sink
  cf_policy_engine :: "'pol option"
  cf_unity_client :: "'f option"
  cf_unity_factory :: "'f option"
  cf_function_resolver :: "'f option"
  cf_lineage :: "lineage_context option"
  cf_agent :: "agent_context option"
  cf_fact_store :: "nat option"

definition with_principal :: "'p \<Rightarrow> ('p, 'f, 'pol) session_config \<Rightarrow> ('p, 'f, 'pol) session_config" where
  "with_principal who cf = cf\<lparr>cf_principal := Some who\<rparr>"

text \<open>The configuration of a session; the options DataFusion reads from the environment are not read back.\<close>

definition session_config_for ::
  "'p option \<Rightarrow> 'f option \<Rightarrow> 'pol \<Rightarrow> ('p, 'f, 'pol) session_config" where
  "session_config_for who unity_factory policy =
     (let cf0 = \<lparr>cf_information_schema = True, cf_default_catalog = ''hydrofoil'', cf_default_schema = ''default'',
                 cf_principal = None, cf_fact_sink = None, cf_policy_engine = None, cf_unity_client = None,
                 cf_unity_factory = None, cf_function_resolver = None, cf_lineage = None, cf_agent = None,
                 cf_fact_store = None\<rparr>;
          cf1 = (case who of Some p \<Rightarrow> with_principal p cf0 | None \<Rightarrow> cf0);
          cf2 = cf1\<lparr>cf_fact_sink := Some Map.empty\<rparr>;
          cf3 = cf2\<lparr>cf_policy_engine := Some policy\<rparr>
      in case unity_factory of
           Some factory \<Rightarrow>
             cf3\<lparr>cf_unity_client := Some factory, cf_unity_factory := Some factory,
                 cf_function_resolver := Some factory\<rparr>
         | None \<Rightarrow> cf3)"

datatype extension_planner = LineageExtensionPlanner | UnityCatalogPlanner

record ('pol, 'l) governed_planner =
  gp_policy :: 'pol
  gp_lineage :: "('l \<times> lineage_config) option"
  gp_extension_planners :: "extension_planner list"

definition new_governed_planner ::
  "'pol \<Rightarrow> extension_planner list \<Rightarrow> ('l \<times> lineage_config) option \<Rightarrow> ('pol, 'l) governed_planner" where
  "new_governed_planner policy extension_planners lineage =
     \<lparr>gp_policy = policy, gp_lineage = lineage,
      gp_extension_planners = LineageExtensionPlanner # extension_planners\<rparr>"

section \<open>Runtimes\<close>

record 'os runtimes =
  rt_stores :: "nat \<Rightarrow> (string \<rightharpoonup> 'os)"
  rt_next :: nat

definition fresh_runtime :: "'os runtimes \<Rightarrow> nat \<times> 'os runtimes" where
  "fresh_runtime rts =
     (rt_next rts, \<lparr>rt_stores = (rt_stores rts)(rt_next rts := Map.empty), rt_next = Suc (rt_next rts)\<rparr>)"

definition register_object_store :: "string \<Rightarrow> 'os \<Rightarrow> nat \<Rightarrow> 'os runtimes \<Rightarrow> 'os runtimes" where
  "register_object_store url store rt rts =
     rts\<lparr>rt_stores := (rt_stores rts)(rt := (rt_stores rts rt)(url \<mapsto> store))\<rparr>"

record s3_request =
  s3_access_key_id :: string
  s3_secret_access_key :: string
  s3_endpoint :: string
  s3_bucket_name :: string
  s3_allow_http :: bool

text \<open>What building a session asks of its libraries: the environment's options, an S3 client, its instrumentation.\<close>

record 'os session_io =
  si_from_env :: "string + unit"
  si_build_s3 :: "s3_request \<Rightarrow> string + 'os"
  si_instrument :: "'os \<Rightarrow> string \<Rightarrow> 'os"
  si_register_schema :: "string + unit"

definition add_seaweedfs :: "'os session_io \<Rightarrow> nat \<Rightarrow> 'os runtimes \<Rightarrow> (string + unit) \<times> 'os runtimes" where
  "add_seaweedfs io rt rts =
     and_then (si_build_s3 io
         \<lparr>s3_access_key_id = ''seaweed-key-id'', s3_secret_access_key = ''seaweed-access-key'',
          s3_endpoint = ''http://localhost:8333/'', s3_bucket_name = ''open-lakehouse'', s3_allow_http = True\<rparr>, rts)
       (\<lambda>object_store rts.
         (Inr (), register_object_store ''s3://open-lakehouse/'' (si_instrument io object_store ''seaweedfs'') rt rts))"

definition update_session :: "'os session_io \<Rightarrow> nat \<Rightarrow> 'os runtimes \<Rightarrow> (string + unit) \<times> 'os runtimes" where
  "update_session io rt rts = add_seaweedfs io rt rts"

section \<open>Building a session\<close>

record ('p, 'f, 'pol, 'l, 'sp) session_ctx =
  cx_session_id :: string
  cx_config :: "('p, 'f, 'pol) session_config"
  cx_planner :: "('pol, 'l) governed_planner"
  cx_runtime :: nat
  cx_table_factories :: "string list"
  cx_catalogs :: "string \<rightharpoonup> (string \<rightharpoonup> 'sp)"

definition create_session_for ::
  "'os session_io \<Rightarrow> 'sp \<Rightarrow> string \<Rightarrow> string option \<Rightarrow> 'l option \<Rightarrow> lineage_config \<Rightarrow> 'p option
    \<Rightarrow> 'f option \<Rightarrow> 'pol \<Rightarrow> 'os runtimes
    \<Rightarrow> (string + ('p, 'f, 'pol, 'l, 'sp) session_ctx) \<times> 'os runtimes" where
  "create_session_for io provider minted session_id lineage lineage_config who unity_factory policy rts =
     and_then (si_from_env io, rts) (\<lambda>_ rts.
       (let config = session_config_for who unity_factory policy;
            planner = new_governed_planner policy [UnityCatalogPlanner]
                        (map_option (\<lambda>client. (client, lineage_config)) lineage);
            (rt, rts1) = fresh_runtime rts
        in and_then (update_session io rt rts1) (\<lambda>_ rts2.
             and_then (si_register_schema io, rts2) (\<lambda>_ rts2.
               (Inr \<lparr>cx_session_id = unwrap_or minted session_id, cx_config = config, cx_planner = planner,
                     cx_runtime = rt, cx_table_factories = [''DELTA''],
                     cx_catalogs = [''hydrofoil'' \<mapsto> [''default'' \<mapsto> provider]]\<rparr>, rts2)))))"

definition create_session ::
  "'os session_io \<Rightarrow> 'sp \<Rightarrow> string \<Rightarrow> string option \<Rightarrow> 'l option \<Rightarrow> lineage_config \<Rightarrow> 'pol \<Rightarrow> 'os runtimes
    \<Rightarrow> (string + ('p, 'f, 'pol, 'l, 'sp) session_ctx) \<times> 'os runtimes" where
  "create_session io provider minted session_id lineage lineage_config allow_all rts =
     create_session_for io provider minted session_id lineage lineage_config None None allow_all rts"

text \<open>The resolver of a session: its factory, the runtime it registers stores on, and what builds its tables.\<close>

datatype governed_tag_source = From_Properties | From_Unity_Api

record 'f unity_resolver =
  ur_factory :: 'f
  ur_runtime :: nat
  ur_task_runtime :: nat
  ur_client :: 'f
  ur_governed_tags :: governed_tag_source

definition build_unity_resolver :: "('p, 'f, 'pol, 'l, 'sp) session_ctx \<Rightarrow> 'f \<Rightarrow> 'f unity_resolver" where
  "build_unity_resolver cx factory =
     \<lparr>ur_factory = factory, ur_runtime = cx_runtime cx, ur_task_runtime = cx_runtime cx, ur_client = factory,
      ur_governed_tags = From_Unity_Api\<rparr>"

section \<open>The engine's sessions\<close>

text \<open>The fields of the engine beside those of \<open>Session_Engine\<close>; the taint ledger is an address.\<close>

record ('pol, 'l) engine_parts =
  ep_policy :: 'pol
  ep_lineage :: "'l option"
  ep_lineage_config :: lineage_config
  ep_fact_store :: nat

record ('p, 'f, 'pol, 'l, 'sp) engine_session =
  es_ctx :: "('p, 'f, 'pol, 'l, 'sp) session_ctx"
  es_policy :: 'pol
  es_principal :: 'p
  es_unity :: "'f unity_resolver option"
  es_created_at :: nat
  es_fact_store :: nat

definition engine_new_session ::
  "('pol, 'l) engine_parts \<Rightarrow> 'os session_io \<Rightarrow> 'sp \<Rightarrow> nat \<Rightarrow> string \<Rightarrow> 'p \<Rightarrow> string option
    \<Rightarrow> ('p, 'f) engine \<Rightarrow> 'os runtimes
    \<Rightarrow> (string + ('p, 'f, 'pol, 'l, 'sp) engine_session) \<times> 'os runtimes" where
  "engine_new_session ep io provider now uuid who uc_token e rts =
     and_then (unity_factory_for uc_token e, rts) (\<lambda>unity_factory rts.
       and_then (create_session_for io provider uuid (Some uuid) (ep_lineage ep) (ep_lineage_config ep) (Some who)
           unity_factory (ep_policy ep) rts) (\<lambda>cx rts.
         (Inr \<lparr>es_ctx = cx, es_policy = ep_policy ep, es_principal = who,
               es_unity = map_option (build_unity_resolver cx) unity_factory, es_created_at = now,
               es_fact_store = ep_fact_store ep\<rparr>, rts)))"

record ('p, 'f, 'pol, 'l, 'sp) lakehouse_session =
  lh_inner :: "('p, 'f, 'pol, 'l, 'sp) session_ctx"
  lh_unity :: "'f unity_resolver option"

record ('p, 'f, 'pol, 'l, 'sp) lakehouse_ctx =
  lk_inner :: "('p, 'f, 'pol, 'l, 'sp) session_ctx"
  lk_policy :: 'pol
  lk_principal :: 'p
  lk_unity :: "'f unity_resolver option"

definition set_config ::
  "(('p, 'f, 'pol) session_config \<Rightarrow> ('p, 'f, 'pol) session_config)
    \<Rightarrow> ('p, 'f, 'pol, 'l, 'sp) session_ctx \<Rightarrow> ('p, 'f, 'pol, 'l, 'sp) session_ctx" where
  "set_config f cx = cx\<lparr>cx_config := f (cx_config cx)\<rparr>"

definition attach_fact_store ::
  "('p, 'f, 'pol, 'l, 'sp) engine_session \<Rightarrow> ('p, 'f, 'pol, 'l, 'sp) session_ctx
    \<Rightarrow> ('p, 'f, 'pol, 'l, 'sp) session_ctx" where
  "attach_fact_store es = set_config (\<lambda>cf. cf\<lparr>cf_fact_store := Some (es_fact_store es)\<rparr>)"

text \<open>\<^verbatim>\<open>Session::ctx\<close>, \<^verbatim>\<open>lakehouse\<close> and \<^verbatim>\<open>lakehouse_for_query\<close>.\<close>

definition engine_session_ctx ::
  "('p, 'f, 'pol, 'l, 'sp) engine_session \<Rightarrow> ('p, 'f, 'pol, 'l, 'sp) lakehouse_ctx" where
  "engine_session_ctx es =
     \<lparr>lk_inner = es_ctx es, lk_policy = es_policy es, lk_principal = es_principal es, lk_unity = es_unity es\<rparr>"

definition lakehouse ::
  "('p, 'f, 'pol, 'l, 'sp) engine_session \<Rightarrow> ('p, 'f, 'pol, 'l, 'sp) lakehouse_session" where
  "lakehouse es = \<lparr>lh_inner = attach_fact_store es (es_ctx es), lh_unity = es_unity es\<rparr>"

definition lakehouse_for_query ::
  "('p, 'f, 'pol, 'l, 'sp) engine_session \<Rightarrow> lineage_context \<Rightarrow> agent_context option
    \<Rightarrow> ('p, 'f, 'pol, 'l, 'sp) lakehouse_session" where
  "lakehouse_for_query es lineage agent =
     (let state = set_config (\<lambda>cf. cf\<lparr>cf_lineage := Some lineage\<rparr>) (es_ctx es);
          state1 = (case agent of
                      Some a \<Rightarrow> set_config (\<lambda>cf. cf\<lparr>cf_agent := Some a\<rparr>) state
                    | None \<Rightarrow> state)
      in \<lparr>lh_inner = attach_fact_store es state1, lh_unity = es_unity es\<rparr>)"

text \<open>\<^verbatim>\<open>LakehouseCtx::session\<close> and \<^verbatim>\<open>session_with_lineage\<close>.\<close>

definition ctx_session ::
  "('p, 'f, 'pol, 'l, 'sp) lakehouse_ctx \<Rightarrow> ('p, 'f, 'pol, 'l, 'sp) lakehouse_session" where
  "ctx_session lk = \<lparr>lh_inner = lk_inner lk, lh_unity = lk_unity lk\<rparr>"

definition session_with_lineage ::
  "lineage_context \<Rightarrow> ('p, 'f, 'pol, 'l, 'sp) lakehouse_ctx \<Rightarrow> ('p, 'f, 'pol, 'l, 'sp) lakehouse_session" where
  "session_with_lineage context lk =
     \<lparr>lh_inner = set_config (\<lambda>cf. cf\<lparr>cf_lineage := Some context\<rparr>) (lk_inner lk), lh_unity = lk_unity lk\<rparr>"

text \<open>\<^verbatim>\<open>authorize_tool_call\<close>: \<open>observed\<close> reads the taints of a correlation id back from the ledger.\<close>

definition authorize_tool_call ::
  "('pol \<Rightarrow> string \<Rightarrow> 'p \<Rightarrow> string set \<Rightarrow> string + 'd) \<Rightarrow> (nat \<Rightarrow> string \<Rightarrow> string set)
    \<Rightarrow> ('p, 'f, 'pol, 'l, 'sp) engine_session \<Rightarrow> string \<Rightarrow> string + 'd" where
  "authorize_tool_call tool_policy observed es action =
     tool_policy (es_policy es) action (es_principal es) (observed (es_fact_store es) (cx_session_id (es_ctx es)))"

end
