(* ===== verification/Server_Start.thy ===== *)
theory Server_Start
  imports Session_Build Unity_Factory
begin

text \<open>
  From configuration to a running server: \<^verbatim>\<open>crates/hydrofoil/src/config.rs\<close>, the builder of the Flight SQL service
  (\<^verbatim>\<open>server.rs\<close>) and \<^verbatim>\<open>main.rs\<close>. The crate \<^verbatim>\<open>config\<close>, which reads a file and \<^verbatim>\<open>HYDROFOIL__*\<close> variables over the
  defaults, is a function from its sources to the value it deserialises, or its error; so are the parsers of
  addresses and URLs, the policy's download and the Unity Catalog factory. Serving itself is outside.
\<close>

section \<open>Configuration\<close>

record lineage_settings =
  lg_url :: "string option"
  lg_endpoint :: "string option"
  lg_namespace :: "string option"
  lg_api_key :: "string option"

record policy_settings =
  po_oci_ref :: "string option"

record unity_settings =
  un_endpoint :: "string option"
  un_token :: "string option"
  un_region :: "string option"

record hydrofoil_config =
  hf_host :: string
  hf_port :: nat
  hf_http_enabled :: bool
  hf_http_port :: nat
  hf_query_max_limit :: nat
  hf_query_default_limit :: nat
  hf_session_ttl_secs :: nat
  hf_lineage :: lineage_settings
  hf_policy :: policy_settings
  hf_unity :: unity_settings

definition default_hydrofoil_config :: hydrofoil_config where
  "default_hydrofoil_config =
     \<lparr>hf_host = ''0.0.0.0'', hf_port = 50051, hf_http_enabled = True, hf_http_port = 9082,
      hf_query_max_limit = 10000, hf_query_default_limit = 1000, hf_session_ttl_secs = 1800,
      hf_lineage = \<lparr>lg_url = None, lg_endpoint = None, lg_namespace = None, lg_api_key = None\<rparr>,
      hf_policy = \<lparr>po_oci_ref = None\<rparr>,
      hf_unity = \<lparr>un_endpoint = None, un_token = None, un_region = None\<rparr>\<rparr>"

definition CONFIG_PATH_ENV :: string where
  "CONFIG_PATH_ENV = ''HYDROFOIL_CONFIG''"

definition SECRET_ENV_KEYS :: "string list" where
  "SECRET_ENV_KEYS = [''OPENLINEAGE_API_KEY'', ''UC_TOKEN'', ''AWS_REGION'']"

text \<open>A file, required or not; the environment with its prefix and separator, values parsed or not.\<close>

datatype config_source = File_Source string bool | Environment_Source string string bool

definition get_or_insert :: "'a \<Rightarrow> 'a option \<Rightarrow> 'a option" where
  "get_or_insert v x = Some (unwrap_or v x)"

definition overlay_secret :: "string \<Rightarrow> string \<Rightarrow> hydrofoil_config \<Rightarrow> hydrofoil_config" where
  "overlay_secret key val cfg =
     (if key = ''OPENLINEAGE_API_KEY'' then
        cfg\<lparr>hf_lineage := (hf_lineage cfg)\<lparr>lg_api_key := get_or_insert val (lg_api_key (hf_lineage cfg))\<rparr>\<rparr>
      else if key = ''UC_TOKEN'' then
        cfg\<lparr>hf_unity := (hf_unity cfg)\<lparr>un_token := get_or_insert val (un_token (hf_unity cfg))\<rparr>\<rparr>
      else if key = ''AWS_REGION'' then
        cfg\<lparr>hf_unity := (hf_unity cfg)\<lparr>un_region := get_or_insert val (un_region (hf_unity cfg))\<rparr>\<rparr>
      else cfg)"

text \<open>\<open>env\<close> is \<^verbatim>\<open>env::var\<close>, \<open>env_os\<close> is \<^verbatim>\<open>env::var_os\<close>.\<close>

definition overlay_secrets :: "(string \<Rightarrow> string option) \<Rightarrow> hydrofoil_config \<Rightarrow> hydrofoil_config" where
  "overlay_secrets env cfg =
     fold (\<lambda>key cfg. case env key of
              None \<Rightarrow> cfg
            | Some val \<Rightarrow> if val = [] then cfg else overlay_secret key val cfg) SECRET_ENV_KEYS cfg"

definition hydrofoil_load ::
  "(config_source list \<Rightarrow> string + hydrofoil_config) \<Rightarrow> (string \<Rightarrow> string option) \<Rightarrow> (string \<Rightarrow> string option)
    \<Rightarrow> string option \<Rightarrow> string + hydrofoil_config" where
  "hydrofoil_load build env env_os path =
     (let path = (case path of Some p \<Rightarrow> Some p | None \<Rightarrow> env_os CONFIG_PATH_ENV);
          sources = (case path of Some p \<Rightarrow> [File_Source p True] | None \<Rightarrow> [])
                      @ [Environment_Source ''HYDROFOIL'' ''__'' True]
      in map_ok (overlay_secrets env) (map_err (\<lambda>e. ''failed to load configuration: '' @ e) (build sources)))"

section \<open>The service's builder\<close>

datatype lineage_client = Noop_Client | Cloud_Client string "string option"

record ('f, 'pol) flight_service =
  fs_policy :: 'pol
  fs_unity_factory :: "'f option"
  fs_unity_endpoint :: "string option"
  fs_unity_region :: "string option"
  fs_lineage :: "lineage_client option"
  fs_lineage_config :: lineage_config
  fs_identity :: "(string \<Rightarrow> string + enrichment) option"

text \<open>\<open>cpu\<close> is the outcome of starting the planning runtime; the placeholder store \<^verbatim>\<open>build\<close> replaces is left out.\<close>

definition service_try_new ::
  "string + unit \<Rightarrow> 'pol \<Rightarrow> lineage_config \<Rightarrow> (string \<Rightarrow> string + enrichment) \<Rightarrow> string + ('f, 'pol) flight_service" where
  "service_try_new cpu allow_all default_lineage identity =
     map_ok (\<lambda>_. \<lparr>fs_policy = allow_all, fs_unity_factory = None, fs_unity_endpoint = None, fs_unity_region = None,
                  fs_lineage = None, fs_lineage_config = default_lineage, fs_identity = Some identity\<rparr>) cpu"

definition with_lineage ::
  "lineage_client \<Rightarrow> lineage_config \<Rightarrow> ('f, 'pol) flight_service \<Rightarrow> ('f, 'pol) flight_service" where
  "with_lineage lineage config fs = fs\<lparr>fs_lineage := Some lineage, fs_lineage_config := config\<rparr>"

definition with_policy :: "'pol \<Rightarrow> ('f, 'pol) flight_service \<Rightarrow> ('f, 'pol) flight_service" where
  "with_policy policy fs = fs\<lparr>fs_policy := policy\<rparr>"

definition with_unity ::
  "'f \<Rightarrow> string option \<Rightarrow> string option \<Rightarrow> ('f, 'pol) flight_service \<Rightarrow> ('f, 'pol) flight_service" where
  "with_unity factory endpoint region fs =
     fs\<lparr>fs_unity_factory := Some factory, fs_unity_endpoint := endpoint, fs_unity_region := region\<rparr>"

definition service_with_identity_provider ::
  "(string \<Rightarrow> string + enrichment) \<Rightarrow> ('f, 'pol) flight_service \<Rightarrow> ('f, 'pol) flight_service" where
  "service_with_identity_provider identity fs = fs\<lparr>fs_identity := Some identity\<rparr>"

text \<open>A built service: its sessions over the engine, the rest of the engine, and how often the sweeper runs.\<close>

record ('p, 'f, 'pl, 'pol) built_service =
  bs_sessions :: "('p, 'f, 'pl) session_store"
  bs_parts :: "('pol, lineage_client) engine_parts"
  bs_sweep_every :: nat

definition service_build ::
  "'p principal_api \<Rightarrow> (factory_request \<Rightarrow> string + 'f) \<Rightarrow> (nat \<Rightarrow> ('p, 'f, 'pl) session) \<Rightarrow> nat
    \<Rightarrow> ('f, 'pol) flight_service \<Rightarrow> ('p, 'f, 'pl, 'pol) built_service" where
  "service_build api build_factory blank ttl_secs fs =
     (let engine = new_engine api
            (\<lambda>endpoint region token.
               build_factory \<lparr>fr_uri = endpoint, fr_auth = With_Token token, fr_region = region\<rparr>) (fs_unity_factory fs);
          engine1 = with_unity_config (fs_unity_endpoint fs) (fs_unity_region fs) engine;
          engine2 = (case fs_identity fs of Some identity \<Rightarrow> with_identity_provider identity engine1 | None \<Rightarrow> engine1)
      in \<lparr>bs_sessions = new_store engine2 (1000 * ttl_secs) blank,
          bs_parts = \<lparr>ep_policy = fs_policy fs, ep_lineage = fs_lineage fs, ep_lineage_config = fs_lineage_config fs,
                      ep_fact_store = 0\<rparr>,
          bs_sweep_every = sweeper_interval (1000 * ttl_secs)\<rparr>)"

section \<open>The binary\<close>

definition main_build_lineage_client :: "(string \<Rightarrow> string + unit) \<Rightarrow> lineage_settings \<Rightarrow> string + lineage_client" where
  "main_build_lineage_client parse_url cfg =
     (case nonempty (lg_url cfg) of
        None \<Rightarrow> Inr Noop_Client
      | Some url \<Rightarrow>
          (let endpoint = unwrap_or ''/api/v1/lineage'' (lg_endpoint cfg);
               full = trim_end_char CHR 0x2F url @ endpoint
           in map_ok (\<lambda>_. Cloud_Client full (nonempty (lg_api_key cfg))) (parse_url full)))"

definition build_lineage_config :: "lineage_config \<Rightarrow> lineage_settings \<Rightarrow> lineage_config" where
  "build_lineage_config default_lineage cfg =
     (case nonempty (lg_namespace cfg) of
        Some ns \<Rightarrow> default_lineage\<lparr>lcfg_job_namespace := ns\<rparr>
      | None \<Rightarrow> default_lineage)"

record ('p, 'f, 'pl, 'pol, 'addr) main_io =
  mi_parse_addr :: "string \<Rightarrow> string + 'addr"
  mi_cpu_runtime :: "string + unit"
  mi_allow_all :: 'pol
  mi_default_lineage :: lineage_config
  mi_identity :: "string \<Rightarrow> string + enrichment"
  mi_parse_url :: "string \<Rightarrow> string + unit"
  mi_from_oci :: "string \<Rightarrow> string + 'pol"
  mi_build_factory :: "factory_request \<Rightarrow> string + 'f"
  mi_principals :: "'p principal_api"
  mi_blank :: "nat \<Rightarrow> ('p, 'f, 'pl) session"
  mi_bind :: "'addr \<Rightarrow> string + unit"

text \<open>The policy and Unity Catalog sections, applied to the service.\<close>

definition wire_policy ::
  "('p, 'f, 'pl, 'pol, 'addr) main_io \<Rightarrow> policy_settings \<Rightarrow> ('f, 'pol) flight_service \<Rightarrow> string + ('f, 'pol) flight_service"
where
  "wire_policy io cfg fs =
     (case nonempty (po_oci_ref cfg) of
        Some reference \<Rightarrow> map_ok (\<lambda>policy. with_policy policy fs) (mi_from_oci io reference)
      | None \<Rightarrow> Inr fs)"

definition wire_unity ::
  "('p, 'f, 'pl, 'pol, 'addr) main_io \<Rightarrow> unity_settings \<Rightarrow> ('f, 'pol) flight_service \<Rightarrow> string + ('f, 'pol) flight_service"
where
  "wire_unity io cfg fs =
     (case nonempty (un_endpoint cfg) of
        Some uri \<Rightarrow>
          map_ok (\<lambda>factory. with_unity factory (Some uri) (nonempty (un_region cfg)) fs)
            (mi_build_factory io
               \<lparr>fr_uri = uri,
                fr_auth = (case nonempty (un_token cfg) of
                             Some token \<Rightarrow> With_Token token | None \<Rightarrow> Allow_Unauthenticated),
                fr_region = nonempty (un_region cfg)\<rparr>)
      | None \<Rightarrow> Inr fs)"

text \<open>What listens: the Flight server, and the HTTP surface with its limits when it is enabled.\<close>

record ('p, 'f, 'pl, 'pol, 'addr) started_server =
  st_service :: "('p, 'f, 'pl, 'pol) built_service"
  st_flight :: 'addr
  st_http :: "('addr \<times> nat \<times> nat) option"

definition listen_text :: "string \<Rightarrow> nat \<Rightarrow> string" where
  "listen_text host port = host @ '':'' @ nat_to_string port"

definition start_server ::
  "('p, 'f, 'pl, 'pol, 'addr) main_io \<Rightarrow> hydrofoil_config \<Rightarrow> string + ('p, 'f, 'pl, 'pol, 'addr) started_server" where
  "start_server io cfg =
     try_bind (mi_parse_addr io (listen_text (hf_host cfg) (hf_port cfg))) (\<lambda>addr.
     try_bind (service_try_new (mi_cpu_runtime io) (mi_allow_all io) (mi_default_lineage io) (mi_identity io)) (\<lambda>service.
     try_bind (main_build_lineage_client (mi_parse_url io) (hf_lineage cfg)) (\<lambda>lineage.
     (let service1 = with_lineage lineage (build_lineage_config (mi_default_lineage io) (hf_lineage cfg)) service in
     try_bind (wire_policy io (hf_policy cfg) service1) (\<lambda>service2.
     try_bind (wire_unity io (hf_unity cfg) service2) (\<lambda>service3.
     (let built = service_build (mi_principals io) (mi_build_factory io) (mi_blank io) (hf_session_ttl_secs cfg) service3 in
     if \<not> hf_http_enabled cfg then Inr \<lparr>st_service = built, st_flight = addr, st_http = None\<rparr>
     else
       try_bind (mi_parse_addr io (listen_text (hf_host cfg) (hf_http_port cfg))) (\<lambda>http_addr.
       try_bind (mi_bind io http_addr) (\<lambda>_.
         Inr \<lparr>st_service = built, st_flight = addr,
              st_http = Some (http_addr, hf_query_default_limit cfg, hf_query_max_limit cfg)\<rparr>)))))))))"

definition hydrofoil_main ::
  "('p, 'f, 'pl, 'pol, 'addr) main_io \<Rightarrow> (config_source list \<Rightarrow> string + hydrofoil_config) \<Rightarrow> (string \<Rightarrow> string option)
    \<Rightarrow> (string \<Rightarrow> string option) \<Rightarrow> string list \<Rightarrow> string + ('p, 'f, 'pl, 'pol, 'addr) started_server" where
  "hydrofoil_main io build env env_os args =
     try_bind (hydrofoil_load build env env_os (case drop 1 args of a # _ \<Rightarrow> Some a | [] \<Rightarrow> None)) (start_server io)"

section \<open>What a start leaves\<close>

lemma overlay_secrets_fields:
  "lg_api_key (hf_lineage (overlay_secrets env cfg)) =
     (case nonempty (env ''OPENLINEAGE_API_KEY'') of
        Some v \<Rightarrow> get_or_insert v (lg_api_key (hf_lineage cfg)) | None \<Rightarrow> lg_api_key (hf_lineage cfg))"
  "un_token (hf_unity (overlay_secrets env cfg)) =
     (case nonempty (env ''UC_TOKEN'') of
        Some v \<Rightarrow> get_or_insert v (un_token (hf_unity cfg)) | None \<Rightarrow> un_token (hf_unity cfg))"
  "un_region (hf_unity (overlay_secrets env cfg)) =
     (case nonempty (env ''AWS_REGION'') of
        Some v \<Rightarrow> get_or_insert v (un_region (hf_unity cfg)) | None \<Rightarrow> un_region (hf_unity cfg))"
  by (auto simp: overlay_secrets_def SECRET_ENV_KEYS_def overlay_secret_def nonempty_def option_filter_def
      split: option.split)

lemma overlay_secrets_rest:
  "hf_policy (overlay_secrets env cfg) = hf_policy cfg"
  "un_endpoint (hf_unity (overlay_secrets env cfg)) = un_endpoint (hf_unity cfg)"
  "lg_url (hf_lineage (overlay_secrets env cfg)) = lg_url (hf_lineage cfg)"
  "hf_host (overlay_secrets env cfg) = hf_host cfg" "hf_port (overlay_secrets env cfg) = hf_port cfg"
  "hf_http_enabled (overlay_secrets env cfg) = hf_http_enabled cfg"
  by (auto simp: overlay_secrets_def SECRET_ENV_KEYS_def overlay_secret_def split: option.split)

lemma nonempty_Some_iff: "nonempty x = Some s \<longleftrightarrow> x = Some s \<and> s \<noteq> []"
  by (auto simp: nonempty_def option_filter_def split: option.splits)

lemma nonempty_idem [simp]: "nonempty (nonempty x) = nonempty x"
  by (auto simp: nonempty_def option_filter_def split: option.splits)

text \<open>The engine a service is built into.\<close>

lemma service_build_engine:
  "eg_unity_factory (sst_engine (bs_sessions (service_build api bf blank ttl fs))) = fs_unity_factory fs"
  "eg_unity_endpoint (sst_engine (bs_sessions (service_build api bf blank ttl fs))) = nonempty (fs_unity_endpoint fs)"
  "eg_unity_region (sst_engine (bs_sessions (service_build api bf blank ttl fs))) = nonempty (fs_unity_region fs)"
  "eg_principals (sst_engine (bs_sessions (service_build api bf blank ttl fs))) = api"
  "eg_build_factory (sst_engine (bs_sessions (service_build api bf blank ttl fs))) =
     (\<lambda>endpoint region token. bf \<lparr>fr_uri = endpoint, fr_auth = With_Token token, fr_region = region\<rparr>)"
  "sst_ttl (bs_sessions (service_build api bf blank ttl fs)) = 1000 * ttl"
  "sst_sessions (bs_sessions (service_build api bf blank ttl fs)) = Map.empty"
  "bs_parts (service_build api bf blank ttl fs) =
     \<lparr>ep_policy = fs_policy fs, ep_lineage = fs_lineage fs, ep_lineage_config = fs_lineage_config fs, ep_fact_store = 0\<rparr>"
  by (simp_all add: service_build_def new_engine_def with_unity_config_def with_identity_provider_def new_store_def
      Let_def split: option.split)

text \<open>What a configuration makes of the policy, of Unity Catalog and of lineage.\<close>

definition policy_of :: "('p, 'f, 'pl, 'pol, 'addr) main_io \<Rightarrow> hydrofoil_config \<Rightarrow> string + 'pol" where
  "policy_of io cfg =
     (case nonempty (po_oci_ref (hf_policy cfg)) of Some r \<Rightarrow> mi_from_oci io r | None \<Rightarrow> Inr (mi_allow_all io))"

definition factory_of :: "('p, 'f, 'pl, 'pol, 'addr) main_io \<Rightarrow> hydrofoil_config \<Rightarrow> string + 'f option" where
  "factory_of io cfg =
     (case nonempty (un_endpoint (hf_unity cfg)) of
        None \<Rightarrow> Inr None
      | Some uri \<Rightarrow>
          map_ok Some (mi_build_factory io
            \<lparr>fr_uri = uri,
             fr_auth = (case nonempty (un_token (hf_unity cfg)) of
                          Some token \<Rightarrow> With_Token token | None \<Rightarrow> Allow_Unauthenticated),
             fr_region = nonempty (un_region (hf_unity cfg))\<rparr>))"

lemma start_server_Inr:
  assumes "start_server io cfg = Inr srv"
  shows "\<exists>pol fac client.
    policy_of io cfg = Inr pol \<and> factory_of io cfg = Inr fac \<and>
    main_build_lineage_client (mi_parse_url io) (hf_lineage cfg) = Inr client \<and>
    st_service srv = service_build (mi_principals io) (mi_build_factory io) (mi_blank io) (hf_session_ttl_secs cfg)
      \<lparr>fs_policy = pol, fs_unity_factory = fac, fs_unity_endpoint = nonempty (un_endpoint (hf_unity cfg)),
       fs_unity_region = (if nonempty (un_endpoint (hf_unity cfg)) = None then None else nonempty (un_region (hf_unity cfg))),
       fs_lineage = Some client, fs_lineage_config = build_lineage_config (mi_default_lineage io) (hf_lineage cfg),
       fs_identity = Some (mi_identity io)\<rparr> \<and>
    (st_http srv = None \<longleftrightarrow> \<not> hf_http_enabled cfg)"
proof -
  from assms obtain service client service2 service3 where
    s: "service_try_new (mi_cpu_runtime io) (mi_allow_all io) (mi_default_lineage io) (mi_identity io) = Inr service"
    and l: "main_build_lineage_client (mi_parse_url io) (hf_lineage cfg) = Inr client"
    and p: "wire_policy io (hf_policy cfg)
      (with_lineage client (build_lineage_config (mi_default_lineage io) (hf_lineage cfg)) service) = Inr service2"
    and u: "wire_unity io (hf_unity cfg) service2 = Inr service3"
    and srv: "st_service srv = service_build (mi_principals io) (mi_build_factory io) (mi_blank io)
      (hf_session_ttl_secs cfg) service3"
    and http: "st_http srv = None \<longleftrightarrow> \<not> hf_http_enabled cfg"
    by (auto simp: start_server_def Let_def try_bind_Inr_iff split: if_splits)
  from s have service: "service = \<lparr>fs_policy = mi_allow_all io, fs_unity_factory = None, fs_unity_endpoint = None,
      fs_unity_region = None, fs_lineage = None, fs_lineage_config = mi_default_lineage io,
      fs_identity = Some (mi_identity io)\<rparr>"
    by (auto simp: service_try_new_def map_ok_Inr_iff)
  from p obtain pol where pol: "policy_of io cfg = Inr pol"
    and service2: "service2 = \<lparr>fs_policy = pol, fs_unity_factory = None, fs_unity_endpoint = None,
      fs_unity_region = None, fs_lineage = Some client,
      fs_lineage_config = build_lineage_config (mi_default_lineage io) (hf_lineage cfg),
      fs_identity = Some (mi_identity io)\<rparr>"
    by (auto simp: wire_policy_def policy_of_def service with_lineage_def with_policy_def map_ok_Inr_iff split: option.splits)
  from u pol l srv http show ?thesis
    by (auto simp: wire_unity_def factory_of_def service2 with_unity_def map_ok_Inr_iff split: option.splits)
qed

end
