(* ===== verification/Session_Plans.thy ===== *)
theory Session_Plans
  imports Session_Build
begin

text \<open>
  What a session of \<open>Session_Build\<close> does: its physical plans, through the query planner it was built with; the
  path of updates, which executes on the engine's own session; opening Delta tables through the stores of its
  runtime; and the runtimes of all sessions as they are created and stores are vended.
\<close>

section \<open>Physical plans\<close>

definition default_lineage_context :: lineage_context where
  "default_lineage_context =
     \<lparr>lc_parent_run = None, lc_job_namespace = None, lc_job_name = None, lc_job_facets = Map.empty,
      lc_run_facets = Map.empty, lc_run_id = None, lc_sql = None\<rparr>"

text \<open>\<^verbatim>\<open>HydrofoilContextProvider::context\<close>.\<close>

definition hydrofoil_context :: "('p, 'f, 'pol) session_config \<Rightarrow> lineage_context" where
  "hydrofoil_context cf = unwrap_or default_lineage_context (cf_lineage cf)"

text \<open>
  What the planner calls: the policy crate (which reads facts, agent and taint ledger from the configuration),
  the optimizer, the lineage crate, and the physical planner with its extension planners.
\<close>

record ('p, 'f, 'pol, 'l, 'n, 'x, 'h, 'ec) planner_calls =
  pc_eval_context :: "('p, 'f, 'pol) session_config \<Rightarrow> 'ec"
  pc_authorize :: "'pol \<Rightarrow> 'n plan \<Rightarrow> 'p \<Rightarrow> 'ec \<Rightarrow> string + 'n plan"
  pc_optimize :: "'n plan \<Rightarrow> string + 'n plan"
  pc_begin :: "'l \<Rightarrow> lineage_context \<Rightarrow> lineage_config \<Rightarrow> 'n plan \<Rightarrow> 'h option \<times> event list"
  pc_handle_plan :: "extension_planner list \<Rightarrow> 'h \<Rightarrow> (string + 'x) \<times> event list"
  pc_physical :: "extension_planner list \<Rightarrow> 'n plan \<Rightarrow> string + 'x"

definition session_planner ::
  "('p, 'f, 'pol, 'l, 'n, 'x, 'h, 'ec) planner_calls \<Rightarrow> ('p, 'f, 'pol, 'l, 'sp) session_ctx
    \<Rightarrow> ('n, 'x, 'h, 'p, 'ec) governed_env" where
  "session_planner pc cx =
     (let gp = cx_planner cx; cf = cx_config cx
      in \<lparr>ge_eval_context = pc_eval_context pc cf, ge_principal = cf_principal cf,
          ge_authorize = pc_authorize pc (gp_policy gp), ge_optimize = pc_optimize pc,
          ge_lineage_wired = (gp_lineage gp \<noteq> None),
          ge_begin = (\<lambda>plan. case gp_lineage gp of
                               Some (client, config) \<Rightarrow> pc_begin pc client (hydrofoil_context cf) config plan
                             | None \<Rightarrow> (None, [])),
          ge_handle_plan = pc_handle_plan pc (gp_extension_planners gp),
          ge_physical = pc_physical pc (gp_extension_planners gp)\<rparr>)"

text \<open>\<^verbatim>\<open>SessionState::create_physical_plan\<close> optimizes the plan and hands it to the query planner.\<close>

definition state_physical_plan ::
  "('p, 'f, 'pol, 'l, 'n, 'x, 'h, 'ec) planner_calls \<Rightarrow> ('p, 'f, 'pol, 'l, 'sp) session_ctx \<Rightarrow> 'n plan
    \<Rightarrow> event list \<Rightarrow> (string + 'x) \<times> event list" where
  "state_physical_plan pc cx plan log =
     and_then (pc_optimize pc plan, log) (\<lambda>optimized log. create_physical_plan (session_planner pc cx) optimized log)"

definition lakehouse_physical_plan ::
  "('p, 'f, 'pol, 'l, 'n, 'x, 'h, 'ec) planner_calls \<Rightarrow> ('p, 'f, 'pol, 'l, 'sp) lakehouse_session \<Rightarrow> 'n plan
    \<Rightarrow> event list \<Rightarrow> (string + 'x) \<times> event list" where
  "lakehouse_physical_plan pc lh plan log = state_physical_plan pc (lh_inner lh) plan log"

text \<open>
  \<^verbatim>\<open>LakehouseCtx::execute_logical_plan\<close> up to the physical plan that \<^verbatim>\<open>collect\<close> runs, for a plan the inner
  \<^verbatim>\<open>SessionContext\<close> does not carry out itself: it makes a data frame over the session's state.
\<close>

definition lakehouse_ctx_execute ::
  "('p, 'f, 'pol, 'l, 'n, 'x, 'h, 'ec) planner_calls \<Rightarrow> ('p, 'f, 'pol, 'l, 'sp) lakehouse_ctx \<Rightarrow> 'n plan
    \<Rightarrow> event list \<Rightarrow> (string + 'x) \<times> event list" where
  "lakehouse_ctx_execute pc lk plan log =
     and_then (authorize_logical_plan (pc_authorize pc (lk_policy lk)) (lk_principal lk)
                 (pc_eval_context pc (cx_config (lk_inner lk))) plan, log)
       (\<lambda>governed log. state_physical_plan pc (lk_inner lk) governed log)"

text \<open>
  \<^verbatim>\<open>execute_update_sql\<close> after the session is resolved: the text is planned in a session with the request's
  lineage and agent (\<open>plan_in\<close>), and the plan runs on the engine's session.
\<close>

definition run_update ::
  "('p, 'f, 'pol, 'l, 'n, 'x, 'h, 'ec) planner_calls
    \<Rightarrow> (('p, 'f, 'pol, 'l, 'sp) lakehouse_session \<Rightarrow> string \<Rightarrow> string + 'n plan) \<Rightarrow> ('n plan \<Rightarrow> string + unit)
    \<Rightarrow> ('p, 'f, 'pol, 'l, 'sp) engine_session \<Rightarrow> lineage_context \<Rightarrow> agent_context option \<Rightarrow> string
    \<Rightarrow> event list \<Rightarrow> (string + 'x) \<times> event list" where
  "run_update pc plan_in verify es lineage agent sql log =
     and_then (plan_in (lakehouse_for_query es lineage agent) sql, log) (\<lambda>plan log.
       and_then (verify plan, log) (\<lambda>_ log. lakehouse_ctx_execute pc (engine_session_ctx es) plan log))"

section \<open>Delta tables\<close>

text \<open>
  The log store of a table: one a registered factory makes, or \<^verbatim>\<open>DataFusionLogStore\<close> over a prefix of the
  runtime's store, which commits by conditional put.
\<close>

datatype ('os, 'ls) log_store =
    Factory_Log_Store 'ls
  | DataFusion_Log_Store (log_root: 'os) (log_prefix: string) (log_location: string) (log_runtime: nat)

record ('os, 'ls, 'sn, 'k, 'tp, 'n) delta_io =
  di_store_url :: "string \<Rightarrow> string"
  di_no_store :: "string \<Rightarrow> string"
  di_table_path :: "string \<Rightarrow> string + string"
  di_logstore_with :: "'os \<Rightarrow> string \<Rightarrow> string + 'ls"
  di_snapshot :: "(string \<rightharpoonup> 'os) \<Rightarrow> string \<Rightarrow> nat option \<Rightarrow> string + 'sn"
  di_managed_snapshot :: "(string \<rightharpoonup> 'os) \<Rightarrow> string \<Rightarrow> 'k \<Rightarrow> int \<Rightarrow> nat option \<Rightarrow> string + 'sn"
  di_provider :: "'sn \<Rightarrow> ('os, 'ls) log_store \<Rightarrow> string + 'tp"
  di_snapshot_name :: "'sn \<Rightarrow> string option"
  di_snapshot_id :: "'sn \<Rightarrow> string"
  di_scan :: "string \<Rightarrow> 'tp \<Rightarrow> string + 'n plan"

definition delta_logstore_for ::
  "('os, 'ls, 'sn, 'k, 'tp, 'n) delta_io \<Rightarrow> nat \<Rightarrow> (string \<rightharpoonup> 'os) \<Rightarrow> string \<Rightarrow> string + ('os, 'ls) log_store" where
  "delta_logstore_for di rt stores location =
     try_bind (ok_or (di_no_store di (di_store_url di location)) (stores (di_store_url di location))) (\<lambda>root_store.
       try_bind (di_table_path di location) (\<lambda>table_path.
         Inr (case di_logstore_with di root_store location of
                Inr ls \<Rightarrow> Factory_Log_Store ls
              | Inl _ \<Rightarrow> DataFusion_Log_Store root_store table_path location rt)))"

definition delta_snapshot_for ::
  "('os, 'ls, 'sn, 'k, 'tp, 'n) delta_io \<Rightarrow> (string \<rightharpoonup> 'os) \<Rightarrow> string \<Rightarrow> nat option \<Rightarrow> string + 'sn" where
  "delta_snapshot_for di stores location version = di_snapshot di stores location version"

definition delta_provider_for ::
  "('os, 'ls, 'sn, 'k, 'tp, 'n) delta_io \<Rightarrow> nat \<Rightarrow> (string \<rightharpoonup> 'os) \<Rightarrow> string \<Rightarrow> nat option \<Rightarrow> string + 'tp" where
  "delta_provider_for di rt stores location version =
     try_bind (delta_logstore_for di rt stores location) (\<lambda>log_store.
       try_bind (delta_snapshot_for di stores location version) (\<lambda>snapshot. di_provider di snapshot log_store))"

definition delta_managed_provider_for ::
  "('os, 'ls, 'sn, 'k, 'tp, 'n) delta_io \<Rightarrow> nat \<Rightarrow> (string \<rightharpoonup> 'os) \<Rightarrow> string \<Rightarrow> 'k \<Rightarrow> int \<Rightarrow> nat option \<Rightarrow> string + 'tp"
where
  "delta_managed_provider_for di rt stores location commits latest at_version =
     try_bind (delta_logstore_for di rt stores location) (\<lambda>log_store.
       try_bind (di_managed_snapshot di stores location commits latest at_version) (\<lambda>snapshot.
         di_provider di snapshot log_store))"

definition scan_delta_table ::
  "('os, 'ls, 'sn, 'k, 'tp, 'n) delta_io \<Rightarrow> nat \<Rightarrow> (string \<rightharpoonup> 'os) \<Rightarrow> string \<Rightarrow> nat option \<Rightarrow> string + 'n plan" where
  "scan_delta_table di rt stores location version =
     try_bind (delta_snapshot_for di stores location version) (\<lambda>snapshot.
       (let table_name = (case di_snapshot_name di snapshot of
                            Some n \<Rightarrow> n | None \<Rightarrow> ''__delta__'' @ di_snapshot_id di snapshot)
        in try_bind (delta_provider_for di rt stores location version) (\<lambda>provider. di_scan di table_name provider)))"

section \<open>All runtimes\<close>

text \<open>
  The sessions of an engine and their runtimes. \<^verbatim>\<open>vend\<close> is the Unity Catalog crate's resolution of table
  references with a factory: it puts the stores it is given credentials for on the runtime of the resolver.
\<close>

datatype ('p, 'r) runtime_op = Op_New_Session nat string 'p "string option" | Op_Resolve nat 'r

record ('p, 'f, 'pol, 'l, 'sp, 'os) engine_world =
  ew_runtimes :: "'os runtimes"
  ew_sessions :: "('p, 'f, 'pol, 'l, 'sp) engine_session list"

definition resolve_on ::
  "('f \<Rightarrow> 'r \<Rightarrow> (string \<rightharpoonup> 'os) \<Rightarrow> (string \<rightharpoonup> 'os)) \<Rightarrow> 'f unity_resolver \<Rightarrow> 'r \<Rightarrow> 'os runtimes \<Rightarrow> 'os runtimes" where
  "resolve_on vend ur refs rts =
     rts\<lparr>rt_stores := (rt_stores rts)(ur_runtime ur := vend (ur_factory ur) refs (rt_stores rts (ur_runtime ur)))\<rparr>"

fun runtime_step ::
  "('pol, 'l) engine_parts \<Rightarrow> 'os session_io \<Rightarrow> 'sp \<Rightarrow> ('p, 'f) engine
    \<Rightarrow> ('f \<Rightarrow> 'r \<Rightarrow> (string \<rightharpoonup> 'os) \<Rightarrow> (string \<rightharpoonup> 'os)) \<Rightarrow> ('p, 'r) runtime_op
    \<Rightarrow> ('p, 'f, 'pol, 'l, 'sp, 'os) engine_world \<Rightarrow> ('p, 'f, 'pol, 'l, 'sp, 'os) engine_world" where
  "runtime_step ep io provider e vend (Op_New_Session now uuid who uc_token) w =
     (case engine_new_session ep io provider now uuid who uc_token e (ew_runtimes w) of
        (Inl _, rts) \<Rightarrow> w\<lparr>ew_runtimes := rts\<rparr>
      | (Inr es, rts) \<Rightarrow> \<lparr>ew_runtimes = rts, ew_sessions = ew_sessions w @ [es]\<rparr>)"
| "runtime_step ep io provider e vend (Op_Resolve i refs) w =
     (if i < length (ew_sessions w) then
        (case es_unity (ew_sessions w ! i) of
           Some ur \<Rightarrow> w\<lparr>ew_runtimes := resolve_on vend ur refs (ew_runtimes w)\<rparr>
         | None \<Rightarrow> w)
      else w)"

definition runtime_run where
  "runtime_run ep io provider e vend ops w = fold (runtime_step ep io provider e vend) ops w"

end
