(* ===== verification/Session_Plan_Facts.thy ===== *)
theory Session_Plan_Facts
  imports Session_Plans
begin

text \<open>
  What the sessions of \<open>Session_Build\<close> guarantee: every session carries the engine's policy and its own principal
  into its planner and its configuration, the detailed construction refines the one of \<open>Session_Engine\<close>, what a
  query and an update ask of the policy and of lineage, and that no store vended in one session shows in another.
\<close>

section \<open>Construction\<close>

definition seaweed_store :: "'os session_io \<Rightarrow> string + 'os" where
  "seaweed_store io =
     map_ok (\<lambda>s. si_instrument io s ''seaweedfs'') (si_build_s3 io
       \<lparr>s3_access_key_id = ''seaweed-key-id'', s3_secret_access_key = ''seaweed-access-key'',
        s3_endpoint = ''http://localhost:8333/'', s3_bucket_name = ''open-lakehouse'', s3_allow_http = True\<rparr>)"

text \<open>Why a session could not be built: it depends on the libraries alone, not on who asks.\<close>

definition session_error :: "'os session_io \<Rightarrow> string option" where
  "session_error io =
     (case si_from_env io of
        Inl e \<Rightarrow> Some e
      | Inr _ \<Rightarrow>
          (case seaweed_store io of
             Inl e \<Rightarrow> Some e
           | Inr _ \<Rightarrow> (case si_register_schema io of Inl e \<Rightarrow> Some e | Inr _ \<Rightarrow> None)))"

lemma create_session_for_Inl:
  "session_error io = Some e \<Longrightarrow> fst (create_session_for io provider m sid lin cfg who fac pol rts) = Inl e"
  by (cases "si_from_env io"; cases "si_register_schema io")
    (auto simp: create_session_for_def session_error_def update_session_def add_seaweedfs_def seaweed_store_def
      fresh_runtime_def map_ok_def Let_def split: sum.splits)

lemma session_error_None:
  assumes "session_error io = None"
  obtains store where "seaweed_store io = Inr store"
  using assms by (auto simp: session_error_def split: sum.splits)

lemma create_session_for_ok:
  assumes "session_error io = None" and "seaweed_store io = Inr store"
  shows "create_session_for io provider m sid lin cfg who fac pol rts =
      (Inr \<lparr>cx_session_id = unwrap_or m sid, cx_config = session_config_for who fac pol,
            cx_planner = new_governed_planner pol [UnityCatalogPlanner] (map_option (\<lambda>c. (c, cfg)) lin),
            cx_runtime = rt_next rts, cx_table_factories = [''DELTA''],
            cx_catalogs = [''hydrofoil'' \<mapsto> [''default'' \<mapsto> provider]]\<rparr>,
       \<lparr>rt_stores = (rt_stores rts)(rt_next rts := [''s3://open-lakehouse/'' \<mapsto> store]),
        rt_next = Suc (rt_next rts)\<rparr>)"
  using assms
  by (cases "si_from_env io"; cases "si_register_schema io")
    (auto simp: create_session_for_def session_error_def update_session_def add_seaweedfs_def seaweed_store_def
      fresh_runtime_def register_object_store_def map_ok_def Let_def split: sum.splits)

text \<open>The session the engine makes for a principal with a factory, on the runtime \<open>rt\<close>.\<close>

definition session_made ::
  "('pol, 'l) engine_parts \<Rightarrow> 'sp \<Rightarrow> nat \<Rightarrow> string \<Rightarrow> 'p \<Rightarrow> 'f option \<Rightarrow> nat
    \<Rightarrow> ('p, 'f, 'pol, 'l, 'sp) engine_session" where
  "session_made ep provider now uuid who fac rt =
     (let cx = \<lparr>cx_session_id = uuid, cx_config = session_config_for (Some who) fac (ep_policy ep),
                cx_planner = new_governed_planner (ep_policy ep) [UnityCatalogPlanner]
                               (map_option (\<lambda>c. (c, ep_lineage_config ep)) (ep_lineage ep)),
                cx_runtime = rt, cx_table_factories = [''DELTA''],
                cx_catalogs = [''hydrofoil'' \<mapsto> [''default'' \<mapsto> provider]]\<rparr>
      in \<lparr>es_ctx = cx, es_policy = ep_policy ep, es_principal = who,
          es_unity = map_option (build_unity_resolver cx) fac, es_created_at = now,
          es_fact_store = ep_fact_store ep\<rparr>)"

lemma engine_new_session_ok:
  assumes "unity_factory_for tok e = Inr fac" and "session_error io = None" and "seaweed_store io = Inr store"
  shows "engine_new_session ep io provider now uuid who tok e rts =
    (Inr (session_made ep provider now uuid who fac (rt_next rts)),
     \<lparr>rt_stores = (rt_stores rts)(rt_next rts := [''s3://open-lakehouse/'' \<mapsto> store]),
      rt_next = Suc (rt_next rts)\<rparr>)"
  using assms by (simp add: engine_new_session_def create_session_for_ok session_made_def Let_def)

lemma engine_new_session_fails:
  "unity_factory_for tok e = Inl err \<Longrightarrow> fst (engine_new_session ep io provider now uuid who tok e rts) = Inl err"
  "unity_factory_for tok e = Inr fac \<Longrightarrow> session_error io = Some err \<Longrightarrow>
     fst (engine_new_session ep io provider now uuid who tok e rts) = Inl err"
  by (simp_all add: engine_new_session_def and_then_def create_session_for_Inl)

lemma engine_new_session_Inr:
  assumes "engine_new_session ep io provider now uuid who tok e rts = (Inr es, rts')"
  obtains fac store where "unity_factory_for tok e = Inr fac" and "session_error io = None"
    and "seaweed_store io = Inr store" and "es = session_made ep provider now uuid who fac (rt_next rts)"
    and "rts' = \<lparr>rt_stores = (rt_stores rts)(rt_next rts := [''s3://open-lakehouse/'' \<mapsto> store]),
        rt_next = Suc (rt_next rts)\<rparr>"
proof (cases "unity_factory_for tok e")
  case (Inr fac)
  show ?thesis
  proof (cases "session_error io")
    case None
    then obtain store where "seaweed_store io = Inr store" by (rule session_error_None)
    with assms Inr None show ?thesis by (intro that) (auto simp: engine_new_session_ok)
  next
    case (Some err)
    with arg_cong [OF assms, of fst] Inr show ?thesis by (simp add: engine_new_session_fails)
  qed
qed (use arg_cong [OF assms, of fst] in \<open>simp add: engine_new_session_fails\<close>)

section \<open>Refinement of the engine's sessions\<close>

definition session_abs :: "('p, 'f, 'pol, 'l, 'sp) engine_session \<Rightarrow> ('p, 'f, 'pl) session" where
  "session_abs es =
     \<lparr>se_correlation_id = cx_session_id (es_ctx es), se_principal = es_principal es,
      se_unity = map_option ur_factory (es_unity es), se_statements = Map.empty,
      se_created_at = es_created_at es, se_last_used_ms = 0\<rparr>"

lemma new_session_refined:
  "map_ok session_abs (fst (engine_new_session ep io provider (ce_now env) (ce_session_uuid env) who tok e rts)) =
     new_session (env\<lparr>ce_ctx_error := session_error io\<rparr>) who tok e"
proof (cases "unity_factory_for tok e")
  case (Inr fac)
  show ?thesis
  proof (cases "session_error io")
    case None
    then obtain store where "seaweed_store io = Inr store" by (rule session_error_None)
    with Inr None show ?thesis
      by (simp add: engine_new_session_ok new_session_def session_abs_def session_made_def build_unity_resolver_def
          Let_def option.map_comp comp_def option.map_ident)
  qed (use Inr in \<open>simp add: engine_new_session_fails new_session_def\<close>)
qed (simp add: engine_new_session_fails new_session_def)

section \<open>What a query asks of the policy\<close>

text \<open>The configuration of a query of a session made for \<open>who\<close>.\<close>

definition query_config ::
  "('pol, 'l) engine_parts \<Rightarrow> 'p \<Rightarrow> 'f option \<Rightarrow> lineage_context \<Rightarrow> agent_context option \<Rightarrow> ('p, 'f, 'pol) session_config"
where
  "query_config ep who fac lineage agent =
     (session_config_for (Some who) fac (ep_policy ep))
       \<lparr>cf_lineage := Some lineage, cf_agent := agent, cf_fact_store := Some (ep_fact_store ep)\<rparr>"

lemma session_config_for_simps [simp]:
  "cf_principal (session_config_for who fac pol) = who"
  "cf_policy_engine (session_config_for who fac pol) = Some pol"
  "cf_unity_factory (session_config_for who fac pol) = fac"
  "cf_unity_client (session_config_for who fac pol) = fac"
  "cf_function_resolver (session_config_for who fac pol) = fac"
  "cf_fact_sink (session_config_for who fac pol) = Some Map.empty"
  "cf_lineage (session_config_for who fac pol) = None"
  "cf_agent (session_config_for who fac pol) = None"
  "cf_fact_store (session_config_for who fac pol) = None"
  by (simp_all add: session_config_for_def with_principal_def Let_def split: option.split)

lemma lakehouse_for_query_made:
  "cx_config (lh_inner (lakehouse_for_query (session_made ep provider now uuid who fac rt) lineage agent)) =
     query_config ep who fac lineage agent"
  "cx_planner (lh_inner (lakehouse_for_query (session_made ep provider now uuid who fac rt) lineage agent)) =
     new_governed_planner (ep_policy ep) [UnityCatalogPlanner] (map_option (\<lambda>c. (c, ep_lineage_config ep)) (ep_lineage ep))"
  by (cases agent; simp add: lakehouse_for_query_def session_made_def query_config_def set_config_def
        attach_fact_store_def Let_def)+

lemma create_physical_plan_gate:
  assumes "ge_principal ge = Some who"
  shows "create_physical_plan ge plan log = (Inr x, log') \<Longrightarrow>
      \<exists>governed. ge_authorize ge plan who (ge_eval_context ge) = Inr governed"
    and "ge_authorize ge plan who (ge_eval_context ge) = Inl err \<Longrightarrow> create_physical_plan ge plan log = (Inl err, log)"
  using assms by (auto simp: create_physical_plan_def and_then_def split: sum.splits)

lemma query_gated:
  assumes es: "es = session_made ep provider now uuid who fac rt"
    and run: "lakehouse_physical_plan pc (lakehouse_for_query es lineage agent) plan log = (r, log')"
  shows "(\<forall>x. r = Inr x \<longrightarrow> (\<exists>optimized governed. pc_optimize pc plan = Inr optimized \<and>
            pc_authorize pc (ep_policy ep) optimized who (pc_eval_context pc (query_config ep who fac lineage agent)) = Inr governed))
       \<and> (\<forall>optimized err. pc_optimize pc plan = Inr optimized \<longrightarrow>
            pc_authorize pc (ep_policy ep) optimized who (pc_eval_context pc (query_config ep who fac lineage agent)) = Inl err \<longrightarrow>
            r = Inl err \<and> log' = log)"
proof -
  let ?cx = "lh_inner (lakehouse_for_query es lineage agent)"
  have env: "ge_principal (session_planner pc ?cx) = Some who"
    "ge_authorize (session_planner pc ?cx) = pc_authorize pc (ep_policy ep)"
    "ge_eval_context (session_planner pc ?cx) = pc_eval_context pc (query_config ep who fac lineage agent)"
    by (simp_all add: es session_planner_def lakehouse_for_query_made new_governed_planner_def Let_def)
      (simp add: query_config_def)
  show ?thesis
  proof (cases "pc_optimize pc plan")
    case (Inl e)
    with run show ?thesis by (auto simp: lakehouse_physical_plan_def state_physical_plan_def)
  next
    case (Inr optimized)
    with run have run1: "create_physical_plan (session_planner pc ?cx) optimized log = (r, log')"
      by (simp add: lakehouse_physical_plan_def state_physical_plan_def)
    note gate = create_physical_plan_gate [OF env(1), unfolded env(2,3)]
    show ?thesis
    proof (intro conjI allI impI)
      fix x
      assume "r = Inr x"
      with run1 gate(1) [of optimized log x log'] Inr
      show "\<exists>opt governed. pc_optimize pc plan = Inr opt \<and>
          pc_authorize pc (ep_policy ep) opt who (pc_eval_context pc (query_config ep who fac lineage agent)) = Inr governed"
        by blast
    qed (use gate(2) [of optimized _ log] run1 Inr in auto)
  qed
qed

section \<open>What a query and an update tell lineage\<close>

lemma create_physical_plan_run:
  assumes "ge_principal ge = Some who" and "ge_lineage_wired ge"
    and "create_physical_plan ge plan log = (Inr x, log')"
  shows "\<exists>governed final planned.
    ge_authorize ge plan who (ge_eval_context ge) = Inr governed \<and> ge_optimize ge governed = Inr final \<and>
    log' = log @ snd (ge_begin ge final) @ planned"
  using assms
  by (auto simp: create_physical_plan_def and_then_def split: sum.splits prod.splits option.splits)

lemma state_physical_plan_run:
  assumes "cf_principal (cx_config cx) = Some who" and "gp_lineage (cx_planner cx) = Some (client, cfg)"
    and "state_physical_plan pc cx plan log = (Inr x, log')"
  shows "\<exists>optimized governed final planned.
    pc_optimize pc plan = Inr optimized \<and>
    pc_authorize pc (gp_policy (cx_planner cx)) optimized who (pc_eval_context pc (cx_config cx)) = Inr governed \<and>
    pc_optimize pc governed = Inr final \<and>
    log' = log @ snd (pc_begin pc client (hydrofoil_context (cx_config cx)) cfg final) @ planned"
proof -
  from assms(3) obtain optimized where opt: "pc_optimize pc plan = Inr optimized"
    and run: "create_physical_plan (session_planner pc cx) optimized log = (Inr x, log')"
    by (auto simp: state_physical_plan_def and_then_def split: sum.splits)
  have env: "ge_principal (session_planner pc cx) = Some who" "ge_lineage_wired (session_planner pc cx)"
    using assms(1,2) by (simp_all add: session_planner_def Let_def)
  from create_physical_plan_run [OF env run] opt assms(2) show ?thesis
    by (fastforce simp: session_planner_def Let_def)
qed

lemma query_lineage_kept:
  assumes es: "es = session_made ep provider now uuid who fac rt" and "ep_lineage ep = Some client"
    and "lakehouse_physical_plan pc (lakehouse_for_query es lineage agent) plan log = (Inr x, log')"
  shows "\<exists>final planned. log' = log @ snd (pc_begin pc client lineage (ep_lineage_config ep) final) @ planned"
proof -
  let ?cx = "lh_inner (lakehouse_for_query es lineage agent)"
  have cf: "cf_principal (cx_config ?cx) = Some who"
    "gp_lineage (cx_planner ?cx) = Some (client, ep_lineage_config ep)"
    "hydrofoil_context (cx_config ?cx) = lineage"
    using assms(2)
    by (simp_all add: es lakehouse_for_query_made new_governed_planner_def)
      (simp_all add: query_config_def hydrofoil_context_def)
  from state_physical_plan_run [OF cf(1,2) assms(3) [unfolded lakehouse_physical_plan_def]] cf(3)
  show ?thesis by auto
qed

lemma update_gated_twice:
  assumes es: "es = session_made ep provider now uuid who fac rt" and "ep_lineage ep = Some client"
    and "run_update pc plan_in verify es lineage agent sql log = (Inr x, log')"
  shows "\<exists>plan governed optimized again final planned.
    plan_in (lakehouse_for_query es lineage agent) sql = Inr plan \<and>
    pc_authorize pc (ep_policy ep) plan who (pc_eval_context pc (session_config_for (Some who) fac (ep_policy ep))) = Inr governed \<and>
    pc_optimize pc governed = Inr optimized \<and>
    pc_authorize pc (ep_policy ep) optimized who (pc_eval_context pc (session_config_for (Some who) fac (ep_policy ep))) = Inr again \<and>
    pc_optimize pc again = Inr final \<and>
    log' = log @ snd (pc_begin pc client default_lineage_context (ep_lineage_config ep) final) @ planned"
proof -
  have cx: "cx_config (es_ctx es) = session_config_for (Some who) fac (ep_policy ep)"
    "gp_lineage (cx_planner (es_ctx es)) = Some (client, ep_lineage_config ep)"
    "gp_policy (cx_planner (es_ctx es)) = ep_policy ep" "es_policy es = ep_policy ep" "es_principal es = who"
    using assms(2) by (simp_all add: es session_made_def new_governed_planner_def Let_def)
  from assms(3) obtain plan governed where plan: "plan_in (lakehouse_for_query es lineage agent) sql = Inr plan"
    and gov: "pc_authorize pc (ep_policy ep) plan who
      (pc_eval_context pc (session_config_for (Some who) fac (ep_policy ep))) = Inr governed"
    and run: "state_physical_plan pc (es_ctx es) governed log = (Inr x, log')"
    by (auto simp: run_update_def lakehouse_ctx_execute_def engine_session_ctx_def authorize_logical_plan_def
        and_then_def cx split: sum.splits)
  have who: "cf_principal (cx_config (es_ctx es)) = Some who" by (simp add: cx)
  have none: "hydrofoil_context (cx_config (es_ctx es)) = default_lineage_context"
    by (simp add: cx hydrofoil_context_def)
  from state_physical_plan_run [OF who cx(2) run, unfolded cx(1,3)] none plan gov show ?thesis by (auto simp: cx(1))
qed

section \<open>Runtimes are apart\<close>

definition world_ok :: "('p, 'f, 'pol, 'l, 'sp, 'os) engine_world \<Rightarrow> bool" where
  "world_ok w \<longleftrightarrow>
     distinct (map (\<lambda>es. cx_runtime (es_ctx es)) (ew_sessions w)) \<and>
     (\<forall>es \<in> set (ew_sessions w). cx_runtime (es_ctx es) < rt_next (ew_runtimes w) \<and>
        (\<forall>ur. es_unity es = Some ur \<longrightarrow> ur_runtime ur = cx_runtime (es_ctx es)))"

fun own_refs :: "nat \<Rightarrow> ('p, 'r) runtime_op list \<Rightarrow> 'r list" where
  "own_refs i [] = []"
| "own_refs i (Op_Resolve j refs # ops) = (if j = i then refs # own_refs i ops else own_refs i ops)"
| "own_refs i (Op_New_Session now uuid who tok # ops) = own_refs i ops"

definition own_stores ::
  "('f \<Rightarrow> 'r \<Rightarrow> (string \<rightharpoonup> 'os) \<Rightarrow> (string \<rightharpoonup> 'os)) \<Rightarrow> ('p, 'f, 'pol, 'l, 'sp) engine_session \<Rightarrow> 'r list
    \<Rightarrow> (string \<rightharpoonup> 'os) \<Rightarrow> (string \<rightharpoonup> 'os)" where
  "own_stores vend es refs m =
     (case es_unity es of None \<Rightarrow> m | Some ur \<Rightarrow> fold (vend (ur_factory ur)) refs m)"

lemma own_stores_Nil [simp]: "own_stores vend es [] m = m"
  by (simp add: own_stores_def split: option.split)

definition stores_kept :: "'os runtimes \<Rightarrow> 'os runtimes \<Rightarrow> bool" where
  "stores_kept rts rts' \<longleftrightarrow> rt_next rts \<le> rt_next rts' \<and> (\<forall>rt < rt_next rts. rt_stores rts' rt = rt_stores rts rt)"

lemma create_session_for_runtimes:
  "stores_kept rts (snd (create_session_for io provider m sid lin cfg who fac pol rts))"
  by (auto simp: stores_kept_def create_session_for_def update_session_def add_seaweedfs_def fresh_runtime_def
      register_object_store_def and_then_def Let_def split: sum.splits)

lemma engine_new_session_runtimes:
  "stores_kept rts (snd (engine_new_session ep io provider now uuid who tok e rts))"
proof (cases "unity_factory_for tok e")
  case (Inr fac)
  then show ?thesis
    by (simp add: engine_new_session_def)
      (rule and_then_state [where P = "stores_kept rts", OF create_session_for_runtimes], simp)
qed (simp add: engine_new_session_def stores_kept_def)

lemma runtime_step_ok:
  assumes "world_ok w"
  shows "world_ok (runtime_step ep io provider e vend op w)"
proof (cases op)
  case (Op_New_Session now uuid who tok)
  obtain r rts where new: "engine_new_session ep io provider now uuid who tok e (ew_runtimes w) = (r, rts)" by fastforce
  have keep: "stores_kept (ew_runtimes w) rts" using engine_new_session_runtimes [of "ew_runtimes w" ep io provider now uuid who tok e] new by (metis snd_conv)
  show ?thesis
  proof (cases r)
    case (Inl a)
    with keep assms new Op_New_Session show ?thesis by (fastforce simp: world_ok_def stores_kept_def)
  next
    case (Inr es)
    with new have "engine_new_session ep io provider now uuid who tok e (ew_runtimes w) = (Inr es, rts)" by simp
    then have "cx_runtime (es_ctx es) = rt_next (ew_runtimes w)" "rt_next rts = Suc (rt_next (ew_runtimes w))"
      "\<forall>ur. es_unity es = Some ur \<longrightarrow> ur_runtime ur = cx_runtime (es_ctx es)"
      by (auto elim!: engine_new_session_Inr simp: session_made_def build_unity_resolver_def Let_def)
    with assms new Inr Op_New_Session show ?thesis by (fastforce simp: world_ok_def)
  qed
next
  case (Op_Resolve i refs)
  with assms show ?thesis by (auto simp: world_ok_def resolve_on_def split: option.split)
qed

lemma runtime_step_session:
  assumes "world_ok w" and "i < length (ew_sessions w)"
  shows "i < length (ew_sessions (runtime_step ep io provider e vend op w)) \<and>
    ew_sessions (runtime_step ep io provider e vend op w) ! i = ew_sessions w ! i \<and>
    rt_stores (ew_runtimes (runtime_step ep io provider e vend op w)) (cx_runtime (es_ctx (ew_sessions w ! i))) =
      own_stores vend (ew_sessions w ! i) (own_refs i [op])
        (rt_stores (ew_runtimes w) (cx_runtime (es_ctx (ew_sessions w ! i))))"
proof (cases op)
  case (Op_New_Session now uuid who tok)
  obtain r rts where new: "engine_new_session ep io provider now uuid who tok e (ew_runtimes w) = (r, rts)" by fastforce
  from assms have "cx_runtime (es_ctx (ew_sessions w ! i)) < rt_next (ew_runtimes w)" by (simp add: world_ok_def)
  moreover have "stores_kept (ew_runtimes w) rts"
    using engine_new_session_runtimes [of "ew_runtimes w" ep io provider now uuid who tok e] new by (metis snd_conv)
  ultimately show ?thesis using assms(2) new Op_New_Session
    by (cases r) (auto simp: nth_append stores_kept_def)
next
  case (Op_Resolve j refs)
  have same: "cx_runtime (es_ctx (ew_sessions w ! j)) = cx_runtime (es_ctx (ew_sessions w ! i)) \<longleftrightarrow> j = i"
    if "j < length (ew_sessions w)"
    using assms that by (auto simp: world_ok_def distinct_conv_nth)
  have own: "ur_runtime ur = cx_runtime (es_ctx (ew_sessions w ! j))"
    if "j < length (ew_sessions w)" and "es_unity (ew_sessions w ! j) = Some ur" for ur
    using assms that by (auto simp: world_ok_def)
  show ?thesis
    using Op_Resolve assms(2) same own
    by (cases "j < length (ew_sessions w)"; cases "es_unity (ew_sessions w ! j)")
      (auto simp: resolve_on_def own_stores_def split: option.split)
qed

lemma own_stores_append:
  "own_stores vend es (own_refs i (op # ops)) m = own_stores vend es (own_refs i ops) (own_stores vend es (own_refs i [op]) m)"
  by (cases op) (auto simp: own_stores_def split: option.split)

lemma runtime_run_session:
  assumes "world_ok w" and "i < length (ew_sessions w)"
  shows "rt_stores (ew_runtimes (runtime_run ep io provider e vend ops w)) (cx_runtime (es_ctx (ew_sessions w ! i))) =
      own_stores vend (ew_sessions w ! i) (own_refs i ops)
        (rt_stores (ew_runtimes w) (cx_runtime (es_ctx (ew_sessions w ! i))))"
  using assms
proof (induction ops arbitrary: w)
  case (Cons op ops)
  let ?w1 = "runtime_step ep io provider e vend op w"
  note step = runtime_step_session [OF Cons.prems, of ep io provider e vend op]
  from Cons.IH [OF runtime_step_ok [OF Cons.prems(1)], of ep io provider e vend op] step
  show ?case unfolding runtime_run_def own_stores_append [of vend _ i op ops] by simp
qed (simp add: runtime_run_def)

lemma runtime_run_ok: "world_ok w \<Longrightarrow> world_ok (runtime_run ep io provider e vend ops w)"
  unfolding runtime_run_def by (induction ops arbitrary: w) (simp_all add: runtime_step_ok)

definition no_sessions :: "nat \<Rightarrow> (nat \<Rightarrow> (string \<rightharpoonup> 'os)) \<Rightarrow> ('p, 'f, 'pol, 'l, 'sp, 'os) engine_world" where
  "no_sessions n stores = \<lparr>ew_runtimes = \<lparr>rt_stores = stores, rt_next = n\<rparr>, ew_sessions = []\<rparr>"

lemma world_ok_start [simp]: "world_ok (no_sessions n stores)"
  by (simp add: world_ok_def no_sessions_def)

lemma session_stores:
  assumes "world_ok w"
    and "engine_new_session ep io provider now uuid who tok e (ew_runtimes w) = (Inr es, rts)"
  shows "\<exists>fac store. unity_factory_for tok e = Inr fac \<and> seaweed_store io = Inr store \<and>
    rt_stores (ew_runtimes (runtime_run ep io provider e vend (Op_New_Session now uuid who tok # ops) w)) (cx_runtime (es_ctx es)) =
      (case fac of
         None \<Rightarrow> [''s3://open-lakehouse/'' \<mapsto> store]
       | Some f \<Rightarrow> fold (vend f) (own_refs (length (ew_sessions w)) ops) [''s3://open-lakehouse/'' \<mapsto> store])"
proof -
  let ?w1 = "runtime_step ep io provider e vend (Op_New_Session now uuid who tok) w"
  have w1: "?w1 = \<lparr>ew_runtimes = rts, ew_sessions = ew_sessions w @ [es]\<rparr>" using assms(2) by simp
  from assms(2) obtain fac store where f: "unity_factory_for tok e = Inr fac" "seaweed_store io = Inr store"
    "es = session_made ep provider now uuid who fac (rt_next (ew_runtimes w))"
    "rts = \<lparr>rt_stores = (rt_stores (ew_runtimes w))(rt_next (ew_runtimes w) := [''s3://open-lakehouse/'' \<mapsto> store]),
        rt_next = Suc (rt_next (ew_runtimes w))\<rparr>"
    by (rule engine_new_session_Inr)
  have "length (ew_sessions w) < length (ew_sessions ?w1)" "ew_sessions ?w1 ! length (ew_sessions w) = es"
    using w1 by simp_all
  with runtime_run_session [OF runtime_step_ok [OF assms(1)], of "length (ew_sessions w)" ep io provider e vend
      "Op_New_Session now uuid who tok" ep io provider e vend ops]
  have run: "rt_stores (ew_runtimes (runtime_run ep io provider e vend ops ?w1)) (cx_runtime (es_ctx es)) =
      own_stores vend es (own_refs (length (ew_sessions w)) ops) (rt_stores (ew_runtimes ?w1) (cx_runtime (es_ctx es)))"
    by simp
  have "cx_runtime (es_ctx es) = rt_next (ew_runtimes w)" "map_option ur_factory (es_unity es) = fac"
    using f(3) by (simp_all add: session_made_def build_unity_resolver_def Let_def option.map_comp comp_def option.map_ident)
  then show ?thesis
    using run w1 f by (auto simp: runtime_run_def own_stores_def split: option.splits)
qed

end
