(* ===== verification/Schema_Provider.thy ===== *)
theory Schema_Provider
  imports Rust_Prelude
begin

text \<open>
  \<^verbatim>\<open>crates/hydrofoil/src/catalog/schema.rs\<close>: the schema \<^verbatim>\<open>hydrofoil.default\<close> of a session, which keeps Delta
  snapshots beside a fallback for other tables. The fallback, DataFusion's \<^verbatim>\<open>MemorySchemaProvider\<close>, is a record
  of its operations over a state \<open>'s\<close>; Delta's snapshot \<open>'sn\<close> and a table provider \<open>'tp\<close> are opaque. The
  entries of the \<^verbatim>\<open>DashMap\<close> of snapshots are listed in the order it happens to be iterated in.
\<close>

section \<open>The provider\<close>

record ('s, 'tp) memory_schema =
  ms_new :: 's
  ms_names :: "'s \<Rightarrow> string list"
  ms_table :: "'s \<Rightarrow> string \<Rightarrow> string + 'tp option"
  ms_register :: "string \<Rightarrow> 'tp \<Rightarrow> 's \<Rightarrow> (string + 'tp option) \<times> 's"
  ms_exist :: "'s \<Rightarrow> string \<Rightarrow> bool"

text \<open>
  What the provider asks of the Delta crate: whether a table provider is a \<^verbatim>\<open>DeltaScanNext\<close>, a snapshot brought
  up to date with the session's engine, and the provider over a snapshot.
\<close>

record ('sn, 'tp) delta_tables =
  dt_is_delta :: "'tp \<Rightarrow> bool"
  dt_update :: "'sn \<Rightarrow> string + 'sn"
  dt_scan :: "'sn \<Rightarrow> string + 'tp"

record ('sn, 's) schema_provider =
  lp_tables :: "(string \<times> 'sn) list"
  lp_fallback :: 's

definition new_schema_provider :: "('s, 'tp) memory_schema \<Rightarrow> ('sn, 's) schema_provider" where
  "new_schema_provider ms = \<lparr>lp_tables = [], lp_fallback = ms_new ms\<rparr>"

definition schema_table_names :: "('s, 'tp) memory_schema \<Rightarrow> ('sn, 's) schema_provider \<Rightarrow> string list" where
  "schema_table_names ms sp = map fst (lp_tables sp) @ ms_names ms (lp_fallback sp)"

definition schema_table ::
  "('s, 'tp) memory_schema \<Rightarrow> ('sn, 'tp) delta_tables \<Rightarrow> ('sn, 's) schema_provider \<Rightarrow> string \<Rightarrow> string + 'tp option" where
  "schema_table ms dt sp name =
     (case map_of (lp_tables sp) name of
        None \<Rightarrow> ms_table ms (lp_fallback sp) name
      | Some snapshot \<Rightarrow>
          try_bind (map_err (\<lambda>e. ''Failed to update Delta snapshot for '' @ [CHR 0x27] @ name @ [CHR 0x27] @ '': '' @ e)
              (dt_update dt snapshot)) (\<lambda>current. map_ok Some (dt_scan dt current)))"

definition schema_register_table ::
  "('s, 'tp) memory_schema \<Rightarrow> ('sn, 'tp) delta_tables \<Rightarrow> string \<Rightarrow> 'tp \<Rightarrow> ('sn, 's) schema_provider
    \<Rightarrow> (string + 'tp option) \<times> ('sn, 's) schema_provider" where
  "schema_register_table ms dt name table sp =
     (if dt_is_delta dt table then (Inr None, sp)
      else (case ms_register ms name table (lp_fallback sp) of
              (r, s) \<Rightarrow> (r, \<lparr>lp_tables = filter (\<lambda>(n, _). n \<noteq> name) (lp_tables sp), lp_fallback = s\<rparr>)))"

definition schema_table_exist :: "('s, 'tp) memory_schema \<Rightarrow> ('sn, 's) schema_provider \<Rightarrow> string \<Rightarrow> bool" where
  "schema_table_exist ms sp name \<longleftrightarrow> name \<in> fst ` set (lp_tables sp) \<or> ms_exist ms (lp_fallback sp) name"

section \<open>Runs of registrations\<close>

text \<open>
  The documented behaviour of the fallback, with \<open>tabs\<close> the tables it holds: it starts empty, answers what it
  holds, and a registration that succeeds adds one table, one that fails changes nothing.
\<close>

definition memory_schema_ok :: "('s, 'tp) memory_schema \<Rightarrow> ('s \<Rightarrow> string \<rightharpoonup> 'tp) \<Rightarrow> bool" where
  "memory_schema_ok ms tabs \<longleftrightarrow>
     tabs (ms_new ms) = Map.empty \<and>
     (\<forall>s. set (ms_names ms s) = dom (tabs s)) \<and>
     (\<forall>s n. ms_table ms s n = Inr (tabs s n)) \<and>
     (\<forall>s n. ms_exist ms s n \<longleftrightarrow> tabs s n \<noteq> None) \<and>
     (\<forall>n t s. tabs (snd (ms_register ms n t s)) =
        (if is_ok (fst (ms_register ms n t s)) then (tabs s)(n \<mapsto> t) else tabs s))"

fun register_all ::
  "('s, 'tp) memory_schema \<Rightarrow> ('sn, 'tp) delta_tables \<Rightarrow> (string \<times> 'tp) list \<Rightarrow> ('sn, 's) schema_provider
    \<Rightarrow> (string + 'tp option) list \<times> ('sn, 's) schema_provider" where
  "register_all ms dt [] sp = ([], sp)"
| "register_all ms dt ((n, t) # ts) sp =
     (case schema_register_table ms dt n t sp of
        (r, sp1) \<Rightarrow> (case register_all ms dt ts sp1 of (rs, sp2) \<Rightarrow> (r # rs, sp2)))"

text \<open>What the successful calls among those for other tables leave.\<close>

fun registered :: "('tp \<Rightarrow> bool) \<Rightarrow> (string \<times> 'tp) list \<Rightarrow> (string + 'tp option) list \<Rightarrow> (string \<rightharpoonup> 'tp) \<Rightarrow> (string \<rightharpoonup> 'tp)" where
  "registered delta ((n, t) # ts) (r # rs) m =
     registered delta ts rs (if is_ok r \<and> \<not> delta t then m(n \<mapsto> t) else m)"
| "registered delta _ _ m = m"

lemma schema_register_fallback:
  assumes "memory_schema_ok ms tabs" and "schema_register_table ms dt n t sp = (r, sp')" and "lp_tables sp = []"
  shows "lp_tables sp' = [] \<and> tabs (lp_fallback sp') =
    (if is_ok r \<and> \<not> dt_is_delta dt t then (tabs (lp_fallback sp))(n \<mapsto> t) else tabs (lp_fallback sp))"
proof (cases "dt_is_delta dt t")
  case False
  obtain r0 s0 where reg: "ms_register ms n t (lp_fallback sp) = (r0, s0)" by fastforce
  have "tabs (snd (ms_register ms n t (lp_fallback sp))) =
      (if is_ok (fst (ms_register ms n t (lp_fallback sp))) then (tabs (lp_fallback sp))(n \<mapsto> t)
       else tabs (lp_fallback sp))"
    using assms(1) by (simp add: memory_schema_ok_def)
  with False reg assms(2,3) show ?thesis by (auto simp: schema_register_table_def)
qed (use assms in \<open>auto simp: schema_register_table_def\<close>)

lemma register_all_fallback:
  assumes "memory_schema_ok ms tabs" and "register_all ms dt ts sp = (rs, sp')" and "lp_tables sp = []"
  shows "lp_tables sp' = [] \<and> length rs = length ts \<and>
    tabs (lp_fallback sp') = registered (dt_is_delta dt) ts rs (tabs (lp_fallback sp))"
  using assms(2,3)
proof (induction ts arbitrary: sp rs sp')
  case (Cons nt ts)
  obtain n t where nt: "nt = (n, t)" by (cases nt)
  obtain r sp1 where step: "schema_register_table ms dt n t sp = (r, sp1)" by fastforce
  obtain rs1 sp2 where rest: "register_all ms dt ts sp1 = (rs1, sp2)" by fastforce
  from Cons.prems(1) nt step rest have eq: "rs = r # rs1" "sp' = sp2" by auto
  note one = schema_register_fallback [OF assms(1) step Cons.prems(2)]
  from one have "lp_tables sp1 = []" ..
  from Cons.IH [OF rest this] one nt eq show ?case by simp
qed simp

lemma schema_of_fallback:
  assumes "memory_schema_ok ms tabs" and "lp_tables sp = []"
  shows "schema_table ms dt sp name = Inr (tabs (lp_fallback sp) name)"
    "schema_table_exist ms sp name \<longleftrightarrow> tabs (lp_fallback sp) name \<noteq> None"
    "set (schema_table_names ms sp) = dom (tabs (lp_fallback sp))"
  using assms by (simp_all add: schema_table_def schema_table_exist_def schema_table_names_def memory_schema_ok_def)

end
