(* ===== verification/Flight_Metadata.thy ===== *)
theory Flight_Metadata
  imports Query_Results
begin

text \<open>
  The metadata commands of the Flight SQL service (\<^verbatim>\<open>server.rs\<close>) and what it says of itself
  (\<^verbatim>\<open>server/metadata.rs\<close>). The messages, their builders and encodings, and the dispatch of a ticket to a
  handler belong to \<^verbatim>\<open>arrow-flight\<close>; a handler the service does not write is the default of its trait.
  No metadata command looks at the caller or at the sessions.
\<close>

section \<open>What the server says of itself\<close>

datatype sql_info = FlightSqlServerName | FlightSqlServerVersion | FlightSqlServerArrowVersion

definition INSTANCE_SQL_DATA :: "(sql_info \<times> string) list" where
  "INSTANCE_SQL_DATA =
     [(FlightSqlServerName, ''Hydrofoil Flight SQL Server''), (FlightSqlServerVersion, ''1''),
      (FlightSqlServerArrowVersion, ''1.3'')]"

datatype xdbc_data_type = XdbcInteger
datatype nullability = NullabilityNullable
datatype searchability = Searchable_Full

record xdbc_type_info =
  xt_type_name :: string
  xt_data_type :: xdbc_data_type
  xt_column_size :: "int option"
  xt_literal_prefix :: "string option"
  xt_literal_suffix :: "string option"
  xt_create_params :: "string list option"
  xt_nullable :: nullability
  xt_case_sensitive :: bool
  xt_searchable :: searchability
  xt_unsigned_attribute :: "bool option"
  xt_fixed_prec_scale :: bool
  xt_auto_increment :: "bool option"
  xt_local_type_name :: "string option"
  xt_minimum_scale :: "int option"
  xt_maximum_scale :: "int option"
  xt_sql_data_type :: xdbc_data_type
  xt_datetime_subcode :: "int option"
  xt_num_prec_radix :: "int option"
  xt_interval_precision :: "int option"

definition INSTANCE_XBDC_DATA :: "xdbc_type_info list" where
  "INSTANCE_XBDC_DATA =
     [\<lparr>xt_type_name = ''INTEGER'', xt_data_type = XdbcInteger, xt_column_size = Some 32, xt_literal_prefix = None,
       xt_literal_suffix = None, xt_create_params = None, xt_nullable = NullabilityNullable,
       xt_case_sensitive = False, xt_searchable = Searchable_Full, xt_unsigned_attribute = Some False,
       xt_fixed_prec_scale = False, xt_auto_increment = Some False, xt_local_type_name = Some ''INTEGER'',
       xt_minimum_scale = None, xt_maximum_scale = None, xt_sql_data_type = XdbcInteger,
       xt_datetime_subcode = None, xt_num_prec_radix = Some 2, xt_interval_precision = None\<rparr>]"

section \<open>Commands\<close>

datatype 'q metadata_command =
    CommandGetCatalogs 'q | CommandGetDbSchemas 'q | CommandGetTables 'q | CommandGetSqlInfo 'q | CommandGetXdbcTypeInfo 'q

text \<open>
  \<open>fm_ticket\<close> is \<^verbatim>\<open>as_any().encode_to_vec()\<close>, \<open>fm_command\<close> reads it back; \<open>fm_schema\<close> and \<open>fm_batch\<close> are the
  command's builder (over the server's data, where it takes them), \<open>fm_encode_schema\<close> is \<^verbatim>\<open>try_with_schema\<close>, and
  \<open>fm_default\<close> the answer of a trait's default method, by its name.
\<close>

record ('q, 'b) flight_protocol =
  fm_ticket :: "'q metadata_command \<Rightarrow> bytes"
  fm_command :: "bytes \<Rightarrow> 'q metadata_command option"
  fm_plain_schema :: "'q metadata_command \<Rightarrow> schema"
  fm_sql_schema :: "'q \<Rightarrow> (sql_info \<times> string) list \<Rightarrow> schema"
  fm_sql_batch :: "'q \<Rightarrow> (sql_info \<times> string) list \<Rightarrow> string + 'b"
  fm_xdbc_schema :: "'q \<Rightarrow> xdbc_type_info list \<Rightarrow> schema"
  fm_xdbc_batch :: "'q \<Rightarrow> xdbc_type_info list \<Rightarrow> string + 'b"
  fm_encode_schema :: "schema \<Rightarrow> string + bytes"
  fm_default :: "string \<Rightarrow> status"

record 'd flight_info =
  fi_schema :: bytes
  fi_tickets :: "bytes list"
  fi_descriptor :: 'd

text \<open>\<^verbatim>\<open>FlightInfo::new().try_with_schema(..)?.with_endpoint(..).with_descriptor(..)\<close>.\<close>

definition metadata_info ::
  "('q, 'b) flight_protocol \<Rightarrow> string \<Rightarrow> schema \<Rightarrow> 'q metadata_command \<Rightarrow> 'd \<Rightarrow> status + 'd flight_info" where
  "metadata_info fm loc s command descriptor =
     map_ok (\<lambda>encoded. \<lparr>fi_schema = encoded, fi_tickets = [fm_ticket fm command], fi_descriptor = descriptor\<rparr>)
       (map_err (status_at ''Unable to encode schema'' (''crates/hydrofoil/src/server.rs:'' @ loc))
          (fm_encode_schema fm s))"

definition get_flight_info_catalogs :: "('q, 'b) flight_protocol \<Rightarrow> 'q \<Rightarrow> 'd \<Rightarrow> status + 'd flight_info" where
  "get_flight_info_catalogs fm query descriptor =
     metadata_info fm ''757'' (fm_plain_schema fm (CommandGetCatalogs query)) (CommandGetCatalogs query) descriptor"

definition get_flight_info_schemas :: "('q, 'b) flight_protocol \<Rightarrow> 'q \<Rightarrow> 'd \<Rightarrow> status + 'd flight_info" where
  "get_flight_info_schemas fm query descriptor =
     metadata_info fm ''785'' (fm_plain_schema fm (CommandGetDbSchemas query)) (CommandGetDbSchemas query) descriptor"

definition get_flight_info_tables :: "('q, 'b) flight_protocol \<Rightarrow> 'q \<Rightarrow> 'd \<Rightarrow> status + 'd flight_info" where
  "get_flight_info_tables fm query descriptor =
     metadata_info fm ''813'' (fm_plain_schema fm (CommandGetTables query)) (CommandGetTables query) descriptor"

definition get_flight_info_sql_info :: "('q, 'b) flight_protocol \<Rightarrow> 'q \<Rightarrow> 'd \<Rightarrow> status + 'd flight_info" where
  "get_flight_info_sql_info fm query descriptor =
     metadata_info fm ''844'' (fm_sql_schema fm query INSTANCE_SQL_DATA) (CommandGetSqlInfo query) descriptor"

definition get_flight_info_xdbc_type_info :: "('q, 'b) flight_protocol \<Rightarrow> 'q \<Rightarrow> 'd \<Rightarrow> status + 'd flight_info" where
  "get_flight_info_xdbc_type_info fm query descriptor =
     metadata_info fm ''875'' (fm_xdbc_schema fm query INSTANCE_XBDC_DATA) (CommandGetXdbcTypeInfo query) descriptor"

text \<open>A stream: its schema, and its one batch or the error of building it.\<close>

definition do_get_sql_info :: "('q, 'b) flight_protocol \<Rightarrow> 'q \<Rightarrow> status + schema \<times> (string + 'b) list" where
  "do_get_sql_info fm query =
     Inr (fm_sql_schema fm query INSTANCE_SQL_DATA, [fm_sql_batch fm query INSTANCE_SQL_DATA])"

definition do_get_xdbc_type_info :: "('q, 'b) flight_protocol \<Rightarrow> 'q \<Rightarrow> status + schema \<times> (string + 'b) list" where
  "do_get_xdbc_type_info fm query =
     Inr (fm_xdbc_schema fm query INSTANCE_XBDC_DATA, [fm_xdbc_batch fm query INSTANCE_XBDC_DATA])"

section \<open>Dispatch\<close>

text \<open>What the service's \<^verbatim>\<open>impl FlightSqlService\<close> has for each command, and the trait's default for the rest.\<close>

fun get_flight_info :: "('q, 'b) flight_protocol \<Rightarrow> 'q metadata_command \<Rightarrow> 'd \<Rightarrow> status + 'd flight_info" where
  "get_flight_info fm (CommandGetCatalogs q) d = get_flight_info_catalogs fm q d"
| "get_flight_info fm (CommandGetDbSchemas q) d = get_flight_info_schemas fm q d"
| "get_flight_info fm (CommandGetTables q) d = get_flight_info_tables fm q d"
| "get_flight_info fm (CommandGetSqlInfo q) d = get_flight_info_sql_info fm q d"
| "get_flight_info fm (CommandGetXdbcTypeInfo q) d = get_flight_info_xdbc_type_info fm q d"

fun do_get_metadata :: "('q, 'b) flight_protocol \<Rightarrow> 'q metadata_command \<Rightarrow> status + schema \<times> (string + 'b) list" where
  "do_get_metadata fm (CommandGetCatalogs q) = Inl (fm_default fm ''do_get_catalogs'')"
| "do_get_metadata fm (CommandGetDbSchemas q) = Inl (fm_default fm ''do_get_schemas'')"
| "do_get_metadata fm (CommandGetTables q) = Inl (fm_default fm ''do_get_tables'')"
| "do_get_metadata fm (CommandGetSqlInfo q) = do_get_sql_info fm q"
| "do_get_metadata fm (CommandGetXdbcTypeInfo q) = do_get_xdbc_type_info fm q"

definition redeem_ticket ::
  "('q, 'b) flight_protocol \<Rightarrow> bytes \<Rightarrow> string \<Rightarrow> status + schema \<times> (string + 'b) list" where
  "redeem_ticket fm ticket type_url =
     (case fm_command fm ticket of Some command \<Rightarrow> do_get_metadata fm command | None \<Rightarrow> Inl (do_get_fallback type_url))"

fun command_schema :: "('q, 'b) flight_protocol \<Rightarrow> 'q metadata_command \<Rightarrow> schema" where
  "command_schema fm (CommandGetSqlInfo q) = fm_sql_schema fm q INSTANCE_SQL_DATA"
| "command_schema fm (CommandGetXdbcTypeInfo q) = fm_xdbc_schema fm q INSTANCE_XBDC_DATA"
| "command_schema fm c = fm_plain_schema fm c"

fun served :: "'q metadata_command \<Rightarrow> bool" where
  "served (CommandGetSqlInfo q) = True"
| "served (CommandGetXdbcTypeInfo q) = True"
| "served c = False"

lemma get_flight_info_Inr:
  "get_flight_info fm c d = Inr info \<Longrightarrow>
     fi_tickets info = [fm_ticket fm c] \<and> fi_descriptor info = d \<and>
     fm_encode_schema fm (command_schema fm c) = Inr (fi_schema info)"
  by (cases c)
    (auto simp: get_flight_info_catalogs_def get_flight_info_schemas_def get_flight_info_tables_def
      get_flight_info_sql_info_def get_flight_info_xdbc_type_info_def metadata_info_def map_ok_Inr_iff)

lemma do_get_metadata_served:
  "served c \<Longrightarrow> \<exists>item. do_get_metadata fm c = Inr (command_schema fm c, [item])"
  by (cases c) (auto simp: do_get_sql_info_def do_get_xdbc_type_info_def)

end
