(* ===== verification/Startup_Properties.thy ===== *)
theory Startup_Properties
  imports Portal_Config Server_Start Session_Plan_Facts Schema_Provider Flight_Metadata Desktop_Host
begin

text \<open>
  Properties of a server from its configuration to the sessions it builds and the plans they make: which policy
  gates them, whose credentials they hold, what their lineage carries; and of the parts around them, the schema of
  a session's own tables and the metadata commands.
\<close>

section \<open>A concrete engine\<close>

text \<open>
  Principals, factories, policies, plans and stores are texts. A policy denies the plan of its own name; a
  lineage event carries the run of its context.
\<close>

definition names0 :: "string principal_api" where
  "names0 = \<lparr>pi_new = \<lambda>u. u, pi_with_attribute = \<lambda>k v p. p, pi_enriched = \<lambda>e p. p, pi_uid = \<lambda>p. p\<rparr>"

definition config0 :: lineage_config where
  "config0 = \<lparr>lcfg_producer = ''hydrofoil'', lcfg_job_namespace = ''default''\<rparr>"

definition plans0 :: "(string, string, string, lineage_client, string, string, unit, bool) planner_calls" where
  "plans0 =
     \<lparr>pc_eval_context = \<lambda>cf. cf_agent cf \<noteq> None,
      pc_authorize = \<lambda>policy plan who ec. if plan_node plan = policy then Inl ''denied'' else Inr plan,
      pc_optimize = Inr, pc_begin = \<lambda>client context config plan. (None, [(Event_Start, unwrap_or ''none'' (lc_run_id context))]),
      pc_handle_plan = \<lambda>ps h. (Inl ''unused'', []), pc_physical = \<lambda>ps plan. Inr (plan_node plan)\<rparr>"

definition session_io0 :: "string session_io" where
  "session_io0 =
     \<lparr>si_from_env = Inr (), si_build_s3 = \<lambda>r. Inr (s3_bucket_name r), si_instrument = \<lambda>s name. name @ '':'' @ s,
      si_register_schema = Inr ()\<rparr>"

definition no_runtimes :: "string runtimes" where
  "no_runtimes = \<lparr>rt_stores = (\<lambda>_. Map.empty), rt_next = 0\<rparr>"

definition main0 :: "(string, string, string, string, string) main_io" where
  "main0 =
     \<lparr>mi_parse_addr = Inr, mi_cpu_runtime = Inr (), mi_allow_all = ''allow'', mi_default_lineage = config0,
      mi_identity = \<lambda>u. Inr no_enrichment, mi_parse_url = \<lambda>u. Inr (), mi_from_oci = \<lambda>r. Inr ''drop'',
      mi_build_factory = \<lambda>r. Inr (case fr_auth r of With_Token t \<Rightarrow> t | Allow_Unauthenticated \<Rightarrow> ''open''),
      mi_principals = names0, mi_blank = \<lambda>_. \<lparr>se_correlation_id = [], se_principal = [], se_unity = None,
        se_statements = Map.empty, se_created_at = 0, se_last_used_ms = 0\<rparr>,
      mi_bind = \<lambda>a. Inr ()\<rparr>"

definition governed0 :: hydrofoil_config where
  "governed0 =
     default_hydrofoil_config
       \<lparr>hf_policy := \<lparr>po_oci_ref = Some ''registry/policy''\<rparr>,
        hf_unity := \<lparr>un_endpoint = Some ''http://uc/'', un_token = Some ''server-token'', un_region = None\<rparr>\<rparr>"

definition server1 :: "(string, string, string, string, string) started_server" where
  "server1 =
     \<lparr>st_service = service_build names0 (mi_build_factory main0) (mi_blank main0) 1800
        \<lparr>fs_policy = ''drop'', fs_unity_factory = Some ''server-token'', fs_unity_endpoint = Some ''http://uc/'',
         fs_unity_region = None, fs_lineage = Some Noop_Client, fs_lineage_config = config0,
         fs_identity = Some (mi_identity main0)\<rparr>,
      st_flight = listen_text ''0.0.0.0'' 50051, st_http = Some (listen_text ''0.0.0.0'' 9082, 1000, 10000)\<rparr>"

lemma start_governed0: "start_server main0 governed0 = Inr server1"
  by (simp add: start_server_def governed0_def default_hydrofoil_config_def main0_def server1_def service_try_new_def
      main_build_lineage_client_def wire_policy_def wire_unity_def with_lineage_def with_policy_def with_unity_def
      build_lineage_config_def nonempty_def Let_def)

definition engine1 :: "(string, string) engine" where
  "engine1 = sst_engine (bs_sessions (st_service server1))"

definition parts1 :: "(string, lineage_client) engine_parts" where
  "parts1 = \<lparr>ep_policy = ''drop'', ep_lineage = Some Noop_Client, ep_lineage_config = config0, ep_fact_store = 0\<rparr>"

lemma parts1: "bs_parts (st_service server1) = parts1"
  by (simp add: server1_def parts1_def service_build_engine)

lemma factory_engine1 [simp]:
  "unity_factory_for None engine1 = Inr (Some ''server-token'')"
  "unity_factory_for (Some t) engine1 = Inr (Some t)"
  by (simp_all add: engine1_def server1_def unity_factory_for_def service_build_engine nonempty_def)
    (simp_all add: main0_def)

lemma session_io0_ok [simp]: "session_error session_io0 = None" "seaweed_store session_io0 = Inr ''seaweedfs:open-lakehouse''"
  by (simp_all add: session_error_def seaweed_store_def session_io0_def)

lemma new_session1:
  "engine_new_session parts1 session_io0 () 5 ''c1'' who tok engine1 rts =
     (Inr (session_made parts1 () 5 ''c1'' who (Some (unwrap_or ''server-token'' tok)) (rt_next rts)),
      \<lparr>rt_stores = (rt_stores rts)(rt_next rts := [''s3://open-lakehouse/'' \<mapsto> ''seaweedfs:open-lakehouse'']),
       rt_next = Suc (rt_next rts)\<rparr>)"
  by (cases tok) (simp_all add: engine_new_session_ok)

section \<open>Whose policy\<close>

text \<open>
  C9. A server started with a policy reference enforces that policy, or it does not start: in every session of
  its engine, for whichever principal, a query plans only if the policy fetched from the reference allows it for
  that principal, with the agent of the request and the engine's taint ledger in view; a denied query ends with the
  policy's error and leaves no lineage event.
\<close>

theorem started_server_gates:
  assumes "start_server io cfg = Inr srv" and "nonempty (po_oci_ref (hf_policy cfg)) = Some reference"
    and "engine_new_session (bs_parts (st_service srv)) sio provider now uuid who tok
           (sst_engine (bs_sessions (st_service srv))) rts = (Inr es, rts')"
    and "lakehouse_physical_plan pc (lakehouse_for_query es lineage agent) plan log = (r, log')"
  shows "\<exists>policy fac. mi_from_oci io reference = Inr policy \<and>
    unity_factory_for tok (sst_engine (bs_sessions (st_service srv))) = Inr fac \<and>
    (\<forall>x. r = Inr x \<longrightarrow> (\<exists>optimized governed. pc_optimize pc plan = Inr optimized \<and>
       pc_authorize pc policy optimized who
         (pc_eval_context pc (query_config (bs_parts (st_service srv)) who fac lineage agent)) = Inr governed)) \<and>
    (\<forall>optimized err. pc_optimize pc plan = Inr optimized \<longrightarrow>
       pc_authorize pc policy optimized who
         (pc_eval_context pc (query_config (bs_parts (st_service srv)) who fac lineage agent)) = Inl err \<longrightarrow>
       r = Inl err \<and> log' = log)"
proof -
  from start_server_Inr [OF assms(1)] assms(2) have "mi_from_oci io reference = Inr (ep_policy (bs_parts (st_service srv)))"
    by (auto simp: policy_of_def service_build_engine)
  moreover from assms(3) obtain fac store where
    "unity_factory_for tok (sst_engine (bs_sessions (st_service srv))) = Inr fac"
    "es = session_made (bs_parts (st_service srv)) provider now uuid who fac (rt_next rts)"
    by (rule engine_new_session_Inr)
  moreover note query_gated [OF this(2) assms(4)]
  ultimately show ?thesis by blast
qed

theorem started_server_gates_witness:
  "\<exists>r log'. lakehouse_physical_plan plans0
      (lakehouse_for_query (session_made parts1 () 5 ''c1'' ''alice'' (Some ''server-token'') 0)
         default_lineage_context None) (Plan ''drop'' []) [] = (r, log') \<and> r = Inl ''denied'' \<and> log' = []"
proof -
  obtain r log' where run: "lakehouse_physical_plan plans0
      (lakehouse_for_query (session_made parts1 () 5 ''c1'' ''alice'' (Some ''server-token'') 0)
         default_lineage_context None) (Plan ''drop'' []) [] = (r, log')" by fastforce
  have made: "engine_new_session (bs_parts (st_service server1)) session_io0 () 5 ''c1'' ''alice'' None
      (sst_engine (bs_sessions (st_service server1))) no_runtimes =
      (Inr (session_made parts1 () 5 ''c1'' ''alice'' (Some ''server-token'') 0),
       \<lparr>rt_stores = (rt_stores no_runtimes)(rt_next no_runtimes := [''s3://open-lakehouse/'' \<mapsto> ''seaweedfs:open-lakehouse'']),
        rt_next = Suc (rt_next no_runtimes)\<rparr>)"
    using new_session1 [of "''alice''" None no_runtimes] by (simp add: parts1 engine1_def no_runtimes_def)
  have ref: "nonempty (po_oci_ref (hf_policy governed0)) = Some ''registry/policy''"
    by (simp add: governed0_def nonempty_def)
  from started_server_gates [OF start_governed0 ref made run] have "r = Inl ''denied'' \<and> log' = []"
    by (auto simp: main0_def plans0_def)
  with run show ?thesis by blast
qed

section \<open>Whose credentials\<close>

text \<open>
  C10. Credentials stay in their session: whatever sessions are created and whatever they resolve, before and after,
  the object stores a session's queries can reach are the shared storage bucket and what its own resolutions were
  vended, with the factory of its own catalog token when it has one. The other sessions, of the same principal or
  of others, add nothing and take nothing away.
\<close>

theorem stores_stay_in_session:
  assumes "w = runtime_run ep io provider e vend earlier (no_sessions n stores)"
    and "engine_new_session ep io provider now uuid who tok e (ew_runtimes w) = (Inr es, rts)"
    and "w' = runtime_run ep io provider e vend (earlier @ Op_New_Session now uuid who tok # later) (no_sessions n stores)"
  shows "\<exists>fac store. unity_factory_for tok e = Inr fac \<and> seaweed_store io = Inr store \<and>
    rt_stores (ew_runtimes w') (cx_runtime (es_ctx es)) =
      (case fac of
         None \<Rightarrow> [''s3://open-lakehouse/'' \<mapsto> store]
       | Some f \<Rightarrow> fold (vend f) (own_refs (length (ew_sessions w)) later) [''s3://open-lakehouse/'' \<mapsto> store])"
proof -
  have "world_ok w" unfolding assms(1) by (rule runtime_run_ok) simp
  moreover have "w' = runtime_run ep io provider e vend (Op_New_Session now uuid who tok # later) w"
    unfolding assms(1,3) by (simp add: runtime_run_def)
  ultimately show ?thesis using session_stores [OF _ assms(2), where vend = vend] by blast
qed

definition vend0 :: "string \<Rightarrow> string \<Rightarrow> (string \<rightharpoonup> string) \<Rightarrow> (string \<rightharpoonup> string)" where
  "vend0 factory table m = m(table \<mapsto> factory)"

theorem stores_stay_in_session_witness:
  "rt_stores (ew_runtimes (runtime_run parts1 session_io0 () engine1 vend0
       [Op_New_Session 5 ''c1'' ''alice'' (Some ''alice-token''), Op_Resolve 0 ''s3://t1/'',
        Op_New_Session 5 ''c1'' ''bob'' None, Op_Resolve 0 ''s3://t2/'', Op_Resolve 1 ''s3://t3/'']
       (no_sessions 0 (\<lambda>_. Map.empty)))) 1
     = [''s3://open-lakehouse/'' \<mapsto> ''seaweedfs:open-lakehouse'', ''s3://t3/'' \<mapsto> ''server-token'']"
proof -
  let ?before = "[Op_New_Session 5 ''c1'' ''alice'' (Some ''alice-token''), Op_Resolve 0 ''s3://t1/'']"
  define w where "w = runtime_run parts1 session_io0 () engine1 vend0 ?before (no_sessions 0 (\<lambda>_. Map.empty))"
  have w: "rt_next (ew_runtimes w) = 1" "length (ew_sessions w) = 1"
    by (simp_all add: w_def runtime_run_def no_sessions_def new_session1 session_made_def build_unity_resolver_def
        resolve_on_def Let_def)
  obtain es rts where made: "engine_new_session parts1 session_io0 () 5 ''c1'' ''bob'' None engine1 (ew_runtimes w) = (Inr es, rts)"
    and rt: "cx_runtime (es_ctx es) = 1"
    using new_session1 [of "''bob''" None "ew_runtimes w"] w(1) by (simp add: session_made_def Let_def)
  from stores_stay_in_session [OF w_def made refl, of "[Op_Resolve 0 ''s3://t2/'', Op_Resolve 1 ''s3://t3/'']"] rt w(2)
  show ?thesis by (simp add: vend0_def fun_upd_twist)
qed


section \<open>Updates\<close>

text \<open>
  C20. An update runs on the engine's own session: its plan goes through the policy twice, the second time on what the
  first made of it, both times without the agent of the request and without the taint ledger, and its lineage starts
  from the empty context, so nothing of the request (its run, its parent run, its job name, its SQL) is on its
  events; the same session's queries carry the request's context.
\<close>

theorem update_loses_lineage:
  assumes "engine_new_session ep io provider now uuid who tok e rts = (Inr es, rts')" and "ep_lineage ep = Some client"
    and "run_update pc plan_in verify es lineage agent sql log = (Inr x, log')"
  shows "\<exists>fac plan governed optimized again final planned.
    unity_factory_for tok e = Inr fac \<and>
    plan_in (lakehouse_for_query es lineage agent) sql = Inr plan \<and>
    pc_authorize pc (ep_policy ep) plan who (pc_eval_context pc (session_config_for (Some who) fac (ep_policy ep))) = Inr governed \<and>
    pc_optimize pc governed = Inr optimized \<and>
    pc_authorize pc (ep_policy ep) optimized who (pc_eval_context pc (session_config_for (Some who) fac (ep_policy ep))) = Inr again \<and>
    pc_optimize pc again = Inr final \<and>
    log' = log @ snd (pc_begin pc client default_lineage_context (ep_lineage_config ep) final) @ planned \<and>
    (\<forall>q y log2. lakehouse_physical_plan pc (lakehouse_for_query es lineage agent) q log = (Inr y, log2) \<longrightarrow>
       (\<exists>final planned. log2 = log @ snd (pc_begin pc client lineage (ep_lineage_config ep) final) @ planned))"
proof -
  from assms(1) obtain fac store where fac: "unity_factory_for tok e = Inr fac"
    and es: "es = session_made ep provider now uuid who fac (rt_next rts)"
    by (rule engine_new_session_Inr)
  from update_gated_twice [OF es assms(2,3)] fac query_lineage_kept [OF es assms(2), of pc lineage agent]
  show ?thesis by blast
qed

theorem update_loses_lineage_witness:
  "\<exists>x log'. run_update plans0 (\<lambda>lh sql. Inr (Plan sql [])) (\<lambda>p. Inr ())
       (session_made parts1 () 5 ''c1'' ''alice'' (Some ''server-token'') 0)
       (default_lineage_context\<lparr>lc_run_id := Some ''run-7''\<rparr>) None ''INSERT'' [] = (Inr x, log')
     \<and> hd log' = (Event_Start, ''none'')"
proof -
  let ?es = "session_made parts1 () 5 ''c1'' ''alice'' (Some ''server-token'') 0"
  let ?run = "run_update plans0 (\<lambda>lh sql. Inr (Plan sql [])) (\<lambda>p. Inr ()) ?es
       (default_lineage_context\<lparr>lc_run_id := Some ''run-7''\<rparr>) None ''INSERT'' []"
  have made: "engine_new_session parts1 session_io0 () 5 ''c1'' ''alice'' None engine1 no_runtimes =
      (Inr ?es, \<lparr>rt_stores = (rt_stores no_runtimes)(rt_next no_runtimes := [''s3://open-lakehouse/'' \<mapsto> ''seaweedfs:open-lakehouse'']),
        rt_next = Suc (rt_next no_runtimes)\<rparr>)"
    using new_session1 [of "''alice''" None no_runtimes] by (simp add: no_runtimes_def)
  obtain x log' where run: "?run = (Inr x, log')"
    by (simp add: run_update_def lakehouse_ctx_execute_def engine_session_ctx_def authorize_logical_plan_def
        state_physical_plan_def create_physical_plan_def session_planner_def plans0_def session_made_def parts1_def
        new_governed_planner_def Let_def)
  have "ep_lineage parts1 = Some Noop_Client" by (simp add: parts1_def)
  from update_loses_lineage [OF made this run] have "hd log' = (Event_Start, ''none'')"
    by (auto simp: plans0_def default_lineage_context_def)
  with run show ?thesis by blast
qed

section \<open>Configuration\<close>

text \<open>
  The configuration is read from the file that is named (by the argument, else by \<^verbatim>\<open>HYDROFOIL_CONFIG\<close>), which
  must then exist, and from the environment. The environment's secrets fill only what the file and the \<^verbatim>\<open>HYDROFOIL__*\<close> layer leave unset, and change
  nothing else; a token that is set to the empty text counts as set there and as absent when the catalog is wired,
  so the secret of the environment is not used.
\<close>

theorem secrets_fill_gaps:
  assumes "hydrofoil_load build env env_os path = Inr cfg"
  shows "\<exists>raw.
    build ((case or_else path (env_os CONFIG_PATH_ENV) of Some p \<Rightarrow> [File_Source p True] | None \<Rightarrow> [])
             @ [Environment_Source ''HYDROFOIL'' ''__'' True]) = Inr raw \<and>
    lg_api_key (hf_lineage cfg) = or_else (lg_api_key (hf_lineage raw)) (nonempty (env ''OPENLINEAGE_API_KEY'')) \<and>
    un_token (hf_unity cfg) = or_else (un_token (hf_unity raw)) (nonempty (env ''UC_TOKEN'')) \<and>
    un_region (hf_unity cfg) = or_else (un_region (hf_unity raw)) (nonempty (env ''AWS_REGION'')) \<and>
    hf_policy cfg = hf_policy raw \<and> un_endpoint (hf_unity cfg) = un_endpoint (hf_unity raw) \<and>
    (un_token (hf_unity raw) = Some [] \<longrightarrow> nonempty (un_token (hf_unity cfg)) = None)"
proof -
  from assms obtain raw where
    "build ((case or_else path (env_os CONFIG_PATH_ENV) of Some p \<Rightarrow> [File_Source p True] | None \<Rightarrow> [])
             @ [Environment_Source ''HYDROFOIL'' ''__'' True]) = Inr raw" "cfg = overlay_secrets env raw"
    by (auto simp: hydrofoil_load_def or_else_def Let_def map_ok_Inr_iff)
  then show ?thesis
    by (intro exI [of _ raw])
      (auto simp: overlay_secrets_fields overlay_secrets_rest get_or_insert_def or_else_def nonempty_def
        option_filter_def split: option.splits)
qed

theorem secrets_fill_gaps_witness:
  "\<exists>cfg. hydrofoil_load (\<lambda>ss. Inr (governed0\<lparr>hf_unity := (hf_unity governed0)\<lparr>un_token := Some []\<rparr>\<rparr>))
       [''UC_TOKEN'' \<mapsto> ''secret''] Map.empty None = Inr cfg \<and> nonempty (un_token (hf_unity cfg)) = None"
proof -
  obtain cfg where load: "hydrofoil_load (\<lambda>ss. Inr (governed0\<lparr>hf_unity := (hf_unity governed0)\<lparr>un_token := Some []\<rparr>\<rparr>))
       [''UC_TOKEN'' \<mapsto> ''secret''] Map.empty None = Inr cfg"
    by (simp add: hydrofoil_load_def Let_def)
  from secrets_fill_gaps [OF load] have "nonempty (un_token (hf_unity cfg)) = None" by auto
  with load show ?thesis by blast
qed

section \<open>Two hosts\<close>





section \<open>The session's own schema\<close>

text \<open>
  C35. The schema of a session's own tables is its fallback, less the Delta tables: after any run of registrations
  it holds exactly the tables that are not Delta's and whose registration succeeded, by name and by listing. A Delta
  table is accepted, and is neither held nor listed afterwards.
\<close>

theorem delta_registration_lost:
  assumes "memory_schema_ok ms tabs" and "register_all ms dt ts (new_schema_provider ms) = (replies, sp)"
  shows "(\<forall>name. schema_table ms dt sp name = Inr (registered (dt_is_delta dt) ts replies Map.empty name)) \<and>
    (\<forall>name. schema_table_exist ms sp name \<longleftrightarrow> registered (dt_is_delta dt) ts replies Map.empty name \<noteq> None) \<and>
    set (schema_table_names ms sp) = dom (registered (dt_is_delta dt) ts replies Map.empty) \<and>
    (\<forall>name table. dt_is_delta dt table \<longrightarrow> schema_register_table ms dt name table sp = (Inr None, sp))"
proof -
  have "tabs (ms_new ms) = Map.empty" using assms(1) by (simp add: memory_schema_ok_def)
  with register_all_fallback [OF assms]
  have sp: "lp_tables sp = []" "tabs (lp_fallback sp) = registered (dt_is_delta dt) ts replies Map.empty"
    by (simp_all add: new_schema_provider_def)
  from schema_of_fallback [OF assms(1) sp(1)] sp(2) show ?thesis by (simp add: schema_register_table_def)
qed

definition memory0 :: "((string \<times> string) list, string) memory_schema" where
  "memory0 =
     \<lparr>ms_new = [], ms_names = map fst, ms_table = \<lambda>s n. Inr (map_of s n),
      ms_register = \<lambda>n t s. (if map_of s n = None then (Inr None, (n, t) # s) else (Inl ''exists'', s)),
      ms_exist = \<lambda>s n. map_of s n \<noteq> None\<rparr>"

lemma memory0_ok: "memory_schema_ok memory0 map_of"
  by (auto simp: memory_schema_ok_def memory0_def dom_map_of_conv_image_fst)

definition delta0 :: "(string, string) delta_tables" where
  "delta0 = \<lparr>dt_is_delta = \<lambda>t. t = ''delta'', dt_update = Inr, dt_scan = Inr\<rparr>"

theorem delta_registration_lost_witness:
  "schema_table_exist memory0
     (snd (register_all memory0 delta0 [(''a'', ''mem''), (''b'', ''delta'')] (new_schema_provider memory0))) ''b'' = False"
proof -
  obtain replies sp where run: "register_all memory0 delta0 [(''a'', ''mem''), (''b'', ''delta'')] (new_schema_provider memory0)
      = (replies, sp)" by fastforce
  then have "replies = [Inr None, Inr None]"
    by (auto simp: schema_register_table_def delta0_def memory0_def new_schema_provider_def)
  with delta_registration_lost [OF memory0_ok run] run show ?thesis by (simp add: delta0_def)
qed

section \<open>Metadata commands\<close>

text \<open>
  Every metadata command is answered with a ticket and the schema of its result, to anyone. The tickets for the
  server's own information and its types are redeemed for a stream of that schema; those for catalogs, schemas and
  tables are refused with the default of a method the service does not have.
\<close>

theorem metadata_tickets:
  assumes "fm_command fm (fm_ticket fm c) = Some c" and "get_flight_info fm c descriptor = Inr info"
  shows "\<exists>ticket. fi_tickets info = [ticket] \<and> fm_encode_schema fm (command_schema fm c) = Inr (fi_schema info) \<and>
    (if served c then \<exists>item. redeem_ticket fm ticket url = Inr (command_schema fm c, [item])
     else \<exists>method. redeem_ticket fm ticket url = Inl (fm_default fm method))"
proof -
  from get_flight_info_Inr [OF assms(2)] have info: "fi_tickets info = [fm_ticket fm c]"
    "fm_encode_schema fm (command_schema fm c) = Inr (fi_schema info)" by simp_all
  have redeem: "redeem_ticket fm (fm_ticket fm c) url = do_get_metadata fm c"
    using assms(1) by (simp add: redeem_ticket_def)
  show ?thesis
  proof (cases "served c")
    case True
    from do_get_metadata_served [OF this, of fm] True info redeem show ?thesis by auto
  next
    case False
    then have "\<exists>m. do_get_metadata fm c = Inl (fm_default fm m)" by (cases c) auto
    with False info redeem show ?thesis by auto
  qed
qed

definition protocol0 :: "(unit, string) flight_protocol" where
  "protocol0 =
     \<lparr>fm_ticket = \<lambda>c. (case c of CommandGetTables _ \<Rightarrow> [1] | _ \<Rightarrow> [2]),
      fm_command = \<lambda>b. (if b = [1] then Some (CommandGetTables ()) else None),
      fm_plain_schema = \<lambda>c. \<lparr>sc_fields = [], sc_metadata = []\<rparr>,
      fm_sql_schema = \<lambda>q d. \<lparr>sc_fields = [], sc_metadata = []\<rparr>, fm_sql_batch = \<lambda>q d. Inr [],
      fm_xdbc_schema = \<lambda>q d. \<lparr>sc_fields = [], sc_metadata = []\<rparr>, fm_xdbc_batch = \<lambda>q d. Inr [],
      fm_encode_schema = \<lambda>s. Inr [9], fm_default = Status_unimplemented\<rparr>"

theorem metadata_tickets_witness:
  "\<exists>info method. get_flight_info protocol0 (CommandGetTables ()) () = Inr info \<and>
     redeem_ticket protocol0 (hd (fi_tickets info)) [] = Inl (Status_unimplemented method)"
proof -
  obtain info where info: "get_flight_info protocol0 (CommandGetTables ()) () = Inr info"
    by (simp add: get_flight_info_tables_def metadata_info_def protocol0_def)
  have "fm_command protocol0 (fm_ticket protocol0 (CommandGetTables ())) = Some (CommandGetTables ())"
    by (simp add: protocol0_def)
  from metadata_tickets [OF this info, of "[]"] show ?thesis
    using info by (auto simp: protocol0_def)
qed

end
