(* ===== verification/Connect_Types.thy ===== *)
theory Connect_Types
  imports Catalog_Tags
begin

text \<open>
  \<^verbatim>\<open>crates/common/src/conversion.rs\<close>: the types of Spark Connect messages, in which a client describes the columns of
  a table, and Arrow's, in which the server plans it. The messages are records of their fields, with a missing
  sub-message as \<^verbatim>\<open>None\<close>; a \<^verbatim>\<open>u32\<close> or \<^verbatim>\<open>i32\<close> is a 32-bit word. An Arrow field is known by its name, type and
  nullability; \<open>show\<close> is the text of a type, \<open>show_kind\<close> that of a kind, in messages.
\<close>

section \<open>Arrow types\<close>

datatype time_unit = Unit_Second | Unit_Millisecond | Unit_Microsecond | Unit_Nanosecond

datatype data_type =
    AT_Boolean | AT_Int8 | AT_Int16 | AT_Int32 | AT_Int64 | AT_Float32 | AT_Float64
  | AT_Utf8 | AT_LargeUtf8 | AT_Utf8View | AT_Binary | AT_LargeBinary | AT_BinaryView
  | AT_Timestamp time_unit "string option" | AT_Date32 | AT_Decimal128 "8 word" "8 word"
  | AT_Struct "data_field list" | AT_List data_field | AT_Map data_field bool | AT_Other string
and data_field = Data_Field (df_name: string) (df_type: data_type) (df_nullable: bool)

datatype arrow_error = InvalidArgumentError string | NotYetImplemented string

section \<open>Connect types\<close>

text \<open>
  \<^verbatim>\<open>data_type::Kind\<close>; the word is \<^verbatim>\<open>type_variation_reference\<close>. A sub-message is missing, or has no kind, or has one.
\<close>

datatype connect_kind =
    CK_Binary "32 word" | CK_Boolean "32 word" | CK_Byte "32 word" | CK_Short "32 word" | CK_Integer "32 word"
  | CK_Long "32 word" | CK_Float "32 word" | CK_Double "32 word" | CK_String "32 word" string
  | CK_Decimal (ck_scale: "32 word option") (ck_precision: "32 word option") "32 word"
  | CK_Date "32 word" | CK_Timestamp "32 word" | CK_Timestamp_Ntz "32 word"
  | CK_Struct "connect_field list" "32 word"
  | CK_Array connect_type bool "32 word"
  | CK_Map connect_type connect_type bool "32 word"
  | CK_Other string
and connect_type = Type_Missing | Kind_Missing | Kind connect_kind
and connect_field = Connect_Field string connect_type bool "string option"

record connect_column =
  dc_name :: string
  dc_data_type :: connect_type
  dc_nullable :: bool
  dc_generated_always_as :: "string option"
  dc_comment :: "string option"
  dc_identity_info :: "(64 word \<times> 64 word \<times> bool) option"

section \<open>Options\<close>

record conversion_options =
  co_string_variant :: data_type
  co_binary_variant :: data_type

definition new_conversion_options :: conversion_options where
  "new_conversion_options = \<lparr>co_string_variant = AT_Utf8View, co_binary_variant = AT_BinaryView\<rparr>"

definition with_string_variant ::
  "(data_type \<Rightarrow> string) \<Rightarrow> data_type \<Rightarrow> conversion_options \<Rightarrow> arrow_error + conversion_options" where
  "with_string_variant show t co =
     (if t \<in> {AT_Utf8, AT_LargeUtf8, AT_Utf8View} then Inr (co\<lparr>co_string_variant := t\<rparr>)
      else Inl (InvalidArgumentError (''Expected valid string type variant, got: '' @ show t)))"

definition with_binary_variant ::
  "(data_type \<Rightarrow> string) \<Rightarrow> data_type \<Rightarrow> conversion_options \<Rightarrow> arrow_error + conversion_options" where
  "with_binary_variant show t co =
     (if t \<in> {AT_Binary, AT_LargeBinary, AT_BinaryView} then Inr (co\<lparr>co_binary_variant := t\<rparr>)
      else Inl (InvalidArgumentError (''Expected valid binary type variant, got: '' @ show t)))"

text \<open>\<^verbatim>\<open>with_use_view_types\<close>, whose two \<^verbatim>\<open>expect\<close>s always hold.\<close>

definition with_use_view_types :: "(data_type \<Rightarrow> string) \<Rightarrow> conversion_options \<Rightarrow> arrow_error + conversion_options" where
  "with_use_view_types show co =
     try_bind (with_string_variant show AT_Utf8View co) (with_binary_variant show AT_BinaryView)"

section \<open>From Connect to Arrow\<close>

definition i32_to_u8 :: "32 word \<Rightarrow> 8 word" where
  "i32_to_u8 w = ucast w"

definition u8_to_i32 :: "8 word \<Rightarrow> 32 word" where
  "u8_to_i32 w = ucast w"

definition i8_to_i32 :: "8 word \<Rightarrow> 32 word" where
  "i8_to_i32 w = scast w"

text \<open>\<open>kind_of missing t\<close> is \<^verbatim>\<open>t.and_then(|dt| dt.kind)\<close> with the message for its absence.\<close>

fun data_type_to_arrow :: "(connect_kind \<Rightarrow> string) \<Rightarrow> conversion_options \<Rightarrow> connect_kind \<Rightarrow> arrow_error + data_type"
  and connect_type_to_arrow ::
    "(connect_kind \<Rightarrow> string) \<Rightarrow> conversion_options \<Rightarrow> string \<Rightarrow> connect_type \<Rightarrow> arrow_error + data_type"
  and struct_field_to_arrow ::
    "(connect_kind \<Rightarrow> string) \<Rightarrow> conversion_options \<Rightarrow> connect_field \<Rightarrow> arrow_error + data_field"
  and struct_fields_to_arrow ::
    "(connect_kind \<Rightarrow> string) \<Rightarrow> conversion_options \<Rightarrow> connect_field list \<Rightarrow> arrow_error + data_field list" where
  "data_type_to_arrow sh co (CK_Binary v) = Inr (co_binary_variant co)"
| "data_type_to_arrow sh co (CK_Boolean v) = Inr AT_Boolean"
| "data_type_to_arrow sh co (CK_Byte v) = Inr AT_Int8"
| "data_type_to_arrow sh co (CK_Short v) = Inr AT_Int16"
| "data_type_to_arrow sh co (CK_Integer v) = Inr AT_Int32"
| "data_type_to_arrow sh co (CK_Long v) = Inr AT_Int64"
| "data_type_to_arrow sh co (CK_Float v) = Inr AT_Float32"
| "data_type_to_arrow sh co (CK_Double v) = Inr AT_Float64"
| "data_type_to_arrow sh co (CK_String v c) = Inr (co_string_variant co)"
| "data_type_to_arrow sh co (CK_Timestamp v) = Inr (AT_Timestamp Unit_Microsecond (Some ''UTC''))"
| "data_type_to_arrow sh co (CK_Timestamp_Ntz v) = Inr (AT_Timestamp Unit_Microsecond None)"
| "data_type_to_arrow sh co (CK_Date v) = Inr AT_Date32"
| "data_type_to_arrow sh co (CK_Struct fs v) = map_ok AT_Struct (struct_fields_to_arrow sh co fs)"
| "data_type_to_arrow sh co (CK_Array t contains_null v) =
     map_ok (\<lambda>e. AT_List (Data_Field ''item'' e contains_null))
       (connect_type_to_arrow sh co ''Array element data type is missing'' t)"
| "data_type_to_arrow sh co (CK_Map k t value_contains_null v) =
     try_bind (connect_type_to_arrow sh co ''Map key data type is missing'' k) (\<lambda>key.
       map_ok (\<lambda>val. AT_Map (Data_Field ''key_value''
           (AT_Struct [Data_Field ''key'' key False, Data_Field ''value'' val value_contains_null]) False) False)
         (connect_type_to_arrow sh co ''Map value data type is missing'' t))"
| "data_type_to_arrow sh co (CK_Decimal scale precision v) =
     Inr (AT_Decimal128 (i32_to_u8 (unwrap_or 38 precision)) (i32_to_u8 (unwrap_or 18 scale)))"
| "data_type_to_arrow sh co (CK_Other d) =
     Inl (NotYetImplemented (''Data type conversion not implemented for: '' @ sh (CK_Other d)))"
| "connect_type_to_arrow sh co missing Type_Missing = Inl (InvalidArgumentError missing)"
| "connect_type_to_arrow sh co missing Kind_Missing = Inl (InvalidArgumentError missing)"
| "connect_type_to_arrow sh co missing (Kind k) = data_type_to_arrow sh co k"
| "struct_field_to_arrow sh co (Connect_Field name t nullable metadata) =
     map_ok (\<lambda>d. Data_Field name d nullable) (connect_type_to_arrow sh co ''Struct field data type is missing'' t)"
| "struct_fields_to_arrow sh co [] = Inr []"
| "struct_fields_to_arrow sh co (f # fs) =
     try_bind (struct_field_to_arrow sh co f) (\<lambda>x. map_ok (Cons x) (struct_fields_to_arrow sh co fs))"

definition column_to_arrow ::
  "(connect_kind \<Rightarrow> string) \<Rightarrow> conversion_options \<Rightarrow> connect_column \<Rightarrow> arrow_error + data_field" where
  "column_to_arrow sh co column =
     map_ok (\<lambda>d. Data_Field (dc_name column) d (dc_nullable column))
       (connect_type_to_arrow sh co ''Column data type is missing'' (dc_data_type column))"

section \<open>From Arrow to Connect\<close>

fun data_type_to_connect :: "(data_type \<Rightarrow> string) \<Rightarrow> data_type \<Rightarrow> arrow_error + connect_kind" where
  "data_type_to_connect show t =
     (let refused = Inl (NotYetImplemented (''Data type conversion not implemented for: '' @ show t)) in
      case t of
        AT_Boolean \<Rightarrow> Inr (CK_Boolean 0)
      | AT_Int8 \<Rightarrow> Inr (CK_Byte 0)
      | AT_Int16 \<Rightarrow> Inr (CK_Short 0)
      | AT_Int32 \<Rightarrow> Inr (CK_Integer 0)
      | AT_Int64 \<Rightarrow> Inr (CK_Long 0)
      | AT_Float32 \<Rightarrow> Inr (CK_Float 0)
      | AT_Float64 \<Rightarrow> Inr (CK_Double 0)
      | AT_Utf8 \<Rightarrow> Inr (CK_String 0 [])
      | AT_LargeUtf8 \<Rightarrow> Inr (CK_String 0 [])
      | AT_Utf8View \<Rightarrow> Inr (CK_String 0 [])
      | AT_Binary \<Rightarrow> Inr (CK_Binary 0)
      | AT_LargeBinary \<Rightarrow> Inr (CK_Binary 0)
      | AT_BinaryView \<Rightarrow> Inr (CK_Binary 0)
      | AT_Timestamp Unit_Microsecond (Some tz) \<Rightarrow>
          if eq_ignore_ascii_case tz ''utc'' \<or> tz = ''*00:00'' then Inr (CK_Timestamp 0) else refused
      | AT_Timestamp Unit_Microsecond None \<Rightarrow> Inr (CK_Timestamp_Ntz 0)
      | AT_Date32 \<Rightarrow> Inr (CK_Date 0)
      | AT_Decimal128 p s \<Rightarrow> Inr (CK_Decimal (Some (i8_to_i32 s)) (Some (u8_to_i32 p)) 0)
      | _ \<Rightarrow> refused)"

declare data_type_to_connect.simps [simp del]

definition field_to_connect :: "(data_type \<Rightarrow> string) \<Rightarrow> data_field \<Rightarrow> arrow_error + connect_column" where
  "field_to_connect show f =
     map_ok (\<lambda>k. \<lparr>dc_name = df_name f, dc_data_type = Kind k, dc_nullable = df_nullable f,
                   dc_generated_always_as = None, dc_comment = None, dc_identity_info = None\<rparr>)
       (data_type_to_connect show (df_type f))"

end
