(* ===== verification/Client_Commands.thy ===== *)
theory Client_Commands
  imports Connect_Types Ingest
begin

text \<open>
  \<^verbatim>\<open>crates/client\<close>: the client's builders for a Delta table and for an ingest, up to the message that is sent, and what
  becomes of the reply. The Flight SQL client of the \<^verbatim>\<open>arrow-flight\<close> crate and the encoding of messages are
  parameters; the connection a builder carries is left out of it.
\<close>

section \<open>Errors\<close>

text \<open>\<^verbatim>\<open>FlightError\<close> as the client builds it; \<^verbatim>\<open>unwrap\<close> of a missing part is a panic.\<close>

datatype 'e client_error = Client_Flight 'e | Client_Ipc string | Client_Panic

section \<open>Creating a Delta table\<close>

record create_delta_builder =
  bd_message :: "connect_column create_delta_table"

text \<open>\<^verbatim>\<open>CreateDeltaTable::default()\<close>: every field of the message empty, an optional one missing.\<close>

definition default_create_delta_table :: "connect_column create_delta_table" where
  "default_create_delta_table =
     \<lparr>cd_table_name = [], cd_location = None, cd_comment = None, cd_columns = [], cd_partitioning_columns = [],
      cd_mode = Mode_Unspecified, cd_properties = [], cd_clustering_columns = []\<rparr>"

definition new_create_delta_builder :: create_delta_builder where
  "new_create_delta_builder = \<lparr>bd_message = default_create_delta_table\<lparr>cd_mode := Create_Only\<rparr>\<rparr>"

definition with_mode :: "delta_mode \<Rightarrow> create_delta_builder \<Rightarrow> create_delta_builder" where
  "with_mode mode b = b\<lparr>bd_message := (bd_message b)\<lparr>cd_mode := mode\<rparr>\<rparr>"

definition with_location :: "string \<Rightarrow> create_delta_builder \<Rightarrow> create_delta_builder" where
  "with_location path b = b\<lparr>bd_message := (bd_message b)\<lparr>cd_location := Some path\<rparr>\<rparr>"

definition with_table_name :: "string \<Rightarrow> create_delta_builder \<Rightarrow> create_delta_builder" where
  "with_table_name name b = b\<lparr>bd_message := (bd_message b)\<lparr>cd_table_name := name\<rparr>\<rparr>"

definition with_comment :: "string \<Rightarrow> create_delta_builder \<Rightarrow> create_delta_builder" where
  "with_comment comment b = b\<lparr>bd_message := (bd_message b)\<lparr>cd_comment := Some comment\<rparr>\<rparr>"

definition with_partition_columns :: "string list \<Rightarrow> create_delta_builder \<Rightarrow> create_delta_builder" where
  "with_partition_columns columns b = b\<lparr>bd_message := (bd_message b)\<lparr>cd_partitioning_columns := columns\<rparr>\<rparr>"

definition with_clustering_columns :: "string list \<Rightarrow> create_delta_builder \<Rightarrow> create_delta_builder" where
  "with_clustering_columns columns b = b\<lparr>bd_message := (bd_message b)\<lparr>cd_clustering_columns := columns\<rparr>\<rparr>"

definition with_columns ::
  "(data_type \<Rightarrow> string) \<Rightarrow> data_field list \<Rightarrow> create_delta_builder \<Rightarrow> arrow_error + create_delta_builder" where
  "with_columns show fs b =
     map_ok (\<lambda>columns. b\<lparr>bd_message := (bd_message b)\<lparr>cd_columns := columns\<rparr>\<rparr>)
       (collect_results (field_to_connect show) fs)"

definition with_schema ::
  "(data_type \<Rightarrow> string) \<Rightarrow> data_field list \<Rightarrow> create_delta_builder \<Rightarrow> arrow_error + create_delta_builder" where
  "with_schema show fs b =
     map_ok (\<lambda>columns. b\<lparr>bd_message := (bd_message b)\<lparr>cd_columns := columns\<rparr>\<rparr>)
       (collect_results (field_to_connect show) fs)"

text \<open>
  Awaiting the builder: \<open>encode\<close> makes the descriptor of the command, \<open>do_put\<close> answers with the messages of the
  reply, each one or the status that broke it, and \<open>decode\<close> reads an update result.
\<close>

definition send_create_delta ::
  "(connect_column delta_command \<Rightarrow> bytes) \<Rightarrow> (bytes \<Rightarrow> 'e + ('st + bytes) list) \<Rightarrow> ('st \<Rightarrow> string)
    \<Rightarrow> (bytes \<Rightarrow> string + int) \<Rightarrow> create_delta_builder \<Rightarrow> 'e client_error + unit" where
  "send_create_delta encode do_put status_debug decode b =
     (case do_put (encode (Create_Delta_Table (bd_message b))) of
        Inl e \<Rightarrow> Inl (Client_Flight e)
      | Inr [] \<Rightarrow> Inl Client_Panic
      | Inr (Inl status # _) \<Rightarrow> Inl (Client_Ipc (status_debug status))
      | Inr (Inr metadata # _) \<Rightarrow> map_err Client_Ipc (map_ok (\<lambda>_. ()) (decode metadata)))"

section \<open>Ingest\<close>

datatype exists_option = Exists_Unspecified | Exists_Fail | Exists_Append | Exists_Replace
datatype not_exist_option = Not_Exist_Unspecified | Not_Exist_Create | Not_Exist_Fail

record table_definition_options =
  to_if_not_exist :: not_exist_option
  to_if_exists :: exists_option

record command_statement_ingest =
  ci_table_definition_options :: "table_definition_options option"
  ci_table :: string
  ci_schema :: "string option"
  ci_catalog :: "string option"
  ci_transaction_id :: "bytes option"

definition default_ingest :: command_statement_ingest where
  "default_ingest = \<lparr>ci_table_definition_options = None, ci_table = [], ci_schema = None, ci_catalog = None,
     ci_transaction_id = None\<rparr>"

record 'ws ingest_builder =
  ib_stream :: 'ws
  ib_message :: command_statement_ingest

definition new_ingest_builder :: "'ws \<Rightarrow> 'ws ingest_builder" where
  "new_ingest_builder stream = \<lparr>ib_stream = stream, ib_message = default_ingest\<rparr>"

definition ib_with_table_name :: "string \<Rightarrow> 'ws ingest_builder \<Rightarrow> 'ws ingest_builder" where
  "ib_with_table_name name b = b\<lparr>ib_message := (ib_message b)\<lparr>ci_table := name\<rparr>\<rparr>"

definition ib_with_schema_name :: "string \<Rightarrow> 'ws ingest_builder \<Rightarrow> 'ws ingest_builder" where
  "ib_with_schema_name name b = b\<lparr>ib_message := (ib_message b)\<lparr>ci_schema := Some name\<rparr>\<rparr>"

definition ib_with_catalog_name :: "string \<Rightarrow> 'ws ingest_builder \<Rightarrow> 'ws ingest_builder" where
  "ib_with_catalog_name name b = b\<lparr>ib_message := (ib_message b)\<lparr>ci_catalog := Some name\<rparr>\<rparr>"

definition ib_with_transaction_id :: "bytes \<Rightarrow> 'ws ingest_builder \<Rightarrow> 'ws ingest_builder" where
  "ib_with_transaction_id tx b = b\<lparr>ib_message := (ib_message b)\<lparr>ci_transaction_id := Some tx\<rparr>\<rparr>"

definition ib_with_if_exists :: "exists_option \<Rightarrow> 'ws ingest_builder \<Rightarrow> 'ws ingest_builder" where
  "ib_with_if_exists if_exists b =
     b\<lparr>ib_message := (ib_message b)\<lparr>ci_table_definition_options :=
       Some (case ci_table_definition_options (ib_message b) of
               Some options \<Rightarrow> options\<lparr>to_if_exists := if_exists\<rparr>
             | None \<Rightarrow> \<lparr>to_if_not_exist = Not_Exist_Unspecified, to_if_exists = if_exists\<rparr>)\<rparr>\<rparr>"

definition ib_with_if_not_exist :: "not_exist_option \<Rightarrow> 'ws ingest_builder \<Rightarrow> 'ws ingest_builder" where
  "ib_with_if_not_exist if_not_exist b =
     b\<lparr>ib_message := (ib_message b)\<lparr>ci_table_definition_options :=
       Some (case ci_table_definition_options (ib_message b) of
               Some options \<Rightarrow> options\<lparr>to_if_not_exist := if_not_exist\<rparr>
             | None \<Rightarrow> \<lparr>to_if_not_exist = if_not_exist, to_if_exists = Exists_Unspecified\<rparr>)\<rparr>\<rparr>"

text \<open>Awaiting an ingest hands the message and the stream to the Flight client.\<close>

definition send_ingest ::
  "(command_statement_ingest \<Rightarrow> 'ws \<Rightarrow> 'e + int) \<Rightarrow> 'ws ingest_builder \<Rightarrow> 'e + int" where
  "send_ingest execute_ingest b = execute_ingest (ib_message b) (ib_stream b)"

text \<open>\<^verbatim>\<open>TableReference::schema\<close> and \<^verbatim>\<open>TableReference::catalog\<close>.\<close>

definition ref_schema :: "table_reference \<Rightarrow> string option" where
  "ref_schema r = (case r of Bare t \<Rightarrow> None | Partial s t \<Rightarrow> Some s | Full c s t \<Rightarrow> Some s)"

definition ref_catalog :: "table_reference \<Rightarrow> string option" where
  "ref_catalog r = (case r of Full c s t \<Rightarrow> Some c | _ \<Rightarrow> None)"

definition client_ingest :: "table_reference \<Rightarrow> 'ws \<Rightarrow> 'ws ingest_builder" where
  "client_ingest table stream =
     (let builder = ib_with_table_name (ref_table table) (new_ingest_builder stream);
          builder = (case ref_schema table of Some s \<Rightarrow> ib_with_schema_name s builder | None \<Rightarrow> builder) in
      case ref_catalog table of Some c \<Rightarrow> ib_with_catalog_name c builder | None \<Rightarrow> builder)"

text \<open>What the server reads of the message (\<^verbatim>\<open>server.rs\<close>, \<^verbatim>\<open>do_put_statement_ingest\<close>); the rest it ignores.\<close>

definition ticket_of :: "command_statement_ingest \<Rightarrow> ingest_ticket" where
  "ticket_of m = \<lparr>it_catalog = ci_catalog m, it_schema = ci_schema m, it_table = ci_table m\<rparr>"

section \<open>Queries\<close>

text \<open>
  \<^verbatim>\<open>Client::execute\<close>: the ticket of the first endpoint of the answer is redeemed; without an endpoint, or with one
  that has no ticket, the client panics.
\<close>

definition client_execute ::
  "(string \<Rightarrow> bytes option \<Rightarrow> 'e + 'ticket option list) \<Rightarrow> ('ticket \<Rightarrow> 'e + 'stream)
    \<Rightarrow> string \<Rightarrow> bytes option \<Rightarrow> 'e client_error + 'stream" where
  "client_execute execute do_get query transaction_id =
     try_bind (map_err Client_Flight (execute query transaction_id)) (\<lambda>endpoints.
       case endpoints of
         Some ticket # _ \<Rightarrow> map_err Client_Flight (do_get ticket)
       | _ \<Rightarrow> Inl Client_Panic)"

end
