(* ===== verification/Client_Facts.thy ===== *)
theory Client_Facts
  imports Client_Commands
begin

text \<open>
  What becomes of a column's type between the client and the server: the types that can be sent, the type the server
  gives such a column, and the message a chain of builder calls makes.
\<close>

section \<open>Types on the wire\<close>

text \<open>A type the client can send, and the type the server reads from what was sent.\<close>

fun sendable :: "data_type \<Rightarrow> bool" where
  "sendable (AT_Timestamp Unit_Microsecond None) \<longleftrightarrow> True"
| "sendable (AT_Timestamp Unit_Microsecond (Some tz)) \<longleftrightarrow> eq_ignore_ascii_case tz ''utc'' \<or> tz = ''*00:00''"
| "sendable (AT_Timestamp _ _) \<longleftrightarrow> False"
| "sendable (AT_Struct _) \<longleftrightarrow> False"
| "sendable (AT_List _) \<longleftrightarrow> False"
| "sendable (AT_Map _ _) \<longleftrightarrow> False"
| "sendable (AT_Other _) \<longleftrightarrow> False"
| "sendable _ \<longleftrightarrow> True"

fun canonical :: "conversion_options \<Rightarrow> data_type \<Rightarrow> data_type" where
  "canonical co AT_Utf8 = co_string_variant co"
| "canonical co AT_LargeUtf8 = co_string_variant co"
| "canonical co AT_Utf8View = co_string_variant co"
| "canonical co AT_Binary = co_binary_variant co"
| "canonical co AT_LargeBinary = co_binary_variant co"
| "canonical co AT_BinaryView = co_binary_variant co"
| "canonical co (AT_Timestamp u (Some tz)) = AT_Timestamp u (Some ''UTC'')"
| "canonical co t = t"

definition canonical_field :: "conversion_options \<Rightarrow> data_field \<Rightarrow> data_field" where
  "canonical_field co f = Data_Field (df_name f) (canonical co (df_type f)) (df_nullable f)"

lemma narrow_widened [simp]: "i32_to_u8 (u8_to_i32 p) = p" "i32_to_u8 (i8_to_i32 s) = s"
proof -
  have seven: "n < 8 \<Longrightarrow> (if 7 \<le> n then 7 else n) = n" for n :: nat
    by simp
  show "i32_to_u8 (u8_to_i32 p) = p" "i32_to_u8 (i8_to_i32 s) = s"
    by (auto simp: i32_to_u8_def u8_to_i32_def i8_to_i32_def bit_simps min_def seven intro!: bit_word_eqI simp del: if_split)
qed

lemma send_receive:
  "sendable t \<Longrightarrow> \<exists>k. data_type_to_connect show t = Inr k \<and> data_type_to_arrow sh co k = Inr (canonical co t)"
  by (cases t rule: sendable.cases) (auto simp: data_type_to_connect.simps split: time_unit.splits)

lemma not_sendable: "\<not> sendable t \<Longrightarrow> data_type_to_connect show t =
    Inl (NotYetImplemented (''Data type conversion not implemented for: '' @ show t))"
  by (cases t rule: sendable.cases) (auto simp: data_type_to_connect.simps Let_def)

lemma utc_is_utc [simp]: "eq_ignore_ascii_case ''UTC'' ''utc''"
  by code_simp

lemma canonical_sendable: "sendable t \<Longrightarrow> co_string_variant co \<in> {AT_Utf8, AT_LargeUtf8, AT_Utf8View} \<Longrightarrow>
    co_binary_variant co \<in> {AT_Binary, AT_LargeBinary, AT_BinaryView} \<Longrightarrow>
    sendable (canonical co t) \<and> canonical co (canonical co t) = canonical co t"
  by (cases t rule: sendable.cases) auto

lemma field_to_connect_Inr_iff: "(\<exists>c. field_to_connect show f = Inr c) \<longleftrightarrow> sendable (df_type f)"
proof (cases "sendable (df_type f)")
  case True
  then obtain k where "data_type_to_connect show (df_type f) = Inr k"
    using send_receive [of "df_type f"] by blast
  with True show ?thesis by (simp add: field_to_connect_def)
next
  case False
  then show ?thesis by (simp add: field_to_connect_def not_sendable)
qed

lemma field_sent: "field_to_connect show f = Inr c \<Longrightarrow> column_to_arrow sh co c = Inr (canonical_field co f)"
  using send_receive [of "df_type f" "show" sh co] iffD1 [OF field_to_connect_Inr_iff, OF exI, of "show" f c]
  by (auto simp: field_to_connect_def column_to_arrow_def canonical_field_def map_ok_Inr_iff)

lemma collect_results_all:
  "(\<exists>ys. collect_results f xs = Inr ys) \<longleftrightarrow> (\<forall>x \<in> set xs. \<exists>y. f x = Inr y)"
  by (induction xs) (auto simp: try_bind_Inr_iff map_ok_Inr_iff)

lemma collect_results_mono:
  "collect_results f xs = Inr ys \<Longrightarrow> (\<And>x y. f x = Inr y \<Longrightarrow> g y = Inr (h x)) \<Longrightarrow> collect_results g ys = Inr (map h xs)"
  by (induction xs arbitrary: ys) (auto simp: try_bind_Inr_iff map_ok_Inr_iff)

lemma collect_map_err:
  "collect_results (\<lambda>c. map_err e (f c)) xs = Inr ys \<longleftrightarrow> collect_results f xs = Inr ys"
  by (induction xs arbitrary: ys) (auto simp: try_bind_Inr_iff map_ok_Inr_iff)

lemma new_options [simp]:
  "co_string_variant new_conversion_options = AT_Utf8View" "co_binary_variant new_conversion_options = AT_BinaryView"
  by (simp_all add: new_conversion_options_def)

text \<open>The canonical form of a field is sent as the field itself is.\<close>

lemma canonical_same_message:
  assumes "sendable (df_type f)"
  shows "field_to_connect show (canonical_field new_conversion_options f) = field_to_connect show f"
proof -
  have "data_type_to_connect show (canonical new_conversion_options t) = data_type_to_connect show t" if "sendable t" for t
    using that by (cases t rule: sendable.cases) (auto simp: data_type_to_connect.simps)
  with assms show ?thesis by (simp add: field_to_connect_def canonical_field_def)
qed

lemma collect_results_same:
  "(\<And>x. x \<in> set xs \<Longrightarrow> f (g x) = f x) \<Longrightarrow> collect_results f (map g xs) = collect_results f xs"
  by (induction xs) simp_all

lemma client_columns:
  "with_schema show fs b = Inr b' \<Longrightarrow>
   collect_results (column_to_arrow sh co) (cd_columns (bd_message b')) = Inr (map (canonical_field co) fs)"
  by (auto simp: with_schema_def map_ok_Inr_iff intro: collect_results_mono [OF _ field_sent])

end
