(* ===== verification/Client_Properties.thy ===== *)
theory Client_Properties
  imports Client_Facts Governance_Properties
begin

text \<open>Properties of the client together with the server that answers it.\<close>

section \<open>Schemas\<close>

text \<open>
  C18. A schema can be sent exactly when each of its types can; the server then reads the columns in order, with their
  names and nullability and the canonical form of their types (texts and binaries as views, a zoned timestamp in UTC,
  a decimal with its precision and scale), and sending the schema the server has sends the same message. Structs,
  lists and maps cannot be sent although the server reads them, nor can a timestamp whose zone is written as the
  offset zero.
\<close>

theorem client_schema_arrives:
  "((\<exists>b'. with_schema show fs b = Inr b') \<longleftrightarrow> (\<forall>f \<in> set fs. sendable (df_type f))) \<and>
   (\<forall>b'. with_schema show fs b = Inr b' \<longrightarrow>
      collect_results (column_to_arrow sh new_conversion_options) (cd_columns (bd_message b')) =
        Inr (map (canonical_field new_conversion_options) fs) \<and>
      with_schema show (map (canonical_field new_conversion_options) fs) b = Inr b') \<and>
   \<not> sendable (AT_Struct ds) \<and> \<not> sendable (AT_List d) \<and> \<not> sendable (AT_Map d keys_sorted) \<and>
   \<not> sendable (AT_Timestamp Unit_Microsecond (Some ''+00:00''))"
proof -
  have "\<not> eq_ignore_ascii_case ''+00:00'' ''utc''" by code_simp
  moreover have "collect_results (field_to_connect show) (map (canonical_field new_conversion_options) fs) = Inr cs"
    if "collect_results (field_to_connect show) fs = Inr cs" for cs
    using that collect_results_same [of fs "field_to_connect show", OF canonical_same_message]
    by (metis collect_results_all field_to_connect_Inr_iff)
  ultimately show ?thesis
    by (auto simp: with_schema_def map_ok_Inr_iff collect_results_all field_to_connect_Inr_iff
        elim: collect_results_mono [OF _ field_sent])
qed

text \<open>Two fields, a text and a decimal of a negative scale, and a struct.\<close>

definition fields0 :: "data_field list" where
  "fields0 = [Data_Field ''name'' AT_Utf8 True, Data_Field ''amount'' (AT_Decimal128 10 (- 2)) False]"

definition struct0 :: data_field where
  "struct0 = Data_Field ''address'' (AT_Struct [Data_Field ''city'' AT_Utf8 True]) True"

theorem client_schema_arrives_witness:
  "\<exists>b'. with_schema (\<lambda>_. ''type'') fields0 new_create_delta_builder = Inr b' \<and>
     collect_results (column_to_arrow (\<lambda>_. ''kind'') new_conversion_options) (cd_columns (bd_message b')) =
       Inr [Data_Field ''name'' AT_Utf8View True, Data_Field ''amount'' (AT_Decimal128 10 (- 2)) False]"
proof -
  have "\<forall>f \<in> set fields0. sendable (df_type f)" by (simp add: fields0_def)
  then obtain b' where "with_schema (\<lambda>_. ''type'') fields0 new_create_delta_builder = Inr b'"
    using client_schema_arrives [of "\<lambda>_. ''type''" fields0 new_create_delta_builder "\<lambda>_. ''kind''" "[]" undefined False]
    by blast
  then show ?thesis
    using client_schema_arrives [of "\<lambda>_. ''type''" fields0 new_create_delta_builder "\<lambda>_. ''kind''" "[]" undefined False]
    by (auto simp: fields0_def canonical_field_def)
qed

text \<open>
  C17. A table the client creates with a name, a location and a schema: when the server answers the command of the
  builder with success, it has run the DDL of exactly that table, at that location, with the canonical types of the
  schema, as one that fails where there is a table, and the client's call succeeds; when the server fails, the
  client's call fails with the server's status and no command is recorded as run.
\<close>

theorem client_create_reaches_table:
  assumes wire: "unpack (encode (Create_Delta_Table (bd_message b))) = Inr (Some (Create_Delta_Table (bd_message b)))"
    and built: "with_schema show fs (with_table_name name (with_location location new_create_delta_builder)) = Inr b"
    and server: "do_put_fallback fe ies (\<lambda>c. map_err arrow_text (column_to_arrow sh new_conversion_options c)) ddl_plan unpack
      True env get url (encode (Create_Delta_Table (bd_message b))) st effects = (r, st1, effects1)"
    and reply: "decode (encode_result (- 1)) = Inr (- 1)"
  shows "(\<forall>n. r = Inr n \<longrightarrow> (\<exists>a parse_ref. fst (fe_resolve fe env get st) = Inr a \<and> parse_ref = ie_parse_ref (ies (sst_heap st1 a)) \<and>
       effects1 = effects @ [Ran_Command (ddl_plan
         \<lparr>cx_schema = map (canonical_field new_conversion_options) fs, cx_name = parse_ref name, cx_locations = [location],
          cx_table_partition_cols = [], cx_if_not_exists = False, cx_or_replace = False, cx_options = [],
          cx_unbounded = False, cx_temporary = False\<rparr>)])) \<and>
     (\<forall>e. r = Inl e \<longrightarrow> effects1 = effects) \<and>
     send_create_delta encode (\<lambda>_. map_ok (\<lambda>n. [Inr (encode_result n)]) r) status_debug decode b =
       map_err Client_Flight (map_ok (\<lambda>_. ()) r)"
proof -
  have columns: "collect_results (\<lambda>c. map_err arrow_text (column_to_arrow sh new_conversion_options c)) (cd_columns (bd_message b))
      = Inr (map (canonical_field new_conversion_options) fs)"
    using built client_columns [OF built] by (simp add: collect_map_err)
  have message: "cd_location (bd_message b) = Some location" "cd_table_name (bd_message b) = name"
      "cd_mode (bd_message b) = Create_Only" "cd_partitioning_columns (bd_message b) = []" "cd_properties (bd_message b) = []"
    using built by (auto simp: with_schema_def with_table_name_def with_location_def new_create_delta_builder_def
        default_create_delta_table_def map_ok_Inr_iff)
  show ?thesis
    using server columns message
    by (auto simp: do_put_fallback_def wire reply send_create_delta_def plan_delta_connect_def plan_create_delta_table_def Let_def
        split: sum.splits prod.splits)
qed

definition builder0 :: create_delta_builder where
  "builder0 = new_create_delta_builder\<lparr>bd_message :=
     \<lparr>cd_table_name = ''people'', cd_location = Some ''s3://b/people'', cd_comment = None,
      cd_columns = [\<lparr>dc_name = ''name'', dc_data_type = Kind (CK_String 0 []), dc_nullable = True,
        dc_generated_always_as = None, dc_comment = None, dc_identity_info = None\<rparr>],
      cd_partitioning_columns = [], cd_mode = Create_Only, cd_properties = [], cd_clustering_columns = []\<rparr>\<rparr>"

definition ddl0 :: "data_field create_external_table \<Rightarrow> string plan" where
  "ddl0 cx = Plan (concat (cx_locations cx)) (map (\<lambda>f. Plan (df_name f) []) (cx_schema cx))"

definition created1 where
  "created1 = do_put_fallback (flight_env.truncate query0) ingest0
     (\<lambda>c. map_err (\<lambda>_. ''type'') (column_to_arrow (\<lambda>_. ''kind'') new_conversion_options c)) ddl0
     (\<lambda>_. Inr (Some (Create_Delta_Table (bd_message builder0)))) True (call0 5) (as_user ''alice'') ''url'' [] plans0 []"

theorem client_create_reaches_table_witness:
  "snd (snd created1) = [Ran_Command (Plan ''s3://b/people'' [Plan ''name'' []])] \<and>
   send_create_delta (\<lambda>_. []) (\<lambda>_. map_ok (\<lambda>n. [Inr []]) (fst created1)) (\<lambda>s. ''status'') (\<lambda>_. Inr (- 1)) builder0 = Inr ()"
proof -
  have ok: "fst created1 = Inr (- 1)" by code_simp
  have built: "with_schema (\<lambda>_. ''type'') [Data_Field ''name'' AT_Utf8 True]
      (with_table_name ''people'' (with_location ''s3://b/people'' new_create_delta_builder)) = Inr builder0"
    by (simp add: with_schema_def field_to_connect_def data_type_to_connect.simps with_table_name_def with_location_def
        new_create_delta_builder_def default_create_delta_table_def builder0_def)
  have run: "created1 = (fst created1, fst (snd created1), snd (snd created1))" by simp
  show ?thesis
    using client_create_reaches_table [where encode = "\<lambda>_. []" and decode = "\<lambda>_. Inr (- 1)" and encode_result = "\<lambda>_. []"
        and status_debug = "\<lambda>s. ''status''", OF _ built run [unfolded created1_def]] ok
    unfolding created1_def [symmetric] by (auto simp: ddl0_def canonical_field_def)
qed

text \<open>
  C34. An ingest into \<^verbatim>\<open>schema.table\<close> has the effect of one into \<^verbatim>\<open>table\<close>: the client sends the schema beside the bare
  name, the server looks at it only together with a catalog, so the rows go to the table of that name in the
  session's default schema. An ingest into \<^verbatim>\<open>catalog.schema.table\<close> reaches that table when it is managed, and when it
  is not, goes to the bare name too.
\<close>

theorem client_ingest_target:
  "do_put_statement_ingest fe ies env run_id get (ticket_of (ib_message (client_ingest (Partial s t) wire))) wire st effects =
   do_put_statement_ingest fe ies env run_id get (ticket_of (ib_message (client_ingest (Bare t) wire))) wire st effects \<and>
   (\<forall>a st1. fe_resolve fe env get st = (Inr a, st1) \<and> ie_parse_ref (ies (sst_heap st1 a)) t = Bare t \<longrightarrow>
      (\<forall>n. fst (do_put_statement_ingest fe ies env run_id get (ticket_of (ib_message (client_ingest (Partial s t) wire))) wire st effects) = Inr n \<longrightarrow>
         (\<exists>provider. ie_lookup (ies (sst_heap st1 a)) t = Inr provider \<and>
            snd (snd (do_put_statement_ingest fe ies env run_id get (ticket_of (ib_message (client_ingest (Partial s t) wire))) wire st effects))
              = effects @ [Inserted provider wire])) \<and>
      resolve_managed_ingest (ies (sst_heap st1 a)) effects (ticket_of (ib_message (client_ingest (Full c s t) wire))) =
        resolve_managed_target (ies (sst_heap st1 a)) effects (c, s, t) \<and>
      (resolve_managed_target (ies (sst_heap st1 a)) effects (c, s, t) = Inr None \<longrightarrow>
       do_put_statement_ingest fe ies env run_id get (ticket_of (ib_message (client_ingest (Full c s t) wire))) wire st effects =
       do_put_statement_ingest fe ies env run_id get (ticket_of (ib_message (client_ingest (Bare t) wire))) wire st effects))"
proof -
  have tickets: "ticket_of (ib_message (client_ingest (Bare t) wire)) = \<lparr>it_catalog = None, it_schema = None, it_table = t\<rparr>"
    "ticket_of (ib_message (client_ingest (Partial s t) wire)) = \<lparr>it_catalog = None, it_schema = Some s, it_table = t\<rparr>"
    "ticket_of (ib_message (client_ingest (Full c s t) wire)) = \<lparr>it_catalog = Some c, it_schema = Some s, it_table = t\<rparr>"
    by (simp_all add: client_ingest_def ticket_of_def ib_with_table_name_def ib_with_schema_name_def ib_with_catalog_name_def
        new_ingest_builder_def default_ingest_def ref_schema_def ref_catalog_def ref_table_def)
  show ?thesis
    unfolding tickets
    by (auto simp: do_put_statement_ingest_def resolve_managed_ingest_def plan_ingest_def ref_table_def Let_def
        try_bind_Inr_iff map_ok_Inr_iff split: sum.split prod.split)
qed

theorem client_ingest_target_witness:
  "put1 (ticket_of (ib_message (client_ingest (Full ''prod'' ''hr'' ''people'') ''wire''))) =
   put1 (ticket_of (ib_message (client_ingest (Bare ''people'') ''wire''))) \<and>
   snd (snd (put1 (ticket_of (ib_message (client_ingest (Full ''prod'' ''hr'' ''people'') ''wire''))))) = [Inserted ''people'' ''wire'']"
proof -
  define r where "r = fe_resolve (flight_env.truncate query0) (call0 5) (as_user ''alice'') plans0"
  have "is_ok (fst r)" unfolding r_def by code_simp
  then obtain a where r: "fe_resolve (flight_env.truncate query0) (call0 5) (as_user ''alice'') plans0 = (Inr a, snd r)"
    unfolding r_def by (metis is_ok_iff prod.collapse)
  have none: "resolve_managed_target (ingest1 s) effects t = Inr None" for s effects t
    by (simp add: resolve_managed_target_def ingest1_def ingest0_def Let_def)
  have parse: "ie_parse_ref (ingest1 s) ''people'' = Bare ''people''" for s
    by (simp add: ingest1_def ingest0_def)
  have lookup: "ie_lookup (ingest1 s) t = Inr t" for s t
    by (simp add: ingest1_def ingest0_def)
  have "fst (put1 (ticket_of (ib_message (client_ingest (Partial ''hr'' ''people'') ''wire'')))) = Inr 3"
    by code_simp
  then show ?thesis
    using client_ingest_target [where ies = ingest1 and fe = "flight_env.truncate query0" and env = "call0 5"
        and get = "as_user ''alice''" and st = plans0 and t = "''people''" and s = "''hr''" and c = "''prod''"
        and wire = "''wire''" and effects = "[]" and run_id = "''run''"] r parse none lookup
    unfolding put1_def by auto
qed

end
