(* ===== verification/Receiver_Stream.thy ===== *)
theory Receiver_Stream
  imports Query_Results
begin

text \<open>
  \<^verbatim>\<open>crates/hydrofoil/src/stream.rs\<close>, \<^verbatim>\<open>ReceiverStreamBuilder\<close>: producing tasks, the bounded channel between them and
  the reader, the future that joins the tasks, and the merge of the two into one stream, as a state machine whose
  steps interleave in any order. The sequential drivers of \<open>Query_Results\<close> are its abstraction.
\<close>

section \<open>Tasks\<close>

text \<open>
  How a task ends: with \<^verbatim>\<open>Ok\<close>, with an error, in a panic, or cancelled from outside. A task sends an item and goes on
  in one way when the channel took it, in another when the reader is gone.
\<close>

datatype task_end = Task_Ok | Task_Failed string | Task_Panicked string | Task_Cancelled string

datatype 'o task = Send "string + 'o" "'o task" "'o task" | Ended task_end

section \<open>The builder\<close>

record 'o receiver_builder =
  rb_capacity :: nat
  rb_join_set :: "'o task list"

text \<open>A channel without a buffer is a panic of the runtime (\<^verbatim>\<open>None\<close>).\<close>

definition receiver_builder_new :: "nat \<Rightarrow> 'o receiver_builder option" where
  "receiver_builder_new capacity =
     (if capacity = 0 then None else Some \<lparr>rb_capacity = capacity, rb_join_set = []\<rparr>)"

definition receiver_spawn_on :: "'o task \<Rightarrow> 'o receiver_builder \<Rightarrow> 'o receiver_builder" where
  "receiver_spawn_on t b = b\<lparr>rb_join_set := rb_join_set b @ [t]\<rparr>"

section \<open>The stream\<close>

text \<open>
  The future that joins the tasks: it waits, has an error to report, or is done. What the reader has seen is
  \<open>rs_out\<close>; \<open>rs_abort\<close> says that the join set is gone, so that its tasks end at their next chance.
\<close>

datatype join_check = Check_Joining | Check_Failed string | Check_Done

record 'o receiver =
  rs_capacity :: nat
  rs_queue :: "(string + 'o) list"
  rs_tasks :: "'o task list"
  rs_rx_open :: bool
  rs_check :: join_check
  rs_abort :: bool
  rs_out :: "(string + 'o) list"
  rs_panic :: "string option"
  rs_dropped :: bool

definition receiver_build :: "'o receiver_builder \<Rightarrow> 'o receiver" where
  "receiver_build b =
     \<lparr>rs_capacity = rb_capacity b, rs_queue = [], rs_tasks = rb_join_set b, rs_rx_open = True,
      rs_check = Check_Joining, rs_abort = False, rs_out = [], rs_panic = None, rs_dropped = False\<rparr>"

text \<open>The reader can be served: it neither left nor was unwound by a panic.\<close>

definition serving :: "'o receiver \<Rightarrow> bool" where
  "serving s \<longleftrightarrow> \<not> rs_dropped s \<and> rs_panic s = None"

definition drop_nth :: "nat \<Rightarrow> 'x list \<Rightarrow> 'x list" where
  "drop_nth i xs = take i xs @ drop (Suc i) xs"

text \<open>\<^verbatim>\<open>join_next\<close> gave the end of task \<open>i\<close>. An error or a panic drops the join set.\<close>

definition joined :: "nat \<Rightarrow> task_end \<Rightarrow> 'o receiver \<Rightarrow> 'o receiver" where
  "joined i e s =
     (let s1 = s\<lparr>rs_tasks := drop_nth i (rs_tasks s)\<rparr> in
      case e of
        Task_Ok \<Rightarrow> s1
      | Task_Failed m \<Rightarrow> s1\<lparr>rs_check := Check_Failed m, rs_abort := True\<rparr>
      | Task_Panicked m \<Rightarrow> s1\<lparr>rs_panic := Some m, rs_abort := True\<rparr>
      | Task_Cancelled m \<Rightarrow> s1\<lparr>rs_check := Check_Failed m, rs_abort := True\<rparr>)"

text \<open>
  One step, by what takes it: a task sends (waiting while the channel is full) or finds the reader gone; the reader
  takes an item; the receiver ends when it is empty and no task holds a sender; the joining future takes a task
  that ended, ends when none is left, or hands its error to the reader; the reader leaves; an aborted task is gone.
  A step that cannot be taken is \<^verbatim>\<open>None\<close>.
\<close>

datatype choice = Run_Task nat | Read | Rx_Ends | Join nat | Check_Ends | Yield_Error | Leave | Abort nat

definition task_ended :: "'o task \<Rightarrow> bool" where
  "task_ended t \<longleftrightarrow> (case t of Send _ _ _ \<Rightarrow> False | Ended _ \<Rightarrow> True)"

fun receiver_step :: "choice \<Rightarrow> 'o receiver \<Rightarrow> 'o receiver option" where
  "receiver_step (Run_Task i) s =
     (if i < length (rs_tasks s)
      then (case rs_tasks s ! i of
              Send item taken gone \<Rightarrow>
                if rs_dropped s then Some (s\<lparr>rs_tasks := (rs_tasks s)[i := gone]\<rparr>)
                else if length (rs_queue s) < rs_capacity s
                then Some (s\<lparr>rs_queue := rs_queue s @ [item], rs_tasks := (rs_tasks s)[i := taken]\<rparr>)
                else None
            | Ended _ \<Rightarrow> None)
      else None)"
| "receiver_step Read s =
     (if serving s
      then (case rs_queue s of
              [] \<Rightarrow> None
            | item # queue \<Rightarrow> Some (s\<lparr>rs_queue := queue, rs_out := rs_out s @ [item]\<rparr>))
      else None)"
| "receiver_step Rx_Ends s =
     (if serving s \<and> rs_rx_open s \<and> rs_queue s = [] \<and> list_all task_ended (rs_tasks s)
      then Some (s\<lparr>rs_rx_open := False\<rparr>) else None)"
| "receiver_step (Join i) s =
     (if serving s \<and> rs_check s = Check_Joining \<and> i < length (rs_tasks s)
      then (case rs_tasks s ! i of Ended e \<Rightarrow> Some (joined i e s) | Send _ _ _ \<Rightarrow> None)
      else None)"
| "receiver_step Check_Ends s =
     (if serving s \<and> rs_check s = Check_Joining \<and> rs_tasks s = []
      then Some (s\<lparr>rs_check := Check_Done\<rparr>) else None)"
| "receiver_step Yield_Error s =
     (case rs_check s of
        Check_Failed m \<Rightarrow>
          if serving s then Some (s\<lparr>rs_check := Check_Done, rs_out := rs_out s @ [Inl m]\<rparr>) else None
      | _ \<Rightarrow> None)"
| "receiver_step Leave s =
     (if rs_dropped s then None else Some (s\<lparr>rs_dropped := True, rs_queue := [], rs_abort := True\<rparr>))"
| "receiver_step (Abort i) s =
     (if rs_abort s \<and> i < length (rs_tasks s) then Some (s\<lparr>rs_tasks := drop_nth i (rs_tasks s)\<rparr>) else None)"

fun receiver_run :: "choice list \<Rightarrow> 'o receiver \<Rightarrow> 'o receiver option" where
  "receiver_run [] s = Some s"
| "receiver_run (c # cs) s = Option.bind (receiver_step c s) (receiver_run cs)"

text \<open>The merged stream is over for its reader when both parts are.\<close>

definition stream_ended :: "'o receiver \<Rightarrow> bool" where
  "stream_ended s \<longleftrightarrow> serving s \<and> \<not> rs_rx_open s \<and> rs_check s = Check_Done"

section \<open>The drivers as tasks\<close>

abbreviation finished :: "'o task" where
  "finished \<equiv> Ended Task_Ok"

fun query_task :: "('a, 'w) arrow \<Rightarrow> schema \<Rightarrow> (string + 'a record_batch) list \<Rightarrow> bool \<Rightarrow> query_response task" where
  "query_task ar s [] sent_any =
     (if sent_any then finished
      else Send (map_ok (\<lambda>b. \<lparr>qr_arrow_ipc = b, qr_num_rows = 0\<rparr>) (encode_ipc_schema_only ar s)) finished finished)"
| "query_task ar s (Inl e # items) sent_any = Send (Inl e) finished finished"
| "query_task ar s (Inr b # items) sent_any =
     (let item = map_ok (\<lambda>bytes. \<lparr>qr_arrow_ipc = bytes, qr_num_rows = rb_rows b\<rparr>) (encode_ipc_batch ar s b)
      in Send item (if is_ok item then query_task ar s items True else finished) finished)"

fun flight_task :: "(string + 'o) list \<Rightarrow> 'o task" where
  "flight_task [] = finished"
| "flight_task (item # items) = Send item (if is_ok item then flight_task items else finished) finished"

definition driver_task ::
  "('n, 'x, 'a) exec_env \<Rightarrow> (schema \<Rightarrow> (string + 'a record_batch) list \<Rightarrow> 'o task) \<Rightarrow> 'n plan \<Rightarrow> event list
    \<Rightarrow> 'o task" where
  "driver_task xe drive plan log =
     (case fst (xe_plan xe plan log) of
        Inl e \<Rightarrow> Send (Inl e) finished finished
      | Inr x \<Rightarrow>
          (case xe_execute xe x of
             Inl e \<Rightarrow> Send (Inl e) finished finished
           | Inr items \<Rightarrow> drive (xe_schema xe x) items))"

text \<open>The streams of the two surfaces: a channel of two messages, and one of a hundred.\<close>

definition receiver_stream :: "nat \<Rightarrow> 'o task \<Rightarrow> 'o receiver option" where
  "receiver_stream capacity t = map_option (receiver_build \<circ> receiver_spawn_on t) (receiver_builder_new capacity)"

definition query_stream ::
  "('a, 'w) arrow \<Rightarrow> ('n, 'x, 'a) exec_env \<Rightarrow> 'n plan \<Rightarrow> event list \<Rightarrow> query_response receiver option" where
  "query_stream ar xe plan log =
     receiver_stream 2 (driver_task xe (\<lambda>s items. query_task ar s items False) plan log)"

definition flight_stream ::
  "(schema \<Rightarrow> (string + 'a record_batch) list \<Rightarrow> (string + 'o) list) \<Rightarrow> ('n, 'x, 'a) exec_env \<Rightarrow> 'n plan
    \<Rightarrow> event list \<Rightarrow> 'o receiver option" where
  "flight_stream encoded xe plan log =
     receiver_stream 100 (driver_task xe (\<lambda>s items. flight_task (encoded s items)) plan log)"

text \<open>A task that panics before it sends its next item, after \<open>n\<close> of them.\<close>

fun panics_after :: "nat \<Rightarrow> string \<Rightarrow> 'o task \<Rightarrow> 'o task" where
  "panics_after 0 m t = Ended (Task_Panicked m)"
| "panics_after (Suc n) m (Ended e) = Ended e"
| "panics_after (Suc n) m (Send item taken gone) = Send item (panics_after n m taken) (panics_after n m gone)"

end
