(* ===== verification/Receiver_Facts.thy ===== *)
theory Receiver_Facts
  imports Receiver_Stream Query_Facts "HOL-Library.Sublist"
begin

text \<open>
  What a reader sees of a receiver stream under any interleaving: the channel stays within its capacity, one task's
  items arrive in order and whole, a panic reaches the reader, every run is bounded and can be continued to an end.
\<close>

section \<open>What a task sends\<close>

fun sends :: "'o task \<Rightarrow> (string + 'o) list" where
  "sends (Ended e) = []"
| "sends (Send item taken gone) = item # sends taken"

fun ends_with :: "'o task \<Rightarrow> task_end" where
  "ends_with (Ended e) = e"
| "ends_with (Send item taken gone) = ends_with taken"

lemma sends_flight_task: "sends (flight_task items) = upto_error items" "ends_with (flight_task items) = Task_Ok"
  by (induction items rule: upto_error.induct) (simp_all add: is_ok_def)

lemma sends_query_task:
  "sends (query_task ar s items sent) =
     (if items = [] then (if sent then [] else [schema_message ar s]) else upto_error (map (batch_message ar s) items))"
  "ends_with (query_task ar s items sent) = Task_Ok"
proof (induction ar s items sent rule: query_task.induct)
  case (3 ar s b items sent)
  case 1
  show ?case
    using "3.IH"(1) [OF refl] by (cases "encode_ipc_batch ar s b") (auto simp: batch_message_def)
  case 2
  show ?case
    using "3.IH"(2) [OF refl] by (cases "encode_ipc_batch ar s b") auto
qed (auto simp: schema_message_def batch_message_def)

lemma driver_task_query:
  "sends (driver_task xe (\<lambda>s items. query_task ar s items False) plan log)
     = fst (run_query_arrow_stream ar xe plan None log)"
  "ends_with (driver_task xe (\<lambda>s items. query_task ar s items False) plan log) = Task_Ok"
  by (simp_all add: driver_task_def answer_of_stream sends_query_task answer_messages_def split: prod.split sum.split)

lemma driver_task_flight:
  "sends (driver_task xe (\<lambda>s items. flight_task (encoded s items)) plan log)
     = fst (flight_execute_logical_plan encoded xe plan None log)"
  "ends_with (driver_task xe (\<lambda>s items. flight_task (encoded s items)) plan log) = Task_Ok"
  by (simp_all add: driver_task_def flight_answer sends_flight_task split: prod.split sum.split)

lemma sends_panics: "sends (panics_after n m t) = take n (sends t)"
  by (induction n m t rule: panics_after.induct) simp_all

lemma ends_panics: "ends_with (panics_after n m t) = (if n \<le> length (sends t) then Task_Panicked m else ends_with t)"
  by (induction n m t rule: panics_after.induct) simp_all

section \<open>Runs\<close>

lemma run_invariant:
  assumes "\<And>c s s'. receiver_step c s = Some s' \<Longrightarrow> P s \<Longrightarrow> P s'" and "P s" and "receiver_run cs s = Some s'"
  shows "P s'"
  using assms(2,3) by (induction cs arbitrary: s) (auto simp: bind_eq_Some_conv intro: assms(1))

lemma run_append: "receiver_run (cs @ cs') s = Option.bind (receiver_run cs s) (receiver_run cs')"
  by (induction cs arbitrary: s) (auto split: bind_split)

section \<open>The capacity\<close>

lemma step_capacity: "receiver_step c s = Some s' \<Longrightarrow> rs_capacity s' = rs_capacity s \<and>
    (length (rs_queue s) \<le> rs_capacity s \<longrightarrow> length (rs_queue s') \<le> rs_capacity s)"
  by (cases c) (auto simp: joined_def Let_def split: if_splits task.splits list.splits join_check.splits task_end.splits)

section \<open>One task\<close>

text \<open>
  The invariant of a stream fed by the one task \<open>t\<close>, which does not fail: what is read and queued is what the task
  has sent, and the joining future and the panic tell how it ended.
\<close>

definition fed_by :: "'o task \<Rightarrow> 'o receiver \<Rightarrow> bool" where
  "fed_by t s \<longleftrightarrow> prefix (rs_out s) (sends t) \<and> (\<forall>m. rs_check s \<noteq> Check_Failed m) \<and>
     (\<forall>m. rs_panic s = Some m \<longrightarrow> ends_with t = Task_Panicked m) \<and>
     (serving s \<longrightarrow> \<not> rs_abort s \<and>
        ((\<exists>t'. rs_tasks s = [t'] \<and> rs_out s @ rs_queue s @ sends t' = sends t \<and> ends_with t' = ends_with t \<and>
            rs_check s = Check_Joining) \<or>
         (rs_tasks s = [] \<and> rs_out s @ rs_queue s = sends t \<and> ends_with t = Task_Ok)) \<and>
        (\<not> rs_rx_open s \<longrightarrow> rs_queue s = [] \<and> list_all task_ended (rs_tasks s)))"

lemma drop_nth_single [simp]: "drop_nth 0 [x] = []"
  by (simp add: drop_nth_def)

lemma fed_by_step:
  assumes "receiver_step c s = Some s'" and "fed_by t s" and "ends_with t = Task_Ok \<or> (\<exists>m. ends_with t = Task_Panicked m)"
  shows "fed_by t s'"
proof (cases c)
  case (Run_Task i)
  with assms show ?thesis
    by (auto simp: fed_by_def serving_def task_ended_def split: if_splits task.splits)
next
  case Read
  with assms show ?thesis
    by (auto simp: fed_by_def serving_def prefix_def split: if_splits list.splits)
next
  case Rx_Ends
  with assms show ?thesis by (auto simp: fed_by_def serving_def split: if_splits)
next
  case (Join i)
  with assms show ?thesis
    by (auto simp: fed_by_def serving_def joined_def prefix_def split: if_splits task.splits task_end.splits)
next
  case Check_Ends
  with assms show ?thesis by (auto simp: fed_by_def serving_def split: if_splits)
next
  case Yield_Error
  with assms show ?thesis by (auto simp: fed_by_def split: if_splits join_check.splits)
next
  case Leave
  with assms show ?thesis by (auto simp: fed_by_def serving_def split: if_splits)
next
  case (Abort i)
  with assms show ?thesis by (auto simp: fed_by_def serving_def split: if_splits)
qed

lemma fed_by_start: "receiver_stream cap t = Some s \<Longrightarrow> fed_by t s \<and> rs_capacity s = cap \<and> 0 < cap \<and> rs_queue s = []"
  by (auto simp: receiver_stream_def receiver_builder_new_def receiver_spawn_on_def receiver_build_def fed_by_def
      serving_def split: if_splits)

lemma fed_by_ended: "fed_by t s \<Longrightarrow> stream_ended s \<Longrightarrow> rs_out s = sends t \<and> ends_with t = Task_Ok"
  by (auto simp: fed_by_def stream_ended_def)

lemma fed_by_run:
  assumes "receiver_stream cap t = Some s0" and "receiver_run cs s0 = Some s"
    and "ends_with t = Task_Ok \<or> (\<exists>m. ends_with t = Task_Panicked m)"
  shows "fed_by t s" and "rs_capacity s = cap" and "length (rs_queue s) \<le> cap"
proof -
  have step: "fed_by t s'' \<and> rs_capacity s'' = cap \<and> length (rs_queue s'') \<le> cap"
    if "receiver_step c s' = Some s''" "fed_by t s' \<and> rs_capacity s' = cap \<and> length (rs_queue s') \<le> cap" for c s' s''
    using that fed_by_step [OF that(1) _ assms(3)] step_capacity [OF that(1)] by auto
  show "fed_by t s" "rs_capacity s = cap" "length (rs_queue s) \<le> cap"
    using run_invariant [where P = "\<lambda>s. fed_by t s \<and> rs_capacity s = cap \<and> length (rs_queue s) \<le> cap", OF step _ assms(2)]
      fed_by_start [OF assms(1)] by auto
qed

section \<open>Every run ends\<close>

fun task_weight :: "'o task \<Rightarrow> nat" where
  "task_weight (Ended e) = 1"
| "task_weight (Send item taken gone) = 2 + max (task_weight taken) (task_weight gone)"

definition stream_weight :: "'o receiver \<Rightarrow> nat" where
  "stream_weight s =
     sum_list (map task_weight (rs_tasks s)) + length (rs_queue s) + of_bool (rs_rx_open s) + of_bool (\<not> rs_dropped s) +
     (case rs_check s of Check_Joining \<Rightarrow> 2 | Check_Failed _ \<Rightarrow> 1 | Check_Done \<Rightarrow> 0)"

lemma task_weight_pos: "0 < task_weight t"
  by (cases t) simp_all

lemma sum_task_weights:
  assumes "i < length ts"
  shows "sum_list (map task_weight (ts[i := t])) + task_weight (ts ! i) = sum_list (map task_weight ts) + task_weight t"
    and "sum_list (map task_weight (drop_nth i ts)) + task_weight (ts ! i) = sum_list (map task_weight ts)"
proof -
  define xs ys where "xs = take i ts" and "ys = drop (Suc i) ts"
  have ts: "ts = xs @ ts ! i # ys" and i: "length xs = i"
    using assms by (simp_all add: xs_def ys_def id_take_nth_drop)
  have "ts[i := t] = xs @ t # ys" "drop_nth i ts = xs @ ys"
    using assms by (simp_all add: upd_conv_take_nth_drop xs_def ys_def drop_nth_def)
  then show "sum_list (map task_weight (ts[i := t])) + task_weight (ts ! i) = sum_list (map task_weight ts) + task_weight t"
    "sum_list (map task_weight (drop_nth i ts)) + task_weight (ts ! i) = sum_list (map task_weight ts)"
    by (subst (3) ts, simp)+
qed

lemma step_weight:
  assumes "receiver_step c s = Some s'"
  shows "stream_weight s' < stream_weight s"
proof (cases c)
  case (Run_Task i)
  with assms have i: "i < length (rs_tasks s)" by (auto split: if_splits)
  then show ?thesis
    using assms Run_Task sum_task_weights(1) [OF i, of "case rs_tasks s ! i of Send x k g \<Rightarrow> if rs_dropped s then g else k | Ended e \<Rightarrow> Ended e"]
    by (auto simp: stream_weight_def split: if_splits task.splits)
next
  case (Join i)
  with assms have i: "i < length (rs_tasks s)" by (auto split: if_splits)
  then show ?thesis
    using assms Join sum_task_weights(2) [OF i] task_weight_pos [of "rs_tasks s ! i"]
    by (auto simp: stream_weight_def joined_def Let_def split: if_splits task.splits task_end.splits)
next
  case (Abort i)
  with assms have i: "i < length (rs_tasks s)" by (auto split: if_splits)
  then show ?thesis
    using assms Abort sum_task_weights(2) [OF i] task_weight_pos [of "rs_tasks s ! i"]
    by (auto simp: stream_weight_def split: if_splits)
qed (use assms in \<open>auto simp: stream_weight_def split: if_splits list.splits join_check.splits\<close>)

lemma run_weight: "receiver_run cs s = Some s' \<Longrightarrow> length cs + stream_weight s' \<le> stream_weight s"
proof (induction cs arbitrary: s)
  case (Cons c cs)
  then obtain s1 where s1: "receiver_step c s = Some s1" "receiver_run cs s1 = Some s'"
    by (auto simp: bind_eq_Some_conv)
  from Cons.IH [OF s1(2)] step_weight [OF s1(1)] show ?case by simp
qed simp

section \<open>Progress\<close>

lemma progress:
  assumes "serving s" and "\<not> stream_ended s" and "0 < rs_capacity s"
  shows "\<exists>c s'. c \<noteq> Leave \<and> receiver_step c s = Some s'"
proof (cases "rs_queue s")
  case (Cons item queue)
  with assms(1) have "\<exists>s'. receiver_step Read s = Some s'" by simp
  then show ?thesis by blast
next
  case Nil
  show ?thesis
  proof (cases "list_all task_ended (rs_tasks s)")
    case False
    then obtain i where i: "i < length (rs_tasks s)" "\<not> task_ended (rs_tasks s ! i)"
      by (auto simp: list_all_length)
    then have "\<exists>s'. receiver_step (Run_Task i) s = Some s'"
      using Nil assms(3) by (auto simp: task_ended_def split: task.splits)
    then show ?thesis by blast
  next
    case True
    show ?thesis
    proof (cases "rs_rx_open s")
      case True
      with \<open>list_all _ _\<close> Nil assms(1) have "\<exists>s'. receiver_step Rx_Ends s = Some s'" by simp
      then show ?thesis by blast
    next
      case closed: False
      show ?thesis
      proof (cases "rs_check s")
        case Check_Joining
        show ?thesis
        proof (cases "rs_tasks s")
          case Nil
          with Check_Joining assms(1) have "\<exists>s'. receiver_step Check_Ends s = Some s'" by simp
          then show ?thesis by blast
        next
          case (Cons t ts)
          with True Check_Joining assms(1) have "\<exists>s'. receiver_step (Join 0) s = Some s'"
            by (auto simp: task_ended_def split: task.splits)
          then show ?thesis by blast
        qed
      next
        case (Check_Failed m)
        with assms(1) have "\<exists>s'. receiver_step Yield_Error s = Some s'" by simp
        then show ?thesis by blast
      next
        case Check_Done
        with closed assms(1,2) show ?thesis by (simp add: stream_ended_def)
      qed
    qed
  qed
qed

lemma stays: "receiver_step c s = Some s' \<Longrightarrow> c \<noteq> Leave \<Longrightarrow> rs_dropped s' = rs_dropped s"
  by (cases c) (auto simp: joined_def Let_def split: if_splits task.splits list.splits join_check.splits task_end.splits)

lemma run_stays: "receiver_run cs s = Some s' \<Longrightarrow> Leave \<notin> set cs \<Longrightarrow> rs_dropped s' = rs_dropped s"
  by (induction cs arbitrary: s) (auto simp: bind_eq_Some_conv dest: stays)

text \<open>A reader that stays gets to an end or a panic, from wherever the stream is.\<close>

lemma can_finish:
  assumes "\<not> rs_dropped s" and "0 < rs_capacity s"
  shows "\<exists>cs s'. Leave \<notin> set cs \<and> receiver_run cs s = Some s' \<and> (stream_ended s' \<or> rs_panic s' \<noteq> None)"
  using assms
proof (induction "stream_weight s" arbitrary: s rule: less_induct)
  case less
  show ?case
  proof (cases "serving s \<and> \<not> stream_ended s")
    case False
    with less.prems have "stream_ended s \<or> rs_panic s \<noteq> None" by (auto simp: serving_def)
    then show ?thesis by (metis empty_iff list.set(1) receiver_run.simps(1))
  next
    case True
    then obtain c s1 where c: "c \<noteq> Leave" "receiver_step c s = Some s1"
      using progress less.prems(2) by blast
    then obtain cs s' where "Leave \<notin> set cs" "receiver_run cs s1 = Some s'" "stream_ended s' \<or> rs_panic s' \<noteq> None"
      using less.hyps [OF step_weight [OF c(2)]] stays [OF c(2,1)] step_capacity [OF c(2)] less.prems by auto
    with c show ?thesis
      by (intro exI [of _ "c # cs"] exI [of _ s']) auto
  qed
qed

section \<open>What a reader has\<close>

text \<open>\<open>answer reader\<close> is the answer a reader who leaves after so many messages gets of the sequential driver.\<close>

definition delivers :: "(nat option \<Rightarrow> (string + 'o) list) \<Rightarrow> nat \<Rightarrow> 'o receiver \<Rightarrow> bool" where
  "delivers answer capacity s \<longleftrightarrow>
     rs_out s = answer (Some (length (rs_out s))) \<and> (stream_ended s \<longrightarrow> rs_out s = answer None) \<and>
     length (rs_queue s) \<le> capacity \<and> rs_panic s = None"

lemma stream_delivers:
  assumes "receiver_stream cap t = Some s0" and "receiver_run cs s0 = Some s" and "ends_with t = Task_Ok"
    and "\<And>reader. answer reader = read_by reader (sends t)"
  shows "delivers answer cap s"
proof -
  have fed: "fed_by t s" "length (rs_queue s) \<le> cap"
    using fed_by_run [OF assms(1,2)] assms(3) by simp_all
  have "take (length (rs_out s)) (sends t) = rs_out s"
    using fed(1) by (auto simp: fed_by_def prefix_def)
  moreover have "rs_panic s = None"
    using fed(1) assms(3) by (cases "rs_panic s") (simp_all add: fed_by_def)
  ultimately show ?thesis
    using fed_by_ended [OF fed(1)] fed(2) by (simp add: delivers_def assms(4) read_by_def)
qed

lemma query_read: "fst (run_query_arrow_stream ar xe plan reader log) =
    read_by reader (sends (driver_task xe (\<lambda>s items. query_task ar s items False) plan log))"
  unfolding driver_task_query answer_of_stream by (simp split: prod.split sum.split)

lemma flight_read: "fst (flight_execute_logical_plan encoded xe plan reader log) =
    read_by reader (sends (driver_task xe (\<lambda>s items. flight_task (encoded s items)) plan log))"
  unfolding driver_task_flight flight_answer by (simp split: prod.split sum.split)

lemma stream_finishes:
  assumes "receiver_stream cap t = Some s0" and "receiver_run cs s0 = Some s" and "Leave \<notin> set cs"
  shows "\<exists>cs' s'. Leave \<notin> set cs' \<and> receiver_run (cs @ cs') s0 = Some s' \<and> receiver_run cs' s = Some s' \<and>
    (stream_ended s' \<or> rs_panic s' \<noteq> None)"
proof -
  have "\<not> rs_dropped s0" "0 < rs_capacity s0"
    using assms(1) by (auto simp: receiver_stream_def receiver_builder_new_def receiver_spawn_on_def receiver_build_def split: if_splits)
  then have "\<not> rs_dropped s" "0 < rs_capacity s"
    using run_stays [OF assms(2,3)] run_invariant [where P = "\<lambda>s. 0 < rs_capacity s", OF _ _ assms(2)] step_capacity
    by (metis (lifting))+
  from can_finish [OF this] assms(2) show ?thesis by (auto simp: run_append)
qed

lemma stream_whole:
  assumes "receiver_stream cap t = Some s0" and "receiver_run cs s0 = Some s" and "ends_with t = Task_Ok"
  shows "length cs \<le> stream_weight s0 \<and> (Leave \<notin> set cs \<longrightarrow>
    (\<exists>cs' s'. receiver_run cs' s = Some s' \<and> stream_ended s' \<and> rs_out s' = sends t))"
proof (intro conjI impI)
  show "length cs \<le> stream_weight s0" using run_weight [OF assms(2)] by simp
  assume "Leave \<notin> set cs"
  then obtain cs' s' where more: "receiver_run (cs @ cs') s0 = Some s'" "receiver_run cs' s = Some s'"
    "stream_ended s' \<or> rs_panic s' \<noteq> None"
    using stream_finishes [OF assms(1,2)] by blast
  have fed: "fed_by t s'" using fed_by_run(1) [OF assms(1) more(1)] assms(3) by simp
  with assms(3) have "rs_panic s' = None" by (cases "rs_panic s'") (simp_all add: fed_by_def)
  with more fed_by_ended [OF fed] show "\<exists>cs' s'. receiver_run cs' s = Some s' \<and> stream_ended s' \<and> rs_out s' = sends t"
    by blast
qed

lemma stream_panics:
  assumes "receiver_stream cap (panics_after n m t) = Some s0" and "receiver_run cs s0 = Some s"
    and "ends_with t = Task_Ok" and "n \<le> length (sends t)"
  shows "\<not> stream_ended s \<and> prefix (rs_out s) (take n (sends t)) \<and>
    (Leave \<notin> set cs \<longrightarrow> (\<exists>cs' s'. receiver_run cs' s = Some s' \<and> rs_panic s' = Some m))"
proof -
  have ends: "ends_with (panics_after n m t) = Task_Panicked m" using assms(4) by (simp add: ends_panics)
  have fed: "fed_by (panics_after n m t) s'" if "receiver_run cs' s0 = Some s'" for cs' s'
    using fed_by_run(1) [OF assms(1) that] ends by simp
  have open_end: "\<not> stream_ended s'" if "receiver_run cs' s0 = Some s'" for cs' s'
    using fed_by_ended [OF fed [OF that]] ends by auto
  have "\<exists>cs' s'. receiver_run cs' s = Some s' \<and> rs_panic s' = Some m" if stay: "Leave \<notin> set cs"
  proof -
    obtain cs' s' where more: "receiver_run (cs @ cs') s0 = Some s'" "receiver_run cs' s = Some s'"
      "stream_ended s' \<or> rs_panic s' \<noteq> None"
      using stream_finishes [OF assms(1,2) stay] by blast
    then obtain m' where "rs_panic s' = Some m'" using open_end by blast
    with fed [OF more(1)] ends more(2) show ?thesis by (auto simp: fed_by_def)
  qed
  with fed [OF assms(2)] open_end [OF assms(2)] show ?thesis by (simp add: fed_by_def sends_panics)
qed

end
