(* ===== verification/Stream_Properties.thy ===== *)
theory Stream_Properties
  imports Receiver_Facts Governance_Properties
begin

text \<open>Properties of the streams that carry answers to readers, under any interleaving of driver, channel and reader.\<close>

text \<open>
  C13. The concurrent streams refine the sequential drivers: however the driver, the channel, the joining future and
  the reader interleave, what the reader has of a Connect or Flight stream is what the sequential driver sends to a
  reader who takes that many messages; a stream that ends was read whole; the channel never holds more than its two
  (or a hundred) messages.
\<close>

theorem streams_deliver_answers:
  "(\<forall>s0 cs s. query_stream ar xe plan log = Some s0 \<and> receiver_run cs s0 = Some s \<longrightarrow>
      delivers (\<lambda>reader. fst (run_query_arrow_stream ar xe plan reader log)) 2 s) \<and>
   (\<forall>s0 cs s. flight_stream encoded xe plan log = Some s0 \<and> receiver_run cs s0 = Some s \<longrightarrow>
      delivers (\<lambda>reader. fst (flight_execute_logical_plan encoded xe plan reader log)) 100 s)"
  unfolding query_stream_def flight_stream_def
  using stream_delivers [OF _ _ driver_task_query(2) query_read] stream_delivers [OF _ _ driver_task_flight(2) flight_read]
  by blast

text \<open>A plan that runs to two batches, and three interleavings of its stream.\<close>

definition exec1 :: "(string, nat, nat) exec_env" where
  "exec1 = \<lparr>xe_plan = \<lambda>plan log. (Inr 2, log), xe_schema = \<lambda>x. schema0,
     xe_execute = \<lambda>x. Inr (map Inr [batch0, batch0]), xe_collect = \<lambda>x. Inr [batch0, batch0]\<rparr>"

definition after0 :: "choice list \<Rightarrow> query_response receiver option" where
  "after0 cs = Option.bind (query_stream arrow0 exec1 (Plan ''t'' []) []) (receiver_run cs)"

lemma after0_Some: "after0 cs = Some s \<Longrightarrow>
    \<exists>s0. query_stream arrow0 exec1 (Plan ''t'' []) [] = Some s0 \<and> receiver_run cs s0 = Some s"
  by (auto simp: after0_def bind_eq_Some_conv)

theorem streams_deliver_answers_witness:
  "\<exists>s. after0 [Run_Task 0, Run_Task 0, Join 0, Read, Read, Check_Ends, Rx_Ends] = Some s \<and> stream_ended s \<and>
     rs_out s = fst (run_query_arrow_stream arrow0 exec1 (Plan ''t'' []) None []) \<and> length (rs_out s) = 2"
proof -
  let ?cs = "[Run_Task 0, Run_Task 0, Join 0, Read, Read, Check_Ends, Rx_Ends]"
  have "map_option (\<lambda>s. (stream_ended s, length (rs_out s))) (after0 ?cs) = Some (True, 2)" by code_simp
  then obtain s where s: "after0 ?cs = Some s" "stream_ended s" "length (rs_out s) = 2" by auto
  from after0_Some [OF s(1)] obtain s0 where
    "query_stream arrow0 exec1 (Plan ''t'' []) [] = Some s0" "receiver_run ?cs s0 = Some s" by blast
  then have "delivers (\<lambda>reader. fst (run_query_arrow_stream arrow0 exec1 (Plan ''t'' []) reader [])) 2 s"
    using conjunct1 [OF streams_deliver_answers [of arrow0 exec1 "Plan ''t'' []" "[]" "\<lambda>s items. []"]] by blast
  with s show ?thesis by (auto simp: delivers_def)
qed

text \<open>
  C14. Streams end. No run of a query's stream is longer than its weight at the start; while the reader stays, whatever
  has happened so far can be continued until the stream ends with the whole answer, so nothing is stuck. A driver that
  panics before its \<open>n\<close>th message never ends its stream: the reader has some of the first \<open>n\<close> messages, and the panic
  reaches it.
\<close>

theorem streams_end:
  "(\<forall>s0 cs s. query_stream ar xe plan log = Some s0 \<and> receiver_run cs s0 = Some s \<longrightarrow>
      length cs \<le> stream_weight s0 \<and>
      (Leave \<notin> set cs \<longrightarrow> (\<exists>cs' s'. receiver_run cs' s = Some s' \<and> stream_ended s' \<and>
         rs_out s' = fst (run_query_arrow_stream ar xe plan None log)))) \<and>
   (\<forall>n m s0 cs s. n \<le> length (fst (run_query_arrow_stream ar xe plan None log)) \<and>
      receiver_stream 2 (panics_after n m (driver_task xe (\<lambda>s items. query_task ar s items False) plan log)) = Some s0 \<and>
      receiver_run cs s0 = Some s \<longrightarrow>
      \<not> stream_ended s \<and> prefix (rs_out s) (take n (fst (run_query_arrow_stream ar xe plan None log))) \<and>
      (Leave \<notin> set cs \<longrightarrow> (\<exists>cs' s'. receiver_run cs' s = Some s' \<and> rs_panic s' = Some m)))"
  unfolding driver_task_query(1) [symmetric] query_stream_def
  using stream_whole [OF _ _ driver_task_query(2)] stream_panics [OF _ _ driver_task_query(2)] by blast

definition panicking0 :: "choice list \<Rightarrow> query_response receiver option" where
  "panicking0 cs = Option.bind (receiver_stream 2 (panics_after 1 ''out of memory''
     (driver_task exec1 (\<lambda>s items. query_task arrow0 s items False) (Plan ''t'' []) []))) (receiver_run cs)"

theorem streams_end_witness:
  "(\<exists>s cs' s'. after0 [Run_Task 0, Read] = Some s \<and> receiver_run cs' s = Some s' \<and> stream_ended s' \<and> length (rs_out s') = 2) \<and>
   (\<exists>s cs' s'. panicking0 [Run_Task 0] = Some s \<and> receiver_run cs' s = Some s' \<and> rs_panic s' = Some ''out of memory'')"
proof -
  note ends = streams_end [of arrow0 exec1 "Plan ''t'' []" "[]"]
  have answer: "length (fst (run_query_arrow_stream arrow0 exec1 (Plan ''t'' []) None [])) = 2" by code_simp
  have "after0 [Run_Task 0, Read] \<noteq> None" "panicking0 [Run_Task 0] \<noteq> None" by code_simp+
  then obtain s p where s: "after0 [Run_Task 0, Read] = Some s" and p: "panicking0 [Run_Task 0] = Some p" by blast
  from after0_Some [OF s] obtain s0 where s0: "query_stream arrow0 exec1 (Plan ''t'' []) [] = Some s0"
    "receiver_run [Run_Task 0, Read] s0 = Some s" by blast
  have "\<exists>cs' s'. receiver_run cs' s = Some s' \<and> stream_ended s' \<and> length (rs_out s') = 2"
    using conjunct1 [OF ends, rule_format, OF conjI, OF s0] answer
    by (auto simp del: One_nat_def) metis
  moreover obtain p0 where p0: "receiver_stream 2 (panics_after 1 ''out of memory''
      (driver_task exec1 (\<lambda>s items. query_task arrow0 s items False) (Plan ''t'' []) [])) = Some p0"
    "receiver_run [Run_Task 0] p0 = Some p"
    using p by (auto simp: panicking0_def bind_eq_Some_conv)
  have "\<exists>cs' s'. receiver_run cs' p = Some s' \<and> rs_panic s' = Some ''out of memory''"
    using conjunct2 [OF ends, rule_format, of 1 "''out of memory''" p0 "[Run_Task 0]" p] p0 answer by simp
  ultimately show ?thesis using s p by blast
qed

end
