(* ===== verification/Portal_Main.thy ===== *)
theory Portal_Main
  imports Portal_Config Unity_Factory
begin

text \<open>
  \<^verbatim>\<open>crates/portal/src/main.rs\<close>: from the configuration to the stores the portal serves and the address it listens at.
  The serving loop and its shutdown are outside; \<open>build\<close> makes the factory of a Unity Catalog, \<open>bind\<close> a listener.
\<close>

text \<open>The stores of the binary: the files by what backs them; the tags are always in memory.\<close>

datatype 'f portal_files = Memory_Backed | Volumes_Backed 'f

text \<open>An error with the context it is reported under.\<close>

datatype main_error = Invalid_Configuration config_error | Backend_Error config_error | Main_Error string

definition unity_files_backend ::
  "(factory_request \<Rightarrow> string + 'f) \<Rightarrow> string \<Rightarrow> string option \<Rightarrow> string option \<Rightarrow> main_error + 'f portal_files" where
  "unity_files_backend build endpoint token region =
     map_ok Volumes_Backed
       (map_err (\<lambda>_. Main_Error ''failed to build Unity Catalog object-store factory'')
         (build \<lparr>fr_uri = endpoint,
                 fr_auth = (case option_filter (\<lambda>t. t \<noteq> []) token of
                              Some token \<Rightarrow> With_Token token | None \<Rightarrow> Allow_Unauthenticated),
                 fr_region = option_filter (\<lambda>r. r \<noteq> []) region\<rparr>))"

definition portal_main ::
  "(factory_request \<Rightarrow> string + 'f) \<Rightarrow> (string \<Rightarrow> string + unit) \<Rightarrow> environment \<Rightarrow> string + portal_config
    \<Rightarrow> main_error + 'f portal_files \<times> string" where
  "portal_main build bind env source =
     try_bind (map_err Invalid_Configuration (portal_load env source)) (\<lambda>cfg.
       try_bind (map_err Backend_Error (portal_files_backend cfg)) (\<lambda>backend.
         try_bind (case backend of
                     Backend_Unity endpoint token region \<Rightarrow> unity_files_backend build endpoint token region
                   | Backend_Memory \<Rightarrow> Inr Memory_Backed) (\<lambda>files.
           let addr = ''0.0.0.0:'' @ nat_to_string (pc_port cfg) in
           map_ok (\<lambda>_. (files, addr)) (map_err (\<lambda>_. Main_Error (''failed to bind '' @ addr)) (bind addr)))))"

section \<open>What the binary serves\<close>

text \<open>
  An endpoint in the environment is never ignored: the portal that starts serves the volumes of that catalog, with
  the token of the environment if it has one, and not the memory store.
\<close>

lemma portal_main_endpoint:
  assumes "portal_main build bind env source = Inr (files, addr)" and "env ''UNITY_ENDPOINT'' = Some e" and "e \<noteq> []"
  shows "\<exists>request fac. build request = Inr fac \<and> files = Volumes_Backed fac \<and> fr_uri request = e \<and>
    (\<forall>t. env ''UNITY_TOKEN'' = Some t \<and> t \<noteq> [] \<longrightarrow> fr_auth request = With_Token t)"
proof -
  from assms(1) obtain cfg where cfg: "portal_load env source = Inr cfg"
    and run: "portal_main build bind env source = Inr (files, addr)"
    by (auto simp: portal_main_def try_bind_Inr_iff)
  from portal_load_endpoint [OF cfg assms(2,3)] obtain t r where b: "portal_files_backend cfg = Inr (Backend_Unity e t r)"
    by blast
  obtain c0 where c0: "cfg = overlay_env env c0"
    using cfg by (auto simp: portal_load_def try_bind_Inr_iff map_ok_Inr_iff Let_def)
  have token: "t = Some t'" if "env ''UNITY_TOKEN'' = Some t'" "t' \<noteq> []" for t'
    using b that unfolding c0
    by (auto simp: portal_files_backend_def files_config_resolve_cases overlay_fields non_empty_env_def or_else_def
        split: if_splits option.splits)
  from run cfg b obtain fac where "build \<lparr>fr_uri = e,
      fr_auth = (case option_filter (\<lambda>t. t \<noteq> []) t of Some token \<Rightarrow> With_Token token | None \<Rightarrow> Allow_Unauthenticated),
      fr_region = option_filter (\<lambda>r. r \<noteq> []) r\<rparr> = Inr fac" "files = Volumes_Backed fac"
    by (auto simp: portal_main_def unity_files_backend_def Let_def try_bind_Inr_iff map_ok_Inr_iff)
  with token show ?thesis by fastforce
qed

end
