(* ===== verification/Spec2Isabelle.thy ===== *)
theory Spec2Isabelle
  imports Portal_Properties Server_Properties Governance_Properties Desktop_Properties Startup_Properties
    Client_Properties Stream_Properties Portal_Main
begin

text \<open>
  A verification development of \<^bold>\<open>hydrofoil\<close>, a governed lakehouse in Rust: the portal (files and governed tags over
  several storage backends), the query server (Flight SQL, HTTP and Connect over sessions, policy, lineage and Unity
  Catalog), its client, and the desktop application that runs both for an environment of the user.

  \<^bold>\<open>The program.\<close> \<^verbatim>\<open>crates/portal\<close> answers RPCs for files and tags. Its handlers (\<^verbatim>\<open>service/\<close>) call two traits,
  \<^verbatim>\<open>TagStore\<close> and \<^verbatim>\<open>FileStore\<close> (\<^verbatim>\<open>store/mod.rs\<close>), implemented in memory, on the local disk and over Unity Catalog
  volumes; a router puts a home store and a volumes store behind one name space. \<^verbatim>\<open>crates/hydrofoil\<close> wires a policy,
  a catalog, a lineage sink and an identity provider (\<^verbatim>\<open>main.rs\<close>), resolves every request to a session of its
  principal, plans the text (\<^verbatim>\<open>crates/datafusion\<close> parses the catalog's own statements), asks the policy, and executes
  with an OpenLineage context; prepared plans wait under handles, a sweeper drops what is old; ingests append through
  the catalog's committer or insert through a provider. \<^verbatim>\<open>crates/client\<close> builds the messages for it, with the type
  conversions of \<^verbatim>\<open>crates/common\<close>. \<^verbatim>\<open>node/desktop/src-tauri\<close> keeps environments, their keys and processes, and
  hosts the portal and an engine in process through \<^verbatim>\<open>crates/desktop-host\<close>.

  \<^bold>\<open>How the code is modelled.\<close> A struct is a record, an enum a datatype, a fallible call a sum with the error on the
  left, a mutating call returns its result and the new state. Strings are character lists; Rust's \<^verbatim>\<open>BTreeMap\<close> is an
  association list sorted by its keys, \<^verbatim>\<open>DashMap\<close> a map, \<^verbatim>\<open>Arc\<close> an address into a heap. The clock, minted UUIDs and the
  answers of third-party code are arguments; a trait is a record of operations. What is asked of processes, of tables
  and of the lineage client is a log of effects. Machine integers appear where their width matters: page starts
  saturate as \<^verbatim>\<open>usize\<close> parsing does, byte ranges are checked against 64 bits, FNV-1a runs on 64-bit words, decimals
  are narrowed to 8.

  \<^bold>\<open>The portal.\<close>
  \<^item> \<open>Rust_Prelude\<close>: the string functions and result combinators the code uses; \<open>BTree_Map\<close>: ordered maps.
  \<^item> \<open>Store_Types\<close>: the messages, errors and traits of \<^verbatim>\<open>store/mod.rs\<close> and \<^verbatim>\<open>error.rs\<close>, \<^verbatim>\<open>paginate\<close>, and that
    following page tokens visits a listing once.
  \<^item> \<open>Memory_Tags\<close>, \<open>Memory_Files\<close>: \<^verbatim>\<open>store/memory.rs\<close>. \<open>Tag_Spec\<close>: the abstract tag machine over two finite maps,
    the contract a tag store refines it by, and its interpretation on the memory store.
  \<^item> \<open>File_Contract\<close>: the laws of a file store (what each call does to the contents), as locales, with runs of calls;
    \<open>Memory_File_Facts\<close>, \<open>Local_Contract\<close> and \<open>Routing_Store\<close> interpret them on the memory store, the local store and
    the router over both.
  \<^item> \<open>Host_Fs\<close>, \<open>Local_Store\<close>, \<open>Local_Facts\<close>, \<open>Local_Walk\<close>: a file system as a map from absolute paths to nodes,
    \<^verbatim>\<open>store/local.rs\<close> over it, its sandbox, and its recursive listing. The listing's loop takes as fuel the number of
    nodes plus one; \<open>Local_Walk\<close> proves this is always enough.
  \<^item> \<open>Unity_Store\<close>, \<open>Unity_Facts\<close>: \<^verbatim>\<open>store/unity.rs\<close> over an object store that is a parameter.
  \<^item> \<open>Portal_Service\<close>: the handlers of \<^verbatim>\<open>service/\<close> over any store; \<open>Portal_Config\<close>, \<open>Portal_Main\<close>: \<^verbatim>\<open>config.rs\<close>
    and \<^verbatim>\<open>main.rs\<close>.

  \<^bold>\<open>The query server.\<close>
  \<^item> \<open>Identity\<close>: \<^verbatim>\<open>identity.rs\<close> and \<^verbatim>\<open>agent.rs\<close>; \<open>Lineage\<close>: \<^verbatim>\<open>lineage.rs\<close>.
  \<^item> \<open>Session_Engine\<close>, \<open>Session_Facts\<close>: the engine and session store of \<^verbatim>\<open>engine.rs\<close>, with their invariant and steps;
    \<open>Flight_Server\<close>, \<open>Flight_Metadata\<close>, \<open>Statement_Facts\<close>: the handlers of \<^verbatim>\<open>server.rs\<close>; \<open>Server_Runs\<close>: the server as
    a state machine whose steps are the handlers and the sweeper.
  \<^item> \<open>Unity_Factory\<close>, \<open>Session_Build\<close>, \<open>Session_Plans\<close>, \<open>Session_Plan_Facts\<close>: a session in full (\<^verbatim>\<open>session/mod.rs\<close>): its
    configuration, planner, runtime and credential resolver, the contexts of queries and updates, and runs of sessions
    that share an engine; \<open>Schema_Provider\<close>: \<^verbatim>\<open>catalog/schema.rs\<close>; \<open>Server_Start\<close>: \<^verbatim>\<open>config.rs\<close>, the service builder and
    \<^verbatim>\<open>main.rs\<close> up to the addresses served.
  \<^item> \<open>Sql_Parser\<close>, \<open>Sql_Parser_Facts\<close>, \<open>Sql_Grammar\<close>, \<open>Sql_Statements\<close>: \<^verbatim>\<open>crates/datafusion/src/sql\<close> over sqlparser's
    cursor, the grammar it reads as a printer, and scripts. Its loops take fuel; the number of tokens plus two is
    always enough to end, and plus six is taken where a script is read back.
  \<^item> \<open>Catalog_Tags\<close>, \<open>Catalog_Tag_Facts\<close>: what the policy is told of a table and which provider opens it
    (\<^verbatim>\<open>catalog/\<close>). \<open>Query_Plans\<close>, \<open>Query_Results\<close>, \<open>Query_Facts\<close>: from a text to a governed plan and from a plan to its
    answer on the three surfaces. \<open>Receiver_Stream\<close>, \<open>Receiver_Facts\<close>: the tasks, channel and merged stream of
    \<^verbatim>\<open>stream.rs\<close> as a state machine of which the drivers are the abstraction; each of its steps lowers a weight, so no
    fuel is needed. \<open>Ingest\<close>, \<open>Ingest_Facts\<close>: the ingest paths and Delta commands, and the server with
    all its surfaces as a state machine.
  \<^item> \<open>Connect_Types\<close>: \<^verbatim>\<open>crates/common/src/conversion.rs\<close>; \<open>Client_Commands\<close>, \<open>Client_Facts\<close>: \<^verbatim>\<open>crates/client\<close>.

  \<^bold>\<open>The desktop application.\<close>
  \<^item> \<open>Desktop_Text\<close>, \<open>Desktop_Keys\<close>, \<open>Desktop_World\<close>: names and paths, \<^verbatim>\<open>kek.rs\<close>, and the state with the supervisor.
    \<open>Desktop_Modules\<close>, \<open>Desktop_Uc\<close>, \<open>Desktop_Host\<close>, \<open>Desktop_Notebook\<close>: the compose modules, the Unity Catalog child
    and its proxy, what an environment binds (\<^verbatim>\<open>crates/desktop-host\<close>), notebooks. \<open>Desktop_Commands\<close>, \<open>Desktop_Rpc\<close>: the
    commands of \<^verbatim>\<open>commands.rs\<close>.
  \<^item> \<open>Desktop_Key_Facts\<close>, \<open>Desktop_Invariants\<close>, \<open>Desktop_Start_Facts\<close>, \<open>Desktop_Notebook_Facts\<close>, \<open>Desktop_Runs\<close>: their
    lemmas and the application as a state machine. Docker, the secret stores of the operating system, HTTP and the
    topology planner are parameters.

  \<^bold>\<open>What is shown.\<close> The properties are in \<open>Portal_Properties\<close>, \<open>Server_Properties\<close>, \<open>Governance_Properties\<close>,
  \<open>Startup_Properties\<close>, \<open>Stream_Properties\<close>, \<open>Client_Properties\<close> and \<open>Desktop_Properties\<close>, each with a concrete instance. The stores:
  refinement of the abstract tag machine, contents after any run of calls, the sandbox of the local store, listings
  that are complete and resumable, uploads that read back. The server: a policy that is configured gates every query
  of every session, credentials stay in their session, in every reachable state an ephemeral session belongs to the
  principal of its key, a denied query leaves no trace, the surfaces agree, a stream
  delivers its whole answer under any interleaving and ends, a panic reaches the reader, an ingest leaves at most one authorised
  commit, the full construction of a session refines the engine's. The parser ends on every input and reads its
  grammar back. The client's schemas arrive in canonical form. The desktop: every process is supervised, keys stay,
  a switch isolates, edits are saved, and its host builds the engine the server binary builds.
  Some theorems state behaviour the code's comments do not intend: an ephemeral key is accepted as a session id, an
  update loses the request's lineage and agent, a failed switch leaves the stopped environment active, an ingest into
  \<^verbatim>\<open>schema.table\<close> lands in \<^verbatim>\<open>table\<close>, a registered Delta table is lost, four statements panic the parser.

  \<^bold>\<open>Not modelled.\<close> The generated protocol code and the transport; telemetry; the serving loop, the shutdown and the
  drain of the binary; the benchmark texts; DataFusion, Arrow, Parquet, the Delta crate, sqlparser, object stores and
  the Unity Catalog client, which are parameters where the modelled code calls them, with what is relied on as named
  hypotheses; symbolic links and concurrent writers of the local file system; the
  front end of the desktop application, which is not Rust.
\<close>

end
